(* ===== verification/Prelude.thy ===== *)
theory Prelude
  imports Main
begin

text \<open>
  The vocabulary every component shares: programs that read and change a state and may
  raise (\<open>sem\<close>), the loops over a list they use, association lists in the insertion
  order of a Python dict, and the row operations of a database table held as a list.
  Python keeps the effects that ran before an exception, so a raising program returns
  the state it had reached, next to the exception.
\<close>

named_theorems sem_simps \<open>how a program of type sem runs\<close>
named_theorems dict_simps \<open>dictionaries as association lists\<close>

section \<open>Programs with a state and exceptions\<close>

type_synonym ('s, 'e, 'a) sem = "'s \<Rightarrow> ('e + 'a) \<times> 's"

definition ret :: "'a \<Rightarrow> ('s, 'e, 'a) sem" where
  "ret a s = (Inr a, s)"

definition throw :: "'e \<Rightarrow> ('s, 'e, 'a) sem" where
  "throw e s = (Inl e, s)"

definition bindM :: "('s, 'e, 'a) sem \<Rightarrow> ('a \<Rightarrow> ('s, 'e, 'b) sem) \<Rightarrow> ('s, 'e, 'b) sem" where
  "bindM m f s = (case m s of (Inl e, t) \<Rightarrow> (Inl e, t) | (Inr a, t) \<Rightarrow> f a t)"

definition seqM :: "('s, 'e, 'a) sem \<Rightarrow> ('s, 'e, 'b) sem \<Rightarrow> ('s, 'e, 'b) sem" where
  "seqM m n = bindM m (\<lambda>_. n)"

definition gets :: "('s \<Rightarrow> 'a) \<Rightarrow> ('s, 'e, 'a) sem" where
  "gets f s = (Inr (f s), s)"

definition modify :: "('s \<Rightarrow> 's) \<Rightarrow> ('s, 'e, unit) sem" where
  "modify f s = (Inr (), f s)"

text \<open>\<open>raise_when c e\<close> is \<open>if c: raise e\<close>; \<open>catchM m h\<close> is \<open>try: m except ...: h\<close>.\<close>

definition raise_when :: "bool \<Rightarrow> 'e \<Rightarrow> ('s, 'e, unit) sem" where
  "raise_when c e = (if c then throw e else ret ())"

definition whenM :: "bool \<Rightarrow> ('s, 'e, unit) sem \<Rightarrow> ('s, 'e, unit) sem" where
  "whenM c m = (if c then m else ret ())"

definition catchM :: "('s, 'e, 'a) sem \<Rightarrow> ('e \<Rightarrow> ('s, 'e, 'a) sem) \<Rightarrow> ('s, 'e, 'a) sem" where
  "catchM m h s = (case m s of (Inl e, t) \<Rightarrow> h e t | (Inr a, t) \<Rightarrow> (Inr a, t))"

text \<open>A \<open>for\<close> loop whose body has no result, and one that collects a result per element.\<close>

fun forM :: "'a list \<Rightarrow> ('a \<Rightarrow> ('s, 'e, unit) sem) \<Rightarrow> ('s, 'e, unit) sem" where
  "forM [] f = ret ()"
| "forM (x # xs) f = seqM (f x) (forM xs f)"

fun mapM :: "('a \<Rightarrow> ('s, 'e, 'b) sem) \<Rightarrow> 'a list \<Rightarrow> ('s, 'e, 'b list) sem" where
  "mapM f [] = ret []"
| "mapM f (x # xs) = bindM (f x) (\<lambda>y. bindM (mapM f xs) (\<lambda>ys. ret (y # ys)))"

text \<open>Running a program that uses one part of a larger state.\<close>

definition zoom :: "('w \<Rightarrow> 's) \<Rightarrow> ('s \<Rightarrow> 'w \<Rightarrow> 'w) \<Rightarrow> ('s, 'e, 'a) sem \<Rightarrow> ('w, 'e, 'a) sem" where
  "zoom g p m w = (case m (g w) of (r, s) \<Rightarrow> (r, p s w))"

lemma ret_run [simp, sem_simps]: "ret a s = (Inr a, s)"
  by (simp add: ret_def)

lemma throw_run [simp, sem_simps]: "throw e s = (Inl e, s)"
  by (simp add: throw_def)

lemma gets_run [simp, sem_simps]: "gets f s = (Inr (f s), s)"
  by (simp add: gets_def)

lemma modify_run [simp, sem_simps]: "modify f s = (Inr (), f s)"
  by (simp add: modify_def)

lemma raise_when_run [simp, sem_simps]:
  "raise_when c e s = (if c then (Inl e, s) else (Inr (), s))"
  by (simp add: raise_when_def)

lemma whenM_run [simp, sem_simps]: "whenM c m s = (if c then m s else (Inr (), s))"
  by (simp add: whenM_def)

lemma bindM_Inl: "m s = (Inl e, t) \<Longrightarrow> bindM m f s = (Inl e, t)"
  by (simp add: bindM_def)

lemma bindM_Inr: "m s = (Inr a, t) \<Longrightarrow> bindM m f s = f a t"
  by (simp add: bindM_def)

lemma bindM_ret [simp]: "bindM (ret a) f = f a"
  by (rule ext) (simp add: bindM_def)

lemma bindM_gets [simp]: "bindM (gets g) f s = f (g s) s"
  by (simp add: bindM_def)

lemma bindM_throw [simp]: "bindM (throw e) f s = (Inl e, s)"
  by (simp add: bindM_def)

lemma seqM_modify [simp]: "seqM (modify g) m s = m (g s)"
  by (simp add: seqM_def bindM_def)

lemma seqM_raise_when [simp]:
  "seqM (raise_when c e) m s = (if c then (Inl e, s) else m s)"
  by (simp add: seqM_def bindM_def)

lemma seqM_ret [simp]: "seqM (ret a) m = m"
  by (simp add: seqM_def)

text \<open>The simplifier writes \<open>ret a\<close> as \<open>Pair (Inr a)\<close> where no state is applied.\<close>

lemma catchM_ret [simp]: "catchM (ret a) h = ret a"
  by (rule ext) (simp add: catchM_def)

lemma bindM_Pair [simp]: "bindM (Pair (Inr a)) f = f a"
  by (rule ext) (simp add: bindM_def)

lemma seqM_Pair [simp]: "seqM (Pair (Inr a)) m = m"
  by (simp add: seqM_def)

lemma catchM_Pair [simp]: "catchM (Pair (Inr a)) h = Pair (Inr a)"
  by (rule ext) (simp add: catchM_def)

lemma bindM_returns:
  "bindM m f s = (Inr b, t) \<longleftrightarrow> (\<exists>a u. m s = (Inr a, u) \<and> f a u = (Inr b, t))"
  by (auto simp: bindM_def split: prod.splits sum.splits)

lemma seqM_returns:
  "seqM m n s = (Inr b, t) \<longleftrightarrow> (\<exists>a u. m s = (Inr a, u) \<and> n u = (Inr b, t))"
  by (simp add: seqM_def bindM_returns)

lemma bindM_raises:
  "bindM m f s = (Inl e, t) \<longleftrightarrow>
     m s = (Inl e, t) \<or> (\<exists>a u. m s = (Inr a, u) \<and> f a u = (Inl e, t))"
  by (auto simp: bindM_def split: prod.splits sum.splits)

lemma seqM_raises:
  "seqM m n s = (Inl e, t) \<longleftrightarrow>
     m s = (Inl e, t) \<or> (\<exists>a u. m s = (Inr a, u) \<and> n u = (Inl e, t))"
  by (simp add: seqM_def bindM_raises)

lemmas sem_returns = bindM_returns seqM_returns
lemmas sem_raises = bindM_raises seqM_raises

text \<open>Programs that only read their state.\<close>

named_theorems reads_intros \<open>programs that leave the state as it is\<close>

definition reads :: "('s, 'e, 'a) sem \<Rightarrow> bool" where
  "reads m \<longleftrightarrow> (\<forall>s. snd (m s) = s)"

lemma readsD: "reads m \<Longrightarrow> m s = (r, t) \<Longrightarrow> t = s"
  by (metis reads_def snd_conv)

lemma reads_basic [reads_intros]: "reads (ret a)" "reads (throw e)" "reads (gets f)" "reads (raise_when c e)"
  by (simp_all add: reads_def)

lemma reads_Pair [reads_intros]: "reads (Pair (Inr a))" "reads (Pair (Inl e))"
  by (simp_all add: reads_def)

lemma reads_bindM [reads_intros]: "reads m \<Longrightarrow> (\<And>a. reads (f a)) \<Longrightarrow> reads (bindM m f)"
  by (auto simp: reads_def bindM_def split_beta split: sum.splits)

lemma reads_seqM [reads_intros]: "reads m \<Longrightarrow> reads n \<Longrightarrow> reads (seqM m n)"
  by (simp add: seqM_def reads_bindM)

lemma reads_catchM [reads_intros]: "reads m \<Longrightarrow> (\<And>e. reads (h e)) \<Longrightarrow> reads (catchM m h)"
  by (auto simp: reads_def catchM_def split_beta split: sum.splits)

lemma reads_mapM [reads_intros]: "(\<And>x. reads (f x)) \<Longrightarrow> reads (mapM f xs)"
  by (induction xs) (auto intro!: reads_intros)

text \<open>Programs that keep a property of the state, whether they return or raise.\<close>

named_theorems preserves_intros \<open>programs that keep a property of the state\<close>

definition preserves :: "('s \<Rightarrow> bool) \<Rightarrow> ('s, 'e, 'a) sem \<Rightarrow> bool" where
  "preserves I m \<longleftrightarrow> (\<forall>s. I s \<longrightarrow> I (snd (m s)))"

lemma preserves_run: "preserves I m \<Longrightarrow> I s \<Longrightarrow> I (snd (m s))"
  by (simp add: preserves_def)

lemma preservesD: "preserves I m \<Longrightarrow> m s = (r, t) \<Longrightarrow> I s \<Longrightarrow> I t"
  using preserves_run [of I m s] by simp

lemma preserves_reads: "reads m \<Longrightarrow> preserves I m"
  by (simp add: preserves_def reads_def)

lemma preserves_basic [preserves_intros]:
  "preserves I (ret a)" "preserves I (throw e)" "preserves I (gets f)" "preserves I (raise_when c e)"
  "preserves I (Pair (Inr a))" "preserves I (Pair (Inl e))"
  by (simp_all add: preserves_def)

lemma preserves_modify: "(\<And>s. I s \<Longrightarrow> I (f s)) \<Longrightarrow> preserves I (modify f)"
  by (simp add: preserves_def)

lemma preserves_bindM [preserves_intros]:
  assumes "preserves I m" and "\<And>a. preserves I (f a)"
  shows "preserves I (bindM m f)"
  unfolding preserves_def
proof (intro allI impI)
  fix s assume "I s"
  obtain r t where t: "m s = (r, t)" by fastforce
  have "I t" by (rule preservesD [OF assms(1) t \<open>I s\<close>])
  with t show "I (snd (bindM m f s))" by (cases r) (simp_all add: bindM_def preserves_run [OF assms(2)])
qed

lemma preserves_seqM [preserves_intros]: "preserves I m \<Longrightarrow> preserves I n \<Longrightarrow> preserves I (seqM m n)"
  by (simp add: seqM_def preserves_bindM)

lemma preserves_catchM [preserves_intros]:
  assumes "preserves I m" and "\<And>e. preserves I (h e)"
  shows "preserves I (catchM m h)"
  unfolding preserves_def
proof (intro allI impI)
  fix s assume "I s"
  obtain r t where t: "m s = (r, t)" by fastforce
  have "I t" by (rule preservesD [OF assms(1) t \<open>I s\<close>])
  with t show "I (snd (catchM m h s))" by (cases r) (simp_all add: catchM_def preserves_run [OF assms(2)])
qed

lemma preserves_whenM [preserves_intros]: "(c \<Longrightarrow> preserves I m) \<Longrightarrow> preserves I (whenM c m)"
  by (auto simp: preserves_def)

lemma preserves_if [preserves_intros]:
  "(c \<Longrightarrow> preserves I m) \<Longrightarrow> (\<not> c \<Longrightarrow> preserves I n) \<Longrightarrow> preserves I (if c then m else n)"
  by simp

lemma preserves_forM [preserves_intros]:
  "(\<And>x. x \<in> set xs \<Longrightarrow> preserves I (f x)) \<Longrightarrow> preserves I (forM xs f)"
  by (induction xs) (auto intro!: preserves_intros)

lemma preserves_mapM [preserves_intros]:
  "(\<And>x. x \<in> set xs \<Longrightarrow> preserves I (f x)) \<Longrightarrow> preserves I (mapM f xs)"
  by (induction xs) (auto intro!: preserves_intros)

text \<open>A loop whose rounds return returns, and the state it ends in has what its rounds keep.\<close>

lemma forM_returns:
  assumes "I s" and "\<And>x t. x \<in> set xs \<Longrightarrow> I t \<Longrightarrow> \<exists>u. f x t = (Inr (), u) \<and> I u"
  shows "\<exists>t. forM xs f s = (Inr (), t) \<and> I t"
  using assms
proof (induction xs arbitrary: s)
  case (Cons x xs)
  obtain u where u: "f x s = (Inr (), u)" "I u" using Cons.prems by (meson list.set_intros(1))
  have "\<And>y t. y \<in> set xs \<Longrightarrow> I t \<Longrightarrow> \<exists>u. f y t = (Inr (), u) \<and> I u"
    using Cons.prems(2) by (meson list.set_intros(2))
  from Cons.IH [OF u(2) this] u(1) show ?case by (simp add: seqM_def bindM_def)
qed simp

text \<open>A loop keeps what each of its rounds keeps.\<close>

lemma forM_invariant:
  assumes "forM xs f s = (r, t)" and "I s"
    and "\<And>x u r' v. x \<in> set xs \<Longrightarrow> f x u = (r', v) \<Longrightarrow> I u \<Longrightarrow> I v"
  shows "I t"
  using assms
proof (induction xs arbitrary: s)
  case (Cons x xs)
  obtain r1 u where u: "f x s = (r1, u)" by (cases "f x s")
  with Cons.prems have Iu: "I u" by (meson list.set_intros(1))
  have step: "\<And>y v r' w. y \<in> set xs \<Longrightarrow> f y v = (r', w) \<Longrightarrow> I v \<Longrightarrow> I w"
    using Cons.prems(3) by (meson list.set_intros(2))
  show ?case
  proof (cases r1)
    case (Inl e)
    with Cons.prems(1) u Iu show ?thesis by (simp add: seqM_def bindM_def)
  next
    case (Inr a)
    with Cons.prems(1) u have "forM xs f u = (r, t)" by (simp add: seqM_def bindM_def)
    then show ?thesis using Iu step by (rule Cons.IH)
  qed
qed simp

lemma forM_append: "forM (xs @ ys) f = seqM (forM xs f) (forM ys f)"
  by (induction xs) (simp_all add: seqM_def fun_eq_iff bindM_def split: prod.splits sum.splits)

text \<open>A loop of checks that raise or do nothing.\<close>

lemma forM_checks:
  assumes "\<And>x s. f x s = (if P x then (Inr (), s) else (Inl (e x), s))"
  shows "forM xs f s = (Inr (), t) \<longleftrightarrow> t = s \<and> (\<forall>x \<in> set xs. P x)"
  using assms by (induction xs) (auto simp: seqM_def bindM_def)

section \<open>Dictionaries in insertion order\<close>

text \<open>
  A Python dict iterates in insertion order: assigning to a present key keeps its place,
  a new key goes last, and deleting removes the entry. The keys of a dict are distinct.
\<close>

type_synonym ('k, 'v) dict = "('k \<times> 'v) list"

fun dict_set :: "'k \<Rightarrow> 'v \<Rightarrow> ('k, 'v) dict \<Rightarrow> ('k, 'v) dict" where
  "dict_set k v [] = [(k, v)]"
| "dict_set k v ((k', v') # d) = (if k' = k then (k, v) # d else (k', v') # dict_set k v d)"

definition dict_del :: "'k \<Rightarrow> ('k, 'v) dict \<Rightarrow> ('k, 'v) dict" where
  "dict_del k d = filter (\<lambda>(k', _). k' \<noteq> k) d"

definition dict_keys :: "('k, 'v) dict \<Rightarrow> 'k list" where
  "dict_keys d = map fst d"

lemma map_of_dict_set [simp, dict_simps]: "map_of (dict_set k v d) = (map_of d)(k \<mapsto> v)"
  by (induction d) (auto simp: fun_eq_iff)

lemma map_of_dict_del [simp, dict_simps]: "map_of (dict_del k d) = (map_of d)(k := None)"
  by (induction d) (auto simp: dict_del_def fun_eq_iff)

lemma set_dict_keys [simp, dict_simps]: "set (dict_keys d) = dom (map_of d)"
  by (simp add: dict_keys_def dom_map_of_conv_image_fst)

lemma dict_set_keys [dict_simps]:
  "dict_keys (dict_set k v d) = (if k \<in> set (dict_keys d) then dict_keys d else dict_keys d @ [k])"
proof -
  have "map fst (dict_set k v d) = (if k \<in> set (map fst d) then map fst d else map fst d @ [k])"
    by (induction k v d rule: dict_set.induct) simp_all
  then show ?thesis by (simp only: dict_keys_def)
qed

lemma set_dict_set: "set (dict_set k v d) \<subseteq> insert (k, v) (set d)"
  by (induction k v d rule: dict_set.induct) auto

lemma distinct_dict_set [intro, dict_simps]:
  "distinct (dict_keys d) \<Longrightarrow> distinct (dict_keys (dict_set k v d))"
  by (simp add: dict_set_keys)

lemma distinct_dict_del [intro, dict_simps]:
  "distinct (dict_keys d) \<Longrightarrow> distinct (dict_keys (dict_del k d))"
  by (induction d) (auto simp: dict_keys_def dict_del_def)

text \<open>\<open>d.update(e)\<close>.\<close>

definition dict_update :: "('k, 'v) dict \<Rightarrow> ('k, 'v) dict \<Rightarrow> ('k, 'v) dict" where
  "dict_update d e = foldl (\<lambda>a (k, v). dict_set k v a) d e"

lemma map_of_dict_update [simp, dict_simps]: "map_of (dict_update d e) = map_of d ++ map_of (rev e)"
  by (induction e arbitrary: d rule: rev_induct) (auto simp: dict_update_def split_beta)

lemma dict_set_not_Nil: "dict_set k v d \<noteq> []"
  by (cases d) (auto split: if_splits)

lemma dict_update_not_Nil: "e \<noteq> [] \<Longrightarrow> dict_update d e \<noteq> []"
  by (induction e rule: rev_induct) (auto simp: dict_update_def split_beta dict_set_not_Nil)

text \<open>\<open>list(dict.fromkeys(xs))\<close>: the first occurrences, in order.\<close>

fun dedup_into :: "'a list \<Rightarrow> 'a list \<Rightarrow> 'a list" where
  "dedup_into seen [] = []"
| "dedup_into seen (x # xs) =
     (if x \<in> set seen then dedup_into seen xs else x # dedup_into (x # seen) xs)"

definition dedup :: "'a list \<Rightarrow> 'a list" where
  "dedup xs = dedup_into [] xs"

lemma set_dedup_into: "set (dedup_into seen xs) = set xs - set seen"
  by (induction xs arbitrary: seen) auto

lemma distinct_dedup_into: "distinct (dedup_into seen xs)"
  by (induction xs arbitrary: seen) (auto simp: set_dedup_into)

lemma set_dedup [simp]: "set (dedup xs) = set xs"
  by (simp add: dedup_def set_dedup_into)

lemma distinct_dedup [simp]: "distinct (dedup xs)"
  by (simp add: dedup_def distinct_dedup_into)

lemma dedup_Nil_iff [simp]: "dedup xs = [] \<longleftrightarrow> xs = []"
  by (metis set_dedup set_empty)

section \<open>Tables as lists of rows\<close>

text \<open>
  \<open>delete_where p\<close> is \<open>DELETE ... WHERE p\<close>, \<open>update_where p f\<close> is
  \<open>UPDATE ... SET f WHERE p\<close>, \<open>one_where p\<close> is \<open>SELECT ... WHERE p\<close> read with
  \<open>.one()\<close> or \<open>.first()\<close> (\<open>None\<close> when there is no row).
\<close>

definition delete_where :: "('r \<Rightarrow> bool) \<Rightarrow> 'r list \<Rightarrow> 'r list" where
  "delete_where p rs = filter (\<lambda>r. \<not> p r) rs"

definition update_where :: "('r \<Rightarrow> bool) \<Rightarrow> ('r \<Rightarrow> 'r) \<Rightarrow> 'r list \<Rightarrow> 'r list" where
  "update_where p f rs = map (\<lambda>r. if p r then f r else r) rs"

definition first_where :: "('r \<Rightarrow> bool) \<Rightarrow> 'r list \<Rightarrow> 'r option" where
  "first_where p rs = find p rs"

definition exists_where :: "('r \<Rightarrow> bool) \<Rightarrow> 'r list \<Rightarrow> bool" where
  "exists_where p rs = list_ex p rs"

lemma set_delete_where [simp]: "set (delete_where p rs) = {r \<in> set rs. \<not> p r}"
  by (simp add: delete_where_def)

lemma set_update_where: "set (update_where p f rs) = (\<lambda>r. if p r then f r else r) ` set rs"
  by (simp add: update_where_def)

lemma exists_where_iff [simp]: "exists_where p rs \<longleftrightarrow> (\<exists>r \<in> set rs. p r)"
  by (simp add: exists_where_def list_ex_iff)

lemma first_where_None [simp]: "first_where p rs = None \<longleftrightarrow> (\<forall>r \<in> set rs. \<not> p r)"
  by (auto simp: first_where_def find_None_iff)

lemma first_where_Some: "first_where p rs = Some r \<Longrightarrow> r \<in> set rs \<and> p r"
  by (auto simp: first_where_def find_Some_iff)

lemma first_where_key:
  assumes "distinct (map key rs)" and "r \<in> set rs"
  shows "first_where (\<lambda>q. key q = key r) rs = Some r"
  using assms
proof (induction rs)
  case (Cons a rs)
  then show ?case by (cases "a = r") (force simp: first_where_def)+
qed simp

lemma update_where_none [simp]: "\<forall>r \<in> set rs. \<not> p r \<Longrightarrow> update_where p f rs = rs"
  by (induction rs) (auto simp: update_where_def)

lemma map_update_where:
  assumes "\<And>r. g (f r) = g r"
  shows "map g (update_where p f rs) = map g rs"
  using assms by (induction rs) (auto simp: update_where_def)

lemma sum_list_filter_split:
  fixes g :: "'r \<Rightarrow> int"
  shows "sum_list (map g rs) = sum_list (map g (filter p rs)) + sum_list (map g (filter (\<lambda>r. \<not> p r) rs))"
  by (induction rs) auto

end
