(* ===== verification/PyStr.thy ===== *)
theory PyStr
  imports Prelude
begin

text \<open>
  The string operations of Python the program uses, on \<open>string\<close> (lists of 8-bit
  characters). They are exact on ASCII text; case folding and white space beyond ASCII
  are not modelled. Also here: decimal printing and \<open>int()\<close>, and the matching of
  SQL's \<open>LIKE\<close>, which folds ASCII case in the two dialects the program runs on.
\<close>

section \<open>White space, case and affixes\<close>

definition code :: "char \<Rightarrow> nat" where
  "code c = of_char c"

definition is_space :: "char \<Rightarrow> bool" where
  "is_space c \<longleftrightarrow> (9 \<le> code c \<and> code c \<le> 13) \<or> (28 \<le> code c \<and> code c \<le> 32)"

definition is_upper :: "char \<Rightarrow> bool" where
  "is_upper c \<longleftrightarrow> 65 \<le> code c \<and> code c \<le> 90"

definition is_lower :: "char \<Rightarrow> bool" where
  "is_lower c \<longleftrightarrow> 97 \<le> code c \<and> code c \<le> 122"

definition is_digit :: "char \<Rightarrow> bool" where
  "is_digit c \<longleftrightarrow> 48 \<le> code c \<and> code c \<le> 57"

definition is_alpha :: "char \<Rightarrow> bool" where
  "is_alpha c \<longleftrightarrow> is_upper c \<or> is_lower c"

definition to_lower :: "char \<Rightarrow> char" where
  "to_lower c = (if is_upper c then char_of (code c + 32) else c)"

definition lower :: "string \<Rightarrow> string" where
  "lower s = map to_lower s"

definition upper :: "string \<Rightarrow> string" where
  "upper s = map (\<lambda>c. if is_lower c then char_of (code c - 32) else c) s"

definition lstrip_by :: "(char \<Rightarrow> bool) \<Rightarrow> string \<Rightarrow> string" where
  "lstrip_by p s = dropWhile p s"

definition rstrip_by :: "(char \<Rightarrow> bool) \<Rightarrow> string \<Rightarrow> string" where
  "rstrip_by p s = rev (dropWhile p (rev s))"

definition strip :: "string \<Rightarrow> string" where
  "strip s = rstrip_by is_space (lstrip_by is_space s)"

definition starts_with :: "string \<Rightarrow> string \<Rightarrow> bool" where
  "starts_with p s \<longleftrightarrow> take (length p) s = p"

definition ends_with :: "string \<Rightarrow> string \<Rightarrow> bool" where
  "ends_with p s \<longleftrightarrow> starts_with (rev p) (rev s)"

lemma starts_with_append [simp]: "starts_with p (p @ s)"
  by (simp add: starts_with_def)

lemma starts_with_iff: "starts_with p s \<longleftrightarrow> (\<exists>t. s = p @ t)"
  unfolding starts_with_def by (metis append_eq_conv_conj append_take_drop_id)

lemma ends_with_iff: "ends_with p s \<longleftrightarrow> (\<exists>t. s = t @ p)"
proof
  assume "ends_with p s"
  then obtain t where "rev s = rev p @ t" by (auto simp: ends_with_def starts_with_iff)
  then have "s = rev t @ p" by (metis rev_append rev_rev_ident)
  then show "\<exists>t. s = t @ p" by blast
qed (auto simp: ends_with_def)

section \<open>Splitting and joining\<close>

text \<open>\<open>s.split(c)\<close> for a separator of one character: never empty, and empty pieces stay.\<close>

fun split_on :: "char \<Rightarrow> string \<Rightarrow> string list" where
  "split_on c [] = [[]]"
| "split_on c (x # xs) =
     (if x = c then [] # split_on c xs
      else (case split_on c xs of [] \<Rightarrow> [[x]] | y # ys \<Rightarrow> (x # y) # ys))"

fun join :: "string \<Rightarrow> string list \<Rightarrow> string" where
  "join sep [] = []"
| "join sep [x] = x"
| "join sep (x # y # ys) = x @ sep @ join sep (y # ys)"

lemma split_on_not_Nil [simp]: "split_on c s \<noteq> []"
  by (induction s) (auto split: list.splits)

lemma join_Cons: "xs \<noteq> [] \<Longrightarrow> join sep (x # xs) = x @ sep @ join sep xs"
  by (cases xs) auto

lemma join_Cons_char: "join sep ((x # y) # ys) = x # join sep (y # ys)"
  by (cases ys) auto

lemma join_split_on [simp]: "join [c] (split_on c s) = s"
proof (induction s)
  case (Cons x s)
  show ?case
  proof (cases "x = c")
    case True
    with Cons show ?thesis by (simp add: join_Cons)
  next
    case False
    obtain y ys where "split_on c s = y # ys" by (meson split_on_not_Nil neq_Nil_conv)
    with Cons False show ?thesis by (simp add: join_Cons_char)
  qed
qed simp

lemma split_on_fresh [simp]: "c \<notin> set s \<Longrightarrow> split_on c s = [s]"
  by (induction s) auto

lemma split_on_append: "c \<notin> set s \<Longrightarrow> split_on c (s @ c # t) = s # split_on c t"
  by (induction s) auto

lemma split_on_pieces: "x \<in> set (split_on c s) \<Longrightarrow> c \<notin> set x"
proof (induction s arbitrary: x)
  case (Cons a s)
  obtain y ys where y: "split_on c s = y # ys" by (meson split_on_not_Nil neq_Nil_conv)
  with Cons.IH have "c \<notin> set y" by simp
  have "set (split_on c (a # s)) \<subseteq> insert [] (insert (a # y) (set (split_on c s)))"
    using y by auto
  moreover have "a = c \<or> c \<notin> set (a # y)" using \<open>c \<notin> set y\<close> by auto
  ultimately show ?case using Cons y by (cases "a = c") auto
qed simp

lemma split_on_join:
  assumes "xs \<noteq> []" and "\<forall>x \<in> set xs. c \<notin> set x"
  shows "split_on c (join [c] xs) = xs"
  using assms
proof (induction xs rule: induct_list012)
  case (3 x y ys)
  then have "split_on c (join [c] (y # ys)) = y # ys" and "c \<notin> set x" by simp_all
  then show ?case by (simp add: split_on_append)
qed simp_all

text \<open>\<open>s.split()\<close>: the maximal runs of non-space characters.\<close>

fun words_acc :: "string \<Rightarrow> string \<Rightarrow> string list" where
  "words_acc w [] = (if w = [] then [] else [rev w])"
| "words_acc w (x # xs) =
     (if is_space x then (if w = [] then words_acc [] xs else rev w # words_acc [] xs)
      else words_acc (x # w) xs)"

definition words :: "string \<Rightarrow> string list" where
  "words s = words_acc [] s"

lemma words_acc_not_empty: "[] \<notin> set (words_acc w s)"
  by (induction w s rule: words_acc.induct) simp_all

lemma words_not_empty: "x \<in> set (words s) \<Longrightarrow> x \<noteq> []"
  unfolding words_def using words_acc_not_empty by metis

text \<open>\<open>s.split(c, 1)\<close> and \<open>s.partition(c)\<close> at the first separator, \<open>s.rsplit(c, 1)\<close> at the last.\<close>

definition before :: "char \<Rightarrow> string \<Rightarrow> string" where
  "before c s = takeWhile (\<lambda>x. x \<noteq> c) s"

definition after :: "char \<Rightarrow> string \<Rightarrow> string" where
  "after c s = drop 1 (dropWhile (\<lambda>x. x \<noteq> c) s)"

definition before_last :: "char \<Rightarrow> string \<Rightarrow> string" where
  "before_last c s = rev (after c (rev s))"

definition after_last :: "char \<Rightarrow> string \<Rightarrow> string" where
  "after_last c s = rev (before c (rev s))"

lemma takeWhile_append_stop: "c \<notin> set s \<Longrightarrow> takeWhile (\<lambda>x. x \<noteq> c) (s @ c # t) = s"
  by (induction s) auto

lemma dropWhile_append_stop: "c \<notin> set s \<Longrightarrow> dropWhile (\<lambda>x. x \<noteq> c) (s @ c # t) = c # t"
  by (induction s) auto

lemma before_append [simp]: "c \<notin> set s \<Longrightarrow> before c (s @ c # t) = s"
  by (simp add: before_def takeWhile_append_stop)

lemma after_append [simp]: "c \<notin> set s \<Longrightarrow> after c (s @ c # t) = t"
  by (simp add: after_def dropWhile_append_stop)

lemma length_after: "length (after c s) \<le> length s"
  by (simp add: after_def) (metis diff_le_self dual_order.trans length_dropWhile_le)

lemma length_before: "length (before c s) \<le> length s"
  by (simp add: before_def length_takeWhile_le)

lemma before_after: "c \<in> set s \<Longrightarrow> s = before c s @ c # after c s"
  by (induction s) (auto simp: before_def after_def)

lemma after_none: "c \<notin> set s \<Longrightarrow> after c s = []"
  by (induction s) (auto simp: after_def)

text \<open>\<open>s.replace(c, t)\<close> for a pattern of one character.\<close>

definition replace_char :: "char \<Rightarrow> string \<Rightarrow> string \<Rightarrow> string" where
  "replace_char c t s = concat (map (\<lambda>x. if x = c then t else [x]) s)"

section \<open>Numbers\<close>

definition digit :: "nat \<Rightarrow> char" where
  "digit d = char_of (48 + d)"

fun show_nat :: "nat \<Rightarrow> string" where
  "show_nat n = (if n < 10 then [digit n] else show_nat (n div 10) @ [digit (n mod 10)])"

declare show_nat.simps [simp del]

definition show_int :: "int \<Rightarrow> string" where
  "show_int i = (if i < 0 then CHR ''-'' # show_nat (nat (- i)) else show_nat (nat i))"

definition digit_val :: "char \<Rightarrow> nat" where
  "digit_val c = code c - 48"

fun digits_val :: "nat \<Rightarrow> string \<Rightarrow> nat" where
  "digits_val acc [] = acc"
| "digits_val acc (c # cs) = digits_val (10 * acc + digit_val c) cs"

text \<open>
  \<open>int(s)\<close>: white space around, one sign, then digits with single underscores between
  them; \<open>None\<close> stands for \<open>ValueError\<close>.
\<close>

fun digits_ok :: "string \<Rightarrow> bool" where
  "digits_ok [] = False"
| "digits_ok [c] = is_digit c"
| "digits_ok (c # d # cs) =
     (is_digit c \<and> (if d = CHR ''_'' then digits_ok cs else digits_ok (d # cs)))"

definition int_of :: "string \<Rightarrow> int option" where
  "int_of s =
     (let t = strip s;
          body = (case t of [] \<Rightarrow> [] | c # cs \<Rightarrow> if c = CHR ''+'' \<or> c = CHR ''-'' then cs else t);
          v = int (digits_val 0 (filter (\<lambda>c. c \<noteq> CHR ''_'') body))
      in if digits_ok body
         then Some (if t \<noteq> [] \<and> hd t = CHR ''-'' then - v else v) else None)"

lemma code_digit: "d < 10 \<Longrightarrow> code (digit d) = 48 + d"
  by (simp add: code_def digit_def)

lemma is_digit_digit: "d < 10 \<Longrightarrow> is_digit (digit d)"
  by (simp add: is_digit_def code_digit)

lemma digit_val_digit: "d < 10 \<Longrightarrow> digit_val (digit d) = d"
  by (simp add: digit_val_def code_digit)

lemma show_nat_digits: "\<forall>c \<in> set (show_nat n). is_digit c"
proof (induction n rule: show_nat.induct)
  case (1 n)
  then show ?case
    by (subst show_nat.simps) (auto intro: is_digit_digit)
qed

lemma show_nat_not_Nil [simp]: "show_nat n \<noteq> []"
  by (subst show_nat.simps) simp

lemma digits_val_append: "digits_val a (xs @ ys) = digits_val (digits_val a xs) ys"
  by (induction xs arbitrary: a) auto

lemma digits_val_show_nat: "digits_val 0 (show_nat n) = n"
proof (induction n rule: show_nat.induct)
  case (1 n)
  show ?case
  proof (cases "n < 10")
    case True
    then show ?thesis by (subst show_nat.simps) (simp add: digit_val_digit)
  next
    case False
    with 1 have "digits_val 0 (show_nat (n div 10)) = n div 10" by simp
    with False show ?thesis
      by (subst show_nat.simps) (simp add: digits_val_append digit_val_digit)
  qed
qed

lemma is_digit_facts:
  assumes "is_digit c"
  shows "\<not> is_space c" and "c \<noteq> CHR ''_''" and "c \<noteq> CHR ''+''" and "c \<noteq> CHR ''-''"
    and "c \<noteq> CHR '':''"
  using assms by (auto simp: is_digit_def is_space_def code_def)

lemma digits_ok_digits: "s \<noteq> [] \<Longrightarrow> \<forall>c \<in> set s. is_digit c \<Longrightarrow> digits_ok s"
  by (induction s rule: digits_ok.induct) (auto dest: is_digit_facts)

lemma strip_no_space: "\<forall>c \<in> set s. \<not> is_space c \<Longrightarrow> strip s = s"
proof -
  assume "\<forall>c \<in> set s. \<not> is_space c"
  then have "dropWhile is_space s = s" and "dropWhile is_space (rev s) = rev s"
    by (metis dropWhile_eq_self_iff hd_in_set, metis dropWhile_eq_self_iff hd_in_set set_rev)
  then show ?thesis by (simp add: strip_def lstrip_by_def rstrip_by_def)
qed

lemma int_of_show_nat [simp]: "int_of (show_nat n) = Some (int n)"
proof -
  have ds: "\<forall>c \<in> set (show_nat n). is_digit c" by (rule show_nat_digits)
  then have "strip (show_nat n) = show_nat n"
    by (intro strip_no_space) (auto dest: is_digit_facts)
  moreover obtain c cs where c: "show_nat n = c # cs" by (meson show_nat_not_Nil neq_Nil_conv)
  moreover from ds c have "c \<noteq> CHR ''+'' \<and> c \<noteq> CHR ''-''" by (auto dest: is_digit_facts)
  moreover from ds have "filter (\<lambda>c. c \<noteq> CHR ''_'') (show_nat n) = show_nat n"
    by (intro filter_True) (auto dest: is_digit_facts)
  moreover from ds have "digits_ok (show_nat n)" by (simp add: digits_ok_digits)
  ultimately show ?thesis
    using digits_val_show_nat [of n] by (simp add: int_of_def Let_def)
qed

lemma minus_not_space: "\<not> is_space CHR ''-''"
  by (simp add: is_space_def code_def)

lemma int_of_show_int: "int_of (show_int i) = Some i"
proof (cases "i < 0")
  case True
  have ds: "\<forall>c \<in> set (show_nat (nat (- i))). is_digit c" by (rule show_nat_digits)
  then have "\<forall>c \<in> set (CHR ''-'' # show_nat (nat (- i))). \<not> is_space c"
    using minus_not_space is_digit_facts(1) by simp
  then have "strip (CHR ''-'' # show_nat (nat (- i))) = CHR ''-'' # show_nat (nat (- i))"
    by (rule strip_no_space)
  moreover from ds have "filter (\<lambda>c. c \<noteq> CHR ''_'') (show_nat (nat (- i))) = show_nat (nat (- i))"
    by (intro filter_True) (auto dest: is_digit_facts)
  moreover from ds have "digits_ok (show_nat (nat (- i)))" by (simp add: digits_ok_digits)
  ultimately show ?thesis
    using digits_val_show_nat [of "nat (- i)"] True by (simp add: int_of_def show_int_def Let_def)
qed (simp add: show_int_def)

section \<open>SQL's LIKE\<close>

fun like_match :: "string \<Rightarrow> string \<Rightarrow> bool" where
  "like_match [] s = (s = [])"
| "like_match (p # ps) [] = (p = CHR ''%'' \<and> like_match ps [])"
| "like_match (p # ps) (c # cs) =
     (if p = CHR ''%'' then like_match ps (c # cs) \<or> like_match (p # ps) cs
      else if p = CHR ''_'' then like_match ps cs
      else p = c \<and> like_match ps cs)"

definition sql_like :: "string \<Rightarrow> string \<Rightarrow> bool" where
  "sql_like s pat \<longleftrightarrow> like_match (lower pat) (lower s)"

lemma like_match_any: "like_match p s \<Longrightarrow> like_match (CHR ''%'' # p) s"
  by (cases s) simp_all

lemma like_match_refl: "like_match s s"
proof (induction s)
  case (Cons a s)
  then show ?case by (cases "a = CHR ''%''") (auto intro: like_match_any)
qed simp

lemma like_match_suffix: "like_match (CHR ''%'' # p) (s @ p)"
proof (induction s)
  case Nil
  show ?case by (simp add: like_match_any like_match_refl)
next
  case (Cons a s)
  then show ?case by simp
qed

lemma lower_append [simp]: "lower (s @ t) = lower s @ lower t"
  by (simp add: lower_def)

lemma sql_like_suffix: "sql_like (s @ p) (CHR ''%'' # p)"
proof -
  have "lower (CHR ''%'' # p) = CHR ''%'' # lower p"
    by (simp add: lower_def to_lower_def is_upper_def code_def)
  then show ?thesis by (simp add: sql_like_def like_match_suffix)
qed

end
