(* ===== verification/Exceptions.thy ===== *)
theory Exceptions
  imports PyStr
begin

text \<open>
  The exceptions the program raises: those of Python and of the libraries it calls (first
  group), then one constructor per exception class of the program, with its message. The
  classes of each component are declared at the top of its module; the base classes
  (\<open>AliasError\<close>, \<open>DomainError\<close>, ...) are never raised themselves.
\<close>

datatype py_exn =
    TypeError string
  | ValueError string
  | KeyError string
  | IndexError string
  | AttributeError string
  | OSError string
  | OverflowError string
  | ParseError string
  | BadZipFile
  | BrokenPipeError
  | ConnectionResetError
  | IncompleteReadError
  | UnicodeDecodeError
  | RecursionError
  | IntegrityError
  | NoResultFound
  | MultipleResultsFound
  | HTTPError string
  | MemcacheError string
  | ResponseError string
  | DataError string
  | HTTPException int string
  | PydanticValidationError string
  | InvalidEmail string
  | NetfilterError string
  | AliasAlreadyExistsError string
  | AliasNotFoundError string
  | AliasValidationError string
  | DKIMError string
  | DKIMAlreadyExistsError string
  | DKIMNotFoundError string
  | DomainAlreadyExistsError string
  | DomainNotFoundError string
  | DomainValidationError string
  | ForwardingHostNotFoundError string
  | ForwardingHostValidationError string
  | MailboxAlreadyExistsError string
  | MailboxNotFoundError string
  | MailboxValidationError string
  | PasswordValidationError string
  | RelayHostAlreadyExistsError string
  | RelayHostNotFoundError string
  | RelayHostValidationError string
  | RspamdMapNotFoundError string
  | RspamdMapValidationError string
  | TransportAlreadyExistsError string
  | TransportNotFoundError string
  | TransportValidationError string
  | DockerapiNotFoundError string
  | DBUnsupportedDialectError string

text \<open>Unpacking \<open>a, b = xs\<close> raises \<open>ValueError\<close> unless there are exactly two values.\<close>

definition unpack2 :: "'a list \<Rightarrow> ('s, py_exn, 'a \<times> 'a) sem" where
  "unpack2 xs =
     (case xs of [a, b] \<Rightarrow> ret (a, b) | _ \<Rightarrow> throw (ValueError ''unpack''))"

lemma unpack2_pair [simp]: "unpack2 [a, b] = ret (a, b)"
  by (simp add: unpack2_def)

lemma unpack2_returns: "unpack2 xs s = (Inr p, t) \<longleftrightarrow> xs = [fst p, snd p] \<and> t = s"
  by (auto simp: unpack2_def split: list.splits)

text \<open>Reading the result and the state of a program that was run.\<close>

lemma bindM_split:
  "bindM m f s = (case fst (m s) of Inl e \<Rightarrow> (Inl e, snd (m s)) | Inr a \<Rightarrow> f a (snd (m s)))"
  by (simp add: bindM_def split_beta)

lemma seqM_split:
  "seqM m n s = (case fst (m s) of Inl e \<Rightarrow> (Inl e, snd (m s)) | Inr a \<Rightarrow> n (snd (m s)))"
  by (simp add: seqM_def bindM_split)

lemmas sem_splits = bindM_split seqM_split

end
