(* ===== verification/Registry.thy ===== *)
theory Registry
  imports Exceptions
begin

text \<open>
  The registry of entry points, \<open>taramail/registry.py\<close>: a dict of groups, each a dict of
  named entries. The entry points installed in the environment (\<open>importlib.metadata\<close>)
  are the parameter \<open>eps\<close>, giving the named and loaded entries of a group.
\<close>

type_synonym 'a registry = "(string, (string, 'a) dict) dict"

definition registry_add ::
  "string \<Rightarrow> string \<Rightarrow> 'a \<Rightarrow> 'a registry option \<Rightarrow> 'a registry" where
  "registry_add grp name entry registry =
     (let r = (case registry of
                 None \<Rightarrow> [(grp, [])]
               | Some r \<Rightarrow> (if map_of r grp = None then dict_set grp [] r else r))
      in dict_set grp (dict_set name entry (case map_of r grp of Some g \<Rightarrow> g | None \<Rightarrow> [])) r)"

fun registry_add_all :: "string \<Rightarrow> (string \<times> 'a) list \<Rightarrow> 'a registry \<Rightarrow> 'a registry" where
  "registry_add_all grp [] r = r"
| "registry_add_all grp ((name, entry) # es) r =
     registry_add_all grp es (registry_add grp name entry (Some r))"

definition registry_load ::
  "(string \<Rightarrow> (string \<times> 'a) list) \<Rightarrow> string \<Rightarrow> 'a registry option \<Rightarrow> 'a registry" where
  "registry_load eps grp registry =
     registry_add_all grp (eps grp) (case registry of None \<Rightarrow> [] | Some r \<Rightarrow> r)"

definition registry_remove ::
  "string \<Rightarrow> string \<Rightarrow> 'a registry option \<Rightarrow> 'a registry option" where
  "registry_remove grp name registry =
     (case registry of
        None \<Rightarrow> None
      | Some r \<Rightarrow>
          (case map_of r grp of
             None \<Rightarrow> Some r
           | Some g \<Rightarrow> Some (dict_set grp (dict_del name g) r)))"

text \<open>Returns the entry, or \<open>KeyError\<close>, and the registry as loading left it.\<close>

definition registry_get ::
  "(string \<Rightarrow> (string \<times> 'a) list) \<Rightarrow> string \<Rightarrow> string \<Rightarrow> 'a registry option
     \<Rightarrow> (py_exn + 'a) \<times> 'a registry" where
  "registry_get eps grp name registry =
     (let r = (case registry of
                 None \<Rightarrow> registry_load eps grp None
               | Some r \<Rightarrow>
                   (if map_of r grp = None then registry_load eps grp (Some r) else r))
      in case map_of r grp of
           None \<Rightarrow> (Inl (KeyError grp), r)
         | Some g \<Rightarrow>
             (case map_of g name of
                None \<Rightarrow> (Inl (KeyError name), r)
              | Some entry \<Rightarrow> (Inr entry, r)))"

text \<open>What a registry holds under a group and a name, whatever its nesting.\<close>

definition registry_entry :: "'a registry \<Rightarrow> string \<Rightarrow> string \<Rightarrow> 'a option" where
  "registry_entry r grp name =
     (case map_of r grp of None \<Rightarrow> None | Some g \<Rightarrow> map_of g name)"

lemma registry_entry_add:
  "registry_entry (registry_add grp name entry (Some r)) g n =
     (if g = grp \<and> n = name then Some entry else registry_entry r g n)"
  by (auto simp: registry_entry_def registry_add_def Let_def split: option.splits)

lemma registry_entry_remove:
  "registry_remove grp name (Some r) = Some r' \<Longrightarrow>
     registry_entry r' g n = (if g = grp \<and> n = name then None else registry_entry r g n)"
  by (auto simp: registry_entry_def registry_remove_def split: option.splits if_splits)

lemma registry_entry_add_all:
  "registry_entry (registry_add_all grp es r) g n =
     (if g = grp then (case map_of (rev es) n of Some e \<Rightarrow> Some e | None \<Rightarrow> registry_entry r g n)
      else registry_entry r g n)"
proof (induction grp es r rule: registry_add_all.induct)
  case (2 grp name entry es r)
  then show ?case
    by (auto simp: registry_entry_add map_add_def split: option.splits)
qed simp

lemma registry_get_present:
  "registry_entry r grp name = Some entry \<Longrightarrow> registry_get eps grp name (Some r) = (Inr entry, r)"
  by (auto simp: registry_entry_def registry_get_def split: option.splits)

end
