(* ===== verification/Models.thy ===== *)
theory Models
  imports Exceptions
begin

text \<open>
  src/backend/taramail/models.py: one record per table with the columns the program reads or
  writes, in the order of the source. The timestamps of \<open>TimestampMixin\<close> are left out; a
  \<open>String\<close> or \<open>Enum\<close> column is text, a nullable one an option, a \<open>DateTime\<close> an integer number
  of seconds. Of the tables that are only cleaned by owner (imapsync, filterconf, the tables of
  SOGo) the records keep the columns that identify the owner. Comparisons of text are exact, as
  with a binary collation.
\<close>

record alias_row =
  al_id :: nat
  al_address :: string
  al_goto :: string
  al_domain :: string
  al_private_comment :: string
  al_public_comment :: string
  al_sogo_visible :: bool
  al_internal :: bool
  al_active :: bool

record alias_domain_row =
  ad_alias_domain :: string
  ad_target_domain :: string
  ad_active :: bool

record app_passwd_row =
  ap_id :: nat
  ap_name :: string
  ap_mailbox :: string
  ap_domain :: string
  ap_password :: string
  ap_active :: bool

record bcc_maps_row =
  bc_id :: nat
  bc_local_dest :: string
  bc_bcc_dest :: string
  bc_domain :: string
  bc_type :: "string option"
  bc_active :: bool

record domain_row =
  do_domain :: string
  do_description :: "string option"
  do_aliases :: int
  do_mailboxes :: int
  do_defquota :: int
  do_maxquota :: int
  do_quota :: int
  do_relayhost :: int
  do_backupmx :: bool
  do_gal :: bool
  do_relay_all_recipients :: bool
  do_relay_unknown_only :: bool
  do_active :: bool

record filterconf_row =
  fc_prefix :: nat
  fc_object :: string
  fc_option :: string
  fc_value :: string

record imapsync_row =
  im_id :: nat
  im_user2 :: string

record mailbox_row =
  mb_username :: string
  mb_password :: string
  mb_name :: "string option"
  mb_description :: "string option"
  mb_quota :: int
  mb_local_part :: string
  mb_domain :: string
  mb_kind :: string
  mb_multiple_bookings :: int
  mb_active :: bool

record quarantine_row =
  qu_id :: nat
  qu_qid :: string
  qu_subject :: "string option"
  qu_action :: string
  qu_sender :: string
  qu_rcpt :: "string option"
  qu_domain :: "string option"
  qu_notified :: bool
  qu_created :: int
  qu_user :: string

record quota2_row =
  q2_username :: string
  q2_bytes :: int
  q2_messages :: int

record relayhosts_row =
  rh_id :: int
  rh_hostname :: string
  rh_username :: string
  rh_password :: string
  rh_active :: bool

record sasl_log_row =
  sl_app_password :: int
  sl_service :: string
  sl_username :: string
  sl_real_ip :: string
  sl_datetime :: int

record sender_acl_row =
  sa_id :: nat
  sa_logged_in_as :: string
  sa_send_as :: string
  sa_external :: bool

record settingsmap_row =
  sm_id :: nat
  sm_desc :: string
  sm_content :: string
  sm_active :: bool

record sieve_filters_row =
  sf_id :: nat
  sf_username :: string
  sf_script_desc :: string
  sf_script_name :: string
  sf_script_data :: string
  sf_filter_type :: string

record sogo_static_view_row =
  sv_c_uid :: string
  sv_domain :: string
  sv_c_name :: string
  sv_c_password :: string
  sv_c_cn :: "string option"
  sv_mail :: string
  sv_aliases :: string
  sv_ad_aliases :: string
  sv_ext_acl :: string
  sv_kind :: string
  sv_multiple_bookings :: int

record spamalias_row =
  sp_address :: string
  sp_goto :: string
  sp_validity :: int

record transports_row =
  tr_id :: int
  tr_destination :: string
  tr_nexthop :: string
  tr_username :: string
  tr_password :: string
  tr_is_mx_based :: bool
  tr_active :: bool

record user_acl_row =
  ua_username :: string
  ua_spam_alias :: bool
  ua_tls_policy :: bool
  ua_spam_score :: bool
  ua_spam_policy :: bool
  ua_delimiter_action :: bool
  ua_syncjobs :: bool
  ua_eas_reset :: bool
  ua_sogo_profile_reset :: bool
  ua_pushover :: bool
  ua_quarantine :: bool
  ua_quarantine_attachments :: bool
  ua_quarantine_notification :: bool
  ua_quarantine_category :: bool
  ua_app_passwds :: bool
  ua_pw_reset :: bool

record user_attributes_row =
  at_username :: string
  at_force_pw_update :: bool
  at_tls_enforce_in :: bool
  at_tls_enforce_out :: bool
  at_relayhost :: int
  at_sogo_access :: bool
  at_imap_access :: bool
  at_pop3_access :: bool
  at_smtp_access :: bool
  at_sieve_access :: bool
  at_quarantine_notification :: string
  at_quarantine_category :: string

record dmarc_report_row =
  dr_id :: int
  dr_report_id :: string
  dr_org_name :: string
  dr_org_email :: string
  dr_domain :: string
  dr_policy :: string
  dr_begin_date :: int
  dr_end_date :: int

record dmarc_record_row =
  dx_id :: int
  dx_report_id :: int
  dx_source_ip :: string
  dx_count :: int
  dx_disposition :: string
  dx_dkim_result :: string
  dx_spf_result :: string
  dx_dmarc_result :: string
  dx_header_from :: string
  dx_envelope_from :: string

text \<open>The tables of SOGo, by the columns their rows are deleted by.\<close>

record sogo_folder_row =
  fi_c_folder_id :: int
  fi_c_path2 :: "string option"

record sogo_contact_row =
  qc_c_folder_id :: int
  qc_c_mail :: "string option"

record sogo_tables =
  sg_user_profile :: "string list"
  sg_cache_folder :: "string list"
  sg_acl :: "string list"
  sg_folder_info :: "sogo_folder_row list"
  sg_store :: "int list"
  sg_quick_contact :: "sogo_contact_row list"
  sg_quick_appointment :: "int list"

record db =
  t_alias :: "alias_row list"
  t_alias_domain :: "alias_domain_row list"
  t_app_passwd :: "app_passwd_row list"
  t_bcc_maps :: "bcc_maps_row list"
  t_domain :: "domain_row list"
  t_filterconf :: "filterconf_row list"
  t_imapsync :: "imapsync_row list"
  t_mailbox :: "mailbox_row list"
  t_quarantine :: "quarantine_row list"
  t_quota2 :: "quota2_row list"
  t_quota2replica :: "quota2_row list"
  t_relayhosts :: "relayhosts_row list"
  t_sasl_log :: "sasl_log_row list"
  t_sender_acl :: "sender_acl_row list"
  t_settingsmap :: "settingsmap_row list"
  t_sieve_filters :: "sieve_filters_row list"
  t_static_view :: "sogo_static_view_row list"
  t_spamalias :: "spamalias_row list"
  t_transports :: "transports_row list"
  t_user_acl :: "user_acl_row list"
  t_user_attributes :: "user_attributes_row list"
  t_dmarc_report :: "dmarc_report_row list"
  t_dmarc_record :: "dmarc_record_row list"
  t_sogo :: sogo_tables

definition empty_sogo :: sogo_tables where
  "empty_sogo =
     \<lparr>sg_user_profile = [], sg_cache_folder = [], sg_acl = [], sg_folder_info = [], sg_store = [],
      sg_quick_contact = [], sg_quick_appointment = []\<rparr>"

definition empty_db :: db where
  "empty_db =
     \<lparr>t_alias = [], t_alias_domain = [], t_app_passwd = [], t_bcc_maps = [], t_domain = [],
      t_filterconf = [], t_imapsync = [], t_mailbox = [], t_quarantine = [], t_quota2 = [],
      t_quota2replica = [], t_relayhosts = [], t_sasl_log = [], t_sender_acl = [],
      t_settingsmap = [], t_sieve_filters = [], t_static_view = [], t_spamalias = [],
      t_transports = [], t_user_acl = [], t_user_attributes = [], t_dmarc_report = [],
      t_dmarc_record = [], t_sogo = empty_sogo\<rparr>"

text \<open>The keys the database keeps unique: primary keys and the indexes declared \<open>unique\<close>.\<close>

definition unique_keys :: "db \<Rightarrow> bool" where
  "unique_keys d \<longleftrightarrow>
     distinct (map al_id (t_alias d)) \<and> distinct (map al_address (t_alias d)) \<and>
     distinct (map ad_alias_domain (t_alias_domain d)) \<and>
     distinct (map do_domain (t_domain d)) \<and>
     distinct (map mb_username (t_mailbox d)) \<and>
     distinct (map (\<lambda>m. (mb_domain m, mb_local_part m)) (t_mailbox d)) \<and>
     distinct (map q2_username (t_quota2 d)) \<and> distinct (map q2_username (t_quota2replica d)) \<and>
     distinct (map rh_id (t_relayhosts d)) \<and> distinct (map tr_id (t_transports d)) \<and>
     distinct (map sp_address (t_spamalias d)) \<and> distinct (map sv_c_uid (t_static_view d)) \<and>
     distinct (map ua_username (t_user_acl d)) \<and>
     distinct (map at_username (t_user_attributes d)) \<and>
     distinct (map dr_id (t_dmarc_report d)) \<and> distinct (map dr_report_id (t_dmarc_report d)) \<and>
     distinct (map dx_id (t_dmarc_record d))"

section \<open>Sessions\<close>

text \<open>
  A session as src/backend/taramail/db.py configures it, with \<open>autoflush=False\<close>: \<open>sql\<close> is what a
  statement reads, \<open>orm\<close> is what a flush will write, that is the tables with the objects added
  and the attributes set so far. A statement of \<open>update\<close> or \<open>delete\<close> changes both. A session is
  clean when nothing is pending.
\<close>

record session =
  sql :: db
  orm :: db

definition clean :: "db \<Rightarrow> session" where
  "clean d = \<lparr>sql = d, orm = d\<rparr>"

text \<open>\<open>scalars(select(...).where(p)).all()\<close>, and the rows as \<open>one()\<close> wants them.\<close>

definition query :: "(db \<Rightarrow> 'a) \<Rightarrow> (session, py_exn, 'a) sem" where
  "query f = gets (\<lambda>s. f (sql s))"

definition one :: "'r list \<Rightarrow> ('s, py_exn, 'r) sem" where
  "one rs =
     (case rs of
        [] \<Rightarrow> throw NoResultFound
      | [r] \<Rightarrow> ret r
      | _ \<Rightarrow> throw MultipleResultsFound)"

text \<open>\<open>one()\<close> under \<open>except NoResultFound: raise e\<close>.\<close>

definition one_or :: "py_exn \<Rightarrow> 'r list \<Rightarrow> ('s, py_exn, 'r) sem" where
  "one_or e rs =
     (case rs of
        [] \<Rightarrow> throw e
      | [r] \<Rightarrow> ret r
      | _ \<Rightarrow> throw MultipleResultsFound)"

text \<open>
  \<open>execute(delete(...))\<close> and \<open>execute(update(...))\<close>: the first argument of the change is the
  database the subqueries of its condition read.
\<close>

definition execute :: "(db \<Rightarrow> db \<Rightarrow> db) \<Rightarrow> (session, py_exn, unit) sem" where
  "execute f = modify (\<lambda>s. \<lparr>sql = f (sql s) (sql s), orm = f (sql s) (orm s)\<rparr>)"

text \<open>\<open>add\<close> and the setting of attributes wait for the next flush.\<close>

definition pending :: "(db \<Rightarrow> db) \<Rightarrow> (session, py_exn, unit) sem" where
  "pending f = modify (\<lambda>s. s\<lparr>orm := f (orm s)\<rparr>)"

definition flush :: "(session, py_exn, unit) sem" where
  "flush s = (if unique_keys (orm s) then (Inr (), clean (orm s)) else (Inl IntegrityError, s))"

text \<open>
  \<open>with db_transaction(db)\<close>: commit flushes; an exception, of the body or of the commit, rolls
  the database back to where the transaction began.
\<close>

definition db_transaction :: "(session, py_exn, 'a) sem \<Rightarrow> (session, py_exn, 'a) sem" where
  "db_transaction body s =
     (case bindM body (\<lambda>a. seqM flush (ret a)) s of
        (Inl e, _) \<Rightarrow> (Inl e, s)
      | (Inr a, t) \<Rightarrow> (Inr a, t))"

text \<open>The key of a new row in a table with a generated key, and of the next ones.\<close>

definition next_id :: "int list \<Rightarrow> int" where
  "next_id ids = (if ids = [] then 1 else Max (set ids) + 1)"

definition next_nat_id :: "nat list \<Rightarrow> nat" where
  "next_nat_id ids = (if ids = [] then 1 else Max (set ids) + 1)"

lemma sql_clean [simp]: "sql (clean d) = d" and orm_clean [simp]: "orm (clean d) = d"
  by (simp_all add: clean_def)

lemma clean_pending [simp]: "(clean d)\<lparr>orm := e\<rparr> = \<lparr>sql = d, orm = e\<rparr>"
  by (simp add: clean_def)

lemma query_run [simp, sem_simps]: "query f s = (Inr (f (sql s)), s)"
  by (simp add: query_def)

lemma bindM_query [simp]: "bindM (query f) g s = g (f (sql s)) s"
  by (simp add: query_def)

lemma execute_run [simp, sem_simps]:
  "execute f s = (Inr (), \<lparr>sql = f (sql s) (sql s), orm = f (sql s) (orm s)\<rparr>)"
  by (simp add: execute_def)

lemma pending_run [simp, sem_simps]: "pending f s = (Inr (), s\<lparr>orm := f (orm s)\<rparr>)"
  by (simp add: pending_def)

lemma seqM_execute [simp]:
  "seqM (execute f) m s = m \<lparr>sql = f (sql s) (sql s), orm = f (sql s) (orm s)\<rparr>"
  by (simp add: execute_def)

lemma seqM_pending [simp]: "seqM (pending f) m s = m (s\<lparr>orm := f (orm s)\<rparr>)"
  by (simp add: pending_def)

lemma execute_clean: "\<lparr>sql = f (sql (clean d)) (sql (clean d)), orm = f (sql (clean d)) (orm (clean d))\<rparr>
    = clean (f d d)"
  by (simp add: clean_def)

lemma one_returns [simp]: "one rs s = (Inr r, t) \<longleftrightarrow> rs = [r] \<and> t = s"
  by (auto simp: one_def split: list.splits)

lemma one_or_returns [simp]: "one_or e rs s = (Inr r, t) \<longleftrightarrow> rs = [r] \<and> t = s"
  by (auto simp: one_or_def split: list.splits)

lemma one_or_state: "one_or e rs s = (r, t) \<Longrightarrow> t = s"
  by (auto simp: one_or_def split: list.splits)

lemma flush_returns [simp]: "flush s = (Inr u, t) \<longleftrightarrow> unique_keys (orm s) \<and> t = clean (orm s)"
  by (auto simp: flush_def)

lemma db_transaction_returns:
  "db_transaction m s = (Inr a, t) \<longleftrightarrow>
     (\<exists>u. m s = (Inr a, u) \<and> unique_keys (orm u) \<and> t = clean (orm u))"
  by (auto simp: db_transaction_def sem_returns split: prod.splits sum.splits)
     (auto simp: bindM_def seqM_def flush_def split: prod.splits sum.splits if_splits)

text \<open>A transaction that fails leaves the database as it was.\<close>

lemma db_transaction_raises:
  "db_transaction m s = (Inl e, t) \<Longrightarrow> t = s"
  by (auto simp: db_transaction_def split: prod.splits sum.splits)

lemma next_id_fresh: "next_id ids \<notin> set ids"
  unfolding next_id_def by (cases "ids = []") (auto dest: Max_ge [OF finite_set])

lemma next_nat_id_fresh: "next_nat_id ids \<notin> set ids"
  unfolding next_nat_id_def by (cases "ids = []") (auto dest: Max_ge [OF finite_set])

lemma filter_key_one:
  assumes "distinct (map key rs)" and "r \<in> set rs"
  shows "filter (\<lambda>x. key x = key r) rs = [r]"
  using assms
proof (induction rs)
  case (Cons a rs)
  then show ?case
    by (cases "key a = key r") (auto simp: filter_empty_conv rev_image_eqI)
qed simp

end
