(* ===== verification/Ipaddress.thy ===== *)
theory Ipaddress
  imports PyStr
begin

text \<open>
  The part of Python's \<open>ipaddress\<close> module the program uses: parsing and printing of IPv4
  and IPv6 addresses and networks, membership and overlap of networks, and the classes of
  private and loopback addresses (the tables of Python 3.13). Addresses are Python
  integers below \<open>2 ^ 32\<close> or \<open>2 ^ 128\<close>, so they are naturals here and masks are
  divisions. \<open>None\<close> stands for \<open>ValueError\<close>.
\<close>

section \<open>IPv4\<close>

definition parse_octet :: "string \<Rightarrow> nat option" where
  "parse_octet s =
     (if s = [] \<or> \<not> list_all is_digit s then None
      else if length s > 3 then None
      else if s \<noteq> ''0'' \<and> hd s = CHR ''0'' then None
      else if digits_val 0 s > 255 then None
      else Some (digits_val 0 s))"

definition parse_ipv4 :: "string \<Rightarrow> nat option" where
  "parse_ipv4 s =
     (case split_on CHR ''.'' s of
        [a, b, c, d] \<Rightarrow>
          (case (parse_octet a, parse_octet b, parse_octet c, parse_octet d) of
             (Some w, Some x, Some y, Some z) \<Rightarrow> Some (((w * 256 + x) * 256 + y) * 256 + z)
           | _ \<Rightarrow> None)
      | _ \<Rightarrow> None)"

definition show_ipv4 :: "nat \<Rightarrow> string" where
  "show_ipv4 n =
     join ''.'' [show_nat (n div 16777216), show_nat (n div 65536 mod 256),
                 show_nat (n div 256 mod 256), show_nat (n mod 256)]"

section \<open>IPv6\<close>

definition hex_val :: "char \<Rightarrow> nat option" where
  "hex_val c =
     (if is_digit c then Some (code c - 48)
      else if 97 \<le> code c \<and> code c \<le> 102 then Some (code c - 87)
      else if 65 \<le> code c \<and> code c \<le> 70 then Some (code c - 55)
      else None)"

definition hex_digit :: "nat \<Rightarrow> char" where
  "hex_digit d = (if d < 10 then digit d else char_of (87 + d))"

fun show_hex :: "nat \<Rightarrow> string" where
  "show_hex n = (if n < 16 then [hex_digit n] else show_hex (n div 16) @ [hex_digit (n mod 16)])"

declare show_hex.simps [simp del]

fun hex_acc :: "nat \<Rightarrow> string \<Rightarrow> nat option" where
  "hex_acc acc [] = Some acc"
| "hex_acc acc (c # cs) =
     (case hex_val c of None \<Rightarrow> None | Some v \<Rightarrow> hex_acc (16 * acc + v) cs)"

definition parse_hextet :: "string \<Rightarrow> nat option" where
  "parse_hextet s = (if s = [] \<or> length s > 4 then None else hex_acc 0 s)"

fun hextets_val :: "nat \<Rightarrow> string list \<Rightarrow> nat option" where
  "hextets_val acc [] = Some acc"
| "hextets_val acc (p # ps) =
     (case parse_hextet p of None \<Rightarrow> None | Some v \<Rightarrow> hextets_val (65536 * acc + v) ps)"

text \<open>A dotted IPv4 tail becomes two hextets.\<close>

definition expand_ipv4_tail :: "string list \<Rightarrow> string list option" where
  "expand_ipv4_tail parts =
     (if CHR ''.'' \<in> set (last parts)
      then (case parse_ipv4 (last parts) of
              None \<Rightarrow> None
            | Some v \<Rightarrow> Some (butlast parts @ [show_hex (v div 65536), show_hex (v mod 65536)]))
      else Some parts)"

text \<open>
  \<open>inner_empty\<close> lists the indices, endpoints apart, of the empty parts: more than one is
  more than one \<open>::\<close>. The parts left and right of it (minus an empty endpoint, which must
  be next to it) are the high and the low hextets.
\<close>

definition inner_empty :: "string list \<Rightarrow> nat list" where
  "inner_empty parts = filter (\<lambda>i. parts ! i = []) [1..<length parts - 1]"

definition parse_ipv6_parts :: "string list \<Rightarrow> nat option" where
  "parse_ipv6_parts parts =
     (case inner_empty parts of
        [] \<Rightarrow> (if length parts \<noteq> 8 \<or> hd parts = [] \<or> last parts = [] then None
               else hextets_val 0 parts)
      | [i] \<Rightarrow>
          (let hi = (if hd parts = [] then i - 1 else i);
               lo0 = length parts - i - 1;
               lo = (if last parts = [] then lo0 - 1 else lo0)
           in if (hd parts = [] \<and> hi \<noteq> 0) \<or> (last parts = [] \<and> lo \<noteq> 0) then None
              else if 8 < hi + lo + 1 then None
              else (case hextets_val 0 (take hi parts) of
                      None \<Rightarrow> None
                    | Some h \<Rightarrow>
                        hextets_val (h * 65536 ^ (8 - (hi + lo))) (drop (length parts - lo) parts)))
      | _ \<Rightarrow> None)"

definition parse_ipv6_int :: "string \<Rightarrow> nat option" where
  "parse_ipv6_int s =
     (let parts = split_on CHR '':'' s
      in if length parts < 3 then None
         else (case expand_ipv4_tail parts of
                 None \<Rightarrow> None
               | Some ps \<Rightarrow> if length ps > 9 then None else parse_ipv6_parts ps))"

text \<open>An IPv6 address may carry a scope identifier after a percent sign.\<close>

definition parse_ipv6 :: "string \<Rightarrow> (nat \<times> string option) option" where
  "parse_ipv6 s =
     (if CHR ''/'' \<in> set s then None
      else if CHR ''%'' \<in> set s
      then (let scope = after CHR ''%'' s
            in if scope = [] \<or> CHR ''%'' \<in> set scope then None
               else map_option (\<lambda>v. (v, Some scope)) (parse_ipv6_int (before CHR ''%'' s)))
      else map_option (\<lambda>v. (v, None)) (parse_ipv6_int s))"

fun hextets :: "nat \<Rightarrow> nat \<Rightarrow> nat list" where
  "hextets 0 v = []"
| "hextets (Suc n) v = hextets n (v div 65536) @ [v mod 65536]"

text \<open>
  The longest run of at least two zero hextets, the first of them, is written \<open>::\<close>.
  The scan keeps the start and length of the current run and of the best one.
\<close>

fun zero_run :: "nat \<Rightarrow> nat list \<Rightarrow> nat \<times> nat \<Rightarrow> nat \<times> nat \<Rightarrow> nat \<times> nat" where
  "zero_run i [] cur best = best"
| "zero_run i (h # hs) (st, n) (bst, bn) =
     (if h = 0
      then (let st' = (if n = 0 then i else st)
            in zero_run (Suc i) hs (st', Suc n) (if Suc n > bn then (st', Suc n) else (bst, bn)))
      else zero_run (Suc i) hs (0, 0) (bst, bn))"

definition compress_hextets :: "nat list \<Rightarrow> string list" where
  "compress_hextets hs =
     (let (st, n) = zero_run 0 hs (0, 0) (0, 0); xs = map show_hex hs
      in if n > 1
         then (if st = 0 then [[]] else []) @ take st xs @ [[]] @ drop (st + n) xs @
              (if st + n = length hs then [[]] else [])
         else xs)"

definition show_ipv6 :: "nat \<Rightarrow> string option \<Rightarrow> string" where
  "show_ipv6 v scope =
     (if v div 4294967296 = 65535 then ''::ffff:'' @ show_ipv4 (v mod 4294967296)
      else join '':'' (compress_hextets (hextets 8 v))) @
     (case scope of None \<Rightarrow> [] | Some z \<Rightarrow> CHR ''%'' # z)"

text \<open>\<open>IPv6Address(s).exploded\<close>; a scope identifier makes it raise.\<close>

fun show_hex4 :: "nat \<Rightarrow> nat \<Rightarrow> string" where
  "show_hex4 0 v = []"
| "show_hex4 (Suc n) v = show_hex4 n (v div 16) @ [hex_digit (v mod 16)]"

definition exploded_ipv6 :: "string \<Rightarrow> string option" where
  "exploded_ipv6 s =
     (case parse_ipv6 s of
        Some (v, None) \<Rightarrow> Some (join '':'' (map (show_hex4 4) (hextets 8 v)))
      | _ \<Rightarrow> None)"

section \<open>Addresses and networks of either version\<close>

datatype ip_address = IPv4Address nat | IPv6Address nat "string option"

datatype ip_network = IPv4Network nat nat | IPv6Network nat "string option" nat

definition ip_address_of :: "string \<Rightarrow> ip_address option" where
  "ip_address_of s =
     (case parse_ipv4 s of
        Some v \<Rightarrow> Some (IPv4Address v)
      | None \<Rightarrow> map_option (\<lambda>(v, z). IPv6Address v z) (parse_ipv6 s))"

fun show_ip :: "ip_address \<Rightarrow> string" where
  "show_ip (IPv4Address v) = show_ipv4 v"
| "show_ip (IPv6Address v z) = show_ipv6 v z"

text \<open>The address with all host bits of prefix length \<open>p\<close> cleared, for width \<open>w\<close>.\<close>

definition masked :: "nat \<Rightarrow> nat \<Rightarrow> nat \<Rightarrow> nat" where
  "masked w p v = v div 2 ^ (w - p) * 2 ^ (w - p)"

definition parse_prefix_len :: "nat \<Rightarrow> string \<Rightarrow> nat option" where
  "parse_prefix_len w s =
     (if s \<noteq> [] \<and> list_all is_digit s \<and> digits_val 0 s \<le> w then Some (digits_val 0 s) else None)"

text \<open>An IPv4 mask may also be a dotted netmask, or else a hostmask.\<close>

definition parse_netmask4 :: "string \<Rightarrow> nat option" where
  "parse_netmask4 s =
     (case parse_prefix_len 32 s of
        Some p \<Rightarrow> Some p
      | None \<Rightarrow>
          (case parse_ipv4 s of
             None \<Rightarrow> None
           | Some m \<Rightarrow>
               (case find (\<lambda>p. masked 32 p (2 ^ 32 - 1) = m) [0..<33] of
                  Some p \<Rightarrow> Some p
                | None \<Rightarrow> find (\<lambda>p. masked 32 p (2 ^ 32 - 1) = 2 ^ 32 - 1 - m) [0..<33])))"

definition ipv4_network_of :: "string \<Rightarrow> bool \<Rightarrow> ip_network option" where
  "ipv4_network_of s strict =
     (case split_on CHR ''/'' s of
        [a] \<Rightarrow> map_option (\<lambda>v. IPv4Network v 32) (parse_ipv4 a)
      | [a, m] \<Rightarrow>
          (case (parse_ipv4 a, parse_netmask4 m) of
             (Some v, Some p) \<Rightarrow>
               if strict \<and> masked 32 p v \<noteq> v then None else Some (IPv4Network (masked 32 p v) p)
           | _ \<Rightarrow> None)
      | _ \<Rightarrow> None)"

definition ipv6_network_of :: "string \<Rightarrow> bool \<Rightarrow> ip_network option" where
  "ipv6_network_of s strict =
     (case split_on CHR ''/'' s of
        [a] \<Rightarrow> map_option (\<lambda>(v, z). IPv6Network v z 128) (parse_ipv6 a)
      | [a, m] \<Rightarrow>
          (case (parse_ipv6 a, parse_prefix_len 128 m) of
             (Some (v, z), Some p) \<Rightarrow>
               if masked 128 p v = v then Some (IPv6Network v z p)
               else if strict then None else Some (IPv6Network (masked 128 p v) None p)
           | _ \<Rightarrow> None)
      | _ \<Rightarrow> None)"

definition ip_network_of :: "string \<Rightarrow> bool \<Rightarrow> ip_network option" where
  "ip_network_of s strict =
     (case ipv4_network_of s strict of Some n \<Rightarrow> Some n | None \<Rightarrow> ipv6_network_of s strict)"

fun show_network :: "ip_network \<Rightarrow> string" where
  "show_network (IPv4Network v p) = show_ipv4 v @ ''/'' @ show_nat p"
| "show_network (IPv6Network v z p) = show_ipv6 v z @ ''/'' @ show_nat p"

fun network_address :: "ip_network \<Rightarrow> ip_address" where
  "network_address (IPv4Network v p) = IPv4Address v"
| "network_address (IPv6Network v z p) = IPv6Address v z"

fun prefixlen :: "ip_network \<Rightarrow> nat" where
  "prefixlen (IPv4Network v p) = p"
| "prefixlen (IPv6Network v z p) = p"

fun broadcast_address :: "ip_network \<Rightarrow> ip_address" where
  "broadcast_address (IPv4Network v p) = IPv4Address (v + (2 ^ (32 - p) - 1))"
| "broadcast_address (IPv6Network v z p) = IPv6Address (v + (2 ^ (128 - p) - 1)) None"

fun in_network :: "ip_address \<Rightarrow> ip_network \<Rightarrow> bool" where
  "in_network (IPv4Address a) (IPv4Network v p) = (masked 32 p a = v)"
| "in_network (IPv6Address a _) (IPv6Network v _ p) = (masked 128 p a = v)"
| "in_network _ _ = False"

definition overlaps :: "ip_network \<Rightarrow> ip_network \<Rightarrow> bool" where
  "overlaps m n \<longleftrightarrow>
     in_network (network_address m) n \<or> in_network (broadcast_address m) n \<or>
     in_network (network_address n) m \<or> in_network (broadcast_address n) m"

section \<open>Private and loopback addresses\<close>

definition quad :: "nat \<Rightarrow> nat \<Rightarrow> nat \<Rightarrow> nat \<Rightarrow> nat" where
  "quad a b c d = ((a * 256 + b) * 256 + c) * 256 + d"

definition private4 :: "ip_network list" where
  "private4 =
     [IPv4Network (quad 0 0 0 0) 8, IPv4Network (quad 10 0 0 0) 8, IPv4Network (quad 127 0 0 0) 8,
      IPv4Network (quad 169 254 0 0) 16, IPv4Network (quad 172 16 0 0) 12,
      IPv4Network (quad 192 0 0 0) 24, IPv4Network (quad 192 0 0 170) 31,
      IPv4Network (quad 192 0 2 0) 24, IPv4Network (quad 192 168 0 0) 16,
      IPv4Network (quad 198 18 0 0) 15, IPv4Network (quad 198 51 100 0) 24,
      IPv4Network (quad 203 0 113 0) 24, IPv4Network (quad 240 0 0 0) 4,
      IPv4Network (quad 255 255 255 255) 32]"

definition private4_exceptions :: "ip_network list" where
  "private4_exceptions = [IPv4Network (quad 192 0 0 9) 32, IPv4Network (quad 192 0 0 10) 32]"

definition oct :: "nat \<Rightarrow> nat \<Rightarrow> nat \<Rightarrow> nat \<Rightarrow> nat \<Rightarrow> nat \<Rightarrow> nat \<Rightarrow> nat \<Rightarrow> nat" where
  "oct a b c d e f g h = foldl (\<lambda>v x. 65536 * v + x) 0 [a, b, c, d, e, f, g, h]"

definition private6 :: "ip_network list" where
  "private6 =
     [IPv6Network (oct 0 0 0 0 0 0 0 1) None 128, IPv6Network 0 None 128,
      IPv6Network (oct 0 0 0 0 0 0xffff 0 0) None 96,
      IPv6Network (oct 0x64 0xff9b 1 0 0 0 0 0) None 48,
      IPv6Network (oct 0x100 0 0 0 0 0 0 0) None 64, IPv6Network (oct 0x2001 0 0 0 0 0 0 0) None 23,
      IPv6Network (oct 0x2001 0xdb8 0 0 0 0 0 0) None 32,
      IPv6Network (oct 0x2002 0 0 0 0 0 0 0) None 16, IPv6Network (oct 0x3fff 0 0 0 0 0 0 0) None 20,
      IPv6Network (oct 0xfc00 0 0 0 0 0 0 0) None 7, IPv6Network (oct 0xfe80 0 0 0 0 0 0 0) None 10]"

definition private6_exceptions :: "ip_network list" where
  "private6_exceptions =
     [IPv6Network (oct 0x2001 1 0 0 0 0 0 1) None 128, IPv6Network (oct 0x2001 1 0 0 0 0 0 2) None 128,
      IPv6Network (oct 0x2001 3 0 0 0 0 0 0) None 32,
      IPv6Network (oct 0x2001 4 0x112 0 0 0 0 0) None 48,
      IPv6Network (oct 0x2001 0x20 0 0 0 0 0 0) None 28,
      IPv6Network (oct 0x2001 0x30 0 0 0 0 0 0) None 28]"

definition in_table :: "ip_network list \<Rightarrow> ip_network list \<Rightarrow> ip_address \<Rightarrow> bool" where
  "in_table nets exceptions a \<longleftrightarrow>
     list_ex (in_network a) nets \<and> \<not> list_ex (in_network a) exceptions"

fun ipv4_mapped :: "ip_address \<Rightarrow> ip_address option" where
  "ipv4_mapped (IPv6Address v z) =
     (if v div 4294967296 = 65535 then Some (IPv4Address (v mod 4294967296)) else None)"
| "ipv4_mapped (IPv4Address v) = None"

fun is_private :: "ip_address \<Rightarrow> bool" where
  "is_private (IPv4Address v) = in_table private4 private4_exceptions (IPv4Address v)"
| "is_private (IPv6Address v z) =
     (case ipv4_mapped (IPv6Address v z) of
        Some a \<Rightarrow> in_table private4 private4_exceptions a
      | None \<Rightarrow> in_table private6 private6_exceptions (IPv6Address v z))"

fun is_loopback :: "ip_address \<Rightarrow> bool" where
  "is_loopback (IPv4Address v) = in_network (IPv4Address v) (IPv4Network (quad 127 0 0 0) 8)"
| "is_loopback (IPv6Address v z) =
     (case ipv4_mapped (IPv6Address v z) of
        Some a \<Rightarrow> in_network a (IPv4Network (quad 127 0 0 0) 8)
      | None \<Rightarrow> v = 1)"

section \<open>Printing and parsing IPv4\<close>

lemma parse_octet_show:
  assumes "n \<le> 255"
  shows "parse_octet (show_nat n) = Some n"
proof -
  have len: "length (show_nat n) \<le> 3"
    using assms
    by (subst show_nat.simps, subst show_nat.simps, subst show_nat.simps) auto
  have lead: "show_nat n = ''0'' \<or> hd (show_nat n) \<noteq> CHR ''0''"
  proof -
    have hd: "m < 10 \<Longrightarrow> hd (show_nat m) = digit m" for m
      by (subst show_nat.simps) simp
    have d0: "m < 10 \<Longrightarrow> digit m = CHR ''0'' \<Longrightarrow> m = 0" for m
      using digit_val_digit [of m] by (simp add: digit_val_def code_def)
    have "n < 10 \<or> 10 \<le> n \<and> n < 100 \<or> 100 \<le> n \<and> n < 1000" using assms by arith
    then show ?thesis
    proof (elim disjE conjE)
      assume "n < 10"
      then show ?thesis using hd [of n] d0 [of n]
        by (cases "n = 0") (auto simp: show_nat.simps [of 0] digit_def)
    next
      assume "10 \<le> n" "n < 100"
      then have "hd (show_nat n) = digit (n div 10)" "n div 10 \<noteq> 0" "n div 10 < 10"
        using hd [of "n div 10"] by (auto simp: show_nat.simps [of n])
      then show ?thesis using d0 by metis
    next
      assume "100 \<le> n" "n < 1000"
      then have "hd (show_nat n) = digit (n div 10 div 10)" "n div 10 div 10 \<noteq> 0"
        "n div 10 div 10 < 10"
        using hd [of "n div 10 div 10"]
        by (auto simp: show_nat.simps [of n] show_nat.simps [of "n div 10"] div_mult2_eq [symmetric])
      then show ?thesis using d0 by metis
    qed
  qed
  have "list_all is_digit (show_nat n)" using show_nat_digits by (simp add: list_all_iff)
  with len lead assms show ?thesis
    by (auto simp: parse_octet_def digits_val_show_nat)
qed

lemma show_nat_no_char:
  "\<not> is_digit c \<Longrightarrow> c \<notin> set (show_nat n)"
  using show_nat_digits by blast

lemma split_show_ipv4:
  "split_on CHR ''.'' (show_ipv4 n) =
     [show_nat (n div 16777216), show_nat (n div 65536 mod 256), show_nat (n div 256 mod 256),
      show_nat (n mod 256)]"
proof -
  have "\<not> is_digit CHR ''.''" by (simp add: is_digit_def code_def)
  then show ?thesis
    unfolding show_ipv4_def by (intro split_on_join) (auto simp: show_nat_no_char)
qed

lemma bytes_of_nat:
  fixes n :: nat
  shows "((n div 16777216 * 256 + n div 65536 mod 256) * 256 + n div 256 mod 256) * 256 + n mod 256 = n"
proof -
  have "n div 16777216 = n div 256 div 256 div 256" and "n div 65536 = n div 256 div 256"
    by (simp_all add: div_mult2_eq [symmetric])
  then show ?thesis by (metis div_mult_mod_eq)
qed

theorem parse_show_ipv4: "n < 2 ^ 32 \<Longrightarrow> parse_ipv4 (show_ipv4 n) = Some n"
proof -
  assume "n < 2 ^ 32"
  then have "n div 16777216 \<le> 255" by (simp add: less_mult_imp_div_less [of n 256 16777216, simplified])
  then show ?thesis
    using bytes_of_nat [of n]
    by (simp add: parse_ipv4_def split_show_ipv4 parse_octet_show)
qed

lemma slash_not_in_show_ipv4: "CHR ''/'' \<notin> set (show_ipv4 n)"
proof -
  have "\<not> is_digit CHR ''/''" by (simp add: is_digit_def code_def)
  then show ?thesis by (simp add: show_ipv4_def show_nat_no_char)
qed

lemma parse_prefix_len_show: "p \<le> w \<Longrightarrow> parse_prefix_len w (show_nat p) = Some p"
  using show_nat_digits [of p]
  by (simp add: parse_prefix_len_def digits_val_show_nat list_all_iff)

lemma masked_le: "masked w p v \<le> v"
  by (simp add: masked_def)

lemma masked_idem [simp]: "masked w p (masked w p v) = masked w p v"
  by (simp add: masked_def)

lemma masked_full [simp]: "masked w w v = v"
  by (simp add: masked_def)

text \<open>Printing a network and parsing it back gives the network, strict or not.\<close>

theorem ip_network_of_show_ipv4:
  assumes "v < 2 ^ 32" and "p \<le> 32" and "masked 32 p v = v"
  shows "ip_network_of (show_network (IPv4Network v p)) strict = Some (IPv4Network v p)"
proof -
  have "\<not> is_digit CHR ''/''" by (simp add: is_digit_def code_def)
  then have "split_on CHR ''/'' (show_network (IPv4Network v p)) = [show_ipv4 v, show_nat p]"
    using split_on_append [OF slash_not_in_show_ipv4, of v "show_nat p"]
    by (simp add: show_nat_no_char)
  with assms show ?thesis
    by (simp add: ip_network_of_def ipv4_network_of_def parse_show_ipv4 parse_netmask4_def
        parse_prefix_len_show)
qed

lemma ipv4_network_of_address:
  assumes "v < 2 ^ 32"
  shows "ip_network_of (show_ipv4 v) strict = Some (IPv4Network v 32)"
  using assms slash_not_in_show_ipv4 [of v]
  by (simp add: ip_network_of_def ipv4_network_of_def parse_show_ipv4)

lemma parse_octet_le: "parse_octet s = Some n \<Longrightarrow> n \<le> 255"
  by (simp add: parse_octet_def split: if_splits)

lemma parse_ipv4_bound:
  assumes "parse_ipv4 s = Some v"
  shows "v < 2 ^ 32"
proof -
  obtain a b c d w x y z where "parse_octet a = Some w" "parse_octet b = Some x"
    "parse_octet c = Some y" "parse_octet d = Some z"
    and v: "v = ((w * 256 + x) * 256 + y) * 256 + z"
    using assms unfolding parse_ipv4_def by (auto split: list.splits option.splits)
  then have "w \<le> 255" "x \<le> 255" "y \<le> 255" "z \<le> 255"
    by (blast intro: parse_octet_le)+
  with v show ?thesis by simp
qed

end
