(* ===== verification/Bytes.thy ===== *)
theory Bytes
  imports Exceptions
begin

text \<open>
  Bytes and text. A text that may hold characters beyond ASCII is held as its UTF-8 bytes, so
  \<open>encode\<close> is the identity and \<open>decode\<close> a check.
\<close>

text \<open>The ranges of the bytes that may follow the first byte of a character in UTF-8.\<close>

definition utf8_tail :: "char \<Rightarrow> (nat \<times> nat) list option" where
  "utf8_tail c =
     (let n = code c; cont = (0x80, 0xBF) in
      if n < 0x80 then Some []
      else if 0xC2 \<le> n \<and> n \<le> 0xDF then Some [cont]
      else if n = 0xE0 then Some [(0xA0, 0xBF), cont]
      else if n = 0xED then Some [(0x80, 0x9F), cont]
      else if 0xE1 \<le> n \<and> n \<le> 0xEF then Some [cont, cont]
      else if n = 0xF0 then Some [(0x90, 0xBF), cont, cont]
      else if 0xF1 \<le> n \<and> n \<le> 0xF3 then Some [cont, cont, cont]
      else if n = 0xF4 then Some [(0x80, 0x8F), cont, cont]
      else None)"

fun utf8_from :: "(nat \<times> nat) list \<Rightarrow> string \<Rightarrow> bool" where
  "utf8_from rs [] = (rs = [])"
| "utf8_from [] (c # cs) = (case utf8_tail c of None \<Rightarrow> False | Some rs \<Rightarrow> utf8_from rs cs)"
| "utf8_from ((lo, hi) # rs) (c # cs) = (lo \<le> code c \<and> code c \<le> hi \<and> utf8_from rs cs)"

definition decode :: "string \<Rightarrow> ('s, py_exn, string) sem" where
  "decode bytes = (if utf8_from [] bytes then ret bytes else throw UnicodeDecodeError)"

text \<open>
  \<open>int(bytes)\<close>: as \<open>int_of\<close>, but the separators 28 to 31 are no white space in bytes, and more
  than 4300 digits are refused.
\<close>

definition int_of_bytes :: "string \<Rightarrow> int option" where
  "int_of_bytes b =
     (if list_ex (\<lambda>c. 28 \<le> code c \<and> code c \<le> 31) b \<or> 4300 < length (filter is_digit b)
      then None else int_of b)"

lemma decode_returns [simp]: "decode b s = (Inr x, t) \<longleftrightarrow> x = b \<and> t = s \<and> utf8_from [] b"
  by (auto simp: decode_def)

lemma int_of_bytes_show_nat:
  assumes "length (show_nat n) \<le> 4300"
  shows "int_of_bytes (show_nat n) = Some (int n)"
proof -
  have "\<not> list_ex (\<lambda>c. 28 \<le> code c \<and> code c \<le> 31) (show_nat n)"
    using show_nat_digits [of n] by (auto simp: list_ex_iff is_digit_def)
  moreover have "length (filter is_digit (show_nat n)) \<le> 4300"
    using assms length_filter_le [of is_digit "show_nat n"] by linarith
  ultimately show ?thesis by (simp add: int_of_bytes_def)
qed

text \<open>Text files are read with universal newlines: \<open>\\r\\n\<close> and \<open>\\r\<close> are read as \<open>\\n\<close>.\<close>

fun universal_newlines :: "string \<Rightarrow> string" where
  "universal_newlines [] = []"
| "universal_newlines [c] = [if c = CHR 13 then CHR 10 else c]"
| "universal_newlines (c # d # cs) =
     (if c = CHR 13
      then CHR 10 # universal_newlines (if d = CHR 10 then cs else d # cs)
      else c # universal_newlines (d # cs))"

end
