(* ===== verification/Socketmap.thy ===== *)
theory Socketmap
  imports Models Ipaddress Bytes
begin

text \<open>
  src/backend/taramail/socketmap.py: the server that tells Postfix which domains to relay for. The
  reader of a connection is the bytes its client will have sent when it closes its side, the writer
  the bytes written so far. A text of the protocol is held as its UTF-8 bytes, so \<open>encode\<close> is the
  identity and \<open>decode\<close> a check. What the network says when the writer is drained is a parameter.
  The session of a connection never commits, so all its lookups read the database \<open>d\<close> of the
  snapshot its first lookup made.
\<close>

section \<open>Representation of a text\<close>

text \<open>\<open>repr(s)\<close>; the characters above ASCII are taken to be printable.\<close>

definition repr_char :: "char \<Rightarrow> char \<Rightarrow> string" where
  "repr_char quote c =
     (if c = quote \<or> c = CHR 0x5C then [CHR 0x5C, c]
      else if c = CHR 9 then [CHR 0x5C, CHR ''t'']
      else if c = CHR 10 then [CHR 0x5C, CHR ''n'']
      else if c = CHR 13 then [CHR 0x5C, CHR ''r'']
      else if code c < 32 \<or> code c = 127
      then [CHR 0x5C, CHR ''x'', hex_digit (code c div 16), hex_digit (code c mod 16)]
      else [c])"

definition repr_str :: "string \<Rightarrow> string" where
  "repr_str s =
     (let quote = (if CHR 0x27 \<in> set s \<and> CHR 0x22 \<notin> set s then CHR 0x22 else CHR 0x27)
      in [quote] @ concat (map (repr_char quote) s) @ [quote])"

section \<open>Netstrings\<close>

text \<open>\<open>StreamReader.readexactly\<close>: on a short read the rest of the stream is dropped.\<close>

definition readexactly :: "int \<Rightarrow> (string, py_exn, string) sem" where
  "readexactly n s =
     (if n < 0 then (Inl (ValueError ''readexactly size can not be less than zero''), s)
      else if length s < nat n then (Inl IncompleteReadError, [])
      else (Inr (take (nat n) s), drop (nat n) s))"

text \<open>The loop that reads one byte at a time up to the colon.\<close>

fun read_length :: "string \<Rightarrow> (string, py_exn, string) sem" where
  "read_length length_bytes [] = (Inl IncompleteReadError, [])"
| "read_length length_bytes (byte # s) =
     (if byte = CHR '':'' then (Inr length_bytes, s) else read_length (length_bytes @ [byte]) s)"

definition read_netstring :: "(string, py_exn, string) sem" where
  "read_netstring =
     bindM (read_length []) (\<lambda>length_bytes.
     case int_of_bytes length_bytes of
       None \<Rightarrow> throw (ValueError ''invalid literal for int() with base 10'')
     | Some n \<Rightarrow>
         bindM (readexactly n) (\<lambda>payload.
         seqM (readexactly 1)
         (decode payload)))"

definition write_netstring :: "string \<Rightarrow> string" where
  "write_netstring data = show_nat (length data) @ '':'' @ data @ '',''"

section \<open>The server\<close>

definition lookup_relay_domain :: "db \<Rightarrow> string \<Rightarrow> string option" where
  "lookup_relay_domain d key =
     map_option do_domain (first_where (\<lambda>r. do_domain r = key \<and> do_active r) (t_domain d))"

text \<open>The answer to one request, and the loop that answers until the client is done.\<close>

definition answer :: "db \<Rightarrow> string \<Rightarrow> string" where
  "answer d data =
     (let name = before CHR '' '' data; key = after CHR '' '' data in
      if name = ''relay_domains''
      then (case lookup_relay_domain d key of
              None \<Rightarrow> ''NOTFOUND ''
            | Some result \<Rightarrow> if result \<noteq> [] then ''OK '' @ result else ''NOTFOUND '')
      else ''PERM unknown map '' @ repr_str name)"

lemma read_length_shorter: "read_length acc s = (Inr b, t) \<Longrightarrow> length t < length s"
  by (induction acc s rule: read_length.induct) (auto split: if_splits)

lemma readexactly_shorter: "readexactly n s = (Inr b, t) \<Longrightarrow> length t \<le> length s"
  by (auto simp: readexactly_def split: if_splits)

lemma read_netstring_shorter: "read_netstring s = (Inr data, t) \<Longrightarrow> length t < length s"
  by (fastforce simp: read_netstring_def sem_returns split: option.splits
      dest: read_length_shorter readexactly_shorter)

function serve ::
  "(string \<Rightarrow> py_exn option) \<Rightarrow> db \<Rightarrow> string \<Rightarrow> string \<Rightarrow> (py_exn + unit) \<times> string \<times> string" where
  "serve drain d input output =
     (case read_netstring input of
        (Inl e, rest) \<Rightarrow> (if e = IncompleteReadError then Inr () else Inl e, rest, output)
      | (Inr data, rest) \<Rightarrow>
          (let output' = output @ write_netstring (answer d data) in
           case drain output' of
             Some e \<Rightarrow> (Inl e, rest, output')
           | None \<Rightarrow> serve drain d rest output'))"
  by pat_completeness auto
termination
  by (relation "measure (\<lambda>(_, _, input, _). length input)")
     (auto dest: read_netstring_shorter [OF sym])

declare serve.simps [simp del]

record connection =
  cn_input :: string
  cn_output :: string
  cn_closed :: bool

definition handle_client ::
  "(string \<Rightarrow> py_exn option) \<Rightarrow> db \<Rightarrow> (connection, py_exn, unit) sem" where
  "handle_client drain d c =
     (case serve drain d (cn_input c) (cn_output c) of
        (r, input, output) \<Rightarrow>
          (if r = Inl BrokenPipeError \<or> r = Inl ConnectionResetError then Inr () else r,
           \<lparr>cn_input = input, cn_output = output, cn_closed = True\<rparr>))"

section \<open>Reading what was written\<close>

lemma read_length_colon:
  "CHR '':'' \<notin> set b \<Longrightarrow> read_length acc (b @ CHR '':'' # s) = (Inr (acc @ b), s)"
  by (induction b arbitrary: acc) auto

lemma read_length_short: "CHR '':'' \<notin> set b \<Longrightarrow> read_length acc b = (Inl IncompleteReadError, [])"
  by (induction acc b rule: read_length.induct) auto

lemma show_nat_no_colon [simp]: "CHR '':'' \<notin> set (show_nat n)"
  using show_nat_digits [of n] by (auto dest: is_digit_facts(5))

definition fits :: "string \<Rightarrow> bool" where
  "fits data \<longleftrightarrow> utf8_from [] data \<and> length (show_nat (length data)) \<le> 4300"

lemma read_write_netstring:
  "fits data \<Longrightarrow> read_netstring (write_netstring data @ rest) = (Inr data, rest)"
  by (simp add: read_netstring_def write_netstring_def bindM_def seqM_def read_length_colon
      int_of_bytes_show_nat readexactly_def fits_def)

text \<open>A stream that ends inside a netstring.\<close>

lemma read_netstring_cut:
  assumes "fits data" and "write_netstring data = tail @ u" and "u \<noteq> []"
  shows "read_netstring tail = (Inl IncompleteReadError, [])"
proof (cases "CHR '':'' \<in> set tail")
  case False
  then show ?thesis by (simp add: read_netstring_def bindM_def read_length_short)
next
  case True
  let ?n = "show_nat (length data)"
  obtain v where v: "tail = ?n @ CHR '':'' # v"
  proof -
    from True obtain a b where ab: "tail = a @ CHR '':'' # b" "CHR '':'' \<notin> set a"
      by (meson split_list_first)
    with assms(2) have "?n @ CHR '':'' # (data @ '','') = a @ CHR '':'' # (b @ u)"
      by (simp add: write_netstring_def)
    then have "a = ?n" using ab(2) before_append [of "CHR '':''" a] before_append [of "CHR '':''" ?n]
      by (metis show_nat_no_colon)
    with ab(1) show ?thesis using that by simp
  qed
  with assms(2) have "data @ '','' = v @ u" by (simp add: write_netstring_def)
  from arg_cong [OF this, of length] have "length data + 1 = length v + length u" by simp
  with assms(3) have len: "length v \<le> length data" by (cases u) simp_all
  show ?thesis
  proof (cases "length v < length data")
    case True
    with assms(1) show ?thesis
      by (simp add: v read_netstring_def bindM_def read_length_colon int_of_bytes_show_nat
          fits_def readexactly_def)
  next
    case False
    with len have "length v = length data" by simp
    with assms(1) show ?thesis
      by (simp add: v read_netstring_def bindM_def seqM_def read_length_colon int_of_bytes_show_nat
          fits_def readexactly_def)
  qed
qed

lemma serve_request:
  "fits q \<Longrightarrow> drain (sent @ write_netstring (answer d q)) = None \<Longrightarrow>
     serve drain d (write_netstring q @ rest) sent =
       serve drain d rest (sent @ write_netstring (answer d q))"
  by (subst serve.simps) (simp add: read_write_netstring Let_def)

section \<open>Properties\<close>

text \<open>
  C4. The server refines a map from requests to answers: however the client cuts its requests into
  packets and wherever it stops sending, each complete netstring is answered in turn by the netstring
  of its answer, the unfinished rest is not answered, and the connection is closed without an
  exception.
\<close>
theorem handle_client_answers_each_request:
  assumes "\<forall>q \<in> set qs. fits q" and "fits p" and "write_netstring p = tail @ u" and "u \<noteq> []"
  shows "handle_client (\<lambda>_. None) d
      \<lparr>cn_input = concat (map write_netstring qs) @ tail, cn_output = [], cn_closed = False\<rparr> =
    (Inr (), \<lparr>cn_input = [], cn_output = concat (map (\<lambda>q. write_netstring (answer d q)) qs),
       cn_closed = True\<rparr>)"
proof -
  have "serve (\<lambda>_. None) d (concat (map write_netstring qs) @ tail) sent =
      (Inr (), [], sent @ concat (map (\<lambda>q. write_netstring (answer d q)) qs))" for sent
    using assms(1)
  proof (induction qs arbitrary: sent)
    case Nil
    from read_netstring_cut [OF assms(2-4)] show ?case by (subst serve.simps) simp
  next
    case (Cons q qs)
    then show ?case using serve_request [of q "\<lambda>_. None" sent d] by simp
  qed
  then show ?thesis by (simp add: handle_client_def)
qed

lemma handle_client_answers_each_request_witness:
  "handle_client (\<lambda>_. None) empty_db
     \<lparr>cn_input = ''19:relay_domains a.org,1:,,4:rela'', cn_output = [], cn_closed = False\<rparr> =
   (Inr (), \<lparr>cn_input = [], cn_output = ''9:NOTFOUND ,20:PERM unknown map '' @ [CHR 0x27] @ '','' @ [CHR 0x27] @ '','',
      cn_closed = True\<rparr>)"
proof -
  have n: "write_netstring ''relay_domains a.org'' = ''19:relay_domains a.org,''"
    "write_netstring '','' = ''1:,,''" "write_netstring ''rela'' = ''4:rela,''"
    by code_simp+
  have q: "\<forall>q \<in> set [''relay_domains a.org'', '','']. fits q" "fits ''rela''"
    by code_simp+
  have a: "concat (map (\<lambda>q. write_netstring (answer empty_db q)) [''relay_domains a.org'', '','']) =
      ''9:NOTFOUND ,20:PERM unknown map '' @ [CHR 0x27] @ '','' @ [CHR 0x27] @ '',''"
    by code_simp
  show ?thesis
    using handle_client_answers_each_request [OF q, of "''4:rela''" "'',''" empty_db] a
    by (simp add: n)
qed

lemma lookup_relay_domain_eq:
  "lookup_relay_domain d key =
     (if \<exists>r \<in> set (t_domain d). do_domain r = key \<and> do_active r then Some key else None)"
proof (cases "first_where (\<lambda>r. do_domain r = key \<and> do_active r) (t_domain d)")
  case None
  then show ?thesis by (auto simp: lookup_relay_domain_def)
next
  case (Some r)
  with first_where_Some [OF Some] show ?thesis by (auto simp: lookup_relay_domain_def)
qed

text \<open>
  The server says \<open>OK\<close> to nothing but a request for the map \<open>relay_domains\<close> with the name of
  an active domain, and then returns that name; any other key of the map is not found.
\<close>
theorem socketmap_relays_active_domains:
  "answer d (''relay_domains '' @ key) =
     (if key \<noteq> [] \<and> (\<exists>r \<in> set (t_domain d). do_domain r = key \<and> do_active r)
      then ''OK '' @ key else ''NOTFOUND '') \<and>
   (answer d data = ''OK '' @ x \<longrightarrow> data = ''relay_domains '' @ x \<and>
      (\<exists>r \<in> set (t_domain d). do_domain r = x \<and> do_active r))"
proof
  note lookup = lookup_relay_domain_eq [of d]
  have split: "before CHR '' '' (''relay_domains '' @ key) = ''relay_domains''"
    "after CHR '' '' (''relay_domains '' @ key) = key"
    by (simp_all add: before_def after_def)
  show "answer d (''relay_domains '' @ key) =
     (if key \<noteq> [] \<and> (\<exists>r \<in> set (t_domain d). do_domain r = key \<and> do_active r)
      then ''OK '' @ key else ''NOTFOUND '')"
    unfolding answer_def Let_def split lookup by auto
  show "answer d data = ''OK '' @ x \<longrightarrow> data = ''relay_domains '' @ x \<and>
      (\<exists>r \<in> set (t_domain d). do_domain r = x \<and> do_active r)"
  proof
    assume a: "answer d data = ''OK '' @ x"
    then have name: "before CHR '' '' data = ''relay_domains''"
      and key: "after CHR '' '' data = x" "x \<noteq> []"
      and active: "\<exists>r \<in> set (t_domain d). do_domain r = x \<and> do_active r"
      by (auto simp: answer_def Let_def lookup split: if_splits)
    from key have "CHR '' '' \<in> set data" using after_none by blast
    from before_after [OF this] name key(1) active
    show "data = ''relay_domains '' @ x \<and> (\<exists>r \<in> set (t_domain d). do_domain r = x \<and> do_active r)"
      by simp
  qed
qed

lemma socketmap_relays_active_domains_witness:
  "answer (empty_db\<lparr>t_domain := [\<lparr>do_domain = ''a.org'', do_description = None, do_aliases = 0,
     do_mailboxes = 0, do_defquota = 0, do_maxquota = 0, do_quota = 0, do_relayhost = 0,
     do_backupmx = False, do_gal = False, do_relay_all_recipients = False,
     do_relay_unknown_only = False, do_active = True\<rparr>]\<rparr>) ''relay_domains a.org'' = ''OK a.org''"
  using socketmap_relays_active_domains [of _ "''a.org''"] by simp

end
