(* ===== verification/DmarcXml.thy ===== *)
theory DmarcXml
  imports Exceptions
begin

text \<open>
  The reading of DMARC aggregate reports in src/backend/taramail/dmarc.py: \<open>parse_dmarc_xml\<close> and
  \<open>_text\<close> on the element tree that the parser of defusedxml returns, which is a parameter of the
  callers. A date is the number of seconds since the epoch, \<open>now\<close> the reading of the clock. The tag
  of an element is its name with its namespace in braces in front, as ElementTree has it; the
  namespace is taken not to be the wildcard \<open>*\<close>.
\<close>

datatype xml = Element (tag: string) (text_of: "string option") (children: "xml list")

definition find_child :: "xml \<Rightarrow> string \<Rightarrow> xml option" where
  "find_child el t = find (\<lambda>c. tag c = t) (children el)"

definition find_children :: "xml \<Rightarrow> string \<Rightarrow> xml list" where
  "find_children el t = filter (\<lambda>c. tag c = t) (children el)"

definition element_text :: "xml option \<Rightarrow> string \<Rightarrow> string \<Rightarrow> string" where
  "element_text element t dflt =
     (case element of
        None \<Rightarrow> dflt
      | Some el \<Rightarrow>
          (case find_child el t of
             None \<Rightarrow> dflt
           | Some child \<Rightarrow>
               (case text_of child of
                  None \<Rightarrow> dflt
                | Some s \<Rightarrow> if s = [] then dflt else strip s)))"

record report_data =
  rd_report_id :: string
  rd_org_name :: string
  rd_org_email :: string
  rd_domain :: string
  rd_policy :: string
  rd_begin_date :: int
  rd_end_date :: int

record record_data =
  cd_source_ip :: string
  cd_count :: int
  cd_disposition :: string
  cd_dkim_result :: string
  cd_spf_result :: string
  cd_dmarc_result :: string
  cd_header_from :: string
  cd_envelope_from :: string

definition namespace :: "xml \<Rightarrow> string" where
  "namespace root = (if starts_with ''{'' (tag root) then before CHR ''}'' (tag root) @ ''}'' else [])"

definition int_arg :: "string \<Rightarrow> ('s, py_exn, int) sem" where
  "int_arg s =
     (case int_of s of
        None \<Rightarrow> throw (ValueError ''invalid literal for int() with base 10'') | Some i \<Rightarrow> ret i)"

text \<open>\<open>datetime.fromtimestamp(i, tz=UTC)\<close> takes the years 1 to 9999.\<close>

definition from_timestamp :: "int \<Rightarrow> ('s, py_exn, int) sem" where
  "from_timestamp i =
     (if -62135596800 \<le> i \<and> i \<le> 253402300799 then ret i
      else if - (2 ^ 63) \<le> i \<and> i < 2 ^ 63 then throw (ValueError ''year is out of range'')
      else throw (OverflowError ''timestamp out of range for platform time_t''))"

definition parse_dates :: "string \<Rightarrow> int \<Rightarrow> xml \<Rightarrow> ('s, py_exn, int \<times> int) sem" where
  "parse_dates ns now metadata =
     (case find_child metadata (ns @ ''date_range'') of
        None \<Rightarrow> ret (now, now)
      | Some date_range \<Rightarrow>
          (let begin_text = element_text (Some date_range) (ns @ ''begin'') [];
               end_text = element_text (Some date_range) (ns @ ''end'') []
           in bindM (bindM (int_arg begin_text) from_timestamp) (\<lambda>begin_date.
              bindM (bindM (int_arg end_text) from_timestamp) (\<lambda>end_date.
              ret (begin_date, end_date)))))"

text \<open>The result of a check in \<open>auth_results\<close>: \<open>none\<close> unless the element and its result are there.\<close>

definition auth_result :: "string \<Rightarrow> string \<Rightarrow> xml option \<Rightarrow> string" where
  "auth_result ns check auth_results =
     (case auth_results of
        None \<Rightarrow> ''none''
      | Some results \<Rightarrow>
          (case find_child results (ns @ check) of
             None \<Rightarrow> ''none''
           | Some el \<Rightarrow> element_text (Some el) (ns @ ''result'') ''none''))"

definition parse_record :: "string \<Rightarrow> xml \<Rightarrow> ('s, py_exn, record_data) sem" where
  "parse_record ns record_el =
     (let row = find_child record_el (ns @ ''row'');
          identifiers = find_child record_el (ns @ ''identifiers'');
          auth_results = find_child record_el (ns @ ''auth_results'');
          policy_evaluated =
            (case row of None \<Rightarrow> None | Some r \<Rightarrow> find_child r (ns @ ''policy_evaluated''));
          disposition =
            (if policy_evaluated = None then ''none''
             else element_text policy_evaluated (ns @ ''disposition'') ''none'');
          dkim_eval = element_text policy_evaluated (ns @ ''dkim'') ''fail'';
          spf_eval = element_text policy_evaluated (ns @ ''spf'') ''fail'';
          dmarc_result =
            (if policy_evaluated \<noteq> None \<and> (dkim_eval = ''pass'' \<or> spf_eval = ''pass'')
             then ''pass'' else ''fail'')
      in bindM (if row = None then ret 0 else int_arg (element_text row (ns @ ''count'') ''0'')) (\<lambda>count.
         ret \<lparr>cd_source_ip = (if row = None then ''unknown'' else element_text row (ns @ ''source_ip'') []),
              cd_count = count,
              cd_disposition = disposition,
              cd_dkim_result = auth_result ns ''dkim'' auth_results,
              cd_spf_result = auth_result ns ''spf'' auth_results,
              cd_dmarc_result = dmarc_result,
              cd_header_from = element_text identifiers (ns @ ''header_from'') [],
              cd_envelope_from = element_text identifiers (ns @ ''envelope_from'') []\<rparr>))"

definition parse_report :: "int \<Rightarrow> xml \<Rightarrow> ('s, py_exn, report_data \<times> record_data list) sem" where
  "parse_report now root =
     (let ns = namespace root;
          metadata = find_child root (ns @ ''report_metadata'');
          policy_published = find_child root (ns @ ''policy_published'')
      in bindM (case metadata of
                  None \<Rightarrow> throw (AttributeError ''find'')
                | Some m \<Rightarrow> parse_dates ns now m) (\<lambda>(begin_date, end_date).
         bindM (mapM (parse_record ns) (find_children root (ns @ ''record''))) (\<lambda>records.
         ret (\<lparr>rd_report_id = element_text metadata (ns @ ''report_id'') [],
               rd_org_name = element_text metadata (ns @ ''org_name'') [],
               rd_org_email = element_text metadata (ns @ ''email'') [],
               rd_domain = element_text policy_published (ns @ ''domain'') [],
               rd_policy = element_text policy_published (ns @ ''p'') ''none'',
               rd_begin_date = begin_date, rd_end_date = end_date\<rparr>, records))))"

definition parse_dmarc_xml ::
  "(string \<Rightarrow> py_exn + xml) \<Rightarrow> int \<Rightarrow> string \<Rightarrow> ('s, py_exn, report_data \<times> record_data list) sem" where
  "parse_dmarc_xml safe_fromstring now xml_data =
     (case safe_fromstring xml_data of Inl e \<Rightarrow> throw e | Inr root \<Rightarrow> parse_report now root)"

section \<open>Reading changes nothing\<close>

lemma reads_int_arg [reads_intros]: "reads (int_arg x)"
  by (auto simp: int_arg_def intro: reads_intros split: option.splits)

lemma reads_from_timestamp [reads_intros]: "reads (from_timestamp i)"
  by (auto simp: from_timestamp_def intro: reads_intros)

lemma reads_parse_dates [reads_intros]: "reads (parse_dates ns now m)"
  by (auto simp: parse_dates_def Let_def intro!: reads_intros split: option.splits)

lemma reads_parse_record [reads_intros]: "reads (parse_record ns el)"
  unfolding parse_record_def Let_def by (rule reads_bindM) (auto intro: reads_intros)

lemma reads_parse_report [reads_intros]: "reads (parse_report now root)"
  unfolding parse_report_def Let_def
  by (rule reads_bindM) (auto intro!: reads_intros split: option.splits)

lemma reads_parse_dmarc_xml [reads_intros]: "reads (parse_dmarc_xml fromstring now doc)"
  by (auto simp: parse_dmarc_xml_def intro: reads_intros split: sum.splits)

section \<open>Reading a report that was written\<close>

text \<open>
  A report in the form of RFC 7489, appendix C, as its author writes it, in the namespace prefix \<open>ns\<close>:
  each text stands between white space \<open>pad\<close>, the range of dates may be missing, and so may the row of
  a record, its evaluated policy and each of its two results. The two evaluations of a policy are any
  words.
\<close>

record evaluated_policy =
  ev_disposition :: string
  ev_dkim :: string
  ev_spf :: string

record written_row =
  wr_source_ip :: string
  wr_count :: int
  wr_evaluated :: "evaluated_policy option"

record written_record =
  wr_row :: "written_row option"
  wr_dkim_result :: "string option"
  wr_spf_result :: "string option"
  wr_header_from :: string
  wr_envelope_from :: string

definition padded :: "string \<Rightarrow> string \<Rightarrow> string \<Rightarrow> xml" where
  "padded pad t s = Element t (Some (pad @ s @ pad)) []"

definition opt_child :: "('a \<Rightarrow> xml) \<Rightarrow> 'a option \<Rightarrow> xml list" where
  "opt_child f x = (case x of None \<Rightarrow> [] | Some a \<Rightarrow> [f a])"

definition evaluated_xml :: "string \<Rightarrow> string \<Rightarrow> evaluated_policy \<Rightarrow> xml" where
  "evaluated_xml pad ns e =
     Element (ns @ ''policy_evaluated'') None
       [padded pad (ns @ ''disposition'') (ev_disposition e), padded pad (ns @ ''dkim'') (ev_dkim e),
        padded pad (ns @ ''spf'') (ev_spf e)]"

definition row_xml :: "string \<Rightarrow> string \<Rightarrow> written_row \<Rightarrow> xml" where
  "row_xml pad ns r =
     Element (ns @ ''row'') None
       ([padded pad (ns @ ''source_ip'') (wr_source_ip r),
         padded pad (ns @ ''count'') (show_int (wr_count r))] @
        opt_child (evaluated_xml pad ns) (wr_evaluated r))"

definition identifiers_xml :: "string \<Rightarrow> string \<Rightarrow> written_record \<Rightarrow> xml" where
  "identifiers_xml pad ns r =
     Element (ns @ ''identifiers'') None
       [padded pad (ns @ ''header_from'') (wr_header_from r),
        padded pad (ns @ ''envelope_from'') (wr_envelope_from r)]"

definition result_xml :: "string \<Rightarrow> string \<Rightarrow> string \<Rightarrow> string \<Rightarrow> xml" where
  "result_xml pad ns check x = Element (ns @ check) None [padded pad (ns @ ''result'') x]"

definition results_xml :: "string \<Rightarrow> string \<Rightarrow> written_record \<Rightarrow> xml" where
  "results_xml pad ns r =
     Element (ns @ ''auth_results'') None
       (opt_child (result_xml pad ns ''dkim'') (wr_dkim_result r) @
        opt_child (result_xml pad ns ''spf'') (wr_spf_result r))"

definition record_xml :: "string \<Rightarrow> string \<Rightarrow> written_record \<Rightarrow> xml" where
  "record_xml pad ns r =
     Element (ns @ ''record'') None
       (opt_child (row_xml pad ns) (wr_row r) @ [identifiers_xml pad ns r, results_xml pad ns r])"

definition dates_xml :: "string \<Rightarrow> string \<Rightarrow> int \<times> int \<Rightarrow> xml" where
  "dates_xml pad ns dates =
     Element (ns @ ''date_range'') None
       [padded pad (ns @ ''begin'') (show_int (fst dates)), padded pad (ns @ ''end'') (show_int (snd dates))]"

definition metadata_xml :: "string \<Rightarrow> string \<Rightarrow> (int \<times> int) option \<Rightarrow> report_data \<Rightarrow> xml" where
  "metadata_xml pad ns dates r =
     Element (ns @ ''report_metadata'') None
       ([padded pad (ns @ ''org_name'') (rd_org_name r), padded pad (ns @ ''email'') (rd_org_email r),
         padded pad (ns @ ''report_id'') (rd_report_id r)] @ opt_child (dates_xml pad ns) dates)"

definition policy_xml :: "string \<Rightarrow> string \<Rightarrow> report_data \<Rightarrow> xml" where
  "policy_xml pad ns r =
     Element (ns @ ''policy_published'') None
       [padded pad (ns @ ''domain'') (rd_domain r), padded pad (ns @ ''p'') (rd_policy r)]"

definition report_xml ::
  "string \<Rightarrow> string \<Rightarrow> (int \<times> int) option \<Rightarrow> report_data \<Rightarrow> written_record list \<Rightarrow> xml" where
  "report_xml pad ns dates r records =
     Element (ns @ ''feedback'') None
       ([metadata_xml pad ns dates r, policy_xml pad ns r] @ map (record_xml pad ns) records)"

text \<open>
  What a written record says: mail passes DMARC when DKIM or SPF was evaluated as passing, an absent
  policy evaluated nothing, and an absent row tells neither a host nor a count.
\<close>

definition dmarc_of :: "evaluated_policy \<Rightarrow> string" where
  "dmarc_of e = (if ''pass'' \<in> {ev_dkim e, ev_spf e} then ''pass'' else ''fail'')"

definition or_else :: "'a \<Rightarrow> ('b \<Rightarrow> 'a) \<Rightarrow> 'b option \<Rightarrow> 'a" where
  "or_else dflt f x = (case x of None \<Rightarrow> dflt | Some b \<Rightarrow> f b)"

definition record_said :: "written_record \<Rightarrow> record_data" where
  "record_said r =
     (let evaluated = or_else None wr_evaluated (wr_row r) in
      \<lparr>cd_source_ip = or_else ''unknown'' wr_source_ip (wr_row r),
       cd_count = or_else 0 wr_count (wr_row r),
       cd_disposition = or_else ''none'' ev_disposition evaluated,
       cd_dkim_result = or_else ''none'' id (wr_dkim_result r),
       cd_spf_result = or_else ''none'' id (wr_spf_result r),
       cd_dmarc_result = or_else ''fail'' dmarc_of evaluated,
       cd_header_from = wr_header_from r, cd_envelope_from = wr_envelope_from r\<rparr>)"

definition report_said :: "(int \<times> int) option \<Rightarrow> int \<Rightarrow> report_data \<Rightarrow> report_data" where
  "report_said dates now r =
     r\<lparr>rd_begin_date := or_else now fst dates, rd_end_date := or_else now snd dates\<rparr>"

definition namespace_prefix :: "string \<Rightarrow> bool" where
  "namespace_prefix ns \<longleftrightarrow> ns = [] \<or> (\<exists>uri. ns = ''{'' @ uri @ ''}'' \<and> CHR ''}'' \<notin> set uri)"

definition bare :: "string \<Rightarrow> bool" where
  "bare s \<longleftrightarrow> strip s = s"

definition word :: "string \<Rightarrow> bool" where
  "word s \<longleftrightarrow> s \<noteq> [] \<and> bare s"

definition evaluated_plain :: "evaluated_policy \<Rightarrow> bool" where
  "evaluated_plain e \<longleftrightarrow> word (ev_disposition e) \<and> word (ev_dkim e) \<and> word (ev_spf e)"

definition row_plain :: "written_row \<Rightarrow> bool" where
  "row_plain r \<longleftrightarrow> bare (wr_source_ip r) \<and> pred_option evaluated_plain (wr_evaluated r)"

definition record_plain :: "written_record \<Rightarrow> bool" where
  "record_plain r \<longleftrightarrow>
     pred_option row_plain (wr_row r) \<and> pred_option word (wr_dkim_result r) \<and>
     pred_option word (wr_spf_result r) \<and> bare (wr_header_from r) \<and> bare (wr_envelope_from r)"

definition report_plain :: "report_data \<Rightarrow> bool" where
  "report_plain r \<longleftrightarrow>
     bare (rd_report_id r) \<and> bare (rd_org_name r) \<and> bare (rd_org_email r) \<and> bare (rd_domain r) \<and>
     word (rd_policy r)"

definition year_in_range :: "int \<Rightarrow> bool" where
  "year_in_range i \<longleftrightarrow> -62135596800 \<le> i \<and> i \<le> 253402300799"

definition dates_plain :: "(int \<times> int) option \<Rightarrow> bool" where
  "dates_plain dates \<longleftrightarrow> pred_option (\<lambda>(b, e). year_in_range b \<and> year_in_range e) dates"

lemma find_child_Element:
  "find_child (Element t x (c # cs)) u = (if tag c = u then Some c else find_child (Element t x cs) u)"
  "find_child (Element t x []) u = None"
  by (simp_all add: find_child_def)

lemma find_child_opt:
  "find_child (Element t x (opt_child f y @ cs)) u =
     (case y of None \<Rightarrow> find_child (Element t x cs) u
      | Some a \<Rightarrow> if tag (f a) = u then Some (f a) else find_child (Element t x cs) u)"
  "find_child (Element t x (opt_child f y)) u =
     (case y of None \<Rightarrow> None | Some a \<Rightarrow> if tag (f a) = u then Some (f a) else None)"
  by (simp_all add: find_child_def opt_child_def split: option.splits)

lemma xml_tags [simp]:
  "tag (padded pad t s) = t" "tag (evaluated_xml pad ns e) = ns @ ''policy_evaluated''"
  "tag (row_xml pad ns w) = ns @ ''row''" "tag (identifiers_xml pad ns r) = ns @ ''identifiers''"
  "tag (result_xml pad ns check y) = ns @ check" "tag (results_xml pad ns r) = ns @ ''auth_results''"
  "tag (record_xml pad ns r) = ns @ ''record''" "tag (dates_xml pad ns dates) = ns @ ''date_range''"
  "tag (metadata_xml pad ns od d) = ns @ ''report_metadata''"
  "tag (policy_xml pad ns d) = ns @ ''policy_published''"
  by (simp_all add: padded_def evaluated_xml_def row_xml_def identifiers_xml_def result_xml_def
      results_xml_def record_xml_def dates_xml_def metadata_xml_def policy_xml_def)

lemmas element_find = find_child_Element find_child_opt

section \<open>Texts between white space\<close>

lemma strip_padded:
  assumes "list_all is_space p"
  shows "strip (p @ s @ p) = strip s"
proof -
  have p: "dropWhile is_space (p @ t) = dropWhile is_space t"
    "dropWhile is_space (rev p @ t) = dropWhile is_space t" for t
    using assms dropWhile_append2 [of p is_space t] dropWhile_append2 [of "rev p" is_space t]
    by (simp_all add: list_all_iff)
  show ?thesis
  proof (cases "list_all is_space s")
    case True
    then have "dropWhile is_space (s @ p) = []" "dropWhile is_space s = []" "dropWhile is_space p = []"
      using assms by (simp_all add: list_all_iff)
    note empty = this
    show ?thesis by (simp add: strip_def lstrip_by_def rstrip_by_def p empty)
  next
    case False
    then have "dropWhile is_space (s @ p) = dropWhile is_space s @ p"
      by (auto simp: list_all_iff dropWhile_append1)
    then show ?thesis by (simp add: strip_def lstrip_by_def rstrip_by_def p)
  qed
qed

lemma element_text_padded:
  assumes "list_all is_space pad" and "find_child el t = Some (padded pad t s)" and "bare s"
    and "s = [] \<longrightarrow> dflt = []"
  shows "element_text (Some el) t dflt = s"
  using assms strip_padded [OF assms(1), of s] by (auto simp: element_text_def padded_def bare_def)

lemma show_int_chars: "c \<in> set (show_int i) \<Longrightarrow> is_digit c \<or> c = CHR ''-''"
  using show_nat_digits by (auto simp: show_int_def split: if_splits)

lemma show_int_not_Nil [simp]: "show_int i \<noteq> []"
  by (simp add: show_int_def)

lemma bare_show_int [simp]: "bare (show_int i)"
proof -
  have "\<forall>c \<in> set (show_int i). \<not> is_space c"
    using show_int_chars is_digit_facts(1) minus_not_space by blast
  then show ?thesis unfolding bare_def by (rule strip_no_space)
qed

lemma int_arg_show [simp]: "int_arg (show_int i) = ret i"
  by (simp add: int_arg_def int_of_show_int)

lemma from_timestamp_year [simp]: "year_in_range i \<Longrightarrow> from_timestamp i = ret i"
  by (simp add: from_timestamp_def year_in_range_def)

section \<open>A written record\<close>

lemma record_parts:
  "find_child (record_xml pad ns r) (ns @ ''row'') = map_option (row_xml pad ns) (wr_row r)"
  "find_child (record_xml pad ns r) (ns @ ''identifiers'') = Some (identifiers_xml pad ns r)"
  "find_child (record_xml pad ns r) (ns @ ''auth_results'') = Some (results_xml pad ns r)"
  by (simp_all add: record_xml_def element_find split: option.splits)

lemma row_parts:
  "find_child (row_xml pad ns w) (ns @ ''policy_evaluated'') = map_option (evaluated_xml pad ns) (wr_evaluated w)"
  by (simp add: row_xml_def element_find split: option.splits)

lemma results_parts:
  "find_child (results_xml pad ns r) (ns @ ''dkim'') = map_option (result_xml pad ns ''dkim'') (wr_dkim_result r)"
  "find_child (results_xml pad ns r) (ns @ ''spf'') = map_option (result_xml pad ns ''spf'') (wr_spf_result r)"
  by (simp_all add: results_xml_def element_find split: option.splits)

lemma row_texts:
  assumes "list_all is_space pad" and "row_plain w"
  shows "element_text (Some (row_xml pad ns w)) (ns @ ''source_ip'') [] = wr_source_ip w"
    and "element_text (Some (row_xml pad ns w)) (ns @ ''count'') ''0'' = show_int (wr_count w)"
  using assms(2)
  by (auto intro!: element_text_padded [OF assms(1)] simp: row_xml_def element_find row_plain_def)

lemma identifiers_texts:
  assumes "list_all is_space pad" and "record_plain r"
  shows "element_text (Some (identifiers_xml pad ns r)) (ns @ ''header_from'') [] = wr_header_from r"
    and "element_text (Some (identifiers_xml pad ns r)) (ns @ ''envelope_from'') [] = wr_envelope_from r"
  using assms(2)
  by (auto intro!: element_text_padded [OF assms(1)] simp: identifiers_xml_def element_find record_plain_def)

lemma evaluated_texts:
  assumes "list_all is_space pad" and "evaluated_plain e"
  shows "element_text (Some (evaluated_xml pad ns e)) (ns @ ''disposition'') ''none'' = ev_disposition e"
    and "element_text (Some (evaluated_xml pad ns e)) (ns @ ''dkim'') ''fail'' = ev_dkim e"
    and "element_text (Some (evaluated_xml pad ns e)) (ns @ ''spf'') ''fail'' = ev_spf e"
  using assms(2)
  by (auto intro!: element_text_padded [OF assms(1)]
      simp: evaluated_xml_def element_find evaluated_plain_def word_def)

lemma result_text:
  assumes "list_all is_space pad" and "word x"
  shows "element_text (Some (result_xml pad ns check x)) (ns @ ''result'') ''none'' = x"
  using assms(2)
  by (auto intro!: element_text_padded [OF assms(1)] simp: result_xml_def element_find word_def)

lemma results_texts:
  assumes "list_all is_space pad" and "record_plain r"
  shows "auth_result ns ''dkim'' (Some (results_xml pad ns r)) = or_else ''none'' id (wr_dkim_result r)"
    and "auth_result ns ''spf'' (Some (results_xml pad ns r)) = or_else ''none'' id (wr_spf_result r)"
  using assms(2) result_text [OF assms(1)]
  by (auto simp: auth_result_def results_parts or_else_def record_plain_def split: option.splits)

lemma element_text_None [simp]: "element_text None t dflt = dflt"
  by (simp add: element_text_def)

lemma parse_record_xml:
  assumes "list_all is_space pad" and "record_plain r"
  shows "parse_record ns (record_xml pad ns r) s = (Inr (record_said r), s)"
proof (cases "wr_row r")
  case None
  then show ?thesis
    unfolding parse_record_def Let_def record_parts
    by (simp add: bindM_def identifiers_texts [OF assms] results_texts [OF assms] record_said_def or_else_def)
next
  case (Some w)
  with assms(2) have w: "row_plain w" by (simp add: record_plain_def)
  show ?thesis
  proof (cases "wr_evaluated w")
    case None
    with Some show ?thesis
      unfolding parse_record_def Let_def record_parts
      by (simp add: bindM_def row_parts row_texts [OF assms(1) w] identifiers_texts [OF assms]
          results_texts [OF assms] record_said_def or_else_def)
  next
    case e: (Some e)
    with w have "evaluated_plain e" by (simp add: row_plain_def)
    with Some e show ?thesis
      unfolding parse_record_def Let_def record_parts
      by (simp add: bindM_def row_parts row_texts [OF assms(1) w] identifiers_texts [OF assms]
          results_texts [OF assms] evaluated_texts [OF assms(1)] record_said_def or_else_def dmarc_of_def
          eq_commute [of "''pass''"])
  qed
qed

section \<open>A written report\<close>

lemma namespace_report: "namespace_prefix ns \<Longrightarrow> namespace (report_xml pad ns dates r records) = ns"
  by (auto simp: namespace_def report_xml_def namespace_prefix_def starts_with_def before_def
      takeWhile_append2 takeWhile_tail)

lemma find_records:
  "find_children (report_xml pad ns dates r records) (ns @ ''record'') = map (record_xml pad ns) records"
  by (simp add: find_children_def report_xml_def filter_map o_def)

lemma find_parts:
  "find_child (report_xml pad ns dates r records) (ns @ ''report_metadata'') = Some (metadata_xml pad ns dates r)"
  "find_child (report_xml pad ns dates r records) (ns @ ''policy_published'') = Some (policy_xml pad ns r)"
  by (simp_all add: report_xml_def find_child_Element)

lemma metadata_texts:
  assumes "list_all is_space pad" and "report_plain r"
  shows "element_text (Some (metadata_xml pad ns dates r)) (ns @ ''report_id'') [] = rd_report_id r"
    and "element_text (Some (metadata_xml pad ns dates r)) (ns @ ''org_name'') [] = rd_org_name r"
    and "element_text (Some (metadata_xml pad ns dates r)) (ns @ ''email'') [] = rd_org_email r"
    and "element_text (Some (policy_xml pad ns r)) (ns @ ''domain'') [] = rd_domain r"
    and "element_text (Some (policy_xml pad ns r)) (ns @ ''p'') ''none'' = rd_policy r"
  using assms(2)
  by (auto intro!: element_text_padded [OF assms(1)]
      simp: metadata_xml_def policy_xml_def element_find report_plain_def word_def)

lemma dates_texts:
  assumes "list_all is_space pad"
  shows "element_text (Some (dates_xml pad ns dates)) (ns @ ''begin'') [] = show_int (fst dates)"
    and "element_text (Some (dates_xml pad ns dates)) (ns @ ''end'') [] = show_int (snd dates)"
  by (auto intro!: element_text_padded [OF assms] simp: dates_xml_def element_find)

lemma metadata_dates:
  assumes "list_all is_space pad" and "dates_plain dates"
  shows "parse_dates ns now (metadata_xml pad ns dates r) s =
    (Inr (or_else now fst dates, or_else now snd dates), s)"
proof -
  have "find_child (metadata_xml pad ns dates r) (ns @ ''date_range'') = map_option (dates_xml pad ns) dates"
    by (simp add: metadata_xml_def element_find split: option.splits)
  then show ?thesis
    using assms(2) dates_texts [OF assms(1)]
    by (cases dates) (auto simp: parse_dates_def or_else_def dates_plain_def bindM_def)
qed

lemma read_back:
  assumes "namespace_prefix ns" and "list_all is_space pad" and "dates_plain dates" and "report_plain r"
    and "\<forall>c \<in> set records. record_plain c"
    and "safe_fromstring doc = Inr (report_xml pad ns dates r records)"
  shows "parse_dmarc_xml safe_fromstring now doc s = (Inr (report_said dates now r, map record_said records), s)"
proof -
  have "mapM (parse_record ns) (map (record_xml pad ns) records) s = (Inr (map record_said records), s)"
    using assms(5)
    by (induction records) (simp_all add: parse_record_xml [OF assms(2)] bindM_def)
  then have "parse_report now (report_xml pad ns dates r records) s =
      (Inr (report_said dates now r, map record_said records), s)"
    unfolding parse_report_def Let_def namespace_report [OF assms(1)] find_records find_parts
    by (simp add: bindM_def metadata_texts [OF assms(2,4)] metadata_dates [OF assms(2,3)] report_said_def)
  then show ?thesis by (simp add: parse_dmarc_xml_def assms(6))
qed

section \<open>Properties\<close>

text \<open>
  C32. \<open>parse_dmarc_xml\<close> reads a report in the form of RFC 7489 back field by field, with or without a
  namespace and whatever white space stands around its texts, its records in their order. A record passes
  DMARC exactly when DKIM or SPF is evaluated as \<open>pass\<close>, whatever the results of the checks say; what an
  absent part would tell is \<open>none\<close>, \<open>fail\<close>, \<open>unknown\<close> or 0, and absent dates are the time of reading.
\<close>
theorem parse_report_reads_back:
  assumes "namespace_prefix ns" and "list_all is_space pad" and "dates_plain dates" and "report_plain r"
    and "\<forall>c \<in> set records. record_plain c"
    and "safe_fromstring doc = Inr (report_xml pad ns dates r records)"
  shows "parse_dmarc_xml safe_fromstring now doc s =
    (Inr (report_said dates now r, map record_said records), s)"
  using assms by (rule read_back)

definition example_report :: report_data where
  "example_report = \<lparr>rd_report_id = ''r1'', rd_org_name = ''Org'', rd_org_email = [],
     rd_domain = ''a.org'', rd_policy = ''reject'', rd_begin_date = 7, rd_end_date = 8\<rparr>"

text \<open>A record that passes by SPF alone, one that passes by DKIM alone and one without a row.\<close>

definition example_record :: written_record where
  "example_record =
     \<lparr>wr_row = Some \<lparr>wr_source_ip = ''8.8.4.4'', wr_count = 12,
        wr_evaluated = Some \<lparr>ev_disposition = ''none'', ev_dkim = ''fail'', ev_spf = ''pass''\<rparr>\<rparr>,
      wr_dkim_result = Some ''fail'', wr_spf_result = Some ''pass'', wr_header_from = ''a.org'',
      wr_envelope_from = []\<rparr>"

definition signed_record :: written_record where
  "signed_record =
     \<lparr>wr_row = Some \<lparr>wr_source_ip = ''8.8.4.5'', wr_count = 2,
        wr_evaluated = Some \<lparr>ev_disposition = ''none'', ev_dkim = ''pass'', ev_spf = ''fail''\<rparr>\<rparr>,
      wr_dkim_result = None, wr_spf_result = Some ''softfail'', wr_header_from = ''a.org'',
      wr_envelope_from = ''b.org''\<rparr>"

definition rowless_record :: written_record where
  "rowless_record =
     \<lparr>wr_row = None, wr_dkim_result = Some ''pass'', wr_spf_result = None, wr_header_from = ''a.org'',
      wr_envelope_from = []\<rparr>"

lemma example_plain:
  "report_plain example_report" "record_plain example_record" "record_plain signed_record"
  "record_plain rowless_record"
proof -
  have "word ''none''" "word ''fail''" "word ''pass''" "word ''softfail''" "word ''reject''"
    "bare ''8.8.4.4''" "bare ''8.8.4.5''" "bare ''a.org''" "bare ''b.org''" "bare ''r1''" "bare ''Org''" "bare []"
    by code_simp+
  then show "report_plain example_report" "record_plain example_record" "record_plain signed_record"
    "record_plain rowless_record"
    by (simp_all add: report_plain_def record_plain_def row_plain_def evaluated_plain_def
        example_report_def example_record_def signed_record_def rowless_record_def)
qed

lemma parse_report_reads_back_witness:
  "\<exists>a b c. parse_dmarc_xml
       (\<lambda>_. Inr (report_xml '' '' ''{urn:x}'' (Some (7, 8)) example_report
          [example_record, signed_record, rowless_record])) 5 [] () =
     (Inr (example_report, [a, b, c]), ()) \<and>
     map cd_dmarc_result [a, b, c] = [''pass'', ''pass'', ''fail''] \<and>
     map cd_count [a, b, c] = [12, 2, 0]"
proof -
  let ?rs = "[example_record, signed_record, rowless_record]"
  have 1: "namespace_prefix ''{urn:x}''"
    unfolding namespace_prefix_def by (intro disjI2 exI [of _ "''urn:x''"]) simp
  have 2: "list_all is_space '' ''" by code_simp
  have 3: "dates_plain (Some (7, 8))" by (simp add: dates_plain_def year_in_range_def)
  have 4: "\<forall>c \<in> set ?rs. record_plain c" by (simp add: example_plain)
  have 5: "report_said (Some (7, 8)) 5 example_report = example_report"
    by (simp add: report_said_def or_else_def example_report_def)
  have 6: "map (cd_dmarc_result \<circ> record_said) ?rs = [''pass'', ''pass'', ''fail'']"
    "map (cd_count \<circ> record_said) ?rs = [12, 2, 0]"
    by (simp_all add: record_said_def or_else_def dmarc_of_def example_record_def signed_record_def
        rowless_record_def Let_def)
  show ?thesis
    using parse_report_reads_back [OF 1 2 3 example_plain(1) 4, of
        "\<lambda>_. Inr (report_xml '' '' ''{urn:x}'' (Some (7, 8)) example_report ?rs)" "[]" 5 "()"] 5 6
    by simp
qed

end
