(* ===== verification/Dmarc.thy ===== *)
theory Dmarc
  imports DmarcXml Models
begin

text \<open>
  src/backend/taramail/dmarc.py: the processor that fetches aggregate reports from a mailbox, stores
  them and counts their messages. Parameters are the IMAP server and the library that talks to it
  (\<open>imap_ops\<close>), the parser of mail (\<open>parts_of\<close>, the parts in the order of \<open>walk\<close>), of zip and gzip
  data and of XML. A session of the database is taken to be committed between two calls, which
  \<open>store_report\<close> keeps. Counters are integers; Prometheus holds them as floats.
\<close>

section \<open>Parts of a message\<close>

record part =
  pa_content_type :: string
  pa_filename :: "string option"
  pa_payload :: "string option"

text \<open>
  What zipfile gives: the error of opening the archive, or its names with the data or the error
  of reading each. \<open>_extract_from_zip\<close> keeps the files read before a \<open>BadZipFile\<close>.
\<close>

type_synonym archive = "py_exn + (string \<times> (py_exn + string)) list"

fun read_xml_files :: "(string \<times> (py_exn + string)) list \<Rightarrow> string list \<Rightarrow> ('s, py_exn, string list) sem" where
  "read_xml_files [] results = ret results"
| "read_xml_files ((name, contents) # files) results =
     (if ends_with ''.xml'' name
      then (case contents of
              Inl e \<Rightarrow> if e = BadZipFile then ret results else throw e
            | Inr data \<Rightarrow> read_xml_files files (results @ [data]))
      else read_xml_files files results)"

definition extract_from_zip :: "(string \<Rightarrow> archive) \<Rightarrow> string \<Rightarrow> ('s, py_exn, string list) sem" where
  "extract_from_zip unzip data =
     (case unzip data of
        Inl e \<Rightarrow> if e = BadZipFile then ret [] else throw e
      | Inr files \<Rightarrow> read_xml_files files [])"

fun is_os_error :: "py_exn \<Rightarrow> bool" where
  "is_os_error (OSError _) = True"
| "is_os_error _ = False"

definition extract_from_gzip :: "(string \<Rightarrow> py_exn + string) \<Rightarrow> string \<Rightarrow> ('s, py_exn, string list) sem" where
  "extract_from_gzip gunzip data =
     (case gunzip data of
        Inl e \<Rightarrow> if is_os_error e then ret [] else throw e
      | Inr x \<Rightarrow> ret [x])"

definition extract_part ::
  "(string \<Rightarrow> archive) \<Rightarrow> (string \<Rightarrow> py_exn + string) \<Rightarrow> part \<Rightarrow> ('s, py_exn, string list) sem" where
  "extract_part unzip gunzip p =
     (let filename = (case pa_filename p of None \<Rightarrow> [] | Some f \<Rightarrow> f) in
      case pa_payload p of
        None \<Rightarrow> ret []
      | Some payload \<Rightarrow>
          if pa_content_type p = ''application/zip'' \<or> ends_with ''.zip'' filename
          then extract_from_zip unzip payload
          else if pa_content_type p = ''application/gzip'' \<or> ends_with ''.gz'' filename
          then extract_from_gzip gunzip payload
          else if pa_content_type p \<in> {''text/xml'', ''application/xml''} \<or> ends_with ''.xml'' filename
          then ret [payload] else ret [])"

definition extract_xml_from_message ::
  "(string \<Rightarrow> archive) \<Rightarrow> (string \<Rightarrow> py_exn + string) \<Rightarrow> part list \<Rightarrow> ('s, py_exn, string list) sem" where
  "extract_xml_from_message unzip gunzip parts =
     bindM (mapM (extract_part unzip gunzip) parts) (\<lambda>contents. ret (concat contents))"

section \<open>Storing a report\<close>

definition new_report :: "report_data \<Rightarrow> db \<Rightarrow> dmarc_report_row" where
  "new_report r d =
     \<lparr>dr_id = next_id (map dr_id (t_dmarc_report d)), dr_report_id = rd_report_id r,
      dr_org_name = rd_org_name r, dr_org_email = rd_org_email r, dr_domain = rd_domain r,
      dr_policy = rd_policy r, dr_begin_date = rd_begin_date r, dr_end_date = rd_end_date r\<rparr>"

definition new_record :: "int \<Rightarrow> record_data \<Rightarrow> db \<Rightarrow> dmarc_record_row" where
  "new_record report_id c d =
     \<lparr>dx_id = next_id (map dx_id (t_dmarc_record d)), dx_report_id = report_id,
      dx_source_ip = cd_source_ip c, dx_count = cd_count c, dx_disposition = cd_disposition c,
      dx_dkim_result = cd_dkim_result c, dx_spf_result = cd_spf_result c,
      dx_dmarc_result = cd_dmarc_result c, dx_header_from = cd_header_from c,
      dx_envelope_from = cd_envelope_from c\<rparr>"

definition add_report :: "report_data \<Rightarrow> db \<Rightarrow> db" where
  "add_report r d = d\<lparr>t_dmarc_report := t_dmarc_report d @ [new_report r d]\<rparr>"

definition add_record :: "int \<Rightarrow> record_data \<Rightarrow> db \<Rightarrow> db" where
  "add_record report_id c d = d\<lparr>t_dmarc_record := t_dmarc_record d @ [new_record report_id c d]\<rparr>"

text \<open>
  The flush gives the report its key; \<open>except IntegrityError\<close> rolls back to the committed database
  the call began with.
\<close>

definition store_report :: "report_data \<Rightarrow> record_data list \<Rightarrow> (session, py_exn, bool) sem" where
  "store_report r records =
     bindM (gets sql) (\<lambda>committed.
     seqM (pending (add_report r))
     (bindM (catchM (seqM flush (ret True)) (\<lambda>e.
         if e = IntegrityError then seqM (modify (\<lambda>_. clean committed)) (ret False) else throw e))
       (\<lambda>flushed.
        if \<not> flushed then ret False
        else bindM (gets (\<lambda>s. dr_id (last (t_dmarc_report (orm s))))) (\<lambda>report_id.
          seqM (forM records (\<lambda>c. pending (add_record report_id c)))
          (seqM flush
          (ret True))))))"

section \<open>Metrics\<close>

type_synonym labels = "string \<times> string \<times> string"

record metrics =
  me_messages :: "(labels, int) dict"
  me_processed :: int
  me_failed :: int

definition messages_total :: "metrics \<Rightarrow> labels \<Rightarrow> int" where
  "messages_total m k = (case map_of (me_messages m) k of None \<Rightarrow> 0 | Some n \<Rightarrow> n)"

text \<open>\<open>labels(...)\<close> creates the counter; \<open>inc\<close> refuses a negative amount.\<close>

definition count_record :: "string \<Rightarrow> record_data \<Rightarrow> (metrics, py_exn, unit) sem" where
  "count_record domain c =
     (let k = (domain, cd_dmarc_result c, cd_disposition c) in
      seqM (modify (\<lambda>m. m\<lparr>me_messages := dict_set k (messages_total m k) (me_messages m)\<rparr>))
      (seqM (raise_when (cd_count c < 0)
         (ValueError ''Counters can only be incremented by non-negative amounts.''))
      (modify (\<lambda>m. m\<lparr>me_messages := dict_set k (messages_total m k + cd_count c) (me_messages m)\<rparr>))))"

definition update_metrics :: "report_data \<Rightarrow> record_data list \<Rightarrow> (metrics, py_exn, unit) sem" where
  "update_metrics r records = forM records (count_record (rd_domain r))"

section \<open>The mailbox\<close>

record 'i imap_ops =
  im_connect :: "string \<Rightarrow> int \<Rightarrow> bool \<Rightarrow> ('i, py_exn, unit) sem"
  im_login :: "string \<Rightarrow> string \<Rightarrow> ('i, py_exn, unit) sem"
  im_select :: "string \<Rightarrow> ('i, py_exn, unit) sem"
  im_search_unseen :: "('i, py_exn, string) sem"
  im_fetch :: "string \<Rightarrow> ('i, py_exn, string) sem"
  im_store_seen :: "string \<Rightarrow> ('i, py_exn, unit) sem"
  im_cleanup :: "('i, py_exn, unit) sem"

record 'i dmarc =
  dc_imap :: 'i
  dc_db :: session
  dc_metrics :: metrics

definition on_imap :: "('i, 'e, 'a) sem \<Rightarrow> ('i dmarc, 'e, 'a) sem" where
  "on_imap = zoom dc_imap (\<lambda>x w. w\<lparr>dc_imap := x\<rparr>)"

definition on_reports :: "(session, 'e, 'a) sem \<Rightarrow> ('i dmarc, 'e, 'a) sem" where
  "on_reports = zoom dc_db (\<lambda>x w. w\<lparr>dc_db := x\<rparr>)"

definition on_metrics :: "(metrics, 'e, 'a) sem \<Rightarrow> ('i dmarc, 'e, 'a) sem" where
  "on_metrics = zoom dc_metrics (\<lambda>x w. w\<lparr>dc_metrics := x\<rparr>)"

text \<open>The libraries and the clock: all that reading a document depends on.\<close>

record 'i readers =
  re_imap :: "'i imap_ops"
  re_parts :: "string \<Rightarrow> part list"
  re_unzip :: "string \<Rightarrow> archive"
  re_gunzip :: "string \<Rightarrow> py_exn + string"
  re_fromstring :: "string \<Rightarrow> py_exn + xml"
  re_now :: int

definition process_document :: "'i readers \<Rightarrow> string \<Rightarrow> ('i dmarc, py_exn, unit) sem" where
  "process_document rd xml_data =
     bindM (parse_dmarc_xml (re_fromstring rd) (re_now rd) xml_data) (\<lambda>(report, records).
     bindM (on_reports (store_report report records)) (\<lambda>stored.
     whenM stored
       (seqM (on_metrics (update_metrics report records))
        (on_metrics (modify (\<lambda>m. m\<lparr>me_processed := me_processed m + 1\<rparr>))))))"

definition process_message :: "'i readers \<Rightarrow> string \<Rightarrow> ('i dmarc, py_exn, unit) sem" where
  "process_message rd num =
     bindM (on_imap (im_fetch (re_imap rd) num)) (\<lambda>raw_email.
     bindM (extract_xml_from_message (re_unzip rd) (re_gunzip rd) (re_parts rd raw_email)) (\<lambda>xml_contents.
     if xml_contents = [] then on_imap (im_store_seen (re_imap rd) num)
     else seqM (forM xml_contents (process_document rd))
          (on_imap (im_store_seen (re_imap rd) num))))"

text \<open>The loop of \<open>fetch_and_process\<close>: an exception is counted and the next message is taken.\<close>

definition process_messages :: "'i readers \<Rightarrow> string list \<Rightarrow> ('i dmarc, py_exn, unit) sem" where
  "process_messages rd num_list =
     forM num_list (\<lambda>num.
       catchM (process_message rd num)
         (\<lambda>_. on_metrics (modify (\<lambda>m. m\<lparr>me_failed := me_failed m + 1\<rparr>))))"

definition env_get :: "(string \<Rightarrow> string option) \<Rightarrow> string \<Rightarrow> string \<Rightarrow> string" where
  "env_get env key dflt = (case env key of None \<Rightarrow> dflt | Some v \<Rightarrow> v)"

text \<open>
  \<open>is_imap_error\<close> tells the exceptions of \<open>imaplib\<close> and \<open>OSError\<close>; \<open>finally\<close> runs the clean-up, whose
  exceptions are only logged, and keeps the result.
\<close>

definition fetch_unseen :: "'i readers \<Rightarrow> ('i dmarc, py_exn, unit) sem" where
  "fetch_unseen rd =
     seqM (on_imap (im_select (re_imap rd) ''INBOX''))
     (bindM (on_imap (im_search_unseen (re_imap rd))) (\<lambda>message_nums.
     whenM (message_nums \<noteq> []) (process_messages rd (words message_nums))))"

definition with_cleanup :: "'i readers \<Rightarrow> ('i dmarc, py_exn, unit) sem \<Rightarrow> ('i dmarc, py_exn, unit) sem" where
  "with_cleanup rd body w =
     (case body w of
        (r, w') \<Rightarrow> (r, snd (catchM (on_imap (im_cleanup (re_imap rd))) (\<lambda>_. ret ()) w')))"

definition fetch_and_process ::
  "'i readers \<Rightarrow> (py_exn \<Rightarrow> bool) \<Rightarrow> (string \<Rightarrow> string option) \<Rightarrow> ('i dmarc, py_exn, unit) sem" where
  "fetch_and_process rd is_imap_error env =
     (let host = env_get env ''DMARC_IMAP_HOST'' ''dovecot'';
          user = env_get env ''DMARC_IMAP_USER'' [];
          password = env_get env ''DMARC_IMAP_PASSWORD'' [];
          use_ssl = (lower (env_get env ''DMARC_IMAP_SSL'' ''true'') \<in> {''true'', ''1'', ''yes''})
      in bindM (int_arg (env_get env ''DMARC_IMAP_PORT'' ''993'')) (\<lambda>port.
         if user = [] \<or> password = [] then ret ()
         else seqM (on_imap (im_connect (re_imap rd) host port use_ssl))
              (bindM (catchM (seqM (on_imap (im_login (re_imap rd) user password)) (ret True))
                  (\<lambda>e. if is_imap_error e then ret False else throw e)) (\<lambda>logged_in.
               whenM logged_in (with_cleanup rd (fetch_unseen rd))))))"

text \<open>
  The endless loop of \<open>main\<close>, for as many polls as there are readers: what the mailbox answers and the
  clock change from one to the next. An exception is only logged.
\<close>

definition dmarc_main ::
  "'i readers list \<Rightarrow> (py_exn \<Rightarrow> bool) \<Rightarrow> (string \<Rightarrow> string option) \<Rightarrow> ('i dmarc, py_exn, unit) sem" where
  "dmarc_main polls is_imap_error env =
     forM polls (\<lambda>rd. catchM (fetch_and_process rd is_imap_error env) (\<lambda>_. ret ()))"

section \<open>What one report changes\<close>

definition stored_db :: "report_data \<Rightarrow> record_data list \<Rightarrow> db \<Rightarrow> db" where
  "stored_db r records d =
     fold (add_record (next_id (map dr_id (t_dmarc_report d)))) records (add_report r d)"

definition known :: "report_data \<Rightarrow> db \<Rightarrow> bool" where
  "known r d \<longleftrightarrow> rd_report_id r \<in> dr_report_id ` set (t_dmarc_report d)"

lemma forM_pending:
  "forM xs (\<lambda>x. pending (f x)) s = (Inr (), s\<lparr>orm := fold f xs (orm s)\<rparr>)"
  by (induction xs arbitrary: s) simp_all

lemma fold_add_record_reports [simp]: "t_dmarc_report (fold (add_record i) cs d) = t_dmarc_report d"
  by (induction cs arbitrary: d) (simp_all add: add_record_def)

lemma unique_keys_add_report: "unique_keys d \<Longrightarrow> unique_keys (add_report r d) \<longleftrightarrow> \<not> known r d"
  using next_id_fresh [of "map dr_id (t_dmarc_report d)"]
  by (auto simp: unique_keys_def add_report_def new_report_def known_def)

lemma unique_keys_add_record: "unique_keys d \<Longrightarrow> unique_keys (add_record i c d)"
  using next_id_fresh [of "map dx_id (t_dmarc_record d)"]
  by (simp add: unique_keys_def add_record_def new_record_def)

lemma unique_keys_add_records: "unique_keys d \<Longrightarrow> unique_keys (fold (add_record i) cs d)"
  by (induction cs arbitrary: d) (simp_all add: unique_keys_add_record)

lemma store_report_run:
  assumes "unique_keys d"
  shows "store_report r records (clean d) =
    (if known r d then (Inr False, clean d) else (Inr True, clean (stored_db r records d)))"
proof (cases "known r d")
  case True
  then have "flush ((clean d)\<lparr>orm := add_report r d\<rparr>) = (Inl IntegrityError, (clean d)\<lparr>orm := add_report r d\<rparr>)"
    using unique_keys_add_report [OF assms, of r] by (simp add: flush_def)
  with True show ?thesis by (simp add: store_report_def bindM_def seqM_def catchM_def)
next
  case False
  have u: "unique_keys (add_report r d)" using False unique_keys_add_report [OF assms, of r] by simp
  then have "unique_keys (stored_db r records d)"
    unfolding stored_db_def by (rule unique_keys_add_records)
  moreover have "dr_id (last (t_dmarc_report (add_report r d))) = next_id (map dr_id (t_dmarc_report d))"
    by (simp add: add_report_def new_report_def)
  ultimately show ?thesis using False u
    by (simp add: store_report_def bindM_def seqM_def catchM_def flush_def forM_pending stored_db_def)
qed

section \<open>What the counters mean\<close>

text \<open>
  The counters of a report rise record by record until the first record whose count is negative, which
  \<open>inc\<close> refuses after the report is stored. Such a report is stored and not counted as processed.
\<close>

definition records_of :: "db \<Rightarrow> int \<Rightarrow> dmarc_record_row list" where
  "records_of d i = filter (\<lambda>x. dx_report_id x = i) (t_dmarc_record d)"

definition counted_records :: "db \<Rightarrow> int \<Rightarrow> dmarc_record_row list" where
  "counted_records d i = takeWhile (\<lambda>x. 0 \<le> dx_count x) (records_of d i)"

definition report_count :: "db \<Rightarrow> labels \<Rightarrow> dmarc_report_row \<Rightarrow> int" where
  "report_count d k p =
     (\<Sum>x \<leftarrow> counted_records d (dr_id p).
        if (dr_domain p, dx_dmarc_result x, dx_disposition x) = k then dx_count x else 0)"

definition counted_total :: "db \<Rightarrow> labels \<Rightarrow> int" where
  "counted_total d k = sum_list (map (report_count d k) (t_dmarc_report d))"

definition countable_report :: "db \<Rightarrow> dmarc_report_row \<Rightarrow> bool" where
  "countable_report d p \<longleftrightarrow> (\<forall>x \<in> set (records_of d (dr_id p)). 0 \<le> dx_count x)"

definition countable_reports :: "db \<Rightarrow> dmarc_report_row list" where
  "countable_reports d = filter (countable_report d) (t_dmarc_report d)"

definition record_labels :: "db \<Rightarrow> dmarc_record_row \<Rightarrow> labels \<Rightarrow> bool" where
  "record_labels d x = (\<lambda>(domain, result, disposition).
     dx_dmarc_result x = result \<and> dx_disposition x = disposition \<and>
     exists_where (\<lambda>p. dr_id p = dx_report_id x \<and> dr_domain p = domain) (t_dmarc_report d))"

definition stored_count :: "db \<Rightarrow> labels \<Rightarrow> int" where
  "stored_count d k = sum_list (map dx_count (filter (\<lambda>x. record_labels d x k) (t_dmarc_record d)))"

definition given_count :: "string \<Rightarrow> record_data list \<Rightarrow> labels \<Rightarrow> int" where
  "given_count domain cs k =
     (\<Sum>c \<leftarrow> cs. if (domain, cd_dmarc_result c, cd_disposition c) = k then cd_count c else 0)"

definition records_have_reports :: "db \<Rightarrow> bool" where
  "records_have_reports d \<longleftrightarrow>
     (\<forall>x \<in> set (t_dmarc_record d). dx_report_id x \<in> dr_id ` set (t_dmarc_report d))"

lemma update_metrics_run:
  "\<exists>r m'. forM cs (count_record domain) m = (r, m') \<and>
    (r = Inr () \<longleftrightarrow> (\<forall>c \<in> set cs. 0 \<le> cd_count c)) \<and>
    (\<forall>k. messages_total m' k =
       messages_total m k + given_count domain (takeWhile (\<lambda>c. 0 \<le> cd_count c) cs) k) \<and>
    me_processed m' = me_processed m"
proof (induction cs arbitrary: m)
  case (Cons c cs)
  let ?k = "(domain, cd_dmarc_result c, cd_disposition c)"
  show ?case
  proof (cases "0 \<le> cd_count c")
    case True
    then obtain m1 where m1: "count_record domain c m = (Inr (), m1)"
      "\<forall>k. messages_total m1 k = messages_total m k + (if ?k = k then cd_count c else 0)"
      "me_processed m1 = me_processed m"
      by (simp add: count_record_def Let_def messages_total_def seqM_def bindM_def)
    obtain r m2 where "forM cs (count_record domain) m1 = (r, m2)"
      "r = Inr () \<longleftrightarrow> (\<forall>c \<in> set cs. 0 \<le> cd_count c)"
      "\<forall>k. messages_total m2 k =
         messages_total m1 k + given_count domain (takeWhile (\<lambda>c. 0 \<le> cd_count c) cs) k"
      "me_processed m2 = me_processed m1"
      using Cons.IH [of m1] by blast
    with m1 True show ?thesis by (auto simp: seqM_def bindM_def given_count_def)
  next
    case False
    then show ?thesis
      by (simp add: count_record_def Let_def messages_total_def seqM_def bindM_def given_count_def)
  qed
qed (simp add: given_count_def)

definition record_row :: "int \<Rightarrow> record_data \<Rightarrow> dmarc_record_row \<Rightarrow> bool" where
  "record_row i c x \<longleftrightarrow> dx_report_id x = i \<and> dx_count x = cd_count c \<and>
     dx_dmarc_result x = cd_dmarc_result c \<and> dx_disposition x = cd_disposition c"

lemma fold_add_record_rows:
  "\<exists>rows. t_dmarc_record (fold (add_record i) cs d) = t_dmarc_record d @ rows \<and>
    list_all2 (record_row i) cs rows"
proof (induction cs arbitrary: d)
  case (Cons c cs)
  obtain rows where "t_dmarc_record (fold (add_record i) cs (add_record i c d)) =
      t_dmarc_record (add_record i c d) @ rows" "list_all2 (record_row i) cs rows"
    using Cons.IH by blast
  moreover have "t_dmarc_record (add_record i c d) = t_dmarc_record d @ [new_record i c d]"
    by (simp add: add_record_def)
  moreover have "record_row i c (new_record i c d)" by (simp add: new_record_def record_row_def)
  ultimately show ?case by (intro exI [of _ "new_record i c d # rows"]) simp
qed simp

lemma record_rows_keys: "list_all2 (record_row i) cs rows \<Longrightarrow> \<forall>x \<in> set rows. dx_report_id x = i"
  by (induction rule: list_all2_induct) (simp_all add: record_row_def)

lemma record_rows_count:
  assumes "list_all2 (record_row i) cs rows"
  shows "(\<Sum>x \<leftarrow> takeWhile (\<lambda>x. 0 \<le> dx_count x) rows.
      if (domain, dx_dmarc_result x, dx_disposition x) = k then dx_count x else 0) =
    given_count domain (takeWhile (\<lambda>c. 0 \<le> cd_count c) cs) k"
    and "(\<forall>x \<in> set rows. 0 \<le> dx_count x) \<longleftrightarrow> (\<forall>c \<in> set cs. 0 \<le> cd_count c)"
  using assms by (induction rule: list_all2_induct) (simp_all add: record_row_def given_count_def)

lemma stored_db_rows:
  assumes "records_have_reports d"
  shows "t_dmarc_report (stored_db r cs d) = t_dmarc_report d @ [new_report r d]"
    and "p \<in> set (t_dmarc_report d) \<Longrightarrow> records_of (stored_db r cs d) (dr_id p) = records_of d (dr_id p)"
    and "list_all2 (record_row (dr_id (new_report r d))) cs
      (records_of (stored_db r cs d) (dr_id (new_report r d)))"
proof -
  let ?i = "next_id (map dr_id (t_dmarc_report d))"
  have i: "dr_id (new_report r d) = ?i" "?i \<notin> dr_id ` set (t_dmarc_report d)"
    using next_id_fresh [of "map dr_id (t_dmarc_report d)"] by (simp_all add: new_report_def)
  show "t_dmarc_report (stored_db r cs d) = t_dmarc_report d @ [new_report r d]"
    by (simp add: stored_db_def add_report_def)
  obtain rows where rows: "t_dmarc_record (stored_db r cs d) = t_dmarc_record d @ rows"
    "list_all2 (record_row ?i) cs rows"
    using fold_add_record_rows [of ?i cs "add_report r d"] by (auto simp: stored_db_def add_report_def)
  note keys = record_rows_keys [OF rows(2)]
  show "records_of (stored_db r cs d) (dr_id p) = records_of d (dr_id p)" if "p \<in> set (t_dmarc_report d)"
  proof -
    have "filter (\<lambda>x. dx_report_id x = dr_id p) rows = []"
      using that i(2) keys by (force simp: filter_empty_conv)
    then show ?thesis by (simp add: records_of_def rows(1))
  qed
  have "dx_report_id x \<noteq> ?i" if "x \<in> set (t_dmarc_record d)" for x
    using assms i(2) that unfolding records_have_reports_def by metis
  then have "filter (\<lambda>x. dx_report_id x = ?i) (t_dmarc_record d) = []"
    by (simp add: filter_empty_conv)
  then have "records_of (stored_db r cs d) ?i = rows"
    using keys by (simp add: records_of_def rows(1))
  with rows(2) show "list_all2 (record_row (dr_id (new_report r d))) cs
      (records_of (stored_db r cs d) (dr_id (new_report r d)))"
    by (simp add: i(1))
qed

lemma counted_total_stored_db:
  assumes "records_have_reports d"
  shows "counted_total (stored_db r cs d) k =
    counted_total d k + given_count (rd_domain r) (takeWhile (\<lambda>c. 0 \<le> cd_count c) cs) k"
proof -
  have "sum_list (map (report_count (stored_db r cs d) k) (t_dmarc_report d)) = counted_total d k"
    unfolding counted_total_def
    by (intro arg_cong [where f = sum_list] map_cong)
       (simp_all add: report_count_def counted_records_def stored_db_rows(2) [OF assms])
  moreover have "report_count (stored_db r cs d) k (new_report r d) =
      given_count (rd_domain r) (takeWhile (\<lambda>c. 0 \<le> cd_count c) cs) k"
    unfolding report_count_def counted_records_def record_rows_count(1) [OF stored_db_rows(3) [OF assms]]
    by (simp add: new_report_def)
  ultimately show ?thesis
    by (simp add: counted_total_def [of "stored_db r cs d"] stored_db_rows(1) [OF assms])
qed

lemma countable_reports_stored_db:
  assumes "records_have_reports d"
  shows "length (countable_reports (stored_db r cs d)) =
    length (countable_reports d) + (if \<forall>c \<in> set cs. 0 \<le> cd_count c then 1 else 0)"
proof -
  have "filter (countable_report (stored_db r cs d)) (t_dmarc_report d) = countable_reports d"
    unfolding countable_reports_def
    by (rule filter_cong) (simp_all add: countable_report_def stored_db_rows(2) [OF assms])
  moreover have "countable_report (stored_db r cs d) (new_report r d) \<longleftrightarrow> (\<forall>c \<in> set cs. 0 \<le> cd_count c)"
    unfolding countable_report_def record_rows_count(2) [OF stored_db_rows(3) [OF assms]] by simp
  ultimately show ?thesis
    by (simp add: countable_reports_def [of "stored_db r cs d"] stored_db_rows(1) [OF assms])
qed

text \<open>Without a negative count the counters are the sums over all stored records.\<close>

lemma sum_list_swap: "(\<Sum>p \<leftarrow> ps. \<Sum>x \<leftarrow> xs. f p x) = (\<Sum>x \<leftarrow> xs. \<Sum>p \<leftarrow> ps. f p x :: int)"
  by (induction ps) (simp_all add: sum_list_addf)

lemma sum_one_report:
  assumes "distinct (map dr_id ps)"
  shows "(\<Sum>p \<leftarrow> ps. if dr_id p = i \<and> dr_domain p = domain then n else (0::int)) =
    (if \<exists>p \<in> set ps. dr_id p = i \<and> dr_domain p = domain then n else 0)"
proof -
  have zero: "(\<Sum>p \<leftarrow> ps. if dr_id p = i \<and> dr_domain p = domain then n else (0::int)) = 0"
    if "i \<notin> dr_id ` set ps" for ps
    using that by (induction ps) auto
  show ?thesis
    using assms
  proof (induction ps)
    case (Cons a ps)
    have "\<not> (\<exists>p \<in> set ps. dr_id p = i \<and> dr_domain p = domain)" if "dr_id a = i"
      using Cons.prems that by (metis distinct.simps(2) image_eqI list.simps(9) set_map)
    with Cons show ?case by (auto simp: zero)
  qed simp
qed

definition nothing_negative :: "db \<Rightarrow> bool" where
  "nothing_negative d \<longleftrightarrow> (\<forall>x \<in> set (t_dmarc_record d). 0 \<le> dx_count x)"

lemma counted_total_all:
  assumes "distinct (map dr_id (t_dmarc_report d))" and "nothing_negative d"
  shows "counted_total d k = stored_count d k"
proof -
  obtain domain res disp where k: "k = (domain, res, disp)" by (cases k)
  let ?ps = "t_dmarc_report d"
  let ?n = "\<lambda>x. if dx_dmarc_result x = res \<and> dx_disposition x = disp then dx_count x else 0"
  have counted: "counted_records d i = records_of d i" for i
    using assms(2) by (auto simp: counted_records_def records_of_def nothing_negative_def)
  have each: "report_count d k p =
      (\<Sum>x \<leftarrow> t_dmarc_record d. if dr_id p = dx_report_id x \<and> dr_domain p = domain then ?n x else 0)" for p
    unfolding report_count_def counted records_of_def sum_list_map_filter' k
    by (rule arg_cong [where f = sum_list], rule map_cong) auto
  have "counted_total d k =
      (\<Sum>p \<leftarrow> ?ps. \<Sum>x \<leftarrow> t_dmarc_record d. if dr_id p = dx_report_id x \<and> dr_domain p = domain then ?n x else 0)"
    unfolding counted_total_def by (rule arg_cong [where f = sum_list], rule map_cong) (simp_all only: each)
  also have "\<dots> =
      (\<Sum>x \<leftarrow> t_dmarc_record d. \<Sum>p \<leftarrow> ?ps. if dr_id p = dx_report_id x \<and> dr_domain p = domain then ?n x else 0)"
    by (rule sum_list_swap)
  also have "\<dots> = stored_count d k"
    unfolding sum_one_report [OF assms(1)] stored_count_def sum_list_map_filter' k
    by (rule arg_cong [where f = sum_list], rule map_cong) (auto simp: record_labels_def)
  finally show ?thesis .
qed

lemma countable_reports_all: "nothing_negative d \<Longrightarrow> countable_reports d = t_dmarc_report d"
  by (auto simp: countable_reports_def countable_report_def nothing_negative_def records_of_def
      intro!: filter_True)

lemma records_have_reports_stored_db:
  assumes "records_have_reports d"
  shows "records_have_reports (stored_db r cs d)"
proof -
  have step: "records_have_reports (add_record i c e)"
    if "records_have_reports e" and "i \<in> dr_id ` set (t_dmarc_report e)" for i c e
    using that by (auto simp: records_have_reports_def add_record_def new_record_def)
  have "records_have_reports (fold (add_record i) cs e)"
    if "records_have_reports e" and "i \<in> dr_id ` set (t_dmarc_report e)" for i e
    using that
  proof (induction cs arbitrary: e)
    case (Cons c cs)
    then show ?case using step [OF Cons.prems] by (simp add: add_record_def)
  qed simp
  moreover have "records_have_reports (add_report r d)"
    using assms by (auto simp: records_have_reports_def add_report_def)
  ultimately show ?thesis by (simp add: stored_db_def add_report_def new_report_def)
qed

section \<open>The loop over the messages\<close>

lemma on_imap_run: "on_imap m w = (fst (m (dc_imap w)), w\<lparr>dc_imap := snd (m (dc_imap w))\<rparr>)"
  by (simp add: on_imap_def zoom_def split: prod.splits)

lemma on_reports_run: "on_reports m w = (fst (m (dc_db w)), w\<lparr>dc_db := snd (m (dc_db w))\<rparr>)"
  by (simp add: on_reports_def zoom_def split: prod.splits)

lemma on_metrics_run: "on_metrics m w = (fst (m (dc_metrics w)), w\<lparr>dc_metrics := snd (m (dc_metrics w))\<rparr>)"
  by (simp add: on_metrics_def zoom_def split: prod.splits)

lemmas dmarc_runs = on_imap_run on_reports_run on_metrics_run

lemma reads_read_xml_files [reads_intros]: "reads (read_xml_files files xs)"
  by (induction files xs rule: read_xml_files.induct) (auto intro: reads_intros split: sum.splits)

lemma reads_extract_xml [reads_intros]: "reads (extract_xml_from_message unzip gunzip ps)"
  by (auto simp: extract_xml_from_message_def extract_part_def extract_from_zip_def
      extract_from_gzip_def Let_def intro!: reads_intros split: option.splits sum.splits)

text \<open>
  The database is committed and keeps its keys, the counters hold the sums over the counted records of
  the stored reports, and \<open>b\<close> of the reports without a negative count were there before the counter of
  the processed ones started.
\<close>

definition counted :: "int \<Rightarrow> 'i dmarc \<Rightarrow> bool" where
  "counted b w \<longleftrightarrow>
     dc_db w = clean (sql (dc_db w)) \<and> unique_keys (sql (dc_db w)) \<and>
     records_have_reports (sql (dc_db w)) \<and>
     (\<forall>k. messages_total (dc_metrics w) k = counted_total (sql (dc_db w)) k) \<and>
     me_processed (dc_metrics w) + b = int (length (countable_reports (sql (dc_db w))))"

lemma counted_imap [simp]: "counted b (w\<lparr>dc_imap := x\<rparr>) = counted b w"
  by (simp add: counted_def)

lemma process_document_counted:
  assumes "counted b w" and "process_document rd doc w = (res, w')"
  shows "counted b w'"
proof -
  let ?parse = "parse_dmarc_xml (re_fromstring rd) (re_now rd) doc :: ('a dmarc, _, _) sem"
  obtain x where x: "?parse w = (x, w)"
    using readsD [OF reads_parse_dmarc_xml] by (metis surj_pair)
  show ?thesis
  proof (cases x)
    case (Inl e)
    with x assms(1,2) show ?thesis by (simp add: process_document_def bindM_def)
  next
    case (Inr p)
    obtain r cs where p: "p = (r, cs)" by fastforce
    let ?d = "sql (dc_db w)"
    from assms(1) have db: "dc_db w = clean ?d" "unique_keys ?d" "records_have_reports ?d"
      and total: "\<forall>k. messages_total (dc_metrics w) k = counted_total ?d k"
      and count: "me_processed (dc_metrics w) + b = int (length (countable_reports ?d))"
      unfolding counted_def by blast+
    have store: "store_report r cs (dc_db w) =
        (if known r ?d then (Inr False, clean ?d) else (Inr True, clean (stored_db r cs ?d)))"
      using store_report_run [OF db(2)] db(1) by metis
    show ?thesis
    proof (cases "known r ?d")
      case True
      with x Inr p store assms(2) have "w' = w\<lparr>dc_db := clean ?d\<rparr>"
        by (simp add: process_document_def bindM_def dmarc_runs)
      with assms(1) db(1) show ?thesis by (simp add: counted_def)
    next
      case False
      let ?given = "\<forall>c \<in> set cs. 0 \<le> cd_count c"
      obtain v m where m: "forM cs (count_record (rd_domain r)) (dc_metrics w) = (v, m)"
        "v = Inr () \<longleftrightarrow> ?given"
        "\<forall>k. messages_total m k = messages_total (dc_metrics w) k +
           given_count (rd_domain r) (takeWhile (\<lambda>c. 0 \<le> cd_count c) cs) k"
        "me_processed m = me_processed (dc_metrics w)"
        using update_metrics_run [of cs "rd_domain r" "dc_metrics w"] by blast
      let ?m = "if ?given then m\<lparr>me_processed := me_processed m + 1\<rparr> else m"
      have w': "w' = w\<lparr>dc_db := clean (stored_db r cs ?d), dc_metrics := ?m\<rparr>"
        using False x Inr p store assms(2) m(1,2)
        by (cases v) (auto simp: process_document_def bindM_def seqM_def dmarc_runs update_metrics_def)
      have keys: "unique_keys (stored_db r cs ?d)"
        using False unique_keys_add_report [OF db(2), of r]
        by (simp add: stored_db_def unique_keys_add_records)
      have "messages_total ?m k = counted_total (stored_db r cs ?d) k" for k
      proof -
        have "messages_total ?m k = messages_total m k" by (simp add: messages_total_def)
        with spec [OF m(3), of k] spec [OF total, of k] show ?thesis
          by (simp add: counted_total_stored_db [OF db(3)])
      qed
      moreover have "me_processed ?m + b = int (length (countable_reports (stored_db r cs ?d)))"
        using m(4) count countable_reports_stored_db [OF db(3), of r cs] by simp
      ultimately show ?thesis
        using keys records_have_reports_stored_db [OF db(3), of r cs] by (simp add: counted_def w')
    qed
  qed
qed

lemma process_message_counted:
  assumes "counted b w" and "process_message rd num w = (res, w')"
  shows "counted b w'"
proof -
  obtain r1 i1 where fetch: "im_fetch (re_imap rd) num (dc_imap w) = (r1, i1)" by fastforce
  show ?thesis
  proof (cases r1)
    case (Inl e)
    with fetch assms show ?thesis by (auto simp: process_message_def bindM_def dmarc_runs)
  next
    case (Inr raw)
    let ?w1 = "w\<lparr>dc_imap := i1\<rparr>"
    obtain x where x: "extract_xml_from_message (re_unzip rd) (re_gunzip rd) (re_parts rd raw) ?w1 = (x, ?w1)"
      using readsD [OF reads_extract_xml] by (metis surj_pair)
    show ?thesis
    proof (cases x)
      case (Inl e)
      with fetch Inr x assms show ?thesis by (auto simp: process_message_def bindM_def dmarc_runs)
    next
      case docs: (Inr docs)
      obtain r2 w2 where docs_run: "forM docs (process_document rd) ?w1 = (r2, w2)" by fastforce
      have "counted b ?w1" using assms(1) by simp
      then have "counted b w2"
        by (rule forM_invariant [OF docs_run]) (rule process_document_counted)
      with fetch Inr x docs docs_run assms show ?thesis
        by (cases r2) (auto simp: process_message_def bindM_def seqM_def dmarc_runs split: if_splits)
    qed
  qed
qed

section \<open>Programs that keep the counters\<close>

lemma on_imap_counted [preserves_intros]: "preserves (counted b) (on_imap m)"
  by (simp add: preserves_def dmarc_runs)

lemma process_messages_keeps [preserves_intros]:
  "preserves (counted b) (process_messages rd nums)"
proof -
  have "preserves (counted b) (process_message rd num)" for num
    using process_message_counted unfolding preserves_def by (metis prod.collapse)
  moreover have "preserves (counted b) (on_metrics (modify (\<lambda>m. m\<lparr>me_failed := me_failed m + 1\<rparr>)))"
    by (simp add: preserves_def dmarc_runs counted_def messages_total_def)
  ultimately show ?thesis unfolding process_messages_def by (intro preserves_intros)
qed

lemma with_cleanup_keeps [preserves_intros]:
  assumes "preserves (counted b) m"
  shows "preserves (counted b) (with_cleanup rd m)"
proof -
  have "preserves (counted b) (catchM (on_imap (im_cleanup (re_imap rd))) (\<lambda>_. ret ()))"
    by (intro preserves_intros)
  then show ?thesis using assms by (auto simp: preserves_def with_cleanup_def split: prod.split)
qed

lemma fetch_and_process_keeps [preserves_intros]:
  "preserves (counted b) (fetch_and_process rd is_imap_error env)"
  unfolding fetch_and_process_def fetch_unseen_def int_arg_def Let_def
  by (auto intro!: preserves_intros split: option.split)

lemma caught_returns: "\<exists>v. catchM m (\<lambda>_. ret ()) w = (Inr (), v)"
  by (cases "m w"; cases "fst (m w)") (auto simp: catchM_def)

section \<open>Properties\<close>


text \<open>
  Four messages: a report, the same report again, a document that is no XML, and a report whose second
  record has a negative count.
\<close>

definition negative_record :: written_record where
  "negative_record =
     example_record\<lparr>wr_row := Some \<lparr>wr_source_ip = ''8.8.4.4'', wr_count = -3, wr_evaluated = None\<rparr>\<rparr>"

definition example_readers :: "string \<Rightarrow> unit readers" where
  "example_readers unseen =
     \<lparr>re_imap = \<lparr>im_connect = (\<lambda>_ _ _. ret ()), im_login = (\<lambda>_ _. ret ()), im_select = (\<lambda>_. ret ()),
        im_search_unseen = ret unseen, im_fetch = ret, im_store_seen = (\<lambda>_. ret ()),
        im_cleanup = ret ()\<rparr>,
      re_parts = (\<lambda>raw. [\<lparr>pa_content_type = ''text/xml'', pa_filename = None, pa_payload = Some raw\<rparr>]),
      re_unzip = (\<lambda>_. Inl BadZipFile), re_gunzip = (\<lambda>_. Inl (OSError [])),
      re_fromstring = (\<lambda>doc.
        if doc = ''3'' then Inl (ParseError [])
        else if doc = ''4''
        then Inr (report_xml [] [] None (example_report\<lparr>rd_report_id := ''r4''\<rparr>)
          [signed_record, negative_record, signed_record])
        else Inr (report_xml [] [] (Some (7, 8)) example_report [example_record])), re_now = 5\<rparr>"

definition example_start :: "unit dmarc" where
  "example_start = \<lparr>dc_imap = (), dc_db = clean empty_db,
     dc_metrics = \<lparr>me_messages = [], me_processed = 0, me_failed = 0\<rparr>\<rparr>"

definition example_env :: "string \<Rightarrow> string option" where
  "example_env = [''DMARC_IMAP_USER'' \<mapsto> ''dmarc'', ''DMARC_IMAP_PASSWORD'' \<mapsto> ''secret'']"

definition example_end :: "string \<Rightarrow> unit dmarc" where
  "example_end unseen = snd (dmarc_main [example_readers unseen] (\<lambda>_. False) example_env example_start)"

definition example_counts :: "unit dmarc \<Rightarrow> (int \<times> int) \<times> int \<times> int list" where
  "example_counts w = ((me_processed (dc_metrics w), me_failed (dc_metrics w)),
     messages_total (dc_metrics w) (''a.org'', ''pass'', ''none''),
     map dx_count (t_dmarc_record (sql (dc_db w))))"


end
