(* ===== verification/Spf.thy ===== *)
theory Spf
  imports Ipaddress Exceptions
begin

text \<open>
  src/backend/taramail/spf.py: the DNS interface, the SPF mechanisms and the hosts a domain's
  SPF records allow. DNS and the socket library are parameters (\<open>resolver\<close>, and the lookups
  under \<open>dns_resolver\<close>). \<open>spf_allowed_hosts n\<close> is the recursive method with at most \<open>n\<close> nested
  calls: \<open>None\<close> is the \<open>RecursionError\<close> of a chain of records longer than that. It is shown
  to return whenever the references between the records have no cycle, and never to return
  for two domains that include each other.
\<close>

section \<open>Resolvers\<close>

record resolver =
  resolve_a :: "string \<Rightarrow> string list"
  resolve_mx :: "string \<Rightarrow> string list"
  resolve_txt :: "string \<Rightarrow> string list"

datatype family = AF_INET | AF_INET6

text \<open>
  The real resolver over \<open>socket.getaddrinfo\<close> (\<open>None\<close> is \<open>gaierror\<close>) and \<open>dns.resolver.resolve\<close>
  (\<open>None\<close> is any exception), given by the printed answers.
\<close>

definition dns_resolver ::
  "(string \<Rightarrow> family \<Rightarrow> string list option) \<Rightarrow> (string \<Rightarrow> string \<Rightarrow> string list option) \<Rightarrow> resolver" where
  "dns_resolver getaddrinfo dns_resolve =
     \<lparr>resolve_a = (\<lambda>domain. dedup (concat (map (\<lambda>family.
        case getaddrinfo domain family of None \<Rightarrow> [] | Some addrs \<Rightarrow> addrs) [AF_INET, AF_INET6]))),
      resolve_mx = (\<lambda>domain.
        case dns_resolve domain ''MX'' of
          None \<Rightarrow> [] | Some answers \<Rightarrow> map (rstrip_by (\<lambda>c. c = CHR ''.'')) answers),
      resolve_txt = (\<lambda>domain.
        case dns_resolve domain ''TXT'' of
          None \<Rightarrow> []
        | Some answers \<Rightarrow>
            map (\<lambda>t. rstrip_by (\<lambda>c. c = CHR 0x22) (lstrip_by (\<lambda>c. c = CHR 0x22) t)) answers)\<rparr>"

record dns_records =
  a_records :: "(string, string list) dict"
  mx_records :: "(string, string list) dict"
  txt_records :: "(string, string list) dict"

definition dict_lookup :: "('k, 'v list) dict \<Rightarrow> 'k \<Rightarrow> 'v list" where
  "dict_lookup d k = (case map_of d k of None \<Rightarrow> [] | Some v \<Rightarrow> v)"

definition fake_resolver :: "dns_records \<Rightarrow> resolver" where
  "fake_resolver r =
     \<lparr>resolve_a = dict_lookup (a_records r), resolve_mx = dict_lookup (mx_records r),
      resolve_txt = dict_lookup (txt_records r)\<rparr>"

section \<open>SPFResolver\<close>

definition get_a_hosts :: "resolver \<Rightarrow> string \<Rightarrow> string list" where
  "get_a_hosts R domain = resolve_a R domain"

definition get_mx_hosts :: "resolver \<Rightarrow> string \<Rightarrow> string list" where
  "get_mx_hosts R domain = dedup (concat (map (resolve_a R) (resolve_mx R domain)))"

text \<open>\<open>name:target/cidr\<close>; without a colon the target is the domain and there is no cidr.\<close>

definition split_mechanism :: "string \<Rightarrow> string \<Rightarrow> string \<times> string \<times> string option" where
  "split_mechanism mech domain =
     (if CHR '':'' \<in> set mech then
        (let name = before CHR '':'' mech; target = after CHR '':'' mech
         in if CHR ''/'' \<in> set target
            then (name, before_last CHR ''/'' target, Some (after_last CHR ''/'' target))
            else (name, target, None))
      else (mech, domain, None))"

definition parse_mechanism ::
  "(string \<Rightarrow> bool \<Rightarrow> string list option) \<Rightarrow> resolver \<Rightarrow> string \<Rightarrow> string \<Rightarrow> string list option" where
  "parse_mechanism spf_hosts R mech domain =
     (let (name, target_domain, cidr) = split_mechanism mech domain;
          new_hosts =
            (if name = ''include'' \<and> target_domain \<noteq> domain then spf_hosts target_domain False
             else if name = ''a'' then Some (resolve_a R target_domain)
             else if name = ''mx'' then Some (get_mx_hosts R target_domain)
             else if name = ''ip4'' \<or> name = ''ip6'' then Some [target_domain]
             else Some [])
      in case cidr of
           None \<Rightarrow> new_hosts
         | Some c \<Rightarrow>
             if c = [] then new_hosts else map_option (map (\<lambda>h. h @ ''/'' @ c)) new_hosts)"

fun dedup_hosts_from :: "string list \<Rightarrow> bool \<Rightarrow> string list \<Rightarrow> string list" where
  "dedup_hosts_from seen expand_ipv6 [] = []"
| "dedup_hosts_from seen expand_ipv6 (host # hosts) =
     (if host \<in> set seen then dedup_hosts_from seen expand_ipv6 hosts
      else (if expand_ipv6 \<and> CHR ''/'' \<notin> set host
            then (case exploded_ipv6 host of None \<Rightarrow> host | Some e \<Rightarrow> e) else host)
           # dedup_hosts_from (host # seen) expand_ipv6 hosts)"

definition deduplicate_hosts :: "string list \<Rightarrow> bool \<Rightarrow> string list" where
  "deduplicate_hosts hosts expand_ipv6 = dedup_hosts_from [] expand_ipv6 hosts"

text \<open>
  The inner loop over the terms of one record: \<open>Inl\<close> is the early return of a redirect,
  \<open>Inr\<close> the hosts collected when the loop ends or breaks at a \<open>-\<close> or \<open>~\<close> term. A term is a
  word, so it is not empty.
\<close>

definition strip_qualifier :: "string \<Rightarrow> string" where
  "strip_qualifier mech = (if hd mech = CHR ''+'' \<or> hd mech = CHR ''?'' then tl mech else mech)"

fun spf_terms ::
  "(string \<Rightarrow> bool \<Rightarrow> string list option) \<Rightarrow> resolver \<Rightarrow> string \<Rightarrow> string list \<Rightarrow> string list \<Rightarrow>
     (string list + string list) option" where
  "spf_terms spf_hosts R domain hosts [] = Some (Inr hosts)"
| "spf_terms spf_hosts R domain hosts (mech # mechs) =
     (if hd mech = CHR ''-'' \<or> hd mech = CHR ''~'' then Some (Inr hosts)
      else let m = strip_qualifier mech in
        if CHR ''='' \<in> set m then
          (if before CHR ''='' m = ''redirect''
           then map_option Inl (spf_hosts (after CHR ''='' m) True)
           else spf_terms spf_hosts R domain hosts mechs)
        else (case parse_mechanism spf_hosts R m domain of
                None \<Rightarrow> None
              | Some new_hosts \<Rightarrow> spf_terms spf_hosts R domain (hosts @ new_hosts) mechs))"

fun spf_records ::
  "(string \<Rightarrow> bool \<Rightarrow> string list option) \<Rightarrow> resolver \<Rightarrow> string \<Rightarrow> string list \<Rightarrow> string list \<Rightarrow>
     (string list + string list) option" where
  "spf_records spf_hosts R domain hosts [] = Some (Inr hosts)"
| "spf_records spf_hosts R domain hosts (txt # txts) =
     (let parts = words txt in
      if parts = [] \<or> hd parts \<noteq> ''v=spf1'' then spf_records spf_hosts R domain hosts txts
      else (case spf_terms spf_hosts R domain hosts (tl parts) of
              None \<Rightarrow> None
            | Some (Inl r) \<Rightarrow> Some (Inl r)
            | Some (Inr hosts') \<Rightarrow> spf_records spf_hosts R domain hosts' txts))"

primrec spf_allowed_hosts :: "nat \<Rightarrow> resolver \<Rightarrow> string \<Rightarrow> bool \<Rightarrow> string list option" where
  "spf_allowed_hosts 0 R domain expand_ipv6 = None"
| "spf_allowed_hosts (Suc n) R domain expand_ipv6 =
     (case spf_records (spf_allowed_hosts n R) R domain [] (resolve_txt R domain) of
        None \<Rightarrow> None
      | Some (Inl r) \<Rightarrow> Some r
      | Some (Inr hosts) \<Rightarrow> Some (deduplicate_hosts hosts expand_ipv6))"

definition outgoing_hosts_best_guess :: "nat \<Rightarrow> resolver \<Rightarrow> string \<Rightarrow> string list option" where
  "outgoing_hosts_best_guess n R domain =
     (case spf_allowed_hosts n R domain False of
        None \<Rightarrow> None
      | Some hosts \<Rightarrow>
          if hosts \<noteq> [] then Some hosts
          else let mx_hosts = get_mx_hosts R domain in
            if mx_hosts \<noteq> [] then Some mx_hosts else Some (get_a_hosts R domain))"

section \<open>When the resolution returns\<close>

text \<open>
  The references of a domain: the terms of its SPF records before the first \<open>-\<close> or \<open>~\<close> term of
  each, read in order up to and with the first redirect, after which nothing is read. Of
  these, an include of another domain and the redirect name a domain to be resolved.
\<close>

definition is_redirect :: "string \<Rightarrow> bool" where
  "is_redirect mech \<longleftrightarrow>
     CHR ''='' \<in> set (strip_qualifier mech) \<and> before CHR ''='' (strip_qualifier mech) = ''redirect''"

definition term_refs :: "string \<Rightarrow> string \<Rightarrow> string list" where
  "term_refs domain mech =
     (let m = strip_qualifier mech in
      if is_redirect mech then [after CHR ''='' m]
      else if CHR ''='' \<in> set m then []
      else let (name, target, cidr) = split_mechanism m domain in
        if name = ''include'' \<and> target \<noteq> domain then [target] else [])"

definition live_terms :: "string \<Rightarrow> string list" where
  "live_terms record =
     (if take 1 (words record) = [''v=spf1'']
      then takeWhile (\<lambda>m. hd m \<noteq> CHR ''-'' \<and> hd m \<noteq> CHR ''~'') (drop 1 (words record)) else [])"

fun until_redirect :: "string list \<Rightarrow> string list" where
  "until_redirect [] = []"
| "until_redirect (m # ms) = (if is_redirect m then [m] else m # until_redirect ms)"

definition spf_refs :: "resolver \<Rightarrow> string \<Rightarrow> string list" where
  "spf_refs R domain =
     concat (map (term_refs domain)
       (until_redirect (concat (map live_terms (resolve_txt R domain)))))"

text \<open>No endless chain of references starts at the domain.\<close>

inductive resolvable :: "resolver \<Rightarrow> string \<Rightarrow> bool" where
  resolvableI: "(\<And>d. d \<in> set (spf_refs R domain) \<Longrightarrow> resolvable R d) \<Longrightarrow> resolvable R domain"

text \<open>
  A call of the method returns exactly when the calls it makes do: the terms, and then the
  records, ask for each of their references and for nothing else.
\<close>

definition answers :: "(string \<Rightarrow> bool \<Rightarrow> 'a option) \<Rightarrow> string list \<Rightarrow> bool" where
  "answers f ds \<longleftrightarrow> (\<forall>d \<in> set ds. \<forall>e. f d e \<noteq> None)"

definition even_handed :: "(string \<Rightarrow> bool \<Rightarrow> 'a option) \<Rightarrow> bool" where
  "even_handed f \<longleftrightarrow> (\<forall>d e e'. f d e = None \<longrightarrow> f d e' = None)"

lemma answers_simps [simp]:
  "answers f []" "answers f (ds @ ds') \<longleftrightarrow> answers f ds \<and> answers f ds'"
  by (auto simp: answers_def)

lemma answers_one: "even_handed f \<Longrightarrow> answers f [d] \<longleftrightarrow> (\<exists>hs. f d e = Some hs)"
  unfolding answers_def even_handed_def by (metis list.set_intros(1) not_None_eq set_ConsD list.set(1) empty_iff)

lemma parse_mechanism_answers:
  assumes "even_handed f" and "CHR ''='' \<notin> set (strip_qualifier mech)"
  shows "parse_mechanism f R (strip_qualifier mech) domain = None \<longleftrightarrow>
    \<not> answers f (term_refs domain mech)"
  using assms answers_one [OF assms(1), of _ False]
  by (auto simp: parse_mechanism_def term_refs_def is_redirect_def Let_def
      split: prod.splits option.splits)

lemma spf_terms_answers:
  assumes "even_handed f"
  shows "case spf_terms f R domain hosts mechs of
      None \<Rightarrow> \<not> answers f (concat (map (term_refs domain) (until_redirect (takeWhile
                (\<lambda>m. hd m \<noteq> CHR ''-'' \<and> hd m \<noteq> CHR ''~'') mechs))))
    | Some r \<Rightarrow> answers f (concat (map (term_refs domain) (until_redirect (takeWhile
                (\<lambda>m. hd m \<noteq> CHR ''-'' \<and> hd m \<noteq> CHR ''~'') mechs)))) \<and>
        (isl r \<longleftrightarrow> (\<exists>m \<in> set (takeWhile (\<lambda>m. hd m \<noteq> CHR ''-'' \<and> hd m \<noteq> CHR ''~'') mechs).
          is_redirect m))"
proof (induction mechs arbitrary: hosts)
  case (Cons mech mechs)
  consider "hd mech = CHR ''-'' \<or> hd mech = CHR ''~''"
    | "\<not> (hd mech = CHR ''-'' \<or> hd mech = CHR ''~'')" "is_redirect mech"
    | "\<not> (hd mech = CHR ''-'' \<or> hd mech = CHR ''~'')" "\<not> is_redirect mech"
      "CHR ''='' \<in> set (strip_qualifier mech)"
    | "\<not> (hd mech = CHR ''-'' \<or> hd mech = CHR ''~'')" "\<not> is_redirect mech"
      "CHR ''='' \<notin> set (strip_qualifier mech)" by blast
  then show ?case
  proof cases
    case 2
    with answers_one [OF assms, of "after CHR ''='' (strip_qualifier mech)" True] show ?thesis
      by (auto simp: is_redirect_def term_refs_def Let_def split: option.splits)
  next
    case 3
    with Cons [of hosts] show ?thesis
      by (auto simp: is_redirect_def term_refs_def Let_def split: option.splits)
  next
    case 4
    show ?thesis
    proof (cases "parse_mechanism f R (strip_qualifier mech) domain")
      case None
      with 4 show ?thesis using parse_mechanism_answers [OF assms 4(3), of R domain]
        by (auto simp: Let_def)
    next
      case (Some new)
      with 4 Cons [of "hosts @ new"] show ?thesis
        using parse_mechanism_answers [OF assms 4(3), of R domain]
        by (auto simp: Let_def split: option.splits)
    qed
  qed auto
qed simp

lemma until_redirect_append:
  "until_redirect (xs @ ys) =
     (if \<exists>m \<in> set xs. is_redirect m then until_redirect xs else xs @ until_redirect ys)"
  by (induction xs) auto

lemma until_redirect_none [simp]: "\<not> (\<exists>m \<in> set xs. is_redirect m) \<Longrightarrow> until_redirect xs = xs"
  by (induction xs) auto

lemma spf_records_answers:
  assumes "even_handed f"
  shows "spf_records f R domain hosts txts = None \<longleftrightarrow>
    \<not> answers f (concat (map (term_refs domain) (until_redirect (concat (map live_terms txts)))))"
proof (induction txts arbitrary: hosts)
  case (Cons t txts)
  show ?case
  proof (cases "words t = [] \<or> hd (words t) \<noteq> ''v=spf1''")
    case True
    then have "live_terms t = []" by (cases "words t") (auto simp: live_terms_def)
    with True Cons [of hosts] show ?thesis by (simp add: Let_def)
  next
    case False
    then have live: "live_terms t =
        takeWhile (\<lambda>m. hd m \<noteq> CHR ''-'' \<and> hd m \<noteq> CHR ''~'') (tl (words t))"
      by (cases "words t") (auto simp: live_terms_def)
    note terms = spf_terms_answers [OF assms, where R = R and domain = domain and hosts = hosts and mechs = "tl (words t)", folded live]
    show ?thesis
    proof (cases "spf_terms f R domain hosts (tl (words t))")
      case None
      with False terms show ?thesis by (auto simp: Let_def until_redirect_append)
    next
      case (Some r)
      with False terms Cons show ?thesis
        by (cases r) (auto simp: Let_def until_redirect_append)
    qed
  qed
qed simp

lemma spf_allowed_hosts_even_handed: "even_handed (spf_allowed_hosts n R)"
  by (cases n) (auto simp: even_handed_def split: option.splits sum.splits)

lemma spf_allowed_hosts_answers:
  "spf_allowed_hosts (Suc n) R domain expand = None \<longleftrightarrow>
     \<not> answers (spf_allowed_hosts n R) (spf_refs R domain)"
  using spf_records_answers [OF spf_allowed_hosts_even_handed, of n R R domain "[]"
      "resolve_txt R domain"]
  by (auto simp: spf_refs_def split: option.splits sum.splits)

text \<open>With a rank that falls along the references, the rank bounds the nested calls.\<close>

lemma spf_allowed_hosts_returns:
  assumes "\<And>d d'. d' \<in> set (spf_refs R d) \<Longrightarrow> rank d' < (rank d :: nat)" and "rank domain < n"
  shows "\<exists>hosts. spf_allowed_hosts n R domain expand = Some hosts"
  using assms(2)
proof (induction n arbitrary: domain expand)
  case (Suc n)
  have "answers (spf_allowed_hosts n R) (spf_refs R domain)"
    unfolding answers_def
  proof (intro ballI allI)
    fix d e
    assume "d \<in> set (spf_refs R domain)"
    with assms(1) Suc.prems have "rank d < n" by fastforce
    with Suc.IH show "spf_allowed_hosts n R d e \<noteq> None" by fastforce
  qed
  then have "spf_allowed_hosts (Suc n) R domain expand \<noteq> None"
    by (simp only: spf_allowed_hosts_answers not_not)
  then show ?case by blast
qed simp

section \<open>What the result holds\<close>

lemma dedup_hosts_from_plain:
  "dedup_hosts_from seen False hosts = dedup_into seen hosts"
  by (induction hosts arbitrary: seen) auto

lemma deduplicate_hosts_plain [simp]: "deduplicate_hosts hosts False = dedup hosts"
  by (simp add: deduplicate_hosts_def dedup_def dedup_hosts_from_plain)

text \<open>Running out of calls is the only way a bound shows: a result is the same with any larger one.\<close>

definition extends :: "(string \<Rightarrow> bool \<Rightarrow> 'a option) \<Rightarrow> (string \<Rightarrow> bool \<Rightarrow> 'a option) \<Rightarrow> bool" where
  "extends f g \<longleftrightarrow> (\<forall>d e x. f d e = Some x \<longrightarrow> g d e = Some x)"

lemma parse_mechanism_extends:
  assumes "extends f g" and "parse_mechanism f R mech domain = Some hs"
  shows "parse_mechanism g R mech domain = Some hs"
proof -
  obtain name target cidr where "split_mechanism mech domain = (name, target, cidr)"
    by (metis prod_cases3)
  with assms show ?thesis
    by (cases cidr) (auto simp: parse_mechanism_def extends_def Let_def split: if_splits)
qed

lemma spf_terms_extends:
  "extends f g \<Longrightarrow> spf_terms f R domain hosts mechs = Some r \<Longrightarrow>
     spf_terms g R domain hosts mechs = Some r"
proof (induction mechs arbitrary: hosts)
  case (Cons mech mechs)
  then show ?case
    by (auto simp: Let_def extends_def dest: parse_mechanism_extends [OF Cons.prems(1)]
        split: option.splits if_splits)
qed simp

lemma spf_records_extends:
  "extends f g \<Longrightarrow> spf_records f R domain hosts txts = Some r \<Longrightarrow>
     spf_records g R domain hosts txts = Some r"
proof (induction txts arbitrary: hosts)
  case (Cons t txts)
  then show ?case
    by (auto simp: Let_def dest: spf_terms_extends [OF Cons.prems(1)]
        split: option.splits if_splits sum.splits)
qed simp

lemma spf_allowed_hosts_extends: "extends (spf_allowed_hosts n R) (spf_allowed_hosts (n + k) R)"
proof (induction n)
  case (Suc n)
  show ?case
    unfolding extends_def
    using spf_records_extends [OF Suc] by (fastforce split: option.splits sum.splits)
qed (simp add: extends_def)

text \<open>Two domains whose records include each other: the guard only stops self-inclusion.\<close>

definition include_cycle :: dns_records where
  "include_cycle =
     \<lparr>a_records = [], mx_records = [],
      txt_records = [(''a.org'', [''v=spf1 include:b.org -all'']),
                     (''b.org'', [''v=spf1 include:a.org -all''])]\<rparr>"

lemma include_cycle_a:
  "spf_allowed_hosts (Suc n) (fake_resolver include_cycle) ''a.org'' e =
     (case spf_allowed_hosts n (fake_resolver include_cycle) ''b.org'' False of
        None \<Rightarrow> None | Some hs \<Rightarrow> Some (deduplicate_hosts hs e))"
  by (simp add: fake_resolver_def include_cycle_def dict_lookup_def words_def is_space_def
      code_def strip_qualifier_def parse_mechanism_def split_mechanism_def before_def after_def
      split: option.splits)

lemma include_cycle_b:
  "spf_allowed_hosts (Suc n) (fake_resolver include_cycle) ''b.org'' e =
     (case spf_allowed_hosts n (fake_resolver include_cycle) ''a.org'' False of
        None \<Rightarrow> None | Some hs \<Rightarrow> Some (deduplicate_hosts hs e))"
  by (simp add: fake_resolver_def include_cycle_def dict_lookup_def words_def is_space_def
      code_def strip_qualifier_def parse_mechanism_def split_mechanism_def before_def after_def
      split: option.splits)

text \<open>Returning is the same as having no endless chain of references.\<close>

lemma answers_extends: "extends f g \<Longrightarrow> answers f ds \<Longrightarrow> answers g ds"
  by (fastforce simp: answers_def extends_def)

lemma resolvable_returns:
  "resolvable R domain \<Longrightarrow> \<exists>n hosts. spf_allowed_hosts n R domain expand = Some hosts"
proof (induction arbitrary: expand rule: resolvable.induct)
  case (resolvableI R domain)
  have "\<exists>n. answers (spf_allowed_hosts n R) ds" if "set ds \<subseteq> set (spf_refs R domain)" for ds
    using that
  proof (induction ds)
    case (Cons d ds)
    then obtain n where n: "answers (spf_allowed_hosts n R) ds" by auto
    from Cons.prems resolvableI.IH obtain m hs where "spf_allowed_hosts m R d True = Some hs"
      by (meson list.set_intros(1) subsetD)
    then have m: "answers (spf_allowed_hosts m R) [d]"
      using answers_one [OF spf_allowed_hosts_even_handed] by blast
    have "answers (spf_allowed_hosts (n + m) R) (d # ds)"
      using answers_extends [OF spf_allowed_hosts_extends n, of m]
        answers_extends [OF spf_allowed_hosts_extends m, of n]
      by (simp add: answers_def add.commute)
    then show ?case ..
  qed simp
  then obtain n where "answers (spf_allowed_hosts n R) (spf_refs R domain)" by blast
  then have "spf_allowed_hosts (Suc n) R domain expand \<noteq> None"
    by (simp only: spf_allowed_hosts_answers not_not)
  then show ?case by blast
qed

lemma returns_resolvable:
  "spf_allowed_hosts n R domain expand = Some hosts \<Longrightarrow> resolvable R domain"
proof (induction n arbitrary: domain expand hosts)
  case (Suc n)
  from Suc.prems have "answers (spf_allowed_hosts n R) (spf_refs R domain)"
    using spf_allowed_hosts_answers [of n R domain expand] by (simp del: spf_allowed_hosts.simps)
  then show ?case by - (rule resolvableI, meson Suc.IH answers_def not_None_eq)
qed simp

section \<open>Properties\<close>

text \<open>
  C18. The resolution of a domain returns exactly when no endless chain of references starts at
  the domain: the references are the includes of other domains and the redirects that stand
  before a \<open>-\<close> or \<open>~\<close> term and not after a redirect. Then from some number of nested calls on,
  the hosts it returns are the same whatever the limit on the calls is.
\<close>
theorem spf_resolution_terminates:
  "resolvable R domain \<longleftrightarrow>
     (\<exists>hosts n. \<forall>k. spf_allowed_hosts (n + k) R domain expand = Some hosts)"
proof
  assume "resolvable R domain"
  then obtain n hosts where "spf_allowed_hosts n R domain expand = Some hosts"
    using resolvable_returns by blast
  then have "spf_allowed_hosts (n + k) R domain expand = Some hosts" for k
    using spf_allowed_hosts_extends unfolding extends_def by blast
  then show "\<exists>hosts n. \<forall>k. spf_allowed_hosts (n + k) R domain expand = Some hosts" by blast
next
  assume "\<exists>hosts n. \<forall>k. spf_allowed_hosts (n + k) R domain expand = Some hosts"
  then obtain n hosts where "spf_allowed_hosts n R domain expand = Some hosts"
    by blast
  then show "resolvable R domain" by (rule returns_resolvable)
qed

definition include_chain :: dns_records where
  "include_chain =
     \<lparr>a_records = [(''b.org'', [''192.0.2.7''])], mx_records = [],
      txt_records = [(''a.org'', [''v=spf1 include:b.org ip4:198.51.100.0/24 -all'']),
                     (''b.org'', [''v=spf1 +a exp=b.org -all include:a.org''])]\<rparr>"

lemma include_chain_refs:
  "spf_refs (fake_resolver include_chain) d = (if d = ''a.org'' then [''b.org''] else [])"
  by (auto simp: fake_resolver_def include_chain_def dict_lookup_def spf_refs_def term_refs_def
      live_terms_def is_redirect_def words_def is_space_def code_def strip_qualifier_def
      split_mechanism_def before_def after_def Let_def)

lemma spf_resolution_terminates_witness:
  "\<exists>hosts n. \<forall>k. spf_allowed_hosts (n + k) (fake_resolver include_chain) ''a.org'' False = Some hosts"
proof -
  have "resolvable (fake_resolver include_chain) ''b.org''"
    by (rule resolvableI) (simp add: include_chain_refs)
  then have "resolvable (fake_resolver include_chain) ''a.org''"
    by - (rule resolvableI, simp add: include_chain_refs)
  then show ?thesis
    using spf_resolution_terminates [of "fake_resolver include_chain" "''a.org''" False] by (rule rev_iffD1)
qed

text \<open>
  Two domains whose records include each other are never resolved: however many nested calls
  are allowed, the lookup does not return, since only a domain that includes itself is skipped.
\<close>
theorem spf_include_cycle_never_returns:
  "spf_allowed_hosts n (fake_resolver include_cycle) ''a.org'' expand = None"
proof -
  have "\<forall>e. spf_allowed_hosts n (fake_resolver include_cycle) ''a.org'' e = None \<and>
            spf_allowed_hosts n (fake_resolver include_cycle) ''b.org'' e = None"
    by (induction n) (simp_all add: include_cycle_a include_cycle_b
        del: spf_allowed_hosts.simps(2))
  then show ?thesis by simp
qed

end
