(* ===== verification/Store.thy ===== *)
theory Store
  imports Exceptions
begin

text \<open>
  The key-value store of \<open>taramail/store.py\<close>. The abstract class \<open>Store\<close> is the record
  \<open>store_ops\<close> of its operations, which the managers receive as their \<open>self.store\<close>; the
  locale \<open>hash_store\<close> states what the managers rely on; \<open>MemoryStore\<close> is modelled in
  full, clock and expiry included, and interprets it; \<open>RedisStore\<close> and \<open>MemcachedStore\<close> are in
  Redis and Memcached.
\<close>

datatype pyval = PStr string | PInt int | PBool bool

fun py_str :: "pyval \<Rightarrow> string" where
  "py_str (PStr s) = s"
| "py_str (PInt i) = show_int i"
| "py_str (PBool b) = (if b then ''True'' else ''False'')"

text \<open>The values that every store takes: Redis refuses Booleans.\<close>

fun storable :: "pyval \<Rightarrow> bool" where
  "storable (PBool b) = False"
| "storable _ = True"

record 's store_ops =
  s_get :: "string \<Rightarrow> ('s, py_exn, string option) sem"
  s_set :: "string \<Rightarrow> pyval \<Rightarrow> int option \<Rightarrow> ('s, py_exn, bool) sem"
  s_delete :: "string list \<Rightarrow> ('s, py_exn, nat) sem"
  s_hget :: "string \<Rightarrow> string \<Rightarrow> ('s, py_exn, string option) sem"
  s_hgetall :: "string \<Rightarrow> ('s, py_exn, (string, string) dict) sem"
  s_hset :: "string \<Rightarrow> string \<Rightarrow> pyval \<Rightarrow> int option \<Rightarrow> ('s, py_exn, nat) sem"
  s_hdel :: "string \<Rightarrow> string list \<Rightarrow> ('s, py_exn, nat) sem"
  s_hkeys :: "string \<Rightarrow> ('s, py_exn, string list) sem"
  s_flushall :: "('s, py_exn, unit) sem"

section \<open>MemoryStore\<close>

text \<open>
  A record holds a string or a hash, and the time it expires (\<open>None\<close> for infinity). Times
  are integers in the unit of the clock; \<open>now\<close> is the reading of \<open>time()\<close> during the call,
  of which every operation makes at most one.
\<close>

datatype mem_data = MStr string | MDict "(string, string) dict"

record memory_record =
  mr_data :: mem_data
  mr_expires :: "int option"

type_synonym memory_store = "(string, memory_record) dict"

definition from_ttl :: "int \<Rightarrow> mem_data \<Rightarrow> int option \<Rightarrow> memory_record" where
  "from_ttl now data ttl =
     \<lparr>mr_data = data, mr_expires = (case ttl of None \<Rightarrow> None | Some t \<Rightarrow> Some (now + t))\<rparr>"

definition expired :: "int \<Rightarrow> memory_record \<Rightarrow> bool" where
  "expired now r = (case mr_expires r of None \<Rightarrow> False | Some e \<Rightarrow> e < now)"

fun memory_delete :: "string list \<Rightarrow> (memory_store, py_exn, nat) sem" where
  "memory_delete [] s = (Inr 0, s)"
| "memory_delete (k # ks) s =
     (if map_of s k = None then memory_delete ks s
      else (case memory_delete ks (dict_del k s) of
              (Inr n, t) \<Rightarrow> (Inr (Suc n), t) | (Inl e, t) \<Rightarrow> (Inl e, t)))"

definition memory_get :: "int \<Rightarrow> string \<Rightarrow> (memory_store, py_exn, string option) sem" where
  "memory_get now key s =
     (case map_of s key of
        None \<Rightarrow> (Inr None, s)
      | Some record \<Rightarrow>
          if expired now record then seqM (memory_delete [key]) (ret None) s
          else (case mr_data record of
                  MDict _ \<Rightarrow> (Inl (TypeError ''Wrong type''), s)
                | MStr data \<Rightarrow> (Inr (Some data), s)))"

definition memory_set ::
  "int \<Rightarrow> string \<Rightarrow> pyval \<Rightarrow> int option \<Rightarrow> (memory_store, py_exn, bool) sem" where
  "memory_set now key value ttl s =
     (Inr True, dict_set key (from_ttl now (MStr (py_str value)) ttl) s)"

definition memory_hget ::
  "int \<Rightarrow> string \<Rightarrow> string \<Rightarrow> (memory_store, py_exn, string option) sem" where
  "memory_hget now key fld s =
     (case map_of s key of
        None \<Rightarrow> (Inr None, s)
      | Some record \<Rightarrow>
          if expired now record then seqM (memory_delete [key]) (ret None) s
          else (case mr_data record of
                  MStr _ \<Rightarrow> (Inl (TypeError ''Wrong type''), s)
                | MDict data \<Rightarrow> (Inr (map_of data fld), s)))"

definition memory_hgetall ::
  "int \<Rightarrow> string \<Rightarrow> (memory_store, py_exn, (string, string) dict) sem" where
  "memory_hgetall now key s =
     (case map_of s key of
        None \<Rightarrow> (Inr [], s)
      | Some record \<Rightarrow>
          if expired now record then seqM (memory_delete [key]) (ret []) s
          else (case mr_data record of
                  MStr _ \<Rightarrow> (Inl (TypeError ''Wrong type''), s)
                | MDict data \<Rightarrow> (Inr data, s)))"

text \<open>
  \<open>hset\<close> creates the record when the key is missing (\<open>setdefault\<close>), never looks at its
  expiry, and assigns into its data; on a string that raises \<open>TypeError\<close>.
\<close>

definition memory_hset ::
  "int \<Rightarrow> string \<Rightarrow> string \<Rightarrow> pyval \<Rightarrow> int option \<Rightarrow> (memory_store, py_exn, nat) sem" where
  "memory_hset now key fld value ttl s =
     (let record = (case map_of s key of
                      None \<Rightarrow> from_ttl now (MDict []) ttl | Some r \<Rightarrow> r)
      in case mr_data record of
           MStr _ \<Rightarrow>
             (Inl (TypeError ([CHR 0x27] @ ''str'' @ [CHR 0x27] @
                ''object does not support item assignment'')), s)
         | MDict data \<Rightarrow>
             (Inr (if map_of data fld = None then 1 else 0),
              dict_set key (record\<lparr>mr_data := MDict (dict_set fld (py_str value) data)\<rparr>) s))"

text \<open>\<open>del data[f]\<close> for each field, counting those that were there.\<close>

fun del_fields :: "string list \<Rightarrow> (string, 'v) dict \<Rightarrow> nat \<times> (string, 'v) dict" where
  "del_fields [] data = (0, data)"
| "del_fields (f # fs) data =
     (if map_of data f = None then del_fields fs data
      else (case del_fields fs (dict_del f data) of (n, d) \<Rightarrow> (Suc n, d)))"

text \<open>
  \<open>hgetall\<close> returns the dict of the record itself, so deleting from it changes the store;
  for a missing or expired key it is a fresh dict.
\<close>

definition memory_hdel :: "int \<Rightarrow> string \<Rightarrow> string list \<Rightarrow> (memory_store, py_exn, nat) sem" where
  "memory_hdel now key flds =
     bindM (memory_hgetall now key) (\<lambda>data s.
       case del_fields flds data of
         (count, data') \<Rightarrow>
           (Inr count,
            case map_of s key of
              None \<Rightarrow> s
            | Some record \<Rightarrow> dict_set key (record\<lparr>mr_data := MDict data'\<rparr>) s))"

definition memory_hkeys :: "int \<Rightarrow> string \<Rightarrow> (memory_store, py_exn, string list) sem" where
  "memory_hkeys now key = bindM (memory_hgetall now key) (\<lambda>data. ret (dict_keys data))"

definition memory_flushall :: "(memory_store, py_exn, unit) sem" where
  "memory_flushall s = (Inr (), [])"

definition memory_ops :: "int \<Rightarrow> memory_store store_ops" where
  "memory_ops now =
     \<lparr>s_get = memory_get now, s_set = memory_set now, s_delete = memory_delete,
      s_hget = memory_hget now, s_hgetall = memory_hgetall now, s_hset = memory_hset now,
      s_hdel = memory_hdel now, s_hkeys = memory_hkeys now, s_flushall = memory_flushall\<rparr>"

section \<open>What the managers rely on\<close>

text \<open>Assigning a field of a hash, and deleting some of its fields, on what a store holds.\<close>

definition hput ::
  "(string \<Rightarrow> string \<Rightarrow> string option) \<Rightarrow> string \<Rightarrow> string \<Rightarrow> string \<Rightarrow>
     string \<Rightarrow> string \<Rightarrow> string option" where
  "hput v k f x = v(k := (v k)(f \<mapsto> x))"

definition hrem ::
  "(string \<Rightarrow> string \<Rightarrow> string option) \<Rightarrow> string \<Rightarrow> string list \<Rightarrow>
     string \<Rightarrow> string \<Rightarrow> string option" where
  "hrem v k fs = v(k := v k |` (- set fs))"

lemma hput_apply [simp]: "hput v k f x k' f' = (if k' = k \<and> f' = f then Some x else v k' f')"
  by (simp add: hput_def)

lemma hrem_apply [simp]:
  "hrem v k fs k' f' = (if k' = k \<and> f' \<in> set fs then None else v k' f')"
  by (simp add: hrem_def restrict_map_def)

text \<open>
  A store behaves as hashes of strings: \<open>view s key field\<close> is what it holds, \<open>good s\<close> that
  no key the managers use holds a plain string. Each law is an equation for the result, the
  view and the invariant after one operation. A store may refuse a Boolean and a call that deletes
  nothing; \<open>printing_store\<close> is one that prints every value.
\<close>

locale hash_store =
  fixes ops :: "'s store_ops"
    and view :: "'s \<Rightarrow> string \<Rightarrow> string \<Rightarrow> string option"
    and good :: "'s \<Rightarrow> bool"
  assumes hget_result: "good s \<Longrightarrow> fst (s_hget ops k f s) = Inr (view s k f)"
    and hget_view: "good s \<Longrightarrow> view (snd (s_hget ops k f s)) = view s"
    and hget_good: "good s \<Longrightarrow> good (snd (s_hget ops k f s))"
    and hgetall_result: "good s \<Longrightarrow>
      (\<exists>d. fst (s_hgetall ops k s) = Inr d \<and> map_of d = view s k \<and> distinct (dict_keys d))"
    and hgetall_view: "good s \<Longrightarrow> view (snd (s_hgetall ops k s)) = view s"
    and hgetall_good: "good s \<Longrightarrow> good (snd (s_hgetall ops k s))"
    and hset_result: "good s \<Longrightarrow> storable v \<Longrightarrow>
      fst (s_hset ops k f v None s) = Inr (if view s k f = None then 1 else 0)"
    and hset_view: "good s \<Longrightarrow> storable v \<Longrightarrow>
      view (snd (s_hset ops k f v None s)) = (view s)(k := (view s k)(f \<mapsto> py_str v))"
    and hset_good: "good s \<Longrightarrow> storable v \<Longrightarrow> good (snd (s_hset ops k f v None s))"
    and hdel_result: "good s \<Longrightarrow> fs \<noteq> [] \<Longrightarrow>
      fst (s_hdel ops k fs s) = Inr (card (set fs \<inter> dom (view s k)))"
    and hdel_view: "good s \<Longrightarrow> fs \<noteq> [] \<Longrightarrow>
      view (snd (s_hdel ops k fs s)) = (view s)(k := view s k |` (- set fs))"
    and hdel_good: "good s \<Longrightarrow> fs \<noteq> [] \<Longrightarrow> good (snd (s_hdel ops k fs s))"
    and delete_result: "good s \<Longrightarrow> ks \<noteq> [] \<Longrightarrow> \<exists>n. fst (s_delete ops ks s) = Inr n"
    and delete_view: "good s \<Longrightarrow> ks \<noteq> [] \<Longrightarrow>
      view (snd (s_delete ops ks s)) = (\<lambda>k. if k \<in> set ks then Map.empty else view s k)"
    and delete_good: "good s \<Longrightarrow> ks \<noteq> [] \<Longrightarrow> good (snd (s_delete ops ks s))"
begin

lemmas store_laws =
  hget_result hget_view hget_good hgetall_view hgetall_good hset_result hset_view hset_good
  hdel_result hdel_view hdel_good delete_view delete_good

text \<open>The laws of one operation as one equation, for running a manager step by step.\<close>

lemma hset_run:
  assumes "good s" and "storable v"
  shows "\<exists>n t. s_hset ops k f v None s = (Inr n, t) \<and> good t \<and>
    view t = hput (view s) k f (py_str v)"
  using hset_result [OF assms, of k f] hset_view [OF assms, of k f]
    hset_good [OF assms, of k f] unfolding hput_def by (metis prod.collapse)

lemma hset_text_run:
  assumes "good s"
  shows "\<exists>n t. s_hset ops k f (PStr x) None s = (Inr n, t) \<and> good t \<and> view t = hput (view s) k f x"
  using hset_run [OF assms, of "PStr x" k f] by simp

lemma hset_int_run:
  assumes "good s"
  shows "\<exists>n t. s_hset ops k f (PInt i) None s = (Inr n, t) \<and> good t \<and> view t = hput (view s) k f (show_int i)"
  using hset_run [OF assms, of "PInt i" k f] by simp

lemma hdel_run:
  assumes "good s"
  shows "\<exists>n t. s_hdel ops k (f # fs) s = (Inr n, t) \<and> good t \<and> view t = hrem (view s) k (f # fs)"
  using hdel_result [OF assms, of "f # fs" k] hdel_view [OF assms, of "f # fs" k]
    hdel_good [OF assms, of "f # fs" k] unfolding hrem_def by (metis list.discI prod.collapse)

lemma hget_run:
  assumes "good s"
  shows "\<exists>t. s_hget ops k f s = (Inr (view s k f), t) \<and> good t \<and> view t = view s"
  using hget_result [OF assms, of k f] hget_view [OF assms, of k f]
    hget_good [OF assms, of k f] by (metis prod.collapse)

lemma hgetall_run:
  assumes "good s"
  shows "\<exists>d t. s_hgetall ops k s = (Inr d, t) \<and> map_of d = view s k \<and> distinct (dict_keys d) \<and>
    good t \<and> view t = view s"
  using hgetall_result [OF assms, of k] hgetall_view [OF assms, of k]
    hgetall_good [OF assms, of k] by (metis prod.collapse)

lemma delete_run:
  assumes "good s" and "ks \<noteq> []"
  shows "\<exists>n t. s_delete ops ks s = (Inr n, t) \<and> good t \<and>
    view t = (\<lambda>k. if k \<in> set ks then Map.empty else view s k)"
  using delete_result [OF assms] delete_view [OF assms] delete_good [OF assms] by (metis prod.collapse)

end

locale printing_store = hash_store +
  assumes hset_bool: "good s \<Longrightarrow> \<exists>n t. s_hset ops k f (PBool b) None s = (Inr n, t) \<and> good t \<and>
    view t = hput (view s) k f (py_str (PBool b))"
begin

lemma hset_any_run:
  assumes "good s"
  shows "\<exists>n t. s_hset ops k f v None s = (Inr n, t) \<and> good t \<and> view t = hput (view s) k f (py_str v)"
  using hset_bool [OF assms] hset_run [OF assms] by (cases v) (simp_all del: py_str.simps)

end

section \<open>MemoryStore keeps the contract\<close>

definition memory_view :: "memory_store \<Rightarrow> string \<Rightarrow> string \<Rightarrow> string option" where
  "memory_view s key =
     (case map_of s key of
        None \<Rightarrow> Map.empty
      | Some r \<Rightarrow> (case mr_data r of MStr _ \<Rightarrow> Map.empty | MDict d \<Rightarrow> map_of d))"

definition record_good :: "int \<Rightarrow> memory_record \<Rightarrow> bool" where
  "record_good now r \<longleftrightarrow>
     \<not> expired now r \<and>
     (case mr_data r of MStr _ \<Rightarrow> False | MDict d \<Rightarrow> distinct (dict_keys d))"

definition memory_good :: "int \<Rightarrow> memory_store \<Rightarrow> bool" where
  "memory_good now s \<longleftrightarrow> (\<forall>k r. map_of s k = Some r \<longrightarrow> record_good now r)"

lemma card_keys_Cons:
  assumes "m k \<noteq> None"
  shows "card (set (k # ks) \<inter> dom m) = Suc (card (set ks \<inter> dom (m(k := None))))"
proof -
  have "set (k # ks) \<inter> dom m = insert k (set ks \<inter> dom (m(k := None)))"
    using assms by auto
  then show ?thesis by simp
qed

lemma restrict_keys_Cons: "m(k := None) |` (- set ks) = m |` (- set (k # ks))"
  by (auto simp: restrict_map_def fun_eq_iff)

lemma restrict_keys_absent: "m k = None \<Longrightarrow> m |` (- set (k # ks)) = m |` (- set ks)"
  by (auto simp: restrict_map_def fun_eq_iff)

lemma card_keys_absent: "m k = None \<Longrightarrow> set (k # ks) \<inter> dom m = set ks \<inter> dom m"
  by auto

lemma memory_delete_run:
  "\<exists>t. memory_delete ks s = (Inr (card (set ks \<inter> dom (map_of s))), t) \<and>
       map_of t = map_of s |` (- set ks)"
proof (induction ks arbitrary: s)
  case (Cons k ks)
  show ?case
  proof (cases "map_of s k")
    case None
    then show ?thesis
      using Cons [of s] by (simp only: card_keys_absent restrict_keys_absent) simp
  next
    case (Some r)
    then have card: "card (set (k # ks) \<inter> dom (map_of s)) =
        Suc (card (set ks \<inter> dom ((map_of s)(k := None))))"
      by (intro card_keys_Cons) simp
    obtain t where t: "memory_delete ks (dict_del k s) =
        (Inr (card (set ks \<inter> dom ((map_of s)(k := None)))), t)"
      and m: "map_of t = (map_of s)(k := None) |` (- set ks)"
      using Cons [of "dict_del k s"] unfolding map_of_dict_del by blast
    have "memory_delete (k # ks) s =
        (Inr (Suc (card (set ks \<inter> dom ((map_of s)(k := None))))), t)"
      using Some t by (simp del: dom_fun_upd)
    with m show ?thesis unfolding card restrict_keys_Cons [symmetric] by blast
  qed
qed (simp add: fun_eq_iff)

lemma set_del_fields: "set (snd (del_fields fs d)) \<subseteq> set d"
proof (induction fs arbitrary: d)
  case (Cons f fs)
  have "set (dict_del f d) \<subseteq> set d" by (auto simp: dict_del_def)
  with Cons [of d] Cons [of "dict_del f d"] show ?case by (auto simp: split_beta)
qed simp

lemma del_fields_run:
  "fst (del_fields fs d) = card (set fs \<inter> dom (map_of d)) \<and>
   map_of (snd (del_fields fs d)) = map_of d |` (- set fs) \<and>
   (distinct (dict_keys d) \<longrightarrow> distinct (dict_keys (snd (del_fields fs d))))"
proof (induction fs arbitrary: d)
  case (Cons f fs)
  show ?case
  proof (cases "map_of d f")
    case None
    then show ?thesis
      using Cons [of d] by (simp only: card_keys_absent restrict_keys_absent) simp
  next
    case (Some v)
    then have card: "card (set (f # fs) \<inter> dom (map_of d)) =
        Suc (card (set fs \<inter> dom ((map_of d)(f := None))))"
      by (intro card_keys_Cons) simp
    note IH = Cons [of "dict_del f d", unfolded map_of_dict_del]
    have run: "fst (del_fields (f # fs) d) = Suc (fst (del_fields fs (dict_del f d)))"
      "snd (del_fields (f # fs) d) = snd (del_fields fs (dict_del f d))"
      using Some by (simp_all add: split_beta)
    show ?thesis
      unfolding card run restrict_keys_Cons [symmetric]
      using IH distinct_dict_del [of d f] by metis
  qed
qed (simp add: fun_eq_iff)

lemma memory_hgetall_good:
  assumes "memory_good now s"
  shows "snd (memory_hgetall now k s) = s"
    and "\<exists>d. fst (memory_hgetall now k s) = Inr d \<and> map_of d = memory_view s k \<and>
           distinct (dict_keys d)"
  using assms
  by (auto simp: memory_hgetall_def memory_view_def memory_good_def record_good_def dict_keys_def
      split: option.splits mem_data.splits)

lemma memory_hget_good:
  assumes "memory_good now s"
  shows "memory_hget now k f s = (Inr (memory_view s k f), s)"
  using assms
  by (fastforce simp: memory_hget_def memory_view_def memory_good_def record_good_def
      split: option.splits mem_data.splits)

lemma memory_good_set [intro]:
  "memory_good now s \<Longrightarrow> record_good now r \<Longrightarrow> memory_good now (dict_set k r s)"
  by (simp add: memory_good_def)

lemma memory_hset_good:
  assumes "memory_good now s"
  shows "fst (memory_hset now k f v None s) = Inr (if memory_view s k f = None then 1 else 0)"
    and "memory_view (snd (memory_hset now k f v None s)) =
           (memory_view s)(k := (memory_view s k)(f \<mapsto> py_str v))"
    and "memory_good now (snd (memory_hset now k f v None s))"
proof -
  have d: "\<And>r. map_of s k = Some r \<Longrightarrow> record_good now r"
    using assms by (simp add: memory_good_def)
  show "fst (memory_hset now k f v None s) = Inr (if memory_view s k f = None then 1 else 0)"
    using d by (auto simp: memory_hset_def memory_view_def from_ttl_def record_good_def Let_def
        split: option.splits mem_data.splits)
  show "memory_view (snd (memory_hset now k f v None s)) =
      (memory_view s)(k := (memory_view s k)(f \<mapsto> py_str v))"
    using d by (auto simp: memory_hset_def memory_view_def from_ttl_def record_good_def Let_def
        fun_eq_iff split: option.splits mem_data.splits)
  show "memory_good now (snd (memory_hset now k f v None s))"
  proof (cases "map_of s k")
    case None
    then show ?thesis
      using assms by (auto simp: memory_hset_def from_ttl_def record_good_def expired_def dict_keys_def)
  next
    case (Some r)
    with d obtain m where "mr_data r = MDict m" "distinct (dict_keys m)" "\<not> expired now r"
      by (fastforce simp: record_good_def split: mem_data.splits)
    with assms Some show ?thesis
      by (auto simp: memory_hset_def record_good_def expired_def distinct_dict_set)
  qed
qed

lemma memory_hdel_good:
  assumes "memory_good now s"
  shows "fst (memory_hdel now k fs s) = Inr (card (set fs \<inter> dom (memory_view s k)))"
    and "memory_view (snd (memory_hdel now k fs s)) =
           (memory_view s)(k := memory_view s k |` (- set fs))"
    and "memory_good now (snd (memory_hdel now k fs s))"
proof -
  obtain d where d: "memory_hgetall now k s = (Inr d, s)" and v: "map_of d = memory_view s k"
    and dist: "distinct (dict_keys d)"
    using memory_hgetall_good [OF assms] by (metis prod.collapse)
  have run: "memory_hdel now k fs s = (Inr (fst (del_fields fs d)),
      case map_of s k of None \<Rightarrow> s
      | Some r \<Rightarrow> dict_set k (r\<lparr>mr_data := MDict (snd (del_fields fs d))\<rparr>) s)"
    by (simp add: memory_hdel_def bindM_def d split_beta)
  show "fst (memory_hdel now k fs s) = Inr (card (set fs \<inter> dom (memory_view s k)))"
    using run del_fields_run [of fs d] v by simp
  show "memory_view (snd (memory_hdel now k fs s)) =
      (memory_view s)(k := memory_view s k |` (- set fs))"
    using run del_fields_run [of fs d] v
    by (auto simp: memory_view_def fun_eq_iff restrict_map_def split: option.splits)
  show "memory_good now (snd (memory_hdel now k fs s))"
    using run assms del_fields_run [of fs d] dist
    by (auto simp: memory_good_def record_good_def expired_def split: option.splits)
qed

lemma memory_delete_good:
  assumes "memory_good now s"
  shows "memory_good now (snd (memory_delete ks s))"
    and "memory_view (snd (memory_delete ks s)) =
           (\<lambda>k. if k \<in> set ks then Map.empty else memory_view s k)"
    and "\<exists>n. fst (memory_delete ks s) = Inr n"
proof -
  obtain n t where t: "memory_delete ks s = (Inr n, t)" "map_of t = map_of s |` (- set ks)"
    using memory_delete_run [of ks s] by blast
  with assms show "memory_good now (snd (memory_delete ks s))"
    by (auto simp: memory_good_def restrict_map_def split: if_splits)
  from t show "memory_view (snd (memory_delete ks s)) =
      (\<lambda>k. if k \<in> set ks then Map.empty else memory_view s k)"
    by (auto simp: memory_view_def restrict_map_def fun_eq_iff)
  from t show "\<exists>n. fst (memory_delete ks s) = Inr n" by simp
qed

interpretation memory: printing_store "memory_ops now" memory_view "memory_good now" for now
proof (unfold_locales, goal_cases)
  case (4 s k)
  then show ?case using memory_hgetall_good(2) by (simp add: memory_ops_def)
next
  case (13 s ks)
  then show ?case using memory_delete_good(3) by (simp add: memory_ops_def)
next
  case (16 s k f b)
  then show ?case
    using memory_hset_good [of now s k f "PBool b"] by (metis memory_ops_def hput_def prod.collapse store_ops.select_convs(6))
qed (simp_all add: memory_ops_def memory_hget_good memory_hset_good memory_hdel_good
    memory_hgetall_good memory_delete_good)

end
