(* ===== verification/ForwardingHost.thy ===== *)
theory ForwardingHost
  imports Spf Store
begin

text \<open>
  src/backend/taramail/forwarding_host.py: the hosts whose mail is not greylisted, kept in two
  hashes of the store, \<open>WHITELISTED_FWD_HOST\<close> (host to the source it was added as) and
  \<open>KEEP_SPAM\<close>. The SPF resolution runs with a bound on its nested calls (\<open>sr_depth\<close>), past
  which it raises \<open>RecursionError\<close>. The lemmas hold for every store that keeps the contract of
  \<open>hash_store\<close>; the properties are their instances at the memory store.
\<close>

record forwarding_host_create =
  fhc_hostname :: string
  fhc_filter_spam :: bool

record forwarding_host_details =
  fhd_host :: string
  fhd_source :: string
  fhd_keep_spam :: string

record forwarding_host_update =
  fhu_keep_spam :: "bool option"

record spf_resolver =
  sr_resolver :: resolver
  sr_depth :: nat

definition yes_no :: "string option \<Rightarrow> string" where
  "yes_no v = (if v \<noteq> None \<and> v \<noteq> Some [] then ''yes'' else ''no'')"

definition get_forwarding_hosts ::
  "'s store_ops \<Rightarrow> ('s, py_exn, forwarding_host_details list) sem" where
  "get_forwarding_hosts store =
     bindM (s_hgetall store ''WHITELISTED_FWD_HOST'') (\<lambda>fwd_hosts.
     if fwd_hosts = [] then ret []
     else mapM (\<lambda>(host, source).
       bindM (s_hget store ''KEEP_SPAM'' host) (\<lambda>keep_spam.
       ret \<lparr>fhd_host = host, fhd_source = source, fhd_keep_spam = yes_no keep_spam\<rparr>)) fwd_hosts)"

definition forwarding_host_not_found :: "string \<Rightarrow> py_exn" where
  "forwarding_host_not_found host =
     ForwardingHostNotFoundError (''Forwarding host '' @ host @ '' not found'')"

definition get_forwarding_host_details ::
  "'s store_ops \<Rightarrow> string \<Rightarrow> ('s, py_exn, forwarding_host_details) sem" where
  "get_forwarding_host_details store host =
     bindM (s_hget store ''WHITELISTED_FWD_HOST'' host) (\<lambda>source.
     case source of
       None \<Rightarrow> throw (forwarding_host_not_found host)
     | Some source \<Rightarrow>
         if source = [] then throw (forwarding_host_not_found host)
         else bindM (s_hget store ''KEEP_SPAM'' host) (\<lambda>keep_spam.
           ret \<lparr>fhd_host = host, fhd_source = source, fhd_keep_spam = yes_no keep_spam\<rparr>))"

text \<open>
  The regular expressions are one class of characters, repeated; the host was stripped, so no
  trailing newline is left for \<open>$\<close> to skip.
\<close>

definition ipv6_chars :: "string \<Rightarrow> bool" where
  "ipv6_chars host \<longleftrightarrow> host \<noteq> [] \<and>
     list_all (\<lambda>c. hex_val c \<noteq> None \<or> c = CHR '':'' \<or> c = CHR ''/'') host"

definition ipv4_chars :: "string \<Rightarrow> bool" where
  "ipv4_chars host \<longleftrightarrow> host \<noteq> [] \<and>
     list_all (\<lambda>c. is_digit c \<or> c = CHR ''.'' \<or> c = CHR ''/'') host"

definition literal_host :: "string \<Rightarrow> bool" where
  "literal_host host \<longleftrightarrow>
     (ipv6_chars host \<and>
        (if CHR ''/'' \<in> set host then ipv6_network_of host False \<noteq> None
         else parse_ipv6 host \<noteq> None)) \<or>
     (ipv4_chars host \<and>
        (if CHR ''/'' \<in> set host then ipv4_network_of host False \<noteq> None
         else parse_ipv4 host \<noteq> None))"

definition resolve_host :: "spf_resolver \<Rightarrow> string \<Rightarrow> ('s, py_exn, string list) sem" where
  "resolve_host spf host =
     (if literal_host host then ret [host]
      else case outgoing_hosts_best_guess (sr_depth spf) (sr_resolver spf) host of
             None \<Rightarrow> throw RecursionError
           | Some hosts \<Rightarrow> ret hosts)"

text \<open>The body of the loop over the resolved hosts.\<close>

definition whitelist_host ::
  "'s store_ops \<Rightarrow> string \<Rightarrow> bool \<Rightarrow> string \<Rightarrow> ('s, py_exn, unit) sem" where
  "whitelist_host store source filter_spam resolved_host =
     bindM (s_hset store ''WHITELISTED_FWD_HOST'' resolved_host (PStr source) None) (\<lambda>_.
     if \<not> filter_spam
     then bindM (s_hset store ''KEEP_SPAM'' resolved_host (PStr ''1'') None) (\<lambda>_. ret ())
     else bindM (s_hdel store ''KEEP_SPAM'' [resolved_host]) (\<lambda>_. ret ()))"

definition add_forwarding_host ::
  "'s store_ops \<Rightarrow> spf_resolver \<Rightarrow> forwarding_host_create \<Rightarrow> ('s, py_exn, string list) sem" where
  "add_forwarding_host store spf create =
     (let host = strip (fhc_hostname create); source = fhc_hostname create in
      bindM (resolve_host spf host) (\<lambda>hosts.
      seqM (raise_when (hosts = []) (ForwardingHostValidationError (''Invalid host: '' @ host)))
      (seqM
        (forM hosts (whitelist_host store source (fhc_filter_spam create)))
        (ret hosts))))"

definition update_forwarding_host ::
  "'s store_ops \<Rightarrow> string \<Rightarrow> forwarding_host_update \<Rightarrow> ('s, py_exn, unit) sem" where
  "update_forwarding_host store host update =
     bindM (s_hget store ''WHITELISTED_FWD_HOST'' host) (\<lambda>source.
     seqM (raise_when (source = None \<or> source = Some []) (forwarding_host_not_found host))
     (case fhu_keep_spam update of
        None \<Rightarrow> ret ()
      | Some True \<Rightarrow> bindM (s_hset store ''KEEP_SPAM'' host (PStr ''1'') None) (\<lambda>_. ret ())
      | Some False \<Rightarrow> bindM (s_hdel store ''KEEP_SPAM'' [host]) (\<lambda>_. ret ())))"

definition delete_forwarding_host :: "'s store_ops \<Rightarrow> string \<Rightarrow> ('s, py_exn, unit) sem" where
  "delete_forwarding_host store host =
     bindM (s_hdel store ''WHITELISTED_FWD_HOST'' [host]) (\<lambda>_.
     bindM (s_hdel store ''KEEP_SPAM'' [host]) (\<lambda>_. ret ()))"

section \<open>The manager over any store\<close>

text \<open>The two hashes after hosts were whitelisted, seen through the view of the store.\<close>

definition whitelisted ::
  "string \<Rightarrow> bool \<Rightarrow> string list \<Rightarrow> (string \<Rightarrow> string \<Rightarrow> string option) \<Rightarrow>
     string \<Rightarrow> string \<Rightarrow> string option" where
  "whitelisted source filter_spam hosts v k h =
     (if h \<in> set hosts \<and> k = ''WHITELISTED_FWD_HOST'' then Some source
      else if h \<in> set hosts \<and> k = ''KEEP_SPAM''
           then (if filter_spam then None else Some ''1'')
      else v k h)"

lemma whitelisted_Cons:
  "whitelisted source f hs (whitelisted source f [h] v) = whitelisted source f (h # hs) v"
  by (auto simp: whitelisted_def fun_eq_iff)

context hash_store
begin

lemma whitelist_host_run:
  assumes "good s"
  shows "\<exists>t. whitelist_host ops source f h s = (Inr (), t) \<and> good t \<and>
    view t = whitelisted source f [h] (view s)"
proof -
  obtain n t where t: "s_hset ops ''WHITELISTED_FWD_HOST'' h (PStr source) None s = (Inr n, t)"
    and gt: "good t"
    and vt: "view t = hput (view s) ''WHITELISTED_FWD_HOST'' h source"
    using hset_text_run [OF assms] by fastforce
  show ?thesis
  proof (cases f)
    case True
    obtain m u where "s_hdel ops ''KEEP_SPAM'' [h] t = (Inr m, u)" "good u"
      "view u = hrem (view t) ''KEEP_SPAM'' [h]"
      using hdel_run [OF gt] by blast
    with t vt True show ?thesis
      by (simp add: whitelist_host_def bindM_def whitelisted_def fun_eq_iff)
  next
    case False
    obtain m u where "s_hset ops ''KEEP_SPAM'' h (PStr ''1'') None t = (Inr m, u)" "good u"
      "view u = hput (view t) ''KEEP_SPAM'' h ''1''"
      using hset_text_run [OF gt] by fastforce
    with t vt False show ?thesis
      by (simp add: whitelist_host_def bindM_def whitelisted_def fun_eq_iff)
  qed
qed

lemma whitelist_hosts_run:
  assumes "good s"
  shows "\<exists>t. forM hosts (whitelist_host ops source f) s = (Inr (), t) \<and> good t \<and>
    view t = whitelisted source f hosts (view s)"
  using assms
proof (induction hosts arbitrary: s)
  case Nil
  then show ?case by (simp add: whitelisted_def fun_eq_iff)
next
  case (Cons h hs)
  obtain u where u: "whitelist_host ops source f h s = (Inr (), u)" "good u"
    "view u = whitelisted source f [h] (view s)"
    using whitelist_host_run [OF Cons.prems] by blast
  from Cons.IH [OF u(2)] show ?case
    unfolding u(3) whitelisted_Cons by (simp add: seqM_def bindM_def u(1))
qed

lemma add_forwarding_host_run:
  assumes "good s" and "add_forwarding_host ops spf create s = (Inr hosts, t)"
  shows "hosts \<noteq> [] \<and> good t \<and>
    view t = whitelisted (fhc_hostname create) (fhc_filter_spam create) hosts (view s)"
proof -
  have "resolve_host spf (strip (fhc_hostname create)) s = (Inr hosts, s)" and "hosts \<noteq> []"
    and loop: "forM hosts (whitelist_host ops (fhc_hostname create) (fhc_filter_spam create)) s
           = (Inr (), t)"
    using assms(2)
    by (auto simp: add_forwarding_host_def Let_def sem_returns resolve_host_def
        split: if_splits option.splits)
  with whitelist_hosts_run [OF assms(1)] show ?thesis by (metis prod.inject)
qed

lemma get_host_details_run:
  assumes "good s"
  shows "\<exists>t. get_forwarding_host_details ops h s =
    (case view s ''WHITELISTED_FWD_HOST'' h of
       None \<Rightarrow> Inl (forwarding_host_not_found h)
     | Some source \<Rightarrow>
         if source = [] then Inl (forwarding_host_not_found h)
         else Inr \<lparr>fhd_host = h, fhd_source = source,
                    fhd_keep_spam = yes_no (view s ''KEEP_SPAM'' h)\<rparr>, t) \<and> view t = view s"
proof -
  obtain t where t: "s_hget ops ''WHITELISTED_FWD_HOST'' h s =
      (Inr (view s ''WHITELISTED_FWD_HOST'' h), t)" "good t" "view t = view s"
    using hget_run [OF assms] by blast
  obtain u where "s_hget ops ''KEEP_SPAM'' h t = (Inr (view t ''KEEP_SPAM'' h), u)"
    "view u = view t"
    using hget_run [OF t(2)] by blast
  with t show ?thesis
    by (auto simp: get_forwarding_host_details_def bindM_def split: option.splits)
qed

lemma delete_forwarding_host_run:
  assumes "good s"
  shows "\<exists>t. delete_forwarding_host ops h s = (Inr (), t) \<and> good t \<and>
    (\<forall>h'. view t ''WHITELISTED_FWD_HOST'' h' =
       (if h' = h then None else view s ''WHITELISTED_FWD_HOST'' h'))"
proof -
  obtain n t where t: "s_hdel ops ''WHITELISTED_FWD_HOST'' [h] s = (Inr n, t)" "good t"
    "view t = hrem (view s) ''WHITELISTED_FWD_HOST'' [h]"
    using hdel_run [OF assms] by blast
  obtain m u where "s_hdel ops ''KEEP_SPAM'' [h] t = (Inr m, u)" "good u"
    "view u = hrem (view t) ''KEEP_SPAM'' [h]"
    using hdel_run [OF t(2)] by blast
  with t show ?thesis
    by (simp add: delete_forwarding_host_def bindM_def)
qed

lemma add_then_get:
  assumes "good s" and "fhc_hostname create \<noteq> []"
    and "add_forwarding_host ops spf create s = (Inr hosts, t)" and "h \<in> set hosts"
  shows "fst (get_forwarding_host_details ops h t) =
    Inr \<lparr>fhd_host = h, fhd_source = fhc_hostname create,
         fhd_keep_spam = (if fhc_filter_spam create then ''no'' else ''yes'')\<rparr>"
  using add_forwarding_host_run [OF assms(1,3)] get_host_details_run [of t h] assms(2,4)
  by (auto simp: whitelisted_def yes_no_def)

lemma delete_then_get:
  assumes "good s" and "delete_forwarding_host ops h s = (Inr (), t)"
  shows "fst (get_forwarding_host_details ops h t) = Inl (forwarding_host_not_found h)"
proof -
  have "good t" and "view t ''WHITELISTED_FWD_HOST'' h = None"
    using delete_forwarding_host_run [OF assms(1), of h] assms(2) by auto
  then show ?thesis using get_host_details_run [of t h] by auto
qed

end

section \<open>Properties\<close>

text \<open>
  C36. After a forwarding host was added to the memory store, each host it resolved to is found
  with the source it was added as, and keeps its spam exactly when spam is not to be filtered.
\<close>
theorem add_forwarding_host_get:
  assumes "memory_good now s" and "fhc_hostname create \<noteq> []"
    and "add_forwarding_host (memory_ops now) spf create s = (Inr hosts, t)" and "h \<in> set hosts"
  shows "fst (get_forwarding_host_details (memory_ops now) h t) =
    Inr \<lparr>fhd_host = h, fhd_source = fhc_hostname create,
         fhd_keep_spam = (if fhc_filter_spam create then ''no'' else ''yes'')\<rparr>"
  using assms by (rule memory.add_then_get)

lemma add_forwarding_host_get_witness:
  "\<exists>t. add_forwarding_host (memory_ops 5) \<lparr>sr_resolver = fake_resolver include_chain, sr_depth = 2\<rparr>
         \<lparr>fhc_hostname = '' a.org'', fhc_filter_spam = False\<rparr> []
       = (Inr [''192.0.2.7'', ''198.51.100.0/24''], t) \<and>
     fst (get_forwarding_host_details (memory_ops 5) ''198.51.100.0/24'' t) =
       Inr \<lparr>fhd_host = ''198.51.100.0/24'', fhd_source = '' a.org'', fhd_keep_spam = ''yes''\<rparr>"
  (is "\<exists>t. ?add = (Inr ?hosts, t) \<and> _")
proof -
  have "fst ?add = Inr ?hosts" by code_simp
  then have add: "?add = (Inr ?hosts, snd ?add)" by (simp add: prod_eq_iff)
  have "memory_good 5 []" by (simp add: memory_good_def)
  from add_forwarding_host_get [OF this _ add, of "''198.51.100.0/24''"] add show ?thesis by auto
qed

end
