(* ===== verification/Relayhost.thy ===== *)
theory Relayhost
  imports Models
begin

text \<open>
  src/backend/taramail/relayhost.py: the relay hosts and the references domains and mailboxes
  hold to them. Deleting one is shown to leave no reference behind.
\<close>

record relayhost_create =
  rc_hostname :: string
  rc_username :: string
  rc_password :: string
  rc_active :: bool

record relayhost_details =
  rd_id :: int
  rd_hostname :: string
  rd_username :: string
  rd_password_short :: string
  rd_active :: bool
  rd_used_by_domains :: string
  rd_used_by_mailboxes :: string

record relayhost_update =
  ru_hostname :: "string option"
  ru_username :: "string option"
  ru_password :: "string option"
  ru_active :: "bool option"

definition relayhost_not_found :: "int \<Rightarrow> py_exn" where
  "relayhost_not_found i = RelayHostNotFoundError (''Relay host '' @ show_int i @ '' not found'')"

definition password_short :: "string \<Rightarrow> string" where
  "password_short p = (if p \<noteq> [] then take 3 p @ ''...'' else [])"

definition get_relayhost_details :: "int \<Rightarrow> (session, py_exn, relayhost_details) sem" where
  "get_relayhost_details relayhost_id =
     bindM (query (\<lambda>d. filter (\<lambda>r. rh_id r = relayhost_id) (t_relayhosts d))) (\<lambda>rows.
     bindM (one_or (relayhost_not_found relayhost_id) rows) (\<lambda>model.
     bindM (query (\<lambda>d. map do_domain (filter (\<lambda>r. do_relayhost r = relayhost_id) (t_domain d))))
       (\<lambda>domains.
     bindM (query (\<lambda>d. map at_username
         (filter (\<lambda>r. at_relayhost r = relayhost_id) (t_user_attributes d)))) (\<lambda>mailboxes.
     ret \<lparr>rd_id = rh_id model, rd_hostname = rh_hostname model, rd_username = rh_username model,
          rd_password_short = password_short (rh_password model), rd_active = rh_active model,
          rd_used_by_domains = join '', '' domains,
          rd_used_by_mailboxes = join '', '' mailboxes\<rparr>))))"

definition get_relayhosts :: "(session, py_exn, relayhosts_row list) sem" where
  "get_relayhosts = query t_relayhosts"

definition create_relayhost :: "relayhost_create \<Rightarrow> (session, py_exn, relayhosts_row) sem" where
  "create_relayhost create =
     (let hostname = strip (rc_hostname create) in
      seqM (raise_when (hostname = []) (RelayHostValidationError ''Hostname cannot be empty''))
      (bindM (gets (\<lambda>s. \<lparr>rh_id = next_id (map rh_id (t_relayhosts (orm s))), rh_hostname = hostname,
               rh_username = rc_username create, rh_password = rc_password create,
               rh_active = rc_active create\<rparr>)) (\<lambda>model.
       seqM (pending (\<lambda>d. d\<lparr>t_relayhosts := t_relayhosts d @ [model]\<rparr>))
       (seqM (catchM flush (\<lambda>e.
           if e = IntegrityError
           then throw (RelayHostAlreadyExistsError (''Relay host already exists: '' @ hostname))
           else throw e))
       (ret model)))))"

text \<open>Setting attributes of the object of a row.\<close>

definition set_relayhost ::
  "int \<Rightarrow> (relayhosts_row \<Rightarrow> relayhosts_row) \<Rightarrow> (session, py_exn, unit) sem" where
  "set_relayhost i f = pending (\<lambda>d. d\<lparr>t_relayhosts := update_where (\<lambda>r. rh_id r = i) f (t_relayhosts d)\<rparr>)"

definition set_opt :: "'a option \<Rightarrow> ('a \<Rightarrow> 'r \<Rightarrow> 'r) \<Rightarrow> 'r \<Rightarrow> 'r" where
  "set_opt x f r = (case x of None \<Rightarrow> r | Some v \<Rightarrow> f v r)"

definition update_relayhost ::
  "int \<Rightarrow> relayhost_update \<Rightarrow> (session, py_exn, relayhosts_row) sem" where
  "update_relayhost relayhost_id update =
     bindM (query (\<lambda>d. filter (\<lambda>r. rh_id r = relayhost_id) (t_relayhosts d))) (\<lambda>rows.
     bindM (one_or (relayhost_not_found relayhost_id) rows) (\<lambda>model.
     let hostname = map_option strip (ru_hostname update) in
     seqM (raise_when (hostname = Some []) (RelayHostValidationError ''Hostname cannot be empty''))
     (let change = (\<lambda>r.
            set_opt (ru_active update) (\<lambda>v r. r\<lparr>rh_active := v\<rparr>)
           (set_opt (ru_password update) (\<lambda>v r. r\<lparr>rh_password := v\<rparr>)
           (set_opt (ru_username update) (\<lambda>v r. r\<lparr>rh_username := v\<rparr>)
           (set_opt hostname (\<lambda>v r. r\<lparr>rh_hostname := v\<rparr>) r)))) in
      seqM (set_relayhost relayhost_id change) (ret (change model)))))"

definition delete_relayhost :: "int \<Rightarrow> (session, py_exn, unit) sem" where
  "delete_relayhost relayhost_id =
     bindM (query (\<lambda>d. length (filter (\<lambda>r. rh_id r = relayhost_id) (t_relayhosts d)))) (\<lambda>rowcount.
     seqM (execute (\<lambda>_ d. d\<lparr>t_relayhosts :=
         delete_where (\<lambda>r. rh_id r = relayhost_id) (t_relayhosts d)\<rparr>))
     (seqM (raise_when (rowcount = 0) (relayhost_not_found relayhost_id))
     (seqM (execute (\<lambda>_ d. d\<lparr>t_domain := update_where (\<lambda>r. do_relayhost r = relayhost_id)
         (\<lambda>r. r\<lparr>do_relayhost := 0\<rparr>) (t_domain d)\<rparr>))
     (execute (\<lambda>_ d. d\<lparr>t_user_attributes := update_where (\<lambda>r. at_relayhost r = relayhost_id)
         (\<lambda>r. r\<lparr>at_relayhost := 0\<rparr>) (t_user_attributes d)\<rparr>)))))"

section \<open>Properties\<close>

text \<open>The references of a database to a relay host.\<close>

definition relayhost_referenced :: "int \<Rightarrow> db \<Rightarrow> bool" where
  "relayhost_referenced i d \<longleftrightarrow>
     list_ex (\<lambda>r. do_relayhost r = i) (t_domain d) \<or>
     list_ex (\<lambda>r. at_relayhost r = i) (t_user_attributes d)"

lemma delete_relayhost_run:
  "delete_relayhost i (clean d) =
     (if list_ex (\<lambda>r. rh_id r = i) (t_relayhosts d)
      then (Inr (), clean (d
        \<lparr>t_relayhosts := delete_where (\<lambda>r. rh_id r = i) (t_relayhosts d),
         t_domain := update_where (\<lambda>r. do_relayhost r = i) (\<lambda>r. r\<lparr>do_relayhost := 0\<rparr>) (t_domain d),
         t_user_attributes := update_where (\<lambda>r. at_relayhost r = i) (\<lambda>r. r\<lparr>at_relayhost := 0\<rparr>)
           (t_user_attributes d)\<rparr>))
      else (Inl (relayhost_not_found i),
        clean (d\<lparr>t_relayhosts := delete_where (\<lambda>r. rh_id r = i) (t_relayhosts d)\<rparr>)))"
  by (simp add: delete_relayhost_def execute_clean list_ex_iff filter_empty_conv clean_def)

lemma unique_keys_delete_relayhost:
  assumes "unique_keys d"
  shows "unique_keys (d\<lparr>t_relayhosts := delete_where p (t_relayhosts d),
     t_domain := update_where q (\<lambda>r. r\<lparr>do_relayhost := 0\<rparr>) (t_domain d),
     t_user_attributes := update_where w (\<lambda>r. r\<lparr>at_relayhost := 0\<rparr>) (t_user_attributes d)\<rparr>)"
  using assms
  by (simp add: unique_keys_def map_update_where delete_where_def distinct_map_filter)

text \<open>
  C30. In a transaction that deletes a relay host other than 0, the database ends with neither the
  relay host nor a domain or mailbox that refers to it, and every other relay host is kept; a
  relay host that does not exist is an error that changes nothing.
\<close>
theorem delete_relayhost_clears_references:
  assumes "unique_keys d" and "i \<noteq> 0"
  shows "(if list_ex (\<lambda>r. rh_id r = i) (t_relayhosts d)
     then \<exists>d'. db_transaction (delete_relayhost i) (clean d) = (Inr (), clean d') \<and>
            \<not> relayhost_referenced i d' \<and>
            t_relayhosts d' = filter (\<lambda>r. rh_id r \<noteq> i) (t_relayhosts d)
     else db_transaction (delete_relayhost i) (clean d) = (Inl (relayhost_not_found i), clean d))"
proof (cases "list_ex (\<lambda>r. rh_id r = i) (t_relayhosts d)")
  case True
  let ?d = "d\<lparr>t_relayhosts := delete_where (\<lambda>r. rh_id r = i) (t_relayhosts d),
     t_domain := update_where (\<lambda>r. do_relayhost r = i) (\<lambda>r. r\<lparr>do_relayhost := 0\<rparr>) (t_domain d),
     t_user_attributes := update_where (\<lambda>r. at_relayhost r = i) (\<lambda>r. r\<lparr>at_relayhost := 0\<rparr>)
           (t_user_attributes d)\<rparr>"
  have "db_transaction (delete_relayhost i) (clean d) = (Inr (), clean ?d)"
    unfolding db_transaction_returns delete_relayhost_run
    using True unique_keys_delete_relayhost [OF assms(1)] by simp
  moreover have "\<not> relayhost_referenced i ?d"
    using assms(2) by (auto simp: relayhost_referenced_def list_ex_iff update_where_def)
  ultimately show ?thesis using True by (auto simp: delete_where_def)
next
  case False
  then show ?thesis by (simp add: db_transaction_def bindM_def delete_relayhost_run)
qed

definition relayhost_db :: db where
  "relayhost_db = empty_db
     \<lparr>t_relayhosts := [\<lparr>rh_id = 1, rh_hostname = ''smtp.org'', rh_username = [], rh_password = [],
        rh_active = True\<rparr>],
      t_domain := [\<lparr>do_domain = ''a.org'', do_description = None, do_aliases = 400,
        do_mailboxes = 10, do_defquota = 1, do_maxquota = 2, do_quota = 3, do_relayhost = 1,
        do_backupmx = False, do_gal = True, do_relay_all_recipients = False,
        do_relay_unknown_only = False, do_active = True\<rparr>]\<rparr>"

lemma delete_relayhost_clears_references_witness:
  "\<exists>d'. db_transaction (delete_relayhost 1) (clean relayhost_db) = (Inr (), clean d') \<and>
     \<not> relayhost_referenced 1 d' \<and> t_relayhosts d' = []"
proof -
  have "unique_keys relayhost_db" by code_simp
  moreover have "list_ex (\<lambda>r. rh_id r = 1) (t_relayhosts relayhost_db)" by code_simp
  moreover have "filter (\<lambda>r. rh_id r \<noteq> 1) (t_relayhosts relayhost_db) = []" by code_simp
  ultimately show ?thesis
    using delete_relayhost_clears_references [of relayhost_db 1] by simp
qed

end
