(* ===== verification/Transport.thy ===== *)
theory Transport
  imports Relayhost Ipaddress
begin

text \<open>
  src/backend/taramail/transport.py: the transports, unique by destination, and the rule that
  transports with the same next hop share their credentials. Whether a text is an e-mail
  address, its IDNA encoding, and whether it compiles as a regular expression are parameters.
\<close>

record transport_create =
  tc_destination :: string
  tc_nexthop :: string
  tc_username :: string
  tc_password :: string
  tc_is_mx_based :: bool
  tc_active :: bool

record transport_details =
  td_id :: int
  td_destination :: string
  td_nexthop :: string
  td_username :: string
  td_password_short :: string
  td_is_mx_based :: bool
  td_active :: bool

record transport_update =
  tu_destination :: "string option"
  tu_nexthop :: "string option"
  tu_username :: "string option"
  tu_password :: "string option"
  tu_is_mx_based :: "bool option"
  tu_active :: "bool option"

record text_api =
  is_email :: "string \<Rightarrow> bool"
  idna_encode :: "string \<Rightarrow> string + string"
  re_compiles :: "string \<Rightarrow> bool"

definition normalize_nexthop :: "string \<Rightarrow> string" where
  "normalize_nexthop nexthop =
     (let nexthop = strip nexthop in
      case ip_address_of nexthop of None \<Rightarrow> nexthop | Some _ \<Rightarrow> ''['' @ nexthop @ '']'')"

text \<open>The pattern \<open>\[(.+)\].*\<close> at the start: up to the last bracket of the first line.\<close>

definition strip_brackets :: "string \<Rightarrow> string" where
  "strip_brackets nexthop =
     (case nexthop of
        [] \<Rightarrow> nexthop
      | c # t \<Rightarrow>
          (let line = takeWhile (\<lambda>c. c \<noteq> CHR 10) t in
           if c = CHR ''['' \<and> CHR '']'' \<in> set line \<and> before_last CHR '']'' line \<noteq> []
           then before_last CHR '']'' line else nexthop))"

definition is_valid_domain :: "text_api \<Rightarrow> string \<Rightarrow> bool" where
  "is_valid_domain api value \<longleftrightarrow>
     (if value = [] then False
      else case idna_encode api value of
        Inl _ \<Rightarrow> False
      | Inr ascii_domain \<Rightarrow> 2 \<le> length (split_on CHR ''.'' ascii_domain))"

definition validate_destination :: "text_api \<Rightarrow> string \<Rightarrow> bool \<Rightarrow> ('s, py_exn, unit) sem" where
  "validate_destination api destination is_mx_based =
     (let invalid = TransportValidationError (''Invalid destination: '' @ destination) in
      seqM (raise_when (destination = []) (TransportValidationError ''Destination cannot be empty''))
      (if is_mx_based then raise_when (\<not> re_compiles api destination) invalid
       else if destination = ''*'' \<or> is_email api destination then ret ()
       else let candidate = (if starts_with ''.'' destination then drop 1 destination else destination)
         in raise_when (\<not> is_valid_domain api candidate) invalid))"

definition transport_not_found :: "int \<Rightarrow> py_exn" where
  "transport_not_found i = TransportNotFoundError (''Transport '' @ show_int i @ '' not found'')"

definition get_transport_details :: "int \<Rightarrow> (session, py_exn, transport_details) sem" where
  "get_transport_details transport_id =
     bindM (query (\<lambda>d. filter (\<lambda>r. tr_id r = transport_id) (t_transports d))) (\<lambda>rows.
     bindM (one_or (transport_not_found transport_id) rows) (\<lambda>model.
     ret \<lparr>td_id = tr_id model, td_destination = tr_destination model, td_nexthop = tr_nexthop model,
          td_username = tr_username model, td_password_short = password_short (tr_password model),
          td_is_mx_based = tr_is_mx_based model, td_active = tr_active model\<rparr>))"

definition get_transports :: "(session, py_exn, transports_row list) sem" where
  "get_transports = query t_transports"

definition check_conflict ::
  "string \<Rightarrow> string \<Rightarrow> string \<Rightarrow> int option \<Rightarrow> transports_row \<Rightarrow> ('s, py_exn, unit) sem" where
  "check_conflict destination nexthop username exclude_id existing =
     (if exclude_id = Some (tr_id existing) then ret ()
      else seqM
        (raise_when (tr_destination existing = destination)
          (TransportAlreadyExistsError (''Destination already exists: '' @ destination)))
        (raise_when
          ((tr_nexthop existing = nexthop \<or>
            strip_brackets (tr_nexthop existing) = strip_brackets nexthop) \<and>
           tr_username existing \<noteq> username)
          (TransportValidationError (''Nexthop '' @ nexthop @ '' requires matching credentials''))))"

definition check_conflicts ::
  "string \<Rightarrow> string \<Rightarrow> string \<Rightarrow> int option \<Rightarrow> (session, py_exn, unit) sem" where
  "check_conflicts destination nexthop username exclude_id =
     bindM get_transports (\<lambda>rows. forM rows (check_conflict destination nexthop username exclude_id))"

text \<open>
  The \<open>UPDATE\<close> of the credentials. SQLAlchemy also evaluates its condition on the objects of the
  session, and on those it matches a set attribute with a pending value is expired: it takes
  the value of the database, and the pending one is lost.
\<close>

definition set_credentials :: "string \<Rightarrow> string \<Rightarrow> transports_row \<Rightarrow> transports_row" where
  "set_credentials username password r = r\<lparr>tr_username := username, tr_password := password\<rparr>"

definition reload_credentials :: "transports_row list \<Rightarrow> transports_row \<Rightarrow> transports_row" where
  "reload_credentials rows r =
     (case first_where (\<lambda>q. tr_id q = tr_id r) rows of
        None \<Rightarrow> r | Some q \<Rightarrow> set_credentials (tr_username q) (tr_password q) r)"

definition sync_nexthop_credentials ::
  "string \<Rightarrow> string \<Rightarrow> string \<Rightarrow> (session, py_exn, unit) sem" where
  "sync_nexthop_credentials nexthop username password =
     modify (\<lambda>s.
       let rows = update_where (\<lambda>r. tr_nexthop r = nexthop) (set_credentials username password)
             (t_transports (sql s))
       in \<lparr>sql = (sql s)\<lparr>t_transports := rows\<rparr>,
           orm = (orm s)\<lparr>t_transports := update_where (\<lambda>r. tr_nexthop r = nexthop)
             (reload_credentials rows) (t_transports (orm s))\<rparr>\<rparr>)"

definition create_transport ::
  "text_api \<Rightarrow> transport_create \<Rightarrow> (session, py_exn, transports_row) sem" where
  "create_transport api create =
     (let nexthop = normalize_nexthop (tc_nexthop create);
          destination = strip (tc_destination create) in
      seqM (raise_when (nexthop = []) (TransportValidationError ''Nexthop cannot be empty''))
      (seqM (validate_destination api destination (tc_is_mx_based create))
      (seqM (check_conflicts destination nexthop (tc_username create) None)
      (bindM (gets (\<lambda>s. \<lparr>tr_id = next_id (map tr_id (t_transports (orm s))),
               tr_destination = destination, tr_nexthop = nexthop,
               tr_username = tc_username create, tr_password = tc_password create,
               tr_is_mx_based = tc_is_mx_based create, tr_active = tc_active create\<rparr>)) (\<lambda>model.
       seqM (pending (\<lambda>d. d\<lparr>t_transports := t_transports d @ [model]\<rparr>))
       (seqM (catchM flush (\<lambda>e.
           if e = IntegrityError
           then throw (TransportAlreadyExistsError (''Transport already exists: '' @ destination))
           else throw e))
       (seqM (sync_nexthop_credentials nexthop (tc_username create) (tc_password create))
       (ret model))))))))"

text \<open>\<open>x if x is not None else y\<close>.\<close>

definition given :: "'a option \<Rightarrow> 'a \<Rightarrow> 'a" where
  "given x y = (case x of None \<Rightarrow> y | Some v \<Rightarrow> v)"

text \<open>The result is the object of the session, which the row of the transport in \<open>orm\<close> stands for.\<close>

definition update_transport ::
  "text_api \<Rightarrow> int \<Rightarrow> transport_update \<Rightarrow> (session, py_exn, transports_row option) sem" where
  "update_transport api transport_id update =
     bindM (query (\<lambda>d. filter (\<lambda>r. tr_id r = transport_id) (t_transports d))) (\<lambda>rows.
     bindM (one_or (transport_not_found transport_id) rows) (\<lambda>model.
     let destination = given (map_option strip (tu_destination update)) (tr_destination model);
         nexthop = given (map_option normalize_nexthop (tu_nexthop update)) (tr_nexthop model);
         is_mx_based = given (tu_is_mx_based update) (tr_is_mx_based model);
         username = given (tu_username update) (tr_username model);
         password = (if username = [] then [] else given (tu_password update) (tr_password model)) in
     seqM (raise_when (nexthop = []) (TransportValidationError ''Nexthop cannot be empty''))
     (seqM (validate_destination api destination is_mx_based)
     (seqM (check_conflicts destination nexthop username (Some transport_id))
     (seqM (pending (\<lambda>d. d\<lparr>t_transports := update_where (\<lambda>r. tr_id r = transport_id) (\<lambda>r.
         r\<lparr>tr_destination := destination, tr_nexthop := nexthop, tr_is_mx_based := is_mx_based,
           tr_username := username, tr_password := password,
           tr_active := given (tu_active update) (tr_active r)\<rparr>) (t_transports d)\<rparr>))
     (seqM (sync_nexthop_credentials nexthop username password)
     (gets (\<lambda>s. first_where (\<lambda>r. tr_id r = transport_id) (t_transports (orm s))))))))))"

definition delete_transport :: "int \<Rightarrow> (session, py_exn, unit) sem" where
  "delete_transport transport_id =
     bindM (query (\<lambda>d. length (filter (\<lambda>r. tr_id r = transport_id) (t_transports d)))) (\<lambda>rowcount.
     seqM (execute (\<lambda>_ d. d\<lparr>t_transports :=
         delete_where (\<lambda>r. tr_id r = transport_id) (t_transports d)\<rparr>))
     (raise_when (rowcount = 0) (transport_not_found transport_id)))"

section \<open>Consistent credentials\<close>

text \<open>Destinations are unique, and transports with the same next hop have the same credentials.\<close>

definition transports_ok :: "transports_row list \<Rightarrow> bool" where
  "transports_ok rows \<longleftrightarrow>
     distinct (map tr_destination rows) \<and>
     list_all (\<lambda>r. list_all (\<lambda>q. tr_nexthop q = tr_nexthop r \<longrightarrow>
       tr_username q = tr_username r \<and> tr_password q = tr_password r) rows) rows"

lemma validate_destination_state:
  "validate_destination api destination mx s = (r, t) \<Longrightarrow> t = s"
  by (auto simp: validate_destination_def Let_def split: if_splits)

lemma check_conflicts_returns:
  "check_conflicts destination nexthop username ex s = (Inr (), t) \<longleftrightarrow>
     t = s \<and> (\<forall>r \<in> set (t_transports (sql s)). ex \<noteq> Some (tr_id r) \<longrightarrow>
       tr_destination r \<noteq> destination \<and>
       (tr_nexthop r = nexthop \<or> strip_brackets (tr_nexthop r) = strip_brackets nexthop \<longrightarrow>
         tr_username r = username))"
  unfolding check_conflicts_def get_transports_def bindM_query
  by (subst forM_checks [where P = "\<lambda>r. ex \<noteq> Some (tr_id r) \<longrightarrow> tr_destination r \<noteq> destination \<and>
        (tr_nexthop r = nexthop \<or> strip_brackets (tr_nexthop r) = strip_brackets nexthop \<longrightarrow>
         tr_username r = username)"
      and e = "\<lambda>r. if tr_destination r = destination
        then TransportAlreadyExistsError (''Destination already exists: '' @ destination)
        else TransportValidationError (''Nexthop '' @ nexthop @ '' requires matching credentials'')"])
     (auto simp: check_conflict_def)

lemma reload_credentials_same:
  assumes "distinct (map tr_id rows)"
  shows "update_where p (reload_credentials (update_where p (set_credentials u w) rows)) rows =
    update_where p (set_credentials u w) rows"
proof -
  let ?rows = "update_where p (set_credentials u w) rows"
  have ids: "map tr_id ?rows = map tr_id rows"
    by (rule map_update_where) (simp add: set_credentials_def)
  have "reload_credentials ?rows r = set_credentials u w r" if r: "r \<in> set rows" "p r" for r
  proof -
    have "set_credentials u w r \<in> set ?rows" using r by (auto simp: set_update_where)
    then have "first_where (\<lambda>q. tr_id q = tr_id (set_credentials u w r)) ?rows =
        Some (set_credentials u w r)"
      using assms ids by (intro first_where_key) simp_all
    then show ?thesis by (simp add: reload_credentials_def set_credentials_def)
  qed
  then show ?thesis by (simp add: update_where_def)
qed

lemma sync_clean:
  assumes "distinct (map tr_id (t_transports d))"
  shows "sync_nexthop_credentials nexthop u w (clean d) = (Inr (), clean (d\<lparr>t_transports :=
    update_where (\<lambda>r. tr_nexthop r = nexthop) (set_credentials u w) (t_transports d)\<rparr>))"
  using reload_credentials_same [OF assms]
  by (simp add: sync_nexthop_credentials_def Let_def clean_def)

lemma transports_ok_sync:
  assumes "distinct (map tr_destination rows)"
    and "\<And>r q. r \<in> set rows \<Longrightarrow> q \<in> set rows \<Longrightarrow> tr_nexthop r \<noteq> nexthop \<Longrightarrow>
      tr_nexthop q = tr_nexthop r \<Longrightarrow> tr_username q = tr_username r \<and> tr_password q = tr_password r"
  shows "transports_ok (update_where (\<lambda>r. tr_nexthop r = nexthop) (set_credentials u w) rows)"
proof -
  define f where "f r = (if tr_nexthop r = nexthop then set_credentials u w r else r)" for r
  have nh: "tr_nexthop (f r) = tr_nexthop r" and de: "tr_destination (f r) = tr_destination r" for r
    by (simp_all add: f_def set_credentials_def)
  have same: "tr_username (f q) = tr_username (f r) \<and> tr_password (f q) = tr_password (f r)"
    if "q \<in> set rows" "r \<in> set rows" "tr_nexthop q = tr_nexthop r" for q r
    using assms(2) [OF that(2,1) _ that(3)] that(3)
    by (cases "tr_nexthop r = nexthop") (simp_all add: f_def set_credentials_def)
  have "tr_username q = tr_username r \<and> tr_password q = tr_password r"
    if q: "q \<in> f ` set rows" and r: "r \<in> f ` set rows" and e: "tr_nexthop q = tr_nexthop r" for q r
  proof -
    obtain q0 r0 where "q = f q0" "q0 \<in> set rows" "r = f r0" "r0 \<in> set rows" using q r by blast
    with same [of q0 r0] e show ?thesis by (simp only: nh)
  qed
  moreover have "distinct (map tr_destination (map f rows))"
    using assms(1) by (simp add: de comp_def)
  ultimately have "transports_ok (map f rows)"
    unfolding transports_ok_def list_all_iff set_map by blast
  then show ?thesis by (simp add: update_where_def flip: f_def)
qed

lemma unique_keys_transports:
  "unique_keys (d\<lparr>t_transports := rows\<rparr>) \<longleftrightarrow>
     unique_keys (d\<lparr>t_transports := []\<rparr>) \<and> distinct (map tr_id rows)"
  by (auto simp: unique_keys_def)

lemma create_transport_returns:
  assumes "create_transport api c (clean d) = (Inr m, t)"
  shows "unique_keys (d\<lparr>t_transports := t_transports d @ [m]\<rparr>) \<and>
    tr_destination m \<notin> tr_destination ` set (t_transports d) \<and>
    tr_username m = tc_username c \<and> tr_password m = tc_password c \<and>
    t = clean (d\<lparr>t_transports := update_where (\<lambda>r. tr_nexthop r = tr_nexthop m)
      (set_credentials (tr_username m) (tr_password m)) (t_transports d @ [m])\<rparr>)"
proof -
  let ?nh = "normalize_nexthop (tc_nexthop c)" and ?de = "strip (tc_destination c)"
  let ?d = "\<lambda>m. d\<lparr>t_transports := t_transports d @ [m]\<rparr>"
  obtain s1 s2 where v: "validate_destination api ?de (tc_is_mx_based c) (clean d) = (Inr (), s1)"
    and k: "check_conflicts ?de ?nh (tc_username c) None s1 = (Inr (), s2)"
    and rest: "m = \<lparr>tr_id = next_id (map tr_id (t_transports (orm s2))), tr_destination = ?de,
        tr_nexthop = ?nh, tr_username = tc_username c, tr_password = tc_password c,
        tr_is_mx_based = tc_is_mx_based c, tr_active = tc_active c\<rparr>"
      "seqM (pending (\<lambda>d. d\<lparr>t_transports := t_transports d @ [m]\<rparr>))
       (seqM (catchM flush (\<lambda>e.
           if e = IntegrityError
           then throw (TransportAlreadyExistsError (''Transport already exists: '' @ ?de))
           else throw e))
       (seqM (sync_nexthop_credentials ?nh (tc_username c) (tc_password c))
       (ret m))) s2 = (Inr m, t)"
    using assms by (auto simp: create_transport_def Let_def seqM_returns split: if_splits)
  have s1: "s1 = clean d" using validate_destination_state [OF v] .
  have s2: "s2 = clean d" and new: "?de \<notin> tr_destination ` set (t_transports d)"
    using k unfolding s1 check_conflicts_returns by auto
  have uk: "unique_keys (?d m)" and t: "sync_nexthop_credentials ?nh (tc_username c) (tc_password c)
      (clean (?d m)) = (Inr (), t)"
    using rest(2) unfolding s2
    by (auto simp: seqM_returns catchM_def flush_def clean_def split: if_splits)
  have "distinct (map tr_id (t_transports (?d m)))" using uk by (simp add: unique_keys_def)
  from sync_clean [OF this, of ?nh "tc_username c" "tc_password c"] t uk new rest(1)
  show ?thesis by simp
qed

section \<open>Properties\<close>

text \<open>
  C29. A transaction that creates a transport keeps destinations unique and the credentials of
  every next hop consistent: afterwards all transports with the new one's next hop have its user
  name and password.
\<close>
theorem create_transport_consistent:
  assumes "db_transaction (create_transport api c) (clean d) = (Inr m, t)"
    and "transports_ok (t_transports d)"
  shows "t = clean (sql t) \<and> transports_ok (t_transports (sql t)) \<and> m \<in> set (t_transports (sql t)) \<and>
    (\<forall>r \<in> set (t_transports (sql t)). tr_nexthop r = tr_nexthop m \<longrightarrow>
       tr_username r = tc_username c \<and> tr_password r = tc_password c)"
proof -
  obtain u where u: "create_transport api c (clean d) = (Inr m, u)" and t: "t = clean (orm u)"
    using assms(1) unfolding db_transaction_returns by blast
  from create_transport_returns [OF u] have m: "tr_destination m \<notin> tr_destination ` set (t_transports d)"
    "tr_username m = tc_username c" "tr_password m = tc_password c"
    and rows: "t_transports (orm u) = update_where (\<lambda>r. tr_nexthop r = tr_nexthop m)
      (set_credentials (tr_username m) (tr_password m)) (t_transports d @ [m])"
    by auto
  have "transports_ok (t_transports (orm u))"
    unfolding rows
  proof (rule transports_ok_sync)
    show "distinct (map tr_destination (t_transports d @ [m]))"
      using assms(2) m(1) by (simp add: transports_ok_def)
    show "tr_username q = tr_username r \<and> tr_password q = tr_password r"
      if "r \<in> set (t_transports d @ [m])" "q \<in> set (t_transports d @ [m])"
        "tr_nexthop r \<noteq> tr_nexthop m" "tr_nexthop q = tr_nexthop r" for r q
    proof -
      have "r \<in> set (t_transports d)" "q \<in> set (t_transports d)" using that by auto
      with assms(2) that(4) show ?thesis unfolding transports_ok_def list_all_iff by blast
    qed
  qed
  moreover have "m \<in> set (t_transports (orm u))"
    unfolding rows by (auto simp: set_update_where set_credentials_def image_iff)
  moreover have "\<forall>r \<in> set (t_transports (orm u)). tr_nexthop r = tr_nexthop m \<longrightarrow>
      tr_username r = tc_username c \<and> tr_password r = tc_password c"
    unfolding rows using m by (auto simp: set_update_where set_credentials_def split: if_splits)
  ultimately show ?thesis by (simp add: t)
qed

definition toy_text :: text_api where
  "toy_text = \<lparr>is_email = (\<lambda>s. CHR ''@'' \<in> set s), idna_encode = Inr, re_compiles = (\<lambda>_. True)\<rparr>"

definition transport_db :: db where
  "transport_db = empty_db
     \<lparr>t_transports := [\<lparr>tr_id = 1, tr_destination = ''a.org'', tr_nexthop = ''[smtp.org]'',
        tr_username = ''alice'', tr_password = ''old'', tr_is_mx_based = False, tr_active = True\<rparr>]\<rparr>"

lemma create_transport_consistent_witness:
  "\<exists>m t. db_transaction (create_transport toy_text
        \<lparr>tc_destination = '' .b.org'', tc_nexthop = ''[smtp.org] '', tc_username = ''alice'',
         tc_password = ''new'', tc_is_mx_based = False, tc_active = True\<rparr>) (clean transport_db)
      = (Inr m, t) \<and> transports_ok (t_transports (sql t)) \<and> length (t_transports (sql t)) = 2"
  (is "\<exists>m t. ?run = _ \<and> _")
proof -
  let ?m = "\<lparr>tr_id = 2, tr_destination = ''.b.org'', tr_nexthop = ''[smtp.org]'',
    tr_username = ''alice'', tr_password = ''new'', tr_is_mx_based = False, tr_active = True\<rparr>"
  have "fst ?run = Inr ?m" by code_simp
  then have run: "?run = (Inr ?m, snd ?run)" by (simp add: prod_eq_iff)
  have "transports_ok (t_transports transport_db)" by code_simp
  from create_transport_consistent [OF run this] have "transports_ok (t_transports (sql (snd ?run)))"
    by simp
  moreover have "length (t_transports (sql (snd ?run))) = 2" by code_simp
  ultimately show ?thesis using run by blast
qed

text \<open>
  Updating the next hop together with the credentials loses the credentials: the statement
  that spreads them matches no row of the database, since the new next hop is still pending,
  but it does match the object, whose pending user name and password it expires. The stored row
  ends with the new next hop and the old user name and password.
\<close>
theorem update_transport_loses_credentials:
  "db_transaction (update_transport toy_text 1
      \<lparr>tu_destination = None, tu_nexthop = Some ''smtp.org'', tu_username = Some ''bob'',
       tu_password = Some ''secret'', tu_is_mx_based = None, tu_active = None\<rparr>) (clean transport_db)
    = (Inr (Some \<lparr>tr_id = 1, tr_destination = ''a.org'', tr_nexthop = ''smtp.org'',
         tr_username = ''alice'', tr_password = ''old'', tr_is_mx_based = False, tr_active = True\<rparr>),
       clean (transport_db\<lparr>t_transports := [\<lparr>tr_id = 1, tr_destination = ''a.org'',
         tr_nexthop = ''smtp.org'', tr_username = ''alice'', tr_password = ''old'',
         tr_is_mx_based = False, tr_active = True\<rparr>]\<rparr>))"
  by code_simp

end
