(* ===== verification/Base64.thy ===== *)
theory Base64
  imports PyStr
begin

text \<open>
  \<open>b64encode\<close> and \<open>b64decode\<close> of Python's base64 module, on bytes held as characters. Decoding
  follows \<open>binascii.a2b_base64\<close> in its non-strict mode: characters outside the alphabet are
  skipped, a complete padding ends the input, and an incomplete group is an error (\<open>None\<close>).
  Decoding what was encoded gives the bytes back.
\<close>

definition b64_char :: "nat \<Rightarrow> char" where
  "b64_char n =
     char_of (if n < 26 then 65 + n else if n < 52 then 71 + n else if n < 62 then n - 4
              else if n = 62 then 43 else 47)"

definition b64_val :: "char \<Rightarrow> nat option" where
  "b64_val c =
     (if is_upper c then Some (code c - 65)
      else if is_lower c then Some (code c - 71)
      else if is_digit c then Some (code c + 4)
      else if c = CHR ''+'' then Some 62
      else if c = CHR ''/'' then Some 63 else None)"

fun b64encode :: "string \<Rightarrow> string" where
  "b64encode [] = []"
| "b64encode [a] =
     [b64_char (code a div 4), b64_char (code a mod 4 * 16), CHR ''='', CHR ''='']"
| "b64encode [a, b] =
     [b64_char (code a div 4), b64_char (code a mod 4 * 16 + code b div 16),
      b64_char (code b mod 16 * 4), CHR ''='']"
| "b64encode (a # b # c # s) =
     b64_char (code a div 4) # b64_char (code a mod 4 * 16 + code b div 16)
       # b64_char (code b mod 16 * 4 + code c div 64) # b64_char (code c mod 64) # b64encode s"

text \<open>The state is the place in the group, the bits left over and the padding seen.\<close>

fun b64_step :: "nat \<Rightarrow> nat \<Rightarrow> nat \<Rightarrow> string \<Rightarrow> string option" where
  "b64_step quad_pos leftchar pads [] = (if quad_pos = 0 then Some [] else None)"
| "b64_step quad_pos leftchar pads (x # s) =
     (if x = CHR ''='' then
        (if 2 \<le> quad_pos then
           (if 4 \<le> quad_pos + Suc pads then Some [] else b64_step quad_pos leftchar (Suc pads) s)
         else b64_step quad_pos leftchar pads s)
      else case b64_val x of
        None \<Rightarrow> b64_step quad_pos leftchar pads s
      | Some v \<Rightarrow>
          (if quad_pos = 0 then b64_step 1 v 0 s
           else if quad_pos = 1
             then map_option ((#) (char_of (leftchar * 4 + v div 16))) (b64_step 2 (v mod 16) 0 s)
           else if quad_pos = 2
             then map_option ((#) (char_of (leftchar * 16 + v div 4))) (b64_step 3 (v mod 4) 0 s)
           else map_option ((#) (char_of (leftchar * 64 + v))) (b64_step 0 0 0 s)))"

definition b64decode :: "string \<Rightarrow> string option" where
  "b64decode s = b64_step 0 0 0 s"

lemma code_char_of [simp]: "n < 256 \<Longrightarrow> code (char_of n) = n"
  by (simp add: code_def)

lemma code_less: "code c < 256"
  by (simp add: code_def)

lemma char_of_code [simp]: "char_of (code c) = c"
  by (simp add: code_def)

lemma code_b64_char:
  "n < 64 \<Longrightarrow> code (b64_char n) =
     (if n < 26 then 65 + n else if n < 52 then 71 + n else if n < 62 then n - 4
      else if n = 62 then 43 else 47)"
  by (simp add: b64_char_def)

lemma b64_last_chars: "char_of (43::nat) = CHR ''+''" "char_of (47::nat) = CHR ''/''"
  by code_simp+

lemma b64_val_char: "n < 64 \<Longrightarrow> b64_val (b64_char n) = Some n"
proof -
  assume n: "n < 64"
  consider "n < 62" | "n = 62" | "n = 63" using n by linarith
  then show ?thesis
  proof cases
    case 1
    with code_b64_char [OF n] show ?thesis
      by (auto simp: b64_val_def is_upper_def is_lower_def is_digit_def)
  qed (simp_all add: b64_val_def b64_char_def b64_last_chars is_upper_def is_lower_def is_digit_def code_def)
qed

lemma b64_char_not_pad: "n < 64 \<Longrightarrow> b64_char n \<noteq> CHR ''=''"
proof
  assume "n < 64" and "b64_char n = CHR ''=''"
  then have "code (b64_char n) = 61" by (simp add: code_def)
  with code_b64_char [OF \<open>n < 64\<close>] show False by (simp split: if_splits)
qed

text \<open>One group of four characters, and the two that end in padding.\<close>

lemma b64_group:
  assumes "u < 64" "v < 64" "w < 64" "x < 64"
  shows "b64_step 0 0 0 (b64_char u # b64_char v # b64_char w # b64_char x # s) =
    map_option (\<lambda>t. char_of (u * 4 + v div 16) # char_of (v mod 16 * 16 + w div 4) #
      char_of (w mod 4 * 64 + x) # t) (b64_step 0 0 0 s)"
    and "b64_step 0 0 0 [b64_char u, b64_char v, b64_char w, CHR ''=''] =
      Some [char_of (u * 4 + v div 16), char_of (v mod 16 * 16 + w div 4)]"
    and "b64_step 0 0 0 [b64_char u, b64_char v, CHR ''='', CHR ''=''] =
      Some [char_of (u * 4 + v div 16)]"
  using assms by (simp_all add: b64_val_char b64_char_not_pad option.map_comp comp_def)

lemma digits_base:
  fixes m x k :: nat
  assumes "x < k"
  shows "(m * k + x) div k = m" and "(m * k + x) mod k = x"
  using assms by simp_all

lemma b64_bytes:
  assumes a: "a = code ca" and b: "b = code cb" and c: "c = code cc"
  shows "char_of (a div 4 * 4 + (a mod 4 * 16 + b div 16) div 16) = ca"
    and "char_of ((a mod 4 * 16 + b div 16) mod 16 * 16 + (b mod 16 * 4 + c div 64) div 4) = cb"
    and "char_of ((b mod 16 * 4 + c div 64) mod 4 * 64 + c mod 64) = cc"
proof -
  have b16: "b div 16 < 16" and c64: "c div 64 < 4" using code_less b c by (simp_all add: less_mult_imp_div_less)
  show "char_of (a div 4 * 4 + (a mod 4 * 16 + b div 16) div 16) = ca"
    unfolding digits_base [OF b16] using a by (simp only: div_mult_mod_eq char_of_code)
  show "char_of ((a mod 4 * 16 + b div 16) mod 16 * 16 + (b mod 16 * 4 + c div 64) div 4) = cb"
    unfolding digits_base [OF b16] digits_base [OF c64] using b by (simp only: div_mult_mod_eq char_of_code)
  show "char_of ((b mod 16 * 4 + c div 64) mod 4 * 64 + c mod 64) = cc"
    unfolding digits_base [OF c64] using c by (simp only: div_mult_mod_eq char_of_code)
qed

lemma b64_parts:
  fixes a b c :: nat
  assumes "a < 256" "b < 256" "c < 256"
  shows "a div 4 < 64" and "a mod 4 * 16 + b div 16 < 64" and "b mod 16 * 4 + c div 64 < 64"
    and "c mod 64 < 64"
proof -
  have "b div 16 < 16" and "c div 64 < 4" using assms by (simp_all add: less_mult_imp_div_less)
  moreover have "a mod 4 < 4" and "b mod 16 < 16" by simp_all
  ultimately show "a mod 4 * 16 + b div 16 < 64" and "b mod 16 * 4 + c div 64 < 64" by linarith+
qed (use assms in \<open>simp_all add: less_mult_imp_div_less\<close>)

theorem b64decode_b64encode: "b64decode (b64encode s) = Some s"
proof (induction s rule: b64encode.induct)
  case (4 a b c s)
  note p = b64_parts [OF code_less [of a] code_less [of b] code_less [of c]]
  show ?case
    using 4 unfolding b64decode_def b64encode.simps b64_group(1) [OF p] b64_bytes [OF refl refl refl]
    by simp
next
  case (3 a b)
  have zero: "code (char_of (0::nat)) = 0" by simp
  note p = b64_parts [OF code_less [of a] code_less [of b] code_less [of "char_of (0::nat)"]]
  show ?case
    using b64_group(2) [OF p] b64_bytes [of _ a _ b _ "char_of (0::nat)", OF refl refl refl]
    unfolding b64decode_def b64encode.simps zero by simp
next
  case (2 a)
  have zero: "code (char_of (0::nat)) = 0" by simp
  note p = b64_parts [OF code_less [of a] code_less [of "char_of (0::nat)"]
      code_less [of "char_of (0::nat)"]]
  show ?case
    using b64_group(3) [OF p] b64_bytes [of _ a _ "char_of (0::nat)" _ "char_of (0::nat)",
        OF refl refl refl]
    unfolding b64decode_def b64encode.simps zero by simp
qed (simp add: b64decode_def)

lemma b64encode_Nil_iff [simp]: "b64encode s = [] \<longleftrightarrow> s = []"
  by (cases s rule: b64encode.cases) simp_all

end
