(* ===== verification/Dkim.thy ===== *)
theory Dkim
  imports Base64 Store
begin

text \<open>
  src/backend/taramail/dkim.py: the DKIM keys of the domains, in three hashes of the store. The
  generation of RSA keys and the reading of PEM keys (the cryptography package) are the
  parameter \<open>rsa\<close>: the private and public PEM texts for a key size, or the exception raised,
  and the size of the key a PEM text holds (\<open>None\<close> is any exception).
\<close>

record rsa_api =
  generate_keypair :: "int \<Rightarrow> py_exn + string \<times> string"
  pem_key_size :: "string \<Rightarrow> int option"

record dkim_create =
  dc_domain :: string
  dc_selector :: string
  dc_key_size :: int

record dkim_duplicate =
  dd_from_domain :: string
  dd_to_domain :: string

record dkim_details =
  dk_pubkey :: string
  dk_privkey :: string
  dk_length :: string
  dk_selector :: string
  dk_txt :: string

text \<open>\<open>splitlines\<close>, on the line boundaries of ASCII; a final one opens no line.\<close>

definition line_break :: "char \<Rightarrow> bool" where
  "line_break c \<longleftrightarrow> (10 \<le> code c \<and> code c \<le> 13) \<or> (28 \<le> code c \<and> code c \<le> 30)"

fun splitlines_acc :: "string \<Rightarrow> string \<Rightarrow> string list" where
  "splitlines_acc w [] = (if w = [] then [] else [rev w])"
| "splitlines_acc w [c] = (if line_break c then [rev w] else [rev (c # w)])"
| "splitlines_acc w (c # d # s) =
     (if code c = 13 \<and> code d = 10 then rev w # splitlines_acc [] s
      else if line_break c then rev w # splitlines_acc [] (d # s)
      else splitlines_acc (c # w) (d # s))"

definition splitlines :: "string \<Rightarrow> string list" where
  "splitlines s = splitlines_acc [] s"

fun length_estimate :: "nat \<Rightarrow> (nat \<times> string) list \<Rightarrow> string" where
  "length_estimate n [] = ''>= 8192''"
| "length_estimate n ((threshold, bits) # rest) =
     (if n < threshold then bits else length_estimate n rest)"

definition detect_key_length :: "rsa_api \<Rightarrow> string \<Rightarrow> string" where
  "detect_key_length rsa pubkey =
     (case pem_key_size rsa pubkey of
        Some n \<Rightarrow> show_int n
      | None \<Rightarrow>
          length_estimate (length pubkey)
            [(391, ''1024''), (564, ''2048''), (736, ''3072''), (1416, ''4096'')])"

text \<open>\<open>x or default\<close> and the truth of an optional string.\<close>

definition truthy :: "string option \<Rightarrow> bool" where
  "truthy x \<longleftrightarrow> x \<noteq> None \<and> x \<noteq> Some []"

definition or_else :: "string option \<Rightarrow> string \<Rightarrow> string" where
  "or_else x d = (case x of None \<Rightarrow> d | Some v \<Rightarrow> if v = [] then d else v)"

section \<open>DKIMManager\<close>

definition get_keys :: "'s store_ops \<Rightarrow> ('s, py_exn, (string, string) dict) sem" where
  "get_keys store = s_hgetall store ''DKIM_PUB_KEYS''"

definition dkim_not_found :: "string \<Rightarrow> py_exn" where
  "dkim_not_found domain = DKIMNotFoundError (''DKIM key not found: '' @ domain)"

definition get_details ::
  "'s store_ops \<Rightarrow> rsa_api \<Rightarrow> string \<Rightarrow> bool \<Rightarrow> ('s, py_exn, dkim_details) sem" where
  "get_details store rsa domain privkey =
     bindM (s_hget store ''DKIM_PUB_KEYS'' domain) (\<lambda>pubkey.
     if \<not> truthy pubkey then throw (dkim_not_found domain)
     else let pubkey = or_else pubkey []; len = detect_key_length rsa pubkey in
       bindM (s_hget store ''DKIM_SELECTORS'' domain) (\<lambda>selector.
       let dkim_selector = or_else selector ''dkim'';
           dkim_txt = ''v=DKIM1;k=rsa;t=s;s=email;p='' @ pubkey in
       bindM (if privkey
              then bindM (s_hget store ''DKIM_PRIV_KEYS'' (dkim_selector @ ''.'' @ domain))
                     (\<lambda>privkey_data. ret (b64encode (or_else privkey_data [])))
              else ret [])
         (\<lambda>privkey. ret \<lparr>dk_pubkey = pubkey, dk_privkey = privkey, dk_length = len,
                          dk_selector = dkim_selector, dk_txt = dkim_txt\<rparr>)))"

definition create_key ::
  "'s store_ops \<Rightarrow> rsa_api \<Rightarrow> dkim_create \<Rightarrow> ('s, py_exn, string) sem" where
  "create_key store rsa create =
     bindM (s_hget store ''DKIM_PUB_KEYS'' (dc_domain create)) (\<lambda>existing.
     seqM (raise_when (truthy existing)
       (DKIMAlreadyExistsError (''DKIM domain already exists: '' @ dc_domain create)))
     (case generate_keypair rsa (dc_key_size create) of
        Inl e \<Rightarrow> throw e
      | Inr (private, public) \<Rightarrow>
          (let public_lines = splitlines public;
               public_key = concat (butlast (tl public_lines)) in
           bindM (s_hset store ''DKIM_PUB_KEYS'' (dc_domain create) (PStr public_key) None) (\<lambda>_.
           bindM (s_hset store ''DKIM_SELECTORS'' (dc_domain create)
             (PStr (dc_selector create)) None) (\<lambda>_.
           bindM (s_hset store ''DKIM_PRIV_KEYS'' (dc_selector create @ ''.'' @ dc_domain create)
             (PStr private) None) (\<lambda>_.
           ret public_key))))))"

definition duplicate_key ::
  "'s store_ops \<Rightarrow> rsa_api \<Rightarrow> dkim_duplicate \<Rightarrow> ('s, py_exn, unit) sem" where
  "duplicate_key store rsa dup =
     bindM (get_details store rsa (dd_from_domain dup) True) (\<lambda>from_domain_dkim.
     case b64decode (dk_privkey from_domain_dkim) of
       None \<Rightarrow> throw (DKIMError ''Invalid DKIM private key format'')
     | Some privkey \<Rightarrow>
         bindM (s_hset store ''DKIM_PUB_KEYS'' (dd_to_domain dup)
           (PStr (dk_pubkey from_domain_dkim)) None) (\<lambda>_.
         bindM (s_hset store ''DKIM_SELECTORS'' (dd_to_domain dup)
           (PStr (dk_selector from_domain_dkim)) None) (\<lambda>_.
         bindM (s_hset store ''DKIM_PRIV_KEYS''
           (dk_selector from_domain_dkim @ ''.'' @ dd_to_domain dup) (PStr privkey) None) (\<lambda>_.
         ret ()))))"

definition delete_key :: "'s store_ops \<Rightarrow> string \<Rightarrow> ('s, py_exn, unit) sem" where
  "delete_key store domain =
     bindM (s_hget store ''DKIM_SELECTORS'' domain) (\<lambda>selector.
     bindM (s_hdel store ''DKIM_PUB_KEYS'' [domain]) (\<lambda>_.
     bindM (s_hdel store ''DKIM_SELECTORS'' [domain]) (\<lambda>_.
     if truthy selector
     then bindM (s_hdel store ''DKIM_PRIV_KEYS'' [or_else selector [] @ ''.'' @ domain]) (\<lambda>_. ret ())
     else ret ())))"

section \<open>What the operations do to the three hashes\<close>

text \<open>The details of a domain, read off what the store holds.\<close>

definition details_of ::
  "rsa_api \<Rightarrow> (string \<Rightarrow> string \<Rightarrow> string option) \<Rightarrow> string \<Rightarrow> bool \<Rightarrow> py_exn + dkim_details" where
  "details_of rsa v domain privkey =
     (if \<not> truthy (v ''DKIM_PUB_KEYS'' domain) then Inl (dkim_not_found domain)
      else let pubkey = or_else (v ''DKIM_PUB_KEYS'' domain) [];
               selector = or_else (v ''DKIM_SELECTORS'' domain) ''dkim'' in
        Inr \<lparr>dk_pubkey = pubkey,
             dk_privkey =
               (if privkey
                then b64encode (or_else (v ''DKIM_PRIV_KEYS'' (selector @ ''.'' @ domain)) [])
                else []),
             dk_length = detect_key_length rsa pubkey, dk_selector = selector,
             dk_txt = ''v=DKIM1;k=rsa;t=s;s=email;p='' @ pubkey\<rparr>)"

definition put_key ::
  "(string \<Rightarrow> string \<Rightarrow> string option) \<Rightarrow> string \<Rightarrow> string \<Rightarrow> string \<Rightarrow> string \<Rightarrow>
     string \<Rightarrow> string \<Rightarrow> string option" where
  "put_key v domain pubkey selector privkey =
     hput (hput (hput v ''DKIM_PUB_KEYS'' domain pubkey) ''DKIM_SELECTORS'' domain selector)
       ''DKIM_PRIV_KEYS'' (selector @ ''.'' @ domain) privkey"

text \<open>The store without the key of a domain under its current selector.\<close>

definition removed_key ::
  "(string \<Rightarrow> string \<Rightarrow> string option) \<Rightarrow> string \<Rightarrow> string \<Rightarrow> string \<Rightarrow> string option" where
  "removed_key v domain =
     (let w = hrem (hrem v ''DKIM_PUB_KEYS'' [domain]) ''DKIM_SELECTORS'' [domain] in
      case v ''DKIM_SELECTORS'' domain of
        None \<Rightarrow> w
      | Some selector \<Rightarrow> if selector = [] then w else hrem w ''DKIM_PRIV_KEYS'' [selector @ ''.'' @ domain])"

lemma truthy_Some [simp]: "truthy (Some x) \<longleftrightarrow> x \<noteq> []" "\<not> truthy None"
  by (simp_all add: truthy_def)

lemma or_else_simps [simp]: "or_else None d = d" "or_else (Some x) d = (if x = [] then d else x)"
  by (simp_all add: or_else_def)

lemma details_of_put_key:
  assumes "pubkey \<noteq> []" and "selector \<noteq> []"
  shows "details_of rsa (put_key v domain pubkey selector privkey) domain True =
    Inr \<lparr>dk_pubkey = pubkey, dk_privkey = b64encode privkey,
         dk_length = detect_key_length rsa pubkey, dk_selector = selector,
         dk_txt = ''v=DKIM1;k=rsa;t=s;s=email;p='' @ pubkey\<rparr>"
  using assms by (auto simp: details_of_def put_key_def Let_def)

lemma removed_key_apply:
  "removed_key v domain ''DKIM_PUB_KEYS'' domain = None"
  "k \<notin> set [''DKIM_PUB_KEYS'', ''DKIM_SELECTORS'', ''DKIM_PRIV_KEYS''] \<Longrightarrow> removed_key v domain k = v k"
  by (auto simp: removed_key_def Let_def fun_eq_iff split: option.split)

lemma removed_put_key:
  "selector \<noteq> [] \<Longrightarrow> removed_key (put_key v domain pubkey selector privkey) domain =
     hrem (hrem (hrem v ''DKIM_PUB_KEYS'' [domain]) ''DKIM_SELECTORS'' [domain])
       ''DKIM_PRIV_KEYS'' [selector @ ''.'' @ domain]"
  by (auto simp: removed_key_def put_key_def Let_def fun_eq_iff)

context hash_store
begin

lemma get_key_details_run:
  assumes "good s"
  shows "\<exists>t. get_details ops rsa domain privkey s = (details_of rsa (view s) domain privkey, t) \<and>
    good t \<and> view t = view s"
proof -
  obtain t where t: "s_hget ops ''DKIM_PUB_KEYS'' domain s =
      (Inr (view s ''DKIM_PUB_KEYS'' domain), t)" "good t" "view t = view s"
    using hget_run [OF assms] by blast
  obtain u where u: "s_hget ops ''DKIM_SELECTORS'' domain t =
      (Inr (view s ''DKIM_SELECTORS'' domain), u)" "good u" "view u = view s"
    using hget_run [OF t(2)] t(3) by metis
  obtain w where w: "s_hget ops ''DKIM_PRIV_KEYS''
      (or_else (view s ''DKIM_SELECTORS'' domain) ''dkim'' @ ''.'' @ domain) u =
      (Inr (view s ''DKIM_PRIV_KEYS''
        (or_else (view s ''DKIM_SELECTORS'' domain) ''dkim'' @ ''.'' @ domain)), w)"
    "good w" "view w = view s"
    using hget_run [OF u(2)] u(3) by metis
  show ?thesis
    using t u w by (simp add: get_details_def details_of_def bindM_def Let_def)
qed

lemma put_key_run:
  assumes "good s"
  shows "\<exists>t. bindM (s_hset ops ''DKIM_PUB_KEYS'' domain (PStr pubkey) None) (\<lambda>_.
      bindM (s_hset ops ''DKIM_SELECTORS'' domain (PStr selector) None) (\<lambda>_.
      bindM (s_hset ops ''DKIM_PRIV_KEYS'' (selector @ ''.'' @ domain) (PStr privkey) None) (\<lambda>_.
      ret a))) s = (Inr a, t) \<and> good t \<and> view t = put_key (view s) domain pubkey selector privkey"
proof -
  obtain n t where t: "s_hset ops ''DKIM_PUB_KEYS'' domain (PStr pubkey) None s = (Inr n, t)"
    "good t" "view t = hput (view s) ''DKIM_PUB_KEYS'' domain pubkey"
    using hset_text_run [OF assms] by fastforce
  obtain m u where u: "s_hset ops ''DKIM_SELECTORS'' domain (PStr selector) None t = (Inr m, u)"
    "good u" "view u = hput (view t) ''DKIM_SELECTORS'' domain selector"
    using hset_text_run [OF t(2)] by fastforce
  obtain k w where "s_hset ops ''DKIM_PRIV_KEYS'' (selector @ ''.'' @ domain) (PStr privkey) None u
      = (Inr k, w)" "good w"
    "view w = hput (view u) ''DKIM_PRIV_KEYS'' (selector @ ''.'' @ domain) privkey"
    using hset_text_run [OF u(2)] by fastforce
  with t u show ?thesis by (simp add: bindM_def put_key_def)
qed

lemma create_key_run:
  assumes "good s" and "generate_keypair rsa (dc_key_size create) = Inr (private, public)"
    and "\<not> truthy (view s ''DKIM_PUB_KEYS'' (dc_domain create))"
  shows "\<exists>t. create_key ops rsa create s = (Inr (concat (butlast (tl (splitlines public)))), t) \<and>
    good t \<and> view t = put_key (view s) (dc_domain create)
      (concat (butlast (tl (splitlines public)))) (dc_selector create) private"
proof -
  obtain t where t: "s_hget ops ''DKIM_PUB_KEYS'' (dc_domain create) s =
      (Inr (view s ''DKIM_PUB_KEYS'' (dc_domain create)), t)" "good t" "view t = view s"
    using hget_run [OF assms(1)] by blast
  show ?thesis
    using put_key_run [OF t(2)] assms(2,3) t
    by (simp add: create_key_def Let_def
        bindM_Inr [of "s_hget ops ''DKIM_PUB_KEYS'' (dc_domain create)", OF t(1)])
qed

lemma create_key_twice:
  assumes "good s" and "truthy (view s ''DKIM_PUB_KEYS'' (dc_domain create))"
  shows "\<exists>t. create_key ops rsa create s =
    (Inl (DKIMAlreadyExistsError (''DKIM domain already exists: '' @ dc_domain create)), t) \<and>
    view t = view s"
proof -
  obtain t where t: "s_hget ops ''DKIM_PUB_KEYS'' (dc_domain create) s =
      (Inr (view s ''DKIM_PUB_KEYS'' (dc_domain create)), t)" "view t = view s"
    using hget_run [OF assms(1)] by blast
  with assms(2) show ?thesis
    by (simp add: create_key_def
        bindM_Inr [of "s_hget ops ''DKIM_PUB_KEYS'' (dc_domain create)", OF t(1)])
qed

lemma details_cases:
  assumes "details_of rsa v domain True = Inr d"
  shows "dk_pubkey d \<noteq> [] \<and> dk_selector d \<noteq> [] \<and>
    (\<exists>p. dk_privkey d = b64encode p) \<and> dk_length d = detect_key_length rsa (dk_pubkey d) \<and>
    dk_txt d = ''v=DKIM1;k=rsa;t=s;s=email;p='' @ dk_pubkey d"
  using assms by (auto simp: details_of_def Let_def truthy_def or_else_def simp del: b64encode.simps
      split: if_splits option.splits)

lemma duplicate_key_run:
  assumes "good s" and "details_of rsa (view s) (dd_from_domain dup) True = Inr d"
  shows "\<exists>t. duplicate_key ops rsa dup s = (Inr (), t) \<and> good t \<and>
    details_of rsa (view t) (dd_to_domain dup) True = Inr d"
proof -
  obtain t where t: "get_details ops rsa (dd_from_domain dup) True s = (Inr d, t)" "good t"
    using get_key_details_run [OF assms(1)] assms(2) by metis
  obtain p where p: "dk_privkey d = b64encode p" using details_cases [OF assms(2)] by blast
  obtain u where u: "duplicate_key ops rsa dup s = (Inr (), u)" "good u"
    "view u = put_key (view t) (dd_to_domain dup) (dk_pubkey d) (dk_selector d) p"
    using put_key_run [OF t(2), of "dd_to_domain dup" "dk_pubkey d" "dk_selector d" p "()"]
    by (auto simp: duplicate_key_def p b64decode_b64encode
        bindM_Inr [of "get_details ops rsa (dd_from_domain dup) True", OF t(1)])
  then show ?thesis
    using details_cases [OF assms(2)] p by (auto simp: details_of_put_key)
qed

lemma delete_key_run:
  assumes "good s"
  shows "\<exists>t. delete_key ops domain s = (Inr (), t) \<and> good t \<and> view t = removed_key (view s) domain"
proof -
  let ?sel = "view s ''DKIM_SELECTORS'' domain"
  obtain t where t: "s_hget ops ''DKIM_SELECTORS'' domain s = (Inr ?sel, t)" "good t" "view t = view s"
    using hget_run [OF assms] by blast
  obtain n u where u: "s_hdel ops ''DKIM_PUB_KEYS'' [domain] t = (Inr n, u)" "good u"
    "view u = hrem (view t) ''DKIM_PUB_KEYS'' [domain]"
    using hdel_run [OF t(2)] by blast
  obtain m w where w: "s_hdel ops ''DKIM_SELECTORS'' [domain] u = (Inr m, w)" "good w"
    "view w = hrem (view u) ''DKIM_SELECTORS'' [domain]"
    using hdel_run [OF u(2)] by blast
  obtain k x where "s_hdel ops ''DKIM_PRIV_KEYS'' [or_else ?sel [] @ ''.'' @ domain] w = (Inr k, x)"
    "good x" "view x = hrem (view w) ''DKIM_PRIV_KEYS'' [or_else ?sel [] @ ''.'' @ domain]"
    using hdel_run [OF w(2)] by blast
  with t u w show ?thesis
    by (cases ?sel) (simp_all add: delete_key_def removed_key_def bindM_def Let_def del: hrem_apply)
qed

lemma delete_then_details:
  assumes "good s" and "delete_key ops domain s = (Inr (), t)"
  shows "fst (get_details ops rsa domain privkey t) = Inl (dkim_not_found domain)"
proof -
  have "good t" and "view t ''DKIM_PUB_KEYS'' domain = None"
    using delete_key_run [OF assms(1), of domain] assms(2) by (auto simp: removed_key_apply)
  then show ?thesis
    using get_key_details_run [of t rsa domain privkey] by (auto simp: details_of_def)
qed

end

section \<open>Properties\<close>

text \<open>
  Duplicating a DKIM key copies it faithfully: when the source domain has a key, the call
  succeeds and the details of the target domain, private key included, are those of the source.
  The private key passes through base64 and back on the way.
\<close>
theorem duplicate_key_copies_details:
  assumes "memory_good now s"
    and "fst (get_details (memory_ops now) rsa (dd_from_domain dup) True s) = Inr d"
  shows "\<exists>t. duplicate_key (memory_ops now) rsa dup s = (Inr (), t) \<and>
    fst (get_details (memory_ops now) rsa (dd_to_domain dup) True t) = Inr d"
proof -
  have "details_of rsa (memory_view s) (dd_from_domain dup) True = Inr d"
    using memory.get_key_details_run [OF assms(1), of rsa "dd_from_domain dup" True] assms(2) by auto
  from memory.duplicate_key_run [OF assms(1) this] show ?thesis
    using memory.get_key_details_run by (metis fst_conv)
qed

definition toy_rsa :: rsa_api where
  "toy_rsa =
     \<lparr>generate_keypair = (\<lambda>n. Inr (''PRIVATE'', join [CHR 10] [''BEGIN'', ''MIIB'', ''IjAN'', ''END'', []])),
      pem_key_size = (\<lambda>_. None)\<rparr>"

lemma duplicate_key_copies_details_witness:
  "\<exists>s t d. create_key (memory_ops 0) toy_rsa
        \<lparr>dc_domain = ''a.org'', dc_selector = ''mail'', dc_key_size = 2048\<rparr> []
        = (Inr ''MIIBIjAN'', s) \<and>
     duplicate_key (memory_ops 0) toy_rsa
       \<lparr>dd_from_domain = ''a.org'', dd_to_domain = ''b.org''\<rparr> s = (Inr (), t) \<and>
     fst (get_details (memory_ops 0) toy_rsa ''b.org'' True t) = Inr d \<and>
     dk_privkey d = ''UFJJVkFURQ==''"
  (is "\<exists>s t d. ?create = (Inr _, s) \<and> _")
proof -
  have c: "fst ?create = Inr ''MIIBIjAN''" by code_simp
  have good: "memory_good 0 (snd ?create)"
    using memory.create_key_run [of 0 "[]" toy_rsa
        "\<lparr>dc_domain = ''a.org'', dc_selector = ''mail'', dc_key_size = 2048\<rparr>"]
    by (auto simp: toy_rsa_def memory_good_def memory_view_def)
  let ?d = "\<lparr>dk_pubkey = ''MIIBIjAN'', dk_privkey = ''UFJJVkFURQ=='', dk_length = ''1024'',
      dk_selector = ''mail'', dk_txt = ''v=DKIM1;k=rsa;t=s;s=email;p=MIIBIjAN''\<rparr>"
  have "fst (get_details (memory_ops 0) toy_rsa ''a.org'' True (snd ?create)) = Inr ?d" by code_simp
  then have "\<exists>t. duplicate_key (memory_ops 0) toy_rsa
       \<lparr>dd_from_domain = ''a.org'', dd_to_domain = ''b.org''\<rparr> (snd ?create) = (Inr (), t) \<and>
      fst (get_details (memory_ops 0) toy_rsa ''b.org'' True t) = Inr ?d"
    using duplicate_key_copies_details [OF good, of toy_rsa
        "\<lparr>dd_from_domain = ''a.org'', dd_to_domain = ''b.org''\<rparr>" ?d] by simp
  moreover have "?create = (Inr ''MIIBIjAN'', snd ?create)" using c by (simp add: prod_eq_iff)
  ultimately show ?thesis by (metis dkim_details.select_convs(2))
qed

text \<open>
  C33. On any store that behaves as hashes: creating a key for a domain that has none enters the public
  key generated, the selector asked for and the private key under both in the three hashes and nothing
  else; the details of the domain are then that key, the private key in base64, the selector and the TXT
  record to publish, and creating a second key is refused. Deleting the key takes those three entries
  out, the private key too, and nothing else, so that the domain has no key.
\<close>
theorem create_key_lifecycle:
  assumes "hash_store ops view good" and "good s"
    and "generate_keypair rsa (dc_key_size create) = Inr (private, public)"
    and "\<not> truthy (view s ''DKIM_PUB_KEYS'' (dc_domain create))"
    and "concat (butlast (tl (splitlines public))) = pubkey" and "pubkey \<noteq> []"
    and "dc_selector create \<noteq> []"
  shows "\<exists>t. create_key ops rsa create s = (Inr pubkey, t) \<and>
    view t = hput (hput (hput (view s) ''DKIM_PUB_KEYS'' (dc_domain create) pubkey)
      ''DKIM_SELECTORS'' (dc_domain create) (dc_selector create))
      ''DKIM_PRIV_KEYS'' (dc_selector create @ ''.'' @ dc_domain create) private \<and>
    fst (get_details ops rsa (dc_domain create) True t) =
      Inr \<lparr>dk_pubkey = pubkey, dk_privkey = b64encode private,
           dk_length = detect_key_length rsa pubkey, dk_selector = dc_selector create,
           dk_txt = ''v=DKIM1;k=rsa;t=s;s=email;p='' @ pubkey\<rparr> \<and>
    fst (create_key ops rsa create t) =
      Inl (DKIMAlreadyExistsError (''DKIM domain already exists: '' @ dc_domain create)) \<and>
    (\<exists>u. delete_key ops (dc_domain create) t = (Inr (), u) \<and>
      view u = hrem (hrem (hrem (view s) ''DKIM_PUB_KEYS'' [dc_domain create])
        ''DKIM_SELECTORS'' [dc_domain create])
        ''DKIM_PRIV_KEYS'' [dc_selector create @ ''.'' @ dc_domain create] \<and>
      fst (get_details ops rsa (dc_domain create) True u) = Inl (dkim_not_found (dc_domain create)))"
proof -
  note st = assms(1)
  obtain t where t: "create_key ops rsa create s = (Inr pubkey, t)" "good t"
    "view t = put_key (view s) (dc_domain create) pubkey (dc_selector create) private"
    using hash_store.create_key_run [OF st, OF assms(2-4)] unfolding assms(5) by blast
  have "truthy (view t ''DKIM_PUB_KEYS'' (dc_domain create))"
    using t(3) assms(6) by (simp add: put_key_def)
  from hash_store.create_key_twice [OF st, OF t(2) this, of rsa] have twice: "fst (create_key ops rsa create t) =
      Inl (DKIMAlreadyExistsError (''DKIM domain already exists: '' @ dc_domain create))"
    by auto
  have d: "fst (get_details ops rsa (dc_domain create) True t) =
      details_of rsa (view t) (dc_domain create) True"
    using hash_store.get_key_details_run [OF st, OF t(2), of rsa "dc_domain create" True] by auto
  obtain u where u: "delete_key ops (dc_domain create) t = (Inr (), u)"
    "view u = removed_key (view t) (dc_domain create)"
    using hash_store.delete_key_run [OF st, OF t(2), of "dc_domain create"] by blast
  note gone = hash_store.delete_then_details [OF st, OF t(2) u(1), of rsa True]
  note facts = details_of_put_key [OF assms(6,7)] removed_put_key [OF assms(7)]
  show ?thesis
    by (rule exI [of _ t], intro conjI exI [of _ u])
      (fact t(1) t(3) [unfolded put_key_def] twice u(1) gone
        d [unfolded t(3) facts] u(2) [unfolded t(3) facts])+
qed

lemma create_key_lifecycle_witness:
  "\<exists>t u. create_key (memory_ops 0) toy_rsa
        \<lparr>dc_domain = ''a.org'', dc_selector = ''mail'', dc_key_size = 2048\<rparr> []
        = (Inr ''MIIBIjAN'', t) \<and> memory_view t ''DKIM_PRIV_KEYS'' ''mail.a.org'' = Some ''PRIVATE'' \<and>
     delete_key (memory_ops 0) ''a.org'' t = (Inr (), u) \<and> memory_view u = memory_view []"
proof -
  have "concat (butlast (tl (splitlines (join [CHR 10] [''BEGIN'', ''MIIB'', ''IjAN'', ''END'', []]))))
      = ''MIIBIjAN''"
    by code_simp
  moreover have "memory_good 0 []" by (simp add: memory_good_def)
  moreover have "memory_view [] = (\<lambda>k f. None)" by (simp add: memory_view_def fun_eq_iff)
  ultimately show ?thesis
    using create_key_lifecycle [OF memory.hash_store_axioms, of 0 "[]" toy_rsa
        "\<lparr>dc_domain = ''a.org'', dc_selector = ''mail'', dc_key_size = 2048\<rparr>" "''PRIVATE''"
        "join [CHR 10] [''BEGIN'', ''MIIB'', ''IjAN'', ''END'', []]" "''MIIBIjAN''"]
    by (fastforce simp: toy_rsa_def fun_eq_iff)
qed

end
