(* ===== verification/World.thy ===== *)
theory World
  imports Models Dkim
begin

text \<open>
  What the managers share: the session of the database, the store, the memcached store and the
  requests sent to the docker API (src/backend/taramail/http.py), whose answers are a parameter:
  \<open>None\<close> for success, or the exception \<open>HTTPSession.request\<close> raises. A transaction
  (src/backend/taramail/db.py) rolls back the database only: what was written to the stores stays.
\<close>

record ('k, 'm) world =
  w_db :: session
  w_store :: 'k
  w_memcached :: 'm
  w_requests :: "string list"

definition on_db :: "(session, 'e, 'a) sem \<Rightarrow> (('k, 'm) world, 'e, 'a) sem" where
  "on_db = zoom w_db (\<lambda>s w. w\<lparr>w_db := s\<rparr>)"

definition on_store :: "('k, 'e, 'a) sem \<Rightarrow> (('k, 'm) world, 'e, 'a) sem" where
  "on_store = zoom w_store (\<lambda>s w. w\<lparr>w_store := s\<rparr>)"

definition on_memcached :: "('m, 'e, 'a) sem \<Rightarrow> (('k, 'm) world, 'e, 'a) sem" where
  "on_memcached = zoom w_memcached (\<lambda>s w. w\<lparr>w_memcached := s\<rparr>)"

definition docker_post ::
  "(string \<Rightarrow> py_exn option) \<Rightarrow> string \<Rightarrow> (('k, 'm) world, py_exn, unit) sem" where
  "docker_post answer path w =
     (let w' = w\<lparr>w_requests := w_requests w @ [path]\<rparr> in
      case answer path of None \<Rightarrow> (Inr (), w') | Some e \<Rightarrow> (Inl e, w'))"

definition transaction :: "(('k, 'm) world, py_exn, 'a) sem \<Rightarrow> (('k, 'm) world, py_exn, 'a) sem" where
  "transaction body w =
     (case bindM body (\<lambda>a. seqM (on_db flush) (ret a)) w of
        (Inl e, w') \<Rightarrow> (Inl e, w'\<lparr>w_db := w_db w\<rparr>)
      | (Inr a, w') \<Rightarrow> (Inr a, w'))"

lemma on_db_run: "on_db m w = (fst (m (w_db w)), w\<lparr>w_db := snd (m (w_db w))\<rparr>)"
  by (simp add: on_db_def zoom_def split: prod.splits)

lemma on_store_run: "on_store m w = (fst (m (w_store w)), w\<lparr>w_store := snd (m (w_store w))\<rparr>)"
  by (simp add: on_store_def zoom_def split: prod.splits)

lemma on_memcached_run:
  "on_memcached m w = (fst (m (w_memcached w)), w\<lparr>w_memcached := snd (m (w_memcached w))\<rparr>)"
  by (simp add: on_memcached_def zoom_def split: prod.splits)

lemmas world_runs = on_db_run on_store_run on_memcached_run

lemma on_db_returns:
  "on_db m w = (Inr a, w') \<longleftrightarrow> (\<exists>s. m (w_db w) = (Inr a, s) \<and> w' = w\<lparr>w_db := s\<rparr>)"
  by (cases "m (w_db w)") (auto simp: on_db_run)

lemma on_store_returns:
  "on_store m w = (Inr a, w') \<longleftrightarrow> (\<exists>s. m (w_store w) = (Inr a, s) \<and> w' = w\<lparr>w_store := s\<rparr>)"
  by (cases "m (w_store w)") (auto simp: on_store_run)

lemma on_memcached_returns:
  "on_memcached m w = (Inr a, w') \<longleftrightarrow>
     (\<exists>s. m (w_memcached w) = (Inr a, s) \<and> w' = w\<lparr>w_memcached := s\<rparr>)"
  by (cases "m (w_memcached w)") (auto simp: on_memcached_run)

lemma docker_post_returns:
  "docker_post answer path w = (Inr a, w') \<longleftrightarrow>
     answer path = None \<and> w' = w\<lparr>w_requests := w_requests w @ [path]\<rparr>"
  by (auto simp: docker_post_def Let_def split: option.splits)

lemmas world_returns = on_db_returns on_store_returns on_memcached_returns docker_post_returns

lemma transaction_returns:
  "transaction m w = (Inr a, w') \<longleftrightarrow>
     (\<exists>u. m w = (Inr a, u) \<and> unique_keys (orm (w_db u)) \<and> w' = u\<lparr>w_db := clean (orm (w_db u))\<rparr>)"
proof -
  have "transaction m w = (Inr a, w') \<longleftrightarrow> bindM m (\<lambda>a. seqM (on_db flush) (ret a)) w = (Inr a, w')"
    unfolding transaction_def by (auto split: prod.splits sum.splits)
  then show ?thesis by (auto simp: sem_returns world_returns)
qed

lemma transaction_raises:
  "transaction m w = (Inl e, w') \<Longrightarrow> w_db w' = w_db w"
  by (auto simp: transaction_def split: prod.splits sum.splits)

end
