(* ===== verification/Domain.thy ===== *)
theory Domain
  imports World Transport
begin

text \<open>
  src/backend/taramail/domain.py: the domains with their quotas and limits, over the database,
  the store (\<open>DOMAIN_MAP\<close>, \<open>RL_VALUE\<close> and the DKIM keys) and the docker API. Lengths and quotas
  are integers. \<open>dm_bare_column\<close> is the value a database gives for a column that stands outside the
  aggregates of a query, among the rows of the group (SQLite and MySQL leave it open).
\<close>

record domain_create =
  dn_domain :: string
  dn_description :: string
  dn_aliases :: int
  dn_mailboxes :: int
  dn_defquota :: int
  dn_maxquota :: int
  dn_quota :: int
  dn_active :: bool
  dn_gal :: bool
  dn_backupmx :: bool
  dn_relay_all_recipients :: bool
  dn_relay_unknown_only :: bool
  dn_dkim_selector :: string
  dn_key_size :: int
  dn_restart_sogo :: bool

record domain_details =
  de_max_new_mailbox_quota :: int
  de_def_new_mailbox_quota :: int
  de_quota_used_in_domain :: int
  de_bytes_total :: int
  de_msgs_total :: int
  de_mboxes_in_domain :: int
  de_mboxes_left :: int
  de_domain :: string
  de_description :: "string option"
  de_max_num_aliases_for_domain :: int
  de_max_num_mboxes_for_domain :: int
  de_def_quota_for_mbox :: int
  de_max_quota_for_mbox :: int
  de_max_quota_for_domain :: int
  de_relayhost :: int
  de_backupmx :: bool
  de_gal :: bool
  de_active :: bool
  de_relay_all_recipients :: bool
  de_relay_unknown_only :: bool
  de_aliases_in_domain :: int
  de_aliases_left :: int

record domain_update =
  dp_description :: "string option"
  dp_aliases :: "int option"
  dp_mailboxes :: "int option"
  dp_defquota :: "int option"
  dp_maxquota :: "int option"
  dp_quota :: "int option"
  dp_relayhost :: "int option"
  dp_active :: "bool option"
  dp_gal :: "bool option"
  dp_backupmx :: "bool option"
  dp_relay_all_recipients :: "bool option"
  dp_relay_unknown_only :: "bool option"

record 'k domain_manager =
  dm_store :: "'k store_ops"
  dm_rsa :: rsa_api
  dm_docker :: "string \<Rightarrow> py_exn option"
  dm_bare_column :: "int list \<Rightarrow> int"

section \<open>Queries\<close>

definition get_origin_domain :: "string \<Rightarrow> (session, py_exn, string) sem" where
  "get_origin_domain domain =
     catchM
       (bindM (query (\<lambda>d. map ad_target_domain
          (filter (\<lambda>r. ad_alias_domain r = domain) (t_alias_domain d)))) one)
       (\<lambda>e. if e = NoResultFound then ret domain else throw e)"

definition mailboxes_in :: "string \<Rightarrow> db \<Rightarrow> mailbox_row list" where
  "mailboxes_in domain d = filter (\<lambda>m. mb_kind m = [] \<and> mb_domain m = domain) (t_mailbox d)"

text \<open>Count, a quota of the rows (0 without rows) and the sum of the quotas.\<close>

definition get_mailbox_data :: "(int list \<Rightarrow> int) \<Rightarrow> string \<Rightarrow> db \<Rightarrow> int \<times> int \<times> int" where
  "get_mailbox_data bare domain d =
     (let quotas = map mb_quota (mailboxes_in domain d)
      in (int (length quotas), if quotas = [] then 0 else bare quotas, sum_list quotas))"

definition get_mailbox_data_domain :: "string \<Rightarrow> db \<Rightarrow> int \<times> int" where
  "get_mailbox_data_domain domain d =
     (let quotas = map mb_quota (mailboxes_in domain d) in (int (length quotas), sum_list quotas))"

definition not_a_mailbox :: "db \<Rightarrow> alias_row \<Rightarrow> bool" where
  "not_a_mailbox d a \<longleftrightarrow> al_address a \<notin> set (map mb_username (t_mailbox d))"

definition get_alias_data :: "string \<Rightarrow> db \<Rightarrow> int" where
  "get_alias_data domain d =
     int (length (filter (\<lambda>a. al_domain a = domain \<and> not_a_mailbox d a) (t_alias d)))"

definition get_alias_data_domain :: "string \<Rightarrow> db \<Rightarrow> int" where
  "get_alias_data_domain domain d =
     (let alias_domains = map ad_alias_domain
            (filter (\<lambda>r. ad_target_domain r = domain) (t_alias_domain d))
      in int (length (filter (\<lambda>a. (al_domain a = domain \<or> al_domain a \<in> set alias_domains) \<and>
           not_a_mailbox d a) (t_alias d))))"

definition get_sum_quota_in_use :: "string \<Rightarrow> db \<Rightarrow> int \<times> int" where
  "get_sum_quota_in_use domain d =
     (let usernames = map mb_username (filter (\<lambda>m. mb_domain m = domain) (t_mailbox d));
          rows = filter (\<lambda>q. q2_username q \<in> set usernames) (t_quota2 d)
      in (sum_list (map q2_bytes rows), sum_list (map q2_messages rows)))"

definition domain_not_found :: "string \<Rightarrow> py_exn" where
  "domain_not_found domain = DomainNotFoundError (''Domain name '' @ domain @ '' not found'')"

definition details_of_domain :: "domain_row \<Rightarrow> db \<Rightarrow> domain_details" where
  "details_of_domain model d =
     (let (count, in_use) = get_mailbox_data_domain (do_domain model) d;
          (bytes_total, msgs_total) = get_sum_quota_in_use (do_domain model) d;
          max_new_mailbox_quota = min (do_quota model - in_use) (do_maxquota model);
          aliases_in_domain = get_alias_data_domain (do_domain model) d
      in \<lparr>de_max_new_mailbox_quota = max_new_mailbox_quota,
          de_def_new_mailbox_quota = min max_new_mailbox_quota (do_defquota model),
          de_quota_used_in_domain = in_use, de_bytes_total = bytes_total,
          de_msgs_total = msgs_total, de_mboxes_in_domain = count,
          de_mboxes_left = do_mailboxes model - count, de_domain = do_domain model,
          de_description = do_description model,
          de_max_num_aliases_for_domain = do_aliases model,
          de_max_num_mboxes_for_domain = do_mailboxes model,
          de_def_quota_for_mbox = do_defquota model, de_max_quota_for_mbox = do_maxquota model,
          de_max_quota_for_domain = do_quota model, de_relayhost = do_relayhost model,
          de_backupmx = do_backupmx model, de_gal = do_gal model, de_active = do_active model,
          de_relay_all_recipients = do_relay_all_recipients model,
          de_relay_unknown_only = do_relay_unknown_only model,
          de_aliases_in_domain = aliases_in_domain,
          de_aliases_left = do_aliases model - aliases_in_domain\<rparr>)"

definition get_domain_details :: "string \<Rightarrow> (session, py_exn, domain_details) sem" where
  "get_domain_details domain =
     bindM (get_origin_domain domain) (\<lambda>domain.
     bindM (query (\<lambda>d. filter (\<lambda>r. do_domain r = domain) (t_domain d))) (\<lambda>rows.
     bindM (one_or (domain_not_found domain) rows) (\<lambda>model.
     query (details_of_domain model))))"

definition get_domains :: "(session, py_exn, domain_row list) sem" where
  "get_domains = query (\<lambda>d. filter do_active (t_domain d))"

section \<open>Validation\<close>

definition validate_domain_model :: "domain_row \<Rightarrow> (session, py_exn, domain_row) sem" where
  "validate_domain_model model =
     seqM (raise_when (do_defquota model = 0)
       (DomainValidationError ''Default quota per mailbox cannot be empty''))
     (seqM (raise_when (do_maxquota model < do_defquota model)
       (DomainValidationError (''Default quota ('' @ show_int (do_defquota model) @
          '') exceeds max quota limit ('' @ show_int (do_maxquota model) @ '')'')))
     (seqM (raise_when (do_maxquota model = 0)
       (DomainValidationError ''Max quota per mailbox cannot be empty''))
     (seqM (raise_when (do_quota model < do_maxquota model)
       (DomainValidationError (''Max quota ('' @ show_int (do_maxquota model) @
          '') exceeds domain quota limit ('' @ show_int (do_quota model) @ '')'')))
     (ret (let model = (if do_relay_all_recipients model then model\<lparr>do_backupmx := True\<rparr> else model)
       in if do_relay_unknown_only model
          then model\<lparr>do_backupmx := True, do_relay_all_recipients := True\<rparr> else model)))))"

section \<open>Operations\<close>

definition selector_char :: "char \<Rightarrow> bool" where
  "selector_char c \<longleftrightarrow>
     is_alpha c \<or> is_digit c \<or> c = CHR ''-'' \<or> c = CHR ''_'' \<or> c = CHR ''.''"

text \<open>The constructor of \<open>DKIMCreate\<close> checks the selector; a key that exists already is kept.\<close>

definition create_domain_key ::
  "'k domain_manager \<Rightarrow> domain_create \<Rightarrow> ('k, py_exn, unit) sem" where
  "create_domain_key dm create =
     seqM (raise_when (dn_dkim_selector create = [] \<or>
         \<not> list_all selector_char (dn_dkim_selector create))
       (PydanticValidationError ''dkim_selector''))
     (catchM
       (bindM (create_key (dm_store dm) (dm_rsa dm)
         \<lparr>dc_domain = dn_domain create, dc_selector = dn_dkim_selector create,
          dc_key_size = dn_key_size create\<rparr>) (\<lambda>_. ret ()))
       (\<lambda>e. case e of DKIMAlreadyExistsError _ \<Rightarrow> ret () | _ \<Rightarrow> throw e))"

definition new_domain :: "domain_create \<Rightarrow> domain_row" where
  "new_domain create =
     \<lparr>do_domain = dn_domain create,
      do_description = Some
        (if dn_description create \<noteq> [] then dn_description create else dn_domain create),
      do_aliases = dn_aliases create, do_mailboxes = dn_mailboxes create,
      do_defquota = dn_defquota create, do_maxquota = dn_maxquota create,
      do_quota = dn_quota create, do_relayhost = 0, do_backupmx = dn_backupmx create,
      do_gal = dn_gal create, do_relay_all_recipients = dn_relay_all_recipients create,
      do_relay_unknown_only = dn_relay_unknown_only create, do_active = dn_active create\<rparr>"

definition insert_domain :: "domain_create \<Rightarrow> (session, py_exn, domain_row) sem" where
  "insert_domain create =
     bindM (validate_domain_model (new_domain create)) (\<lambda>model.
     seqM (pending (\<lambda>d. d\<lparr>t_domain := t_domain d @ [model]\<rparr>))
     (seqM (catchM flush (\<lambda>e.
        if e = IntegrityError
        then throw (DomainAlreadyExistsError (''Domain already exists: '' @ dn_domain create))
        else throw e))
     (seqM (execute (\<lambda>_ d. d\<lparr>t_sender_acl := delete_where (\<lambda>r. sa_external r \<and>
        sql_like (sa_send_as r) (''%@'' @ do_domain model)) (t_sender_acl d)\<rparr>))
     (ret model))))"

definition create_domain ::
  "'k domain_manager \<Rightarrow> domain_create \<Rightarrow> (('k, 'm) world, py_exn, domain_row) sem" where
  "create_domain dm create =
     bindM (on_db (insert_domain create)) (\<lambda>model.
     bindM (on_store (s_hset (dm_store dm) ''DOMAIN_MAP'' (do_domain model) (PInt 1) None)) (\<lambda>_.
     seqM (on_store (create_domain_key dm create))
     (seqM (whenM (dn_restart_sogo create) (docker_post (dm_docker dm) ''/services/sogo/restart''))
     (ret model))))"

definition apply_domain_update :: "domain_update \<Rightarrow> domain_row \<Rightarrow> domain_row" where
  "apply_domain_update u model = model
     \<lparr>do_description := (case dp_description u of None \<Rightarrow> do_description model | Some v \<Rightarrow> Some v),
      do_aliases := given (dp_aliases u) (do_aliases model),
      do_mailboxes := given (dp_mailboxes u) (do_mailboxes model),
      do_defquota := given (dp_defquota u) (do_defquota model),
      do_maxquota := given (dp_maxquota u) (do_maxquota model),
      do_quota := given (dp_quota u) (do_quota model),
      do_relayhost := given (dp_relayhost u) (do_relayhost model),
      do_active := given (dp_active u) (do_active model),
      do_gal := given (dp_gal u) (do_gal model),
      do_backupmx := given (dp_backupmx u) (do_backupmx model),
      do_relay_all_recipients := given (dp_relay_all_recipients u) (do_relay_all_recipients model),
      do_relay_unknown_only := given (dp_relay_unknown_only u) (do_relay_unknown_only model)\<rparr>"

definition set_domain :: "string \<Rightarrow> domain_row \<Rightarrow> (session, py_exn, unit) sem" where
  "set_domain domain model =
     pending (\<lambda>d. d\<lparr>t_domain := update_where (\<lambda>r. do_domain r = domain) (\<lambda>_. model) (t_domain d)\<rparr>)"

text \<open>The limits of a domain against what it already holds.\<close>

definition check_domain_limits ::
  "int \<times> int \<times> int \<Rightarrow> int \<Rightarrow> domain_row \<Rightarrow> (session, py_exn, unit) sem" where
  "check_domain_limits mailbox_data alias_count model =
     (case mailbox_data of (count, biggest_mailbox, quota_all) \<Rightarrow>
      seqM (raise_when (do_maxquota model < biggest_mailbox)
        (DomainValidationError (''Mailbox quota must be greater or equal to '' @
           show_int biggest_mailbox)))
      (seqM (raise_when (do_quota model < quota_all)
        (DomainValidationError (''Domain quota must be greater or equal to '' @ show_int quota_all)))
      (seqM (raise_when (do_mailboxes model < count)
        (DomainValidationError (''Mailboxes must be greater or equal to '' @ show_int count)))
      (raise_when (do_aliases model < alias_count)
        (DomainValidationError (''Aliases must be greater or equal to '' @
           show_int alias_count))))))"

definition update_domain ::
  "'k domain_manager \<Rightarrow> string \<Rightarrow> domain_update \<Rightarrow> (session, py_exn, domain_row) sem" where
  "update_domain dm domain update =
     bindM (get_domain_details domain) (\<lambda>details.
     bindM (query (\<lambda>d. filter (\<lambda>r. do_domain r = domain) (t_domain d))) (\<lambda>rows.
     bindM (one rows) (\<lambda>model.
     let model = apply_domain_update update (model
           \<lparr>do_mailboxes := de_max_num_mboxes_for_domain details,
            do_defquota := de_def_quota_for_mbox details,
            do_maxquota := de_max_quota_for_mbox details,
            do_quota := de_max_quota_for_domain details\<rparr>) in
     seqM (set_domain domain model)
     (bindM (validate_domain_model model) (\<lambda>model.
     seqM (set_domain domain model)
     (bindM (query (get_mailbox_data (dm_bare_column dm) domain)) (\<lambda>mailbox_data.
     bindM (query (get_alias_data domain)) (\<lambda>alias_count.
     seqM (check_domain_limits mailbox_data alias_count model) (ret model)))))))))"

definition delete_domain_rows :: "string \<Rightarrow> db \<Rightarrow> db" where
  "delete_domain_rows domain d =
     (let at_domain = (\<lambda>s. sql_like s (''%@'' @ domain)) in
      d\<lparr>t_domain := delete_where (\<lambda>r. do_domain r = domain) (t_domain d),
        t_alias := delete_where (\<lambda>r. al_domain r = domain) (t_alias d),
        t_alias_domain := delete_where (\<lambda>r. ad_target_domain r = domain) (t_alias_domain d),
        t_mailbox := delete_where (\<lambda>r. mb_domain r = domain) (t_mailbox d),
        t_sender_acl := delete_where (\<lambda>r. at_domain (sa_logged_in_as r)) (t_sender_acl d),
        t_quota2 := delete_where (\<lambda>r. at_domain (q2_username r)) (t_quota2 d),
        t_quota2replica := delete_where (\<lambda>r. at_domain (q2_username r)) (t_quota2replica d),
        t_spamalias := delete_where (\<lambda>r. at_domain (sp_address r)) (t_spamalias d),
        t_bcc_maps := delete_where (\<lambda>r. bc_local_dest r = domain) (t_bcc_maps d)\<rparr>)"

definition delete_domain ::
  "'k domain_manager \<Rightarrow> string \<Rightarrow> (('k, 'm) world, py_exn, unit) sem" where
  "delete_domain dm domain =
     seqM (on_db (bindM (query (\<lambda>d. exists_where (\<lambda>m. mb_domain m = domain) (t_mailbox d)))
       (\<lambda>found. raise_when found
         (DomainValidationError (''Cannot remove non-empty domain '' @ domain)))))
     (seqM (on_db (execute (\<lambda>_. delete_domain_rows domain)))
     (bindM (on_store (s_hdel (dm_store dm) ''DOMAIN_MAP'' [domain])) (\<lambda>_.
     bindM (on_store (s_hdel (dm_store dm) ''RL_VALUE'' [domain])) (\<lambda>_.
     on_store (delete_key (dm_store dm) domain)))))"

section \<open>What validation gives\<close>

definition domain_ok :: "domain_row \<Rightarrow> bool" where
  "domain_ok r \<longleftrightarrow>
     do_defquota r \<noteq> 0 \<and> do_maxquota r \<noteq> 0 \<and> do_defquota r \<le> do_maxquota r \<and>
     do_maxquota r \<le> do_quota r \<and>
     (do_relay_unknown_only r \<longrightarrow> do_relay_all_recipients r) \<and>
     (do_relay_all_recipients r \<longrightarrow> do_backupmx r)"

lemma validate_domain_model_returns:
  assumes "validate_domain_model m s = (Inr m', t)"
  shows "t = s \<and> domain_ok m' \<and> do_domain m' = do_domain m \<and> do_quota m' = do_quota m \<and>
    do_mailboxes m' = do_mailboxes m \<and> do_aliases m' = do_aliases m \<and>
    do_maxquota m' = do_maxquota m"
  using assms by (auto simp: validate_domain_model_def domain_ok_def Let_def split: if_splits)

lemma get_domain_details_state: "get_domain_details x s = (r, t) \<Longrightarrow> t = s"
  unfolding get_domain_details_def get_origin_domain_def
  by (auto simp: bindM_def catchM_def one_def one_or_def query_def split: list.splits if_splits)

lemma get_domain_details_returns:
  assumes "get_domain_details x (clean d) = (Inr de, t)"
  shows "\<exists>origin model. get_origin_domain x (clean d) = (Inr origin, clean d) \<and>
    filter (\<lambda>r. do_domain r = origin) (t_domain d) = [model] \<and> de = details_of_domain model d"
proof -
  have "\<And>r u. get_origin_domain x (clean d) = (r, u) \<Longrightarrow> u = clean d"
    unfolding get_origin_domain_def
    by (auto simp: bindM_def catchM_def one_def query_def split: list.splits if_splits)
  with assms show ?thesis by (auto simp: get_domain_details_def bindM_returns)
qed

lemma update_where_set_domain:
  "update_where (\<lambda>r. do_domain r = x) (\<lambda>_. m2)
     (update_where (\<lambda>r. do_domain r = x) (\<lambda>_. m1) rows) =
   (if do_domain m1 = x then update_where (\<lambda>r. do_domain r = x) (\<lambda>_. m2) rows
    else update_where (\<lambda>r. do_domain r = x) (\<lambda>_. m1) rows)"
  by (auto simp: update_where_def)

lemma update_domain_returns:
  assumes "update_domain dm x u (clean d) = (Inr m, t)"
  shows "domain_ok m \<and> do_domain m = x \<and> x \<in> do_domain ` set (t_domain d) \<and>
    int (length (mailboxes_in x d)) \<le> do_mailboxes m \<and>
    sum_list (map mb_quota (mailboxes_in x d)) \<le> do_quota m \<and>
    get_alias_data x d \<le> do_aliases m \<and>
    sql t = d \<and>
    orm t = d\<lparr>t_domain := update_where (\<lambda>r. do_domain r = x) (\<lambda>_. m) (t_domain d)\<rparr>"
proof -
  obtain de s1 model where det: "get_domain_details x (clean d) = (Inr de, s1)"
    and model: "filter (\<lambda>r. do_domain r = x) (t_domain d) = [model]"
    and rest: "(let model = apply_domain_update u (model
           \<lparr>do_mailboxes := de_max_num_mboxes_for_domain de,
            do_defquota := de_def_quota_for_mbox de,
            do_maxquota := de_max_quota_for_mbox de,
            do_quota := de_max_quota_for_domain de\<rparr>) in
     seqM (set_domain x model)
     (bindM (validate_domain_model model) (\<lambda>model.
     seqM (set_domain x model)
     (bindM (query (get_mailbox_data (dm_bare_column dm) x)) (\<lambda>mailbox_data.
     bindM (query (get_alias_data x)) (\<lambda>alias_count.
     seqM (check_domain_limits mailbox_data alias_count model) (ret model)))))))
      (clean d) = (Inr m, t)"
    using assms get_domain_details_state unfolding update_domain_def bindM_returns
    by (fastforce simp: query_def)
  define new where "new = apply_domain_update u (model
           \<lparr>do_mailboxes := de_max_num_mboxes_for_domain de,
            do_defquota := de_def_quota_for_mbox de,
            do_maxquota := de_max_quota_for_mbox de,
            do_quota := de_max_quota_for_domain de\<rparr>)"
  have x: "do_domain model = x" and mem: "model \<in> set (t_domain d)"
    using model by (auto simp: filter_eq_Cons_iff)
  have dn: "do_domain new = x" by (simp add: new_def apply_domain_update_def x)
  let ?s = "\<lambda>m. \<lparr>sql = d, orm = d\<lparr>t_domain := update_where (\<lambda>r. do_domain r = x) (\<lambda>_. m) (t_domain d)\<rparr>\<rparr>"
  have set1: "set_domain x new (clean d) = (Inr (), ?s new)"
    by (simp add: set_domain_def clean_def)
  obtain w where val: "validate_domain_model new (?s new) = (Inr m, w)"
    and check: "check_domain_limits (get_mailbox_data (dm_bare_column dm) x (sql w))
        (get_alias_data x (sql w)) m (snd (set_domain x m w)) = (Inr (), t)"
    using rest unfolding new_def [symmetric] Let_def
    by (auto simp: seqM_returns bindM_returns set1 set_domain_def)
  have w: "w = ?s new" and ok: "domain_ok m" "do_domain m = x"
    using validate_domain_model_returns [OF val] dn by auto
  have st: "snd (set_domain x m (?s new)) = ?s m"
    using dn by (simp add: set_domain_def update_where_set_domain)
  have "t = ?s m \<and> int (length (mailboxes_in x d)) \<le> do_mailboxes m \<and>
      sum_list (map mb_quota (mailboxes_in x d)) \<le> do_quota m \<and> get_alias_data x d \<le> do_aliases m"
    using check unfolding w st
    by (simp add: check_domain_limits_def get_mailbox_data_def Let_def split: if_splits)
  with ok mem x show ?thesis by (simp add: rev_image_eqI)
qed

section \<open>Properties\<close>

text \<open>
  C12. A transaction that updates a domain ends with a valid row for it (quotas ordered and not
  zero, the relay flags closed under implication) whose limits cover what the domain holds: the
  number of its mailboxes, the sum of their quotas and the number of its aliases. The other
  domains, the mailboxes and the aliases are those of before.
\<close>
theorem update_domain_covers_contents:
  assumes "db_transaction (update_domain dm x u) (clean d) = (Inr m, t)"
  shows "domain_ok m \<and> do_domain m = x \<and> m \<in> set (t_domain (sql t)) \<and>
    int (length (mailboxes_in x (sql t))) \<le> do_mailboxes m \<and>
    sum_list (map mb_quota (mailboxes_in x (sql t))) \<le> do_quota m \<and>
    get_alias_data x (sql t) \<le> do_aliases m \<and>
    filter (\<lambda>r. do_domain r \<noteq> x) (t_domain (sql t)) = filter (\<lambda>r. do_domain r \<noteq> x) (t_domain d)"
proof -
  obtain s where s: "update_domain dm x u (clean d) = (Inr m, s)" and t: "t = clean (orm s)"
    using assms unfolding db_transaction_returns by blast
  from update_domain_returns [OF s]
  have f: "domain_ok m" "do_domain m = x" "x \<in> do_domain ` set (t_domain d)"
    "int (length (mailboxes_in x d)) \<le> do_mailboxes m"
    "sum_list (map mb_quota (mailboxes_in x d)) \<le> do_quota m" "get_alias_data x d \<le> do_aliases m"
    "orm s = d\<lparr>t_domain := update_where (\<lambda>r. do_domain r = x) (\<lambda>_. m) (t_domain d)\<rparr>"
    by blast+
  have same: "mailboxes_in x (orm s) = mailboxes_in x d" "get_alias_data x (orm s) = get_alias_data x d"
    by (simp_all add: f(7) mailboxes_in_def get_alias_data_def not_a_mailbox_def)
  have "m \<in> set (t_domain (orm s))" using f(3) by (auto simp: f(7) set_update_where image_iff)
  moreover have "filter (\<lambda>r. do_domain r \<noteq> x) (update_where (\<lambda>r. do_domain r = x) (\<lambda>_. m) rows) =
      filter (\<lambda>r. do_domain r \<noteq> x) rows" for rows
    using f(2) by (induction rows) (auto simp: update_where_def)
  then have "filter (\<lambda>r. do_domain r \<noteq> x) (t_domain (orm s)) = filter (\<lambda>r. do_domain r \<noteq> x) (t_domain d)"
    by (simp add: f(7))
  ultimately show ?thesis using f(1-6) by (simp add: t same)
qed

definition plain_domain :: "string \<Rightarrow> domain_row" where
  "plain_domain x =
     \<lparr>do_domain = x, do_description = None, do_aliases = 4, do_mailboxes = 3, do_defquota = 1,
      do_maxquota = 6, do_quota = 9, do_relayhost = 0, do_backupmx = False, do_gal = True,
      do_relay_all_recipients = False, do_relay_unknown_only = False, do_active = True\<rparr>"

definition plain_mailbox :: "string \<Rightarrow> string \<Rightarrow> int \<Rightarrow> mailbox_row" where
  "plain_mailbox l x q =
     \<lparr>mb_username = l @ ''@'' @ x, mb_password = ''{BLF-CRYPT}h'', mb_name = Some l,
      mb_description = None, mb_quota = q, mb_local_part = l, mb_domain = x, mb_kind = [],
      mb_multiple_bookings = -1, mb_active = True\<rparr>"

definition domain_db :: db where
  "domain_db = empty_db
     \<lparr>t_domain := [plain_domain ''a.org''],
      t_mailbox := [plain_mailbox ''jo'' ''a.org'' 5, plain_mailbox ''al'' ''a.org'' 1]\<rparr>"

definition no_update :: domain_update where
  "no_update =
     \<lparr>dp_description = None, dp_aliases = None, dp_mailboxes = None, dp_defquota = None,
      dp_maxquota = None, dp_quota = None, dp_relayhost = None, dp_active = None, dp_gal = None,
      dp_backupmx = None, dp_relay_all_recipients = None, dp_relay_unknown_only = None\<rparr>"

definition toy_manager :: "memory_store domain_manager" where
  "toy_manager =
     \<lparr>dm_store = memory_ops 0, dm_rsa = toy_rsa, dm_docker = (\<lambda>_. None), dm_bare_column = last\<rparr>"

lemma update_domain_covers_contents_witness:
  "\<exists>m t. db_transaction (update_domain toy_manager ''a.org'' (no_update\<lparr>dp_quota := Some 7\<rparr>))
      (clean domain_db) = (Inr m, t) \<and>
     sum_list (map mb_quota (mailboxes_in ''a.org'' (sql t))) \<le> do_quota m \<and> do_quota m = 7"
  (is "\<exists>m t. ?run = _ \<and> _")
proof -
  have "fst ?run = Inr ((plain_domain ''a.org'')\<lparr>do_quota := 7\<rparr>)" by code_simp
  then have run: "?run = (Inr ((plain_domain ''a.org'')\<lparr>do_quota := 7\<rparr>), snd ?run)"
    by (simp add: prod_eq_iff)
  from update_domain_covers_contents [OF run] run show ?thesis by fastforce
qed

text \<open>What a domain leaves in the tables.\<close>

definition domain_traces :: "string \<Rightarrow> db \<Rightarrow> bool" where
  "domain_traces x d \<longleftrightarrow>
     list_ex (\<lambda>r. do_domain r = x) (t_domain d) \<or>
     list_ex (\<lambda>r. al_domain r = x) (t_alias d) \<or>
     list_ex (\<lambda>r. ad_target_domain r = x) (t_alias_domain d) \<or>
     list_ex (\<lambda>r. mb_domain r = x) (t_mailbox d) \<or>
     list_ex (\<lambda>r. ends_with (''@'' @ x) (sa_logged_in_as r)) (t_sender_acl d) \<or>
     list_ex (\<lambda>r. ends_with (''@'' @ x) (q2_username r)) (t_quota2 d) \<or>
     list_ex (\<lambda>r. ends_with (''@'' @ x) (q2_username r)) (t_quota2replica d) \<or>
     list_ex (\<lambda>r. ends_with (''@'' @ x) (sp_address r)) (t_spamalias d) \<or>
     list_ex (\<lambda>r. bc_local_dest r = x) (t_bcc_maps d)"

lemma ends_with_like: "ends_with (''@'' @ x) s \<Longrightarrow> sql_like s (''%@'' @ x)"
  using sql_like_suffix [of _ "''@'' @ x"] by (auto simp: ends_with_iff)

lemma delete_domain_rows_traces: "\<not> domain_traces x (delete_domain_rows x d)"
  using ends_with_like
  by (auto simp: domain_traces_def delete_domain_rows_def Let_def list_ex_iff)

lemma distinct_delete_where: "distinct (map f rs) \<Longrightarrow> distinct (map f (delete_where p rs))"
  by (simp add: delete_where_def distinct_map_filter)

lemma unique_keys_delete_domain: "unique_keys d \<Longrightarrow> unique_keys (delete_domain_rows x d)"
  by (simp add: unique_keys_def delete_domain_rows_def Let_def distinct_delete_where)

context hash_store
begin

lemma delete_domain_run:
  assumes "good (w_store w)" and "dm_store dm = ops"
    and "\<not> exists_where (\<lambda>m. mb_domain m = x) (t_mailbox (sql (w_db w)))"
  shows "\<exists>w'. delete_domain dm x w = (Inr (), w') \<and>
    w_db w' = \<lparr>sql = delete_domain_rows x (sql (w_db w)), orm = delete_domain_rows x (orm (w_db w))\<rparr> \<and>
    good (w_store w') \<and>
    view (w_store w') = removed_key
      (hrem (hrem (view (w_store w)) ''DOMAIN_MAP'' [x]) ''RL_VALUE'' [x]) x"
proof -
  obtain n t where t: "s_hdel ops ''DOMAIN_MAP'' [x] (w_store w) = (Inr n, t)" "good t"
    "view t = hrem (view (w_store w)) ''DOMAIN_MAP'' [x]"
    using hdel_run [OF assms(1)] by blast
  obtain m u where u: "s_hdel ops ''RL_VALUE'' [x] t = (Inr m, u)" "good u"
    "view u = hrem (view t) ''RL_VALUE'' [x]"
    using hdel_run [OF t(2)] by blast
  obtain v where v: "delete_key ops x u = (Inr (), v)" "good v" "view v = removed_key (view u) x"
    using delete_key_run [OF u(2)] by blast
  have "delete_domain dm x w = (Inr (), w
      \<lparr>w_db := \<lparr>sql = delete_domain_rows x (sql (w_db w)), orm = delete_domain_rows x (orm (w_db w))\<rparr>,
       w_store := v\<rparr>)"
    using assms(2,3) t(1) u(1) v(1)
    by (simp add: delete_domain_def seqM_def bindM_def world_runs)
  then show ?thesis using t(3) u(3) v(2,3) by simp
qed

end


definition toy_world :: "db \<Rightarrow> (memory_store, memory_store) world" where
  "toy_world d = \<lparr>w_db = clean d, w_store = [], w_memcached = [], w_requests = []\<rparr>"

text \<open>A domain with a key and a blind copy.\<close>

definition dropped_domain :: db where
  "dropped_domain = domain_db\<lparr>t_domain := [plain_domain ''b.org''],
     t_bcc_maps := [\<lparr>bc_id = 1, bc_local_dest = ''b.org'', bc_bcc_dest = ''jo@a.org'', bc_domain = ''b.org'',
       bc_type = Some ''rcpt'', bc_active = True\<rparr>]\<rparr>"

definition dropped_world :: "(memory_store, memory_store) world" where
  "dropped_world = (toy_world dropped_domain)\<lparr>w_store := snd (create_key (memory_ops 0) toy_rsa
     \<lparr>dc_domain = ''b.org'', dc_selector = ''mail'', dc_key_size = 2048\<rparr> [])\<rparr>"


text \<open>
  Lowering the largest quota a mailbox of the domain may have is accepted although a mailbox
  has more: the query takes the quota of any row for the biggest one, not the maximum. Here the
  database gives the last row's.
\<close>
lemma update_domain_misses_biggest_mailbox:
  "\<exists>m t. db_transaction (update_domain toy_manager ''a.org'' (no_update\<lparr>dp_maxquota := Some 2\<rparr>))
       (clean domain_db) = (Inr m, t) \<and>
     do_maxquota m = 2 \<and> list_ex (\<lambda>b. mb_quota b = 5) (mailboxes_in ''a.org'' (sql t))"
  (is "\<exists>m t. ?run = _ \<and> _")
proof -
  have "fst ?run = Inr ((plain_domain ''a.org'')\<lparr>do_maxquota := 2\<rparr>)" by code_simp
  then have run: "?run = (Inr ((plain_domain ''a.org'')\<lparr>do_maxquota := 2\<rparr>), snd ?run)"
    by (simp add: prod_eq_iff)
  moreover have "list_ex (\<lambda>b. mb_quota b = 5) (mailboxes_in ''a.org'' (sql (snd ?run)))" by code_simp
  ultimately show ?thesis by fastforce
qed

text \<open>What inserting a domain does to the database.\<close>

lemma insert_domain_returns:
  assumes "insert_domain c (clean d) = (Inr m, t)"
  shows "domain_ok m \<and> do_domain m = dn_domain c \<and> dn_domain c \<notin> do_domain ` set (t_domain d) \<and>
    (\<exists>d'. t = clean d' \<and> unique_keys d' \<and> t_domain d' = t_domain d @ [m])"
proof -
  let ?d = "d\<lparr>t_domain := t_domain d @ [m]\<rparr>"
  let ?e = "\<lambda>e. e\<lparr>t_sender_acl := delete_where (\<lambda>r. sa_external r \<and>
        sql_like (sa_send_as r) (''%@'' @ do_domain m)) (t_sender_acl e)\<rparr>"
  obtain s where v: "validate_domain_model (new_domain c) (clean d) = (Inr m, s)"
    and rest: "seqM (pending (\<lambda>d. d\<lparr>t_domain := t_domain d @ [m]\<rparr>))
     (seqM (catchM flush (\<lambda>e.
        if e = IntegrityError
        then throw (DomainAlreadyExistsError (''Domain already exists: '' @ dn_domain c))
        else throw e))
     (seqM (execute (\<lambda>_ d. ?e d)) (ret m))) s = (Inr m, t)"
    using assms unfolding insert_domain_def by (auto simp: bindM_returns seqM_returns)
  have m: "s = clean d" "domain_ok m" "do_domain m = dn_domain c"
    using validate_domain_model_returns [OF v] by (auto simp: new_domain_def)
  have uk: "unique_keys ?d" and t: "t = clean (?e ?d)"
    using rest unfolding m(1)
    by (auto simp: seqM_returns catchM_def flush_def clean_def split: if_splits)
  have "dn_domain c \<notin> do_domain ` set (t_domain d)"
    using uk by (simp add: unique_keys_def m(3) [symmetric])
  moreover have "unique_keys (?e ?d)" using uk by (simp add: unique_keys_def)
  ultimately show ?thesis using m t by auto
qed

context hash_store
begin

lemma create_domain_key_run:
  assumes "good s" and "dm_store dm = ops" and "dn_dkim_selector c \<noteq> []"
    and "list_all selector_char (dn_dkim_selector c)"
    and "generate_keypair (dm_rsa dm) (dn_key_size c) = Inr (privkey, pubkey)"
  shows "\<exists>t. create_domain_key dm c s = (Inr (), t) \<and> good t \<and>
    view t ''DOMAIN_MAP'' = view s ''DOMAIN_MAP''"
proof -
  let ?c = "\<lparr>dc_domain = dn_domain c, dc_selector = dn_dkim_selector c, dc_key_size = dn_key_size c\<rparr>"
  have put: "put_key v x p q r ''DOMAIN_MAP'' = v ''DOMAIN_MAP''" for v x p q r
    by (simp add: put_key_def fun_eq_iff)
  show ?thesis
  proof (cases "truthy (view s ''DKIM_PUB_KEYS'' (dn_domain c))")
    case True
    obtain t where t: "s_hget ops ''DKIM_PUB_KEYS'' (dn_domain c) s =
      (Inr (view s ''DKIM_PUB_KEYS'' (dn_domain c)), t)" "good t" "view t = view s"
      using hget_run [OF assms(1)] by blast
    then have "create_key ops (dm_rsa dm) ?c s =
        (Inl (DKIMAlreadyExistsError (''DKIM domain already exists: '' @ dn_domain c)), t)"
      using True by (simp add: create_key_def bindM_def seqM_def)
    with t assms show ?thesis
      by (simp add: create_domain_key_def seqM_def bindM_def catchM_def)
  next
    case False
    obtain k t where t: "create_key ops (dm_rsa dm) ?c s = (Inr k, t)" "good t"
      "view t = put_key (view s) (dn_domain c) k (dn_dkim_selector c) privkey"
      using create_key_run [OF assms(1), of "dm_rsa dm" ?c privkey pubkey] assms(5) False by auto
    with assms put show ?thesis
      by (simp add: create_domain_key_def seqM_def bindM_def catchM_def)
  qed
qed

lemma create_domain_run:
  assumes "good (w_store w)" and "dm_store dm = ops" and "dn_dkim_selector c \<noteq> []"
    and "list_all selector_char (dn_dkim_selector c)"
    and "generate_keypair (dm_rsa dm) (dn_key_size c) = Inr (privkey, pubkey)"
    and "insert_domain c (w_db w) = (Inr m, s)" and "dn_restart_sogo c" and "do_domain m = dn_domain c"
  shows "\<exists>w'. create_domain dm c w =
      (case dm_docker dm ''/services/sogo/restart'' of None \<Rightarrow> Inr m | Some e \<Rightarrow> Inl e, w') \<and>
    w_db w' = s \<and> view (w_store w') ''DOMAIN_MAP'' (dn_domain c) = Some (py_str (PInt 1)) \<and>
    w_requests w' = w_requests w @ [''/services/sogo/restart'']"
proof -
  obtain n t where t: "s_hset ops ''DOMAIN_MAP'' (do_domain m) (PInt 1) None (w_store w) = (Inr n, t)"
    "good t" "view t = hput (view (w_store w)) ''DOMAIN_MAP'' (do_domain m) (py_str (PInt 1))"
    using hset_int_run [OF assms(1)] by fastforce
  obtain u where u: "create_domain_key dm c t = (Inr (), u)" "view u ''DOMAIN_MAP'' = view t ''DOMAIN_MAP''"
    using create_domain_key_run [OF t(2) assms(2-5)] by blast
  have "view u ''DOMAIN_MAP'' (dn_domain c) = Some (py_str (PInt 1))"
    unfolding u(2) t(3) using assms(8) by simp
  then show ?thesis
    using assms(2,6,7) t(1) u(1)
    by (auto simp: create_domain_def seqM_def bindM_def world_runs docker_post_def Let_def
        split: option.splits)
qed

end

text \<open>
  Creating a domain commits a valid row for a name that had none, and marks the domain in the
  store. When the restart of SOGo that comes last fails, the exception leaves the database as it
  was, but the mark stays in the store: the transaction covers the database only.
\<close>
theorem create_domain_marks_store:
  fixes w :: "('k, 'm) world"
  assumes "hash_store ops view good" and "w_db w = clean d" and "good (w_store w)" and "dm_store dm = ops"
    and "dn_dkim_selector c \<noteq> []" and "list_all selector_char (dn_dkim_selector c)"
    and "generate_keypair (dm_rsa dm) (dn_key_size c) = Inr (privkey, pubkey)"
    and "dn_restart_sogo c" and "insert_domain c (clean d) = (Inr m, s)"
  shows "\<exists>w'. view (w_store w') ''DOMAIN_MAP'' (dn_domain c) = Some ''1'' \<and>
    w_requests w' = w_requests w @ [''/services/sogo/restart''] \<and>
    (case dm_docker dm ''/services/sogo/restart'' of
       None \<Rightarrow> transaction (create_domain dm c) w = (Inr m, w') \<and> domain_ok m \<and>
         dn_domain c \<notin> do_domain ` set (t_domain d) \<and>
         t_domain (sql (w_db w')) = t_domain d @ [m]
     | Some e \<Rightarrow> transaction (create_domain dm c) w = (Inl e, w') \<and> w_db w' = clean d)"
proof -
  have dom: "do_domain m = dn_domain c" using insert_domain_returns [OF assms(9)] by simp
  have ins: "insert_domain c (w_db w) = (Inr m, s)" using assms(2,9) by simp
  obtain w' :: "('k, 'm) world" where w': "create_domain dm c w =
      (case dm_docker dm ''/services/sogo/restart'' of None \<Rightarrow> Inr m | Some e \<Rightarrow> Inl e, w')"
    "w_db w' = s" "view (w_store w') ''DOMAIN_MAP'' (dn_domain c) = Some (py_str (PInt 1))"
    "w_requests w' = w_requests w @ [''/services/sogo/restart'']"
    using hash_store.create_domain_run [OF assms(1), OF assms(3-7) ins assms(8) dom] by blast
  have one: "show_int 1 = ''1''" by code_simp
  obtain d' where d': "s = clean d'" "unique_keys d'" "t_domain d' = t_domain d @ [m]"
    using insert_domain_returns [OF assms(9)] by blast
  show ?thesis
  proof (cases "dm_docker dm ''/services/sogo/restart''")
    case None
    then have "transaction (create_domain dm c) w = (Inr m, w'\<lparr>w_db := clean d'\<rparr>)"
      unfolding transaction_returns using w' d' by auto
    then show ?thesis
      using None w'(3,4) d'(3) insert_domain_returns [OF assms(9)]
      by (intro exI [of _ "w'\<lparr>w_db := clean d'\<rparr>"]) (simp add: one)
  next
    case (Some e)
    then have "transaction (create_domain dm c) w = (Inl e, w'\<lparr>w_db := w_db w\<rparr>)"
      using w'(1) by (simp add: transaction_def bindM_def)
    then show ?thesis
      using Some w'(3,4) assms(2) by (intro exI [of _ "w'\<lparr>w_db := w_db w\<rparr>"]) (simp add: one)
  qed
qed

definition toy_domain_create :: domain_create where
  "toy_domain_create =
     \<lparr>dn_domain = ''b.org'', dn_description = [], dn_aliases = 4, dn_mailboxes = 3, dn_defquota = 1,
      dn_maxquota = 6, dn_quota = 9, dn_active = True, dn_gal = True, dn_backupmx = False,
      dn_relay_all_recipients = False, dn_relay_unknown_only = True, dn_dkim_selector = ''dkim'',
      dn_key_size = 2048, dn_restart_sogo = True\<rparr>"

lemma create_domain_marks_store_witness:
  "\<exists>w'. transaction (create_domain (toy_manager\<lparr>dm_docker := (\<lambda>_. Some (HTTPError ''500''))\<rparr>)
       toy_domain_create) (toy_world domain_db) = (Inl (HTTPError ''500''), w') \<and>
     w_db w' = clean domain_db \<and> memory_view (w_store w') ''DOMAIN_MAP'' ''b.org'' = Some ''1''"
proof -
  let ?m = "(new_domain toy_domain_create)\<lparr>do_backupmx := True, do_relay_all_recipients := True\<rparr>"
  have "fst (insert_domain toy_domain_create (clean domain_db)) = Inr ?m" by code_simp
  then have ins: "insert_domain toy_domain_create (clean domain_db) =
      (Inr ?m, snd (insert_domain toy_domain_create (clean domain_db)))"
    by (simp add: prod_eq_iff)
  have "list_all selector_char (dn_dkim_selector toy_domain_create)" by code_simp
  then show ?thesis
    using create_domain_marks_store [OF memory.hash_store_axioms, of "toy_world domain_db" domain_db 0
        "toy_manager\<lparr>dm_docker := (\<lambda>_. Some (HTTPError ''500''))\<rparr>" toy_domain_create,
        OF _ _ _ _ _ _ _ ins]
    by (auto simp: toy_world_def toy_manager_def toy_rsa_def memory_good_def toy_domain_create_def)
qed

end
