(* ===== verification/Alias.thy ===== *)
theory Alias
  imports Domain
begin

text \<open>
  src/backend/taramail/alias.py: the aliases of a domain. \<open>AliasGoto\<close> is the class the create and
  update schemas extend; its goto text is one the validator \<open>validate_goto\<close> of Email returned.
\<close>

record alias_goto =
  ag_goto :: "string option"
  ag_goto_null :: "bool option"
  ag_goto_spam :: "bool option"
  ag_goto_ham :: "bool option"

record alias_create = alias_goto +
  ac_address :: string
  ac_internal :: bool
  ac_active :: bool
  ac_sogo_visible :: bool
  ac_private_comment :: string
  ac_public_comment :: string

record alias_update = alias_goto +
  au_internal :: "bool option"
  au_active :: "bool option"
  au_sogo_visible :: "bool option"
  au_private_comment :: "string option"
  au_public_comment :: "string option"

record alias_details =
  ai_address :: string
  ai_goto :: string
  ai_domain :: string
  ai_internal :: bool
  ai_active :: bool
  ai_sogo_visible :: bool
  ai_private_comment :: string
  ai_public_comment :: string
  ai_in_primary_domain :: "string option"

text \<open>How many of the four ways to give a goto are set; the schemas demand one, at most one.\<close>

definition gotos_given :: "'a alias_goto_scheme \<Rightarrow> nat" where
  "gotos_given g =
     (if truthy (ag_goto g) then 1 else 0) + (if ag_goto_null g = Some True then 1 else 0) +
     (if ag_goto_spam g = Some True then 1 else 0) + (if ag_goto_ham g = Some True then 1 else 0)"

definition check_goto_create :: "alias_create \<Rightarrow> bool" where
  "check_goto_create c \<longleftrightarrow> gotos_given c = 1"

definition check_goto_update :: "alias_update \<Rightarrow> bool" where
  "check_goto_update u \<longleftrightarrow> gotos_given u \<le> 1"

section \<open>Reading\<close>

definition alias_not_found :: "string \<Rightarrow> py_exn" where
  "alias_not_found address = AliasNotFoundError (''Alias for '' @ address @ '' not found'')"

definition get_alias :: "string \<Rightarrow> (session, py_exn, alias_row) sem" where
  "get_alias address =
     bindM (query (\<lambda>d. filter (\<lambda>a. al_address a = address) (t_alias d)))
       (one_or (alias_not_found address))"

definition get_alias_details :: "string \<Rightarrow> (session, py_exn, alias_details) sem" where
  "get_alias_details address =
     bindM (get_alias address) (\<lambda>a.
     bindM (catchM
       (bindM (query (\<lambda>d. map ad_target_domain
           (filter (\<lambda>r. ad_alias_domain r = al_domain a) (t_alias_domain d))))
          (\<lambda>rows. bindM (one rows) (\<lambda>r. ret (Some r))))
       (\<lambda>e. if e = NoResultFound then ret None else throw e)) (\<lambda>in_primary_domain.
     ret \<lparr>ai_address = al_address a, ai_goto = al_goto a, ai_domain = al_domain a,
          ai_internal = al_internal a, ai_active = al_active a,
          ai_sogo_visible = al_sogo_visible a, ai_private_comment = al_private_comment a,
          ai_public_comment = al_public_comment a, ai_in_primary_domain = in_primary_domain\<rparr>))"

definition get_aliases :: "string \<Rightarrow> (session, py_exn, alias_row list) sem" where
  "get_aliases domain =
     query (\<lambda>d. filter (\<lambda>a. al_domain a = domain \<and> al_address a \<noteq> al_goto a) (t_alias d))"

section \<open>Validation\<close>

text \<open>The mailboxes an address of an alias domain stands for.\<close>

definition expanded_mailboxes :: "string \<Rightarrow> string \<Rightarrow> db \<Rightarrow> string list" where
  "expanded_mailboxes local_part domain d =
     map mb_username (filter (\<lambda>m. list_ex (\<lambda>r. ad_alias_domain r = domain \<and>
       mb_username m = local_part @ ''@'' @ ad_target_domain r) (t_alias_domain d)) (t_mailbox d))"

definition validate_address :: "string \<Rightarrow> (session, py_exn, string) sem" where
  "validate_address address =
     bindM (unpack2 (split_on CHR ''@'' address)) (\<lambda>(local_part, domain).
     bindM (query (\<lambda>d. exists_where (\<lambda>a. al_address a = address \<or>
        al_address a \<in> set (expanded_mailboxes local_part domain d)) (t_alias d))) (\<lambda>known.
     seqM (raise_when known (AliasAlreadyExistsError (address @
        '' is already known as an alias, a mailbox or an alias address expanded from an alias domain'')))
     (bindM (query (\<lambda>d. exists_where (\<lambda>a. sp_address a = address) (t_spamalias d))) (\<lambda>known.
     seqM (raise_when known (AliasAlreadyExistsError (address @
        '' is already known as a temporary alias address (spam alias address)'')))
     (ret address)))))"

definition resource_kinds :: "string list" where
  "resource_kinds = [''location'', ''thing'', ''group'']"

definition check_goto_username :: "string \<Rightarrow> (session, py_exn, unit) sem" where
  "check_goto_username username =
     bindM (query (\<lambda>d. exists_where (\<lambda>m. mb_kind m \<in> set resource_kinds \<and> mb_username m = username)
       (t_mailbox d))) (\<lambda>found.
     raise_when found (AliasNotFoundError (''Goto username is invalid: '' @ username)))"

definition validate_alias_goto ::
  "string \<Rightarrow> 'a alias_goto_scheme \<Rightarrow> (session, py_exn, string option) sem" where
  "validate_alias_goto address g =
     (if ag_goto_null g = Some True then ret (Some ''null@localhost'')
      else if ag_goto_spam g = Some True then ret (Some ''spam@localhost'')
      else if ag_goto_ham g = Some True then ret (Some ''ham@localhost'')
      else if truthy (ag_goto g) then
        (let gotos = split_on CHR '','' (or_else (ag_goto g) []) in
         seqM (raise_when (address \<in> set gotos)
           (AliasValidationError ''Cannot alias an address to itself''))
         (seqM (forM gotos check_goto_username) (ret (Some (join '','' gotos)))))
      else ret None)"

section \<open>Operations\<close>

text \<open>
  A goto of \<open>None\<close>, which the schema excludes, would violate the constraint of the column. The
  key is the one the table gives a new row.
\<close>

definition create_alias :: "alias_create \<Rightarrow> (session, py_exn, alias_row) sem" where
  "create_alias create =
     bindM (validate_address (ac_address create)) (\<lambda>address.
     bindM (validate_alias_goto address create) (\<lambda>goto.
     bindM (unpack2 (split_on CHR ''@'' (ac_address create))) (\<lambda>(_, domain).
     bindM (get_domain_details domain) (\<lambda>domain_details.
     seqM (raise_when (de_aliases_left domain_details = 0)
       (AliasValidationError ''Max aliases exceeded''))
     (case goto of
        None \<Rightarrow> throw IntegrityError
      | Some goto \<Rightarrow>
          bindM (gets (\<lambda>s. \<lparr>al_id = next_nat_id (map al_id (t_alias (orm s))), al_address = address,
            al_goto = goto, al_domain = domain, al_private_comment = ac_private_comment create,
            al_public_comment = ac_public_comment create, al_sogo_visible = ac_sogo_visible create,
            al_internal = ac_internal create, al_active = ac_active create\<rparr>)) (\<lambda>model.
          seqM (pending (\<lambda>d. d\<lparr>t_alias := t_alias d @ [model]\<rparr>)) (ret model)))))))"

definition set_alias :: "string \<Rightarrow> (alias_row \<Rightarrow> alias_row) \<Rightarrow> (session, py_exn, unit) sem" where
  "set_alias address f =
     pending (\<lambda>d. d\<lparr>t_alias := update_where (\<lambda>a. al_address a = address) f (t_alias d)\<rparr>)"

definition apply_alias_update :: "alias_update \<Rightarrow> alias_row \<Rightarrow> alias_row" where
  "apply_alias_update u a = a
     \<lparr>al_internal := given (au_internal u) (al_internal a),
      al_active := given (au_active u) (al_active a),
      al_sogo_visible := given (au_sogo_visible u) (al_sogo_visible a),
      al_private_comment := given (au_private_comment u) (al_private_comment a),
      al_public_comment := given (au_public_comment u) (al_public_comment a)\<rparr>"

definition update_alias :: "string \<Rightarrow> alias_update \<Rightarrow> (session, py_exn, alias_row) sem" where
  "update_alias address update =
     bindM (get_alias address) (\<lambda>model.
     let model = apply_alias_update update model in
     seqM (set_alias address (\<lambda>_. model))
     (bindM (validate_alias_goto address update) (\<lambda>goto.
      if \<not> truthy goto then ret model
      else let goto = or_else goto []; model = model\<lparr>al_goto := goto\<rparr> in
        seqM (set_alias address (\<lambda>_. model))
        (seqM (forM (split_on CHR '','' goto) (\<lambda>logged_in_as. execute (\<lambda>_ d. d\<lparr>t_sender_acl :=
            delete_where (\<lambda>r. sa_logged_in_as r = logged_in_as \<and> sa_send_as r = address)
              (t_sender_acl d)\<rparr>)))
        (ret model)))))"

definition delete_alias :: "string \<Rightarrow> (session, py_exn, unit) sem" where
  "delete_alias address =
     seqM (execute (\<lambda>_ d. d\<lparr>t_alias := delete_where (\<lambda>a. al_address a = address) (t_alias d)\<rparr>))
     (execute (\<lambda>_ d. d\<lparr>t_sender_acl :=
       delete_where (\<lambda>r. sa_send_as r = address) (t_sender_acl d)\<rparr>))"

section \<open>What validation gives\<close>

text \<open>
  An address of an alias domain stands for the mailbox of the same local part in the target domain;
  here, for one whose own address is that of an alias.
\<close>

definition stands_for_alias :: "string \<Rightarrow> string \<Rightarrow> db \<Rightarrow> bool" where
  "stands_for_alias l x d \<longleftrightarrow>
     (\<exists>r \<in> set (t_alias_domain d). \<exists>b \<in> set (t_mailbox d). \<exists>a \<in> set (t_alias d).
       ad_alias_domain r = x \<and> mb_username b = l @ ''@'' @ ad_target_domain r \<and> al_address a = mb_username b)"

text \<open>Where a new alias points: to one of the three special addresses, or where it was asked to.\<close>

definition goto_allowed :: "db \<Rightarrow> alias_create \<Rightarrow> string \<Rightarrow> bool" where
  "goto_allowed d c goto \<longleftrightarrow>
     ag_goto_null c = Some True \<and> goto = ''null@localhost'' \<or>
     ag_goto_spam c = Some True \<and> goto = ''spam@localhost'' \<or>
     ag_goto_ham c = Some True \<and> goto = ''ham@localhost'' \<or>
     ag_goto c = Some goto \<and> ac_address c \<notin> set (split_on CHR '','' goto) \<and>
     \<not> exists_where (\<lambda>m. mb_kind m \<in> set [''location'', ''thing'', ''group''] \<and>
       mb_username m \<in> set (split_on CHR '','' goto)) (t_mailbox d)"

lemma validate_address_returns:
  assumes "validate_address address s = (Inr a, t)"
  shows "a = address \<and> t = s \<and>
    (\<exists>l x. split_on CHR ''@'' address = [l, x] \<and> \<not> stands_for_alias l x (sql s)) \<and>
    \<not> exists_where (\<lambda>a. al_address a = address) (t_alias (sql s)) \<and>
    \<not> exists_where (\<lambda>a. sp_address a = address) (t_spamalias (sql s))"
proof -
  obtain l x where lx: "split_on CHR ''@'' address = [l, x]"
    using assms by (auto simp: validate_address_def bindM_returns unpack2_returns)
  have v: "a = address" "t = s" "\<forall>a \<in> set (t_alias (sql s)). al_address a \<noteq> address \<and>
      al_address a \<notin> set (expanded_mailboxes l x (sql s))"
    "\<not> exists_where (\<lambda>a. sp_address a = address) (t_spamalias (sql s))"
    using assms unfolding validate_address_def lx unpack2_pair bindM_ret by (auto split: if_splits)
  have "mb_username b \<in> set (expanded_mailboxes l x (sql s))"
    if "r \<in> set (t_alias_domain (sql s))" "b \<in> set (t_mailbox (sql s))" "ad_alias_domain r = x"
      "mb_username b = l @ ''@'' @ ad_target_domain r" for r b
    using that unfolding expanded_mailboxes_def set_map set_filter list_ex_iff by blast
  with v(3) have "\<not> stands_for_alias l x (sql s)" unfolding stands_for_alias_def by metis
  with v lx show ?thesis by simp
qed

lemma check_goto_username_checks:
  "forM gotos check_goto_username s = (Inr (), t) \<longleftrightarrow>
     t = s \<and> (\<forall>g \<in> set gotos. \<not> exists_where (\<lambda>m. mb_kind m \<in> set resource_kinds \<and> mb_username m = g)
       (t_mailbox (sql s)))"
  by (induction gotos) (auto simp: check_goto_username_def seqM_returns)

lemma validate_alias_goto_returns:
  fixes c :: alias_create
  assumes "validate_alias_goto (ac_address c) c s = (Inr (Some goto), t)"
  shows "t = s \<and> goto_allowed (sql s) c goto"
  using assms
  by (auto simp: validate_alias_goto_def goto_allowed_def Let_def seqM_returns check_goto_username_checks
      resource_kinds_def truthy_def or_else_def join_split_on split: if_splits option.splits)

lemma create_alias_returns:
  assumes "create_alias c (clean d) = (Inr m, t)"
  shows "al_address m = ac_address c \<and> t = \<lparr>sql = d, orm = d\<lparr>t_alias := t_alias d @ [m]\<rparr>\<rparr> \<and>
    \<not> exists_where (\<lambda>a. al_address a = ac_address c) (t_alias d) \<and>
    \<not> exists_where (\<lambda>a. sp_address a = ac_address c) (t_spamalias d) \<and>
    goto_allowed d c (al_goto m) \<and>
    (\<exists>l. ac_address c = l @ ''@'' @ al_domain m \<and> \<not> stands_for_alias l (al_domain m) d) \<and>
    m = \<lparr>al_id = al_id m, al_address = ac_address c, al_goto = al_goto m, al_domain = al_domain m,
      al_private_comment = ac_private_comment c, al_public_comment = ac_public_comment c,
      al_sogo_visible = ac_sogo_visible c, al_internal = ac_internal c, al_active = ac_active c\<rparr> \<and>
    (\<exists>de. get_domain_details (al_domain m) (clean d) = (Inr de, clean d) \<and> de_aliases_left de \<noteq> 0)"
proof -
  obtain a s1 where v: "validate_address (ac_address c) (clean d) = (Inr a, s1)"
    and r1: "bindM (validate_alias_goto a c) (\<lambda>goto.
     bindM (unpack2 (split_on CHR ''@'' (ac_address c))) (\<lambda>(_, domain).
     bindM (get_domain_details domain) (\<lambda>domain_details.
     seqM (raise_when (de_aliases_left domain_details = 0)
       (AliasValidationError ''Max aliases exceeded''))
     (case goto of
        None \<Rightarrow> throw IntegrityError
      | Some goto \<Rightarrow>
          bindM (gets (\<lambda>s. \<lparr>al_id = next_nat_id (map al_id (t_alias (orm s))), al_address = a,
            al_goto = goto, al_domain = domain, al_private_comment = ac_private_comment c,
            al_public_comment = ac_public_comment c, al_sogo_visible = ac_sogo_visible c,
            al_internal = ac_internal c, al_active = ac_active c\<rparr>)) (\<lambda>model.
          seqM (pending (\<lambda>d. d\<lparr>t_alias := t_alias d @ [model]\<rparr>)) (ret model)))))) s1 = (Inr m, t)"
    using assms unfolding create_alias_def bindM_returns [of "validate_address _"] by blast
  from validate_address_returns [OF v] obtain l x where a: "a = ac_address c" and s1: "s1 = clean d"
    and lx: "split_on CHR ''@'' (ac_address c) = [l, x]" "\<not> stands_for_alias l x d"
    and new: "\<not> exists_where (\<lambda>a. al_address a = ac_address c) (t_alias d)"
      "\<not> exists_where (\<lambda>a. sp_address a = ac_address c) (t_spamalias d)"
    by (auto simp del: exists_where_iff)
  obtain goto s2 where g: "validate_alias_goto a c s1 = (Inr goto, s2)"
    and r2: "bindM (get_domain_details x) (\<lambda>domain_details.
     seqM (raise_when (de_aliases_left domain_details = 0)
       (AliasValidationError ''Max aliases exceeded''))
     (case goto of
        None \<Rightarrow> throw IntegrityError
      | Some goto \<Rightarrow>
          bindM (gets (\<lambda>s. \<lparr>al_id = next_nat_id (map al_id (t_alias (orm s))), al_address = a,
            al_goto = goto, al_domain = x, al_private_comment = ac_private_comment c,
            al_public_comment = ac_public_comment c, al_sogo_visible = ac_sogo_visible c,
            al_internal = ac_internal c, al_active = ac_active c\<rparr>)) (\<lambda>model.
          seqM (pending (\<lambda>d. d\<lparr>t_alias := t_alias d @ [model]\<rparr>)) (ret model)))) s2 = (Inr m, t)"
    using r1 unfolding lx(1) bindM_returns [of "validate_alias_goto _ _"] by auto
  obtain de s3 where de: "get_domain_details x s2 = (Inr de, s3)" and left: "de_aliases_left de \<noteq> 0"
    and r3: "(case goto of
        None \<Rightarrow> throw IntegrityError
      | Some goto \<Rightarrow>
          bindM (gets (\<lambda>s. \<lparr>al_id = next_nat_id (map al_id (t_alias (orm s))), al_address = a,
            al_goto = goto, al_domain = x, al_private_comment = ac_private_comment c,
            al_public_comment = ac_public_comment c, al_sogo_visible = ac_sogo_visible c,
            al_internal = ac_internal c, al_active = ac_active c\<rparr>)) (\<lambda>model.
          seqM (pending (\<lambda>d. d\<lparr>t_alias := t_alias d @ [model]\<rparr>)) (ret model))) s3 = (Inr m, t)"
    using r2 unfolding bindM_returns [of "get_domain_details _"] by (auto split: if_splits)
  obtain gt where gt: "goto = Some gt" using r3 by (cases goto) auto
  have s: "s2 = clean d" "s3 = clean d"
    and ok: "goto_allowed d c gt"
    using validate_alias_goto_returns [OF g [unfolded gt a]] get_domain_details_state [OF de] s1 by auto
  have "m = \<lparr>al_id = next_nat_id (map al_id (t_alias d)), al_address = a,
      al_goto = gt, al_domain = x, al_private_comment = ac_private_comment c,
      al_public_comment = ac_public_comment c, al_sogo_visible = ac_sogo_visible c,
      al_internal = ac_internal c, al_active = ac_active c\<rparr>"
    and "t = \<lparr>sql = d, orm = d\<lparr>t_alias := t_alias d @ [m]\<rparr>\<rparr>"
    using r3 by (auto simp: gt s)
  moreover have "ac_address c = l @ ''@'' @ x" using join_split_on [of "CHR ''@''" "ac_address c"] lx(1) by simp
  ultimately show ?thesis using new ok de left lx s a by auto
qed

section \<open>Properties\<close>

text \<open>
  C31. When the transaction that creates an alias succeeds, the address was neither an alias nor a
  temporary alias, and was not the address, in an alias domain, of a mailbox whose own address is an
  alias; its domain was known, with a number of aliases left that is not zero (a negative one passes);
  and the alias points to one of the special addresses or where it was asked to, which is neither the
  address itself nor a resource. The alias is then found as it was asked for, and deleting it gives back
  the aliases of before.
\<close>
theorem create_alias_then_get:
  assumes "db_transaction (create_alias c) (clean d) = (Inr m, t)"
  shows "\<not> exists_where (\<lambda>a. al_address a = ac_address c) (t_alias d) \<and>
    \<not> exists_where (\<lambda>a. sp_address a = ac_address c) (t_spamalias d) \<and>
    (\<exists>l. ac_address c = l @ ''@'' @ al_domain m \<and> \<not> stands_for_alias l (al_domain m) d) \<and>
    (\<exists>de. get_domain_details (al_domain m) (clean d) = (Inr de, clean d) \<and> de_aliases_left de \<noteq> 0) \<and>
    goto_allowed d c (al_goto m) \<and>
    m = \<lparr>al_id = al_id m, al_address = ac_address c, al_goto = al_goto m, al_domain = al_domain m,
      al_private_comment = ac_private_comment c, al_public_comment = ac_public_comment c,
      al_sogo_visible = ac_sogo_visible c, al_internal = ac_internal c, al_active = ac_active c\<rparr> \<and>
    get_alias (ac_address c) t = (Inr m, t) \<and>
    (\<exists>t'. db_transaction (delete_alias (ac_address c)) t = (Inr (), t') \<and>
      fst (get_alias (ac_address c) t') = Inl (alias_not_found (ac_address c)) \<and>
      t_alias (sql t') = t_alias d)"
proof -
  obtain s where s: "create_alias c (clean d) = (Inr m, s)" and uk: "unique_keys (orm s)"
    and t: "t = clean (orm s)"
    using assms unfolding db_transaction_returns by blast
  note r = create_alias_returns [OF s]
  have o: "orm s = d\<lparr>t_alias := t_alias d @ [m]\<rparr>" and ma: "al_address m = ac_address c"
    and fresh: "\<forall>a \<in> set (t_alias d). al_address a \<noteq> ac_address c"
    using r by auto
  have get: "get_alias (ac_address c) t = (Inr m, t)"
    using fresh ma by (simp add: get_alias_def t o filter_empty_conv)
  let ?d' = "(orm s)\<lparr>t_alias := t_alias d, t_sender_acl :=
    delete_where (\<lambda>r. sa_send_as r = ac_address c) (t_sender_acl d)\<rparr>"
  have del: "delete_where (\<lambda>a. al_address a = ac_address c) (t_alias d @ [m]) = t_alias d"
    using fresh ma by (simp add: delete_where_def filter_id_conv)
  have "unique_keys ?d'"
    using uk unfolding o by (simp add: unique_keys_def)
  then have "db_transaction (delete_alias (ac_address c)) t = (Inr (), clean ?d')"
    unfolding db_transaction_returns delete_alias_def t by (simp add: o del clean_def)
  moreover have "fst (get_alias (ac_address c) (clean ?d')) = Inl (alias_not_found (ac_address c))"
    using fresh by (simp add: get_alias_def filter_False one_or_def)
  moreover have "t_alias (sql (clean ?d')) = t_alias d" by simp
  ultimately have "\<exists>t'. db_transaction (delete_alias (ac_address c)) t = (Inr (), t') \<and>
      fst (get_alias (ac_address c) t') = Inl (alias_not_found (ac_address c)) \<and>
      t_alias (sql t') = t_alias d" by blast
  with r get show ?thesis by (elim conjE) (intro conjI; assumption)
qed

definition plain_alias :: "nat \<Rightarrow> string \<Rightarrow> string \<Rightarrow> string \<Rightarrow> alias_row" where
  "plain_alias i l x g =
     \<lparr>al_id = i, al_address = l @ ''@'' @ x, al_goto = g, al_domain = x, al_private_comment = [],
      al_public_comment = [], al_sogo_visible = True, al_internal = False, al_active = True\<rparr>"

definition toy_alias_create :: "string \<Rightarrow> alias_create" where
  "toy_alias_create address =
     \<lparr>ag_goto = Some ''jo@a.org,al@a.org'', ag_goto_null = None, ag_goto_spam = None,
      ag_goto_ham = None, ac_address = address, ac_internal = False, ac_active = True,
      ac_sogo_visible = True, ac_private_comment = [], ac_public_comment = []\<rparr>"

lemma create_alias_then_get_witness:
  "\<exists>m t. db_transaction (create_alias (toy_alias_create ''info@a.org'')) (clean domain_db) = (Inr m, t) \<and>
     get_alias ''info@a.org'' t = (Inr m, t)"
  (is "\<exists>m t. ?run = _ \<and> _")
proof -
  have "fst ?run = Inr (plain_alias 1 ''info'' ''a.org'' ''jo@a.org,al@a.org'')" by code_simp
  then have run: "?run = (Inr (plain_alias 1 ''info'' ''a.org'' ''jo@a.org,al@a.org''), snd ?run)"
    by (simp add: prod_eq_iff)
  have "ac_address (toy_alias_create ''info@a.org'') = ''info@a.org''"
    by (simp add: toy_alias_create_def)
  with create_alias_then_get [OF run] run show ?thesis by metis
qed

definition overfull_db :: db where
  "overfull_db = domain_db
     \<lparr>t_domain := [(plain_domain ''a.org'')\<lparr>do_aliases := 1\<rparr>],
      t_alias_domain := [\<lparr>ad_alias_domain = ''b.org'', ad_target_domain = ''a.org'', ad_active = True\<rparr>],
      t_alias := [plain_alias 1 ''x'' ''b.org'' ''jo@a.org'', plain_alias 2 ''y'' ''b.org'' ''jo@a.org'']\<rparr>"

text \<open>
  The limit on aliases is compared with zero only. A domain that holds more aliases than its
  limit, counting those of its alias domains (which lowering the limit does not count), has a
  negative number left, and a further alias is accepted.
\<close>
lemma create_alias_beyond_limit:
  "map_sum id de_aliases_left (fst (get_domain_details ''a.org'' (clean overfull_db))) = Inr (-1) \<and>
   fst (db_transaction (create_alias (toy_alias_create ''info@a.org'')) (clean overfull_db)) =
     Inr (plain_alias 3 ''info'' ''a.org'' ''jo@a.org,al@a.org'')"
  by code_simp

end
