(* ===== verification/Sogo.thy ===== *)
theory Sogo
  imports World "HOL-Library.List_Lexorder" "HOL-Library.Char_ord"
begin

text \<open>
  src/backend/taramail/views.py and sogo.py: the views the mail services read, as functions of the
  database, and the table \<open>_sogo_static_view\<close> SOGo reads its users from. A grouped view is the
  value of its row for a user name, \<open>None\<close> when the group is empty.
\<close>

section \<open>Views\<close>

definition mail_alias_addresses :: "db \<Rightarrow> string \<Rightarrow> string list" where
  "mail_alias_addresses d username =
     sort (map al_address (filter (\<lambda>a. al_address a \<noteq> al_goto a \<and> al_active a \<and> al_sogo_visible a \<and>
       \<not> sql_like (al_address a) ''@%'' \<and> al_goto a = username) (t_alias d)))"

definition grouped_mail_aliases :: "db \<Rightarrow> string \<Rightarrow> string option" where
  "grouped_mail_aliases d username =
     (let addresses = mail_alias_addresses d username in
      if addresses = [] then None else Some (replace_char CHR '','' '' '' (join '','' addresses)))"

text \<open>
  \<open>group_concat(x, ' ')\<close>: the second argument is the separator in SQLite, but MySQL appends it to
  each value and separates the values by commas.
\<close>

definition group_concat_space :: "string \<Rightarrow> string list \<Rightarrow> string" where
  "group_concat_space dialect xs =
     (if dialect = ''mysql'' then join '','' (map (\<lambda>x. x @ '' '') xs) else join '' '' xs)"

definition grouped_domain_alias_address :: "string \<Rightarrow> db \<Rightarrow> string \<Rightarrow> string option" where
  "grouped_domain_alias_address dialect d username =
     (let rows = filter (\<lambda>m. mb_username m = username) (t_mailbox d) in
      if rows = [] then None
      else Some (group_concat_space dialect (concat (map (\<lambda>m. map
        (\<lambda>r. mb_local_part m @ ''@'' @ ad_alias_domain r)
        (filter (\<lambda>r. ad_target_domain r = mb_domain m) (t_alias_domain d))) rows))))"

definition grouped_sender_acl :: "db \<Rightarrow> string \<Rightarrow> string option" where
  "grouped_sender_acl d username =
     (let rows = filter (\<lambda>r. \<not> sql_like (sa_send_as r) ''@%'' \<and> sa_logged_in_as r = username)
           (t_sender_acl d) in
      if rows = [] then None else Some (join '','' (map sa_send_as rows)))"

definition grouped_sender_acl_external :: "db \<Rightarrow> string \<Rightarrow> string option" where
  "grouped_sender_acl_external d username =
     (let rows = filter (\<lambda>r. \<not> sql_like (sa_send_as r) ''@%'' \<and> sa_external r \<and>
           sa_logged_in_as r = username) (t_sender_acl d) in
      if rows = [] then None else Some (join '','' (map sa_send_as rows)))"

definition sieve_view ::
  "(string \<Rightarrow> string) \<Rightarrow> string \<Rightarrow> db \<Rightarrow> (string \<times> string \<times> string \<times> string) list" where
  "sieve_view md5 filter_type d =
     map (\<lambda>r. (md5 (sf_script_data r), sf_username r, sf_script_name r, sf_script_data r))
       (filter (\<lambda>r. sf_filter_type r = filter_type) (t_sieve_filters d))"

definition sieve_before :: "(string \<Rightarrow> string) \<Rightarrow> db \<Rightarrow> (string \<times> string \<times> string \<times> string) list" where
  "sieve_before md5 d = sieve_view md5 ''prefilter'' d"

definition sieve_after :: "(string \<Rightarrow> string) \<Rightarrow> db \<Rightarrow> (string \<times> string \<times> string \<times> string) list" where
  "sieve_after md5 d = sieve_view md5 ''postfilter'' d"

section \<open>The static view\<close>

record 'm sogo =
  so_dialect :: string
  so_default_password :: string
  so_memcached :: "'m store_ops"

text \<open>\<open>IFNULL(x, '')\<close>.\<close>

definition if_null :: "string option \<Rightarrow> string" where
  "if_null x = (case x of None \<Rightarrow> [] | Some s \<Rightarrow> s)"

definition static_password :: "string \<Rightarrow> db \<Rightarrow> mailbox_row \<Rightarrow> string" where
  "static_password default_password d m =
     (case first_where (\<lambda>a. at_username a = mb_username m) (t_user_attributes d) of
        None \<Rightarrow> default_password
      | Some a \<Rightarrow>
          if \<not> at_force_pw_update a
          then (if at_sogo_access a then mb_password m else default_password)
          else default_password)"

definition static_row :: "string \<Rightarrow> string \<Rightarrow> db \<Rightarrow> mailbox_row \<Rightarrow> sogo_static_view_row" where
  "static_row dialect default_password d m =
     \<lparr>sv_c_uid = mb_username m, sv_domain = mb_domain m, sv_c_name = mb_username m,
      sv_c_password = static_password default_password d m, sv_c_cn = mb_name m,
      sv_mail = mb_username m, sv_aliases = if_null (grouped_mail_aliases d (mb_username m)),
      sv_ad_aliases = if_null (grouped_domain_alias_address dialect d (mb_username m)),
      sv_ext_acl = if_null (grouped_sender_acl_external d (mb_username m)),
      sv_kind = mb_kind m, sv_multiple_bookings = mb_multiple_bookings m\<rparr>"

text \<open>
  The rows the statement selects. For a mailbox the query has aggregates and no \<open>GROUP BY\<close>, so
  it has one row even when no active mailbox matches: a row of nulls (\<open>None\<close>).
\<close>

definition static_rows ::
  "string \<Rightarrow> string \<Rightarrow> string \<Rightarrow> db \<Rightarrow> sogo_static_view_row option list" where
  "static_rows dialect default_password mailbox d =
     (let active = filter mb_active (t_mailbox d) in
      if exists_where (\<lambda>m. mb_username m = mailbox) (t_mailbox d)
      then (case filter (\<lambda>m. mb_username m = mailbox) active of
              [] \<Rightarrow> [None] | m # _ \<Rightarrow> [Some (static_row dialect default_password d m)])
      else map (\<lambda>m. Some (static_row dialect default_password d m)) active)"

definition upsert_static ::
  "sogo_static_view_row \<Rightarrow> sogo_static_view_row list \<Rightarrow> sogo_static_view_row list" where
  "upsert_static row rows = delete_where (\<lambda>r. sv_c_uid r = sv_c_uid row) rows @ [row]"

text \<open>A null key violates the constraint of the column.\<close>

definition upsert_rows ::
  "sogo_static_view_row option list \<Rightarrow> (session, py_exn, unit) sem" where
  "upsert_rows rows =
     (if None \<in> set rows then throw IntegrityError
      else execute (\<lambda>_ d. d\<lparr>t_static_view := fold upsert_static (map the rows) (t_static_view d)\<rparr>))"

definition update_static_view ::
  "'m sogo \<Rightarrow> string \<Rightarrow> (('k, 'm) world, py_exn, unit) sem" where
  "update_static_view sogo mailbox =
     bindM (on_db (query (static_rows (so_dialect sogo) (so_default_password sogo) mailbox))) (\<lambda>rows.
     seqM (raise_when (so_dialect sogo \<noteq> ''sqlite'' \<and> so_dialect sogo \<noteq> ''mysql'')
       (DBUnsupportedDialectError (''Unsupported dialect: '' @ so_dialect sogo)))
     (seqM (on_db (upsert_rows rows))
     (seqM (on_db (execute (\<lambda>d0 d. d\<lparr>t_static_view := delete_where
        (\<lambda>r. sv_c_uid r \<notin> set (map mb_username (filter mb_active (t_mailbox d0))))
        (t_static_view d)\<rparr>)))
     (on_memcached (s_flushall (so_memcached sogo))))))"

definition delete_user_rows :: "string \<Rightarrow> sogo_tables \<Rightarrow> sogo_tables" where
  "delete_user_rows username t =
     (let folder_ids = map fi_c_folder_id
            (filter (\<lambda>f. fi_c_path2 f = Some username) (sg_folder_info t))
      in t\<lparr>sg_user_profile := delete_where (\<lambda>u. u = username) (sg_user_profile t),
           sg_cache_folder := delete_where (\<lambda>u. u = username) (sg_cache_folder t),
           sg_acl := delete_where (\<lambda>u. u = username) (sg_acl t),
           sg_store := delete_where (\<lambda>i. i \<in> set folder_ids) (sg_store t),
           sg_quick_contact :=
             delete_where (\<lambda>q. qc_c_folder_id q \<in> set folder_ids) (sg_quick_contact t),
           sg_quick_appointment := delete_where (\<lambda>i. i \<in> set folder_ids) (sg_quick_appointment t),
           sg_folder_info := delete_where (\<lambda>f. fi_c_path2 f = Some username) (sg_folder_info t)\<rparr>)"

definition delete_user :: "string \<Rightarrow> (session, py_exn, unit) sem" where
  "delete_user username = execute (\<lambda>_ d. d\<lparr>t_sogo := delete_user_rows username (t_sogo d)\<rparr>)"

section \<open>What updating the static view does\<close>

lemma static_row_uid [simp]: "sv_c_uid (static_row dl p d m) = mb_username m"
  by (simp add: static_row_def)

lemma set_fold_upsert:
  "distinct (map sv_c_uid rows) \<Longrightarrow>
     set (fold upsert_static rows old) =
       set rows \<union> {r \<in> set old. sv_c_uid r \<notin> sv_c_uid ` set rows}"
  by (induction rows arbitrary: old) (auto simp: upsert_static_def)

text \<open>The table once the rows are written and those of inactive mailboxes dropped.\<close>

definition refreshed ::
  "sogo_static_view_row list \<Rightarrow> db \<Rightarrow> sogo_static_view_row list \<Rightarrow> sogo_static_view_row list" where
  "refreshed rows d old =
     delete_where (\<lambda>r. sv_c_uid r \<notin> set (map mb_username (filter mb_active (t_mailbox d))))
       (fold upsert_static rows old)"

lemma update_static_view_run:
  assumes "None \<notin> set (static_rows (so_dialect sogo) (so_default_password sogo) x (sql (w_db w)))"
    and "so_dialect sogo = ''sqlite'' \<or> so_dialect sogo = ''mysql''"
    and "s_flushall (so_memcached sogo) (w_memcached w) = (Inr (), mc)"
  shows "update_static_view sogo x w = (Inr (), w
    \<lparr>w_db := (let rows = map the (static_rows (so_dialect sogo) (so_default_password sogo) x (sql (w_db w)));
                 f = (\<lambda>d. d\<lparr>t_static_view := refreshed rows (sql (w_db w)) (t_static_view d)\<rparr>)
             in \<lparr>sql = f (sql (w_db w)), orm = f (orm (w_db w))\<rparr>), w_memcached := mc\<rparr>)"
  using assms
  by (auto simp: update_static_view_def bindM_def seqM_def world_runs upsert_rows_def Let_def
      refreshed_def)

lemma update_static_view_returns:
  assumes "update_static_view sogo x w = (Inr (), w')"
  shows "None \<notin> set (static_rows (so_dialect sogo) (so_default_password sogo) x (sql (w_db w))) \<and>
    w_db w' = (let rows = map the (static_rows (so_dialect sogo) (so_default_password sogo) x (sql (w_db w)));
                   f = (\<lambda>d. d\<lparr>t_static_view := refreshed rows (sql (w_db w)) (t_static_view d)\<rparr>)
               in \<lparr>sql = f (sql (w_db w)), orm = f (orm (w_db w))\<rparr>)"
  using assms
  by (auto simp: update_static_view_def sem_returns world_returns upsert_rows_def Let_def
      refreshed_def split: if_splits)

lemma static_rows_null:
  "None \<in> set (static_rows dl p x d) \<longleftrightarrow>
     exists_where (\<lambda>m. mb_username m = x) (t_mailbox d) \<and>
     \<not> exists_where (\<lambda>m. mb_username m = x \<and> mb_active m) (t_mailbox d)"
  by (cases "filter (\<lambda>m. mb_username m = x) (filter mb_active (t_mailbox d))")
     (auto simp: static_rows_def Let_def filter_empty_conv filter_eq_Cons_iff)

lemma refreshed_all:
  assumes "distinct (map mb_username (t_mailbox d))"
  shows "set (refreshed (map (static_row dl p d) (filter mb_active (t_mailbox d))) d old) =
    static_row dl p d ` {m \<in> set (t_mailbox d). mb_active m}"
proof -
  have "map sv_c_uid (map (static_row dl p d) (filter mb_active (t_mailbox d))) =
      map mb_username (filter mb_active (t_mailbox d))"
    by simp
  moreover have "distinct (map mb_username (filter mb_active (t_mailbox d)))"
    using assms by (rule distinct_map_filter)
  ultimately have "distinct (map sv_c_uid (map (static_row dl p d) (filter mb_active (t_mailbox d))))"
    by (simp only:)
  from set_fold_upsert [OF this] show ?thesis by (auto simp: refreshed_def image_image)
qed

text \<open>
  C28. When the name is not that of a mailbox, as after a deletion, updating the static view makes
  it the image of the active mailboxes: one row for each, with its aliases, alias domains and
  permissions as the views give them on the database at hand (SQLite or MySQL), and no other row,
  provided memcached can be flushed. For the name of a mailbox only its own row is written.
\<close>
theorem update_static_view_rebuilds:
  assumes "distinct (map mb_username (t_mailbox (sql (w_db w))))"
    and "\<not> exists_where (\<lambda>m. mb_username m = x) (t_mailbox (sql (w_db w)))"
    and "s_flushall (so_memcached sogo) (w_memcached w) = (Inr (), mc)"
    and "so_dialect sogo = ''sqlite'' \<or> so_dialect sogo = ''mysql''"
  shows "\<exists>w'. update_static_view sogo x w = (Inr (), w') \<and>
    set (t_static_view (sql (w_db w'))) = static_row (so_dialect sogo) (so_default_password sogo) (sql (w_db w)) `
      {m \<in> set (t_mailbox (sql (w_db w))). mb_active m}"
proof -
  let ?dl = "so_dialect sogo" and ?p = "so_default_password sogo" and ?d = "sql (w_db w)"
  have rows: "static_rows ?dl ?p x ?d = map (\<lambda>m. Some (static_row ?dl ?p ?d m)) (filter mb_active (t_mailbox ?d))"
    using assms(2) by (simp add: static_rows_def del: exists_where_iff)
  then have some: "None \<notin> set (static_rows ?dl ?p x ?d)" and
    the: "map the (static_rows ?dl ?p x ?d) = map (static_row ?dl ?p ?d) (filter mb_active (t_mailbox ?d))"
    by (auto simp: comp_def)
  show ?thesis
  proof (intro exI conjI)
    show "update_static_view sogo x w = (Inr (), w
      \<lparr>w_db := (let rows = map the (static_rows ?dl ?p x ?d);
                 f = (\<lambda>d. d\<lparr>t_static_view := refreshed rows ?d (t_static_view d)\<rparr>)
             in \<lparr>sql = f ?d, orm = f (orm (w_db w))\<rparr>), w_memcached := mc\<rparr>)"
      using some assms(4,3) by (rule update_static_view_run)
  qed (simp add: Let_def the refreshed_all [OF assms(1)])
qed

definition sogo_mailbox :: "string \<Rightarrow> bool \<Rightarrow> mailbox_row" where
  "sogo_mailbox l active =
     \<lparr>mb_username = l @ ''@a.org'', mb_password = ''{BLF-CRYPT}h'', mb_name = Some l,
      mb_description = None, mb_quota = 1, mb_local_part = l, mb_domain = ''a.org'', mb_kind = [],
      mb_multiple_bookings = -1, mb_active = active\<rparr>"

text \<open>On MySQL the addresses of the alias domains are not separated by spaces alone.\<close>

lemma ad_aliases_by_dialect:
  "group_concat_space ''sqlite'' [''jo@b.org'', ''jo@c.org''] = ''jo@b.org jo@c.org''"
  "group_concat_space ''mysql'' [''jo@b.org'', ''jo@c.org''] = ''jo@b.org ,jo@c.org ''"
  by code_simp+

definition toy_sogo :: "memory_store sogo" where
  "toy_sogo = \<lparr>so_dialect = ''sqlite'', so_default_password = ''x'', so_memcached = memory_ops 0\<rparr>"

definition sogo_world :: "(memory_store, memory_store) world" where
  "sogo_world =
     \<lparr>w_db = clean (empty_db\<lparr>t_mailbox := [sogo_mailbox ''jo'' True, sogo_mailbox ''al'' False]\<rparr>),
      w_store = [], w_memcached = [], w_requests = []\<rparr>"

lemma update_static_view_rebuilds_witness:
  "\<exists>w'. update_static_view toy_sogo ''bo@a.org'' sogo_world = (Inr (), w') \<and>
     sv_c_uid ` set (t_static_view (sql (w_db w'))) = {''jo@a.org''}"
proof -
  have "distinct (map mb_username (t_mailbox (sql (w_db sogo_world))))" by code_simp
  moreover have "\<not> exists_where (\<lambda>m. mb_username m = ''bo@a.org'') (t_mailbox (sql (w_db sogo_world)))"
    by code_simp
  moreover have "so_dialect toy_sogo = ''sqlite''"
    "s_flushall (so_memcached toy_sogo) (w_memcached sogo_world) = (Inr (), [])"
    by (simp_all add: toy_sogo_def memory_ops_def memory_flushall_def)
  ultimately obtain w' where "update_static_view toy_sogo ''bo@a.org'' sogo_world = (Inr (), w')"
    and "set (t_static_view (sql (w_db w'))) =
      static_row (so_dialect toy_sogo) (so_default_password toy_sogo) (sql (w_db sogo_world)) `
        {m \<in> set (t_mailbox (sql (w_db sogo_world))). mb_active m}"
    using update_static_view_rebuilds [of sogo_world "''bo@a.org''" toy_sogo "[]"] by blast
  moreover have "{m \<in> set (t_mailbox (sql (w_db sogo_world))). mb_active m} = {sogo_mailbox ''jo'' True}"
    by (auto simp: sogo_world_def sogo_mailbox_def)
  ultimately show ?thesis by (auto simp: sogo_mailbox_def)
qed

end
