(* ===== verification/Password.thy ===== *)
theory Password
  imports Store
begin

text \<open>
  src/backend/taramail/password.py: the password policy and its validation, the policy kept in
  the hash \<open>PASSWORD_POLICY\<close> of the store, and the hashed passwords with their scheme. The
  coercions of pydantic from text to int and bool, and bcrypt, are parameters.
\<close>

record password_policy =
  pp_length :: int
  pp_chars :: bool
  pp_special_chars :: bool
  pp_numbers :: bool
  pp_lowerupper :: bool

text \<open>The defaults of the class.\<close>

definition default_policy :: password_policy where
  "default_policy =
     \<lparr>pp_length = 8, pp_chars = True, pp_special_chars = True, pp_numbers = True,
      pp_lowerupper = True\<rparr>"

definition meets_policy :: "password_policy \<Rightarrow> string \<Rightarrow> bool" where
  "meets_policy policy password \<longleftrightarrow>
     \<not> list_ex id
       [pp_length policy \<noteq> 0 \<and> int (length password) < pp_length policy,
        pp_chars policy \<and> \<not> list_ex is_alpha password,
        pp_special_chars policy \<and> \<not> list_ex (\<lambda>c. \<not> is_alpha c \<and> \<not> is_digit c) password,
        pp_numbers policy \<and> \<not> list_ex is_digit password,
        pp_lowerupper policy \<and> (\<not> list_ex is_lower password \<or> \<not> list_ex is_upper password)]"

definition validate_passwords ::
  "password_policy \<Rightarrow> string \<Rightarrow> string \<Rightarrow> ('s, py_exn, unit) sem" where
  "validate_passwords policy password1 password2 =
     seqM (raise_when (password1 \<noteq> password2) (PasswordValidationError ''Passwords do not match''))
       (raise_when (\<not> meets_policy policy password1)
         (PasswordValidationError ''Passwords do not meet policy''))"

record policy_update =
  pu_length :: "int option"
  pu_chars :: "bool option"
  pu_special_chars :: "bool option"
  pu_numbers :: "bool option"
  pu_lowerupper :: "bool option"

section \<open>PasswordPolicyManager\<close>

record coercions =
  to_int :: "string \<Rightarrow> int option"
  to_bool :: "string \<Rightarrow> bool option"

text \<open>
  \<open>PasswordPolicy(**value)\<close>: a missing field takes the default of the class, other keys are
  ignored, and a value that cannot be coerced is a validation error (\<open>None\<close>).
\<close>

definition coerce :: "('a \<Rightarrow> 'b option) \<Rightarrow> 'b \<Rightarrow> 'a option \<Rightarrow> 'b option" where
  "coerce f d x = (case x of None \<Rightarrow> Some d | Some v \<Rightarrow> f v)"

definition policy_of :: "coercions \<Rightarrow> (string \<Rightarrow> string option) \<Rightarrow> password_policy option" where
  "policy_of co m =
     Option.bind (coerce (to_int co) 8 (m ''length'')) (\<lambda>l.
     Option.bind (coerce (to_bool co) True (m ''chars'')) (\<lambda>c.
     Option.bind (coerce (to_bool co) True (m ''special_chars'')) (\<lambda>s.
     Option.bind (coerce (to_bool co) True (m ''numbers'')) (\<lambda>n.
     Option.bind (coerce (to_bool co) True (m ''lowerupper'')) (\<lambda>u.
     Some \<lparr>pp_length = l, pp_chars = c, pp_special_chars = s, pp_numbers = n,
           pp_lowerupper = u\<rparr>)))))"

definition get_policy ::
  "'s store_ops \<Rightarrow> coercions \<Rightarrow> password_policy \<Rightarrow> ('s, py_exn, password_policy) sem" where
  "get_policy store co dflt =
     bindM (s_hgetall store ''PASSWORD_POLICY'') (\<lambda>value.
     if value \<noteq> [] then
       (case policy_of co (map_of value) of
          None \<Rightarrow> throw (PydanticValidationError ''PasswordPolicy'')
        | Some p \<Rightarrow> ret p)
     else ret dflt)"

text \<open>The fields of the policy in their order, with the values an update gives them.\<close>

definition update_fields :: "policy_update \<Rightarrow> (string \<times> pyval option) list" where
  "update_fields u =
     [(''length'', map_option PInt (pu_length u)), (''chars'', map_option PBool (pu_chars u)),
      (''special_chars'', map_option PBool (pu_special_chars u)),
      (''numbers'', map_option PBool (pu_numbers u)),
      (''lowerupper'', map_option PBool (pu_lowerupper u))]"

definition set_policy_field :: "'s store_ops \<Rightarrow> string \<times> pyval option \<Rightarrow> ('s, py_exn, unit) sem" where
  "set_policy_field store fv =
     (case snd fv of
        None \<Rightarrow> ret ()
      | Some value \<Rightarrow>
          bindM (s_hset store ''PASSWORD_POLICY'' (fst fv) value None) (\<lambda>_. ret ()))"

definition update_policy ::
  "'s store_ops \<Rightarrow> coercions \<Rightarrow> password_policy \<Rightarrow> policy_update
     \<Rightarrow> ('s, py_exn, password_policy) sem" where
  "update_policy store co dflt policy_update =
     seqM (forM (update_fields policy_update) (set_policy_field store))
       (get_policy store co dflt)"

definition reset_policy ::
  "'s store_ops \<Rightarrow> coercions \<Rightarrow> password_policy \<Rightarrow> ('s, py_exn, password_policy) sem" where
  "reset_policy store co dflt =
     bindM (s_delete store [''PASSWORD_POLICY'']) (\<lambda>_. get_policy store co dflt)"

section \<open>Hashed passwords\<close>

record bcrypt_api =
  checkpw :: "string \<Rightarrow> string \<Rightarrow> bool"
  hashpw :: "string \<Rightarrow> string \<Rightarrow> string"

text \<open>
  The pattern \<open>{(scheme, shortest)}(rest)\<close> at the start of the text; a dot matches no newline.
\<close>

definition match_scheme :: "string \<Rightarrow> (string \<times> string) option" where
  "match_scheme s =
     (case s of
        [] \<Rightarrow> None
      | c # t \<Rightarrow>
          if c = CHR ''{'' \<and> CHR ''}'' \<in> set t \<and> CHR 10 \<notin> set (before CHR ''}'' t)
          then Some (before CHR ''}'' t, takeWhile (\<lambda>c. c \<noteq> CHR 10) (after CHR ''}'' t))
          else None)"

definition verify_password :: "bcrypt_api \<Rightarrow> string \<Rightarrow> string \<Rightarrow> ('s, py_exn, bool) sem" where
  "verify_password bcrypt plain_password hashed_password =
     (case match_scheme hashed_password of
        None \<Rightarrow> throw (ValueError (''Missing scheme: '' @ hashed_password))
      | Some (scheme, hashed) \<Rightarrow>
          if scheme = ''BLF-CRYPT'' then ret (checkpw bcrypt plain_password hashed)
          else throw (ValueError (''Unsupported scheme: '' @ scheme)))"

text \<open>\<open>salt\<close> is what \<open>bcrypt.gensalt()\<close> returned.\<close>

definition hash_password ::
  "bcrypt_api \<Rightarrow> string \<Rightarrow> string \<Rightarrow> string \<Rightarrow> ('s, py_exn, string) sem" where
  "hash_password bcrypt salt plain_password scheme =
     (if scheme = ''BLF-CRYPT''
      then ret (''{'' @ scheme @ ''}'' @ hashpw bcrypt plain_password salt)
      else throw (ValueError (''Unsupported scheme: '' @ scheme)))"

section \<open>The stored policy\<close>

definition policy_in ::
  "coercions \<Rightarrow> password_policy \<Rightarrow> (string \<Rightarrow> string option) \<Rightarrow> password_policy option" where
  "policy_in co dflt m = (if m = Map.empty then Some dflt else policy_of co m)"

definition put_fields ::
  "(string \<times> pyval option) list \<Rightarrow> (string \<Rightarrow> string option) \<Rightarrow> string \<Rightarrow> string option" where
  "put_fields fvs m =
     foldl (\<lambda>m (f, v). case v of None \<Rightarrow> m | Some x \<Rightarrow> m(f \<mapsto> py_str x)) m fvs"

lemma put_fields_simps [simp]:
  "put_fields [] m = m"
  "put_fields ((f, None) # fvs) m = put_fields fvs m"
  "put_fields ((f, Some x) # fvs) m = put_fields fvs (m(f \<mapsto> py_str x))"
  by (simp_all add: put_fields_def)

context hash_store
begin

lemma get_policy_run:
  assumes "good s"
  shows "\<exists>t. get_policy ops co dflt s =
    (case policy_in co dflt (view s ''PASSWORD_POLICY'') of
       None \<Rightarrow> Inl (PydanticValidationError ''PasswordPolicy'') | Some p \<Rightarrow> Inr p, t) \<and>
    good t \<and> view t = view s"
proof -
  obtain d t where t: "s_hgetall ops ''PASSWORD_POLICY'' s = (Inr d, t)"
    "map_of d = view s ''PASSWORD_POLICY''" "good t" "view t = view s"
    using hgetall_run [OF assms] by blast
  have "d = [] \<longleftrightarrow> view s ''PASSWORD_POLICY'' = Map.empty" by (simp flip: t(2))
  then show ?thesis
    using t by (simp add: get_policy_def bindM_def policy_in_def split: option.splits)
qed

lemma reset_policy_run:
  assumes "good s"
  shows "fst (reset_policy ops co dflt s) = Inr dflt"
proof -
  obtain n t where t: "s_delete ops [''PASSWORD_POLICY''] s = (Inr n, t)" "good t"
    "view t ''PASSWORD_POLICY'' = Map.empty"
    using Store.hash_store.delete_run [OF hash_store_axioms assms, of "[''PASSWORD_POLICY'']"] by fastforce
  with get_policy_run [OF t(2), of co dflt] show ?thesis
    by (auto simp: reset_policy_def bindM_def policy_in_def)
qed

end

context printing_store
begin

lemma set_policy_fields_run:
  assumes "good s"
  shows "\<exists>t. forM fvs (set_policy_field ops) s = (Inr (), t) \<and> good t \<and>
    view t ''PASSWORD_POLICY'' = put_fields fvs (view s ''PASSWORD_POLICY'')"
  using assms
proof (induction fvs arbitrary: s)
  case Nil
  then show ?case by (simp add: put_fields_def)
next
  case (Cons fv fvs)
  obtain f v where fv: "fv = (f, v)" by (cases fv)
  show ?case
  proof (cases v)
    case None
    with Cons fv show ?thesis by (simp add: set_policy_field_def seqM_def)
  next
    case (Some x)
    obtain n u where u: "s_hset ops ''PASSWORD_POLICY'' f x None s = (Inr n, u)" "good u"
      "view u = hput (view s) ''PASSWORD_POLICY'' f (py_str x)"
      using hset_any_run [OF Cons.prems] by blast
    have "forM (fv # fvs) (set_policy_field ops) s = forM fvs (set_policy_field ops) u"
      using u(1) by (simp add: fv Some set_policy_field_def seqM_def bindM_def)
    moreover have "view u ''PASSWORD_POLICY'' = (view s ''PASSWORD_POLICY'')(f \<mapsto> py_str x)"
      by (simp add: u(3) hput_def)
    then have "put_fields (fv # fvs) (view s ''PASSWORD_POLICY'') =
        put_fields fvs (view u ''PASSWORD_POLICY'')"
      by (simp add: fv Some)
    ultimately show ?thesis using Cons.IH [OF u(2)] by presburger
  qed
qed

lemma update_policy_run:
  assumes "good s"
  shows "\<exists>t. update_policy ops co dflt u s =
    (case policy_in co dflt (put_fields (update_fields u) (view s ''PASSWORD_POLICY'')) of
       None \<Rightarrow> Inl (PydanticValidationError ''PasswordPolicy'') | Some p \<Rightarrow> Inr p, t) \<and>
    good t \<and> view t ''PASSWORD_POLICY'' =
      put_fields (update_fields u) (view s ''PASSWORD_POLICY'')"
proof -
  obtain t where t: "forM (update_fields u) (set_policy_field ops) s = (Inr (), t)" "good t"
    "view t ''PASSWORD_POLICY'' = put_fields (update_fields u) (view s ''PASSWORD_POLICY'')"
    using set_policy_fields_run [OF assms] by blast
  with get_policy_run [OF t(2), of co dflt] show ?thesis
    by (auto simp: update_policy_def seqM_def bindM_def)
qed

end

section \<open>Properties\<close>

text \<open>The field of a policy an update sets, and the value it keeps otherwise.\<close>

definition apply_update :: "policy_update \<Rightarrow> password_policy \<Rightarrow> password_policy" where
  "apply_update u p =
     \<lparr>pp_length = (case pu_length u of None \<Rightarrow> pp_length p | Some x \<Rightarrow> x),
      pp_chars = (case pu_chars u of None \<Rightarrow> pp_chars p | Some x \<Rightarrow> x),
      pp_special_chars = (case pu_special_chars u of None \<Rightarrow> pp_special_chars p | Some x \<Rightarrow> x),
      pp_numbers = (case pu_numbers u of None \<Rightarrow> pp_numbers p | Some x \<Rightarrow> x),
      pp_lowerupper = (case pu_lowerupper u of None \<Rightarrow> pp_lowerupper p | Some x \<Rightarrow> x)\<rparr>"

definition coerces_printed :: "coercions \<Rightarrow> bool" where
  "coerces_printed co \<longleftrightarrow>
     (\<forall>i. to_int co (py_str (PInt i)) = Some i) \<and> (\<forall>b. to_bool co (py_str (PBool b)) = Some b)"

lemma policy_of_Some:
  "policy_of co m = Some p \<longleftrightarrow>
     coerce (to_int co) 8 (m ''length'') = Some (pp_length p) \<and>
     coerce (to_bool co) True (m ''chars'') = Some (pp_chars p) \<and>
     coerce (to_bool co) True (m ''special_chars'') = Some (pp_special_chars p) \<and>
     coerce (to_bool co) True (m ''numbers'') = Some (pp_numbers p) \<and>
     coerce (to_bool co) True (m ''lowerupper'') = Some (pp_lowerupper p)"
  unfolding policy_of_def by (cases p) (auto simp: Option.bind_eq_Some_conv)

lemma put_field:
  "put_fields ((f, v) # fvs) m = put_fields fvs (case v of None \<Rightarrow> m | Some x \<Rightarrow> m(f \<mapsto> py_str x))"
  by (cases v) simp_all

lemma put_update_fields:
  defines "v u f x m \<equiv> (case x of None \<Rightarrow> m f | Some y \<Rightarrow> Some (py_str y))"
  shows "put_fields (update_fields u) m ''length'' = v u ''length'' (map_option PInt (pu_length u)) m"
    and "put_fields (update_fields u) m ''chars'' = v u ''chars'' (map_option PBool (pu_chars u)) m"
    and "put_fields (update_fields u) m ''special_chars'' =
      v u ''special_chars'' (map_option PBool (pu_special_chars u)) m"
    and "put_fields (update_fields u) m ''numbers'' = v u ''numbers'' (map_option PBool (pu_numbers u)) m"
    and "put_fields (update_fields u) m ''lowerupper'' =
      v u ''lowerupper'' (map_option PBool (pu_lowerupper u)) m"
  by (simp_all add: v_def update_fields_def put_field del: map_option_case split: option.split)

lemma coerce_update:
  "(\<And>y. f (py_str (C y)) = Some y) \<Longrightarrow> coerce f d (m k) = Some z \<Longrightarrow>
     coerce f d (case map_option C x of None \<Rightarrow> m k | Some y \<Rightarrow> Some (py_str y)) =
       Some (case x of None \<Rightarrow> z | Some y \<Rightarrow> y)"
  by (cases x) (simp_all add: coerce_def)

lemma policy_of_put_fields:
  assumes "coerces_printed co" and "policy_of co m = Some p"
  shows "policy_of co (put_fields (update_fields u) m) = Some (apply_update u p)"
  using assms
  unfolding policy_of_Some put_update_fields coerces_printed_def apply_update_def
  by (simp only: coerce_update password_policy.simps)

lemma policy_of_empty: "policy_of co Map.empty = Some default_policy"
  by (simp add: policy_of_def coerce_def default_policy_def)

text \<open>
  Updating the policy returns the policy it replaces with the given fields changed, and so
  does reading it afterwards, provided the manager's default is that of the class (with another
  one, the fields not given fall back to the class and not to the manager's default). What the
  store holds is text; pydantic is relied on to read a printed integer and a printed Boolean.
\<close>
theorem update_policy_result:
  assumes "memory_good now s" and "coerces_printed co"
    and "fst (get_policy (memory_ops now) co default_policy s) = Inr p"
  shows "\<exists>t. update_policy (memory_ops now) co default_policy u s = (Inr (apply_update u p), t) \<and>
    fst (get_policy (memory_ops now) co default_policy t) = Inr (apply_update u p) \<and>
    fst (reset_policy (memory_ops now) co default_policy t) = Inr default_policy"
proof -
  let ?m = "memory_view s ''PASSWORD_POLICY''"
  have "policy_of co ?m = Some p"
    using memory.get_policy_run [OF assms(1), of co default_policy] assms(3)
    by (auto simp: policy_in_def policy_of_empty split: option.splits if_splits)
  then have "policy_of co (put_fields (update_fields u) ?m) = Some (apply_update u p)"
    using assms(2) by (simp add: policy_of_put_fields)
  then have res: "policy_in co default_policy (put_fields (update_fields u) ?m) =
      Some (apply_update u p)"
    by (cases "put_fields (update_fields u) ?m = Map.empty")
      (simp_all only: policy_in_def policy_of_empty if_True if_False simp_thms)
  from memory.update_policy_run [OF assms(1), of co default_policy u] res
  obtain t where t: "update_policy (memory_ops now) co default_policy u s =
      (Inr (apply_update u p), t)" "memory_good now t"
    "memory_view t ''PASSWORD_POLICY'' = put_fields (update_fields u) ?m"
    by auto
  with memory.get_policy_run [OF t(2), of co default_policy] memory.reset_policy_run [OF t(2)] res
  show ?thesis by (auto simp: t(3))
qed

definition python_coercions :: coercions where
  "python_coercions =
     \<lparr>to_int = int_of, to_bool = (\<lambda>s. if s = ''True'' then Some True
        else if s = ''False'' then Some False else None)\<rparr>"

lemma update_policy_result_witness:
  "\<exists>t. update_policy (memory_ops 0) python_coercions default_policy
         \<lparr>pu_length = Some 1, pu_chars = None, pu_special_chars = Some False, pu_numbers = None,
          pu_lowerupper = None\<rparr> []
       = (Inr \<lparr>pp_length = 1, pp_chars = True, pp_special_chars = False, pp_numbers = True,
               pp_lowerupper = True\<rparr>, t)"
proof -
  have "memory_good 0 []" by (simp add: memory_good_def)
  moreover have "coerces_printed python_coercions"
    by (simp add: coerces_printed_def python_coercions_def int_of_show_int)
  moreover have "fst (get_policy (memory_ops 0) python_coercions default_policy []) =
      Inr default_policy"
    by code_simp
  ultimately show ?thesis
    using update_policy_result [of 0 "[]" python_coercions default_policy
        "\<lparr>pu_length = Some 1, pu_chars = None, pu_special_chars = Some False, pu_numbers = None,
          pu_lowerupper = None\<rparr>"]
    by (auto simp: apply_update_def default_policy_def)
qed

text \<open>
  A password hashed with the default scheme is verified by bcrypt on the very hash it made,
  for every password and salt, when that hash holds no newline (bcrypt's are ASCII letters,
  digits and \<open>$./\<close>); hashing with another scheme, and verifying a text without the prefix
  \<open>{BLF-CRYPT}\<close>, is an error and not a refusal.
\<close>
theorem verify_hashed_password:
  assumes "CHR 10 \<notin> set (hashpw bcrypt p salt)"
  shows "\<exists>h. hash_password bcrypt salt p ''BLF-CRYPT'' s = (Inr h, s) \<and>
    verify_password bcrypt q h s = (Inr (checkpw bcrypt q (hashpw bcrypt p salt)), s)"
proof -
  have "takeWhile (\<lambda>c. c \<noteq> CHR 10) (hashpw bcrypt p salt) = hashpw bcrypt p salt"
    using assms unfolding takeWhile_eq_all_conv by blast
  then have "match_scheme (''{BLF-CRYPT}'' @ hashpw bcrypt p salt) =
      Some (''BLF-CRYPT'', hashpw bcrypt p salt)"
    by (simp add: match_scheme_def before_def after_def)
  then show ?thesis by (simp add: hash_password_def verify_password_def)
qed

lemma verify_hashed_password_witness:
  "\<exists>h. hash_password \<lparr>checkpw = (\<lambda>q h. h = rev q), hashpw = (\<lambda>p salt. rev p)\<rparr> ''salt'' ''pw''
         ''BLF-CRYPT'' () = (Inr h, ()) \<and>
     verify_password \<lparr>checkpw = (\<lambda>q h. h = rev q), hashpw = (\<lambda>p salt. rev p)\<rparr> ''Pw'' h () =
       (Inr False, ())"
  using verify_hashed_password [of "\<lparr>checkpw = (\<lambda>q h. h = rev q), hashpw = (\<lambda>p salt. rev p)\<rparr>"
      "''pw''" "''salt''" "()" "''Pw''"]
  by simp

end
