(* ===== verification/Email.thy ===== *)
theory Email
  imports Exceptions
begin

text \<open>
  src/backend/taramail/email.py and schemas.py: splitting and joining addresses, the stripping of
  plus tags, and the validators of the schema types \<open>AliasStr\<close>, \<open>DomainStr\<close> and \<open>GotoStr\<close>.
  What an e-mail address is (pydantic's \<open>EmailStr\<close>) and the IDNA encoding are parameters. A
  validator returns \<open>Inl\<close> the message of its \<open>ValueError\<close>.
\<close>

section \<open>Addresses\<close>

definition split_email :: "(string \<Rightarrow> bool) \<Rightarrow> string \<Rightarrow> ('s, py_exn, string list) sem" where
  "split_email is_email email =
     (if \<not> is_email email then throw (InvalidEmail (''Invalid email: '' @ email))
      else ret (split_on CHR ''@'' email))"

definition join_email :: "string \<Rightarrow> string \<Rightarrow> string" where
  "join_email local_part domain = local_part @ ''@'' @ domain"

text \<open>
  The pattern \<open>^(.*?)\+.*(@.*)$\<close> matches at the first plus sign when an at sign follows it; its
  second group starts at the last at sign. A dot does not match a newline, and \<open>$\<close> also
  matches before a final one.
\<close>

definition strip_tags_line :: "string \<Rightarrow> string" where
  "strip_tags_line s =
     (if CHR ''+'' \<in> set s \<and> CHR ''@'' \<in> set (after CHR ''+'' s)
      then before CHR ''+'' s @ ''@'' @ after_last CHR ''@'' s else s)"

definition strip_email_tags :: "string \<Rightarrow> string" where
  "strip_email_tags email =
     (let (body, nl) =
        (if email \<noteq> [] \<and> last email = CHR 10 then (butlast email, [CHR 10]) else (email, []))
      in if CHR 10 \<in> set body then email else strip_tags_line body @ nl)"

section \<open>Schema types\<close>

definition validate_domain :: "(string \<Rightarrow> string + string) \<Rightarrow> string \<Rightarrow> string + string" where
  "validate_domain idna_encode v =
     (let s = strip v in
      case idna_encode s of
        Inl e \<Rightarrow> Inl (''Invalid internationalized domain: '' @ e)
      | Inr ascii_domain \<Rightarrow>
          (let labels = split_on CHR ''.'' ascii_domain in
           if length labels < 2 then Inl ''Domain should include a TLD'' else Inr (lower s)))"

definition validate_alias ::
  "(string \<Rightarrow> bool) \<Rightarrow> (string \<Rightarrow> string + string) \<Rightarrow> string \<Rightarrow> string + string" where
  "validate_alias is_email idna_encode v =
     (let s = strip v in
      if is_email s then Inr s
      else if \<not> starts_with ''@'' s then Inl (''Invalid alias: '' @ v)
      else (case validate_domain idna_encode (drop 1 s) of Inl e \<Rightarrow> Inl e | Inr _ \<Rightarrow> Inr s))"

definition goto_pieces :: "string \<Rightarrow> string list" where
  "goto_pieces v = filter (\<lambda>g. g \<noteq> []) (map strip (split_on CHR '','' v))"

definition goto_ok :: "(string \<Rightarrow> bool) \<Rightarrow> string \<Rightarrow> bool" where
  "goto_ok is_email g \<longleftrightarrow> is_email g \<or> ends_with ''@localhost'' g"

definition validate_goto :: "(string \<Rightarrow> bool) \<Rightarrow> string \<Rightarrow> string + string" where
  "validate_goto is_email v =
     (let gotos = goto_pieces v in
      if gotos = [] then Inl ''Goto should not be empty''
      else (case find (\<lambda>g. \<not> goto_ok is_email g) gotos of
              Some g \<Rightarrow> Inl (''Goto should be a valid email: '' @ g)
            | None \<Rightarrow> Inr (join '','' gotos)))"

section \<open>Stripping and splitting\<close>

lemma dropWhile_no_head: "s = [] \<or> \<not> p (hd s) \<Longrightarrow> dropWhile p s = s"
  by (cases s) auto

lemma strip_ends:
  "strip s = [] \<or> \<not> is_space (hd (strip s)) \<and> \<not> is_space (last (strip s))"
proof (cases "strip s = []")
  case False
  let ?t = "dropWhile is_space s"
  have t: "strip s = rev (dropWhile is_space (rev ?t))"
    by (simp add: strip_def lstrip_by_def rstrip_by_def)
  with False have ne: "dropWhile is_space (rev ?t) \<noteq> []" by simp
  have "last (strip s) = hd (dropWhile is_space (rev ?t))"
    using ne by (simp add: t last_rev)
  with ne have l: "\<not> is_space (last (strip s))" by (simp add: hd_dropWhile)
  have "rev ?t = takeWhile is_space (rev ?t) @ dropWhile is_space (rev ?t)" by simp
  then have "?t = strip s @ rev (takeWhile is_space (rev ?t))"
    unfolding t by (metis rev_append rev_rev_ident)
  with False have "hd ?t = hd (strip s)" and "?t \<noteq> []"
    by (metis hd_append2, metis append_is_Nil_conv)
  then have "\<not> is_space (hd (strip s))" using hd_dropWhile by metis
  with l show ?thesis by simp
qed simp

lemma strip_strip [simp]: "strip (strip s) = strip s"
proof -
  have "dropWhile is_space (strip s) = strip s"
    using strip_ends [of s] by (intro dropWhile_no_head) auto
  moreover have "dropWhile is_space (rev (strip s)) = rev (strip s)"
    using strip_ends [of s] by (intro dropWhile_no_head) (auto simp: hd_rev)
  ultimately show ?thesis
    by (simp add: strip_def [of "strip s"] lstrip_by_def rstrip_by_def)
qed

lemma set_strip: "set (strip s) \<subseteq> set s"
  unfolding strip_def lstrip_by_def rstrip_by_def
  by (metis dual_order.trans set_dropWhileD set_rev subsetI)

lemma goto_pieces_facts:
  assumes "g \<in> set (goto_pieces v)"
  shows "g \<noteq> []" and "strip g = g" and "CHR '','' \<notin> set g"
proof -
  obtain p where p: "p \<in> set (split_on CHR '','' v)" and g: "g = strip p" and "g \<noteq> []"
    using assms by (auto simp: goto_pieces_def)
  then show "g \<noteq> []" and "strip g = g" by simp_all
  have "CHR '','' \<notin> set p" using p by (rule split_on_pieces)
  with g show "CHR '','' \<notin> set g" using set_strip by blast
qed

lemma goto_pieces_join:
  assumes "gs \<noteq> []" and "\<And>g. g \<in> set gs \<Longrightarrow> g \<noteq> [] \<and> strip g = g \<and> CHR '','' \<notin> set g"
  shows "goto_pieces (join '','' gs) = gs"
proof -
  have "split_on CHR '','' (join '','' gs) = gs"
    using assms by (intro split_on_join) auto
  moreover have "map strip gs = gs" using assms by (simp add: map_idI)
  moreover have "filter (\<lambda>g. g \<noteq> []) gs = gs" using assms by (intro filter_True) auto
  ultimately show ?thesis by (simp add: goto_pieces_def)
qed

lemma goto_pieces_idem [simp]:
  "goto_pieces v \<noteq> [] \<Longrightarrow> goto_pieces (join '','' (goto_pieces v)) = goto_pieces v"
  by (rule goto_pieces_join) (auto dest: goto_pieces_facts)

section \<open>Properties\<close>

text \<open>
  The validator of goto lists is idempotent: what it returns is a comma-separated list of
  pieces that are valid addresses or local mailboxes, without blanks around them, and validating
  it again changes nothing.
\<close>
theorem validate_goto_idempotent:
  assumes "validate_goto is_email v = Inr g"
  shows "validate_goto is_email g = Inr g \<and> split_on CHR '','' g = goto_pieces v \<and>
    (\<forall>p \<in> set (goto_pieces v). p = strip p \<and> (is_email p \<or> ends_with ''@localhost'' p))"
proof -
  have ne: "goto_pieces v \<noteq> []" and g: "g = join '','' (goto_pieces v)"
    and ok: "\<forall>p \<in> set (goto_pieces v). goto_ok is_email p"
    using assms by (auto simp: validate_goto_def Let_def find_None_iff split: if_splits option.splits)
  then have "validate_goto is_email g = Inr g"
    by (auto simp: validate_goto_def Let_def find_Some_iff split: option.splits)
  moreover have "split_on CHR '','' g = goto_pieces v"
    unfolding g using ne by (intro split_on_join) (auto dest: goto_pieces_facts)
  ultimately show ?thesis using ok by (auto simp: goto_ok_def dest: goto_pieces_facts(2))
qed

lemma validate_goto_idempotent_witness:
  "validate_goto (\<lambda>a. a = ''a@b.org'') ''a@b.org,null@localhost'' = Inr ''a@b.org,null@localhost''"
proof -
  have "validate_goto (\<lambda>a. a = ''a@b.org'') '' a@b.org , ,null@localhost'' =
      Inr ''a@b.org,null@localhost''"
    by code_simp
  from validate_goto_idempotent [OF this] show ?thesis by simp
qed

end
