(* ===== verification/Mailbox.thy ===== *)
theory Mailbox
  imports Domain Sogo Password Email
begin

text \<open>
  src/backend/taramail/mailbox.py: the mailboxes with their quotas, attributes and permissions,
  over the database, the store (password policy, \<open>RL_VALUE\<close>) and SOGo's static view. bcrypt and
  pydantic's coercions are parameters, as in Password. Deleting a mailbox cascades to the tables
  that declare a foreign key on it.
\<close>

record mailbox_create =
  mc_local_part :: string
  mc_domain :: string
  mc_password :: string
  mc_password2 :: string
  mc_name :: string
  mc_quota :: "int option"
  mc_quarantine_notification :: string
  mc_quarantine_category :: string
  mc_active :: bool
  mc_force_pw_update :: bool
  mc_tls_enforce_in :: bool
  mc_tls_enforce_out :: bool
  mc_relayhost :: int
  mc_sogo_access :: bool
  mc_imap_access :: bool
  mc_pop3_access :: bool
  mc_smtp_access :: bool
  mc_sieve_access :: bool
  mc_acl_spam_alias :: bool
  mc_acl_tls_policy :: bool
  mc_acl_spam_score :: bool
  mc_acl_spam_policy :: bool
  mc_acl_delimiter_action :: bool
  mc_acl_syncjobs :: bool
  mc_acl_eas_reset :: bool
  mc_acl_sogo_profile_reset :: bool
  mc_acl_pushover :: bool
  mc_acl_quarantine :: bool
  mc_acl_quarantine_attachments :: bool
  mc_acl_quarantine_notification :: bool
  mc_acl_quarantine_category :: bool

text \<open>The validators of \<open>local_part\<close> (\<open>None\<close> is a \<open>ValueError\<close>) and \<open>name\<close>.\<close>

definition strip_and_lower :: "string \<Rightarrow> string option" where
  "strip_and_lower v = (let v = strip (lower v) in if v = [] then None else Some v)"

definition strip_name_brackets :: "string \<Rightarrow> string" where
  "strip_name_brackets v = rstrip_by (\<lambda>c. c = CHR ''>'') (lstrip_by (\<lambda>c. c = CHR ''<'') v)"

record mailbox_details =
  mi_username :: string
  mi_active :: bool
  mi_domain :: string
  mi_name :: "string option"
  mi_local_part :: string
  mi_quota :: int
  mi_quota_used :: int
  mi_messages :: int
  mi_attributes :: user_attributes_row
  mi_last_imap_login :: "int option"
  mi_last_smtp_login :: "int option"
  mi_last_pop3_login :: "int option"
  mi_last_sso_login :: "int option"

record mailbox_update =
  mu_password :: "string option"
  mu_password2 :: "string option"
  mu_name :: "string option"
  mu_quota :: "int option"
  mu_quarantine_notification :: "string option"
  mu_quarantine_category :: "string option"
  mu_active :: "bool option"
  mu_force_pw_update :: "bool option"
  mu_tls_enforce_in :: "bool option"
  mu_tls_enforce_out :: "bool option"
  mu_relayhost :: "int option"
  mu_sogo_access :: "bool option"
  mu_imap_access :: "bool option"
  mu_pop3_access :: "bool option"
  mu_smtp_access :: "bool option"
  mu_sieve_access :: "bool option"

record ('k, 'm) mailbox_manager =
  mm_store :: "'k store_ops"
  mm_coercions :: coercions
  mm_default_policy :: password_policy
  mm_bcrypt :: bcrypt_api
  mm_salt :: string
  mm_sogo :: "'m sogo"

section \<open>Queries\<close>

definition mailbox_not_found :: "string \<Rightarrow> py_exn" where
  "mailbox_not_found username = MailboxNotFoundError (''Mailbox for '' @ username @ '' not found'')"

definition mailbox_join ::
  "string \<Rightarrow> db \<Rightarrow> (mailbox_row \<times> quota2_row \<times> user_attributes_row) list" where
  "mailbox_join username d =
     concat (map (\<lambda>m. concat (map (\<lambda>q. map (\<lambda>a. (m, q, a))
         (filter (\<lambda>a. at_username a = mb_username m) (t_user_attributes d)))
         (filter (\<lambda>q. q2_username q = mb_username m) (t_quota2 d))))
       (filter (\<lambda>m. mb_kind m = [] \<and> mb_username m = username) (t_mailbox d)))"

text \<open>The latest login of a user through a service.\<close>

definition last_login :: "string \<Rightarrow> string \<Rightarrow> db \<Rightarrow> int option" where
  "last_login username service d =
     (let times = map sl_datetime (filter (\<lambda>r. sl_username r = username \<and> sl_service r = service)
            (t_sasl_log d))
      in if times = [] then None else Some (fold max times (hd times)))"

definition get_mailbox_details :: "string \<Rightarrow> (session, py_exn, mailbox_details) sem" where
  "get_mailbox_details username =
     bindM (query (mailbox_join username)) (\<lambda>rows.
     bindM (one_or (mailbox_not_found username) rows) (\<lambda>(m, q, a).
     query (\<lambda>d. \<lparr>mi_username = mb_username m, mi_active = mb_active m, mi_domain = mb_domain m,
       mi_name = mb_name m, mi_local_part = mb_local_part m, mi_quota = mb_quota m,
       mi_quota_used = q2_bytes q, mi_messages = q2_messages q, mi_attributes = a,
       mi_last_imap_login = last_login username ''imap'' d,
       mi_last_smtp_login = last_login username ''smtp'' d,
       mi_last_pop3_login = last_login username ''pop3'' d,
       mi_last_sso_login = last_login username ''SSO'' d\<rparr>)))"

definition get_mailboxes :: "(session, py_exn, mailbox_row list) sem" where
  "get_mailboxes = query (\<lambda>d. filter mb_active (t_mailbox d))"

definition get_domain_data :: "string \<Rightarrow> (session, py_exn, domain_row) sem" where
  "get_domain_data domain =
     bindM (query (\<lambda>d. filter (\<lambda>r. do_domain r = domain) (t_domain d))) one"

text \<open>Count and sum of the quotas, as \<open>get_mailbox_data_domain\<close> of Domain.\<close>

definition get_mailbox_usage :: "string \<Rightarrow> (session, py_exn, int \<times> int) sem" where
  "get_mailbox_usage domain = query (get_mailbox_data_domain domain)"

definition get_hashed_password ::
  "('k, 'm) mailbox_manager \<Rightarrow> string \<Rightarrow> string \<Rightarrow> ('k, py_exn, string) sem" where
  "get_hashed_password mm password1 password2 =
     bindM (get_policy (mm_store mm) (mm_coercions mm) (mm_default_policy mm)) (\<lambda>policy.
     seqM (validate_passwords policy password1 password2)
     (hash_password (mm_bcrypt mm) (mm_salt mm) password1 ''BLF-CRYPT''))"

section \<open>Creation\<close>

text \<open>The quota of the new mailbox, once the limits of its domain are checked.\<close>

definition check_new_mailbox :: "mailbox_create \<Rightarrow> (session, py_exn, int) sem" where
  "check_new_mailbox create =
     (let username = join_email (mc_local_part create) (mc_domain create) in
      bindM (query (\<lambda>d. exists_where (\<lambda>m. mb_kind m = [] \<and> mb_username m = username) (t_mailbox d)))
        (\<lambda>found.
      seqM (raise_when found (MailboxAlreadyExistsError (''Mailbox already exists: '' @ username)))
      (bindM (get_domain_data (mc_domain create)) (\<lambda>domain_data.
      let quota = (if mc_quota create = None \<or> mc_quota create = Some 0 then do_defquota domain_data
            else given (mc_quota create) 0) in
      bindM (get_mailbox_usage (mc_domain create)) (\<lambda>(count, used).
      seqM (raise_when (do_mailboxes domain_data \<le> count)
        (MailboxValidationError (''Max mailbox exceeded ('' @ show_int (do_mailboxes domain_data) @ '')'')))
      (seqM (raise_when (do_maxquota domain_data < quota)
        (MailboxValidationError (''Mailbox quota ('' @ show_int quota @
           '') exceeds the domain limit ('' @ show_int (do_maxquota domain_data) @ '')'')))
      (seqM (raise_when (do_quota domain_data < used + quota)
        (MailboxValidationError (''Not enough quota left ('' @
           show_int (do_quota domain_data - used) @ '')'')))
      (ret quota))))))))"

definition new_mailbox :: "mailbox_create \<Rightarrow> string \<Rightarrow> int \<Rightarrow> mailbox_row" where
  "new_mailbox create hashed quota =
     \<lparr>mb_username = join_email (mc_local_part create) (mc_domain create), mb_password = hashed,
      mb_name = Some (if mc_name create \<noteq> [] then mc_name create else mc_local_part create),
      mb_description = None, mb_quota = quota, mb_local_part = mc_local_part create,
      mb_domain = mc_domain create, mb_kind = [], mb_multiple_bookings = -1,
      mb_active = mc_active create\<rparr>"

definition new_user_acl :: "mailbox_create \<Rightarrow> user_acl_row" where
  "new_user_acl create =
     \<lparr>ua_username = join_email (mc_local_part create) (mc_domain create),
      ua_spam_alias = mc_acl_spam_alias create, ua_tls_policy = mc_acl_tls_policy create,
      ua_spam_score = mc_acl_spam_score create, ua_spam_policy = mc_acl_spam_policy create,
      ua_delimiter_action = mc_acl_delimiter_action create,
      ua_syncjobs = mc_acl_syncjobs create, ua_eas_reset = mc_acl_eas_reset create,
      ua_sogo_profile_reset = mc_acl_sogo_profile_reset create,
      ua_pushover = mc_acl_pushover create, ua_quarantine = mc_acl_quarantine create,
      ua_quarantine_attachments = mc_acl_quarantine_attachments create,
      ua_quarantine_notification = mc_acl_quarantine_notification create,
      ua_quarantine_category = mc_acl_quarantine_category create,
      ua_app_passwds = True, ua_pw_reset = True\<rparr>"

definition new_user_attributes :: "mailbox_create \<Rightarrow> user_attributes_row" where
  "new_user_attributes create =
     \<lparr>at_username = join_email (mc_local_part create) (mc_domain create),
      at_force_pw_update = mc_force_pw_update create,
      at_tls_enforce_in = mc_tls_enforce_in create,
      at_tls_enforce_out = mc_tls_enforce_out create, at_relayhost = mc_relayhost create,
      at_sogo_access = mc_sogo_access create, at_imap_access = mc_imap_access create,
      at_pop3_access = mc_pop3_access create, at_smtp_access = mc_smtp_access create,
      at_sieve_access = mc_sieve_access create,
      at_quarantine_notification = mc_quarantine_notification create,
      at_quarantine_category = mc_quarantine_category create\<rparr>"

text \<open>The six rows of \<open>add_all\<close>.\<close>

definition add_mailbox_rows :: "mailbox_create \<Rightarrow> mailbox_row \<Rightarrow> db \<Rightarrow> db" where
  "add_mailbox_rows create m d =
     (let quota2 = \<lparr>q2_username = mb_username m, q2_bytes = 0, q2_messages = 0\<rparr>;
          a = \<lparr>al_id = next_nat_id (map al_id (t_alias d)), al_address = mb_username m,
               al_goto = mb_username m, al_domain = mc_domain create, al_private_comment = [],
               al_public_comment = [], al_sogo_visible = True, al_internal = False,
               al_active = mc_active create\<rparr>
      in d\<lparr>t_mailbox := t_mailbox d @ [m], t_quota2 := t_quota2 d @ [quota2],
           t_quota2replica := t_quota2replica d @ [quota2], t_alias := t_alias d @ [a],
           t_user_acl := t_user_acl d @ [new_user_acl create],
           t_user_attributes := t_user_attributes d @ [new_user_attributes create]\<rparr>)"

definition create_mailbox ::
  "('k, 'm) mailbox_manager \<Rightarrow> mailbox_create \<Rightarrow> (('k, 'm) world, py_exn, mailbox_row) sem" where
  "create_mailbox mm create =
     bindM (on_db (check_new_mailbox create)) (\<lambda>quota.
     bindM (on_store (get_hashed_password mm (mc_password create) (mc_password2 create))) (\<lambda>hashed.
     let m = new_mailbox create hashed quota in
     seqM (on_db (pending (add_mailbox_rows create m)))
     (seqM (update_static_view (mm_sogo mm) (mb_username m)) (ret m))))"

section \<open>Update\<close>

definition set_mailbox :: "string \<Rightarrow> (mailbox_row \<Rightarrow> mailbox_row) \<Rightarrow> (session, py_exn, unit) sem" where
  "set_mailbox username f =
     pending (\<lambda>d. d\<lparr>t_mailbox := update_where (\<lambda>m. mb_username m = username) f (t_mailbox d)\<rparr>)"

definition set_mailbox_active :: "string \<Rightarrow> bool \<Rightarrow> (session, py_exn, unit) sem" where
  "set_mailbox_active username active =
     bindM (query (\<lambda>d. filter (\<lambda>a. al_address a = username) (t_alias d))) (\<lambda>rows.
     bindM (one rows) (\<lambda>_.
     seqM (pending (\<lambda>d. d\<lparr>t_alias := update_where (\<lambda>a. al_address a = username)
       (\<lambda>a. a\<lparr>al_active := active\<rparr>) (t_alias d)\<rparr>))
     (set_mailbox username (\<lambda>m. m\<lparr>mb_active := active\<rparr>))))"

definition set_mailbox_quota :: "mailbox_details \<Rightarrow> int \<Rightarrow> (session, py_exn, unit) sem" where
  "set_mailbox_quota details quota =
     seqM (raise_when (quota < mi_quota_used details)
       (MailboxValidationError (''Cannot reduce quota below current usage ('' @
          show_int (mi_quota_used details) @ '' bytes)'')))
     (bindM (get_domain_data (mi_domain details)) (\<lambda>domain_data.
      seqM (raise_when (do_maxquota domain_data < quota)
        (MailboxValidationError (''Mailbox quota ('' @ show_int quota @
           '' bytes) exceeds the domain limit ('' @ show_int (do_maxquota domain_data) @ '' bytes)'')))
      (bindM (get_mailbox_usage (mi_domain details)) (\<lambda>(_, used).
       let available_quota = do_quota domain_data - (used - mi_quota details) in
       seqM (raise_when (available_quota < quota)
         (MailboxValidationError (''Not enough quota left ('' @ show_int available_quota @
            '' bytes)'')))
       (set_mailbox (mi_username details) (\<lambda>m. m\<lparr>mb_quota := quota\<rparr>))))))"

definition apply_attributes :: "mailbox_update \<Rightarrow> user_attributes_row \<Rightarrow> user_attributes_row" where
  "apply_attributes u a = a
     \<lparr>at_force_pw_update := given (mu_force_pw_update u) (at_force_pw_update a),
      at_tls_enforce_in := given (mu_tls_enforce_in u) (at_tls_enforce_in a),
      at_tls_enforce_out := given (mu_tls_enforce_out u) (at_tls_enforce_out a),
      at_relayhost := given (mu_relayhost u) (at_relayhost a),
      at_sogo_access := given (mu_sogo_access u) (at_sogo_access a),
      at_imap_access := given (mu_imap_access u) (at_imap_access a),
      at_pop3_access := given (mu_pop3_access u) (at_pop3_access a),
      at_smtp_access := given (mu_smtp_access u) (at_smtp_access a),
      at_sieve_access := given (mu_sieve_access u) (at_sieve_access a),
      at_quarantine_notification :=
        given (mu_quarantine_notification u) (at_quarantine_notification a),
      at_quarantine_category := given (mu_quarantine_category u) (at_quarantine_category a)\<rparr>"

definition set_attributes :: "string \<Rightarrow> mailbox_update \<Rightarrow> (session, py_exn, unit) sem" where
  "set_attributes username update =
     bindM (query (\<lambda>d. filter (\<lambda>a. at_username a = username) (t_user_attributes d))) (\<lambda>rows.
     bindM (one rows) (\<lambda>_.
     pending (\<lambda>d. d\<lparr>t_user_attributes := update_where (\<lambda>a. at_username a = username)
       (apply_attributes update) (t_user_attributes d)\<rparr>)))"

definition set_password ::
  "('k, 'm) mailbox_manager \<Rightarrow> string \<Rightarrow> mailbox_update \<Rightarrow> (('k, 'm) world, py_exn, unit) sem" where
  "set_password mm username update =
     whenM (truthy (mu_password update))
      (bindM (on_store
         (case mu_password2 update of
            None \<Rightarrow> bindM (get_policy (mm_store mm) (mm_coercions mm) (mm_default_policy mm))
              (\<lambda>_. throw (PasswordValidationError ''Passwords do not match''))
          | Some password2 \<Rightarrow>
              get_hashed_password mm (or_else (mu_password update) []) password2)) (\<lambda>hashed.
       on_db (set_mailbox username (\<lambda>m. m\<lparr>mb_password := hashed\<rparr>))))"

text \<open>\<open>if value is not None: ...\<close> as a statement.\<close>

definition when_given :: "'a option \<Rightarrow> ('a \<Rightarrow> ('s, 'e, unit) sem) \<Rightarrow> ('s, 'e, unit) sem" where
  "when_given x f = (case x of None \<Rightarrow> ret () | Some v \<Rightarrow> f v)"

definition update_mailbox ::
  "('k, 'm) mailbox_manager \<Rightarrow> string \<Rightarrow> mailbox_update \<Rightarrow>
     (('k, 'm) world, py_exn, mailbox_row option) sem" where
  "update_mailbox mm username update =
     bindM (on_db (get_mailbox_details username)) (\<lambda>details.
     bindM (on_db (query (\<lambda>d. filter (\<lambda>m. mb_username m = username) (t_mailbox d)))) (\<lambda>rows.
     bindM (on_db (one rows)) (\<lambda>_.
     seqM (when_given (mu_name update) (\<lambda>name.
       on_db (set_mailbox username (\<lambda>m. m\<lparr>mb_name := Some name\<rparr>))))
     (seqM (when_given (mu_active update) (\<lambda>active. on_db (set_mailbox_active username active)))
     (seqM (set_password mm username update)
     (seqM (when_given (mu_quota update) (\<lambda>quota. on_db (set_mailbox_quota details quota)))
     (seqM (on_db (set_attributes username update))
     (seqM (update_static_view (mm_sogo mm) username)
     (on_db (gets (\<lambda>s. first_where (\<lambda>m. mb_username m = username) (t_mailbox (orm s)))))))))))))"

section \<open>Deletion\<close>

definition delete_mailbox_rows :: "string \<Rightarrow> db \<Rightarrow> db" where
  "delete_mailbox_rows u d = d
     \<lparr>t_alias := delete_where (\<lambda>a. al_goto a = u) (t_alias d),
      t_quarantine := delete_where (\<lambda>q. qu_rcpt q = Some u) (t_quarantine d),
      t_quota2 := delete_where (\<lambda>q. q2_username q = u) (t_quota2 d),
      t_quota2replica := delete_where (\<lambda>q. q2_username q = u) (t_quota2replica d),
      t_mailbox := delete_where (\<lambda>m. mb_username m = u) (t_mailbox d),
      t_sender_acl := delete_where (\<lambda>r. sa_logged_in_as r = u \<or> sa_send_as r = u) (t_sender_acl d),
      t_user_acl := delete_where (\<lambda>r. ua_username r = u) (t_user_acl d),
      t_spamalias := delete_where (\<lambda>r. sp_goto r = u) (t_spamalias d),
      t_imapsync := delete_where (\<lambda>r. im_user2 r = u) (t_imapsync d),
      t_filterconf := delete_where (\<lambda>r. fc_object r = u) (t_filterconf d),
      t_bcc_maps := delete_where (\<lambda>r. bc_local_dest r = u) (t_bcc_maps d),
      t_user_attributes := delete_where (\<lambda>r. at_username r = u) (t_user_attributes d),
      t_app_passwd := delete_where (\<lambda>r. ap_mailbox r = u) (t_app_passwd d),
      t_sieve_filters := delete_where (\<lambda>r. sf_username r = u) (t_sieve_filters d)\<rparr>"

text \<open>
  The aliases the regular expression \<open>(^|,)username($|,)\<close> finds are those with the user name
  among the pieces of their goto; the setting of the goto waits for the flush.
\<close>

definition remove_goto :: "string \<Rightarrow> string \<Rightarrow> string" where
  "remove_goto u goto = join '','' (filter (\<lambda>a. a \<noteq> u) (split_on CHR '','' goto))"

definition rewrite_gotos :: "string \<Rightarrow> (session, py_exn, unit) sem" where
  "rewrite_gotos u =
     bindM (query (\<lambda>d. map al_id (filter (\<lambda>a. u \<in> set (split_on CHR '','' (al_goto a))) (t_alias d))))
       (\<lambda>ids. pending (\<lambda>d. d\<lparr>t_alias := update_where (\<lambda>a. al_id a \<in> set ids)
          (\<lambda>a. a\<lparr>al_goto := remove_goto u (al_goto a)\<rparr>) (t_alias d)\<rparr>))"

definition delete_mailbox ::
  "('k, 'm) mailbox_manager \<Rightarrow> string \<Rightarrow> (('k, 'm) world, py_exn, unit) sem" where
  "delete_mailbox mm username =
     seqM (on_db (execute (\<lambda>_. delete_mailbox_rows username)))
     (seqM (on_db (rewrite_gotos username))
     (seqM (on_db (delete_user username))
     (seqM (update_static_view (mm_sogo mm) username)
     (bindM (on_store (s_hdel (mm_store mm) ''RL_VALUE'' [username])) (\<lambda>_. ret ())))))"

section \<open>Programs that leave what statements read\<close>

text \<open>Programs that only read, and those whose changes wait for a flush.\<close>

definition keeps_sql :: "(('k, 'm) world, 'e, 'a) sem \<Rightarrow> bool" where
  "keeps_sql m \<longleftrightarrow> (\<forall>w. sql (w_db (snd (m w))) = sql (w_db w))"

named_theorems keeps_sql_rules \<open>programs that keep what statements read\<close>

lemma keeps_sql_bind [keeps_sql_rules]:
  "keeps_sql m \<Longrightarrow> (\<And>a. keeps_sql (f a)) \<Longrightarrow> keeps_sql (bindM m f)"
  unfolding keeps_sql_def bindM_split by (auto split: sum.split)

lemma keeps_sql_seq [keeps_sql_rules]: "keeps_sql m \<Longrightarrow> keeps_sql n \<Longrightarrow> keeps_sql (seqM m n)"
  unfolding seqM_def by (rule keeps_sql_bind)

lemma keeps_sql_basic [keeps_sql_rules]:
  "keeps_sql (ret a)" "keeps_sql (throw e)" "keeps_sql (on_store m)"
  "keeps_sql (raise_when c e)"
  by (simp_all add: keeps_sql_def on_store_run)

lemma keeps_sql_on_db: "(\<And>s. sql (snd (m s)) = sql s) \<Longrightarrow> keeps_sql (on_db m)"
  by (simp add: keeps_sql_def on_db_run)

lemma keeps_sql_when [keeps_sql_rules]:
  "(\<And>v. keeps_sql (f v)) \<Longrightarrow> keeps_sql (when_given x f)"
  "keeps_sql m \<Longrightarrow> keeps_sql (whenM c m)"
  by (auto simp: when_given_def keeps_sql_def split: option.split)

lemma sql_one: "sql (snd (one rs s)) = sql s" "sql (snd (one_or e rs s)) = sql s"
  by (auto simp: one_def one_or_def split: list.splits)

lemma sql_steps:
  "sql (snd (query f s)) = sql s" "sql (snd (pending g s)) = sql s"
  "sql (snd (set_mailbox u h s)) = sql s" "sql (snd (gets k s)) = sql s"
  by (simp_all add: set_mailbox_def)

lemma sql_bind: "(\<And>s. sql (snd (m s)) = sql s) \<Longrightarrow> (\<And>a s. sql (snd (f a s)) = sql s) \<Longrightarrow>
    sql (snd (bindM m f s)) = sql s"
  unfolding bindM_split by (auto split: sum.split)

lemma sql_seq: "(\<And>s. sql (snd (m s)) = sql s) \<Longrightarrow> (\<And>s. sql (snd (n s)) = sql s) \<Longrightarrow>
    sql (snd (seqM m n s)) = sql s"
  unfolding seqM_def by (rule sql_bind)

lemma sql_raise_when: "sql (snd (raise_when c e s)) = sql s"
  by simp

lemmas sql_rules = sql_bind sql_seq sql_one sql_steps sql_raise_when

lemma sql_get_mailbox_details: "sql (snd (get_mailbox_details u s)) = sql s"
  unfolding get_mailbox_details_def split_beta by (intro sql_rules)

lemma sql_set_mailbox_active: "sql (snd (set_mailbox_active u a s)) = sql s"
  unfolding set_mailbox_active_def by (intro sql_rules)

lemma sql_set_mailbox_quota: "sql (snd (set_mailbox_quota de q s)) = sql s"
  unfolding set_mailbox_quota_def get_domain_data_def get_mailbox_usage_def split_beta Let_def
  by (intro sql_rules)

lemma sql_set_attributes: "sql (snd (set_attributes u upd s)) = sql s"
  unfolding set_attributes_def by (intro sql_rules)

lemmas keeps_sql_updates =
  keeps_sql_on_db [OF sql_get_mailbox_details] keeps_sql_on_db [OF sql_set_mailbox_active]
  keeps_sql_on_db [OF sql_set_mailbox_quota] keeps_sql_on_db [OF sql_set_attributes]
  keeps_sql_on_db [OF sql_steps(1)] keeps_sql_on_db [OF sql_steps(2)]
  keeps_sql_on_db [OF sql_steps(3)] keeps_sql_on_db [OF sql_one(1)]

lemma keeps_sql_set_password: "keeps_sql (set_password mm u upd)"
  unfolding set_password_def by (intro keeps_sql_rules keeps_sql_updates)

section \<open>An inactive mailbox\<close>

lemma update_mailbox_reaches_view:
  fixes w :: "('k, 'm) world"
  assumes "update_mailbox mm u upd w = (Inr r, w')"
  shows "mailbox_join u (sql (w_db w)) \<noteq> [] \<and>
    (\<exists>(v :: ('k, 'm) world) v'. update_static_view (mm_sogo mm) u v = (Inr (), v') \<and> sql (w_db v) = sql (w_db w))"
proof -
  obtain de w1 where de: "on_db (get_mailbox_details u) w = (Inr de, w1)"
    using assms unfolding update_mailbox_def by (auto simp: bindM_returns)
  then have "mailbox_join u (sql (w_db w)) \<noteq> []"
    by (auto simp: on_db_returns get_mailbox_details_def bindM_returns)
  let ?pre = "\<lambda>de. bindM (on_db (query (\<lambda>d. filter (\<lambda>m. mb_username m = u) (t_mailbox d)))) (\<lambda>rows.
     bindM (on_db (one rows)) (\<lambda>_.
     seqM (when_given (mu_name upd) (\<lambda>name. on_db (set_mailbox u (\<lambda>m. m\<lparr>mb_name := Some name\<rparr>))))
     (seqM (when_given (mu_active upd) (\<lambda>active. on_db (set_mailbox_active u active)))
     (seqM (set_password mm u upd)
     (seqM (when_given (mu_quota upd) (\<lambda>quota. on_db (set_mailbox_quota de quota)))
     (on_db (set_attributes u upd)))))))"
  obtain v a v' where pre: "?pre de w1 = (Inr a, v)"
    and v: "update_static_view (mm_sogo mm) u v = (Inr (), v')"
    using assms de unfolding update_mailbox_def by (auto simp: sem_returns)
  have "keeps_sql (?pre de)"
    by (intro keeps_sql_rules keeps_sql_updates keeps_sql_set_password)
  then have "sql (w_db v) = sql (w_db w1)" unfolding keeps_sql_def by (metis pre snd_conv)
  moreover have "sql (w_db w1) = sql (w_db w)"
    using de sql_get_mailbox_details [of u "w_db w"] by (auto simp: on_db_returns)
  ultimately have "sql (w_db v) = sql (w_db w)" by simp
  with v \<open>mailbox_join u (sql (w_db w)) \<noteq> []\<close> show ?thesis by blast
qed

lemma mailbox_join_exists:
  "mailbox_join u d \<noteq> [] \<Longrightarrow> exists_where (\<lambda>m. mb_username m = u) (t_mailbox d)"
  by (auto simp: mailbox_join_def)

section \<open>The limits of a domain\<close>

text \<open>The mailboxes of a domain are within the limits of its row.\<close>

definition within_limits :: "string \<Rightarrow> db \<Rightarrow> bool" where
  "within_limits x d \<longleftrightarrow>
     list_all (\<lambda>r. do_domain r = x \<longrightarrow>
       int (length (mailboxes_in x d)) \<le> do_mailboxes r \<and>
       sum_list (map mb_quota (mailboxes_in x d)) \<le> do_quota r) (t_domain d)"

lemma get_domain_data_returns:
  "get_domain_data x s = (Inr r, t) \<longleftrightarrow>
     filter (\<lambda>r. do_domain r = x) (t_domain (sql s)) = [r] \<and> t = s"
  by (simp add: get_domain_data_def)

lemma check_new_mailbox_returns:
  assumes "check_new_mailbox c s = (Inr q, t)"
  shows "t = s \<and> (\<exists>r. filter (\<lambda>r. do_domain r = mc_domain c) (t_domain (sql s)) = [r] \<and>
    int (length (mailboxes_in (mc_domain c) (sql s))) < do_mailboxes r \<and> q \<le> do_maxquota r \<and>
    sum_list (map mb_quota (mailboxes_in (mc_domain c) (sql s))) + q \<le> do_quota r)"
  using assms
  by (auto simp: check_new_mailbox_def Let_def bindM_returns seqM_returns get_domain_data_returns
      get_mailbox_usage_def get_mailbox_data_domain_def split: if_splits)

lemma create_mailbox_returns:
  assumes "create_mailbox mm c w = (Inr m, w')" and "w_db w = clean d"
  shows "\<exists>q. check_new_mailbox c (clean d) = (Inr q, clean d) \<and> mb_quota m = q \<and>
    mb_username m = join_email (mc_local_part c) (mc_domain c) \<and> mb_domain m = mc_domain c \<and>
    mb_kind m = [] \<and> mb_active m = mc_active c \<and>
    (\<exists>rows. None \<notin> set (static_rows (so_dialect (mm_sogo mm)) (so_default_password (mm_sogo mm)) (mb_username m) d) \<and>
      rows = map the (static_rows (so_dialect (mm_sogo mm)) (so_default_password (mm_sogo mm)) (mb_username m) d) \<and>
      orm (w_db w') = (add_mailbox_rows c m d)\<lparr>t_static_view :=
        refreshed rows d (t_static_view d)\<rparr>)"
proof -
  obtain q s h st where q: "check_new_mailbox c (clean d) = (Inr q, s)"
    and m: "m = new_mailbox c h q"
    and v: "update_static_view (mm_sogo mm) (mb_username m)
      (w\<lparr>w_store := st, w_db := s\<lparr>orm := add_mailbox_rows c m (orm s)\<rparr>\<rparr>) = (Inr (), w')"
    using assms(1) unfolding create_mailbox_def
    by (auto simp: sem_returns world_returns Let_def assms(2))
  have s: "s = clean d" using check_new_mailbox_returns [OF q] by simp
  have f: "mb_quota m = q" "mb_username m = join_email (mc_local_part c) (mc_domain c)"
    "mb_domain m = mc_domain c" "mb_kind m = []" "mb_active m = mc_active c"
    by (simp_all add: m new_mailbox_def)
  have "t_static_view (add_mailbox_rows c m d) = t_static_view d"
    by (simp add: add_mailbox_rows_def Let_def)
  with update_static_view_returns [OF v] q s f show ?thesis by (simp add: Let_def)
qed

lemma mailboxes_in_snoc:
  "mb_kind m = [] \<Longrightarrow> mailboxes_in (mb_domain m) (d\<lparr>t_mailbox := t_mailbox d @ [m]\<rparr>) =
     mailboxes_in (mb_domain m) d @ [m]"
  by (simp add: mailboxes_in_def)

lemma mailboxes_in_cong: "t_mailbox d = t_mailbox e \<Longrightarrow> mailboxes_in x d = mailboxes_in x e"
  by (simp add: mailboxes_in_def)

lemma add_mailbox_rows_facts:
  "t_mailbox ((add_mailbox_rows c m d)\<lparr>t_static_view := v\<rparr>) = t_mailbox d @ [m]"
  "t_domain ((add_mailbox_rows c m d)\<lparr>t_static_view := v\<rparr>) = t_domain d"
  "t_static_view ((add_mailbox_rows c m d)\<lparr>t_static_view := v\<rparr>) = v"
  by (simp_all add: add_mailbox_rows_def Let_def)

text \<open>Whatever an update of an inactive mailbox asks for, it does not succeed.\<close>

lemma inactive_mailbox_never_updates:
  fixes w :: "('k, 'm) world"
  assumes "w_db w = clean d" and "\<not> exists_where (\<lambda>m. mb_username m = u \<and> mb_active m) (t_mailbox d)"
  shows "transaction (update_mailbox mm u upd) w \<noteq> (Inr r, w')"
proof
  assume "transaction (update_mailbox mm u upd) w = (Inr r, w')"
  then obtain v where "update_mailbox mm u upd w = (Inr r, v)"
    using transaction_returns [of "update_mailbox mm u upd" w r w'] by auto
  from update_mailbox_reaches_view [OF this] obtain v1 v2 :: "('k, 'm) world" where
    "mailbox_join u d \<noteq> []" "update_static_view (mm_sogo mm) u v1 = (Inr (), v2)" "sql (w_db v1) = d"
    by (auto simp: assms(1))
  with update_static_view_returns [of "mm_sogo mm" u v1 v2] assms(2) mailbox_join_exists
  show False by (simp add: static_rows_null del: exists_where_iff)
qed

section \<open>Properties\<close>

text \<open>
  C10. A transaction that creates a mailbox adds it to the mailboxes, under a name no mailbox had,
  and leaves its domain within its limits: not more mailboxes than allowed, and a sum of quotas
  the domain's quota covers. Its own quota is at most the domain's limit for one mailbox.
\<close>
theorem create_mailbox_within_limits:
  assumes "transaction (create_mailbox mm c) w = (Inr m, w')" and "w_db w = clean d"
  shows "t_mailbox (sql (w_db w')) = t_mailbox d @ [m] \<and>
    mb_username m = join_email (mc_local_part c) (mc_domain c) \<and>
    mb_username m \<notin> mb_username ` set (t_mailbox d) \<and>
    within_limits (mc_domain c) (sql (w_db w')) \<and>
    list_all (\<lambda>r. do_domain r = mc_domain c \<longrightarrow> mb_quota m \<le> do_maxquota r) (t_domain (sql (w_db w')))"
proof -
  obtain u where u: "create_mailbox mm c w = (Inr m, u)" and uk: "unique_keys (orm (w_db u))"
    and w': "w_db w' = clean (orm (w_db u))"
    using assms(1) unfolding transaction_returns [of "create_mailbox mm c"] by auto
  obtain q rows where q: "check_new_mailbox c (clean d) = (Inr q, clean d)" "mb_quota m = q"
    "mb_username m = join_email (mc_local_part c) (mc_domain c)" "mb_domain m = mc_domain c"
    "mb_kind m = []"
    and o: "orm (w_db u) = (add_mailbox_rows c m d)\<lparr>t_static_view := refreshed rows d (t_static_view d)\<rparr>"
    using create_mailbox_returns [OF u assms(2)] by blast
  obtain r where r: "filter (\<lambda>r. do_domain r = mc_domain c) (t_domain d) = [r]"
    "int (length (mailboxes_in (mc_domain c) d)) < do_mailboxes r" "q \<le> do_maxquota r"
    "sum_list (map mb_quota (mailboxes_in (mc_domain c) d)) + q \<le> do_quota r"
    using check_new_mailbox_returns [OF q(1)] by auto
  have only: "s = r" if "s \<in> set (t_domain d)" "do_domain s = mc_domain c" for s
  proof -
    have "s \<in> set (filter (\<lambda>r. do_domain r = mc_domain c) (t_domain d))" using that by simp
    then show ?thesis by (simp add: r(1))
  qed
  have mb: "t_mailbox (orm (w_db u)) = t_mailbox d @ [m]" and dom: "t_domain (orm (w_db u)) = t_domain d"
    unfolding o add_mailbox_rows_facts by simp_all
  have "mailboxes_in (mc_domain c) (orm (w_db u)) = mailboxes_in (mc_domain c) d @ [m]"
    using mailboxes_in_snoc [OF q(5), of d] mb q(4)
    by (simp add: mailboxes_in_cong [of "orm (w_db u)" "d\<lparr>t_mailbox := t_mailbox d @ [m]\<rparr>"])
  then have "within_limits (mc_domain c) (orm (w_db u))"
    using r q(2) by (auto simp: within_limits_def dom list_all_iff dest!: only)
  moreover have "mb_username m \<notin> mb_username ` set (t_mailbox d)"
    using uk unfolding unique_keys_def mb by simp
  moreover have "list_all (\<lambda>r. do_domain r = mc_domain c \<longrightarrow> mb_quota m \<le> do_maxquota r) (t_domain d)"
    using r q(2) by (auto simp: list_all_iff dest!: only)
  ultimately show ?thesis using q(3) by (simp add: w' mb dom)
qed

definition toy_mailbox_create :: mailbox_create where
  "toy_mailbox_create =
     \<lparr>mc_local_part = ''bo'', mc_domain = ''a.org'', mc_password = ''Secret-12'',
      mc_password2 = ''Secret-12'', mc_name = [], mc_quota = Some 3,
      mc_quarantine_notification = ''hourly'', mc_quarantine_category = ''reject'',
      mc_active = True, mc_force_pw_update = False, mc_tls_enforce_in = False,
      mc_tls_enforce_out = False, mc_relayhost = 0, mc_sogo_access = True, mc_imap_access = True,
      mc_pop3_access = True, mc_smtp_access = True, mc_sieve_access = True,
      mc_acl_spam_alias = True, mc_acl_tls_policy = True, mc_acl_spam_score = True,
      mc_acl_spam_policy = True, mc_acl_delimiter_action = True, mc_acl_syncjobs = False,
      mc_acl_eas_reset = True, mc_acl_sogo_profile_reset = False, mc_acl_pushover = True,
      mc_acl_quarantine = True, mc_acl_quarantine_attachments = True,
      mc_acl_quarantine_notification = True, mc_acl_quarantine_category = True\<rparr>"

definition toy_mailbox_manager :: "(memory_store, memory_store) mailbox_manager" where
  "toy_mailbox_manager =
     \<lparr>mm_store = memory_ops 0, mm_coercions = python_coercions, mm_default_policy = default_policy,
      mm_bcrypt = \<lparr>checkpw = (\<lambda>p h. h = rev p), hashpw = (\<lambda>p salt. rev p)\<rparr>, mm_salt = [],
      mm_sogo = toy_sogo\<rparr>"

lemma create_mailbox_within_limits_witness:
  "\<exists>m w'. transaction (create_mailbox toy_mailbox_manager toy_mailbox_create) (toy_world domain_db) =
       (Inr m, w') \<and> within_limits ''a.org'' (sql (w_db w')) \<and>
     mb_username m = ''bo@a.org'' \<and> length (t_mailbox (sql (w_db w'))) = 3"
  (is "\<exists>m w'. ?run = _ \<and> _")
proof -
  have "fst ?run = Inr (new_mailbox toy_mailbox_create ''{BLF-CRYPT}21-terceS'' 3)" by code_simp
  then have run: "?run = (Inr (new_mailbox toy_mailbox_create ''{BLF-CRYPT}21-terceS'' 3), snd ?run)"
    by (simp add: prod_eq_iff)
  have "mc_domain toy_mailbox_create = ''a.org''" "mc_local_part toy_mailbox_create = ''bo''"
    "length (t_mailbox domain_db) = 2" "w_db (toy_world domain_db) = clean domain_db"
    by (simp_all add: toy_mailbox_create_def domain_db_def toy_world_def)
  with create_mailbox_within_limits [OF run, of domain_db] run show ?thesis
    by (intro exI conjI) (auto simp: join_email_def)
qed

text \<open>
  A mailbox just created is not in SOGo's static view, although the transaction refreshed the
  view and committed: the refresh ran before the mailbox was flushed. It stays out until some
  later operation refreshes the whole view.
\<close>
theorem create_mailbox_not_in_static_view:
  assumes "transaction (create_mailbox mm c) w = (Inr m, w')" and "w_db w = clean d"
    and "mb_username m \<notin> sv_c_uid ` set (t_static_view d)"
  shows "m \<in> set (t_mailbox (sql (w_db w'))) \<and>
    mb_username m \<notin> sv_c_uid ` set (t_static_view (sql (w_db w')))"
proof -
  obtain u where u: "create_mailbox mm c w = (Inr m, u)" and uk: "unique_keys (orm (w_db u))"
    and w': "w_db w' = clean (orm (w_db u))"
    using assms(1) unfolding transaction_returns [of "create_mailbox mm c"] by auto
  obtain rows where
    o: "orm (w_db u) = (add_mailbox_rows c m d)\<lparr>t_static_view := refreshed rows d (t_static_view d)\<rparr>"
    using create_mailbox_returns [OF u assms(2)] by blast
  have mb: "t_mailbox (orm (w_db u)) = t_mailbox d @ [m]"
    and sv: "t_static_view (orm (w_db u)) = refreshed rows d (t_static_view d)"
    unfolding o add_mailbox_rows_facts by simp_all
  have "mb_username m \<notin> mb_username ` set (t_mailbox d)"
    using uk unfolding unique_keys_def mb by simp
  then have "mb_username m \<notin> sv_c_uid ` set (refreshed rows d (t_static_view d))"
    by (auto simp: refreshed_def)
  then show ?thesis by (simp add: w' mb sv)
qed

lemma create_mailbox_not_in_static_view_witness:
  "\<exists>m w'. transaction (create_mailbox toy_mailbox_manager toy_mailbox_create) (toy_world domain_db) =
       (Inr m, w') \<and> ''bo@a.org'' \<notin> sv_c_uid ` set (t_static_view (sql (w_db w')))"
  (is "\<exists>m w'. ?run = _ \<and> _")
proof -
  have "fst ?run = Inr (new_mailbox toy_mailbox_create ''{BLF-CRYPT}21-terceS'' 3)" by code_simp
  then have run: "?run = (Inr (new_mailbox toy_mailbox_create ''{BLF-CRYPT}21-terceS'' 3), snd ?run)"
    by (simp add: prod_eq_iff)
  have "mb_username (new_mailbox toy_mailbox_create ''{BLF-CRYPT}21-terceS'' 3) = ''bo@a.org''"
    "t_static_view domain_db = []" "w_db (toy_world domain_db) = clean domain_db"
    by (simp_all add: new_mailbox_def toy_mailbox_create_def domain_db_def empty_db_def toy_world_def
        join_email_def)
  with create_mailbox_not_in_static_view [OF run, of domain_db] run show ?thesis by auto
qed

lemma distinct_upsert:
  "distinct (map sv_c_uid old) \<Longrightarrow> distinct (map sv_c_uid (fold upsert_static rows old))"
proof (induction rows arbitrary: old)
  case (Cons r rows)
  have "distinct (map sv_c_uid (upsert_static r old))"
    using Cons.prems by (auto simp: upsert_static_def distinct_delete_where)
  with Cons.IH show ?case by simp
qed simp

lemma distinct_refreshed:
  "distinct (map sv_c_uid old) \<Longrightarrow> distinct (map sv_c_uid (refreshed rows d old))"
  unfolding refreshed_def by (intro distinct_delete_where distinct_upsert)

text \<open>What an update without a password and a quota does to the tables.\<close>

definition updated_mailbox :: "mailbox_update \<Rightarrow> mailbox_row \<Rightarrow> mailbox_row" where
  "updated_mailbox upd m = m
     \<lparr>mb_name := (if mu_name upd = None then mb_name m else mu_name upd),
      mb_active := given (mu_active upd) (mb_active m)\<rparr>"

definition updated_mailbox_db :: "string \<Rightarrow> mailbox_update \<Rightarrow> db \<Rightarrow> db" where
  "updated_mailbox_db u upd d = d
     \<lparr>t_mailbox := update_where (\<lambda>m. mb_username m = u) (updated_mailbox upd) (t_mailbox d),
      t_alias := update_where (\<lambda>a. al_address a = u)
        (\<lambda>a. a\<lparr>al_active := given (mu_active upd) (al_active a)\<rparr>) (t_alias d),
      t_user_attributes := update_where (\<lambda>a. at_username a = u) (apply_attributes upd)
        (t_user_attributes d)\<rparr>"

lemma mailbox_join_one:
  assumes "unique_keys d" and "mailbox_join u d = [(m, q, a)]"
  shows "filter (\<lambda>m. mb_username m = u) (t_mailbox d) = [m]"
    and "filter (\<lambda>a. at_username a = u) (t_user_attributes d) = [a]" and "mb_username m = u"
proof -
  have "(m, q, a) \<in> set (mailbox_join u d)" using assms(2) by simp
  then have "m \<in> set (t_mailbox d)" "a \<in> set (t_user_attributes d)" "at_username a = u"
    and u: "mb_username m = u"
    by (auto simp: mailbox_join_def)
  with assms(1) show "filter (\<lambda>m. mb_username m = u) (t_mailbox d) = [m]"
    and "filter (\<lambda>a. at_username a = u) (t_user_attributes d) = [a]"
    using filter_key_one [of mb_username "t_mailbox d" m]
      filter_key_one [of at_username "t_user_attributes d" a]
    by (simp_all add: unique_keys_def)
  show "mb_username m = u" by (rule u)
qed

lemma update_where_comp:
  "(\<And>x. p (f x) = p x) \<Longrightarrow> update_where p g (update_where p f xs) = update_where p (\<lambda>x. g (f x)) xs"
  by (induction xs) (auto simp: update_where_def)

lemma update_where_same: "(\<And>x. f x = x) \<Longrightarrow> update_where p f xs = xs"
  by (simp add: update_where_def map_idI)

definition in_session :: "('k, 'm) world \<Rightarrow> db \<Rightarrow> db \<Rightarrow> ('k, 'm) world" where
  "in_session w d e = w\<lparr>w_db := \<lparr>sql = d, orm = e\<rparr>\<rparr>"

lemma on_db_in_session: "on_db m (in_session w d e) =
    (fst (m \<lparr>sql = d, orm = e\<rparr>), in_session w d e\<lparr>w_db := snd (m \<lparr>sql = d, orm = e\<rparr>)\<rparr>)"
  by (simp add: in_session_def on_db_run)

lemma update_name_run:
  "when_given x (\<lambda>name. on_db (set_mailbox u (\<lambda>m. m\<lparr>mb_name := Some name\<rparr>))) (in_session w d e) =
     (Inr (), in_session w d (e\<lparr>t_mailbox := update_where (\<lambda>m. mb_username m = u)
       (\<lambda>m. m\<lparr>mb_name := (if x = None then mb_name m else x)\<rparr>) (t_mailbox e)\<rparr>))"
  by (cases x) (simp_all add: when_given_def on_db_in_session set_mailbox_def update_where_same,
    simp_all add: in_session_def)

lemma update_active_run:
  assumes "filter (\<lambda>a. al_address a = u) (t_alias d) = [al]"
  shows "when_given x (\<lambda>active. on_db (set_mailbox_active u active)) (in_session w d e) =
     (Inr (), in_session w d (e\<lparr>t_mailbox := update_where (\<lambda>m. mb_username m = u)
         (\<lambda>m. m\<lparr>mb_active := given x (mb_active m)\<rparr>) (t_mailbox e),
       t_alias := update_where (\<lambda>a. al_address a = u)
         (\<lambda>a. a\<lparr>al_active := given x (al_active a)\<rparr>) (t_alias e)\<rparr>))"
proof (cases x)
  case None
  then show ?thesis by (simp add: when_given_def given_def update_where_same)
next
  case (Some active)
  with assms show ?thesis
    by (simp add: when_given_def given_def on_db_in_session set_mailbox_active_def set_mailbox_def one_def)
      (simp add: in_session_def)
qed

lemma update_attributes_run:
  assumes "filter (\<lambda>a. at_username a = u) (t_user_attributes d) = [a]"
  shows "on_db (set_attributes u upd) (in_session w d e) =
    (Inr (), in_session w d (e\<lparr>t_user_attributes := update_where (\<lambda>a. at_username a = u)
      (apply_attributes upd) (t_user_attributes e)\<rparr>))"
  using assms by (simp add: on_db_in_session set_attributes_def one_def) (simp add: in_session_def)

lemma update_mailbox_prefix:
  assumes "w_db w = clean d" and "unique_keys d" and "mailbox_join u d = [(m, q, a)]"
    and "filter (\<lambda>a. al_address a = u) (t_alias d) = [al]"
    and "\<not> truthy (mu_password upd)" and "mu_quota upd = None"
  shows "update_mailbox mm u upd w =
    seqM (update_static_view (mm_sogo mm) u)
      (on_db (gets (\<lambda>s. first_where (\<lambda>m. mb_username m = u) (t_mailbox (orm s)))))
      (in_session w d (updated_mailbox_db u upd d))"
proof -
  note one = mailbox_join_one [OF assms(2,3)]
  have w: "w = in_session w d d" using assms(1) by (simp add: in_session_def clean_def)
  obtain de where de: "on_db (get_mailbox_details u) (in_session w d d) = (Inr de, in_session w d d)"
    using assms(3) by (simp add: on_db_in_session get_mailbox_details_def one_or_def) (simp add: in_session_def)
  have rows: "on_db (query (\<lambda>d. filter (\<lambda>m. mb_username m = u) (t_mailbox d))) (in_session w d d) =
      (Inr [m], in_session w d d)" "on_db (one [m]) (in_session w d d) = (Inr m, in_session w d d)"
    using one(1) by (simp_all add: on_db_in_session one_def) (simp_all add: in_session_def)
  have pw: "set_password mm u upd = ret ()" using assms(5) by (simp add: set_password_def whenM_def)
  have up: "updated_mailbox_db u upd d = (d
      \<lparr>t_mailbox := update_where (\<lambda>m. mb_username m = u) (\<lambda>m. m\<lparr>mb_active := given (mu_active upd) (mb_active m)\<rparr>)
         (update_where (\<lambda>m. mb_username m = u)
           (\<lambda>m. m\<lparr>mb_name := (if mu_name upd = None then mb_name m else mu_name upd)\<rparr>) (t_mailbox d)),
       t_alias := update_where (\<lambda>a. al_address a = u)
         (\<lambda>a. a\<lparr>al_active := given (mu_active upd) (al_active a)\<rparr>) (t_alias d),
       t_user_attributes := update_where (\<lambda>a. at_username a = u) (apply_attributes upd) (t_user_attributes d)\<rparr>)"
    by (simp add: updated_mailbox_db_def updated_mailbox_def [abs_def] update_where_comp)
  have "update_mailbox mm u upd (in_session w d d) =
    seqM (update_static_view (mm_sogo mm) u)
      (on_db (gets (\<lambda>s. first_where (\<lambda>m. mb_username m = u) (t_mailbox (orm s)))))
      (in_session w d (updated_mailbox_db u upd d))"
    by (simp add: update_mailbox_def bindM_def seqM_def de rows pw assms(6) when_given_def [of None]
        update_name_run update_active_run [OF assms(4)] update_attributes_run [OF one(2)] up)
  with w show ?thesis by simp
qed

lemma unique_keys_updated_mailbox:
  "unique_keys d \<Longrightarrow> distinct (map sv_c_uid v) \<Longrightarrow>
     unique_keys ((updated_mailbox_db u upd d)\<lparr>t_static_view := v\<rparr>)"
  by (simp add: unique_keys_def updated_mailbox_db_def updated_mailbox_def apply_attributes_def
      map_update_where)

lemma null_row_when_inactive:
  assumes "unique_keys d" and "mailbox_join u d = [(m, q, a)]"
  shows "None \<in> set (static_rows dl p u d) \<longleftrightarrow> \<not> mb_active m"
proof -
  note one = mailbox_join_one [OF assms]
  have "m \<in> set (filter (\<lambda>m. mb_username m = u) (t_mailbox d))" by (simp add: one)
  then have m: "m \<in> set (t_mailbox d)" by simp
  have only: "x = m" if "x \<in> set (t_mailbox d)" "mb_username x = u" for x
  proof -
    have "x \<in> set (filter (\<lambda>m. mb_username m = u) (t_mailbox d))" using that by simp
    then show ?thesis by (simp add: one)
  qed
  show ?thesis unfolding static_rows_null exists_where_iff using m one(3) only by blast
qed

text \<open>
  C37. Updating a mailbox that is there, with its quota row, its attributes and the alias of its own,
  works only while it is active, here for an update of neither its password nor its quota: then the
  transaction commits the new name, activity and attributes of the mailbox. When it is inactive every
  such update fails, also the one that would make it active again, with nothing changed: what fails is
  the refresh of the static view, whose statement reads the mailbox as it is in the database and selects
  a row of nulls, which the key of the table refuses.
\<close>
theorem update_inactive_mailbox_fails:
  fixes w :: "('k, 'm) world"
  assumes "w_db w = clean d" and "unique_keys d" and "mailbox_join u d = [(m, q, a)]"
    and "filter (\<lambda>a. al_address a = u) (t_alias d) = [al]"
    and "\<not> truthy (mu_password upd)" and "mu_quota upd = None"
    and "so_dialect (mm_sogo mm) = ''sqlite'' \<or> so_dialect (mm_sogo mm) = ''mysql''"
    and "s_flushall (so_memcached (mm_sogo mm)) (w_memcached w) = (Inr (), mc)"
  shows "if mb_active m
    then \<exists>r w' v. transaction (update_mailbox mm u upd) w = (Inr r, w') \<and>
      w_db w' = clean ((updated_mailbox_db u upd d)\<lparr>t_static_view := v\<rparr>)
    else transaction (update_mailbox mm u upd) w = (Inl IntegrityError, w)"
proof -
  note pre = update_mailbox_prefix [OF assms(1-6)]
  let ?w = "in_session w d (updated_mailbox_db u upd d)"
  have db: "sql (w_db ?w) = d" "orm (w_db ?w) = updated_mailbox_db u upd d" "w_memcached ?w = w_memcached w"
    and restored: "?w\<lparr>w_db := w_db w\<rparr> = w"
    by (simp_all add: in_session_def)
  let ?dl = "so_dialect (mm_sogo mm)" and ?p = "so_default_password (mm_sogo mm)"
  note null = null_row_when_inactive [OF assms(2,3), of ?dl ?p]
  show ?thesis
  proof (cases "mb_active m")
    case True
    let ?v = "refreshed (map the (static_rows ?dl ?p u d)) d (t_static_view d)"
    have tv: "t_static_view (updated_mailbox_db u upd d) = t_static_view d"
      by (simp add: updated_mailbox_db_def)
    have "None \<notin> set (static_rows ?dl ?p u (sql (w_db ?w)))"
      using null True by (simp add: db)
    from update_static_view_run [OF this assms(7), of mc] assms(8)
    obtain w2 where w2: "update_static_view (mm_sogo mm) u ?w = (Inr (), w2)"
      "orm (w_db w2) = (updated_mailbox_db u upd d)\<lparr>t_static_view := ?v\<rparr>"
      by (simp add: Let_def tv db)
    have "unique_keys (orm (w_db w2))"
      unfolding w2(2) using assms(2)
      by (intro unique_keys_updated_mailbox distinct_refreshed) (simp_all add: unique_keys_def)
    moreover have "update_mailbox mm u upd w =
        (Inr (first_where (\<lambda>m. mb_username m = u) (t_mailbox (orm (w_db w2)))), w2)"
      unfolding pre using w2(1) by (simp add: seqM_def bindM_def on_db_run)
    ultimately have "transaction (update_mailbox mm u upd) w =
        (Inr (first_where (\<lambda>m. mb_username m = u) (t_mailbox (orm (w_db w2)))),
         w2\<lparr>w_db := clean (orm (w_db w2))\<rparr>)"
      unfolding transaction_returns by blast
    then show ?thesis unfolding if_P [OF True] by (intro exI [of _ ?v] exI conjI) (auto simp: w2(2))
  next
    case False
    with null have "update_static_view (mm_sogo mm) u ?w = (Inl IntegrityError, ?w)"
      using assms(7) by (auto simp: update_static_view_def bindM_def seqM_def world_runs upsert_rows_def db)
    then have "update_mailbox mm u upd w = (Inl IntegrityError, ?w)"
      unfolding pre by (simp add: seqM_def bindM_def)
    then show ?thesis
      unfolding if_not_P [OF False] by (simp add: transaction_def bindM_def restored)
  qed
qed

definition no_mailbox_update :: mailbox_update where
  "no_mailbox_update =
     \<lparr>mu_password = None, mu_password2 = None, mu_name = None, mu_quota = None,
      mu_quarantine_notification = None, mu_quarantine_category = None, mu_active = None,
      mu_force_pw_update = None, mu_tls_enforce_in = None, mu_tls_enforce_out = None,
      mu_relayhost = None, mu_sogo_access = None, mu_imap_access = None, mu_pop3_access = None,
      mu_smtp_access = None, mu_sieve_access = None\<rparr>"

text \<open>A mailbox that was made inactive, with its rows.\<close>

definition inactive_mailbox :: mailbox_row where
  "inactive_mailbox = (plain_mailbox ''al'' ''a.org'' 1)\<lparr>mb_active := False\<rparr>"

definition inactive_db :: db where
  "inactive_db = empty_db\<lparr>t_mailbox := [inactive_mailbox],
     t_quota2 := [\<lparr>q2_username = ''al@a.org'', q2_bytes = 0, q2_messages = 0\<rparr>],
     t_user_attributes := [(new_user_attributes toy_mailbox_create)\<lparr>at_username := ''al@a.org''\<rparr>],
     t_alias := [\<lparr>al_id = 1, al_address = ''al@a.org'', al_goto = ''al@a.org'', al_domain = ''a.org'',
       al_private_comment = [], al_public_comment = [], al_sogo_visible = True, al_internal = False,
       al_active = False\<rparr>]\<rparr>"

lemma update_inactive_mailbox_fails_witness:
  "transaction (update_mailbox toy_mailbox_manager ''al@a.org'' (no_mailbox_update\<lparr>mu_active := Some True\<rparr>))
     (toy_world inactive_db) = (Inl IntegrityError, toy_world inactive_db)"
proof -
  have "unique_keys inactive_db" by code_simp
  moreover have "mailbox_join ''al@a.org'' inactive_db =
      [(inactive_mailbox, hd (t_quota2 inactive_db), hd (t_user_attributes inactive_db))]"
    by code_simp
  moreover have "filter (\<lambda>a. al_address a = ''al@a.org'') (t_alias inactive_db) = [hd (t_alias inactive_db)]"
    by code_simp
  moreover have "s_flushall (so_memcached (mm_sogo toy_mailbox_manager)) [] = (Inr (), [])" by code_simp
  moreover have "\<not> mb_active inactive_mailbox" by code_simp
  ultimately show ?thesis
    using update_inactive_mailbox_fails [of "toy_world inactive_db" inactive_db "''al@a.org''" inactive_mailbox
        "hd (t_quota2 inactive_db)" "hd (t_user_attributes inactive_db)" "hd (t_alias inactive_db)"
        "no_mailbox_update\<lparr>mu_active := Some True\<rparr>" toy_mailbox_manager "[]"]
    by (simp add: toy_world_def toy_mailbox_manager_def toy_sogo_def no_mailbox_update_def)
qed

section \<open>Deletion leaves nothing\<close>

text \<open>
  What a mailbox leaves in the tables: rows of its own, and rows of SOGo in one of the folders
  that were the mailbox's before.
\<close>

definition sogo_folders :: "string \<Rightarrow> db \<Rightarrow> int list" where
  "sogo_folders u d =
     map fi_c_folder_id (filter (\<lambda>f. fi_c_path2 f = Some u) (sg_folder_info (t_sogo d)))"

definition sogo_traces :: "string \<Rightarrow> int list \<Rightarrow> sogo_tables \<Rightarrow> bool" where
  "sogo_traces u folders t \<longleftrightarrow>
     u \<in> set (sg_user_profile t) \<or> u \<in> set (sg_cache_folder t) \<or> u \<in> set (sg_acl t) \<or>
     list_ex (\<lambda>f. fi_c_path2 f = Some u) (sg_folder_info t) \<or>
     list_ex (\<lambda>i. i \<in> set folders) (sg_store t) \<or>
     list_ex (\<lambda>q. qc_c_folder_id q \<in> set folders) (sg_quick_contact t) \<or>
     list_ex (\<lambda>i. i \<in> set folders) (sg_quick_appointment t)"

definition mailbox_traces :: "string \<Rightarrow> int list \<Rightarrow> db \<Rightarrow> bool" where
  "mailbox_traces u folders d \<longleftrightarrow>
     list_ex (\<lambda>m. mb_username m = u) (t_mailbox d) \<or>
     list_ex (\<lambda>a. u \<in> set (split_on CHR '','' (al_goto a))) (t_alias d) \<or>
     list_ex (\<lambda>q. qu_rcpt q = Some u) (t_quarantine d) \<or>
     list_ex (\<lambda>q. q2_username q = u) (t_quota2 d) \<or>
     list_ex (\<lambda>q. q2_username q = u) (t_quota2replica d) \<or>
     list_ex (\<lambda>r. sa_logged_in_as r = u \<or> sa_send_as r = u) (t_sender_acl d) \<or>
     list_ex (\<lambda>r. ua_username r = u) (t_user_acl d) \<or>
     list_ex (\<lambda>r. at_username r = u) (t_user_attributes d) \<or>
     list_ex (\<lambda>r. sp_goto r = u) (t_spamalias d) \<or>
     list_ex (\<lambda>r. im_user2 r = u) (t_imapsync d) \<or>
     list_ex (\<lambda>r. fc_object r = u) (t_filterconf d) \<or>
     list_ex (\<lambda>r. bc_local_dest r = u) (t_bcc_maps d) \<or>
     list_ex (\<lambda>r. ap_mailbox r = u) (t_app_passwd d) \<or>
     list_ex (\<lambda>r. sf_username r = u) (t_sieve_filters d) \<or>
     list_ex (\<lambda>r. sv_c_uid r = u) (t_static_view d) \<or>
     sogo_traces u folders (t_sogo d)"

lemma remove_goto_pieces: "u \<noteq> [] \<Longrightarrow> u \<notin> set (split_on CHR '','' (remove_goto u g))"
proof -
  assume u: "u \<noteq> []"
  let ?ps = "filter (\<lambda>a. a \<noteq> u) (split_on CHR '','' g)"
  show ?thesis
  proof (cases "?ps = []")
    case True
    with u show ?thesis by (simp add: remove_goto_def)
  next
    case False
    then have "split_on CHR '','' (join '','' ?ps) = ?ps"
      by (intro split_on_join) (auto dest: split_on_pieces)
    then show ?thesis by (simp add: remove_goto_def)
  qed
qed

text \<open>The database after the deletion, before the static view is refreshed.\<close>

definition deleted_mailbox_db :: "string \<Rightarrow> db \<Rightarrow> db" where
  "deleted_mailbox_db u d =
     (let d1 = delete_mailbox_rows u d;
          ids = map al_id (filter (\<lambda>a. u \<in> set (split_on CHR '','' (al_goto a))) (t_alias d1))
      in d1\<lparr>t_alias := update_where (\<lambda>a. al_id a \<in> set ids)
              (\<lambda>a. a\<lparr>al_goto := remove_goto u (al_goto a)\<rparr>) (t_alias d1),
            t_sogo := delete_user_rows u (t_sogo d1)\<rparr>)"

lemma deleted_tables:
  "t_mailbox (deleted_mailbox_db u d) = delete_where (\<lambda>m. mb_username m = u) (t_mailbox d)"
  "t_quota2 (deleted_mailbox_db u d) = delete_where (\<lambda>q. q2_username q = u) (t_quota2 d)"
  "t_quota2replica (deleted_mailbox_db u d) = delete_where (\<lambda>q. q2_username q = u) (t_quota2replica d)"
  "t_sender_acl (deleted_mailbox_db u d) =
     delete_where (\<lambda>r. sa_logged_in_as r = u \<or> sa_send_as r = u) (t_sender_acl d)"
  "t_user_acl (deleted_mailbox_db u d) = delete_where (\<lambda>r. ua_username r = u) (t_user_acl d)"
  "t_user_attributes (deleted_mailbox_db u d) =
     delete_where (\<lambda>r. at_username r = u) (t_user_attributes d)"
  "t_spamalias (deleted_mailbox_db u d) = delete_where (\<lambda>r. sp_goto r = u) (t_spamalias d)"
  "t_app_passwd (deleted_mailbox_db u d) = delete_where (\<lambda>r. ap_mailbox r = u) (t_app_passwd d)"
  "t_sieve_filters (deleted_mailbox_db u d) = delete_where (\<lambda>r. sf_username r = u) (t_sieve_filters d)"
  "t_quarantine (deleted_mailbox_db u d) = delete_where (\<lambda>q. qu_rcpt q = Some u) (t_quarantine d)"
  "t_imapsync (deleted_mailbox_db u d) = delete_where (\<lambda>r. im_user2 r = u) (t_imapsync d)"
  "t_filterconf (deleted_mailbox_db u d) = delete_where (\<lambda>r. fc_object r = u) (t_filterconf d)"
  "t_bcc_maps (deleted_mailbox_db u d) = delete_where (\<lambda>r. bc_local_dest r = u) (t_bcc_maps d)"
  "t_sogo (deleted_mailbox_db u d) = delete_user_rows u (t_sogo d)"
  "t_static_view (deleted_mailbox_db u d) = t_static_view d"
  by (simp_all add: deleted_mailbox_db_def delete_mailbox_rows_def Let_def)

lemma refreshed_cong: "t_mailbox d = t_mailbox e \<Longrightarrow> refreshed rows d = refreshed rows e"
  by (simp add: refreshed_def fun_eq_iff)

lemma deleted_mailbox_no_traces:
  assumes "u \<noteq> []"
  shows "\<not> mailbox_traces u (sogo_folders u d) ((deleted_mailbox_db u d)
    \<lparr>t_static_view := refreshed rows (delete_mailbox_rows u d) v\<rparr>)"
proof -
  have al: "u \<notin> set (split_on CHR '','' (al_goto a))"
    if "a \<in> set (t_alias (deleted_mailbox_db u d))" for a
    using that remove_goto_pieces [OF assms]
    by (auto simp: deleted_mailbox_db_def Let_def set_update_where split: if_splits)
  have mb: "t_mailbox (delete_mailbox_rows u d) = delete_where (\<lambda>m. mb_username m = u) (t_mailbox d)"
    by (simp add: delete_mailbox_rows_def)
  have sv: "\<forall>r \<in> set (refreshed rows (delete_mailbox_rows u d) v). sv_c_uid r \<noteq> u"
    unfolding refreshed_def mb by auto
  have "\<not> sogo_traces u (sogo_folders u d) (delete_user_rows u (t_sogo d))"
    by (simp add: sogo_traces_def sogo_folders_def delete_user_rows_def Let_def list_ex_iff)
  with al sv show ?thesis
    unfolding mailbox_traces_def list_ex_iff by (simp add: deleted_tables)
qed

lemma unique_keys_deleted_mailbox:
  assumes "unique_keys d" and "distinct (map sv_c_uid v)"
  shows "unique_keys ((deleted_mailbox_db u d)\<lparr>t_static_view := v\<rparr>)"
  using assms
  by (simp add: unique_keys_def deleted_mailbox_db_def delete_mailbox_rows_def Let_def
      map_update_where distinct_delete_where)

context hash_store
begin

lemma delete_mailbox_run:
  assumes "good (w_store w)" and "mm_store mm = ops" and "w_db w = clean d"
    and "so_dialect (mm_sogo mm) = ''sqlite'' \<or> so_dialect (mm_sogo mm) = ''mysql''"
    and "s_flushall (so_memcached (mm_sogo mm)) (w_memcached w) = (Inr (), mc)"
  shows "\<exists>w' rows. delete_mailbox mm u w = (Inr (), w') \<and>
    orm (w_db w') = (deleted_mailbox_db u d)
      \<lparr>t_static_view := refreshed rows (delete_mailbox_rows u d) (t_static_view d)\<rparr> \<and>
    view (w_store w') = hrem (view (w_store w)) ''RL_VALUE'' [u]"
proof -
  let ?d1 = "delete_mailbox_rows u d"
  let ?s = "\<lparr>sql = ?d1\<lparr>t_sogo := delete_user_rows u (t_sogo ?d1)\<rparr>, orm = deleted_mailbox_db u d\<rparr>"
  let ?rows = "map the (static_rows (so_dialect (mm_sogo mm)) (so_default_password (mm_sogo mm)) u (sql ?s))"
  have step: "seqM (on_db (execute (\<lambda>_. delete_mailbox_rows u)))
      (seqM (on_db (rewrite_gotos u)) (seqM (on_db (delete_user u)) n)) w = n (w\<lparr>w_db := ?s\<rparr>)" for n
    using assms(3)
    by (simp add: seqM_def bindM_def on_db_run rewrite_gotos_def delete_user_def
        deleted_mailbox_db_def Let_def)
  have gone: "\<not> exists_where (\<lambda>m. mb_username m = u) (t_mailbox (sql ?s))"
    by (simp add: delete_mailbox_rows_def)
  have tv: "refreshed rows (?d1\<lparr>t_sogo := x\<rparr>) = refreshed rows ?d1" for rows x
    by (rule refreshed_cong) simp
  have "None \<notin> set (static_rows (so_dialect (mm_sogo mm)) (so_default_password (mm_sogo mm)) u (sql ?s))"
    using gone by (simp add: static_rows_null del: exists_where_iff)
  from update_static_view_run [of "mm_sogo mm" u "w\<lparr>w_db := ?s\<rparr>", OF _ assms(4), of mc] this assms(5)
  obtain w2 where w2: "update_static_view (mm_sogo mm) u (w\<lparr>w_db := ?s\<rparr>) = (Inr (), w2)"
    "orm (w_db w2) = (deleted_mailbox_db u d)
      \<lparr>t_static_view := refreshed ?rows ?d1 (t_static_view d)\<rparr>" "w_store w2 = w_store w"
    by (auto simp: Let_def tv deleted_tables)
  obtain n t where t: "s_hdel ops ''RL_VALUE'' [u] (w_store w) = (Inr n, t)"
    "view t = hrem (view (w_store w)) ''RL_VALUE'' [u]"
    using hdel_run [OF assms(1)] by blast
  have "delete_mailbox mm u w = (Inr (), w2\<lparr>w_store := t\<rparr>)"
    unfolding delete_mailbox_def step
    using w2 t(1) assms(2) by (simp add: seqM_def bindM_def on_store_run)
  then show ?thesis using w2(2) t(2) by (intro exI [of _ "w2\<lparr>w_store := t\<rparr>"] exI [of _ ?rows]) simp
qed

end



section \<open>Changing a quota\<close>

lemma sum_list_update_one:
  assumes "distinct (map mb_username ms)" and "m \<in> set ms"
  shows "sum_list (map mb_quota (update_where (\<lambda>x. mb_username x = mb_username m)
      (\<lambda>x. x\<lparr>mb_quota := q\<rparr>) ms)) = sum_list (map mb_quota ms) - mb_quota m + q"
  using assms
proof (induction ms)
  case (Cons a ms)
  show ?case
  proof (cases "a = m")
    case True
    then have "\<forall>x \<in> set ms. mb_username x \<noteq> mb_username m" 
      using Cons.prems(1) by (simp add: image_iff) metis
    then have "update_where (\<lambda>x. mb_username x = mb_username m) (\<lambda>x. x\<lparr>mb_quota := q\<rparr>) ms = ms"
      by simp
    then show ?thesis using True by (simp add: update_where_def)
  next
    case False
    with Cons.prems have "m \<in> set ms" and "mb_username a \<noteq> mb_username m" by auto
    with Cons show ?thesis by (simp add: update_where_def)
  qed
qed simp

lemma set_mailbox_quota_returns:
  assumes "set_mailbox_quota de q s = (Inr (), t)"
  shows "mi_quota_used de \<le> q \<and> sql t = sql s \<and>
    orm t = (orm s)\<lparr>t_mailbox := update_where (\<lambda>m. mb_username m = mi_username de)
      (\<lambda>m. m\<lparr>mb_quota := q\<rparr>) (t_mailbox (orm s))\<rparr> \<and>
    (\<exists>r. filter (\<lambda>r. do_domain r = mi_domain de) (t_domain (sql s)) = [r] \<and> q \<le> do_maxquota r \<and>
      sum_list (map mb_quota (mailboxes_in (mi_domain de) (sql s))) - mi_quota de + q \<le> do_quota r)"
  using assms
  by (auto simp: set_mailbox_quota_def Let_def bindM_returns seqM_returns get_domain_data_returns
      get_mailbox_usage_def get_mailbox_data_domain_def set_mailbox_def split: if_splits)

text \<open>
  C38. Changing the quota of a mailbox by itself never sets it below what is in use nor above the
  limit for a mailbox, and leaves the sum of the quotas of the domain within the domain's quota.
\<close>
theorem set_mailbox_quota_within_limits:
  assumes "set_mailbox_quota de q (clean d) = (Inr (), t)" and "unique_keys d"
    and "m \<in> set (t_mailbox d)" and "mb_kind m = []" and "mi_username de = mb_username m"
    and "mi_domain de = mb_domain m" and "mi_quota de = mb_quota m"
  shows "mi_quota_used de \<le> q \<and> m\<lparr>mb_quota := q\<rparr> \<in> set (t_mailbox (orm t)) \<and>
    list_all (\<lambda>r. do_domain r = mb_domain m \<longrightarrow> q \<le> do_maxquota r \<and>
      sum_list (map mb_quota (mailboxes_in (mb_domain m) (orm t))) \<le> do_quota r) (t_domain (orm t))"
proof -
  obtain r where used: "mi_quota_used de \<le> q" and sql: "sql t = d"
    and o: "orm t = d\<lparr>t_mailbox := update_where (\<lambda>x. mb_username x = mb_username m)
      (\<lambda>m. m\<lparr>mb_quota := q\<rparr>) (t_mailbox d)\<rparr>"
    and r: "filter (\<lambda>r. do_domain r = mb_domain m) (t_domain d) = [r]" "q \<le> do_maxquota r"
      "sum_list (map mb_quota (mailboxes_in (mb_domain m) d)) - mb_quota m + q \<le> do_quota r"
    using set_mailbox_quota_returns [OF assms(1)] assms(5-7) by auto
  let ?p = "\<lambda>x. mb_kind x = [] \<and> mb_domain x = mb_domain m"
  have "filter ?p (update_where (\<lambda>x. mb_username x = mb_username m) (\<lambda>m. m\<lparr>mb_quota := q\<rparr>) ms) =
      update_where (\<lambda>x. mb_username x = mb_username m) (\<lambda>m. m\<lparr>mb_quota := q\<rparr>) (filter ?p ms)" for ms
    by (induction ms) (auto simp: update_where_def)
  then have "mailboxes_in (mb_domain m) (orm t) = update_where (\<lambda>x. mb_username x = mb_username m)
      (\<lambda>m. m\<lparr>mb_quota := q\<rparr>) (mailboxes_in (mb_domain m) d)"
    by (simp add: mailboxes_in_def o)
  moreover have "distinct (map mb_username (mailboxes_in (mb_domain m) d))"
    and "m \<in> set (mailboxes_in (mb_domain m) d)"
    using assms(2-4) by (simp_all add: unique_keys_def mailboxes_in_def distinct_map_filter)
  ultimately have "sum_list (map mb_quota (mailboxes_in (mb_domain m) (orm t))) =
      sum_list (map mb_quota (mailboxes_in (mb_domain m) d)) - mb_quota m + q"
    using sum_list_update_one by metis
  moreover have "s = r" if "s \<in> set (t_domain d)" "do_domain s = mb_domain m" for s
  proof -
    have "s \<in> set (filter (\<lambda>r. do_domain r = mb_domain m) (t_domain d))" using that by simp
    then show ?thesis by (simp add: r(1))
  qed
  moreover have "m\<lparr>mb_quota := q\<rparr> \<in> set (t_mailbox (orm t))"
    using assms(3) by (auto simp: o set_update_where image_iff)
  ultimately show ?thesis using used r by (auto simp: list_all_iff o)
qed

lemma set_mailbox_quota_within_limits_witness:
  "\<exists>t. set_mailbox_quota \<lparr>mi_username = ''al@a.org'', mi_active = True, mi_domain = ''a.org'',
        mi_name = None, mi_local_part = ''al'', mi_quota = 1, mi_quota_used = 1, mi_messages = 0,
        mi_attributes = new_user_attributes toy_mailbox_create, mi_last_imap_login = None,
        mi_last_smtp_login = None, mi_last_pop3_login = None, mi_last_sso_login = None\<rparr> 4
      (clean domain_db) = (Inr (), t) \<and>
     (plain_mailbox ''al'' ''a.org'' 1)\<lparr>mb_quota := 4\<rparr> \<in> set (t_mailbox (orm t))"
  (is "\<exists>t. ?run = _ \<and> _")
proof -
  have "fst ?run = Inr ()" by code_simp
  then have run: "?run = (Inr (), snd ?run)" by (simp add: prod_eq_iff)
  have uk: "unique_keys domain_db" by code_simp
  have mem: "plain_mailbox ''al'' ''a.org'' 1 \<in> set (t_mailbox domain_db)"
    by (simp add: domain_db_def)
  have "mb_kind (plain_mailbox ''al'' ''a.org'' 1) = []"
    "mb_username (plain_mailbox ''al'' ''a.org'' 1) = ''al@a.org''"
    "mb_domain (plain_mailbox ''al'' ''a.org'' 1) = ''a.org''"
    "mb_quota (plain_mailbox ''al'' ''a.org'' 1) = 1"
    by (simp_all add: plain_mailbox_def)
  with set_mailbox_quota_within_limits [OF run uk mem]
  have "(plain_mailbox ''al'' ''a.org'' 1)\<lparr>mb_quota := 4\<rparr> \<in> set (t_mailbox (orm (snd ?run)))"
    by (simp only: mailbox_details.simps simp_thms)
  with run show ?thesis by blast
qed

end
