(* ===== verification/Auth.thy ===== *)
theory Auth
  imports Models Password
begin

text \<open>
  src/backend/taramail/auth.py: authentication of a mailbox against the database, and the manager
  that asks its backends in turn. A backend is a program on the session.
\<close>

record auth_context =
  ax_ip :: string
  ax_service :: string

type_synonym auth_backend = "string \<Rightarrow> string \<Rightarrow> auth_context \<Rightarrow> (session, py_exn, bool) sem"

definition active_passwords :: "string \<Rightarrow> db \<Rightarrow> string list" where
  "active_passwords username d =
     concat (map (\<lambda>m. map (\<lambda>_. mb_password m)
         (filter (\<lambda>r. do_domain r = mb_domain m \<and> do_active r) (t_domain d)))
       (filter (\<lambda>m. mb_kind m \<notin> set [''location'', ''thing'', ''group''] \<and>
          mb_username m = username \<and> mb_active m) (t_mailbox d)))"

definition mailbox_authenticate :: "bcrypt_api \<Rightarrow> auth_backend" where
  "mailbox_authenticate bcrypt username password context =
     bindM (query (active_passwords username)) (\<lambda>rows.
     case rows of
       [] \<Rightarrow> ret False
     | hashed # _ \<Rightarrow>
         if hashed \<noteq> [] then verify_password bcrypt password hashed else ret False)"

fun authenticate :: "auth_backend list \<Rightarrow> auth_backend" where
  "authenticate [] username password context = ret False"
| "authenticate (backend # backends) username password context =
     bindM (backend username password context) (\<lambda>ok.
     if ok then ret True else authenticate backends username password context)"

section \<open>Properties\<close>

text \<open>A mailbox that may log in with a password: it and its domain are active.\<close>

definition may_log_in :: "bcrypt_api \<Rightarrow> db \<Rightarrow> string \<Rightarrow> string \<Rightarrow> bool" where
  "may_log_in bcrypt d username password \<longleftrightarrow>
     list_ex (\<lambda>m. mb_username m = username \<and> mb_active m \<and>
       mb_kind m \<notin> set [''location'', ''thing'', ''group''] \<and>
       list_ex (\<lambda>r. do_domain r = mb_domain m \<and> do_active r) (t_domain d) \<and>
       (case match_scheme (mb_password m) of
          Some (scheme, hashed) \<Rightarrow> scheme = ''BLF-CRYPT'' \<and> checkpw bcrypt password hashed
        | None \<Rightarrow> False)) (t_mailbox d)"

lemma mailbox_authenticate_returns:
  assumes "mailbox_authenticate bcrypt username password context s = (Inr True, t)"
  shows "may_log_in bcrypt (sql s) username password"
proof -
  obtain hashed rest where h: "active_passwords username (sql s) = hashed # rest"
    and v: "verify_password bcrypt password hashed s = (Inr True, t)"
    using assms by (auto simp: mailbox_authenticate_def split: list.splits if_splits)
  have "hashed \<in> set (active_passwords username (sql s))" using h by simp
  then obtain m where m: "m \<in> set (t_mailbox (sql s))" "mb_password m = hashed"
    "mb_kind m \<notin> set [''location'', ''thing'', ''group'']" "mb_username m = username" "mb_active m"
    "list_ex (\<lambda>r. do_domain r = mb_domain m \<and> do_active r) (t_domain (sql s))"
    by (auto simp: active_passwords_def list_ex_iff)
  from v obtain h2 where "match_scheme hashed = Some (''BLF-CRYPT'', h2)" "checkpw bcrypt password h2"
    by (auto simp: verify_password_def split: option.splits prod.splits if_splits)
  with m show ?thesis unfolding may_log_in_def list_ex_iff by (intro bexI [of _ m]) auto
qed

text \<open>
  C16. A user authenticates only as a mailbox that exists, is active, is no resource, belongs to
  an active domain and whose stored hash bcrypt accepts for the password, and authenticating
  changes nothing.
\<close>
theorem authenticate_sound:
  assumes "authenticate [mailbox_authenticate bcrypt] username password context s = (Inr True, t)"
  shows "may_log_in bcrypt (sql s) username password \<and> t = s"
proof -
  have run: "mailbox_authenticate bcrypt username password context s = (Inr True, t)"
    using assms by (auto simp: bindM_returns split: if_splits)
  moreover from run have "t = s"
    by (auto simp: mailbox_authenticate_def verify_password_def
        split: list.splits if_splits option.splits)
  ultimately show ?thesis using mailbox_authenticate_returns by blast
qed

definition auth_db :: "bool \<Rightarrow> db" where
  "auth_db active = empty_db
     \<lparr>t_mailbox := [\<lparr>mb_username = ''jo@a.org'', mb_password = ''{BLF-CRYPT}wp'', mb_name = None,
        mb_description = None, mb_quota = 1, mb_local_part = ''jo'', mb_domain = ''a.org'',
        mb_kind = [], mb_multiple_bookings = -1, mb_active = True\<rparr>],
      t_domain := [\<lparr>do_domain = ''a.org'', do_description = None, do_aliases = 4, do_mailboxes = 3,
        do_defquota = 1, do_maxquota = 6, do_quota = 9, do_relayhost = 0, do_backupmx = False,
        do_gal = True, do_relay_all_recipients = False, do_relay_unknown_only = False,
        do_active = active\<rparr>]\<rparr>"

definition toy_bcrypt :: bcrypt_api where
  "toy_bcrypt = \<lparr>checkpw = (\<lambda>p h. h = rev p), hashpw = (\<lambda>p salt. rev p)\<rparr>"

lemma authenticate_sound_witness:
  "may_log_in toy_bcrypt (auth_db True) ''jo@a.org'' ''pw''"
proof -
  have "fst (authenticate [mailbox_authenticate toy_bcrypt] ''jo@a.org'' ''pw''
      \<lparr>ax_ip = [], ax_service = []\<rparr> (clean (auth_db True))) = Inr True"
    by code_simp
  then have "authenticate [mailbox_authenticate toy_bcrypt] ''jo@a.org'' ''pw''
      \<lparr>ax_ip = [], ax_service = []\<rparr> (clean (auth_db True)) =
    (Inr True, snd (authenticate [mailbox_authenticate toy_bcrypt] ''jo@a.org'' ''pw''
      \<lparr>ax_ip = [], ax_service = []\<rparr> (clean (auth_db True))))"
    by (simp add: prod_eq_iff)
  from authenticate_sound [OF this] show ?thesis by simp
qed

end
