(* ===== verification/Rspamd.thy ===== *)
theory Rspamd
  imports Email Store Models
begin

text \<open>
  src/backend/taramail/rspamd.py, the parts rspamd asks while it scans a message: \<open>RspamdAliasexp\<close>,
  which expands an alias to the one mailbox behind it, and \<open>RspamdBcc\<close>. Both only read the database
  \<open>d\<close>; the expansion also reads the store. \<open>email_str\<close> is the validation of pydantic's \<open>EmailStr\<close>:
  the address it normalises to, or \<open>None\<close>. The order in which \<open>list(set(...))\<close> lists a set is the
  parameter \<open>arrange\<close>.
\<close>

section \<open>RspamdAliasexp\<close>

definition valid_email :: "(string \<Rightarrow> string option) \<Rightarrow> string \<Rightarrow> bool" where
  "valid_email email_str s \<longleftrightarrow> email_str s \<noteq> None"

text \<open>\<open>if x := ...\<close> takes neither \<open>None\<close> nor an empty string.\<close>

definition nonempty :: "string option \<Rightarrow> string option" where
  "nonempty x = (if x = Some [] then None else x)"

definition active_goto :: "db \<Rightarrow> string \<Rightarrow> string option" where
  "active_goto d address =
     map_option al_goto (first_where (\<lambda>a. al_address a = address \<and> al_active a) (t_alias d))"

definition target_domain :: "db \<Rightarrow> string \<Rightarrow> string option" where
  "target_domain d domain =
     map_option ad_target_domain
       (first_where (\<lambda>a. ad_alias_domain a = domain \<and> ad_active a) (t_alias_domain d))"

definition initial_gotos :: "db \<Rightarrow> string \<Rightarrow> string \<Rightarrow> string \<Rightarrow> string list" where
  "initial_gotos d email local_part domain =
     (case nonempty (active_goto d email) of
        Some goto \<Rightarrow> split_on CHR '','' goto
      | None \<Rightarrow>
     (case nonempty (active_goto d (''@'' @ domain)) of
        Some catchall \<Rightarrow> split_on CHR '','' catchall
      | None \<Rightarrow>
     (case nonempty (target_domain d domain) of
        Some target \<Rightarrow> [join_email local_part target]
      | None \<Rightarrow> [])))"

definition get_gotos ::
  "(string \<Rightarrow> bool) \<Rightarrow> 's store_ops \<Rightarrow> db \<Rightarrow> string \<Rightarrow> ('s, py_exn, string list) sem" where
  "get_gotos is_email ops d email =
     bindM (bindM (split_email is_email email) unpack2) (\<lambda>(local_part, domain).
     bindM (s_hget ops ''DOMAIN_MAP'' domain) (\<lambda>managed.
     seqM (raise_when (nonempty managed = None)
       (DomainNotFoundError (''Domain not managed: '' @ domain)))
     (ret (initial_gotos d email local_part domain))))"

definition get_mailbox :: "db \<Rightarrow> string \<Rightarrow> string option" where
  "get_mailbox d email =
     map_option mb_username (first_where (\<lambda>m. mb_username m = email \<and> mb_active m) (t_mailbox d))"

definition branches :: "db \<Rightarrow> string \<Rightarrow> string \<Rightarrow> string \<Rightarrow> string list" where
  "branches d goto local_part domain =
     (case nonempty (active_goto d goto) of
        Some alias \<Rightarrow> split_on CHR '','' alias
      | None \<Rightarrow>
     (case nonempty (target_domain d domain) of
        Some target \<Rightarrow> [join_email local_part target]
      | None \<Rightarrow> []))"

definition expand_goto ::
  "(string \<Rightarrow> bool) \<Rightarrow> 's store_ops \<Rightarrow> db \<Rightarrow> string \<Rightarrow> ('s, py_exn, string list) sem" where
  "expand_goto is_email ops d goto =
     bindM (catchM (bindM (bindM (split_email is_email goto) unpack2) (\<lambda>parts. ret (Some parts)))
       (\<lambda>e. case e of InvalidEmail _ \<Rightarrow> ret None | _ \<Rightarrow> throw e)) (\<lambda>parts.
     case parts of
       None \<Rightarrow> ret []
     | Some (local_part, domain) \<Rightarrow>
         bindM (s_hget ops ''DOMAIN_MAP'' domain) (\<lambda>managed.
         ret (if nonempty managed = None then [] else branches d goto local_part domain)))"

text \<open>One round of the loop over \<open>gotos\<close>, with \<open>new_gotos\<close> and \<open>final_mailboxes\<close> so far.\<close>

fun expand_round ::
  "(string \<Rightarrow> bool) \<Rightarrow> 's store_ops \<Rightarrow> db \<Rightarrow> string list \<Rightarrow> string list \<Rightarrow> string list \<Rightarrow>
     ('s, py_exn, string list \<times> string list) sem" where
  "expand_round is_email ops d [] new_gotos final = ret (new_gotos, final)"
| "expand_round is_email ops d (goto # gotos) new_gotos final =
     (case nonempty (get_mailbox d goto) of
        Some username \<Rightarrow> expand_round is_email ops d gotos new_gotos (List.insert username final)
      | None \<Rightarrow>
          bindM (expand_goto is_email ops d goto) (\<lambda>goto_branches.
          expand_round is_email ops d gotos (new_gotos @ goto_branches) final))"

text \<open>The \<open>while\<close> loop, by the number of rounds that \<open>loop_count <= max_loops\<close> still allows.\<close>

fun expand_rounds ::
  "(string \<Rightarrow> bool) \<Rightarrow> 's store_ops \<Rightarrow> db \<Rightarrow> (string list \<Rightarrow> string list) \<Rightarrow> nat \<Rightarrow> string list \<Rightarrow>
     string list \<Rightarrow> ('s, py_exn, string list) sem" where
  "expand_rounds is_email ops d arrange 0 gotos final = ret final"
| "expand_rounds is_email ops d arrange (Suc rounds) gotos final =
     (if gotos = [] then ret final
      else bindM (expand_round is_email ops d gotos [] final) (\<lambda>(new_gotos, final').
           expand_rounds is_email ops d arrange rounds (arrange new_gotos) final'))"

definition expand_alias ::
  "(string \<Rightarrow> string option) \<Rightarrow> 's store_ops \<Rightarrow> db \<Rightarrow> (string list \<Rightarrow> string list) \<Rightarrow> int \<Rightarrow>
     string option \<Rightarrow> ('s, py_exn, string) sem" where
  "expand_alias email_str ops d arrange max_loops header =
     (case Option.bind header email_str of
        None \<Rightarrow> throw (PydanticValidationError ''rcpt'')
      | Some rcpt \<Rightarrow>
          (let email = strip_email_tags rcpt; is_email = valid_email email_str in
           bindM (get_gotos is_email ops d email) (\<lambda>gotos.
           bindM (expand_rounds is_email ops d arrange (nat (max_loops + 1)) gotos []) (\<lambda>final.
           ret (case final of [username] \<Rightarrow> username | _ \<Rightarrow> [])))))"

section \<open>RspamdBcc\<close>

definition bcc_dest_for ::
  "(string \<Rightarrow> bool) \<Rightarrow> db \<Rightarrow> string option \<times> string \<Rightarrow> string option" where
  "bcc_dest_for is_email d = (\<lambda>(local_dest, bcc_type).
     case nonempty local_dest of
       None \<Rightarrow> None
     | Some dest \<Rightarrow>
         (let stripped = strip_email_tags dest in
          case nonempty (map_option bc_bcc_dest (first_where (\<lambda>b. bc_type b = Some bcc_type \<and>
              bc_local_dest b = stripped \<and> bc_active b) (t_bcc_maps d))) of
            None \<Rightarrow> None
          | Some bcc_dest \<Rightarrow> if is_email bcc_dest then Some bcc_dest else None))"

text \<open>pydantic validates both arguments as \<open>AliasStr | None\<close> before the loop.\<close>

definition bcc_argument ::
  "(string \<Rightarrow> bool) \<Rightarrow> (string \<Rightarrow> string + string) \<Rightarrow> string option \<Rightarrow> ('s, py_exn, string option) sem" where
  "bcc_argument is_email idna_encode arg =
     (case arg of
        None \<Rightarrow> ret None
      | Some v \<Rightarrow>
          (case validate_alias is_email idna_encode v of
             Inl e \<Rightarrow> throw (PydanticValidationError e)
           | Inr s \<Rightarrow> ret (Some s)))"

definition get_bcc_dest ::
  "(string \<Rightarrow> bool) \<Rightarrow> (string \<Rightarrow> string + string) \<Rightarrow> db \<Rightarrow> string option \<Rightarrow> string option \<Rightarrow>
     ('s, py_exn, string) sem" where
  "get_bcc_dest is_email idna_encode d rcpt sender =
     bindM (bcc_argument is_email idna_encode rcpt) (\<lambda>rcpt.
     bindM (bcc_argument is_email idna_encode sender) (\<lambda>sender.
     ret (case bcc_dest_for is_email d (rcpt, ''rcpt'') of
            Some dest \<Rightarrow> dest
          | None \<Rightarrow>
              (case bcc_dest_for is_email d (sender, ''sender'') of
                 Some dest \<Rightarrow> dest | None \<Rightarrow> []))))"

section \<open>What the expansion reaches\<close>

text \<open>
  The reference: an address that is no active mailbox forwards to the branches of its alias or of its
  alias domain, when its domain is managed.
\<close>

definition mailbox_at :: "db \<Rightarrow> string \<Rightarrow> bool" where
  "mailbox_at d g \<longleftrightarrow> g \<noteq> [] \<and> (\<exists>m \<in> set (t_mailbox d). mb_username m = g \<and> mb_active m)"

definition forwards :: "(string \<Rightarrow> bool) \<Rightarrow> (string \<Rightarrow> bool) \<Rightarrow> db \<Rightarrow> (string \<times> string) set" where
  "forwards is_email managed d =
     {(g, h). \<not> mailbox_at d g \<and> is_email g \<and> managed (after CHR ''@'' g) \<and>
        h \<in> set (branches d g (before CHR ''@'' g) (after CHR ''@'' g))}"

definition reached ::
  "(string \<Rightarrow> bool) \<Rightarrow> (string \<Rightarrow> bool) \<Rightarrow> db \<Rightarrow> nat \<Rightarrow> string set \<Rightarrow> string set" where
  "reached is_email managed d n gotos =
     {m. mailbox_at d m \<and> (\<exists>g \<in> gotos. \<exists>k < n. (g, m) \<in> forwards is_email managed d ^^ k)}"

text \<open>What the documentation of \<open>EmailStr\<close> says: one at sign, which no quoted part can hide.\<close>

definition one_at :: "(string \<Rightarrow> bool) \<Rightarrow> bool" where
  "one_at is_email \<longleftrightarrow> (\<forall>e. is_email e \<longrightarrow> length (split_on CHR ''@'' e) = 2)"

lemma get_mailbox_nonempty:
  "nonempty (get_mailbox d g) = (if mailbox_at d g then Some g else None)"
proof (cases "first_where (\<lambda>m. mb_username m = g \<and> mb_active m) (t_mailbox d)")
  case None
  then show ?thesis by (auto simp: get_mailbox_def nonempty_def mailbox_at_def)
next
  case (Some m)
  with first_where_Some [OF Some] show ?thesis
    by (auto simp: get_mailbox_def nonempty_def mailbox_at_def)
qed

lemma split_two:
  "length (split_on c s) = 2 \<Longrightarrow> split_on c s = [before c s, after c s]"
proof (induction s)
  case (Cons a s)
  show ?case
  proof (cases "a = c")
    case True
    with Cons.prems have "length (split_on c s) = 1" by simp
    then obtain x where x: "split_on c s = [x]" by (auto simp: length_Suc_conv)
    with join_split_on [of c s] have "x = s" by simp
    with True x show ?thesis by (simp add: before_def after_def)
  next
    case False
    obtain y ys where y: "split_on c s = y # ys" by (meson split_on_not_Nil neq_Nil_conv)
    with False Cons show ?thesis by (simp add: before_def after_def)
  qed
qed simp

lemma split_unpack:
  assumes "one_at is_email" and "is_email e"
  shows "bindM (split_email is_email e) unpack2 =
    (ret (before CHR ''@'' e, after CHR ''@'' e) :: ('s, py_exn, string \<times> string) sem)"
proof -
  from assms have "split_on CHR ''@'' e = [before CHR ''@'' e, after CHR ''@'' e]"
    by (intro split_two) (simp add: one_at_def)
  with assms(2) show ?thesis by (simp add: split_email_def fun_eq_iff)
qed

context hash_store
begin

definition managed :: "'s \<Rightarrow> string \<Rightarrow> bool" where
  "managed s domain \<longleftrightarrow> nonempty (view s ''DOMAIN_MAP'' domain) \<noteq> None"

lemma managed_view: "view t = view s \<Longrightarrow> managed t = managed s"
  by (simp add: managed_def fun_eq_iff)

lemma expand_goto_run:
  assumes "one_at is_email" and "good s" and "\<not> mailbox_at d g"
  shows "\<exists>t bs. expand_goto is_email ops d g s = (Inr bs, t) \<and> good t \<and> view t = view s \<and>
    set bs = forwards is_email (managed s) d `` {g}"
proof (cases "is_email g")
  case False
  with assms(2) show ?thesis
    by (intro exI [of _ s]) (simp add: expand_goto_def split_email_def bindM_def catchM_def forwards_def)
next
  case True
  let ?d = "after CHR ''@'' g"
  obtain t where t: "s_hget ops ''DOMAIN_MAP'' ?d s = (Inr (view s ''DOMAIN_MAP'' ?d), t)"
    "good t" "view t = view s"
    using hget_run [OF assms(2)] by blast
  have "expand_goto is_email ops d g s =
      (Inr (if managed s ?d then branches d g (before CHR ''@'' g) ?d else []), t)"
    unfolding expand_goto_def split_unpack [OF assms(1) True] bindM_ret catchM_ret option.case prod.case
    using t(1) by (simp add: bindM_def managed_def)
  with t True assms(3) show ?thesis
    by (intro exI [of _ t] exI conjI) (auto simp: forwards_def)
qed

lemma expand_round_run:
  assumes "one_at is_email" and "good s" and "distinct final"
  shows "\<exists>t new' final'. expand_round is_email ops d gotos new final s = (Inr (new', final'), t) \<and>
    good t \<and> view t = view s \<and> distinct final' \<and>
    set new' = set new \<union> forwards is_email (managed s) d `` set gotos \<and>
    set final' = set final \<union> {g \<in> set gotos. mailbox_at d g}"
  using assms(2,3)
proof (induction gotos arbitrary: new final s)
  case (Cons g gotos)
  show ?case
  proof (cases "mailbox_at d g")
    case True
    then have "forwards is_email (managed s) d `` set (g # gotos) =
        forwards is_email (managed s) d `` set gotos"
      by (auto simp: forwards_def)
    with Cons.IH [OF Cons.prems(1), of "List.insert g final" new] Cons.prems(2) True
    show ?thesis by (auto simp: get_mailbox_nonempty)
  next
    case False
    obtain t bs where t: "expand_goto is_email ops d g s = (Inr bs, t)" "good t" "view t = view s"
      "set bs = forwards is_email (managed s) d `` {g}"
      using expand_goto_run [OF assms(1) Cons.prems(1) False] by blast
    from Cons.IH [OF t(2) Cons.prems(2), of "new @ bs"] False t managed_view [OF t(3)]
    show ?thesis by (auto simp: get_mailbox_nonempty bindM_def Image_Un)
  qed
qed auto

lemma reached_Suc:
  "reached is_email m d (Suc n) G =
     {g \<in> G. mailbox_at d g} \<union> reached is_email m d n (forwards is_email m d `` G)"
proof -
  have "(\<exists>k < Suc n. (g, x) \<in> R ^^ k) \<longleftrightarrow> g = x \<or> (\<exists>h. (g, h) \<in> R \<and> (\<exists>k < n. (h, x) \<in> R ^^ k))"
    for g x and R :: "(string \<times> string) set"
    by (auto simp: less_Suc_eq_0_disj elim!: relpow_Suc_E2 intro: relpow_Suc_I2 exI [of _ "Suc _"])
  then show ?thesis by (auto simp: reached_def)
qed

lemma expand_rounds_run:
  assumes "one_at is_email" and "\<And>xs. set (arrange xs) = set xs" and "good s" and "distinct final"
  shows "\<exists>t final'. expand_rounds is_email ops d arrange n gotos final s = (Inr final', t) \<and>
    good t \<and> view t = view s \<and> distinct final' \<and>
    set final' = set final \<union> reached is_email (managed s) d n (set gotos)"
  using assms(3,4)
proof (induction n arbitrary: gotos final s)
  case 0
  then show ?case by (auto simp: reached_def)
next
  case (Suc n)
  show ?case
  proof (cases "gotos = []")
    case True
    with Suc.prems show ?thesis by (auto simp: reached_def)
  next
    case False
    obtain t new' final' where t:
      "expand_round is_email ops d gotos [] final s = (Inr (new', final'), t)" "good t"
      "view t = view s" "distinct final'" "set new' = forwards is_email (managed s) d `` set gotos"
      "set final' = set final \<union> {g \<in> set gotos. mailbox_at d g}"
      using expand_round_run [OF assms(1) Suc.prems, of d gotos "[]"] by auto
    from Suc.IH [OF t(2,4), of "arrange new'"] t False assms(2) managed_view [OF t(3)]
    show ?thesis by (auto simp: bindM_def reached_Suc)
  qed
qed

end

lemma only_element:
  assumes "distinct xs"
  shows "(case xs of [x] \<Rightarrow> x | _ \<Rightarrow> y) = (if card (set xs) = 1 then the_elem (set xs) else y)"
proof -
  have "card (set xs) = length xs" using assms by (rule distinct_card)
  then show ?thesis by (cases xs; cases "tl xs") simp_all
qed

section \<open>Properties\<close>

text \<open>
  C3. \<open>expand_alias\<close> answers with the mailbox that the aliases and alias domains of the recipient lead
  to in at most \<open>max_loops\<close> steps when there is exactly one, and with the empty string otherwise,
  whatever cycles the aliases have and in whatever order each round visits its addresses.
\<close>
theorem expand_alias_finds_the_mailbox:
  fixes ops :: "'s store_ops"
  assumes "hash_store ops view good" and "good s" and "one_at (valid_email email_str)"
    and "\<And>xs. set (arrange xs) = set xs" and "email_str r = Some rcpt"
    and "email = strip_email_tags rcpt" and "valid_email email_str email"
    and "managed = (\<lambda>domain. nonempty (view s ''DOMAIN_MAP'' domain) \<noteq> None)"
    and "R = reached (valid_email email_str) managed d (nat (max_loops + 1))
      (set (initial_gotos d email (before CHR ''@'' email) (after CHR ''@'' email)))"
  shows "\<exists>t. expand_alias email_str ops d arrange max_loops (Some r) s =
      (if managed (after CHR ''@'' email)
       then Inr (if card R = 1 then the_elem R else [])
       else Inl (DomainNotFoundError (''Domain not managed: '' @ after CHR ''@'' email)), t) \<and>
    good t \<and> view t = view s"
proof -
  let ?E = "valid_email email_str" and ?dom = "after CHR ''@'' email"
  let ?gotos = "initial_gotos d email (before CHR ''@'' email) ?dom"
  have m: "managed = hash_store.managed view s"
    by (simp add: assms(8) hash_store.managed_def [OF assms(1)] fun_eq_iff)
  obtain t where t: "s_hget ops ''DOMAIN_MAP'' ?dom s = (Inr (view s ''DOMAIN_MAP'' ?dom), t)"
    "good t" "view t = view s"
    using hash_store.hget_run [OF assms(1), OF assms(2)] by blast
  have gotos: "get_gotos ?E ops d email s =
      (if managed ?dom then Inr ?gotos
       else Inl (DomainNotFoundError (''Domain not managed: '' @ ?dom)), t)"
    unfolding get_gotos_def split_unpack [OF assms(3,7)] bindM_ret prod.case
    using t(1) by (simp add: bindM_def assms(8))
  have run: "expand_alias email_str ops d arrange max_loops (Some r) =
      bindM (get_gotos ?E ops d email) (\<lambda>gotos.
      bindM (expand_rounds ?E ops d arrange (nat (max_loops + 1)) gotos []) (\<lambda>final.
      ret (case final of [username] \<Rightarrow> username | _ \<Rightarrow> [])))"
    by (simp add: expand_alias_def assms(5) assms(6) [symmetric] Let_def)
  show ?thesis
  proof (cases "managed ?dom")
    case False
    with gotos t show ?thesis by (simp add: run bindM_def)
  next
    case True
    obtain u final where u: "expand_rounds ?E ops d arrange (nat (max_loops + 1)) ?gotos [] t =
        (Inr final, u)" "good u" "view u = view t" "distinct final" "set final = R"
      using hash_store.expand_rounds_run [OF assms(1), OF assms(3,4) t(2), of "[]" d
          "nat (max_loops + 1)" ?gotos] hash_store.managed_view [OF assms(1) t(3)]
      by (auto simp: assms(9) m)
    with gotos True t(3) only_element [OF u(4), of "[]"] show ?thesis by (simp add: run bindM_def)
  qed
qed

text \<open>
  The aliases \<open>sales\<close> and \<open>team\<close> name each other; behind both there is only \<open>bob\<close>. Another order of
  the rounds gives the same answer.
\<close>

definition example_alias :: "nat \<Rightarrow> string \<Rightarrow> string \<Rightarrow> alias_row" where
  "example_alias i a g = \<lparr>al_id = i, al_address = a, al_goto = g, al_domain = ''a.org'',
     al_private_comment = [], al_public_comment = [], al_sogo_visible = True, al_internal = False,
     al_active = True\<rparr>"

definition example_db :: db where
  "example_db = empty_db
     \<lparr>t_alias := [example_alias 1 ''sales@a.org'' ''team@a.org,bob@a.org'',
                 example_alias 2 ''team@a.org'' ''sales@a.org'',
                 example_alias 3 ''bob@a.org'' ''bob@a.org''],
      t_mailbox := [\<lparr>mb_username = ''bob@a.org'', mb_password = [], mb_name = None,
        mb_description = None, mb_quota = 0, mb_local_part = ''bob'', mb_domain = ''a.org'',
        mb_kind = [], mb_multiple_bookings = 0, mb_active = True\<rparr>]\<rparr>"

definition example_store :: memory_store where
  "example_store = [(''DOMAIN_MAP'', \<lparr>mr_data = MDict [(''a.org'', ''1'')], mr_expires = None\<rparr>)]"

definition example_email :: "string \<Rightarrow> string option" where
  "example_email s = (if length (split_on CHR ''@'' s) = 2 then Some s else None)"

lemma fst_of: "\<exists>t. r = (x, t) \<and> P t \<Longrightarrow> fst r = x"
  by auto

lemma expand_alias_finds_the_mailbox_witness:
  "fst (expand_alias example_email (memory_ops 0) example_db (\<lambda>xs. rev (dedup xs)) 20
     (Some ''sales+x@a.org'') example_store) = Inr ''bob@a.org''"
proof -
  let ?run = "\<lambda>arrange. fst (expand_alias example_email (memory_ops 0) example_db arrange 20
    (Some ''sales+x@a.org'') example_store)"
  have good: "memory_good 0 example_store"
    by (simp add: memory_good_def example_store_def record_good_def expired_def dict_keys_def)
  have one: "one_at (valid_email example_email)"
    by (simp add: one_at_def valid_email_def example_email_def)
  have e: "example_email ''sales+x@a.org'' = Some ''sales+x@a.org''"
    "''sales@a.org'' = strip_email_tags ''sales+x@a.org''" "valid_email example_email ''sales@a.org''"
    by code_simp+
  have "?run arrange = ?run dedup" if "\<And>xs. set (arrange xs) = set xs" for arrange
  proof -
    note run = expand_alias_finds_the_mailbox [OF memory.hash_store_axioms good one _ e refl refl,
      of _ example_db 20]
    have "set (dedup xs) = set xs" for xs :: "string list" by simp
    note same = run [OF that, THEN fst_of] run [OF this, THEN fst_of]
    show ?thesis by (rule trans [OF same(1) sym [OF same(2)]])
  qed
  moreover have "?run dedup = Inr ''bob@a.org''" by code_simp
  ultimately show ?thesis by simp
qed

end
