(* ===== verification/RspamdSettings.thy ===== *)
theory RspamdSettings
  imports Rspamd "HOL-Library.Char_ord" "HOL-Library.List_Lexorder"
begin

text \<open>
  \<open>RspamdSettings\<close> of src/backend/taramail/rspamd.py: what the template of the user settings of rspamd
  is filled with. All of it only reads the database \<open>d\<close>; a query without \<open>ORDER BY\<close> is taken to give
  the rows in the order of the table. What can raise is a program, over any state. The reading of
  text as a float and the subtraction of one are parameters.
\<close>

section \<open>Patterns\<close>

definition escape_slash :: "string \<Rightarrow> string" where
  "escape_slash s = replace_char CHR ''/'' [CHR 0x5C, CHR ''/''] s"

definition regex_special :: "string" where
  "regex_special =
     ''()[]{}?*+-|^$'' @ [CHR 0x5C] @ ''.&~# '' @ [CHR 9, CHR 10, CHR 13, CHR 11, CHR 12]"

definition re_escape :: "string \<Rightarrow> string" where
  "re_escape s = concat (map (\<lambda>c. if c \<in> set regex_special then [CHR 0x5C, c] else [c]) s)"

text \<open>\<open>s.replace(ab, t)\<close> for a pattern of two different characters.\<close>

fun replace_pair :: "char \<Rightarrow> char \<Rightarrow> string \<Rightarrow> string \<Rightarrow> string" where
  "replace_pair a b t (x # y # s) =
     (if x = a \<and> y = b then t @ replace_pair a b t s else x # replace_pair a b t (y # s))"
| "replace_pair a b t s = s"

definition wildcard :: "string \<Rightarrow> string" where
  "wildcard v = replace_pair CHR 0x5C CHR ''*'' ''.*'' (re_escape v)"

text \<open>\<open>re.sub(r"[^a-zA-Z0-9]+", "", s)\<close>\<close>

definition sane :: "string \<Rightarrow> string" where
  "sane s = filter (\<lambda>c. is_alpha c \<or> is_digit c) s"

section \<open>Domains, aliases and contacts\<close>

definition get_allowed_domains_regex :: "db \<Rightarrow> string" where
  "get_allowed_domains_regex d =
     (let alias_domains = map ad_alias_domain (t_alias_domain d);
          targets = map ad_target_domain (t_alias_domain d);
          active_domains = map do_domain (filter do_active (t_domain d));
          allowed = sort (dedup (active_domains @ alias_domains @ targets))
      in if allowed \<noteq> [] then ''('' @ join ''|'' (map re_escape allowed) @ '')'' else ''()'')"

definition get_internal_aliases :: "db \<Rightarrow> string list" where
  "get_internal_aliases d = map al_address (filter (\<lambda>a. al_active a \<and> al_internal a) (t_alias d))"

definition contact_rows :: "db \<Rightarrow> (string option \<times> string option) list" where
  "contact_rows d =
     dedup (concat (map (\<lambda>f. map (\<lambda>q. (fi_c_path2 f, qc_c_mail q))
       (filter (\<lambda>q. qc_c_folder_id q = fi_c_folder_id f) (sg_quick_contact (t_sogo d))))
       (sg_folder_info (t_sogo d))))"

definition add_contact ::
  "(string \<Rightarrow> bool) \<Rightarrow> string \<Rightarrow> string \<Rightarrow> (string, string list) dict \<Rightarrow> (string, string list) dict" where
  "add_contact is_email user contact res =
     (let c = strip contact in
      if is_email c
      then dict_set user ((case map_of res user of None \<Rightarrow> [] | Some cs \<Rightarrow> cs) @ [c]) res
      else res)"

definition get_sogo_wl :: "(string \<Rightarrow> bool) \<Rightarrow> db \<Rightarrow> (string, string list) dict" where
  "get_sogo_wl is_email d =
     fold (\<lambda>(user, contacts) res.
         fold (add_contact is_email (case user of None \<Rightarrow> [] | Some u \<Rightarrow> u))
           (split_on CHR '','' (case contacts of None \<Rightarrow> [] | Some cs \<Rightarrow> cs)) res)
       (contact_rows d) []"

section \<open>Recipients\<close>

text \<open>The two patterns of an address; one that is no e-mail address only has the second.\<close>

definition address_rcpts :: "(string \<Rightarrow> bool) \<Rightarrow> string \<Rightarrow> ('s, py_exn, string list) sem" where
  "address_rcpts is_email addr =
     bindM (catchM (bindM (bindM (split_email is_email addr) unpack2) (\<lambda>(local_part, domain).
         ret [''/^'' @ escape_slash local_part @ ''[+].*'' @ escape_slash domain @ ''$/i'']))
       (\<lambda>e. case e of InvalidEmail _ \<Rightarrow> ret [] | _ \<Rightarrow> throw e)) (\<lambda>tagged.
     ret (tagged @ [escape_slash addr]))"

definition get_email_rcpts :: "(string \<Rightarrow> bool) \<Rightarrow> db \<Rightarrow> string \<Rightarrow> ('s, py_exn, string list) sem" where
  "get_email_rcpts is_email d email =
     (let std_aliases = map al_address
            (filter (\<lambda>a. al_goto a = email \<and> \<not> sql_like (al_address a) ''@%'') (t_alias d));
          adq = concat (map (\<lambda>m. map (\<lambda>a. mb_local_part m @ ''@'' @ ad_alias_domain a)
              (filter (\<lambda>a. ad_target_domain a = mb_domain m) (t_alias_domain d)))
            (filter (\<lambda>m. mb_username m = email) (t_mailbox d)))
      in bindM (mapM (address_rcpts is_email) (std_aliases @ adq)) (\<lambda>rcpts. ret (concat rcpts)))"

definition get_domain_rcpts :: "(string \<Rightarrow> bool) \<Rightarrow> db \<Rightarrow> string \<Rightarrow> ('s, py_exn, string list) sem" where
  "get_domain_rcpts is_email d domain =
     (let ads = map ad_alias_domain (filter (\<lambda>a. ad_target_domain a = domain) (t_alias_domain d));
          std = map al_address (filter (\<lambda>a. sql_like (al_address a) (''%@'' @ domain)) (t_alias d))
      in bindM (mapM (address_rcpts is_email) std) (\<lambda>rcpts.
         ret (map (\<lambda>x. ''/.*@'' @ x @ ''/i'') (domain # ads) @ concat rcpts)))"

definition get_rcpts :: "(string \<Rightarrow> bool) \<Rightarrow> db \<Rightarrow> string \<Rightarrow> ('s, py_exn, string list) sem" where
  "get_rcpts is_email d obj =
     (if is_email obj then get_email_rcpts is_email d obj else get_domain_rcpts is_email d obj)"

section \<open>Scores and lists\<close>

record 'f rspamd_score_block =
  sb_username_sane :: string
  sb_rcpts :: "string list"
  sb_reject :: 'f
  sb_greylist :: 'f
  sb_add_header :: 'f

record rspamd_list_block =
  lb_username_sane :: string
  lb_priority :: int
  lb_rcpts :: "string list"
  lb_from_list :: "string list"
  lb_from_mime_list :: "string list"

definition objects_with :: "string list \<Rightarrow> db \<Rightarrow> string list" where
  "objects_with options d =
     dedup (map fc_object (filter (\<lambda>f. fc_option f \<in> set options) (t_filterconf d)))"

definition option_values :: "db \<Rightarrow> string \<Rightarrow> string \<Rightarrow> string list" where
  "option_values d obj option =
     map fc_value (filter (\<lambda>f. fc_object f = obj \<and> fc_option f = option) (t_filterconf d))"

definition to_float :: "(string \<Rightarrow> 'f option) \<Rightarrow> string \<Rightarrow> ('s, py_exn, 'f) sem" where
  "to_float float_of s =
     (case float_of s of None \<Rightarrow> throw (ValueError ''could not convert string to float'') | Some x \<Rightarrow> ret x)"

text \<open>\<open>dict(rows)\<close> keeps the last value of an option.\<close>

definition score_block ::
  "(string \<Rightarrow> bool) \<Rightarrow> (string \<Rightarrow> 'f option) \<Rightarrow> ('f \<Rightarrow> 'f) \<Rightarrow> db \<Rightarrow> string \<Rightarrow>
     ('s, py_exn, 'f rspamd_score_block list) sem" where
  "score_block is_email float_of less_one d obj =
     (case (option_values d obj ''highspamlevel'', option_values d obj ''lowspamlevel'') of
        (_ # _, _ # _) \<Rightarrow>
          bindM (get_rcpts is_email d obj) (\<lambda>rcpts.
          bindM (to_float float_of (last (option_values d obj ''highspamlevel''))) (\<lambda>high.
          bindM (to_float float_of (last (option_values d obj ''lowspamlevel''))) (\<lambda>low.
          ret [\<lparr>sb_username_sane = sane obj, sb_rcpts = rcpts, sb_reject = high,
                sb_greylist = less_one low, sb_add_header = low\<rparr>])))
      | _ \<Rightarrow> ret [])"

definition get_custom_scores ::
  "(string \<Rightarrow> bool) \<Rightarrow> (string \<Rightarrow> 'f option) \<Rightarrow> ('f \<Rightarrow> 'f) \<Rightarrow> db \<Rightarrow>
     ('s, py_exn, 'f rspamd_score_block list) sem" where
  "get_custom_scores is_email float_of less_one d =
     bindM (mapM (score_block is_email float_of less_one d)
       (objects_with [''highspamlevel'', ''lowspamlevel''] d)) (\<lambda>blocks. ret (concat blocks))"

definition list_block ::
  "(string \<Rightarrow> bool) \<Rightarrow> db \<Rightarrow> string \<Rightarrow> string \<Rightarrow> string \<Rightarrow> ('s, py_exn, rspamd_list_block) sem" where
  "list_block is_email d option_from option_from_mime obj =
     bindM (get_rcpts is_email d obj) (\<lambda>rcpts.
     ret \<lparr>lb_username_sane = sane obj, lb_priority = (if is_email obj then 6 else 5),
          lb_rcpts = rcpts, lb_from_list = map wildcard (option_values d obj option_from),
          lb_from_mime_list = map wildcard (option_values d obj option_from_mime)\<rparr>)"

definition get_blocks ::
  "(string \<Rightarrow> bool) \<Rightarrow> db \<Rightarrow> string \<Rightarrow> string \<Rightarrow> ('s, py_exn, rspamd_list_block list) sem" where
  "get_blocks is_email d option_from option_from_mime =
     mapM (list_block is_email d option_from option_from_mime)
       (objects_with [option_from, option_from_mime] d)"

section \<open>What the patterns mean\<close>

text \<open>
  In the pattern of a list entry every star of the entry stands for any text, and every other
  character for itself.
\<close>

lemma re_escape_Cons: "re_escape (c # s) = re_escape [c] @ re_escape s"
  by (simp add: re_escape_def)

lemma re_escape_hd: "re_escape s \<noteq> [] \<Longrightarrow> hd (re_escape s) \<noteq> CHR ''*''"
  by (cases s) (auto simp: re_escape_def regex_special_def)

lemma wildcard_join: "wildcard v = join ''.*'' (map re_escape (split_on CHR ''*'' v))"
proof (induction v)
  case (Cons c v)
  obtain p ps where p: "split_on CHR ''*'' v = p # ps" by (meson split_on_not_Nil neq_Nil_conv)
  have keep: "replace_pair CHR 0x5C CHR ''*'' t (x # s) = x # replace_pair CHR 0x5C CHR ''*'' t s"
    if "s = [] \<or> hd s \<noteq> CHR ''*'' \<or> x \<noteq> CHR 0x5C" for x s t
    using that by (cases s) auto
  show ?case
  proof (cases "c = CHR ''*''")
    case True
    have "re_escape (c # v) = CHR 0x5C # CHR ''*'' # re_escape v"
      by (simp add: re_escape_Cons [of c v]) (simp add: re_escape_def regex_special_def True)
    with Cons p True show ?thesis by (simp add: wildcard_def join_Cons re_escape_def)
  next
    case False
    have "replace_pair CHR 0x5C CHR ''*'' t (c # re_escape v) =
        c # replace_pair CHR 0x5C CHR ''*'' t (re_escape v)" for t
      using keep [of "re_escape v"] re_escape_hd [of v] by blast
    then have "wildcard (c # v) = re_escape [c] @ wildcard v"
      using False unfolding wildcard_def re_escape_Cons [of c v] by (simp add: re_escape_def [of "[c]"])
    moreover have "map re_escape (split_on CHR ''*'' (c # v)) =
        (re_escape [c] @ re_escape p) # map re_escape ps"
      using False p by (simp add: re_escape_Cons [of c p])
    ultimately show ?thesis using Cons p by (cases ps) (simp_all add: join_Cons)
  qed
qed (simp add: wildcard_def re_escape_def)

end
