(* ===== verification/RspamdMaps.thy ===== *)
theory RspamdMaps
  imports Email Bytes "HOL-Library.Char_ord" "HOL-Library.List_Lexorder"
begin

text \<open>
  \<open>RspamdMaps\<close> of src/backend/taramail/rspamd.py: the map files of rspamd an administrator may edit. The
  state is the file system, from the path of a regular file to its bytes.
\<close>

type_synonym files = "string \<Rightarrow> string option"

definition rspamd_maps :: "string list" where
  "rspamd_maps =
     [''global_mime_from_blacklist'', ''global_mime_from_whitelist'', ''global_smtp_from_blacklist'',
      ''global_smtp_from_whitelist'', ''global_rcpt_blacklist'', ''global_rcpt_whitelist'',
      ''fishy_tlds'', ''bad_words'', ''bad_words_de'', ''bad_languages'', ''bulk_header'',
      ''bad_header'', ''monitoring_nolog'']"

record rspamd_map_details =
  rm_name :: string
  rm_content :: string

definition get_maps :: "string list" where
  "get_maps = sort rspamd_maps"

definition validate_map_name :: "string \<Rightarrow> (files, py_exn, unit) sem" where
  "validate_map_name map_name =
     raise_when (map_name \<notin> set rspamd_maps)
       (RspamdMapValidationError (''Invalid map name: '' @ map_name))"

definition map_path :: "string \<Rightarrow> string \<Rightarrow> string" where
  "map_path maps_dir map_name = maps_dir @ ''/'' @ map_name @ ''.map''"

text \<open>\<open>is_file\<close> and its \<open>raise\<close>; the result is what \<open>read_text\<close> will decode.\<close>

definition existing_map :: "string \<Rightarrow> string \<Rightarrow> (files, py_exn, string) sem" where
  "existing_map maps_dir map_name =
     bindM (gets (\<lambda>fs. fs (map_path maps_dir map_name))) (\<lambda>file.
     case file of
       None \<Rightarrow> throw (RspamdMapNotFoundError (''Map file not found: '' @ map_name))
     | Some bytes \<Rightarrow> ret bytes)"

definition get_map_details :: "string \<Rightarrow> string \<Rightarrow> (files, py_exn, rspamd_map_details) sem" where
  "get_map_details maps_dir map_name =
     seqM (validate_map_name map_name)
     (bindM (existing_map maps_dir map_name) (\<lambda>bytes.
     bindM (decode bytes) (\<lambda>contents.
     ret \<lparr>rm_name = map_name, rm_content = strip (universal_newlines contents)\<rparr>)))"

definition update_map ::
  "string \<Rightarrow> string \<Rightarrow> string \<Rightarrow> (files, py_exn, rspamd_map_details) sem" where
  "update_map maps_dir map_name content =
     seqM (validate_map_name map_name)
     (bindM (existing_map maps_dir map_name) (\<lambda>_.
     seqM (modify (\<lambda>fs. fs(map_path maps_dir map_name \<mapsto> strip content @ [CHR 10])))
     (ret \<lparr>rm_name = map_name, rm_content = strip content\<rparr>)))"

section \<open>Reading back what was written\<close>

lemma utf8_tail_high: "utf8_tail c = Some rs \<Longrightarrow> \<forall>(lo, hi) \<in> set rs. 128 \<le> lo"
  by (auto simp: utf8_tail_def Let_def split: if_splits)

lemma utf8_tail_ascii: "code c < 128 \<Longrightarrow> utf8_tail c = Some []"
  by (simp add: utf8_tail_def Let_def)

lemma utf8_from_snoc:
  "code c < 128 \<Longrightarrow> \<forall>(lo, hi) \<in> set rs. 128 \<le> lo \<Longrightarrow> utf8_from rs (s @ [c]) \<longleftrightarrow> utf8_from rs s"
proof (induction rs s rule: utf8_from.induct)
  case (1 rs)
  then show ?case by (cases rs) (auto simp: utf8_tail_ascii)
next
  case (2 d ds)
  show ?case
  proof (cases "utf8_tail d")
    case (Some rs)
    with 2 utf8_tail_high [OF Some] show ?thesis by simp
  qed simp
qed auto

lemma is_space_ascii: "is_space c \<Longrightarrow> code c < 128"
  by (auto simp: is_space_def)

lemma utf8_lstrip: "utf8_from [] s \<Longrightarrow> utf8_from [] (dropWhile is_space s)"
  by (induction s) (auto simp: utf8_tail_ascii is_space_ascii)

lemma utf8_rstrip: "utf8_from [] s \<Longrightarrow> utf8_from [] (rstrip_by is_space s)"
  by (induction s rule: rev_induct) (auto simp: rstrip_by_def utf8_from_snoc is_space_ascii)

lemma utf8_strip: "utf8_from [] s \<Longrightarrow> utf8_from [] (strip s)"
  by (simp add: strip_def lstrip_by_def utf8_lstrip utf8_rstrip)

lemma universal_newlines_snoc:
  "s = [] \<or> last s \<noteq> CHR 13 \<Longrightarrow> universal_newlines (s @ [CHR 10]) = universal_newlines s @ [CHR 10]"
  by (induction s rule: universal_newlines.induct) (auto split: if_splits)

lemma universal_newlines_last:
  "s \<noteq> [] \<Longrightarrow> last s \<noteq> CHR 13 \<Longrightarrow>
     universal_newlines s \<noteq> [] \<and> last (universal_newlines s) = last s"
  by (induction s rule: universal_newlines.induct) (auto split: if_splits)

lemma universal_newlines_hd: "s \<noteq> [] \<Longrightarrow> hd s \<noteq> CHR 13 \<Longrightarrow> hd (universal_newlines s) = hd s"
  by (induction s rule: universal_newlines.induct) auto

lemma strip_newline:
  assumes "s = [] \<or> \<not> is_space (hd s) \<and> \<not> is_space (last s)"
  shows "strip (s @ [CHR 10]) = s"
proof -
  have nl: "is_space (CHR 10)" by (simp add: is_space_def code_def)
  from assms have "dropWhile is_space (rev s) = rev s" by (intro dropWhile_no_head) (auto simp: hd_rev)
  with assms nl show ?thesis
    by (cases s) (auto simp: strip_def lstrip_by_def rstrip_by_def)
qed

lemma strip_universal_newlines:
  "strip (universal_newlines (strip s @ [CHR 10])) = universal_newlines (strip s)"
proof (cases "strip s = []")
  case False
  have cr: "is_space (CHR 13)" by (simp add: is_space_def code_def)
  with False strip_ends [of s] have ends: "hd (strip s) \<noteq> CHR 13" "last (strip s) \<noteq> CHR 13"
    "\<not> is_space (hd (strip s))" "\<not> is_space (last (strip s))" by auto
  with universal_newlines_last [OF False] universal_newlines_hd [OF False] show ?thesis
    by (simp add: universal_newlines_snoc strip_newline)
qed (use strip_newline [of "[]"] in simp)

section \<open>Properties\<close>

text \<open>
  C40. \<open>update_map\<close> is refused, without touching a file, for a name that is not in \<open>RSPAMD_MAPS\<close>, a path
  outside the directory among them, and for a map without a file; otherwise it changes that one file
  only, and \<open>get_map_details\<close> then reads the content back, with its ends stripped and its line ends
  written as newlines.
\<close>
theorem update_map_then_get:
  assumes "utf8_from [] content"
  shows "if map_name \<notin> set rspamd_maps
    then update_map dir map_name content fs =
      (Inl (RspamdMapValidationError (''Invalid map name: '' @ map_name)), fs)
    else if fs (map_path dir map_name) = None
    then update_map dir map_name content fs =
      (Inl (RspamdMapNotFoundError (''Map file not found: '' @ map_name)), fs)
    else \<exists>fs'. update_map dir map_name content fs =
        (Inr \<lparr>rm_name = map_name, rm_content = strip content\<rparr>, fs') \<and>
      (\<forall>path. path \<noteq> map_path dir map_name \<longrightarrow> fs' path = fs path) \<and>
      get_map_details dir map_name fs' =
        (Inr \<lparr>rm_name = map_name, rm_content = universal_newlines (strip content)\<rparr>, fs')"
proof -
  have "utf8_from [] (strip content @ [CHR 10])"
    using utf8_strip [OF assms] by (simp add: utf8_from_snoc code_def)
  then show ?thesis
    by (simp add: update_map_def get_map_details_def validate_map_name_def existing_map_def
        bindM_def seqM_def decode_def strip_universal_newlines split: option.splits)
qed

lemma update_map_then_get_witness:
  "fst (get_map_details ''maps'' ''bad_words'' (snd (update_map ''maps'' ''bad_words''
     ('' spam'' @ [CHR 13, CHR 10] @ ''offer'' @ [CHR 10]) [''maps/bad_words.map'' \<mapsto> []]))) =
   Inr \<lparr>rm_name = ''bad_words'', rm_content = ''spam'' @ [CHR 10] @ ''offer''\<rparr>"
proof -
  let ?c = "'' spam'' @ [CHR 13, CHR 10] @ ''offer'' @ [CHR 10]"
  have c: "utf8_from [] ?c" "''bad_words'' \<in> set rspamd_maps"
    "map_path ''maps'' ''bad_words'' = ''maps/bad_words.map''"
    "universal_newlines (strip ?c) = ''spam'' @ [CHR 10] @ ''offer''"
    by code_simp+
  show ?thesis
    using update_map_then_get [OF c(1), of "''bad_words''" "''maps''" "[''maps/bad_words.map'' \<mapsto> []]"] c(2-4)
    by auto
qed

end
