(* ===== verification/Nft.thy ===== *)
theory Nft
  imports Exceptions Ipaddress
begin

text \<open>
  The class \<open>NetfilterTables\<close> of src/backend/taramail/netfilter.py: the chains and rules of the
  mail server in the packet filter of the kernel. The library \<open>nftables\<close> is a parameter, one
  function for its \<open>json_cmd\<close>, over a state it may change; the locale \<open>nft_kernel\<close> states what
  nft(8) documents of the commands used, and a ruleset in memory interprets it. The JSON objects
  are datatypes with the keys the program reads or writes; reading a key that is not there is
  the exception Python raises. Logging is left out.
\<close>

section \<open>Rules, chains and commands\<close>

datatype nft_left = Payload string string | Meta string
datatype nft_right = Prefix string nat | Plain string | PortSet "nat list"
datatype nft_expr =
    Match string nft_left nft_right
  | Counter nat nat
  | Jump string
  | Snat string
  | DropPacket

record nft_rule =
  ru_family :: string
  ru_table :: string
  ru_chain :: string
  ru_handle :: nat
  ru_comment :: "string option"
  ru_expr :: "nft_expr list"

record nft_chain =
  ch_family :: string
  ch_table :: string
  ch_name :: string
  ch_handle :: nat
  ch_hook :: "string option"
  ch_prio :: "int option"

datatype nft_obj = ChainObj nft_chain | RuleObj nft_rule | OtherObj

datatype nft_cmd =
    AddChain string string string
  | FlushChain string string string
  | InsertRule string string string "nft_expr list" "string option"
  | ListChain string string string
  | ListChains string
  | ListTable string string
  | DeleteChain string string string nat
  | DeleteRule string string string nat

text \<open>
  \<open>json_cmd\<close> returns a code, the output and an error text. The output is the decoded JSON, here
  the objects under its key \<open>nftables\<close>, or the empty string (\<open>None\<close>) when nft printed nothing.
\<close>

type_synonym nft_output = "nft_obj list option"
type_synonym 'n nft_api = "nft_cmd \<Rightarrow> 'n \<Rightarrow> (int \<times> nft_output \<times> string) \<times> 'n"

record nft_tables =
  nt_name :: string
  nt_comment :: string
  nt_family :: string
  nt_chains :: "string \<Rightarrow> string \<Rightarrow> string option"

definition default_chains :: "string \<Rightarrow> string \<Rightarrow> string option" where
  "default_chains table hook =
     (if table = ''filter'' \<and> (hook = ''input'' \<or> hook = ''forward'') \<or>
         table = ''nat'' \<and> hook = ''postrouting''
      then Some [] else None)"

definition base_chain :: "nft_tables \<Rightarrow> string \<Rightarrow> string \<Rightarrow> string" where
  "base_chain nt table hook = (case nt_chains nt table hook of None \<Rightarrow> [] | Some c \<Rightarrow> c)"

section \<open>The commands\<close>

definition run_cmd :: "'n nft_api \<Rightarrow> nft_cmd \<Rightarrow> ('n, py_exn, nft_output) sem" where
  "run_cmd api cmd n =
     (case api cmd n of ((rc, output, err), n') \<Rightarrow>
        if rc \<noteq> 0 then (Inl (NetfilterError err), n') else (Inr output, n'))"

text \<open>\<open>kernel_ruleset["nftables"]\<close>: the empty string has no keys.\<close>

definition objects :: "nft_output \<Rightarrow> ('n, py_exn, nft_obj list) sem" where
  "objects output =
     (case output of None \<Rightarrow> throw (TypeError ''string indices must be integers'')
      | Some objs \<Rightarrow> ret objs)"

definition add_chain :: "'n nft_api \<Rightarrow> nft_tables \<Rightarrow> string \<Rightarrow> string \<Rightarrow> ('n, py_exn, nft_output) sem" where
  "add_chain api nt table name = run_cmd api (AddChain (nt_family nt) table name)"

definition flush_chain :: "'n nft_api \<Rightarrow> nft_tables \<Rightarrow> string \<Rightarrow> string \<Rightarrow> ('n, py_exn, nft_output) sem" where
  "flush_chain api nt table name = run_cmd api (FlushChain (nt_family nt) table name)"

definition insert_rule ::
  "'n nft_api \<Rightarrow> nft_tables \<Rightarrow> string \<Rightarrow> string \<Rightarrow> nft_expr list \<Rightarrow> string option \<Rightarrow>
     ('n, py_exn, nft_output) sem" where
  "insert_rule api nt table chain expr comment =
     run_cmd api (InsertRule (nt_family nt) table chain expr comment)"

definition list_chain :: "'n nft_api \<Rightarrow> nft_tables \<Rightarrow> string \<Rightarrow> string \<Rightarrow> ('n, py_exn, nft_obj list) sem" where
  "list_chain api nt table name =
     bindM (run_cmd api (ListChain (nt_family nt) table name)) objects"

definition list_chains :: "'n nft_api \<Rightarrow> nft_tables \<Rightarrow> ('n, py_exn, nft_obj list) sem" where
  "list_chains api nt = bindM (run_cmd api (ListChains (nt_family nt))) objects"

definition list_table :: "'n nft_api \<Rightarrow> nft_tables \<Rightarrow> string \<Rightarrow> ('n, py_exn, nft_obj list) sem" where
  "list_table api nt name = bindM (run_cmd api (ListTable (nt_family nt) name)) objects"

definition delete_chain ::
  "'n nft_api \<Rightarrow> nft_tables \<Rightarrow> string \<Rightarrow> string \<Rightarrow> nat \<Rightarrow> ('n, py_exn, nft_output) sem" where
  "delete_chain api nt table name handle =
     run_cmd api (DeleteChain (nt_family nt) table name handle)"

definition delete_rule ::
  "'n nft_api \<Rightarrow> nft_tables \<Rightarrow> string \<Rightarrow> string \<Rightarrow> nat \<Rightarrow> ('n, py_exn, nft_output) sem" where
  "delete_rule api nt table chain handle =
     run_cmd api (DeleteRule (nt_family nt) table chain handle)"

text \<open>A command whose output is not used.\<close>

definition run_unit :: "('n, py_exn, 'a) sem \<Rightarrow> ('n, py_exn, unit) sem" where
  "run_unit m = bindM m (\<lambda>_. ret ())"

section \<open>Looking at the ruleset\<close>

fun rule_objs :: "nft_obj list \<Rightarrow> nft_rule list" where
  "rule_objs [] = []"
| "rule_objs (RuleObj r # objs) = r # rule_objs objs"
| "rule_objs (_ # objs) = rule_objs objs"

fun chain_objs :: "nft_obj list \<Rightarrow> nft_chain list" where
  "chain_objs [] = []"
| "chain_objs (ChainObj c # objs) = c # chain_objs objs"
| "chain_objs (_ # objs) = chain_objs objs"

text \<open>
  \<open>init_chains\<close> keeps, per table and hook, the name of the chain with the least priority, the
  first of them.
\<close>

fun scan_chains ::
  "nft_chain list \<Rightarrow> (string \<Rightarrow> string \<Rightarrow> int option) \<Rightarrow> (string \<Rightarrow> string \<Rightarrow> string option) \<Rightarrow>
     string \<Rightarrow> string \<Rightarrow> string option" where
  "scan_chains [] saved names = names"
| "scan_chains (c # cs) saved names =
     (case (ch_prio c, ch_hook c) of
        (Some priority, Some hook) \<Rightarrow>
          (if names (ch_table c) hook \<noteq> None \<and>
              (case saved (ch_table c) hook of None \<Rightarrow> True | Some p \<Rightarrow> priority < p)
           then scan_chains cs
                  (saved(ch_table c := (saved (ch_table c))(hook \<mapsto> priority)))
                  (names(ch_table c := (names (ch_table c))(hook \<mapsto> ch_name c)))
           else scan_chains cs saved names)
      | _ \<Rightarrow> scan_chains cs saved names)"

definition init_chains :: "'n nft_api \<Rightarrow> nft_tables \<Rightarrow> ('n, py_exn, nft_tables) sem" where
  "init_chains api nt =
     bindM (list_chains api nt) (\<lambda>objs.
     ret (nt\<lparr>nt_chains := scan_chains (chain_objs objs) (\<lambda>_ _. None) (nt_chains nt)\<rparr>))"

definition get_chain_handle ::
  "'n nft_api \<Rightarrow> nft_tables \<Rightarrow> string \<Rightarrow> string \<Rightarrow> ('n, py_exn, nat option) sem" where
  "get_chain_handle api nt table name =
     bindM (list_chains api nt) (\<lambda>objs.
     ret (map_option ch_handle (find
       (\<lambda>c. ch_family c = nt_family nt \<and> ch_table c = table \<and> ch_name c = name)
       (chain_objs objs))))"

definition get_rule_handles ::
  "'n nft_api \<Rightarrow> nft_tables \<Rightarrow> string \<Rightarrow> string \<Rightarrow> string \<Rightarrow> ('n, py_exn, nat list) sem" where
  "get_rule_handles api nt table chain comment =
     bindM (list_chain api nt table chain) (\<lambda>objs.
     ret (map ru_handle (filter
       (\<lambda>r. ru_family r = nt_family nt \<and> ru_table r = table \<and> ru_chain r = chain \<and>
          ru_comment r = Some comment)
       (rule_objs objs))))"

section \<open>The chain of the mail server\<close>

definition mail_rule_expr :: "nft_tables \<Rightarrow> nft_expr list" where
  "mail_rule_expr nt = [Counter 0 0, Jump (nt_name nt)]"

definition insert_mail_rule :: "'n nft_api \<Rightarrow> nft_tables \<Rightarrow> string \<Rightarrow> ('n, py_exn, unit) sem" where
  "insert_mail_rule api nt chain =
     run_unit (insert_rule api nt ''filter'' chain (mail_rule_expr nt) (Some (nt_comment nt)))"

definition jump_found :: "nft_tables \<Rightarrow> string \<Rightarrow> nft_rule list \<Rightarrow> bool" where
  "jump_found nt chain rules \<longleftrightarrow>
     list_ex (\<lambda>r. ru_chain r = chain \<and> ru_comment r = Some (nt_comment nt)) rules"

definition insert_mail_chains :: "'n nft_api \<Rightarrow> nft_tables \<Rightarrow> ('n, py_exn, unit) sem" where
  "insert_mail_chains api nt =
     (let input_chain = base_chain nt ''filter'' ''input'';
          forward_chain = base_chain nt ''filter'' ''forward'' in
      bindM (list_table api nt ''filter'') (\<lambda>objs.
      seqM (whenM (list_all (\<lambda>c. ch_name c \<noteq> nt_name nt) (chain_objs objs))
        (run_unit (add_chain api nt ''filter'' (nt_name nt))))
      (seqM (whenM (input_chain \<noteq> [] \<and> \<not> jump_found nt input_chain (rule_objs objs))
        (insert_mail_rule api nt input_chain))
      (whenM (forward_chain \<noteq> [] \<and> \<not> jump_found nt forward_chain (rule_objs objs))
        (insert_mail_rule api nt forward_chain)))))"

text \<open>The position of the mail rule: \<open>None\<close> without the chain, -1 without the rule.\<close>

fun rule_position :: "string \<Rightarrow> int \<Rightarrow> nft_rule list \<Rightarrow> int" where
  "rule_position comment position [] = -1"
| "rule_position comment position (r # rules) =
     (if ru_comment r = Some comment then position
      else rule_position comment (position + 1) rules)"

definition check :: "'n nft_api \<Rightarrow> nft_tables \<Rightarrow> string \<Rightarrow> ('n, py_exn, int option) sem" where
  "check api nt chain =
     (let chain_name = base_chain nt ''filter'' chain in
      if chain_name = [] then ret None
      else bindM (list_chain api nt ''filter'' chain_name) (\<lambda>objs.
        ret (Some (rule_position (nt_comment nt) 0 (rule_objs objs)))))"

definition check_chain_order :: "'n nft_api \<Rightarrow> nft_tables \<Rightarrow> ('n, py_exn, unit) sem" where
  "check_chain_order api nt =
     bindM (mapM (check api nt) [''input'', ''forward'']) (\<lambda>positions.
     raise_when (list_ex (\<lambda>p. p \<noteq> None \<and> p \<noteq> Some 0) positions)
       (NetfilterError ''Chain order error, see critical logs''))"

definition delete_rules ::
  "'n nft_api \<Rightarrow> nft_tables \<Rightarrow> string \<Rightarrow> string \<Rightarrow> nat list \<Rightarrow> ('n, py_exn, unit) sem" where
  "delete_rules api nt table chain handles =
     forM handles (\<lambda>handle. run_unit (delete_rule api nt table chain handle))"

definition create_isolation_rule ::
  "'n nft_api \<Rightarrow> nft_tables \<Rightarrow> string \<Rightarrow> nat list \<Rightarrow> ('n, py_exn, unit) sem" where
  "create_isolation_rule api nt interface dports =
     bindM (get_rule_handles api nt ''filter'' (nt_name nt) ''mail isolation'') (\<lambda>handles.
     seqM (delete_rules api nt ''filter'' (nt_name nt) handles)
     (run_unit (insert_rule api nt ''filter'' (nt_name nt)
       [Match ''!='' (Meta ''iifname'') (Plain interface),
        Match ''=='' (Meta ''oifname'') (Plain interface),
        Match ''=='' (Payload ''tcp'' ''dport'') (PortSet dports),
        Counter 0 0, DropPacket] (Some ''mail isolation''))))"

definition clear_base :: "'n nft_api \<Rightarrow> nft_tables \<Rightarrow> string \<Rightarrow> ('n, py_exn, unit) sem" where
  "clear_base api nt chain =
     (if chain = [] then ret ()
      else bindM (get_rule_handles api nt ''filter'' chain (nt_comment nt))
        (delete_rules api nt ''filter'' chain))"

definition clear_tables :: "'n nft_api \<Rightarrow> nft_tables \<Rightarrow> ('n, py_exn, unit) sem" where
  "clear_tables api nt =
     bindM (get_chain_handle api nt ''filter'' (nt_name nt)) (\<lambda>chain_handle.
     let present = (chain_handle \<noteq> None \<and> chain_handle \<noteq> Some 0) in
     seqM (whenM present (run_unit (flush_chain api nt ''filter'' (nt_name nt))))
     (seqM (forM [base_chain nt ''filter'' ''input'', base_chain nt ''filter'' ''forward'']
        (clear_base api nt))
     (whenM present
        (run_unit (delete_chain api nt ''filter'' (nt_name nt) (the chain_handle))))))"

section \<open>Source NAT\<close>

text \<open>\<open>ipaddress.ip_network(s, strict)\<close>.\<close>

definition network :: "string \<Rightarrow> bool \<Rightarrow> ('n, py_exn, ip_network) sem" where
  "network s strict =
     (case ip_network_of s strict of
        None \<Rightarrow> throw (ValueError (s @ '' does not appear to be an IPv4 or IPv6 network''))
      | Some net \<Rightarrow> ret net)"

text \<open>\<open>rule["expr"][i]["match"]["right"]["prefix"]\<close> and \<open>rule["expr"][i]["snat"]["addr"]\<close>.\<close>

definition expr_at :: "nft_rule \<Rightarrow> nat \<Rightarrow> ('n, py_exn, nft_expr) sem" where
  "expr_at r i =
     (if i < length (ru_expr r) then ret (ru_expr r ! i)
      else throw (IndexError ''list index out of range''))"

definition match_right :: "nft_expr \<Rightarrow> ('n, py_exn, nft_right) sem" where
  "match_right x = (case x of Match _ _ right \<Rightarrow> ret right | _ \<Rightarrow> throw (KeyError ''match''))"

definition prefix_text :: "nft_right \<Rightarrow> ('n, py_exn, string) sem" where
  "prefix_text right =
     (case right of
        Prefix addr len \<Rightarrow> ret (addr @ ''/'' @ show_nat len)
      | Plain _ \<Rightarrow> throw (TypeError ''string indices must be integers'')
      | PortSet _ \<Rightarrow> throw (KeyError ''prefix''))"

definition snat_addr :: "nft_expr \<Rightarrow> ('n, py_exn, string) sem" where
  "snat_addr x = (case x of Snat addr \<Rightarrow> ret addr | _ \<Rightarrow> throw (KeyError ''snat''))"

fun find_mail_rule :: "string \<Rightarrow> nat \<Rightarrow> nft_rule list \<Rightarrow> (nat \<times> nft_rule) option" where
  "find_mail_rule comment position [] = None"
| "find_mail_rule comment position (r # rules) =
     (if ru_comment r = Some comment then Some (position, r)
      else find_mail_rule comment (Suc position) rules)"

definition snat_expr :: "nft_tables \<Rightarrow> ip_network \<Rightarrow> ip_network \<Rightarrow> nft_expr list" where
  "snat_expr nt dest_net target_net =
     [Match ''=='' (Payload (nt_family nt) ''saddr'')
        (Prefix (show_ip (network_address dest_net)) (prefixlen dest_net)),
      Match ''!='' (Payload (nt_family nt) ''daddr'')
        (Prefix (show_ip (network_address dest_net)) (prefixlen dest_net)),
      Snat (show_ip (network_address target_net)), Counter 0 0]"

definition snat_rule_nets ::
  "nft_rule \<Rightarrow> ('n, py_exn, ip_network \<times> ip_network \<times> ip_network) sem" where
  "snat_rule_nets r =
     bindM (bindM (bindM (expr_at r 0) match_right) prefix_text) (\<lambda>saddr.
     bindM (bindM (bindM (expr_at r 1) match_right) prefix_text) (\<lambda>daddr.
     bindM (bindM (expr_at r 3) snat_addr) (\<lambda>target_ip.
     bindM (network saddr False) (\<lambda>saddr_net.
     bindM (network daddr False) (\<lambda>daddr_net.
     bindM (network target_ip False) (\<lambda>current_target_net.
     ret (saddr_net, daddr_net, current_target_net)))))))"

definition snat ::
  "'n nft_api \<Rightarrow> nft_tables \<Rightarrow> string \<Rightarrow> string \<Rightarrow> ('n, py_exn, unit) sem" where
  "snat api nt snat_target source_address =
     (let chain_name = base_chain nt ''nat'' ''postrouting'' in
      if chain_name = [] then ret ()
      else bindM (list_chain api nt ''nat'' chain_name) (\<lambda>objs.
        bindM (network source_address False) (\<lambda>dest_net.
        bindM (network snat_target False) (\<lambda>target_net.
        case find_mail_rule (nt_comment nt) 0 (rule_objs objs) of
          Some (position, r) \<Rightarrow>
            bindM (snat_rule_nets r) (\<lambda>(saddr_net, daddr_net, current_target_net).
            if position \<noteq> 0 \<or>
               \<not> (dest_net = saddr_net \<and> dest_net = daddr_net \<and> target_net = current_target_net)
            then run_unit (delete_rule api nt ''nat'' chain_name (ru_handle r))
            else ret ())
        | None \<Rightarrow>
            run_unit (insert_rule api nt ''nat'' chain_name (snat_expr nt dest_net target_net)
              (Some (nt_comment nt)))))))"

section \<open>Bans\<close>

definition ban_expr :: "nft_tables \<Rightarrow> ip_network \<Rightarrow> nft_expr list" where
  "ban_expr nt net =
     [Match ''=='' (Payload (nt_family nt) ''saddr'')
        (Prefix (show_ip (network_address net)) (prefixlen net)),
      Counter 0 0, DropPacket]"

definition ban_rule :: "'n nft_api \<Rightarrow> nft_tables \<Rightarrow> string \<Rightarrow> ('n, py_exn, nft_output) sem" where
  "ban_rule api nt ipaddr =
     bindM (network ipaddr False) (\<lambda>net.
     insert_rule api nt ''filter'' (nt_name nt) (ban_expr nt net) None)"

text \<open>
  The first rule whose first expression matches the network as source address, if any. The right
  side of that expression is a prefix, or a plain string for a single address.
\<close>

definition right_text :: "nft_right \<Rightarrow> ('n, py_exn, string) sem" where
  "right_text right =
     (case right of
        Prefix addr len \<Rightarrow> ret (addr @ ''/'' @ show_nat len)
      | Plain s \<Rightarrow> ret s
      | PortSet _ \<Rightarrow> throw (KeyError ''prefix''))"

definition bans_network ::
  "nft_tables \<Rightarrow> string \<Rightarrow> nft_rule \<Rightarrow> ('n, py_exn, bool) sem" where
  "bans_network nt ipaddr r =
     bindM (expr_at r 0) (\<lambda>x.
     case x of
       Match op left right \<Rightarrow>
         (case left of
            Payload protocol fld \<Rightarrow>
              if protocol \<noteq> nt_family nt \<or> fld \<noteq> ''saddr'' then ret False
              else bindM (right_text right) (\<lambda>current_rule_ip.
                bindM (network current_rule_ip True) (\<lambda>current_rule_net.
                bindM (network ipaddr False) (\<lambda>candidate_net.
                ret (current_rule_net = candidate_net))))
          | Meta _ \<Rightarrow> ret False)
     | _ \<Rightarrow> throw (KeyError ''match''))"

fun unban_first ::
  "'n nft_api \<Rightarrow> nft_tables \<Rightarrow> string \<Rightarrow> nft_rule list \<Rightarrow> ('n, py_exn, unit) sem" where
  "unban_first api nt ipaddr [] = ret ()"
| "unban_first api nt ipaddr (r # rules) =
     bindM (bans_network nt ipaddr r) (\<lambda>found.
     if found then run_unit (delete_rule api nt ''filter'' (nt_name nt) (ru_handle r))
     else unban_first api nt ipaddr rules)"

definition unban_rule :: "'n nft_api \<Rightarrow> nft_tables \<Rightarrow> string \<Rightarrow> ('n, py_exn, unit) sem" where
  "unban_rule api nt ipaddr =
     bindM (list_chain api nt ''filter'' (nt_name nt)) (\<lambda>objs.
     unban_first api nt ipaddr (rule_objs objs))"

end
