(* ===== verification/NftKernel.thy ===== *)
theory NftKernel
  imports Nft
begin

text \<open>
  What the packet filter promises to \<open>NetfilterTables\<close> (src/backend/taramail/netfilter.py), as the
  locale \<open>nft_kernel\<close>, the lemmas on the operations of \<open>NetfilterTables\<close> proved from it, and a
  ruleset in memory that keeps the promise. \<open>rules n table chain\<close> is the handle and the rules of
  a chain of one family. The laws are those of nft(8): \<open>insert rule\<close> puts a rule first, a rule is
  deleted by its handle, a chain is deleted when it is empty and nothing jumps to it, and a rule
  is listed as it was given, save for its counters and the notation of a network.
\<close>

section \<open>The interface of the packet filter\<close>

type_synonym rules_view = "string \<Rightarrow> string \<Rightarrow> (nat \<times> nft_rule list) option"

definition set_chain ::
  "string \<Rightarrow> string \<Rightarrow> (nat \<times> nft_rule list) option \<Rightarrow> rules_view \<Rightarrow> rules_view" where
  "set_chain table chain x v = v(table := (v table)(chain := x))"

fun right_net :: "nft_right \<Rightarrow> ip_network option" where
  "right_net (Prefix addr len) = ip_network_of (addr @ ''/'' @ show_nat len) True"
| "right_net (Plain s) = ip_network_of s True"
| "right_net (PortSet _) = None"

fun listed_as :: "nft_expr \<Rightarrow> nft_expr \<Rightarrow> bool" where
  "listed_as (Match op left right) y =
     (case y of
        Match op' left' right' \<Rightarrow> op' = op \<and> left' = left \<and>
          (right' = right \<or> right_net right \<noteq> None \<and> right_net right' = right_net right)
      | _ \<Rightarrow> False)"
| "listed_as (Counter _ _) y = (case y of Counter _ _ \<Rightarrow> True | _ \<Rightarrow> False)"
| "listed_as x y = (y = x)"

fun terminal :: "nft_expr \<Rightarrow> bool" where
  "terminal (Jump _) = True"
| "terminal (Snat _) = True"
| "terminal DropPacket = True"
| "terminal _ = False"

definition jumps_to :: "string \<Rightarrow> nft_expr list \<Rightarrow> bool" where
  "jumps_to chain expr \<longleftrightarrow> list_ex (\<lambda>x. x = Jump chain) expr"

lemma set_chain_apply [simp]:
  "set_chain t c x v t' c' = (if t' = t \<and> c' = c then x else v t' c')"
  by (simp add: set_chain_def)

lemma set_chain_same [simp]: "set_chain t c x (set_chain t c y v) = set_chain t c x v"
  by (simp add: set_chain_def)

lemma set_chain_id: "v t c = x \<Longrightarrow> set_chain t c x v = v"
  by (auto simp: fun_eq_iff)

lemma jumps_to_listed: "list_all2 listed_as expr expr' \<Longrightarrow> jumps_to c expr' \<longleftrightarrow> jumps_to c expr"
proof (induction rule: list_all2_induct)
  case (Cons x xs y ys)
  then show ?case by (cases x) (auto simp: jumps_to_def split: nft_expr.splits)
qed (simp add: jumps_to_def)

text \<open>
  The rules the operations leave alone, and the layout they expect: both base chains are there,
  and only rules with the comment in them jump to the chain of the mail server.
\<close>

definition unmarked :: "nft_tables \<Rightarrow> nft_rule list \<Rightarrow> nft_rule list" where
  "unmarked nt rs = filter (\<lambda>r. ru_comment r \<noteq> Some (nt_comment nt)) rs"

definition mail_layout :: "nft_tables \<Rightarrow> rules_view \<Rightarrow> bool" where
  "mail_layout nt v \<longleftrightarrow>
     (let input = base_chain nt ''filter'' ''input''; forward = base_chain nt ''filter'' ''forward'' in
      input \<noteq> [] \<and> forward \<noteq> [] \<and> input \<noteq> forward \<and> nt_name nt \<noteq> input \<and> nt_name nt \<noteq> forward \<and>
      v ''filter'' input \<noteq> None \<and> v ''filter'' forward \<noteq> None \<and>
      (\<forall>c h rs r. v ''filter'' c = Some (h, rs) \<longrightarrow> r \<in> set rs \<longrightarrow>
         jumps_to (nt_name nt) (ru_expr r) \<longrightarrow>
         ru_comment r = Some (nt_comment nt) \<and> (c = input \<or> c = forward)))"

definition mail_rule :: "nft_tables \<Rightarrow> nft_rule \<Rightarrow> bool" where
  "mail_rule nt r \<longleftrightarrow> ru_comment r = Some (nt_comment nt) \<and>
     list_all2 listed_as (mail_rule_expr nt) (ru_expr r)"

text \<open>A rule that drops what comes from a network, in either notation.\<close>

definition drops :: "nft_tables \<Rightarrow> ip_network \<Rightarrow> nft_rule \<Rightarrow> bool" where
  "drops nt net r \<longleftrightarrow>
     (case ru_expr r of
        Match op left right # rest \<Rightarrow>
          op = ''=='' \<and> left = Payload (nt_family nt) ''saddr'' \<and> right_net right = Some net \<and>
          DropPacket \<in> set rest
      | _ \<Rightarrow> False)"

text \<open>A rule the service may put in its chain besides: a ban of another network, or the isolation rule.\<close>

definition foreign_rule :: "nft_tables \<Rightarrow> ip_network \<Rightarrow> nft_rule \<Rightarrow> bool" where
  "foreign_rule nt net r \<longleftrightarrow> (\<exists>other. other \<noteq> net \<and> drops nt other r) \<or>
     (\<exists>op key right rest. ru_expr r = Match op (Meta key) right # rest)"

lemma network_ret: "ip_network_of s strict = Some net \<Longrightarrow> network s strict = ret net"
  by (simp add: network_def)

lemma network_of_right: "right_net right = Some net \<Longrightarrow>
    bindM (right_text right) (\<lambda>s. bindM (network s True) f) = f net"
  by (cases right) (auto simp: right_text_def network_def)

lemma drops_banned:
  assumes "list_all2 listed_as (ban_expr nt net) (ru_expr r)"
    and "ip_network_of (show_network net) True = Some net"
  shows "drops nt net r"
proof -
  have "right_net (Prefix (show_ip (network_address net)) (prefixlen net)) = Some net"
    using assms(2) by (cases net) auto
  moreover obtain x y where "ru_expr r = [x, y, DropPacket]"
    "listed_as (Match ''=='' (Payload (nt_family nt) ''saddr'')
       (Prefix (show_ip (network_address net)) (prefixlen net))) x"
    using assms(1) by (auto simp: ban_expr_def list_all2_Cons1)
  ultimately show ?thesis by (cases x) (auto simp: drops_def)
qed

lemma bans_network_drops:
  assumes "drops nt net r" and "ip_network_of ipaddr False = Some net"
  shows "bans_network nt ipaddr r n = (Inr True, n)"
proof -
  obtain right rest where r: "ru_expr r = Match ''=='' (Payload (nt_family nt) ''saddr'') right # rest"
    "right_net right = Some net"
    using assms(1) by (auto simp: drops_def split: list.splits nft_expr.splits)
  then show ?thesis
    by (simp add: bans_network_def expr_at_def network_of_right [OF r(2)] network_ret [OF assms(2)])
qed

lemma bans_network_other:
  assumes "foreign_rule nt net r" and "ip_network_of ipaddr False = Some net"
  shows "bans_network nt ipaddr r n = (Inr False, n)"
proof -
  consider (drops) other where "other \<noteq> net" "drops nt other r"
    | (meta) op key right rest where "ru_expr r = Match op (Meta key) right # rest"
    using assms(1) unfolding foreign_rule_def by blast
  then show ?thesis
  proof cases
    case drops
    then obtain right rest where r: "ru_expr r = Match ''=='' (Payload (nt_family nt) ''saddr'') right # rest"
      "right_net right = Some other"
      by (auto simp: drops_def split: list.splits nft_expr.splits)
    with drops(1) show ?thesis
      by (simp add: bans_network_def expr_at_def network_of_right [OF r(2)] network_ret [OF assms(2)])
  next
    case meta
    then show ?thesis by (simp add: bans_network_def expr_at_def)
  qed
qed

lemma unban_first_skips:
  "list_all (foreign_rule nt net) pre \<Longrightarrow> ip_network_of ipaddr False = Some net \<Longrightarrow>
     unban_first api nt ipaddr (pre @ rs) n = unban_first api nt ipaddr rs n"
  by (induction pre) (auto simp: bindM_def bans_network_other)

lemma jump_found_unmarked: "(\<forall>r \<in> set rs. ru_chain r = c) \<Longrightarrow>
    jump_found nt c rs \<longleftrightarrow> unmarked nt rs \<noteq> rs"
  by (induction rs) (auto simp: jump_found_def unmarked_def dest: filter_eq_ConsD)

lemma jump_found_filter: "jump_found nt c (filter (\<lambda>r. ru_chain r = c) rs) = jump_found nt c rs"
  by (auto simp: jump_found_def list_ex_iff)

lemma mail_layout_distinct:
  assumes "mail_layout nt v"
  shows "base_chain nt ''filter'' ''input'' \<noteq> base_chain nt ''filter'' ''forward''"
    "base_chain nt ''filter'' ''forward'' \<noteq> base_chain nt ''filter'' ''input''"
    "base_chain nt ''filter'' ''input'' \<noteq> nt_name nt" "nt_name nt \<noteq> base_chain nt ''filter'' ''input''"
    "base_chain nt ''filter'' ''forward'' \<noteq> nt_name nt" "nt_name nt \<noteq> base_chain nt ''filter'' ''forward''"
    "base_chain nt ''filter'' ''input'' \<noteq> []" "base_chain nt ''filter'' ''forward'' \<noteq> []"
  using assms unfolding mail_layout_def Let_def by metis+

locale nft_kernel =
  fixes api :: "'n nft_api"
    and family :: string
    and rules :: "'n \<Rightarrow> rules_view"
    and good :: "'n \<Rightarrow> bool"
  assumes good_rules: "good n \<Longrightarrow> rules n t c = Some (h, rs) \<Longrightarrow>
      0 < h \<and> distinct (map ru_handle rs) \<and>
      (\<forall>r \<in> set rs. ru_family r = family \<and> ru_table r = t \<and> ru_chain r = c)"
    and list_chain_law: "good n \<Longrightarrow> rules n t c = Some (h, rs) \<Longrightarrow>
      \<exists>objs. api (ListChain family t c) n = ((0, Some objs, []), n) \<and> rule_objs objs = rs"
    and list_chains_law: "good n \<Longrightarrow>
      \<exists>objs. api (ListChains family) n = ((0, Some objs, []), n) \<and>
        (\<forall>t c. map_option fst (rules n t c) = map_option ch_handle (find
          (\<lambda>x. ch_family x = family \<and> ch_table x = t \<and> ch_name x = c) (chain_objs objs)))"
    and list_table_law: "good n \<Longrightarrow> rules n t c0 \<noteq> None \<Longrightarrow>
      \<exists>objs. api (ListTable family t) n = ((0, Some objs, []), n) \<and>
        (\<forall>c. c \<in> ch_name ` set (chain_objs objs) \<longleftrightarrow> rules n t c \<noteq> None) \<and>
        (\<forall>c h rs. rules n t c = Some (h, rs) \<longrightarrow>
          filter (\<lambda>r. ru_chain r = c) (rule_objs objs) = rs)"
    and add_chain_law: "good n \<Longrightarrow> rules n t c0 \<noteq> None \<Longrightarrow> rules n t c = None \<Longrightarrow>
      \<exists>n' h. api (AddChain family t c) n = ((0, None, []), n') \<and> good n' \<and>
        rules n' = set_chain t c (Some (h, [])) (rules n)"
    and insert_rule_law: "good n \<Longrightarrow> rules n t c = Some (h, rs) \<Longrightarrow>
      list_all (\<lambda>x. \<not> terminal x) (butlast expr) \<Longrightarrow>
      (\<And>target. jumps_to target expr \<Longrightarrow> rules n t target \<noteq> None) \<Longrightarrow>
      \<exists>n' r. api (InsertRule family t c expr comment) n = ((0, None, []), n') \<and> good n' \<and>
        rules n' = set_chain t c (Some (h, r # rs)) (rules n) \<and>
        ru_comment r = comment \<and> list_all2 listed_as expr (ru_expr r)"
    and delete_rule_law: "good n \<Longrightarrow> rules n t c = Some (h, rs) \<Longrightarrow> r \<in> set rs \<Longrightarrow>
      \<exists>n'. api (DeleteRule family t c (ru_handle r)) n = ((0, None, []), n') \<and> good n' \<and>
        rules n' = set_chain t c (Some (h, filter (\<lambda>x. ru_handle x \<noteq> ru_handle r) rs)) (rules n)"
    and flush_chain_law: "good n \<Longrightarrow> rules n t c = Some (h, rs) \<Longrightarrow>
      \<exists>n'. api (FlushChain family t c) n = ((0, None, []), n') \<and> good n' \<and>
        rules n' = set_chain t c (Some (h, [])) (rules n)"
    and delete_chain_law: "good n \<Longrightarrow> rules n t c = Some (h, []) \<Longrightarrow>
      (\<And>c' h' rs r. rules n t c' = Some (h', rs) \<Longrightarrow> r \<in> set rs \<Longrightarrow> \<not> jumps_to c (ru_expr r)) \<Longrightarrow>
      \<exists>n'. api (DeleteChain family t c h) n = ((0, None, []), n') \<and> good n' \<and>
        rules n' = set_chain t c None (rules n)"
begin

text \<open>The commands of \<open>NetfilterTables\<close> for this family.\<close>

lemma list_chain_run:
  assumes "good n" and "nt_family nt = family" and "rules n t c = Some (h, rs)"
  shows "\<exists>objs. list_chain api nt t c n = (Inr objs, n) \<and> rule_objs objs = rs"
  using list_chain_law [OF assms(1,3)] assms(2)
  by (auto simp: list_chain_def run_cmd_def objects_def bindM_def)

lemma get_chain_handle_run:
  assumes "good n" and "nt_family nt = family"
  shows "get_chain_handle api nt t c n = (Inr (map_option fst (rules n t c)), n)"
  using list_chains_law [OF assms(1)] assms(2)
  by (auto simp: get_chain_handle_def list_chains_def run_cmd_def objects_def bindM_def)

lemma get_rule_handles_run:
  assumes "good n" and "nt_family nt = family" and "rules n t c = Some (h, rs)"
  shows "get_rule_handles api nt t c comment n =
    (Inr (map ru_handle (filter (\<lambda>r. ru_comment r = Some comment) rs)), n)"
proof -
  obtain objs where "list_chain api nt t c n = (Inr objs, n)" and o: "rule_objs objs = rs"
    using list_chain_run [OF assms] by blast
  moreover have "filter (\<lambda>r. ru_family r = nt_family nt \<and> ru_table r = t \<and> ru_chain r = c \<and>
      ru_comment r = Some comment) rs = filter (\<lambda>r. ru_comment r = Some comment) rs"
    using good_rules [OF assms(1,3)] assms(2) by (intro filter_cong) auto
  ultimately show ?thesis by (simp add: get_rule_handles_def bindM_def)
qed

lemma insert_rule_run:
  assumes "good n" and "nt_family nt = family" and "rules n t c = Some (h, rs)"
    and "list_all (\<lambda>x. \<not> terminal x) (butlast expr)"
    and "\<And>target. jumps_to target expr \<Longrightarrow> rules n t target \<noteq> None"
  shows "\<exists>n' r. insert_rule api nt t c expr comment n = (Inr None, n') \<and> good n' \<and>
    rules n' = set_chain t c (Some (h, r # rs)) (rules n) \<and>
    ru_comment r = comment \<and> list_all2 listed_as expr (ru_expr r)"
proof -
  obtain n' r where "api (InsertRule family t c expr comment) n = ((0, None, []), n')" "good n'"
    "rules n' = set_chain t c (Some (h, r # rs)) (rules n)" "ru_comment r = comment"
    "list_all2 listed_as expr (ru_expr r)"
    using insert_rule_law [OF assms(1,3,4), of comment] assms(5) by blast
  then show ?thesis
    using assms(2) by (intro exI [of _ n'] exI [of _ r]) (simp add: insert_rule_def run_cmd_def)
qed

lemma delete_rule_run:
  assumes "good n" and "nt_family nt = family" and "rules n t c = Some (h, rs)" and "r \<in> set rs"
  shows "\<exists>n'. delete_rule api nt t c (ru_handle r) n = (Inr None, n') \<and> good n' \<and>
    rules n' = set_chain t c (Some (h, filter (\<lambda>x. ru_handle x \<noteq> ru_handle r) rs)) (rules n)"
  using delete_rule_law [OF assms(1,3,4)] assms(2)
  by (auto simp: delete_rule_def run_cmd_def)

lemma delete_rules_run:
  assumes "good n" and "nt_family nt = family" and "rules n t c = Some (h, rs)"
    and "set hs \<subseteq> ru_handle ` set rs" and "distinct hs"
  shows "\<exists>n'. delete_rules api nt t c hs n = (Inr (), n') \<and> good n' \<and>
    rules n' = set_chain t c (Some (h, filter (\<lambda>x. ru_handle x \<notin> set hs) rs)) (rules n)"
  using assms
proof (induction hs arbitrary: n rs)
  case Nil
  then show ?case by (auto simp: delete_rules_def set_chain_id)
next
  case (Cons a hs)
  then obtain r where r: "r \<in> set rs" "a = ru_handle r" by auto
  obtain u where u: "delete_rule api nt t c a n = (Inr None, u)" "good u"
    and ru: "rules u = set_chain t c (Some (h, filter (\<lambda>x. ru_handle x \<noteq> a) rs)) (rules n)"
    using delete_rule_run [OF Cons.prems(1-3) r(1)] r(2) by blast
  have "set hs \<subseteq> ru_handle ` set (filter (\<lambda>x. ru_handle x \<noteq> a) rs)"
  proof
    fix x assume x: "x \<in> set hs"
    then obtain y where "y \<in> set rs" "x = ru_handle y" using Cons.prems(4) by auto
    with x Cons.prems(5) show "x \<in> ru_handle ` set (filter (\<lambda>x. ru_handle x \<noteq> a) rs)" by auto
  qed
  moreover have "rules u t c = Some (h, filter (\<lambda>x. ru_handle x \<noteq> a) rs)" by (simp add: ru)
  moreover have "distinct hs" using Cons.prems(5) by simp
  ultimately obtain n' where "delete_rules api nt t c hs u = (Inr (), n')" "good n'"
    "rules n' = set_chain t c (Some (h, filter (\<lambda>x. ru_handle x \<notin> set hs)
       (filter (\<lambda>x. ru_handle x \<noteq> a) rs))) (rules u)"
    using Cons.IH [OF u(2) Cons.prems(2)] by blast
  moreover from this(1) have "delete_rules api nt t c (a # hs) n = (Inr (), n')"
    using u(1) by (simp add: delete_rules_def run_unit_def seqM_def bindM_def)
  moreover have "filter (\<lambda>x. ru_handle x \<notin> set hs) (filter (\<lambda>x. ru_handle x \<noteq> a) rs) =
      filter (\<lambda>x. ru_handle x \<notin> set (a # hs)) rs"
    by (auto intro: filter_cong)
  ultimately show ?case using ru by (auto simp del: set_chain_apply)
qed

lemma delete_commented_run:
  assumes "good n" and "nt_family nt = family" and "rules n t c = Some (h, rs)"
  shows "\<exists>n'. bindM (get_rule_handles api nt t c comment) (delete_rules api nt t c) n = (Inr (), n') \<and>
    good n' \<and> rules n' = set_chain t c (Some (h, filter (\<lambda>r. ru_comment r \<noteq> Some comment) rs)) (rules n)"
proof -
  let ?hs = "map ru_handle (filter (\<lambda>r. ru_comment r = Some comment) rs)"
  have d: "distinct (map ru_handle rs)" using good_rules [OF assms(1,3)] by blast
  then have "distinct ?hs" by (rule distinct_map_filter)
  with delete_rules_run [OF assms, of ?hs] obtain n' where n': "delete_rules api nt t c ?hs n = (Inr (), n')"
    "good n'" "rules n' = set_chain t c (Some (h, filter (\<lambda>x. ru_handle x \<notin> set ?hs) rs)) (rules n)"
    by auto
  have "ru_handle x \<notin> set ?hs \<longleftrightarrow> ru_comment x \<noteq> Some comment" if "x \<in> set rs" for x
    using that inj_onD [OF conjunct2 [OF d [unfolded distinct_map]]] by auto
  then have "filter (\<lambda>x. ru_handle x \<notin> set ?hs) rs = filter (\<lambda>r. ru_comment r \<noteq> Some comment) rs"
    by (intro filter_cong) auto
  with n' get_rule_handles_run [OF assms] show ?thesis by (simp add: bindM_def)
qed

lemma clear_base_run:
  assumes "good n" and "nt_family nt = family" and "rules n ''filter'' c = Some (h, rs)" and "c \<noteq> []"
  shows "\<exists>n'. clear_base api nt c n = (Inr (), n') \<and> good n' \<and>
    rules n' = set_chain ''filter'' c (Some (h, unmarked nt rs)) (rules n)"
  using delete_commented_run [OF assms(1-3), of "nt_comment nt"] assms(4)
  by (simp add: clear_base_def unmarked_def)

lemma clear_bases_run:
  assumes "good n" and "nt_family nt = family" and "mail_layout nt (rules n)"
    and "rules n ''filter'' (base_chain nt ''filter'' ''input'') = Some (hi, ri)"
    and "rules n ''filter'' (base_chain nt ''filter'' ''forward'') = Some (hf, rf)"
  shows "\<exists>n'. forM [base_chain nt ''filter'' ''input'', base_chain nt ''filter'' ''forward'']
      (clear_base api nt) n = (Inr (), n') \<and> good n' \<and>
    rules n' = set_chain ''filter'' (base_chain nt ''filter'' ''forward'') (Some (hf, unmarked nt rf))
      (set_chain ''filter'' (base_chain nt ''filter'' ''input'') (Some (hi, unmarked nt ri)) (rules n))"
proof -
  let ?i = "base_chain nt ''filter'' ''input''" and ?f = "base_chain nt ''filter'' ''forward''"
  note l = assms(3) [unfolded mail_layout_def Let_def]
  obtain u where u: "clear_base api nt ?i n = (Inr (), u)" "good u"
    "rules u = set_chain ''filter'' ?i (Some (hi, unmarked nt ri)) (rules n)"
    using clear_base_run [OF assms(1,2,4)] l by blast
  have "rules u ''filter'' ?f = Some (hf, rf)" by (simp add: u(3) mail_layout_distinct [OF assms(3)] assms(5))
  with clear_base_run [OF u(2) assms(2)] l obtain v where "clear_base api nt ?f u = (Inr (), v)"
    "good v" "rules v = set_chain ''filter'' ?f (Some (hf, unmarked nt rf)) (rules u)"
    by blast
  with u show ?thesis by (auto simp: seqM_def bindM_def simp del: set_chain_apply)
qed

lemma clear_run:
  assumes "good n" and "nt_family nt = family" and "mail_layout nt (rules n)"
    and "rules n ''filter'' (base_chain nt ''filter'' ''input'') = Some (hi, ri)"
    and "rules n ''filter'' (base_chain nt ''filter'' ''forward'') = Some (hf, rf)"
  shows "\<exists>n'. clear_tables api nt n = (Inr (), n') \<and> good n' \<and>
    rules n' = set_chain ''filter'' (nt_name nt) None
      (set_chain ''filter'' (base_chain nt ''filter'' ''forward'') (Some (hf, unmarked nt rf))
      (set_chain ''filter'' (base_chain nt ''filter'' ''input'') (Some (hi, unmarked nt ri)) (rules n)))"
proof (cases "rules n ''filter'' (nt_name nt)")
  case None
  then have h: "get_chain_handle api nt ''filter'' (nt_name nt) n = (Inr None, n)"
    using get_chain_handle_run [OF assms(1,2)] by simp
  from clear_bases_run [OF assms] obtain v where
    v: "forM [base_chain nt ''filter'' ''input'', base_chain nt ''filter'' ''forward'']
      (clear_base api nt) n = (Inr (), v)" "good v"
    "rules v = set_chain ''filter'' (base_chain nt ''filter'' ''forward'') (Some (hf, unmarked nt rf))
      (set_chain ''filter'' (base_chain nt ''filter'' ''input'') (Some (hi, unmarked nt ri)) (rules n))"
    by blast
  have "rules v ''filter'' (nt_name nt) = None"
    using None assms(3) unfolding v(3) mail_layout_def Let_def by simp
  then have "set_chain ''filter'' (nt_name nt) None (rules v) = rules v" by (rule set_chain_id)
  moreover have "clear_tables api nt n = (Inr (), v)"
    unfolding clear_tables_def bindM_Inr [of "get_chain_handle api nt ''filter'' (nt_name nt)", OF h]
    using v(1) by (simp add: seqM_def bindM_def)
  ultimately show ?thesis using v(2,3) by (intro exI [of _ v]) (simp del: set_chain_apply)
next
  case (Some x)
  then obtain h rs where x: "rules n ''filter'' (nt_name nt) = Some (h, rs)" by (cases x) auto
  let ?i = "base_chain nt ''filter'' ''input''" and ?f = "base_chain nt ''filter'' ''forward''"
  note l = assms(3) [unfolded mail_layout_def Let_def]
  have h0: "h \<noteq> 0" using good_rules [OF assms(1) x] by simp
  have h: "get_chain_handle api nt ''filter'' (nt_name nt) n = (Inr (Some h), n)"
    using get_chain_handle_run [OF assms(1,2), of "''filter''" "nt_name nt"] x by simp
  obtain u where u: "run_unit (flush_chain api nt ''filter'' (nt_name nt)) n = (Inr (), u)" "good u"
    "rules u = set_chain ''filter'' (nt_name nt) (Some (h, [])) (rules n)"
    using flush_chain_law [OF assms(1) x] assms(2)
    by (auto simp: run_unit_def flush_chain_def run_cmd_def bindM_def simp del: set_chain_apply)
  have "mail_layout nt (rules u)" unfolding mail_layout_def Let_def u(3) using l by auto
  moreover have "rules u ''filter'' ?i = Some (hi, ri)" "rules u ''filter'' ?f = Some (hf, rf)"
    unfolding u(3) by (simp_all add: mail_layout_distinct [OF assms(3)] assms(4,5))
  ultimately obtain v where v: "forM [?i, ?f] (clear_base api nt) u = (Inr (), v)" "good v"
    "rules v = set_chain ''filter'' ?f (Some (hf, unmarked nt rf))
      (set_chain ''filter'' ?i (Some (hi, unmarked nt ri)) (rules u))"
    using clear_bases_run [OF u(2) assms(2)] by blast
  have rv: "rules v ''filter'' (nt_name nt) = Some (h, [])" by (simp add: v(3) u(3) mail_layout_distinct [OF assms(3)])
  have "\<not> jumps_to (nt_name nt) (ru_expr r)"
    if "rules v ''filter'' c' = Some (h', rs')" "r \<in> set rs'" for c' h' rs' r
  proof
    assume j: "jumps_to (nt_name nt) (ru_expr r)"
    have "\<exists>h'' rs''. rules n ''filter'' c' = Some (h'', rs'') \<and> r \<in> set rs'' \<and>
        (c' = ?i \<or> c' = ?f \<longrightarrow> ru_comment r \<noteq> Some (nt_comment nt))"
      using that assms(4,5) v(3) u(3) by (auto simp: unmarked_def split: if_splits)
    with j l show False by blast
  qed
  with delete_chain_law [OF v(2) rv] assms(2) obtain w where
    w: "run_unit (delete_chain api nt ''filter'' (nt_name nt) h) v = (Inr (), w)" "good w"
    "rules w = set_chain ''filter'' (nt_name nt) None (rules v)"
    by (auto simp: run_unit_def delete_chain_def run_cmd_def bindM_def simp del: set_chain_apply)
  have "clear_tables api nt n = (Inr (), w)"
    unfolding clear_tables_def bindM_Inr [of "get_chain_handle api nt ''filter'' (nt_name nt)", OF h]
    using h0 u(1) v(1) w(1) by (simp add: seqM_def bindM_def)
  moreover have "rules w = set_chain ''filter'' (nt_name nt) None
      (set_chain ''filter'' ?f (Some (hf, unmarked nt rf))
      (set_chain ''filter'' ?i (Some (hi, unmarked nt ri)) (rules n)))"
    unfolding w(3) v(3) u(3) by (intro ext) simp
  ultimately show ?thesis using w(2) by blast
qed

lemma insert_mail_rule_run:
  assumes "good n" and "nt_family nt = family" and "rules n ''filter'' c = Some (h, rs)"
    and "rules n ''filter'' (nt_name nt) \<noteq> None"
  shows "\<exists>n' r. insert_mail_rule api nt c n = (Inr (), n') \<and> good n' \<and> mail_rule nt r \<and>
    rules n' = set_chain ''filter'' c (Some (h, r # rs)) (rules n)"
proof -
  have "list_all (\<lambda>x. \<not> terminal x) (butlast (mail_rule_expr nt))" by (simp add: mail_rule_expr_def)
  moreover have "rules n ''filter'' target \<noteq> None" if "jumps_to target (mail_rule_expr nt)" for target
    using that assms(4) by (simp add: mail_rule_expr_def jumps_to_def)
  ultimately obtain n' r where "insert_rule api nt ''filter'' c (mail_rule_expr nt)
      (Some (nt_comment nt)) n = (Inr None, n')" "good n'"
    "rules n' = set_chain ''filter'' c (Some (h, r # rs)) (rules n)"
    "ru_comment r = Some (nt_comment nt)" "list_all2 listed_as (mail_rule_expr nt) (ru_expr r)"
    using insert_rule_run [OF assms(1-3)] by blast
  then show ?thesis
    by (intro exI [of _ n'] exI [of _ r])
      (simp add: insert_mail_rule_def run_unit_def bindM_def mail_rule_def del: set_chain_apply)
qed

lemma insert_mail_chains_run:
  assumes "good n" and "nt_family nt = family" and "mail_layout nt (rules n)"
    and "rules n ''filter'' (base_chain nt ''filter'' ''input'') = Some (hi, ri)"
    and "rules n ''filter'' (base_chain nt ''filter'' ''forward'') = Some (hf, rf)"
    and "unmarked nt ri = ri" and "unmarked nt rf = rf" and "rules n ''filter'' (nt_name nt) = None"
  shows "\<exists>n' h q r. insert_mail_chains api nt n = (Inr (), n') \<and> good n' \<and>
    mail_rule nt q \<and> mail_rule nt r \<and>
    rules n' = set_chain ''filter'' (base_chain nt ''filter'' ''forward'') (Some (hf, r # rf))
      (set_chain ''filter'' (base_chain nt ''filter'' ''input'') (Some (hi, q # ri))
        (set_chain ''filter'' (nt_name nt) (Some (h, [])) (rules n)))"
proof -
  let ?i = "base_chain nt ''filter'' ''input''" and ?f = "base_chain nt ''filter'' ''forward''"
  note ne = mail_layout_distinct [OF assms(3)]
  have "rules n ''filter'' ?i \<noteq> None" using assms(4) by simp
  then obtain objs where o: "list_table api nt ''filter'' n = (Inr objs, n)"
    "\<forall>c. c \<in> ch_name ` set (chain_objs objs) \<longleftrightarrow> rules n ''filter'' c \<noteq> None"
    "\<forall>c h rs. rules n ''filter'' c = Some (h, rs) \<longrightarrow> filter (\<lambda>r. ru_chain r = c) (rule_objs objs) = rs"
    using list_table_law [OF assms(1)] assms(2)
    by (fastforce simp: list_table_def run_cmd_def objects_def bindM_def)
  have ji: "\<not> jump_found nt ?i (rule_objs objs)"
    using o(3) assms(4,6) good_rules [OF assms(1,4)] jump_found_unmarked [of ri ?i nt]
      jump_found_filter [of nt ?i "rule_objs objs"] by auto
  have jf: "\<not> jump_found nt ?f (rule_objs objs)"
    using o(3) assms(5,7) good_rules [OF assms(1,5)] jump_found_unmarked [of rf ?f nt]
      jump_found_filter [of nt ?f "rule_objs objs"] by auto
  have na: "list_all (\<lambda>c. ch_name c \<noteq> nt_name nt) (chain_objs objs)"
    using o(2) assms(8) by (force simp: list_all_iff)
  obtain u h where u: "run_unit (add_chain api nt ''filter'' (nt_name nt)) n = (Inr (), u)" "good u"
    and ru: "rules u = set_chain ''filter'' (nt_name nt) (Some (h, [])) (rules n)"
    using add_chain_law [OF assms(1) _ assms(8), of ?i] assms(2,4)
    by (auto simp: run_unit_def add_chain_def run_cmd_def bindM_def simp del: set_chain_apply)
  have "rules u ''filter'' ?i = Some (hi, ri)" "rules u ''filter'' (nt_name nt) \<noteq> None"
    by (simp_all add: ru ne assms(4))
  with insert_mail_rule_run [OF u(2) assms(2)] obtain v q where
    v: "insert_mail_rule api nt ?i u = (Inr (), v)" "good v" "mail_rule nt q"
    and rv: "rules v = set_chain ''filter'' ?i (Some (hi, q # ri)) (rules u)" by blast
  have "rules v ''filter'' ?f = Some (hf, rf)" "rules v ''filter'' (nt_name nt) \<noteq> None"
    by (simp_all add: rv ru ne assms(5))
  with insert_mail_rule_run [OF v(2) assms(2)] obtain w r where
    w: "insert_mail_rule api nt ?f v = (Inr (), w)" "good w" "mail_rule nt r"
    and rw: "rules w = set_chain ''filter'' ?f (Some (hf, r # rf)) (rules v)" by blast
  have "insert_mail_chains api nt n = (Inr (), w)"
    using o(1) u(1) v(1) w(1) ji jf na ne
    by (simp add: insert_mail_chains_def Let_def bindM_def seqM_def)
  with w v(3) show ?thesis
    by (intro exI [of _ w] exI [of _ h] exI [of _ q] exI [of _ r])
      (simp add: rw rv ru del: set_chain_apply)
qed

lemma check_chain_order_run:
  assumes "good n" and "nt_family nt = family"
    and "rules n ''filter'' (base_chain nt ''filter'' ''input'') = Some (hi, q # ri)"
    and "rules n ''filter'' (base_chain nt ''filter'' ''forward'') = Some (hf, r # rf)"
    and "mail_rule nt q" and "mail_rule nt r"
  shows "check_chain_order api nt n = (Inr (), n)"
proof -
  obtain us fs where "list_chain api nt ''filter'' (base_chain nt ''filter'' ''input'') n = (Inr us, n)"
    "rule_objs us = q # ri"
    "list_chain api nt ''filter'' (base_chain nt ''filter'' ''forward'') n = (Inr fs, n)"
    "rule_objs fs = r # rf"
    using list_chain_run [OF assms(1-3)] list_chain_run [OF assms(1,2,4)] by blast
  with assms(5,6) show ?thesis
    by (simp add: check_chain_order_def check_def Let_def bindM_def mail_rule_def)
qed

text \<open>A ban puts one rule first in the chain of the mail server; an unban removes the first one of its network.\<close>

lemma ban_rule_run:
  assumes "good n" and "nt_family nt = family" and "rules n ''filter'' (nt_name nt) = Some (h, rs)"
    and "ip_network_of ipaddr False = Some net" and "ip_network_of (show_network net) True = Some net"
  shows "\<exists>n' r. ban_rule api nt ipaddr n = (Inr None, n') \<and> good n' \<and> drops nt net r \<and>
    rules n' = set_chain ''filter'' (nt_name nt) (Some (h, r # rs)) (rules n)"
proof -
  have "list_all (\<lambda>x. \<not> terminal x) (butlast (ban_expr nt net))" by (simp add: ban_expr_def)
  moreover have "\<not> jumps_to target (ban_expr nt net)" for target
    by (simp add: ban_expr_def jumps_to_def)
  ultimately obtain n' r where i: "insert_rule api nt ''filter'' (nt_name nt) (ban_expr nt net) None n
      = (Inr None, n')" "good n'" "rules n' = set_chain ''filter'' (nt_name nt) (Some (h, r # rs)) (rules n)"
    "list_all2 listed_as (ban_expr nt net) (ru_expr r)"
    using insert_rule_run [OF assms(1-3), of "ban_expr nt net" None] by blast
  have "drops nt net r" using drops_banned [OF i(4) assms(5)] .
  moreover have "ban_rule api nt ipaddr n = (Inr None, n')"
    using i(1) assms(4) by (simp add: ban_rule_def network_def)
  ultimately show ?thesis using i(2,3) by blast
qed

lemma unban_rule_run:
  assumes "good n" and "nt_family nt = family"
    and "rules n ''filter'' (nt_name nt) = Some (h, pre @ r # rs)" and "list_all (foreign_rule nt net) pre"
    and "drops nt net r" and "ip_network_of ipaddr False = Some net"
  shows "\<exists>n'. unban_rule api nt ipaddr n = (Inr (), n') \<and> good n' \<and>
    rules n' = set_chain ''filter'' (nt_name nt) (Some (h, pre @ rs)) (rules n)"
proof -
  obtain objs where o: "list_chain api nt ''filter'' (nt_name nt) n = (Inr objs, n)"
    "rule_objs objs = pre @ r # rs"
    using list_chain_run [OF assms(1-3)] by blast
  obtain n' where d: "delete_rule api nt ''filter'' (nt_name nt) (ru_handle r) n = (Inr None, n')" "good n'"
    "rules n' = set_chain ''filter'' (nt_name nt)
      (Some (h, filter (\<lambda>x. ru_handle x \<noteq> ru_handle r) (pre @ r # rs))) (rules n)"
    using delete_rule_run [OF assms(1-3), of r] by auto
  have "filter (\<lambda>x. ru_handle x \<noteq> ru_handle r) (pre @ r # rs) = pre @ rs"
  proof -
    have "distinct (map ru_handle (pre @ r # rs))" using good_rules [OF assms(1,3)] by blast
    then have "ru_handle r \<notin> ru_handle ` set (pre @ rs)" by (auto simp del: list.map_comp)
    then have "filter (\<lambda>x. ru_handle x \<noteq> ru_handle r) (pre @ rs) = pre @ rs"
      by (intro filter_True) (metis image_eqI)
    then show ?thesis by simp
  qed
  then have "rules n' = set_chain ''filter'' (nt_name nt) (Some (h, pre @ rs)) (rules n)"
    using d(3) by simp
  moreover have "unban_rule api nt ipaddr n = (Inr (), n')"
    using o d(1) by (simp add: unban_rule_def bindM_def run_unit_def unban_first_skips [OF assms(4,6)]
        bans_network_drops [OF assms(5,6)])
  ultimately show ?thesis using d(2) by blast
qed

end

section \<open>A ruleset in memory\<close>

text \<open>
  A ruleset that behaves as documented: chains of every family under their keys, handles from one
  counter. A rule with a statement after a terminal one, or a jump to no chain, is refused.
\<close>

record kernel_chain =
  kc_handle :: nat
  kc_hook :: "string option"
  kc_prio :: "int option"
  kc_rules :: "nft_rule list"

record ruleset =
  rl_next :: nat
  rl_chains :: "(string \<times> string \<times> string, kernel_chain) dict"

fun chain_entry :: "(string \<times> string \<times> string) \<times> kernel_chain \<Rightarrow> nft_chain" where
  "chain_entry ((f, t, c), kc) =
     \<lparr>ch_family = f, ch_table = t, ch_name = c, ch_handle = kc_handle kc, ch_hook = kc_hook kc,
      ch_prio = kc_prio kc\<rparr>"

definition entry_objs :: "(string \<times> string \<times> string) \<times> kernel_chain \<Rightarrow> nft_obj list" where
  "entry_objs e = ChainObj (chain_entry e) # map RuleObj (kc_rules (snd e))"

definition in_table_of :: "string \<Rightarrow> string \<Rightarrow> (string \<times> string \<times> string) \<times> kernel_chain \<Rightarrow> bool" where
  "in_table_of f t e \<longleftrightarrow> fst (fst e) = f \<and> fst (snd (fst e)) = t"

definition put_chain ::
  "string \<times> string \<times> string \<Rightarrow> kernel_chain \<Rightarrow> ruleset \<Rightarrow> ruleset" where
  "put_chain key kc k = k\<lparr>rl_chains := dict_set key kc (rl_chains k)\<rparr>"

definition jump_targets :: "nft_expr list \<Rightarrow> string list" where
  "jump_targets expr = concat (map (\<lambda>x. case x of Jump c \<Rightarrow> [c] | _ \<Rightarrow> []) expr)"

definition no_such :: "ruleset \<Rightarrow> (int \<times> nft_output \<times> string) \<times> ruleset" where
  "no_such k = ((1, None, ''No such file or directory''), k)"

definition done_with :: "ruleset \<Rightarrow> (int \<times> nft_output \<times> string) \<times> ruleset" where
  "done_with k = ((0, None, []), k)"

fun ruleset_cmd :: "ruleset nft_api" where
  "ruleset_cmd (ListChain f t c) k =
     (case map_of (rl_chains k) (f, t, c) of
        None \<Rightarrow> no_such k
      | Some kc \<Rightarrow> ((0, Some (OtherObj # entry_objs ((f, t, c), kc)), []), k))"
| "ruleset_cmd (ListChains f) k =
     ((0, Some (OtherObj # map (\<lambda>e. ChainObj (chain_entry e))
        (filter (\<lambda>e. fst (fst e) = f) (rl_chains k))), []), k)"
| "ruleset_cmd (ListTable f t) k =
     (if list_ex (in_table_of f t) (rl_chains k)
      then ((0, Some (OtherObj # concat (map entry_objs (filter (in_table_of f t) (rl_chains k)))), []), k)
      else no_such k)"
| "ruleset_cmd (AddChain f t c) k =
     (if \<not> list_ex (in_table_of f t) (rl_chains k) then no_such k
      else if map_of (rl_chains k) (f, t, c) \<noteq> None then done_with k
      else done_with (put_chain (f, t, c)
        \<lparr>kc_handle = rl_next k, kc_hook = None, kc_prio = None, kc_rules = []\<rparr>
        (k\<lparr>rl_next := Suc (rl_next k)\<rparr>)))"
| "ruleset_cmd (InsertRule f t c expr comment) k =
     (case map_of (rl_chains k) (f, t, c) of
        None \<Rightarrow> no_such k
      | Some kc \<Rightarrow>
          if list_ex (\<lambda>target. map_of (rl_chains k) (f, t, target) = None) (jump_targets expr)
          then no_such k
          else if list_ex terminal (butlast expr)
          then ((1, None, ''Statement after terminal statement has no effect''), k)
          else done_with (put_chain (f, t, c)
            (kc\<lparr>kc_rules := \<lparr>ru_family = f, ru_table = t, ru_chain = c, ru_handle = rl_next k,
               ru_comment = comment, ru_expr = expr\<rparr> # kc_rules kc\<rparr>)
            (k\<lparr>rl_next := Suc (rl_next k)\<rparr>)))"
| "ruleset_cmd (DeleteRule f t c h) k =
     (case map_of (rl_chains k) (f, t, c) of
        None \<Rightarrow> no_such k
      | Some kc \<Rightarrow>
          if list_ex (\<lambda>r. ru_handle r = h) (kc_rules kc)
          then done_with (put_chain (f, t, c)
            (kc\<lparr>kc_rules := filter (\<lambda>r. ru_handle r \<noteq> h) (kc_rules kc)\<rparr>) k)
          else no_such k)"
| "ruleset_cmd (FlushChain f t c) k =
     (case map_of (rl_chains k) (f, t, c) of
        None \<Rightarrow> no_such k
      | Some kc \<Rightarrow> done_with (put_chain (f, t, c) (kc\<lparr>kc_rules := []\<rparr>) k))"
| "ruleset_cmd (DeleteChain f t c h) k =
     (case map_of (rl_chains k) (f, t, c) of
        None \<Rightarrow> no_such k
      | Some kc \<Rightarrow>
          if kc_handle kc \<noteq> h then no_such k
          else if kc_rules kc \<noteq> [] \<or> list_ex (\<lambda>e. in_table_of f t e \<and>
             list_ex (\<lambda>r. jumps_to c (ru_expr r)) (kc_rules (snd e))) (rl_chains k)
          then ((1, None, ''Device or resource busy''), k)
          else done_with (k\<lparr>rl_chains := dict_del (f, t, c) (rl_chains k)\<rparr>))"

definition ruleset_rules :: "string \<Rightarrow> ruleset \<Rightarrow> rules_view" where
  "ruleset_rules f k t c =
     map_option (\<lambda>kc. (kc_handle kc, kc_rules kc)) (map_of (rl_chains k) (f, t, c))"

definition chain_ok :: "nat \<Rightarrow> string \<times> string \<times> string \<Rightarrow> kernel_chain \<Rightarrow> bool" where
  "chain_ok next key kc \<longleftrightarrow> 0 < kc_handle kc \<and> distinct (map ru_handle (kc_rules kc)) \<and>
     list_all (\<lambda>r. (ru_family r, ru_table r, ru_chain r) = key \<and> ru_handle r < next) (kc_rules kc)"

definition ruleset_good :: "ruleset \<Rightarrow> bool" where
  "ruleset_good k \<longleftrightarrow> 0 < rl_next k \<and> distinct (dict_keys (rl_chains k)) \<and>
     (\<forall>key kc. map_of (rl_chains k) key = Some kc \<longrightarrow> chain_ok (rl_next k) key kc)"

lemma ruleset_goodI:
  assumes "0 < rl_next k" and "distinct (dict_keys (rl_chains k))"
    and "list_all (\<lambda>(key, kc). chain_ok (rl_next k) key kc) (rl_chains k)"
  shows "ruleset_good k"
  using assms unfolding ruleset_good_def list_all_iff by (fastforce dest: map_of_SomeD)

lemma chain_ok_next: "chain_ok n key kc \<Longrightarrow> n \<le> m \<Longrightarrow> chain_ok m key kc"
  unfolding chain_ok_def list_all_iff by auto

lemma put_chain_good:
  assumes "ruleset_good k" and "rl_next k \<le> n" and "chain_ok n key kc"
  shows "ruleset_good (put_chain key kc (k\<lparr>rl_next := n\<rparr>))"
  using assms chain_ok_next [of "rl_next k" _ _ n]
  by (auto simp: ruleset_good_def put_chain_def distinct_dict_set split: if_splits)

lemma put_chain_rules:
  "ruleset_rules f (put_chain (f, t, c) kc (k\<lparr>rl_next := n\<rparr>)) =
     set_chain t c (Some (kc_handle kc, kc_rules kc)) (ruleset_rules f k)"
  by (auto simp: ruleset_rules_def put_chain_def fun_eq_iff)

lemma find_chain_entry:
  "find (\<lambda>x. ch_family x = f \<and> ch_table x = t \<and> ch_name x = c)
     (map chain_entry (filter (\<lambda>e. fst (fst e) = f) d)) =
   map_option (\<lambda>kc. chain_entry ((f, t, c), kc)) (map_of d (f, t, c))"
  by (induction d) auto

lemma chain_objs_append [simp]: "chain_objs (xs @ ys) = chain_objs xs @ chain_objs ys"
  by (induction xs rule: chain_objs.induct) auto

lemma rule_objs_append [simp]: "rule_objs (xs @ ys) = rule_objs xs @ rule_objs ys"
  by (induction xs rule: rule_objs.induct) auto

lemma objs_of_rules [simp]: "chain_objs (map RuleObj rs) = []" "rule_objs (map RuleObj rs) = rs"
  by (induction rs) auto

lemma objs_of_chains [simp]: "chain_objs (map (\<lambda>e. ChainObj (f e)) es) = map f es"
  by (induction es) auto

lemma objs_of_entry [simp]:
  "chain_objs (entry_objs e) = [chain_entry e]" "rule_objs (entry_objs e) = kc_rules (snd e)"
  by (simp_all add: entry_objs_def)

lemma chain_objs_concat: "chain_objs (concat (map entry_objs es)) = map chain_entry es"
  by (induction es) auto

lemma rule_objs_concat:
  "rule_objs (concat (map entry_objs es)) = concat (map (\<lambda>e. kc_rules (snd e)) es)"
  by (induction es) auto

lemma one_key:
  assumes "distinct (map fst d)" and "map_of d key = Some x"
  shows "concat (map (\<lambda>e. if fst e = key then g (snd e) else []) d) = g x"
  using assms
proof (induction d)
  case (Cons e d)
  have "concat (map (\<lambda>e. if fst e = key then g (snd e) else []) d) = []" if "fst e = key"
  proof -
    have "fst e \<notin> fst ` set d" using Cons.prems(1) by simp
    with that have "\<forall>x \<in> set d. fst x \<noteq> key" by (metis imageI)
    then show ?thesis by (auto simp: concat_eq_Nil_conv)
  qed
  with Cons show ?case by (cases e) auto
qed simp

lemma rules_in_entry:
  assumes "chain_ok n (fst e) (snd e)"
  shows "(if in_table_of f t e then filter (\<lambda>r. ru_chain r = c) (kc_rules (snd e)) else []) =
    (if fst e = (f, t, c) then kc_rules (snd e) else [])"
proof -
  obtain f' t' c' x where e: "e = ((f', t', c'), x)" by (cases e) auto
  have r: "\<forall>r \<in> set (kc_rules x). ru_chain r = c'"
    using assms by (auto simp: e chain_ok_def list_all_iff)
  have "filter (\<lambda>r. ru_chain r = c) (kc_rules x) = (if c' = c then kc_rules x else [])"
    using r by (auto simp: filter_empty_conv filter_id_conv)
  then show ?thesis by (auto simp: e in_table_of_def)
qed

lemma filter_concat_filter:
  "filter p (concat (map g (filter q es))) = concat (map (\<lambda>e. if q e then filter p (g e) else []) es)"
  by (induction es) auto

lemma table_rules:
  assumes "distinct (dict_keys d)" and "\<And>e. e \<in> set d \<Longrightarrow> chain_ok n (fst e) (snd e)"
    and "map_of d (f, t, c) = Some kc"
  shows "filter (\<lambda>r. ru_chain r = c) (rule_objs (concat (map entry_objs (filter (in_table_of f t) d))))
    = kc_rules kc"
proof -
  have eq: "map (\<lambda>e. if in_table_of f t e then filter (\<lambda>r. ru_chain r = c) (kc_rules (snd e)) else []) d
      = map (\<lambda>e. if fst e = (f, t, c) then kc_rules (snd e) else []) d"
    using rules_in_entry [OF assms(2)] by (intro map_cong) auto
  show ?thesis
    unfolding rule_objs_concat filter_concat_filter eq
    by (rule one_key [OF assms(1) [unfolded dict_keys_def] assms(3), of kc_rules])
qed

lemma table_chains:
  assumes "distinct (dict_keys d)"
  shows "c \<in> ch_name ` set (map chain_entry (filter (in_table_of f t) d)) \<longleftrightarrow> map_of d (f, t, c) \<noteq> None"
proof -
  have "map_of d (f, t, c) \<noteq> None \<longleftrightarrow> (f, t, c) \<in> fst ` set d"
    by (simp add: map_of_eq_None_iff)
  also have "\<dots> \<longleftrightarrow> c \<in> ch_name ` set (map chain_entry (filter (in_table_of f t) d))"
    by (force simp: in_table_of_def image_iff)
  finally show ?thesis by simp
qed

lemma jumps_to_targets: "jumps_to c expr \<longleftrightarrow> c \<in> set (jump_targets expr)"
  by (auto simp: jumps_to_def jump_targets_def list_ex_iff split: nft_expr.splits)

lemma ruleset_rules_iff:
  "ruleset_rules f k t c = Some (h, rs) \<longleftrightarrow>
     (\<exists>kc. map_of (rl_chains k) (f, t, c) = Some kc \<and> h = kc_handle kc \<and> rs = kc_rules kc)"
  by (auto simp: ruleset_rules_def)

lemma ruleset_good_entry:
  "ruleset_good k \<Longrightarrow> e \<in> set (rl_chains k) \<Longrightarrow> chain_ok (rl_next k) (fst e) (snd e)"
  by (cases e) (auto simp: ruleset_good_def dict_keys_def)

lemma ruleset_chain_ok:
  "ruleset_good k \<Longrightarrow> map_of (rl_chains k) key = Some kc \<Longrightarrow> chain_ok (rl_next k) key kc"
  unfolding ruleset_good_def by blast

lemma table_present: "map_of d (f, t, c) = Some kc \<Longrightarrow> list_ex (in_table_of f t) d"
  by (force simp: list_ex_iff in_table_of_def dest: map_of_SomeD)

lemma listed_as_refl [simp]: "listed_as x x"
  by (cases x) auto

lemma list_all2_listed_refl: "list_all2 listed_as xs xs"
  by (simp add: list_all2_refl)

lemma put_chain_here:
  "ruleset_good k \<Longrightarrow> chain_ok (rl_next k) key kc \<Longrightarrow> ruleset_good (put_chain key kc k)"
  using put_chain_good [where n = "rl_next k" and k = k] by simp

lemma put_chain_rules_here:
  "ruleset_rules f (put_chain (f, t, c) kc k) =
     set_chain t c (Some (kc_handle kc, kc_rules kc)) (ruleset_rules f k)"
  using put_chain_rules [where n = "rl_next k" and k = k] by simp

interpretation ruleset: nft_kernel ruleset_cmd family "ruleset_rules family" ruleset_good for family
proof (unfold_locales, goal_cases)
  case (1 n t c h rs)
  then show ?case
    by (auto simp: ruleset_rules_iff chain_ok_def list_all_iff dest!: ruleset_chain_ok)
next
  case (2 n t c h rs)
  then show ?case by (auto simp: ruleset_rules_iff)
next
  case (3 n)
  then show ?case
    by (simp add: find_chain_entry ruleset_rules_def option.map_comp comp_def)
next
  case (4 n t c0)
  then have d: "distinct (dict_keys (rl_chains n))" by (simp add: ruleset_good_def)
  from 4(2) obtain kc where "map_of (rl_chains n) (family, t, c0) = Some kc"
    by (auto simp: ruleset_rules_def)
  with table_present have "list_ex (in_table_of family t) (rl_chains n)" by blast
  with table_chains [OF d, of _ family t] table_rules [OF d ruleset_good_entry [OF 4(1)]] show ?case
    by (auto simp: chain_objs_concat ruleset_rules_def simp del: set_map)
next
  case (5 n t c0 c)
  then obtain kc where "map_of (rl_chains n) (family, t, c0) = Some kc"
    by (auto simp: ruleset_rules_def)
  with table_present have "list_ex (in_table_of family t) (rl_chains n)" by blast
  moreover have "chain_ok (Suc (rl_next n)) (family, t, c)
      \<lparr>kc_handle = rl_next n, kc_hook = None, kc_prio = None, kc_rules = []\<rparr>"
    using 5(1) by (simp add: chain_ok_def ruleset_good_def)
  ultimately show ?case
    using 5(3) put_chain_good [OF 5(1), of "Suc (rl_next n)" "(family, t, c)"]
    by (intro exI [of _ "put_chain (family, t, c)
          \<lparr>kc_handle = rl_next n, kc_hook = None, kc_prio = None, kc_rules = []\<rparr>
          (n\<lparr>rl_next := Suc (rl_next n)\<rparr>)"] exI [of _ "rl_next n"])
      (simp add: done_with_def ruleset_rules_def [of family n t c] put_chain_rules)
next
  case (6 n t c h rs expr comment)
  then obtain kc where kc: "map_of (rl_chains n) (family, t, c) = Some kc" "h = kc_handle kc" "rs = kc_rules kc"
    by (auto simp: ruleset_rules_iff)
  let ?r = "\<lparr>ru_family = family, ru_table = t, ru_chain = c, ru_handle = rl_next n,
    ru_comment = comment, ru_expr = expr\<rparr>"
  have "chain_ok (Suc (rl_next n)) (family, t, c) (kc\<lparr>kc_rules := ?r # kc_rules kc\<rparr>)"
    using ruleset_chain_ok [OF 6(1) kc(1)] by (auto simp: chain_ok_def list_all_iff)
  moreover have "\<not> list_ex (\<lambda>target. map_of (rl_chains n) (family, t, target) = None) (jump_targets expr)"
    using 6(4) by (auto simp: list_ex_iff jumps_to_targets ruleset_rules_def)
  moreover have "\<not> list_ex terminal (butlast expr)"
    using 6(3) by (auto simp: list_ex_iff list_all_iff)
  ultimately show ?case
    using kc put_chain_good [OF 6(1), of "Suc (rl_next n)" "(family, t, c)"]
    by (intro exI [of _ "put_chain (family, t, c) (kc\<lparr>kc_rules := ?r # kc_rules kc\<rparr>)
        (n\<lparr>rl_next := Suc (rl_next n)\<rparr>)"] exI [of _ ?r])
      (simp add: done_with_def put_chain_rules list_all2_listed_refl)
next
  case (7 n t c h rs r)
  then obtain kc where kc: "map_of (rl_chains n) (family, t, c) = Some kc" "h = kc_handle kc" "rs = kc_rules kc"
    by (auto simp: ruleset_rules_iff)
  let ?kc = "kc\<lparr>kc_rules := filter (\<lambda>x. ru_handle x \<noteq> ru_handle r) (kc_rules kc)\<rparr>"
  have "chain_ok (rl_next n) (family, t, c) ?kc"
    using ruleset_chain_ok [OF 7(1) kc(1)] by (auto simp: chain_ok_def list_all_iff distinct_map_filter)
  moreover have "list_ex (\<lambda>x. ru_handle x = ru_handle r) (kc_rules kc)"
    using 7(3) kc(3) by (auto simp: list_ex_iff)
  ultimately show ?case
    using kc put_chain_here [OF 7(1)]
    by (intro exI [of _ "put_chain (family, t, c) ?kc n"]) (simp add: done_with_def put_chain_rules_here)
next
  case (8 n t c h rs)
  then obtain kc where kc: "map_of (rl_chains n) (family, t, c) = Some kc" "h = kc_handle kc"
    by (auto simp: ruleset_rules_iff)
  have "chain_ok (rl_next n) (family, t, c) (kc\<lparr>kc_rules := []\<rparr>)"
    using ruleset_chain_ok [OF 8(1) kc(1)] by (simp add: chain_ok_def)
  with kc put_chain_here [OF 8(1)] show ?case
    by (intro exI [of _ "put_chain (family, t, c) (kc\<lparr>kc_rules := []\<rparr>) n"])
      (simp add: done_with_def put_chain_rules_here)
next
  case (9 n t c h)
  then obtain kc where kc: "map_of (rl_chains n) (family, t, c) = Some kc" "h = kc_handle kc" "kc_rules kc = []"
    by (auto simp: ruleset_rules_iff)
  have "\<not> list_ex (\<lambda>e. in_table_of family t e \<and>
     list_ex (\<lambda>r. jumps_to c (ru_expr r)) (kc_rules (snd e))) (rl_chains n)"
  proof (clarsimp simp: list_ex_iff in_table_of_def)
    fix c' x r
    assume "((family, t, c'), x) \<in> set (rl_chains n)" "r \<in> set (kc_rules x)"
      and j: "jumps_to c (ru_expr r)"
    moreover have "distinct (map fst (rl_chains n))"
      using 9(1) by (simp add: ruleset_good_def dict_keys_def)
    ultimately have "ruleset_rules family n t c' = Some (kc_handle x, kc_rules x)"
      by (simp add: ruleset_rules_iff)
    with 9(3) j \<open>r \<in> set (kc_rules x)\<close> show False by blast
  qed
  moreover have "ruleset_good (n\<lparr>rl_chains := dict_del (family, t, c) (rl_chains n)\<rparr>)"
    using 9(1) by (auto simp: ruleset_good_def distinct_dict_del split: if_splits)
  moreover have "ruleset_rules family (n\<lparr>rl_chains := dict_del (family, t, c) (rl_chains n)\<rparr>) =
      set_chain t c None (ruleset_rules family n)"
    by (auto simp: ruleset_rules_def fun_eq_iff)
  ultimately show ?case
    using kc by (intro exI [of _ "n\<lparr>rl_chains := dict_del (family, t, c) (rl_chains n)\<rparr>"])
      (simp add: done_with_def)
qed

end
