(* ===== verification/Ipaddress6.thy ===== *)
theory Ipaddress6
  imports Ipaddress
begin

text \<open>
  Printing and parsing of IPv6: an address printed in the short form, with its longest run of zeros written
  as two colons, is parsed back to itself, and so is every network the parser accepts. The packet filter and
  the ban service (src/backend/taramail/netfilter.py) keep networks as such texts.
\<close>

section \<open>Hextets\<close>

definition hextet_char :: "char \<Rightarrow> bool" where
  "hextet_char c \<longleftrightarrow> is_digit c \<or> 97 \<le> code c \<and> code c \<le> 102"

lemma code_letter: "10 \<le> d \<Longrightarrow> d < 16 \<Longrightarrow> code (hex_digit d) = 87 + d"
  by (simp add: hex_digit_def code_def)

lemma hex_val_digit: "d < 16 \<Longrightarrow> hex_val (hex_digit d) = Some d"
proof (cases "d < 10")
  case True
  then show ?thesis by (simp add: hex_digit_def hex_val_def is_digit_digit code_digit)
next
  case False
  assume "d < 16"
  with False code_letter [of d] show ?thesis by (simp add: hex_val_def is_digit_def)
qed

lemma hextet_char_digit: "d < 16 \<Longrightarrow> hextet_char (hex_digit d)"
proof (cases "d < 10")
  case True
  then show ?thesis by (simp add: hex_digit_def hextet_char_def is_digit_digit)
next
  case False
  assume "d < 16"
  with False code_letter [of d] show ?thesis by (simp add: hextet_char_def)
qed

lemma show_hex_chars: "list_all hextet_char (show_hex n)"
proof (induction n rule: show_hex.induct)
  case (1 n)
  then show ?case by (subst show_hex.simps) (simp add: hextet_char_digit)
qed

lemma show_hex_not_Nil [simp]: "show_hex n \<noteq> []" "[] \<noteq> show_hex n"
  by (subst show_hex.simps, simp)+

lemma hex_acc_append: "hex_acc a (xs @ ys) = (case hex_acc a xs of None \<Rightarrow> None | Some b \<Rightarrow> hex_acc b ys)"
  by (induction a xs rule: hex_acc.induct) (auto split: option.splits)

lemma hex_acc_show: "hex_acc 0 (show_hex n) = Some n"
proof (induction n rule: show_hex.induct)
  case (1 n)
  then show ?case
    by (subst show_hex.simps) (simp add: hex_acc_append hex_val_digit)
qed

lemma length_show_hex: "n < 16 ^ Suc k \<Longrightarrow> length (show_hex n) \<le> Suc k"
proof (induction k arbitrary: n)
  case 0
  then show ?case by (subst show_hex.simps) simp
next
  case (Suc k)
  have "n div 16 < 16 ^ Suc k" using Suc.prems by (simp add: less_mult_imp_div_less)
  from Suc.IH [OF this] show ?case by (subst show_hex.simps) simp
qed

lemma parse_hextet_show: "n < 65536 \<Longrightarrow> parse_hextet (show_hex n) = Some n"
  using length_show_hex [of n 3] by (simp add: parse_hextet_def hex_acc_show)

text \<open>The value of hextets, the first of them the highest.\<close>

definition val :: "nat \<Rightarrow> nat list \<Rightarrow> nat" where
  "val acc hs = foldl (\<lambda>a h. 65536 * a + h) acc hs"

lemma val_simps [simp]: "val acc [] = acc" "val acc (h # hs) = val (65536 * acc + h) hs"
  "val acc (hs @ hs') = val (val acc hs) hs'"
  by (simp_all add: val_def)

lemma val_zeros: "val acc (replicate n 0) = acc * 65536 ^ n"
  by (induction n arbitrary: acc) (simp_all add: algebra_simps)

lemma hextets_val_show: "\<forall>h \<in> set hs. h < 65536 \<Longrightarrow> hextets_val acc (map show_hex hs) = Some (val acc hs)"
  by (induction hs arbitrary: acc) (simp_all add: parse_hextet_show)

lemma length_hextets [simp]: "length (hextets n v) = n"
  by (induction n v rule: hextets.induct) simp_all

lemma hextets_less: "h \<in> set (hextets n v) \<Longrightarrow> h < 65536"
  by (induction n v rule: hextets.induct) auto

lemma val_hextets: "v < 65536 ^ n \<Longrightarrow> val 0 (hextets n v) = v"
proof (induction n v rule: hextets.induct)
  case (2 n v)
  then have "v div 65536 < 65536 ^ n" by (simp add: less_mult_imp_div_less mult.commute)
  with 2 show ?case by (simp add: mult.commute)
qed simp

section \<open>The run of zeros\<close>

definition zeros_at :: "nat list \<Rightarrow> nat \<times> nat \<Rightarrow> bool" where
  "zeros_at hs = (\<lambda>(st, n). st + n \<le> length hs \<and> (\<forall>i. st \<le> i \<and> i < st + n \<longrightarrow> hs ! i = 0))"

lemma zero_run_zeros:
  assumes "zeros_at (pre @ hs) best" and "cur = (st, n)" and "n = 0 \<or> st + n = length pre"
    and "\<forall>i. st \<le> i \<and> i < st + n \<longrightarrow> pre ! i = 0"
  shows "zeros_at (pre @ hs) (zero_run (length pre) hs cur best)"
  using assms
proof (induction hs arbitrary: pre cur best st n)
  case (Cons h hs)
  obtain bst bn where b: "best = (bst, bn)" by fastforce
  show ?case
  proof (cases "h = 0")
    case True
    define st' where "st' = (if n = 0 then length pre else st)"
    have e: "st' + Suc n = length (pre @ [h])" using Cons.prems(3) by (auto simp: st'_def)
    have z: "(pre @ [h]) ! i = 0" if "st' \<le> i" "i < st' + Suc n" for i
    proof (cases "i < length pre")
      case True
      with that Cons.prems(3) have "st \<le> i" "i < st + n" by (auto simp: st'_def split: if_splits)
      with Cons.prems(4) True show ?thesis by (simp add: nth_append)
    next
      case False
      with that e True show ?thesis by (simp add: nth_append)
    qed
    have "zeros_at ((pre @ [h]) @ hs) (st', Suc n)"
      unfolding zeros_at_def
    proof (clarify, intro conjI allI impI)
      show "st' + Suc n \<le> length ((pre @ [h]) @ hs)" using e by simp
      fix i
      assume "st' \<le> i \<and> i < st' + Suc n"
      then show "((pre @ [h]) @ hs) ! i = 0" using z [of i] e True by (auto simp: nth_append split: if_splits)
    qed
    with Cons.prems(1) b have "zeros_at ((pre @ [h]) @ hs)
        (if Suc n > bn then (st', Suc n) else (bst, bn))" by simp
    from Cons.IH [OF this refl] e z
    have "zeros_at ((pre @ [h]) @ hs) (zero_run (length (pre @ [h])) hs (st', Suc n)
        (if Suc n > bn then (st', Suc n) else (bst, bn)))" by blast
    then show ?thesis
      using True unfolding b Cons.prems(2) by (auto simp: st'_def Let_def split: if_splits)
  next
    case False
    have "zeros_at ((pre @ [h]) @ hs) best" using Cons.prems(1) by simp
    from Cons.IH [OF this refl, of 0 0]
    have "zeros_at ((pre @ [h]) @ hs) (zero_run (length (pre @ [h])) hs (0, 0) best)" by simp
    then show ?thesis using False unfolding b Cons.prems(2) by simp
  qed
qed simp

lemma zero_run_start: "zeros_at hs (zero_run 0 hs (0, 0) (0, 0))"
  using zero_run_zeros [of "[]" hs "(0, 0)" "(0, 0)" 0 0] by (simp add: zeros_at_def)

lemma zeros_split:
  assumes "zeros_at hs (st, n)"
  shows "hs = take st hs @ replicate n 0 @ drop (st + n) hs"
proof -
  have "take n (drop st hs) = replicate n 0"
    using assms by (intro replicate_eqI) (auto simp: zeros_at_def in_set_conv_nth)
  moreover have "hs = take st hs @ take n (drop st hs) @ drop (st + n) hs"
    by (metis append_take_drop_id drop_drop add.commute)
  ultimately show ?thesis by simp
qed

section \<open>The parts of an address\<close>

lemma empty_between:
  assumes "[] \<notin> set xs" and "[] \<notin> set ys"
  shows "filter (\<lambda>i. (xs @ [] # ys) ! i = []) [0..<length (xs @ [] # ys)] = [length xs]"
proof -
  have u: "[0..<length (xs @ [] # ys)] = [0..<length xs] @ length xs # [Suc (length xs)..<length (xs @ [] # ys)]"
    using upt_add_eq_append [of 0 "length xs" "Suc (length ys)"] by (simp add: upt_conv_Cons del: upt_Suc)
  have "filter (\<lambda>i. (xs @ [] # ys) ! i = []) [0..<length xs] = []"
    using assms(1) by (auto simp: filter_empty_conv nth_append) (metis nth_mem)
  moreover have "filter (\<lambda>i. (xs @ [] # ys) ! i = []) [Suc (length xs)..<length (xs @ [] # ys)] = []"
  proof -
    have "ys ! j \<noteq> []" if "j < length ys" for j using that assms(2) nth_mem by metis
    then show ?thesis by (auto simp: filter_empty_conv nth_append nth_Cons' simp del: upt_Suc)
  qed
  ultimately show ?thesis unfolding u by simp
qed

lemma inner_empty_ends:
  "inner_empty (a # xs @ [b]) = map Suc (filter (\<lambda>i. xs ! i = []) [0..<length xs])"
proof -
  have "[1..<length (a # xs @ [b]) - 1] = map Suc [0..<length xs]" by (simp add: map_Suc_upt)
  moreover have "filter (\<lambda>i. (a # xs @ [b]) ! i = []) (map Suc [0..<length xs]) =
      map Suc (filter (\<lambda>i. xs ! i = []) [0..<length xs])"
    unfolding filter_map by (rule arg_cong [of _ _ "map Suc"], rule filter_cong) (auto simp: nth_append)
  ultimately show ?thesis by (simp add: inner_empty_def)
qed

text \<open>
  The parts of an address with two colons: its ends \<open>a\<close> and \<open>b\<close>, empty where the colons are at an end, and
  between them the empty part of the colons.
\<close>

lemma parse_parts_compressed:
  assumes "[] \<notin> set xs" and "[] \<notin> set ys" and "a = [] \<Longrightarrow> xs = []" and "b = [] \<Longrightarrow> ys = []"
    and "hi = (if a = [] then [] else a # xs)" and "lo = (if b = [] then [] else ys @ [b])"
    and "length hi + length lo < 8"
  shows "parse_ipv6_parts (a # (xs @ [] # ys) @ [b]) = (case hextets_val 0 hi of None \<Rightarrow> None
    | Some h \<Rightarrow> hextets_val (h * 65536 ^ (8 - (length hi + length lo))) lo)"
proof -
  have "inner_empty (a # (xs @ [] # ys) @ [b]) = [Suc (length xs)]"
    unfolding inner_empty_ends empty_between [OF assms(1,2)] by simp
  then show ?thesis
    using assms(3-7) by (auto simp: parse_ipv6_parts_def Let_def cong: option.case_cong)
qed

lemma parse_parts_full:
  assumes "length xs = 8" and "[] \<notin> set xs"
  shows "parse_ipv6_parts xs = hextets_val 0 xs"
proof -
  have "xs ! i \<noteq> []" if "i < 8" for i using that assms nth_mem [of i xs] by metis
  then have "inner_empty xs = []" using assms(1) by (simp add: inner_empty_def filter_empty_conv)
  moreover have "hd xs \<noteq> []" "last xs \<noteq> []"
    using assms by (metis hd_in_set length_0_conv zero_neq_numeral, metis last_in_set length_0_conv zero_neq_numeral)
  ultimately show ?thesis using assms(1) by (simp add: parse_ipv6_parts_def)
qed

section \<open>Printing and parsing\<close>

lemma hextet_char_facts:
  assumes "hextet_char c"
  shows "c \<noteq> CHR '':''" and "c \<noteq> CHR ''.''" and "c \<noteq> CHR ''%''" and "c \<noteq> CHR ''/''"
  using assms by (auto simp: hextet_char_def is_digit_def code_def)

lemma show_hex_no: "\<not> hextet_char c \<Longrightarrow> c \<notin> set (show_hex n)"
  using show_hex_chars [of n] by (auto simp: list_all_iff)

lemma no_hextet_char: "\<not> hextet_char CHR '':''" "\<not> hextet_char CHR ''.''" "\<not> hextet_char CHR ''%''"
  "\<not> hextet_char CHR ''/''"
  using hextet_char_facts by blast+

text \<open>The parts that are printed, with their value.\<close>

lemma compress_parts:
  assumes "length hs = 8" and "\<forall>h \<in> set hs. h < 65536"
  shows "parse_ipv6_parts (compress_hextets hs) = Some (val 0 hs) \<and> 3 \<le> length (compress_hextets hs) \<and>
    length (compress_hextets hs) \<le> 9 \<and> set (compress_hextets hs) \<subseteq> insert [] (show_hex ` set hs)"
proof -
  obtain st n where z: "zero_run 0 hs (0, 0) (0, 0) = (st, n)" by fastforce
  have zs: "zeros_at hs (st, n)" using zero_run_start [of hs] by (simp add: z)
  let ?xs = "map show_hex hs"
  show ?thesis
  proof (cases "1 < n")
    case False
    then have "compress_hextets hs = ?xs" by (simp add: compress_hextets_def z)
    moreover have "parse_ipv6_parts ?xs = hextets_val 0 ?xs"
      by (rule parse_parts_full) (use assms(1) in auto)
    ultimately show ?thesis using assms by (auto simp: hextets_val_show)
  next
    case True
    define l r where "l = take st hs" and "r = drop (st + n) hs"
    have hs: "hs = l @ replicate n 0 @ r" using zeros_split [OF zs] by (simp add: l_def r_def)
    have len: "length l = st" "length l + n + length r = 8"
      using zs assms(1) by (auto simp: l_def r_def zeros_at_def)
    define a xs where "a = (if l = [] then [] else show_hex (hd l))" and "xs = map show_hex (tl l)"
    define b ys where "b = (if r = [] then [] else show_hex (last r))" and "ys = map show_hex (butlast r)"
    have hi: "map show_hex l = (if a = [] then [] else a # xs)" by (cases l) (simp_all add: a_def xs_def)
    have lo: "map show_hex r = (if b = [] then [] else ys @ [b])"
      by (cases r rule: rev_cases) (simp_all add: b_def ys_def)
    have st0: "st = 0 \<longleftrightarrow> l = []" and r0: "st + n = length hs \<longleftrightarrow> r = []" using len assms(1) by auto
    have "compress_hextets hs = (if l = [] then [[]] else []) @ map show_hex l @ [[]] @ map show_hex r @
        (if r = [] then [[]] else [])"
      using True st0 r0 by (simp add: compress_hextets_def z take_map drop_map l_def r_def)
    also have "\<dots> = a # (xs @ [] # ys) @ [b]"
      by (cases l; cases r rule: rev_cases) (simp_all add: a_def xs_def b_def ys_def)
    finally have c: "compress_hextets hs = a # (xs @ [] # ys) @ [b]" .
    have small: "length (map show_hex l) + length (map show_hex r) < 8" using len True by simp
    have "parse_ipv6_parts (compress_hextets hs) = (case hextets_val 0 (map show_hex l) of None \<Rightarrow> None
      | Some h \<Rightarrow> hextets_val (h * 65536 ^ (8 - (length (map show_hex l) + length (map show_hex r)))) (map show_hex r))"
      unfolding c by (rule parse_parts_compressed [OF _ _ _ _ hi lo small])
        (auto simp: xs_def ys_def a_def b_def split: if_splits)
    also have "\<dots> = Some (val (val 0 l * 65536 ^ n) r)"
    proof -
      have "8 - (length l + length r) = n" using len(2) by simp
      moreover have "\<forall>h \<in> set l. h < 65536" "\<forall>h \<in> set r. h < 65536" using assms(2) by (auto simp: hs)
      ultimately show ?thesis by (simp add: hextets_val_show)
    qed
    also have "\<dots> = Some (val 0 hs)" unfolding hs by (simp add: val_zeros)
    finally have "parse_ipv6_parts (compress_hextets hs) = Some (val 0 hs)" .
    moreover have "length (compress_hextets hs) \<le> 9"
      using len True by (simp add: c xs_def ys_def)
    moreover have "set (compress_hextets hs) \<subseteq> insert [] (show_hex ` set hs)"
      unfolding c by (auto simp: a_def b_def xs_def ys_def hs dest: list.set_sel(2) in_set_butlastD)
    ultimately show ?thesis by (simp add: c)
  qed
qed

theorem parse_show_ipv6_int:
  assumes "v < 2 ^ 128"
  shows "parse_ipv6_int (show_ipv6 v None) = Some v"
proof (cases "v div 4294967296 = 65535")
  case True
  let ?w = "v mod 4294967296"
  have w: "?w < 2 ^ 32" by simp
  then have h: "?w div 65536 < 65536" by (simp add: less_mult_imp_div_less)
  have d: "\<not> is_digit CHR '':''" by (simp add: is_digit_def code_def)
  have "split_on CHR '':'' (''::ffff:'' @ show_ipv4 ?w) = [[], [], ''ffff'', show_ipv4 ?w]"
  proof -
    have "CHR '':'' \<notin> set (show_ipv4 ?w)" by (simp add: show_ipv4_def show_nat_no_char [OF d])
    then show ?thesis by simp
  qed
  moreover have "CHR ''.'' \<in> set (show_ipv4 ?w)" by (simp add: show_ipv4_def)
  moreover have "show_hex (?w div 65536) \<noteq> []" "show_hex (?w mod 65536) \<noteq> []" by simp_all
  moreover have "parse_ipv6_parts ([] # ([] @ [] # [''ffff'', show_hex (?w div 65536)]) @ [show_hex (?w mod 65536)]) =
      Some (val 0 [65535, ?w div 65536, ?w mod 65536])"
  proof -
    have "parse_hextet ''ffff'' = Some 65535"
      by (simp add: parse_hextet_def hex_val_def is_digit_def code_def)
    moreover have "hextets_val 0 [''ffff'', show_hex (?w div 65536), show_hex (?w mod 65536)] = Some
        (val 0 [65535, ?w div 65536, ?w mod 65536])"
      using h calculation by (simp add: parse_hextet_show)
    ultimately show ?thesis by (subst parse_parts_compressed [OF _ _ _ _ refl refl]) simp_all
  qed
  moreover have "val 0 [65535, ?w div 65536, ?w mod 65536] = v"
    using True div_mult_mod_eq [of v 4294967296] div_mult_mod_eq [of ?w 65536] by simp
  ultimately show ?thesis
    using True parse_show_ipv4 [OF w] by (simp add: show_ipv6_def parse_ipv6_int_def expand_ipv4_tail_def)
next
  case False
  let ?hs = "hextets 8 v"
  have small: "\<forall>h \<in> set ?hs. h < 65536" by (simp add: hextets_less)
  note c = compress_parts [OF length_hextets small]
  have parts: "\<forall>x \<in> set (compress_hextets ?hs). CHR '':'' \<notin> set x \<and> CHR ''.'' \<notin> set x"
    using c show_hex_no [OF no_hextet_char(1)] show_hex_no [OF no_hextet_char(2)] by fastforce
  have ne: "compress_hextets ?hs \<noteq> []" using c by auto
  have "split_on CHR '':'' (join '':'' (compress_hextets ?hs)) = compress_hextets ?hs"
    using parts by (intro split_on_join [OF ne]) blast
  moreover have "expand_ipv4_tail (compress_hextets ?hs) = Some (compress_hextets ?hs)"
    using parts last_in_set [OF ne] by (simp add: expand_ipv4_tail_def)
  moreover have "val 0 ?hs = v" using assms by (intro val_hextets) simp
  ultimately show ?thesis using False c by (simp add: show_ipv6_def parse_ipv6_int_def)
qed

section \<open>What the parser accepts\<close>

lemma hex_val_less: "hex_val c = Some d \<Longrightarrow> d < 16"
  by (auto simp: hex_val_def is_digit_def split: if_splits)

lemma hex_acc_less: "hex_acc acc s = Some v \<Longrightarrow> v < (acc + 1) * 16 ^ length s"
proof (induction acc s rule: hex_acc.induct)
  case (2 acc c cs)
  then obtain d where d: "hex_val c = Some d" "hex_acc (16 * acc + d) cs = Some v"
    by (auto split: option.splits)
  have "v < (16 * acc + d + 1) * 16 ^ length cs" using 2 d by simp
  also have "\<dots> \<le> ((acc + 1) * 16) * 16 ^ length cs"
    using hex_val_less [OF d(1)] by (intro mult_right_mono) auto
  finally show ?case by (simp add: algebra_simps)
qed simp

lemma parse_hextet_less: "parse_hextet s = Some v \<Longrightarrow> v < 65536"
proof -
  assume "parse_hextet s = Some v"
  then have "v < 16 ^ length s" "length s \<le> 4"
    using hex_acc_less [of 0 s v] by (auto simp: parse_hextet_def split: if_splits)
  moreover from this(2) have "(16::nat) ^ length s \<le> 16 ^ 4" by (intro power_increasing) auto
  ultimately show ?thesis by simp
qed

lemma hextets_val_less: "hextets_val acc ps = Some v \<Longrightarrow> v < (acc + 1) * 65536 ^ length ps"
proof (induction acc ps rule: hextets_val.induct)
  case (2 acc p ps)
  then obtain d where d: "parse_hextet p = Some d" "hextets_val (65536 * acc + d) ps = Some v"
    by (auto split: option.splits)
  have "v < (65536 * acc + d + 1) * 65536 ^ length ps" using 2 d by simp
  also have "\<dots> \<le> ((acc + 1) * 65536) * 65536 ^ length ps"
    using parse_hextet_less [OF d(1)] by (intro mult_right_mono) auto
  finally show ?case by (simp add: algebra_simps)
qed simp

lemma two_parts_less:
  assumes "hextets_val 0 ps = Some h" and "hextets_val (h * 65536 ^ (8 - (length ps + length qs))) qs = Some v"
    and "length ps + length qs \<le> 8"
  shows "v < 65536 ^ 8"
proof -
  let ?k = "8 - (length ps + length qs)"
  have "v < (h * 65536 ^ ?k + 1) * 65536 ^ length qs" by (rule hextets_val_less [OF assms(2)])
  also have "\<dots> \<le> ((h + 1) * 65536 ^ ?k) * 65536 ^ length qs"
    by (intro mult_right_mono) (simp_all add: Suc_le_eq)
  also have "\<dots> \<le> (65536 ^ length ps * 65536 ^ ?k) * 65536 ^ length qs"
    using hextets_val_less [OF assms(1)] by (intro mult_right_mono) auto
  also have "\<dots> = 65536 ^ (length ps + ?k + length qs)" by (simp only: power_add)
  also have "length ps + ?k + length qs = 8" using assms(3) by simp
  finally show ?thesis .
qed

lemma parse_ipv6_int_less:
  assumes "parse_ipv6_int s = Some v"
  shows "v < 2 ^ 128"
proof -
  obtain ps where ps: "parse_ipv6_parts ps = Some v"
    using assms by (auto simp: parse_ipv6_int_def Let_def split: option.splits if_splits)
  have "v < 65536 ^ 8"
  proof (cases "inner_empty ps")
    case Nil
    with ps have "hextets_val 0 ps = Some v" "length ps = 8" by (auto simp: parse_ipv6_parts_def split: if_splits)
    with hextets_val_less [of 0 ps v] show ?thesis by simp
  next
    case (Cons i more)
    with ps have i: "inner_empty ps = [i]" by (cases more) (auto simp: parse_ipv6_parts_def)
    then have "i \<in> set (inner_empty ps)" by simp
    then have len: "i < length ps" by (auto simp: inner_empty_def)
    define hi where "hi = (if hd ps = [] then i - 1 else i)"
    define lo where "lo = (if last ps = [] then length ps - i - 1 - 1 else length ps - i - 1)"
    from ps i obtain h where "hextets_val 0 (take hi ps) = Some h"
      "hextets_val (h * 65536 ^ (8 - (hi + lo))) (drop (length ps - lo) ps) = Some v" "hi + lo + 1 \<le> 8"
      by (auto simp: parse_ipv6_parts_def Let_def hi_def lo_def split: option.splits if_splits)
    moreover have "length (take hi ps) = hi" "length (drop (length ps - lo) ps) = lo"
      using len by (auto simp: hi_def lo_def)
    ultimately show ?thesis using two_parts_less [of "take hi ps" h "drop (length ps - lo) ps" v] by simp
  qed
  then show ?thesis by simp
qed

section \<open>Networks\<close>

definition scope_ok :: "string option \<Rightarrow> bool" where
  "scope_ok scope = (case scope of None \<Rightarrow> True | Some z \<Rightarrow> z \<noteq> [] \<and> CHR ''%'' \<notin> set z \<and> CHR ''/'' \<notin> set z)"

lemma set_join: "set (join sep xs) \<subseteq> set sep \<union> \<Union> (set ` set xs)"
  by (induction sep xs rule: join.induct) auto

lemma sep_in_join: "2 \<le> length xs \<Longrightarrow> set sep \<subseteq> set (join sep xs)"
  by (cases "(sep, xs)" rule: join.cases) auto

lemma show_ipv6_chars:
  "CHR ''%'' \<notin> set (show_ipv6 v None)" "CHR ''/'' \<notin> set (show_ipv6 v None)" "CHR '':'' \<in> set (show_ipv6 v None)"
proof -
  have d: "\<not> is_digit CHR ''%''" "\<not> is_digit CHR ''/''" by (simp_all add: is_digit_def code_def)
  have four: "CHR ''%'' \<notin> set (show_ipv4 w)" "CHR ''/'' \<notin> set (show_ipv4 w)" for w
    using show_nat_no_char [OF d(1)] show_nat_no_char [OF d(2)] by (simp_all add: show_ipv4_def)
  have "\<forall>h \<in> set (hextets 8 v). h < 65536" by (simp add: hextets_less)
  note c = compress_parts [OF length_hextets this]
  have "set (join '':'' (compress_hextets (hextets 8 v))) \<subseteq> {CHR '':''} \<union> {c. hextet_char c}"
    using set_join [of "'':''" "compress_hextets (hextets 8 v)"] c show_hex_no by fastforce
  with no_hextet_char have six: "CHR ''%'' \<notin> set (join '':'' (compress_hextets (hextets 8 v)))"
    "CHR ''/'' \<notin> set (join '':'' (compress_hextets (hextets 8 v)))" by auto
  show "CHR ''%'' \<notin> set (show_ipv6 v None)" "CHR ''/'' \<notin> set (show_ipv6 v None)"
    using four six by (auto simp: show_ipv6_def)
  show "CHR '':'' \<in> set (show_ipv6 v None)"
    using sep_in_join [of "compress_hextets (hextets 8 v)" "'':''"] c by (auto simp: show_ipv6_def)
qed

lemma show_ipv6_scope: "show_ipv6 v scope = show_ipv6 v None @ (case scope of None \<Rightarrow> [] | Some z \<Rightarrow> CHR ''%'' # z)"
  by (simp add: show_ipv6_def)

theorem parse_show_ipv6:
  assumes "v < 2 ^ 128" and "scope_ok scope"
  shows "parse_ipv6 (show_ipv6 v scope) = Some (v, scope)"
  unfolding show_ipv6_scope [of v scope]
  using assms show_ipv6_chars [of v] parse_show_ipv6_int [OF assms(1)]
  by (auto simp: parse_ipv6_def scope_ok_def Let_def split: option.splits)

lemma parse_ipv6_accepts: "parse_ipv6 s = Some (v, scope) \<Longrightarrow> v < 2 ^ 128 \<and> scope_ok scope"
  using parse_ipv6_int_less
  by (auto simp: parse_ipv6_def scope_ok_def Let_def after_def split: if_splits dest!: in_set_dropD set_dropWhileD)

lemma parse_ipv4_no_colon:
  assumes "CHR '':'' \<in> set s"
  shows "parse_ipv4 s = None"
proof (cases "parse_ipv4 s")
  case (Some v)
  then obtain a b c d where s: "split_on CHR ''.'' s = [a, b, c, d]"
    and "parse_octet a \<noteq> None" "parse_octet b \<noteq> None" "parse_octet c \<noteq> None" "parse_octet d \<noteq> None"
    by (auto simp: parse_ipv4_def split: list.splits option.splits)
  then have "list_all is_digit (a @ b @ c @ d)" by (auto simp: parse_octet_def split: if_splits)
  moreover have "s = join ''.'' [a, b, c, d]" by (metis join_split_on s)
  ultimately have "list_all (\<lambda>x. is_digit x \<or> x = CHR ''.'') s" by (auto simp: list_all_iff)
  with assms show ?thesis by (auto simp: list_all_iff is_digit_def code_def)
qed

theorem ip_network_of_show_ipv6:
  assumes "v < 2 ^ 128" and "scope_ok z" and "p \<le> 128" and "masked 128 p v = v"
  shows "ip_network_of (show_network (IPv6Network v z p)) strict = Some (IPv6Network v z p)"
proof -
  have d: "\<not> is_digit CHR ''/''" by (simp add: is_digit_def code_def)
  have "CHR ''/'' \<notin> set (show_ipv6 v z)"
    using show_ipv6_chars(2) assms(2) by (auto simp: show_ipv6_scope [of v z] scope_ok_def split: option.splits)
  then have split: "split_on CHR ''/'' (show_network (IPv6Network v z p)) = [show_ipv6 v z, show_nat p]"
    using split_on_append [of "CHR ''/''" "show_ipv6 v z" "show_nat p"] by (simp add: show_nat_no_char [OF d])
  have "parse_ipv4 (show_ipv6 v z) = None"
    using show_ipv6_chars(3) [of v] by (intro parse_ipv4_no_colon) (simp add: show_ipv6_scope [of v z])
  then show ?thesis
    using assms(3,4) parse_show_ipv6 [OF assms(1,2)]
    by (simp add: ip_network_of_def ipv4_network_of_def ipv6_network_of_def split parse_prefix_len_show
        del: show_network.simps)
qed

lemma parse_netmask4_le: "parse_netmask4 m = Some p \<Longrightarrow> p \<le> 32"
  by (auto simp: parse_netmask4_def parse_prefix_len_def find_Some_iff split: option.splits if_splits)

lemma masked_less: "v < 2 ^ 32 \<Longrightarrow> masked 32 p v < 2 ^ 32"
  using masked_le [of 32 p v] by linarith

lemma ipv4_network_of_bounds:
  assumes "ipv4_network_of s strict = Some (IPv4Network v p)"
  shows "v < 2 ^ 32 \<and> p \<le> 32 \<and> masked 32 p v = v"
  using assms
  by (auto simp: ipv4_network_of_def masked_less [simplified]
      split: list.splits option.splits if_splits dest!: parse_ipv4_bound parse_netmask4_le)

lemma ipv6_network_of_bounds:
  assumes "ipv6_network_of s strict = Some (IPv6Network v z p)"
  shows "v < 2 ^ 128 \<and> scope_ok z \<and> p \<le> 128 \<and> masked 128 p v = v"
proof -
  have p: "q \<le> 128" if "parse_prefix_len 128 m = Some q" for m q
    using that by (auto simp: parse_prefix_len_def split: if_splits)
  have "masked 128 q a < 2 ^ 128" if "a < 2 ^ 128" for q a
    using that masked_le [of 128 q a] by (rule le_less_trans [rotated])
  with assms p show ?thesis
    by (auto simp: ipv6_network_of_def scope_ok_def [of None] split: list.splits option.splits if_splits
        dest!: parse_ipv6_accepts)
qed

text \<open>Every network that is read from a text is read back from the text that is printed for it.\<close>

theorem ip_network_prints_back:
  assumes "ip_network_of s strict = Some net"
  shows "ip_network_of (show_network net) strict' = Some net"
proof (cases net)
  case (IPv4Network v p)
  then have "ipv4_network_of s strict = Some (IPv4Network v p)"
    using assms by (auto simp: ip_network_of_def ipv6_network_of_def split: option.splits list.splits if_splits)
  from ipv4_network_of_bounds [OF this] show ?thesis
    unfolding IPv4Network by (intro ip_network_of_show_ipv4) auto
next
  case (IPv6Network v z p)
  then have "ipv6_network_of s strict = Some (IPv6Network v z p)"
    using assms by (auto simp: ip_network_of_def ipv4_network_of_def split: option.splits list.splits if_splits)
  from ipv6_network_of_bounds [OF this] show ?thesis
    unfolding IPv6Network by (intro ip_network_of_show_ipv6) auto
qed

end
