(* ===== verification/NftTables.thy ===== *)
theory NftTables
  imports NftKernel Ipaddress6
begin

text \<open>
  What \<open>NetfilterTables\<close> (src/backend/taramail/netfilter.py) guarantees on any packet filter that
  keeps the contract of NftKernel: the order of the mail rules after the start, the choice of the
  base chains, bans, and the behaviour of source NAT. The witnesses run on the ruleset in memory.
\<close>

section \<open>The start of the service\<close>

lemma mail_layout_cleared:
  assumes "mail_layout nt v"
    and "v ''filter'' (base_chain nt ''filter'' ''input'') = Some (hi, ri)"
    and "v ''filter'' (base_chain nt ''filter'' ''forward'') = Some (hf, rf)"
  shows "mail_layout nt (set_chain ''filter'' (nt_name nt) None
      (set_chain ''filter'' (base_chain nt ''filter'' ''forward'') (Some (hf, unmarked nt rf))
      (set_chain ''filter'' (base_chain nt ''filter'' ''input'') (Some (hi, unmarked nt ri)) v)))"
  using assms unfolding mail_layout_def Let_def
  by (auto simp: unmarked_def split: if_splits)

lemma mail_layout_present:
  assumes "mail_layout nt v"
  shows "\<exists>h rs. v ''filter'' (base_chain nt ''filter'' ''input'') = Some (h, rs)"
    and "\<exists>h rs. v ''filter'' (base_chain nt ''filter'' ''forward'') = Some (h, rs)"
proof -
  have "v ''filter'' (base_chain nt ''filter'' ''input'') \<noteq> None"
    and "v ''filter'' (base_chain nt ''filter'' ''forward'') \<noteq> None"
    using assms unfolding mail_layout_def Let_def by blast+
  then show "\<exists>h rs. v ''filter'' (base_chain nt ''filter'' ''input'') = Some (h, rs)"
    and "\<exists>h rs. v ''filter'' (base_chain nt ''filter'' ''forward'') = Some (h, rs)" by auto
qed

text \<open>
  C5. When the service starts, clearing the old state, inserting the chains and checking their order succeed
  on any ruleset in which only the service's own rules jump to its chain: the rule of the service is
  then the first of the input and of the forward chain, every rule of another program is kept in
  its order behind it, and the chain of the service is empty.
\<close>
theorem startup_puts_mail_rules_first:
  assumes "nft_kernel api (nt_family nt) rules good" and "good n" and "mail_layout nt (rules n)"
  shows "\<exists>n'. seqM (clear_tables api nt) (seqM (insert_mail_chains api nt) (check_chain_order api nt)) n =
      (Inr (), n') \<and> good n' \<and> (\<exists>h. rules n' ''filter'' (nt_name nt) = Some (h, [])) \<and>
    (\<forall>chain \<in> {base_chain nt ''filter'' ''input'', base_chain nt ''filter'' ''forward''}.
      \<exists>h rs r. rules n ''filter'' chain = Some (h, rs) \<and> mail_rule nt r \<and>
        rules n' ''filter'' chain = Some (h, r # unmarked nt rs))"
proof -
  let ?i = "base_chain nt ''filter'' ''input''" and ?f = "base_chain nt ''filter'' ''forward''"
  note ne = mail_layout_distinct [OF assms(3)]
  obtain hi ri where i: "rules n ''filter'' ?i = Some (hi, ri)"
    using mail_layout_present(1) [OF assms(3)] by (elim exE)
  obtain hf rf where f: "rules n ''filter'' ?f = Some (hf, rf)"
    using mail_layout_present(2) [OF assms(3)] by (elim exE)
  obtain u where u: "clear_tables api nt n = (Inr (), u)" "good u"
    and ru: "rules u = set_chain ''filter'' (nt_name nt) None
      (set_chain ''filter'' ?f (Some (hf, unmarked nt rf))
      (set_chain ''filter'' ?i (Some (hi, unmarked nt ri)) (rules n)))"
    using nft_kernel.clear_run [OF assms(1), OF assms(2) refl assms(3) i f] by blast
  have "rules u ''filter'' ?i = Some (hi, unmarked nt ri)" "rules u ''filter'' ?f = Some (hf, unmarked nt rf)"
    "rules u ''filter'' (nt_name nt) = None" by (simp_all add: ru ne)
  moreover have "unmarked nt (unmarked nt rs) = unmarked nt rs" for rs by (simp add: unmarked_def)
  moreover have "mail_layout nt (rules u)" unfolding ru by (rule mail_layout_cleared [OF assms(3) i f])
  ultimately obtain v h q r where v: "insert_mail_chains api nt u = (Inr (), v)" "good v"
    "mail_rule nt q" "mail_rule nt r"
    and rv: "rules v = set_chain ''filter'' ?f (Some (hf, r # unmarked nt rf))
      (set_chain ''filter'' ?i (Some (hi, q # unmarked nt ri))
        (set_chain ''filter'' (nt_name nt) (Some (h, [])) (rules u)))"
    using nft_kernel.insert_mail_chains_run [OF assms(1), OF u(2) refl] by blast
  have vi: "rules v ''filter'' ?i = Some (hi, q # unmarked nt ri)"
    and vf: "rules v ''filter'' ?f = Some (hf, r # unmarked nt rf)"
    and vm: "rules v ''filter'' (nt_name nt) = Some (h, [])" by (simp_all add: rv ne)
  have "check_chain_order api nt v = (Inr (), v)"
    by (rule nft_kernel.check_chain_order_run [OF assms(1), OF v(2) refl vi vf v(3,4)])
  then have "seqM (clear_tables api nt) (seqM (insert_mail_chains api nt) (check_chain_order api nt)) n =
      (Inr (), v)"
    using u(1) v(1) by (simp add: seqM_def bindM_def)
  with v i f vi vf vm show ?thesis by (intro exI [of _ v]) auto
qed

definition other_rule :: "string \<Rightarrow> nat \<Rightarrow> nft_rule" where
  "other_rule chain h =
     \<lparr>ru_family = ''ip'', ru_table = ''filter'', ru_chain = chain, ru_handle = h, ru_comment = None,
      ru_expr = [Counter 3 4, Jump ''DOCKER'']\<rparr>"

definition kernel_tables :: nft_tables where
  "kernel_tables =
     \<lparr>nt_name = ''MAIL'', nt_comment = ''mail'', nt_family = ''ip'',
      nt_chains = (\<lambda>t h. if t = ''filter'' \<and> h = ''input'' then Some ''INPUT''
        else if t = ''filter'' \<and> h = ''forward'' then Some ''FORWARD'' else default_chains t h)\<rparr>"

definition kernel_ruleset :: ruleset where
  "kernel_ruleset =
     \<lparr>rl_next = 7, rl_chains =
       [((''ip'', ''filter'', ''INPUT''), \<lparr>kc_handle = 1, kc_hook = Some ''input'', kc_prio = Some 0,
          kc_rules = [other_rule ''INPUT'' 4, (other_rule ''INPUT'' 5)
            \<lparr>ru_comment := Some ''mail'', ru_expr := [Counter 1 1, Jump ''MAIL'']\<rparr>]\<rparr>),
        ((''ip'', ''filter'', ''FORWARD''), \<lparr>kc_handle = 2, kc_hook = Some ''forward'', kc_prio = Some 0,
          kc_rules = [other_rule ''FORWARD'' 6]\<rparr>),
        ((''ip'', ''filter'', ''MAIL''), \<lparr>kc_handle = 3, kc_hook = None, kc_prio = None, kc_rules = []\<rparr>)]\<rparr>"

lemma kernel_ruleset_good: "ruleset_good kernel_ruleset"
  by (rule ruleset_goodI) (simp_all add: kernel_ruleset_def dict_keys_def chain_ok_def other_rule_def)

lemma kernel_ruleset_layout: "mail_layout kernel_tables (ruleset_rules ''ip'' kernel_ruleset)"
  unfolding mail_layout_def Let_def
  by (auto simp: kernel_tables_def base_chain_def ruleset_rules_def kernel_ruleset_def other_rule_def
      jumps_to_def split: if_splits)

lemma startup_puts_mail_rules_first_witness:
  "\<exists>k. seqM (clear_tables ruleset_cmd kernel_tables) (seqM (insert_mail_chains ruleset_cmd kernel_tables)
       (check_chain_order ruleset_cmd kernel_tables)) kernel_ruleset = (Inr (), k) \<and>
     (\<exists>h r. ruleset_rules ''ip'' k ''filter'' ''INPUT'' = Some (h, [r, other_rule ''INPUT'' 4]))"
proof -
  have "nft_kernel ruleset_cmd (nt_family kernel_tables) (ruleset_rules ''ip'') ruleset_good"
    using ruleset.nft_kernel_axioms [of "''ip''"] by (simp add: kernel_tables_def)
  from startup_puts_mail_rules_first [OF this kernel_ruleset_good kernel_ruleset_layout]
  obtain k h rs r where k: "seqM (clear_tables ruleset_cmd kernel_tables)
      (seqM (insert_mail_chains ruleset_cmd kernel_tables)
       (check_chain_order ruleset_cmd kernel_tables)) kernel_ruleset = (Inr (), k)"
    "ruleset_rules ''ip'' kernel_ruleset ''filter'' (base_chain kernel_tables ''filter'' ''input'') = Some (h, rs)"
    "ruleset_rules ''ip'' k ''filter'' (base_chain kernel_tables ''filter'' ''input'') =
       Some (h, r # unmarked kernel_tables rs)"
    by blast
  have "base_chain kernel_tables ''filter'' ''input'' = ''INPUT''"
    by (simp add: base_chain_def kernel_tables_def)
  moreover from this k(2) have "unmarked kernel_tables rs = [other_rule ''INPUT'' 4]"
    by (auto simp: ruleset_rules_def kernel_ruleset_def unmarked_def kernel_tables_def other_rule_def)
  ultimately show ?thesis using k(1,3) by auto
qed

section \<open>The base chains\<close>

text \<open>The chains of a table at a hook, and their priorities.\<close>

definition at_hook :: "string \<Rightarrow> string \<Rightarrow> nft_chain list \<Rightarrow> nft_chain list" where
  "at_hook t h cs = filter (\<lambda>c. ch_table c = t \<and> ch_hook c = Some h \<and> ch_prio c \<noteq> None) cs"

definition prio :: "nft_chain \<Rightarrow> int" where
  "prio c = (case ch_prio c of None \<Rightarrow> 0 | Some p \<Rightarrow> p)"

lemma arg_min_list_Cons:
  "arg_min_list f (x # xs) =
     (if xs = [] then x else if f x \<le> f (arg_min_list f xs) then x else arg_min_list f xs)"
  by (cases xs) (auto simp: Let_def)

lemma scan_chains_elsewhere:
  assumes "\<not> (ch_table c = t \<and> ch_hook c = Some h \<and> ch_prio c \<noteq> None)"
  shows "\<exists>saved' names'. scan_chains (c # cs) saved names = scan_chains cs saved' names' \<and>
    saved' t h = saved t h \<and> names' t h = names t h"
proof (cases "ch_prio c = None \<or> ch_hook c = None")
  case True
  then have "scan_chains (c # cs) saved names = scan_chains cs saved names"
    by (auto split: option.splits)
  then show ?thesis by blast
next
  case False
  then obtain q g where c: "ch_prio c = Some q" "ch_hook c = Some g" by auto
  let ?s = "saved(ch_table c := (saved (ch_table c))(g \<mapsto> q))"
  let ?n = "names(ch_table c := (names (ch_table c))(g \<mapsto> ch_name c))"
  have "scan_chains (c # cs) saved names = scan_chains cs ?s ?n \<or>
      scan_chains (c # cs) saved names = scan_chains cs saved names"
    unfolding scan_chains.simps c option.case prod.case by (simp only: split: if_split) blast
  moreover have "?s t h = saved t h \<and> ?n t h = names t h" using assms c by auto
  ultimately show ?thesis by blast
qed

lemma scan_chains_from:
  assumes "names t h \<noteq> None"
  shows "scan_chains cs saved names t h =
    (if at_hook t h cs = [] \<or> (\<exists>p. saved t h = Some p \<and> p \<le> prio (arg_min_list prio (at_hook t h cs)))
     then names t h else Some (ch_name (arg_min_list prio (at_hook t h cs))))"
  using assms
proof (induction cs arbitrary: saved names)
  case Nil
  then show ?case by (simp add: at_hook_def)
next
  case (Cons c cs)
  show ?case
  proof (cases "ch_table c = t \<and> ch_hook c = Some h \<and> ch_prio c \<noteq> None")
    case False
    then have a: "at_hook t h (c # cs) = at_hook t h cs" by (auto simp: at_hook_def)
    obtain saved' names' where e: "scan_chains (c # cs) saved names = scan_chains cs saved' names'"
      "saved' t h = saved t h" "names' t h = names t h"
      using scan_chains_elsewhere [OF False] by blast
    show ?thesis
      using Cons.IH [of names' saved'] Cons.prems unfolding e a by blast
  next
    case True
    then obtain p where c: "ch_table c = t" "ch_hook c = Some h" "ch_prio c = Some p" "prio c = p"
      by (auto simp: prio_def)
    then have a: "at_hook t h (c # cs) = c # at_hook t h cs" by (simp add: at_hook_def)
    show ?thesis
      unfolding a arg_min_list_Cons
      using c Cons.prems by (auto simp: Cons.IH split: option.splits)
  qed
qed

text \<open>
  The chain \<open>init_chains\<close> keeps for a table and a hook it looks for is the reference choice,
  the first chain of the least priority among the base chains at that hook; without one it keeps the
  name it had.
\<close>
theorem init_chains_least_priority:
  assumes "nt_chains nt t h \<noteq> None" and "list_chains api nt n = (Inr objs, m)"
  shows "\<exists>nt'. init_chains api nt n = (Inr nt', m) \<and>
    nt_chains nt' t h = (if at_hook t h (chain_objs objs) = [] then nt_chains nt t h
      else Some (ch_name (arg_min_list prio (at_hook t h (chain_objs objs)))))"
  using assms by (auto simp: init_chains_def bindM_def scan_chains_from)

lemma init_chains_least_priority_witness:
  "\<exists>nt'. init_chains ruleset_cmd (kernel_tables\<lparr>nt_chains := default_chains\<rparr>) kernel_ruleset =
      (Inr nt', kernel_ruleset) \<and> nt_chains nt' ''filter'' ''input'' = Some ''INPUT''"
proof -
  let ?nt = "kernel_tables\<lparr>nt_chains := default_chains\<rparr>"
  have d: "nt_chains ?nt ''filter'' ''input'' \<noteq> None" by (simp add: default_chains_def)
  obtain objs where o: "list_chains ruleset_cmd ?nt kernel_ruleset = (Inr objs, kernel_ruleset)"
    "at_hook ''filter'' ''input'' (chain_objs objs) =
      [\<lparr>ch_family = ''ip'', ch_table = ''filter'', ch_name = ''INPUT'', ch_handle = 1,
        ch_hook = Some ''input'', ch_prio = Some 0\<rparr>]"
    by (simp add: list_chains_def run_cmd_def objects_def bindM_def kernel_ruleset_def
        kernel_tables_def at_hook_def)
  from init_chains_least_priority [OF d o(1)] o(2) show ?thesis by simp
qed

section \<open>Bans\<close>

lemma ipv4_network_prints_back: "ip_network_of s strict = Some (IPv4Network v p) \<Longrightarrow>
    ip_network_of (show_network (IPv4Network v p)) True = Some (IPv4Network v p)"
  by (rule ip_network_prints_back)

text \<open>
  Banning an IPv4 network puts a rule that drops what comes from it first in the chain of the
  service, and unbanning it afterwards gives back the ruleset there was before.
\<close>
lemma ban_then_unban_restores:
  assumes "nft_kernel api (nt_family nt) rules good" and "good n"
    and "rules n ''filter'' (nt_name nt) = Some (h, rs)"
    and "ip_network_of ipaddr False = Some (IPv4Network v p)"
  shows "\<exists>n1 n2 r. ban_rule api nt ipaddr n = (Inr None, n1) \<and>
    rules n1 = set_chain ''filter'' (nt_name nt) (Some (h, r # rs)) (rules n) \<and>
    drops nt (IPv4Network v p) r \<and>
    unban_rule api nt ipaddr n1 = (Inr (), n2) \<and> rules n2 = rules n"
proof -
  obtain n1 r where n1: "ban_rule api nt ipaddr n = (Inr None, n1)" "good n1" "drops nt (IPv4Network v p) r"
    and r1: "rules n1 = set_chain ''filter'' (nt_name nt) (Some (h, r # rs)) (rules n)"
    using nft_kernel.ban_rule_run [OF assms(1), OF assms(2) refl assms(3,4)
        ipv4_network_prints_back [OF assms(4)]] by blast
  have "rules n1 ''filter'' (nt_name nt) = Some (h, r # rs)" by (simp add: r1)
  then obtain n2 where "unban_rule api nt ipaddr n1 = (Inr (), n2)"
    "rules n2 = set_chain ''filter'' (nt_name nt) (Some (h, rs)) (rules n1)"
    using nft_kernel.unban_rule_run [OF assms(1), OF n1(2) refl _ _ n1(3) assms(4), where pre = "[]"] by auto
  moreover from this(2) have "rules n2 = rules n" using assms(3) by (simp add: r1 set_chain_id)
  ultimately show ?thesis using n1 r1 by blast
qed

definition banned_ip :: ip_network where
  "banned_ip = IPv4Network (quad 198 51 99 0) 24"

lemma ban_then_unban_restores_witness:
  "\<exists>k r m. ban_rule ruleset_cmd kernel_tables (show_network banned_ip) kernel_ruleset = (Inr None, k) \<and>
     drops kernel_tables banned_ip r \<and>
     ruleset_rules ''ip'' k ''filter'' ''MAIL'' = Some (3, [r]) \<and>
     unban_rule ruleset_cmd kernel_tables (show_network banned_ip) k = (Inr (), m)"
proof -
  have k: "nft_kernel ruleset_cmd (nt_family kernel_tables) (ruleset_rules ''ip'') ruleset_good"
    using ruleset.nft_kernel_axioms [of "''ip''"] by (simp add: kernel_tables_def)
  have n: "nt_name kernel_tables = ''MAIL''" by (simp add: kernel_tables_def)
  have r: "ruleset_rules ''ip'' kernel_ruleset ''filter'' (nt_name kernel_tables) = Some (3, [])"
    by (simp add: ruleset_rules_def kernel_ruleset_def kernel_tables_def)
  have "ip_network_of (show_network banned_ip) False = Some (IPv4Network (quad 198 51 99 0) 24)"
    unfolding banned_ip_def by (rule ip_network_of_show_ipv4) (simp_all add: quad_def masked_def)
  from ban_then_unban_restores [OF k, OF kernel_ruleset_good r this] show ?thesis
    unfolding n banned_ip_def by auto
qed

section \<open>Source NAT\<close>

text \<open>
  The rule \<open>snat\<close> inserts has its counter after its target, while the check of a rule that is
  there reads the target in the last place: every round after one whose rule was accepted raises
  \<open>KeyError\<close>.
\<close>
theorem snat_second_round_fails:
  assumes "base_chain nt ''nat'' ''postrouting'' = c" and "c \<noteq> []"
    and "ip_network_of source False = Some dest_net" and "ip_network_of target False = Some target_net"
    and "list_chain api nt ''nat'' c n = (Inr objs, n)"
  shows "case find_mail_rule (nt_comment nt) 0 (rule_objs objs) of
      None \<Rightarrow> snat api nt target source n = run_unit (insert_rule api nt ''nat'' c
        (snat_expr nt dest_net target_net) (Some (nt_comment nt))) n
    | Some (i, r) \<Rightarrow> ru_expr r = snat_expr nt dest_net target_net \<longrightarrow>
        snat api nt target source n = (Inl (KeyError ''snat''), n)"
proof (cases "find_mail_rule (nt_comment nt) 0 (rule_objs objs)")
  case None
  with assms show ?thesis
    by (simp add: snat_def bindM_def network_ret)
next
  case (Some x)
  obtain i r where x: "x = (i, r)" by fastforce
  have "snat_rule_nets r n = (Inl (KeyError ''snat''), n)"
    if "ru_expr r = snat_expr nt dest_net target_net"
    using that by (simp add: snat_rule_nets_def expr_at_def snat_expr_def match_right_def
        prefix_text_def snat_addr_def bindM_def)
  with Some x assms show ?thesis
    by (auto simp: snat_def bindM_def network_ret)
qed

text \<open>A packet filter whose only rule is the one \<open>snat\<close> inserts, accepted as it is.\<close>

definition snat_tables :: nft_tables where
  "snat_tables = kernel_tables\<lparr>nt_chains := (\<lambda>t h. Some ''POSTROUTING'')\<rparr>"

definition snat_listed :: nft_rule where
  "snat_listed =
     \<lparr>ru_family = ''ip'', ru_table = ''nat'', ru_chain = ''POSTROUTING'', ru_handle = 1,
      ru_comment = Some ''mail'', ru_expr = snat_expr snat_tables banned_ip banned_ip\<rparr>"

definition accepting :: "unit nft_api" where
  "accepting cmd n = ((0, Some [RuleObj snat_listed], []), n)"

lemma snat_second_round_fails_witness:
  "snat accepting snat_tables (show_network banned_ip) (show_network banned_ip) () =
     (Inl (KeyError ''snat''), ())"
proof -
  have net: "ip_network_of (show_network banned_ip) False = Some banned_ip"
    unfolding banned_ip_def by (rule ip_network_of_show_ipv4) (simp_all add: quad_def masked_def)
  have c: "base_chain snat_tables ''nat'' ''postrouting'' = ''POSTROUTING''"
    by (simp add: base_chain_def snat_tables_def)
  have l: "list_chain accepting snat_tables ''nat'' ''POSTROUTING'' () = (Inr [RuleObj snat_listed], ())"
    by (simp add: list_chain_def run_cmd_def objects_def bindM_def accepting_def)
  show ?thesis
    using snat_second_round_fails [OF c _ net net l]
    by (simp add: snat_listed_def snat_tables_def kernel_tables_def)
qed

end
