(* ===== verification/Regex.thy ===== *)
theory Regex
  imports PyStr
begin

text \<open>
  The part of Python's \<open>re\<close> the program uses to read log lines (src/backend/taramail/netfilter.py,
  \<open>f2bregex\<close>): literals, \<open>.*\<close>, \<open>.+\<close>, one group that repeats a class of characters, and a negative
  lookahead. Matching backtracks as Python does: a repetition first takes all it can and gives
  back one character at a time, so the group found is the one Python finds.
\<close>

datatype rx =
    Lit string
  | AnyStar
  | AnyPlus
  | Group "char \<Rightarrow> bool"
  | NotAhead "rx list"

fun first_some :: "('a \<Rightarrow> 'b option) \<Rightarrow> 'a list \<Rightarrow> 'b option" where
  "first_some f [] = None"
| "first_some f (x # xs) = (case f x of None \<Rightarrow> first_some f xs | Some y \<Rightarrow> Some y)"

text \<open>How many characters \<open>p\<close> a greedy repetition can take; a dot takes no newline.\<close>

definition span :: "(char \<Rightarrow> bool) \<Rightarrow> string \<Rightarrow> nat" where
  "span p s = length (takeWhile p s)"

definition dot :: "char \<Rightarrow> bool" where
  "dot c \<longleftrightarrow> code c \<noteq> 10"

definition down_to :: "nat \<Rightarrow> nat \<Rightarrow> nat list" where
  "down_to n m = rev [m..<Suc n]"

text \<open>\<open>cap\<close> is the text of the group so far.\<close>

fun rmatch :: "rx list \<Rightarrow> string \<Rightarrow> string \<Rightarrow> string option" where
  "rmatch [] s cap = Some cap"
| "rmatch (Lit l # rs) s cap =
     (if starts_with l s then rmatch rs (drop (length l) s) cap else None)"
| "rmatch (AnyStar # rs) s cap =
     first_some (\<lambda>k. rmatch rs (drop k s) cap) (down_to (span dot s) 0)"
| "rmatch (AnyPlus # rs) s cap =
     first_some (\<lambda>k. rmatch rs (drop k s) cap) (down_to (span dot s) 1)"
| "rmatch (Group p # rs) s cap =
     first_some (\<lambda>k. rmatch rs (drop k s) (take k s)) (down_to (span p s) 1)"
| "rmatch (NotAhead p # rs) s cap =
     (if rmatch p s cap = None then rmatch rs s cap else None)"

text \<open>\<open>re.search(...)\<close> and its \<open>group(1)\<close>: the leftmost start that matches.\<close>

definition search :: "rx list \<Rightarrow> string \<Rightarrow> string option" where
  "search rs s = first_some (\<lambda>k. rmatch rs (drop k s) []) [0..<Suc (length s)]"

end
