(* ===== verification/Netfilter.thy ===== *)
theory Netfilter
  imports NftTables Store Regex
begin

text \<open>
  The rest of src/backend/taramail/netfilter.py: the class \<open>Netfilter\<close>, which counts attempts,
  bans and unbans networks and keeps the lists of the administrator, and the tasks of
  \<open>NetfilterService\<close>. The state is the store, the packet filter, the dictionary of bans and the
  two lists; a Python set is a list without duplicates, whose order is the order of iteration.
  Times are integers of seconds and the clock stands still during one operation. The operations
  run one at a time: asyncio only switches tasks where one waits. DNS is a parameter.
\<close>

section \<open>Addresses\<close>

definition get_ip :: "string \<Rightarrow> ('w, py_exn, ip_address option) sem" where
  "get_ip address =
     (case ip_address_of address of
        None \<Rightarrow> throw (ValueError (address @ '' does not appear to be an IPv4 or IPv6 address''))
      | Some ip \<Rightarrow>
          let ip = (case ipv4_mapped ip of Some mapped \<Rightarrow> mapped | None \<Rightarrow> ip)
          in if is_private ip \<or> is_loopback ip then ret None else ret (Some ip))"

definition is_ip :: "string \<Rightarrow> bool" where
  "is_ip address \<longleftrightarrow> ip_network_of address False \<noteq> None"

text \<open>
  \<open>resolve qname rdtype\<close> is the answer of the DNS resolver as text, or \<open>None\<close> for one of the
  exceptions of dnspython, which are logged and skipped.
\<close>

type_synonym dns_api = "string \<Rightarrow> string \<Rightarrow> string list option"

definition resolve_addresses :: "dns_api \<Rightarrow> string list \<Rightarrow> string list" where
  "resolve_addresses resolve addresses =
     dedup (filter is_ip addresses @
       concat (map (\<lambda>(hostname, rdtype). case resolve hostname rdtype of None \<Rightarrow> [] | Some ips \<Rightarrow> ips)
         (List.product (filter (\<lambda>a. \<not> is_ip a) addresses) [''A'', ''AAAA''])))"

section \<open>State and options\<close>

record ban =
  attempts :: int
  last_attempt :: int
  ban_counter :: nat

record ('s, 'n) f2b =
  fb_store :: 's
  fb_kernel :: 'n
  fb_bans :: "(string, ban) dict"
  fb_blacklist :: "string list"
  fb_whitelist :: "string list"

record ('s, 'n) netfilter =
  nf_store :: "'s store_ops"
  nf_api :: "'n nft_api"
  nf_ipv4_tables :: nft_tables
  nf_ipv6_tables :: nft_tables
  nf_resolve :: dns_api

record f2b_options =
  o_ban_time :: int
  o_max_ban_time :: int
  o_ban_time_increment :: bool
  o_max_attempts :: int
  o_retry_window :: int
  o_netban_ipv4 :: nat
  o_netban_ipv6 :: nat
  o_manage_external :: int

definition f2boptions :: f2b_options where
  "f2boptions =
     \<lparr>o_ban_time = 1800, o_max_ban_time = 10000, o_ban_time_increment = True, o_max_attempts = 10,
      o_retry_window = 600, o_netban_ipv4 = 32, o_netban_ipv6 = 128, o_manage_external = 0\<rparr>"

definition on_kernel :: "('n, 'e, 'a) sem \<Rightarrow> (('s, 'n) f2b, 'e, 'a) sem" where
  "on_kernel = zoom fb_kernel (\<lambda>n w. w\<lparr>fb_kernel := n\<rparr>)"

definition on_hashes :: "('s, 'e, 'a) sem \<Rightarrow> (('s, 'n) f2b, 'e, 'a) sem" where
  "on_hashes = zoom fb_store (\<lambda>s w. w\<lparr>fb_store := s\<rparr>)"

definition calc_net_ban_time :: "nat \<Rightarrow> int" where
  "calc_net_ban_time counter =
     (let ban_time = o_ban_time f2boptions;
          net_ban_time = (if \<not> o_ban_time_increment f2boptions then ban_time
            else ban_time * 2 ^ counter)
      in max ban_time (min net_ban_time (o_max_ban_time f2boptions)))"

section \<open>Bans\<close>

text \<open>The tables of the version of an address or a network.\<close>

fun tables_of :: "('s, 'n) netfilter \<Rightarrow> ip_network \<Rightarrow> nft_tables" where
  "tables_of nf (IPv4Network _ _) = nf_ipv4_tables nf"
| "tables_of nf (IPv6Network _ _ _) = nf_ipv6_tables nf"

fun netban :: "ip_address \<Rightarrow> string" where
  "netban (IPv4Address _) = ''/'' @ show_nat (o_netban_ipv4 f2boptions)"
| "netban (IPv6Address _ _) = ''/'' @ show_nat (o_netban_ipv6 f2boptions)"

fun whitelisted :: "string list \<Rightarrow> ip_network \<Rightarrow> ('w, py_exn, bool) sem" where
  "whitelisted [] self_network = ret False"
| "whitelisted (wl_key # whitelist) self_network =
     bindM (network wl_key False) (\<lambda>wl_net.
     if overlaps wl_net self_network then ret True else whitelisted whitelist self_network)"

definition record_attempt :: "int \<Rightarrow> ban option \<Rightarrow> ban" where
  "record_attempt now entry =
     (let b = (case entry of None \<Rightarrow> \<lparr>attempts = 0, last_attempt = 0, ban_counter = 0\<rparr> | Some b \<Rightarrow> b);
          b = (if o_retry_window f2boptions < now - last_attempt b then b\<lparr>attempts := 0\<rparr> else b)
      in b\<lparr>attempts := attempts b + 1, last_attempt := now\<rparr>)"

definition set_ban :: "string \<Rightarrow> ban \<Rightarrow> (('s, 'n) f2b, 'e, unit) sem" where
  "set_ban net b = modify (\<lambda>w. w\<lparr>fb_bans := dict_set net b (fb_bans w)\<rparr>)"

definition ban_network ::
  "('s, 'n) netfilter \<Rightarrow> int \<Rightarrow> ip_network \<Rightarrow> (('s, 'n) f2b, py_exn, unit) sem" where
  "ban_network nf now ip_net =
     (let net = show_network ip_net in
      bindM (gets (\<lambda>w. record_attempt now (map_of (fb_bans w) net))) (\<lambda>b.
      seqM (set_ban net b)
      (if o_max_attempts f2boptions \<le> attempts b
       then seqM (whenM (o_manage_external f2boptions \<noteq> 1)
              (run_unit (on_kernel (ban_rule (nf_api nf) (tables_of nf ip_net) net))))
            (run_unit (on_hashes (s_hset (nf_store nf) ''F2B_ACTIVE_BANS'' net
              (PInt (now + calc_net_ban_time (ban_counter b))) None)))
       else ret ())))"

definition ban_address ::
  "('s, 'n) netfilter \<Rightarrow> int \<Rightarrow> string \<Rightarrow> (('s, 'n) f2b, py_exn, unit) sem" where
  "ban_address nf now address =
     bindM (get_ip address) (\<lambda>ip.
     case ip of
       None \<Rightarrow> ret ()
     | Some ip \<Rightarrow>
         bindM (network (show_ip ip) True) (\<lambda>self_network.
         bindM (gets fb_whitelist) (\<lambda>whitelist.
         bindM (whitelisted whitelist self_network) (\<lambda>skip.
         if skip then ret ()
         else bindM (network (show_ip ip @ netban ip) False) (ban_network nf now)))))"

definition unban :: "('s, 'n) netfilter \<Rightarrow> string \<Rightarrow> (('s, 'n) f2b, py_exn, unit) sem" where
  "unban nf net =
     bindM (gets (\<lambda>w. map_of (fb_bans w) net)) (\<lambda>entry.
     case entry of
       None \<Rightarrow> run_unit (on_hashes (s_hdel (nf_store nf) ''F2B_QUEUE_UNBAN'' [net]))
     | Some b \<Rightarrow>
         bindM (network net True) (\<lambda>ip_net.
         seqM (on_kernel (unban_rule (nf_api nf) (tables_of nf ip_net) net))
         (seqM (run_unit (on_hashes (s_hdel (nf_store nf) ''F2B_ACTIVE_BANS'' [net])))
         (seqM (run_unit (on_hashes (s_hdel (nf_store nf) ''F2B_QUEUE_UNBAN'' [net])))
         (set_ban net (b\<lparr>attempts := 0, ban_counter := ban_counter b + 1\<rparr>))))))"

text \<open>
  \<open>NetfilterTables.unban\<close> returns nothing, which is false; \<open>ban\<close> returns the output of nft, which
  is true when it is not the empty string.
\<close>

definition perm_ban ::
  "('s, 'n) netfilter \<Rightarrow> int \<Rightarrow> string \<Rightarrow> bool \<Rightarrow> (('s, 'n) f2b, py_exn, unit) sem" where
  "perm_ban nf now net unbanning =
     bindM (network net False) (\<lambda>ip_net.
     bindM
       (if unbanning
        then seqM (on_kernel (unban_rule (nf_api nf) (tables_of nf ip_net) net)) (ret (False, False))
        else if o_manage_external f2boptions \<noteq> 1
        then bindM (on_kernel (ban_rule (nf_api nf) (tables_of nf ip_net) net)) (\<lambda>output.
          ret (False, output \<noteq> None))
        else ret (False, False))
       (\<lambda>(is_unbanned, is_banned).
     if is_unbanned then run_unit (on_hashes (s_hdel (nf_store nf) ''F2B_PERM_BANS'' [net]))
     else if is_banned
     then run_unit (on_hashes (s_hset (nf_store nf) ''F2B_PERM_BANS'' net (PInt now) None))
     else ret ()))"

section \<open>The periodic operations\<close>

definition purge_ban :: "('s, 'n) netfilter \<Rightarrow> int \<Rightarrow> string \<Rightarrow> (('s, 'n) f2b, py_exn, unit) sem" where
  "purge_ban nf now net =
     bindM (gets (\<lambda>w. map_of (fb_bans w) net)) (\<lambda>entry.
     case entry of
       None \<Rightarrow> throw (KeyError net)
     | Some b \<Rightarrow>
         whenM (o_max_attempts f2boptions \<le> attempts b \<and>
             calc_net_ban_time (ban_counter b) < now - last_attempt b)
           (unban nf net))"

definition autopurge :: "('s, 'n) netfilter \<Rightarrow> int \<Rightarrow> (('s, 'n) f2b, py_exn, unit) sem" where
  "autopurge nf now =
     bindM (on_hashes (s_hgetall (nf_store nf) ''F2B_QUEUE_UNBAN'')) (\<lambda>queue_unban.
     seqM (forM (dict_keys queue_unban) (unban nf))
     (bindM (gets (\<lambda>w. dict_keys (fb_bans w))) (\<lambda>nets.
     forM nets (purge_ban nf now))))"

definition chain_order :: "('s, 'n) netfilter \<Rightarrow> (('s, 'n) f2b, py_exn, unit) sem" where
  "chain_order nf =
     seqM (on_kernel (check_chain_order (nf_api nf) (nf_ipv4_tables nf)))
     (on_kernel (check_chain_order (nf_api nf) (nf_ipv6_tables nf)))"

definition difference :: "string list \<Rightarrow> string list \<Rightarrow> string list" where
  "difference xs ys = filter (\<lambda>x. x \<notin> set ys) xs"

definition update_blacklist :: "('s, 'n) netfilter \<Rightarrow> int \<Rightarrow> (('s, 'n) f2b, py_exn, unit) sem" where
  "update_blacklist nf now =
     bindM (on_hashes (s_hgetall (nf_store nf) ''F2B_BLACKLIST'')) (\<lambda>blacklist.
     let new_blacklist = resolve_addresses (nf_resolve nf) (dict_keys blacklist) in
     bindM (gets fb_blacklist) (\<lambda>old_blacklist.
     if set new_blacklist = set old_blacklist then ret ()
     else
       seqM (modify (\<lambda>w. w\<lparr>fb_blacklist := new_blacklist\<rparr>))
       (seqM (forM (difference new_blacklist old_blacklist) (\<lambda>net. perm_ban nf now net False))
       (forM (difference old_blacklist new_blacklist) (\<lambda>net. perm_ban nf now net True)))))"

definition update_whitelist :: "('s, 'n) netfilter \<Rightarrow> (('s, 'n) f2b, py_exn, unit) sem" where
  "update_whitelist nf =
     bindM (on_hashes (s_hgetall (nf_store nf) ''F2B_WHITELIST'')) (\<lambda>whitelist.
     let new_whitelist = resolve_addresses (nf_resolve nf) (dict_keys whitelist) in
     modify (\<lambda>w. if set new_whitelist = set (fb_whitelist w) then w
       else w\<lparr>fb_whitelist := new_whitelist\<rparr>))"

definition clear :: "('s, 'n) netfilter \<Rightarrow> (('s, 'n) f2b, py_exn, unit) sem" where
  "clear nf =
     bindM (gets (\<lambda>w. dict_keys (fb_bans w))) (\<lambda>nets.
     seqM (forM nets (unban nf))
     (seqM (on_kernel (clear_tables (nf_api nf) (nf_ipv4_tables nf)))
     (seqM (on_kernel (clear_tables (nf_api nf) (nf_ipv6_tables nf)))
     (catchM
       (seqM (run_unit (on_hashes (s_delete (nf_store nf) [''F2B_ACTIVE_BANS''])))
         (run_unit (on_hashes (s_delete (nf_store nf) [''F2B_PERM_BANS'']))))
       (\<lambda>_. ret ())))))"

section \<open>Attempts, bans and unbans on a packet filter and a store\<close>

lemma on_kernel_run: "on_kernel m w = (fst (m (fb_kernel w)), w\<lparr>fb_kernel := snd (m (fb_kernel w))\<rparr>)"
  by (simp add: on_kernel_def zoom_def split: prod.splits)

lemma on_hashes_run: "on_hashes m w = (fst (m (fb_store w)), w\<lparr>fb_store := snd (m (fb_store w))\<rparr>)"
  by (simp add: on_hashes_def zoom_def split: prod.splits)

lemma set_ban_run [simp]: "set_ban net b w = (Inr (), w\<lparr>fb_bans := dict_set net b (fb_bans w)\<rparr>)"
  by (simp add: set_ban_def)

lemmas f2b_options = f2boptions_def

lemma record_attempt_first [simp]:
  "record_attempt now None = \<lparr>attempts = 1, last_attempt = now, ban_counter = 0\<rparr>"
  by (simp add: record_attempt_def Let_def)

lemma record_attempt_next [simp]:
  "record_attempt now (Some \<lparr>attempts = a, last_attempt = t, ban_counter = c\<rparr>) =
     \<lparr>attempts = (if 600 < now - t then 1 else a + 1), last_attempt = now, ban_counter = c\<rparr>"
  by (simp add: record_attempt_def f2b_options)

lemma hput_hput [simp]: "hput (hput v k f x) k f y = hput v k f y"
  by (auto simp: fun_eq_iff)

definition serves :: "'n nft_api \<Rightarrow> string \<Rightarrow> 's store_ops \<Rightarrow> ('s, 'n) netfilter \<Rightarrow> bool" where
  "serves api family ops nf \<longleftrightarrow>
     nf_api nf = api \<and> nf_store nf = ops \<and> nt_family (nf_ipv4_tables nf) = family"

text \<open>Attempts of which each comes at most the retry window after the one before.\<close>

fun close_times :: "int \<Rightarrow> int list \<Rightarrow> bool" where
  "close_times t [] = True"
| "close_times t (u # us) = (u - t \<le> o_retry_window f2boptions \<and> close_times u us)"

text \<open>A packet filter and a store: what the operations of \<open>Netfilter\<close> rely on.\<close>

locale ban_service =
  kernel: nft_kernel api family rules kgood + store: hash_store ops view sgood
  for api :: "'n nft_api" and family :: string and rules :: "'n \<Rightarrow> rules_view"
    and kgood :: "'n \<Rightarrow> bool" and ops :: "'s store_ops"
    and view :: "'s \<Rightarrow> string \<Rightarrow> string \<Rightarrow> string option" and sgood :: "'s \<Rightarrow> bool"
begin

lemma ban_network_below:
  assumes "attempts (record_attempt now (map_of (fb_bans w) (show_network net))) < 10"
  shows "ban_network nf now net w =
    (Inr (), w\<lparr>fb_bans := dict_set (show_network net)
       (record_attempt now (map_of (fb_bans w) (show_network net))) (fb_bans w)\<rparr>)"
  using assms by (simp add: ban_network_def Let_def f2b_options seqM_def bindM_def)

lemma ban_network_reached:
  assumes "serves api family ops nf" and "kgood (fb_kernel w)" and "sgood (fb_store w)"
    and "ip_network_of (show_network (IPv4Network v p)) True = Some (IPv4Network v p)"
    and "ip_network_of (show_network (IPv4Network v p)) False = Some (IPv4Network v p)"
    and "b = record_attempt now (map_of (fb_bans w) (show_network (IPv4Network v p)))"
    and "10 \<le> attempts b"
    and "rules (fb_kernel w) ''filter'' (nt_name (nf_ipv4_tables nf)) = Some (h, rs)"
  shows "\<exists>w' r. ban_network nf now (IPv4Network v p) w = (Inr (), w') \<and> kgood (fb_kernel w') \<and> sgood (fb_store w') \<and>
    fb_bans w' = dict_set (show_network (IPv4Network v p)) b (fb_bans w) \<and>
    drops (nf_ipv4_tables nf) (IPv4Network v p) r \<and>
    rules (fb_kernel w') = set_chain ''filter'' (nt_name (nf_ipv4_tables nf)) (Some (h, r # rs))
      (rules (fb_kernel w)) \<and>
    view (fb_store w') = hput (view (fb_store w)) ''F2B_ACTIVE_BANS'' (show_network (IPv4Network v p))
      (show_int (now + calc_net_ban_time (ban_counter b)))"
proof -
  let ?net = "show_network (IPv4Network v p)" and ?nt = "nf_ipv4_tables nf"
  have a: "nf_api nf = api" "nf_store nf = ops" and f: "nt_family ?nt = family"
    using assms(1) by (auto simp: serves_def)
  obtain n r where n: "ban_rule api ?nt ?net (fb_kernel w) = (Inr None, n)" "kgood n"
    "drops ?nt (IPv4Network v p) r"
    "rules n = set_chain ''filter'' (nt_name ?nt) (Some (h, r # rs)) (rules (fb_kernel w))"
    using kernel.ban_rule_run [OF assms(2) f assms(8,5,4)] by blast
  obtain i t where t: "s_hset ops ''F2B_ACTIVE_BANS'' ?net
      (PInt (now + calc_net_ban_time (ban_counter b))) None (fb_store w) = (Inr i, t)" "sgood t"
    "view t = hput (view (fb_store w)) ''F2B_ACTIVE_BANS'' ?net
      (show_int (now + calc_net_ban_time (ban_counter b)))"
    using store.hset_int_run [OF assms(3)] by blast
  let ?w = "w\<lparr>fb_bans := dict_set ?net b (fb_bans w), fb_kernel := n, fb_store := t\<rparr>"
  have "ban_network nf now (IPv4Network v p) w = (Inr (), ?w)"
    using assms(7) n(1) t(1) unfolding assms(6)
    by (simp add: ban_network_def Let_def f2b_options seqM_def bindM_def run_unit_def
        on_kernel_run on_hashes_run a)
  with n t show ?thesis
    by (intro exI [of _ ?w] exI [of _ r]) (simp del: set_chain_apply hput_apply)
qed

lemma attempts_run:
  assumes "serves api family ops nf"
    and "ip_network_of (show_network (IPv4Network v p)) True = Some (IPv4Network v p)"
    and "ip_network_of (show_network (IPv4Network v p)) False = Some (IPv4Network v p)"
    and "kgood (fb_kernel w)" and "sgood (fb_store w)"
    and "map_of (fb_bans w) (show_network (IPv4Network v p)) =
      Some \<lparr>attempts = int a, last_attempt = t, ban_counter = c\<rparr>"
    and "rules (fb_kernel w) ''filter'' (nt_name (nf_ipv4_tables nf)) = Some (h, rs)"
    and "close_times t ts"
  shows "\<exists>w' qs. forM ts (\<lambda>now. ban_network nf now (IPv4Network v p)) w = (Inr (), w') \<and>
    kgood (fb_kernel w') \<and> sgood (fb_store w') \<and>
    map_of (fb_bans w') (show_network (IPv4Network v p)) =
      Some \<lparr>attempts = int (a + length ts), last_attempt = last (t # ts), ban_counter = c\<rparr> \<and>
    length qs = min (length ts) (a + length ts - 9) \<and>
    (\<forall>q \<in> set qs. drops (nf_ipv4_tables nf) (IPv4Network v p) q) \<and>
    rules (fb_kernel w') = set_chain ''filter'' (nt_name (nf_ipv4_tables nf)) (Some (h, qs @ rs))
      (rules (fb_kernel w)) \<and>
    view (fb_store w') = (if qs = [] then view (fb_store w)
      else hput (view (fb_store w)) ''F2B_ACTIVE_BANS'' (show_network (IPv4Network v p))
        (show_int (last (t # ts) + calc_net_ban_time c)))"
  using assms(4-)
proof (induction ts arbitrary: w a t rs)
  case Nil
  then show ?case by (intro exI [of _ w] exI [of _ "[]"]) (simp add: set_chain_id)
next
  case (Cons u ts)
  let ?net = "show_network (IPv4Network v p)" and ?name = "nt_name (nf_ipv4_tables nf)"
  let ?b = "\<lparr>attempts = int (Suc a), last_attempt = u, ban_counter = c\<rparr>"
  have b: "record_attempt u (map_of (fb_bans w) ?net) = ?b"
    using Cons.prems(3,5) by (simp add: f2b_options)
  have close: "close_times u ts" using Cons.prems(5) by simp
  show ?case
  proof (cases "a < 9")
    case True
    let ?w = "w\<lparr>fb_bans := dict_set ?net ?b (fb_bans w)\<rparr>"
    have r: "ban_network nf u (IPv4Network v p) w = (Inr (), ?w)"
      using ban_network_below [of u w "IPv4Network v p" nf, unfolded b] True by simp
    have "map_of (fb_bans ?w) ?net = Some ?b" by simp
    from Cons.IH [of ?w, OF _ _ this _ close] Cons.prems(1,2,4) obtain w' qs where
      w': "forM ts (\<lambda>now. ban_network nf now (IPv4Network v p)) ?w = (Inr (), w')"
      "kgood (fb_kernel w')" "sgood (fb_store w')"
      "map_of (fb_bans w') ?net =
        Some \<lparr>attempts = int (Suc a + length ts), last_attempt = last (u # ts), ban_counter = c\<rparr>"
      "length qs = min (length ts) (Suc a + length ts - 9)"
      "\<forall>q \<in> set qs. drops (nf_ipv4_tables nf) (IPv4Network v p) q"
      "rules (fb_kernel w') = set_chain ''filter'' ?name (Some (h, qs @ rs)) (rules (fb_kernel w))"
      "view (fb_store w') = (if qs = [] then view (fb_store w)
        else hput (view (fb_store w)) ''F2B_ACTIVE_BANS'' ?net (show_int (last (u # ts) + calc_net_ban_time c)))"
      by (auto simp del: set_chain_apply hput_apply)
    then show ?thesis
      using r True by (intro exI [of _ w'] exI [of _ qs])
        (auto simp: seqM_def bindM_def simp del: set_chain_apply hput_apply)
  next
    case False
    then have "10 \<le> attempts ?b" by simp
    from ban_network_reached [OF assms(1) Cons.prems(1,2) assms(2,3) b [symmetric] this Cons.prems(4)]
    obtain x q where x: "ban_network nf u (IPv4Network v p) w = (Inr (), x)" "kgood (fb_kernel x)"
      "sgood (fb_store x)" "fb_bans x = dict_set ?net ?b (fb_bans w)"
      "drops (nf_ipv4_tables nf) (IPv4Network v p) q"
      and rx: "rules (fb_kernel x) = set_chain ''filter'' ?name (Some (h, q # rs)) (rules (fb_kernel w))"
      and vx: "view (fb_store x) = hput (view (fb_store w)) ''F2B_ACTIVE_BANS'' ?net
        (show_int (u + calc_net_ban_time c))"
      by (auto simp del: set_chain_apply hput_apply)
    have "map_of (fb_bans x) ?net = Some ?b" by (simp add: x(4))
    moreover have "rules (fb_kernel x) ''filter'' ?name = Some (h, q # rs)" by (simp add: rx)
    ultimately obtain w' qs where
      w': "forM ts (\<lambda>now. ban_network nf now (IPv4Network v p)) x = (Inr (), w')"
      "kgood (fb_kernel w')" "sgood (fb_store w')"
      "map_of (fb_bans w') ?net =
        Some \<lparr>attempts = int (Suc a + length ts), last_attempt = last (u # ts), ban_counter = c\<rparr>"
      "length qs = min (length ts) (Suc a + length ts - 9)"
      "\<forall>q \<in> set qs. drops (nf_ipv4_tables nf) (IPv4Network v p) q"
      "rules (fb_kernel w') = set_chain ''filter'' ?name (Some (h, qs @ q # rs)) (rules (fb_kernel x))"
      "view (fb_store w') = (if qs = [] then view (fb_store x)
        else hput (view (fb_store x)) ''F2B_ACTIVE_BANS'' ?net (show_int (last (u # ts) + calc_net_ban_time c)))"
      using Cons.IH [OF x(2,3) _ _ close] by blast
    moreover have "ts = []" if "qs = []" using w'(5) that False by (cases ts) auto
    ultimately show ?thesis
      using x(1,5) False by (intro exI [of _ w'] exI [of _ "qs @ [q]"])
        (auto simp: seqM_def bindM_def rx vx simp del: set_chain_apply hput_apply)
  qed
qed

lemma unban_run:
  assumes "serves api family ops nf"
    and "ip_network_of (show_network (IPv4Network v p)) True = Some (IPv4Network v p)"
    and "ip_network_of (show_network (IPv4Network v p)) False = Some (IPv4Network v p)"
    and "kgood (fb_kernel w)" and "sgood (fb_store w)"
    and "map_of (fb_bans w) (show_network (IPv4Network v p)) = Some b"
    and "rules (fb_kernel w) ''filter'' (nt_name (nf_ipv4_tables nf)) = Some (h, pre @ q # rs)"
    and "list_all (foreign_rule (nf_ipv4_tables nf) (IPv4Network v p)) pre"
    and "drops (nf_ipv4_tables nf) (IPv4Network v p) q"
  shows "\<exists>w'. unban nf (show_network (IPv4Network v p)) w = (Inr (), w') \<and>
    kgood (fb_kernel w') \<and> sgood (fb_store w') \<and>
    fb_bans w' = dict_set (show_network (IPv4Network v p))
      (b\<lparr>attempts := 0, ban_counter := ban_counter b + 1\<rparr>) (fb_bans w) \<and>
    rules (fb_kernel w') = set_chain ''filter'' (nt_name (nf_ipv4_tables nf)) (Some (h, pre @ rs))
      (rules (fb_kernel w)) \<and>
    view (fb_store w') = hrem (hrem (view (fb_store w)) ''F2B_ACTIVE_BANS'' [show_network (IPv4Network v p)])
      ''F2B_QUEUE_UNBAN'' [show_network (IPv4Network v p)]"
proof -
  let ?net = "show_network (IPv4Network v p)" and ?nt = "nf_ipv4_tables nf"
  have a: "nf_api nf = api" "nf_store nf = ops" and f: "nt_family ?nt = family"
    using assms(1) by (auto simp: serves_def)
  obtain n where n: "unban_rule api ?nt ?net (fb_kernel w) = (Inr (), n)" "kgood n"
    "rules n = set_chain ''filter'' (nt_name ?nt) (Some (h, pre @ rs)) (rules (fb_kernel w))"
    using kernel.unban_rule_run [OF assms(4) f assms(7-9,3)] by blast
  obtain i s1 where s1: "s_hdel ops ''F2B_ACTIVE_BANS'' [?net] (fb_store w) = (Inr i, s1)" "sgood s1"
    "view s1 = hrem (view (fb_store w)) ''F2B_ACTIVE_BANS'' [?net]"
    using store.hdel_run [OF assms(5)] by blast
  obtain j s2 where s2: "s_hdel ops ''F2B_QUEUE_UNBAN'' [?net] s1 = (Inr j, s2)" "sgood s2"
    "view s2 = hrem (view s1) ''F2B_QUEUE_UNBAN'' [?net]"
    using store.hdel_run [OF s1(2)] by blast
  let ?w = "w\<lparr>fb_kernel := n, fb_store := s2, fb_bans := dict_set ?net
      (b\<lparr>attempts := 0, ban_counter := ban_counter b + 1\<rparr>) (fb_bans w)\<rparr>"
  have "unban nf ?net w = (Inr (), ?w)"
    using n(1) s1(1) s2(1)
    by (simp add: unban_def assms(6) network_ret [OF assms(2)] seqM_def bindM_def run_unit_def
        on_kernel_run on_hashes_run a del: show_network.simps)
  with n s1 s2 show ?thesis by (intro exI [of _ ?w]) (simp del: set_chain_apply hrem_apply)
qed

end

section \<open>From an address to its bans\<close>

text \<open>An address that may be banned: a public IPv4 address that no entry of the list covers.\<close>

definition bannable :: "string list \<Rightarrow> string \<Rightarrow> nat \<Rightarrow> bool" where
  "bannable whitelist address v \<longleftrightarrow>
     (case ip_address_of address of
        None \<Rightarrow> False
      | Some ip \<Rightarrow> (case ipv4_mapped ip of Some a \<Rightarrow> a | None \<Rightarrow> ip) = IPv4Address v) \<and>
     v < 2 ^ 32 \<and> \<not> is_private (IPv4Address v) \<and> \<not> is_loopback (IPv4Address v) \<and>
     list_all (\<lambda>e. case ip_network_of e False of
        None \<Rightarrow> False | Some n \<Rightarrow> \<not> overlaps n (IPv4Network v 32)) whitelist"

lemma whitelisted_none:
  "list_all (\<lambda>e. case ip_network_of e False of None \<Rightarrow> False | Some n \<Rightarrow> \<not> overlaps n net) whitelist \<Longrightarrow>
     whitelisted whitelist net = ret False"
  by (induction whitelist) (auto simp: network_ret split: option.splits)

lemma host_network:
  assumes "v < 2 ^ 32"
  shows "ip_network_of (show_network (IPv4Network v 32)) strict = Some (IPv4Network v 32)"
  using assms by (intro ip_network_of_show_ipv4) auto

lemma get_ip_bannable:
  "bannable whitelist address v \<Longrightarrow>
     (get_ip address :: ('w, py_exn, ip_address option) sem) = ret (Some (IPv4Address v))"
  by (auto simp: bannable_def get_ip_def Let_def split: option.splits)

lemma ban_address_bannable:
  fixes w :: "('s, 'n) f2b"
  assumes "bannable (fb_whitelist w) address v"
  shows "ban_address nf now address w = ban_network nf now (IPv4Network v 32) w"
proof -
  have "(get_ip address :: (('s, 'n) f2b, py_exn, ip_address option) sem) = ret (Some (IPv4Address v))"
    using assms by (rule get_ip_bannable)
  moreover have "(network (show_ip (IPv4Address v)) True :: (('s, 'n) f2b, py_exn, ip_network) sem) = ret (IPv4Network v 32)"
    using assms by (intro network_ret) (simp add: bannable_def ipv4_network_of_address)
  moreover have "(network (show_ip (IPv4Address v) @ netban (IPv4Address v)) False ::
      (('s, 'n) f2b, py_exn, ip_network) sem) = ret (IPv4Network v 32)"
    using assms host_network [of v False]
    by (intro network_ret) (simp add: bannable_def f2b_options)
  moreover have "(whitelisted (fb_whitelist w) (IPv4Network v 32) :: (('s, 'n) f2b, py_exn, bool) sem) = ret False"
    using assms by (intro whitelisted_none) (simp add: bannable_def)
  ultimately show ?thesis by (simp add: ban_address_def)
qed

lemma ban_network_whitelist:
  "fb_whitelist (snd (ban_network nf now net w)) = fb_whitelist w"
  by (simp add: ban_network_def Let_def seqM_def bindM_def whenM_def run_unit_def on_kernel_run
      on_hashes_run split: prod.splits sum.splits)

lemma ban_addresses_bannable:
  assumes "bannable (fb_whitelist w) address v"
  shows "forM ts (\<lambda>now. ban_address nf now address) w = forM ts (\<lambda>now. ban_network nf now (IPv4Network v 32)) w"
  using assms
proof (induction ts arbitrary: w)
  case (Cons t ts)
  have "fb_whitelist (snd (ban_network nf t (IPv4Network v 32) w)) = fb_whitelist w"
    by (rule ban_network_whitelist)
  with Cons show ?case
    by (simp add: seqM_split ban_address_bannable [OF Cons.prems] split: sum.splits)
qed simp

lemma attempts_from_none:
  assumes "ban_service api family rules kgood ops view sgood" and "serves api family ops nf"
    and "kgood (fb_kernel w)" and "sgood (fb_store w)" and "bannable (fb_whitelist w) address v"
    and "map_of (fb_bans w) (show_network (IPv4Network v 32)) = None"
    and "rules (fb_kernel w) ''filter'' (nt_name (nf_ipv4_tables nf)) = Some (h, rs)"
    and "close_times t ts"
  shows "\<exists>w' qs. forM (t # ts) (\<lambda>now. ban_address nf now address) w = (Inr (), w') \<and>
    kgood (fb_kernel w') \<and> sgood (fb_store w') \<and>
    map_of (fb_bans w') (show_network (IPv4Network v 32)) =
      Some \<lparr>attempts = int (length (t # ts)), last_attempt = last (t # ts), ban_counter = 0\<rparr> \<and>
    length qs = length (t # ts) - 9 \<and>
    (\<forall>q \<in> set qs. drops (nf_ipv4_tables nf) (IPv4Network v 32) q) \<and>
    rules (fb_kernel w') = set_chain ''filter'' (nt_name (nf_ipv4_tables nf)) (Some (h, qs @ rs))
      (rules (fb_kernel w)) \<and>
    view (fb_store w') = (if qs = [] then view (fb_store w)
      else hput (view (fb_store w)) ''F2B_ACTIVE_BANS'' (show_network (IPv4Network v 32))
        (show_int (last (t # ts) + calc_net_ban_time 0)))"
proof -
  let ?net = "show_network (IPv4Network v 32)"
  let ?b = "\<lparr>attempts = 1, last_attempt = t, ban_counter = 0\<rparr>"
  let ?w = "w\<lparr>fb_bans := dict_set ?net ?b (fb_bans w)\<rparr>"
  have v: "v < 2 ^ 32" using assms(5) by (simp add: bannable_def)
  have "ban_network nf t (IPv4Network v 32) w = (Inr (), ?w)"
    using ban_service.ban_network_below [OF assms(1), of t w "IPv4Network v 32" nf] assms(6)
    by (simp del: show_network.simps)
  moreover have "map_of (fb_bans ?w) ?net = Some \<lparr>attempts = int 1, last_attempt = t, ban_counter = 0\<rparr>"
    by simp
  moreover have "rules (fb_kernel ?w) ''filter'' (nt_name (nf_ipv4_tables nf)) = Some (h, rs)"
    "kgood (fb_kernel ?w)" "sgood (fb_store ?w)" using assms(3,4,7) by simp_all
  ultimately show ?thesis
    using ban_service.attempts_run [OF assms(1), OF assms(2) host_network [OF v] host_network [OF v],
        of ?w 1 t 0 h rs ts] assms(8) ban_addresses_bannable [OF assms(5), of "t # ts" nf]
    by (auto simp: seqM_def bindM_def simp del: set_chain_apply hput_apply show_network.simps)
qed

end
