(* ===== verification/Bans.thy ===== *)
theory Bans
  imports Netfilter
begin

text \<open>
  What the bans of src/backend/taramail/netfilter.py guarantee: how long they last, when they
  start, whom they spare, and when they end. The theorems hold for every packet filter and store
  that keep the contracts \<open>nft_kernel\<close> and \<open>hash_store\<close>, together the locale \<open>ban_service\<close>; the
  witnesses run on the ruleset and the store in memory.
\<close>

interpretation memory_bans: ban_service ruleset_cmd family "ruleset_rules family" ruleset_good
  "memory_ops now" memory_view "memory_good now" for family now
  by unfold_locales

section \<open>How long a ban lasts\<close>

text \<open>
  The time of a ban doubles with every earlier ban of the network, from half an hour, until it
  reaches the longest ban time, and it never gets shorter.
\<close>
theorem net_ban_time_bounds:
  "calc_net_ban_time c = (if c < 3 then 1800 * 2 ^ c else 10000) \<and>
   1800 \<le> calc_net_ban_time c \<and> calc_net_ban_time c \<le> 10000 \<and>
   calc_net_ban_time c \<le> calc_net_ban_time (c + d)"
proof -
  have closed: "calc_net_ban_time k = (if k < 3 then 1800 * 2 ^ k else 10000)" for k
  proof (cases "k < 3")
    case True
    then have "k = 0 \<or> k = 1 \<or> k = 2" by auto
    then show ?thesis by (auto simp: calc_net_ban_time_def f2b_options)
  next
    case False
    then have "(2::int) ^ 3 \<le> 2 ^ k" by (intro power_increasing) auto
    then show ?thesis using False by (simp add: calc_net_ban_time_def f2b_options)
  qed
  have "1800 * (2::int) ^ k \<le> 10000 \<and> 1800 \<le> 1800 * (2::int) ^ k" if "k < 3" for k
    using that by (auto simp: less_Suc_eq numeral_3_eq_3)
  moreover have "(2::int) ^ c \<le> 2 ^ (c + d)" by (rule power_increasing) auto
  ultimately show ?thesis by (auto simp: closed)
qed

section \<open>When a ban starts\<close>

text \<open>
  C8. Attempts from a public IPv4 address that is not whitelisted, each within the retry window of
  the one before: the first nine change neither the packet filter nor the store, and every one from
  the tenth on adds a rule that drops what comes from the address and sets the end of the ban to half
  an hour after it.
\<close>
theorem bans_after_ten_attempts:
  assumes "ban_service api family rules kgood ops view sgood" and "serves api family ops nf"
    and "kgood (fb_kernel w)" and "sgood (fb_store w)" and "bannable (fb_whitelist w) address v"
    and "map_of (fb_bans w) (show_network (IPv4Network v 32)) = None"
    and "rules (fb_kernel w) ''filter'' (nt_name (nf_ipv4_tables nf)) = Some (h, rs)"
    and "close_times t ts"
  shows "\<exists>w' qs. forM (t # ts) (\<lambda>now. ban_address nf now address) w = (Inr (), w') \<and>
    length qs = length (t # ts) - 9 \<and>
    (\<forall>q \<in> set qs. drops (nf_ipv4_tables nf) (IPv4Network v 32) q) \<and>
    rules (fb_kernel w') = set_chain ''filter'' (nt_name (nf_ipv4_tables nf)) (Some (h, qs @ rs))
      (rules (fb_kernel w)) \<and>
    view (fb_store w') = (if qs = [] then view (fb_store w)
      else hput (view (fb_store w)) ''F2B_ACTIVE_BANS'' (show_network (IPv4Network v 32))
        (show_int (last (t # ts) + 1800)))"
proof -
  have "calc_net_ban_time 0 = 1800" by (simp add: calc_net_ban_time_def f2b_options)
  from attempts_from_none [OF assms(1), OF assms(2-8), unfolded this] show ?thesis
    by (elim exE conjE) (intro exI conjI; assumption)
qed

definition trusted_net :: ip_network where
  "trusted_net = IPv4Network (quad 192 0 9 0) 24"

text \<open>The service at its start, on the ruleset and the store in memory.\<close>

definition ban_tables :: "(memory_store, ruleset) netfilter" where
  "ban_tables =
     \<lparr>nf_store = memory_ops 0, nf_api = ruleset_cmd, nf_ipv4_tables = kernel_tables,
      nf_ipv6_tables = kernel_tables\<lparr>nt_family := ''ip6''\<rparr>, nf_resolve = (\<lambda>h t. None)\<rparr>"

definition ban_start :: "(memory_store, ruleset) f2b" where
  "ban_start =
     \<lparr>fb_store = [], fb_kernel = kernel_ruleset, fb_bans = [], fb_blacklist = [],
      fb_whitelist = [show_network trusted_net]\<rparr>"

definition attacker :: nat where
  "attacker = quad 8 8 4 4"

lemma ban_tables_serves: "serves ruleset_cmd ''ip'' (memory_ops 0) ban_tables"
  by (simp add: serves_def ban_tables_def kernel_tables_def)

lemma attacker_bound: "attacker < 2 ^ 32"
  by (simp add: attacker_def quad_def)

lemma trusted_entry: "ip_network_of (show_network trusted_net) strict = Some trusted_net"
  unfolding trusted_net_def by (rule ip_network_of_show_ipv4) (simp_all add: quad_def masked_def)

lemma ip_address_of_show: "v < 2 ^ 32 \<Longrightarrow> ip_address_of (show_ipv4 v) = Some (IPv4Address v)"
  by (simp add: ip_address_of_def parse_show_ipv4)

lemma attacker_not_trusted: "\<not> overlaps trusted_net (IPv4Network attacker 32)"
  by (simp add: overlaps_def trusted_net_def attacker_def quad_def masked_def)

lemma attacker_public: "\<not> is_private (IPv4Address attacker)" "\<not> is_loopback (IPv4Address attacker)"
  by (simp_all add: attacker_def quad_def masked_def in_table_def private4_def private4_exceptions_def)

lemma attacker_bannable: "bannable (fb_whitelist ban_start) (show_ipv4 attacker) attacker"
  using attacker_bound attacker_public
  by (simp add: bannable_def ip_address_of_show ban_start_def trusted_entry attacker_not_trusted
      del: is_private.simps is_loopback.simps)

lemma ban_start_chain: "ruleset_rules ''ip'' (fb_kernel ban_start) ''filter''
    (nt_name (nf_ipv4_tables ban_tables)) = Some (3, [])"
  by (simp add: ban_start_def ban_tables_def ruleset_rules_def kernel_ruleset_def kernel_tables_def)

lemma ban_start_good: "ruleset_good (fb_kernel ban_start)" "memory_good 0 (fb_store ban_start)"
  by (simp_all add: ban_start_def kernel_ruleset_good memory_good_def)

lemma bans_after_ten_attempts_witness:
  "\<exists>w q. forM [1000, 1001, 1002, 1003, 1004, 1005, 1006, 1007, 1008, 1009]
       (\<lambda>now. ban_address ban_tables now (show_ipv4 attacker)) ban_start = (Inr (), w) \<and>
     ruleset_rules ''ip'' (fb_kernel w) ''filter'' ''MAIL'' = Some (3, [q]) \<and>
     drops kernel_tables (IPv4Network attacker 32) q \<and>
     memory_view (fb_store w) ''F2B_ACTIVE_BANS'' (show_network (IPv4Network attacker 32)) =
       Some (show_int 2809)"
proof -
  let ?ts = "[1001, 1002, 1003, 1004, 1005, 1006, 1007, 1008, 1009]"
  have m: "map_of (fb_bans ban_start) (show_network (IPv4Network attacker 32)) = None"
    by (simp add: ban_start_def)
  have c: "close_times 1000 ?ts" by (simp add: f2b_options)
  obtain w qs where w: "forM (1000 # ?ts) (\<lambda>now. ban_address ban_tables now (show_ipv4 attacker)) ban_start
      = (Inr (), w)" "length qs = 1"
    "\<forall>q \<in> set qs. drops (nf_ipv4_tables ban_tables) (IPv4Network attacker 32) q"
    "ruleset_rules ''ip'' (fb_kernel w) = set_chain ''filter'' (nt_name (nf_ipv4_tables ban_tables))
      (Some (3, qs @ [])) (ruleset_rules ''ip'' (fb_kernel ban_start))"
    "memory_view (fb_store w) = (if qs = [] then memory_view (fb_store ban_start)
      else hput (memory_view (fb_store ban_start)) ''F2B_ACTIVE_BANS''
        (show_network (IPv4Network attacker 32)) (show_int 2809))"
    using bans_after_ten_attempts [OF memory_bans.ban_service_axioms, OF ban_tables_serves
        ban_start_good attacker_bannable m ban_start_chain c]
    by (auto simp del: set_chain_apply hput_apply show_network.simps forM.simps)
  then obtain q where "qs = [q]" by (cases qs) auto
  with w show ?thesis
    by (intro exI [of _ w] exI [of _ q])
      (simp add: ban_tables_def kernel_tables_def del: show_network.simps forM.simps)
qed

text \<open>
  An address that made \<open>n\<close> such attempts, at least ten, is dropped by \<open>n - 9\<close> rules, and
  \<open>unban\<close> deletes one of them: after exactly ten attempts the packet filter is as it was, after more
  the address stays blocked, although the store no longer lists the ban.
\<close>
theorem unban_leaves_repeated_bans:
  assumes "ban_service api family rules kgood ops view sgood" and "serves api family ops nf"
    and "kgood (fb_kernel w)" and "sgood (fb_store w)" and "bannable (fb_whitelist w) address v"
    and "map_of (fb_bans w) (show_network (IPv4Network v 32)) = None"
    and "rules (fb_kernel w) ''filter'' (nt_name (nf_ipv4_tables nf)) = Some (h, rs)"
    and "close_times t ts" and "9 \<le> length ts"
  shows "\<exists>w' qs. seqM (forM (t # ts) (\<lambda>now. ban_address nf now address))
      (unban nf (show_network (IPv4Network v 32))) w = (Inr (), w') \<and>
    length qs = length ts - 9 \<and>
    (\<forall>q \<in> set qs. drops (nf_ipv4_tables nf) (IPv4Network v 32) q) \<and>
    rules (fb_kernel w') = set_chain ''filter'' (nt_name (nf_ipv4_tables nf)) (Some (h, qs @ rs))
      (rules (fb_kernel w)) \<and>
    view (fb_store w') ''F2B_ACTIVE_BANS'' (show_network (IPv4Network v 32)) = None"
proof -
  let ?net = "show_network (IPv4Network v 32)" and ?nt = "nf_ipv4_tables nf"
  obtain u qs where u: "forM (t # ts) (\<lambda>now. ban_address nf now address) w = (Inr (), u)"
    "kgood (fb_kernel u)" "sgood (fb_store u)" "length qs = length (t # ts) - 9"
    "\<forall>q \<in> set qs. drops ?nt (IPv4Network v 32) q"
    and b: "map_of (fb_bans u) ?net =
      Some \<lparr>attempts = int (length (t # ts)), last_attempt = last (t # ts), ban_counter = 0\<rparr>"
    and ru: "rules (fb_kernel u) = set_chain ''filter'' (nt_name ?nt) (Some (h, qs @ rs)) (rules (fb_kernel w))"
    using attempts_from_none [OF assms(1), OF assms(2-8)] by blast
  obtain q ps where qs: "qs = q # ps" using u(4) assms(9) by (cases qs) auto
  have r: "rules (fb_kernel u) ''filter'' (nt_name ?nt) = Some (h, [] @ q # ps @ rs)"
    and d: "drops ?nt (IPv4Network v 32) q" using u(5) by (simp_all add: ru qs)
  have v: "v < 2 ^ 32" using assms(5) by (simp add: bannable_def)
  obtain w' where w': "unban nf ?net u = (Inr (), w')"
    "rules (fb_kernel w') = set_chain ''filter'' (nt_name ?nt) (Some (h, ps @ rs)) (rules (fb_kernel u))"
    "view (fb_store w') = hrem (hrem (view (fb_store u)) ''F2B_ACTIVE_BANS'' [?net]) ''F2B_QUEUE_UNBAN'' [?net]"
    using ban_service.unban_run [OF assms(1), OF assms(2) host_network [OF v] host_network [OF v] u(2,3) b r _ d]
    by auto
  have "seqM (forM (t # ts) (\<lambda>now. ban_address nf now address)) (unban nf ?net) w = (Inr (), w')"
    using u(1) w'(1) unfolding seqM_def by (simp add: bindM_def del: forM.simps show_network.simps)
  moreover have "rules (fb_kernel w') = set_chain ''filter'' (nt_name ?nt) (Some (h, ps @ rs)) (rules (fb_kernel w))"
    using w'(2) by (simp add: ru del: set_chain_apply)
  moreover have "view (fb_store w') ''F2B_ACTIVE_BANS'' ?net = None" by (simp add: w'(3))
  ultimately show ?thesis using u(4,5) qs
    by (intro exI [of _ w'] exI [of _ ps]) (simp del: set_chain_apply forM.simps show_network.simps)
qed

lemma unban_leaves_repeated_bans_witness:
  "\<exists>w q. seqM (forM (replicate 11 1000) (\<lambda>now. ban_address ban_tables now (show_ipv4 attacker)))
       (unban ban_tables (show_network (IPv4Network attacker 32))) ban_start = (Inr (), w) \<and>
     ruleset_rules ''ip'' (fb_kernel w) ''filter'' ''MAIL'' = Some (3, [q]) \<and>
     drops kernel_tables (IPv4Network attacker 32) q"
proof -
  have m: "map_of (fb_bans ban_start) (show_network (IPv4Network attacker 32)) = None"
    by (simp add: ban_start_def)
  have c: "close_times t (replicate n t)" for t n by (induction n) (simp_all add: f2b_options)
  have r: "replicate 11 (1000 :: int) = 1000 # replicate 10 1000"
    using replicate_Suc [of 10 "1000 :: int"] by simp
  obtain w qs where w: "seqM (forM (replicate 11 1000) (\<lambda>now. ban_address ban_tables now (show_ipv4 attacker)))
      (unban ban_tables (show_network (IPv4Network attacker 32))) ban_start = (Inr (), w)" "length qs = 1"
    "\<forall>q \<in> set qs. drops (nf_ipv4_tables ban_tables) (IPv4Network attacker 32) q"
    "ruleset_rules ''ip'' (fb_kernel w) = set_chain ''filter'' (nt_name (nf_ipv4_tables ban_tables))
      (Some (3, qs @ [])) (ruleset_rules ''ip'' (fb_kernel ban_start))"
    using unban_leaves_repeated_bans [OF memory_bans.ban_service_axioms, OF ban_tables_serves
        ban_start_good attacker_bannable m ban_start_chain c, of 10 1000] unfolding r
    by (auto simp del: set_chain_apply show_network.simps forM.simps)
  then obtain q where "qs = [q]" by (cases qs) auto
  with w show ?thesis
    by (intro exI [of _ w] exI [of _ q])
      (simp add: ban_tables_def kernel_tables_def del: show_network.simps forM.simps)
qed

section \<open>Whom a ban spares\<close>

lemma mapped_bound: "ipv4_mapped ip = Some (IPv4Address v) \<Longrightarrow> v < 2 ^ 32"
  by (cases ip) (auto split: if_splits)

lemma effective_bound:
  assumes "ip_address_of address = Some ip"
    and "(case ipv4_mapped ip of Some a \<Rightarrow> a | None \<Rightarrow> ip) = IPv4Address v"
  shows "v < 2 ^ 32"
proof (cases "ipv4_mapped ip")
  case None
  with assms have "parse_ipv4 address = Some v"
    by (auto simp: ip_address_of_def split: option.splits)
  then show ?thesis by (rule parse_ipv4_bound)
next
  case (Some a)
  with assms(2) show ?thesis using mapped_bound [of ip v] by simp
qed

lemma whitelisted_some:
  "list_all is_ip whitelist \<Longrightarrow>
   list_ex (\<lambda>e. \<exists>n. ip_network_of e False = Some n \<and> overlaps n net) whitelist \<Longrightarrow>
     whitelisted whitelist net w = (Inr True, w)"
  by (induction whitelist) (auto simp: network_def is_ip_def)

text \<open>
  C35. An attempt is not even counted when it comes from a private or loopback address, also when it is
  written as an IPv4-mapped IPv6 address, or from an IPv4 address that an entry of the whitelist covers.
\<close>
theorem ban_spares_trusted:
  assumes "ip_address_of address = Some ip"
    and "(case ipv4_mapped ip of Some a \<Rightarrow> a | None \<Rightarrow> ip) = a"
    and "is_private a \<or> is_loopback a \<or>
      (\<exists>v. a = IPv4Address v \<and> list_all is_ip (fb_whitelist w) \<and>
         list_ex (\<lambda>e. \<exists>n. ip_network_of e False = Some n \<and> overlaps n (IPv4Network v 32)) (fb_whitelist w))"
  shows "ban_address nf now address w = (Inr (), w)"
proof (cases "is_private a \<or> is_loopback a")
  case True
  with assms(1,2) have "get_ip address w = (Inr None, w)" by (simp add: get_ip_def Let_def)
  then show ?thesis by (simp add: ban_address_def bindM_def)
next
  case False
  with assms(3) obtain v where v: "a = IPv4Address v" "list_all is_ip (fb_whitelist w)"
    "list_ex (\<lambda>e. \<exists>n. ip_network_of e False = Some n \<and> overlaps n (IPv4Network v 32)) (fb_whitelist w)"
    by blast
  have "get_ip address w = (Inr (Some (IPv4Address v)), w)"
    using assms(1,2) False v(1) by (simp add: get_ip_def Let_def)
  moreover have "network (show_ip (IPv4Address v)) True w = (Inr (IPv4Network v 32), w)"
    using effective_bound [OF assms(1)] assms(2) v(1) by (simp add: network_def ipv4_network_of_address)
  moreover have "whitelisted (fb_whitelist w) (IPv4Network v 32) w = (Inr True, w)"
    using v(2,3) by (rule whitelisted_some)
  ultimately show ?thesis by (simp add: ban_address_def bindM_def del: show_ip.simps)
qed

lemma ban_spares_trusted_witness:
  "ban_address ban_tables 5000 (show_ipv4 (quad 192 0 9 77)) ban_start = (Inr (), ban_start)"
proof (rule ban_spares_trusted)
  have "quad 192 0 9 77 < 2 ^ 32" by (simp add: quad_def)
  then show "ip_address_of (show_ipv4 (quad 192 0 9 77)) = Some (IPv4Address (quad 192 0 9 77))"
    by (rule ip_address_of_show)
  have "overlaps trusted_net (IPv4Network (quad 192 0 9 77) 32)"
    by (simp add: overlaps_def trusted_net_def quad_def masked_def)
  then show "is_private (IPv4Address (quad 192 0 9 77)) \<or> is_loopback (IPv4Address (quad 192 0 9 77)) \<or>
      (\<exists>v. IPv4Address (quad 192 0 9 77) = IPv4Address v \<and> list_all is_ip (fb_whitelist ban_start) \<and>
         list_ex (\<lambda>e. \<exists>n. ip_network_of e False = Some n \<and> overlaps n (IPv4Network v 32))
           (fb_whitelist ban_start))"
    by (simp add: ban_start_def is_ip_def trusted_entry)
qed simp

section \<open>The blacklist\<close>

text \<open>
  Permanent bans come and go in the packet filter, but the store never lists them in F2B_PERM_BANS:
  neither a ban, whose command prints nothing, nor an unban, which returns nothing, touches the store.
\<close>
lemma perm_bans_are_not_recorded:
  assumes "ban_service api family rules kgood ops view sgood" and "serves api family ops nf"
    and "kgood (fb_kernel w)" and "ip_network_of net False = Some (IPv4Network v p)"
    and "rules (fb_kernel w) ''filter'' (nt_name (nf_ipv4_tables nf)) = Some (h, rs)"
  shows "\<exists>w1 w2 r. perm_ban nf now net False w = (Inr (), w1) \<and> fb_store w1 = fb_store w \<and>
    rules (fb_kernel w1) = set_chain ''filter'' (nt_name (nf_ipv4_tables nf)) (Some (h, r # rs))
      (rules (fb_kernel w)) \<and> drops (nf_ipv4_tables nf) (IPv4Network v p) r \<and>
    perm_ban nf later net True w1 = (Inr (), w2) \<and> fb_store w2 = fb_store w \<and>
    rules (fb_kernel w2) = rules (fb_kernel w)"
proof -
  let ?nt = "nf_ipv4_tables nf"
  have k: "nft_kernel api (nt_family ?nt) rules kgood" and a: "nf_api nf = api"
    using assms(1,2) by (auto simp: ban_service_def serves_def)
  obtain n1 n2 r where n: "ban_rule api ?nt net (fb_kernel w) = (Inr None, n1)"
    "rules n1 = set_chain ''filter'' (nt_name ?nt) (Some (h, r # rs)) (rules (fb_kernel w))"
    "drops ?nt (IPv4Network v p) r" "unban_rule api ?nt net n1 = (Inr (), n2)" "rules n2 = rules (fb_kernel w)"
    using ban_then_unban_restores [OF k, OF assms(3,5,4)] by blast
  have "perm_ban nf now net False w = (Inr (), w\<lparr>fb_kernel := n1\<rparr>)"
    by (simp add: perm_ban_def network_ret [OF assms(4)] f2b_options bindM_def on_kernel_run a n(1))
  moreover have "perm_ban nf later net True (w\<lparr>fb_kernel := n1\<rparr>) = (Inr (), w\<lparr>fb_kernel := n2\<rparr>)"
    by (simp add: perm_ban_def network_ret [OF assms(4)] bindM_def seqM_def on_kernel_run a n(4))
  ultimately show ?thesis
    using n(2,3,5) by (intro exI [of _ "w\<lparr>fb_kernel := n1\<rparr>"] exI [of _ "w\<lparr>fb_kernel := n2\<rparr>"] exI [of _ r])
      simp
qed

lemma perm_bans_are_not_recorded_witness:
  "\<exists>w1 w2. perm_ban ban_tables 7 (show_network trusted_net) False ban_start = (Inr (), w1) \<and>
     fb_store w1 = fb_store ban_start \<and>
     perm_ban ban_tables 9 (show_network trusted_net) True w1 = (Inr (), w2) \<and>
     fb_store w2 = fb_store ban_start"
  using perm_bans_are_not_recorded [OF memory_bans.ban_service_axioms, OF ban_tables_serves
      ban_start_good(1) trusted_entry [unfolded trusted_net_def] ban_start_chain, of 7 9]
  unfolding trusted_net_def by blast

section \<open>When a ban ends\<close>

text \<open>An entry \<open>autopurge\<close> lifts: enough attempts, and more than the ban time since the last one.\<close>

definition due :: "int \<Rightarrow> ban \<Rightarrow> bool" where
  "due now b \<longleftrightarrow> 10 \<le> attempts b \<and> calc_net_ban_time (ban_counter b) < now - last_attempt b"

lemma purge_not_due:
  "map_of (fb_bans w) net = Some b \<Longrightarrow> \<not> due now b \<Longrightarrow> purge_ban nf now net w = (Inr (), w)"
  by (auto simp: purge_ban_def due_def f2b_options)

lemma purge_due:
  "map_of (fb_bans w) net = Some b \<Longrightarrow> due now b \<Longrightarrow> purge_ban nf now net w = unban nf net w"
  by (simp add: purge_ban_def due_def f2b_options)

lemma purge_all_not_due:
  "\<forall>net \<in> set nets. \<exists>b. map_of (fb_bans w) net = Some b \<and> \<not> due now b \<Longrightarrow>
     forM nets (purge_ban nf now) w = (Inr (), w)"
  by (induction nets) (auto simp: seqM_def bindM_def purge_not_due)

lemma purge_none_due:
  assumes "\<And>net e. map_of (fb_bans w) net = Some e \<Longrightarrow> \<not> due now e"
  shows "forM (dict_keys (fb_bans w)) (purge_ban nf now) w = (Inr (), w)"
  using assms by (intro purge_all_not_due) auto

lemma purge_one_due:
  assumes "distinct (dict_keys (fb_bans w))" and "map_of (fb_bans w) net = Some b" and "due now b"
    and "\<And>k e. k \<noteq> net \<Longrightarrow> map_of (fb_bans w) k = Some e \<Longrightarrow> \<not> due now e"
    and "unban nf net w = (Inr (), u)"
    and "\<And>k. k \<noteq> net \<Longrightarrow> map_of (fb_bans u) k = map_of (fb_bans w) k"
  shows "forM (dict_keys (fb_bans w)) (purge_ban nf now) w = (Inr (), u)"
proof -
  have keys: "k \<in> set (dict_keys (fb_bans w)) \<longleftrightarrow> (\<exists>e. map_of (fb_bans w) k = Some e)" for k
    by auto
  with assms(2) obtain pre post where split: "dict_keys (fb_bans w) = pre @ net # post"
    using split_list by metis
  with assms(1) have out: "net \<notin> set pre" "net \<notin> set post" by simp_all
  have others: "\<exists>e. map_of (fb_bans w) k = Some e \<and> \<not> due now e" if "k \<in> set pre \<union> set post" for k
  proof -
    from that split have "k \<in> set (dict_keys (fb_bans w))" by auto
    with keys obtain e where "map_of (fb_bans w) k = Some e" by blast
    moreover have "k \<noteq> net" using that out by blast
    ultimately show ?thesis using assms(4) by blast
  qed
  then have "forM pre (purge_ban nf now) w = (Inr (), w)" by (intro purge_all_not_due) blast
  moreover have "purge_ban nf now net w = (Inr (), u)" by (simp only: purge_due [OF assms(2,3)] assms(5))
  moreover have "forM post (purge_ban nf now) u = (Inr (), u)"
    using others out assms(6) by (intro purge_all_not_due) (metis UnI2)
  ultimately show ?thesis unfolding split forM_append by (simp add: seqM_def bindM_def)
qed

lemma autopurge_empty_queue:
  assumes "ban_service api family rules kgood ops view sgood" and "serves api family ops nf"
    and "sgood (fb_store w)" and "view (fb_store w) ''F2B_QUEUE_UNBAN'' = Map.empty"
  shows "\<exists>s. sgood s \<and> view s = view (fb_store w) \<and>
    autopurge nf now w = forM (dict_keys (fb_bans w)) (purge_ban nf now) (w\<lparr>fb_store := s\<rparr>)"
proof -
  have st: "hash_store ops view sgood" and o: "nf_store nf = ops"
    using assms(1,2) by (auto simp: ban_service_def serves_def)
  obtain d s where d: "s_hgetall ops ''F2B_QUEUE_UNBAN'' (fb_store w) = (Inr d, s)"
    "map_of d = view (fb_store w) ''F2B_QUEUE_UNBAN''" "sgood s" "view s = view (fb_store w)"
    using hash_store.hgetall_run [OF st, OF assms(3)] by blast
  have "d = []" using d(2) assms(4) by simp
  with d show ?thesis
    by (intro exI [of _ s]) (simp add: autopurge_def bindM_def on_hashes_run o seqM_def dict_keys_def)
qed


text \<open>The attacker of above, banned at second 1000, below a later ban of its neighbour.\<close>

definition attacker_rule :: nft_rule where
  "attacker_rule =
     \<lparr>ru_family = ''ip'', ru_table = ''filter'', ru_chain = ''MAIL'', ru_handle = 7, ru_comment = None,
      ru_expr = ban_expr kernel_tables (IPv4Network attacker 32)\<rparr>"

definition neighbour_rule :: nft_rule where
  "neighbour_rule =
     \<lparr>ru_family = ''ip'', ru_table = ''filter'', ru_chain = ''MAIL'', ru_handle = 8, ru_comment = None,
      ru_expr = ban_expr kernel_tables (IPv4Network (Suc attacker) 32)\<rparr>"

definition banned_state :: "(memory_store, ruleset) f2b" where
  "banned_state = ban_start
     \<lparr>fb_kernel := put_chain (''ip'', ''filter'', ''MAIL'')
        \<lparr>kc_handle = 3, kc_hook = None, kc_prio = None, kc_rules = [neighbour_rule, attacker_rule]\<rparr>
        (kernel_ruleset\<lparr>rl_next := 9\<rparr>),
      fb_bans := [(show_network (IPv4Network attacker 32),
        \<lparr>attempts = 10, last_attempt = 1000, ban_counter = 0\<rparr>)]\<rparr>"

lemma banned_state_good: "ruleset_good (fb_kernel banned_state)"
  unfolding banned_state_def
  by (simp, rule put_chain_good [OF kernel_ruleset_good])
    (simp_all add: kernel_ruleset_def chain_ok_def attacker_rule_def neighbour_rule_def)

lemma banned_state_rules: "ruleset_rules ''ip'' (fb_kernel banned_state) ''filter''
    (nt_name (nf_ipv4_tables ban_tables)) = Some (3, [neighbour_rule] @ [attacker_rule])"
  by (simp add: banned_state_def put_chain_rules ban_tables_def kernel_tables_def)

lemma attacker_rule_drops: "drops (nf_ipv4_tables ban_tables) (IPv4Network attacker 32) attacker_rule"
  unfolding ban_tables_def netfilter.simps
  by (rule drops_banned [OF _ host_network [OF attacker_bound]])
    (simp add: attacker_rule_def list_all2_listed_refl)

lemma neighbour_rule_foreign:
  "list_all (foreign_rule (nf_ipv4_tables ban_tables) (IPv4Network attacker 32)) [neighbour_rule]"
proof -
  have "Suc attacker < 2 ^ 32" by (simp add: attacker_def quad_def)
  then have "drops (nf_ipv4_tables ban_tables) (IPv4Network (Suc attacker) 32) neighbour_rule"
    unfolding ban_tables_def netfilter.simps
    by (intro drops_banned [OF _ host_network])
      (simp_all add: neighbour_rule_def list_all2_listed_refl)
  moreover have "IPv4Network (Suc attacker) 32 \<noteq> IPv4Network attacker 32" by simp
  ultimately have "foreign_rule (nf_ipv4_tables ban_tables) (IPv4Network attacker 32) neighbour_rule"
    unfolding foreign_rule_def by blast
  then show ?thesis by simp
qed


end
