(* ===== verification/NetfilterService.thy ===== *)
theory NetfilterService
  imports Bans
begin

text \<open>
  The class \<open>NetfilterService\<close> and the start of the program in src/backend/taramail/netfilter.py.
  Each task is a loop that runs until the stop event is set; one round of a task is one event, and
  the rounds of the tasks come in any order. An exception in \<open>watch\<close>, or a \<open>NetfilterError\<close> in
  \<open>chain_order\<close>, stops the service; any other exception ends only the task it is raised in, which
  \<open>gather\<close> hides until the end. The queue is the sequence of the messages received.
\<close>

section \<open>Messages\<close>

definition address_char :: "char \<Rightarrow> bool" where
  "address_char c \<longleftrightarrow> is_digit c \<or> (97 \<le> code c \<and> code c \<le> 102) \<or> c = CHR ''.'' \<or> c = CHR '':''"

definition f2bregex :: "rx list list" where
  "f2bregex =
     [[Lit ''mail UI: Invalid password for '', AnyPlus, Lit '' by '', Group address_char],
      [Lit ''Rspamd UI: Invalid password by '', Group address_char],
      [Lit ''warning: '', AnyStar, Lit ''['', Group address_char, Lit '']: SASL '', AnyPlus,
       Lit '' authentication failed: '',
       NotAhead [AnyStar, Lit ''Connection lost to authentication server''], AnyPlus],
      [Lit ''warning: non-SMTP command from '', AnyStar, Lit ''['', Group address_char, Lit '']:'', AnyPlus],
      [Lit ''NOQUEUE: reject: RCPT from ['', Group address_char, Lit '']'', AnyPlus,
       Lit ''Protocol error'', AnyPlus],
      [Lit ''-login: Disconnected'', AnyPlus, Lit '' (auth failed, '', AnyPlus, Lit ''): user='', AnyStar,
       Lit '', method='', AnyPlus, Lit '', rip='', Group address_char, Lit '',''],
      [Lit ''-login: Aborted login'', AnyPlus, Lit '' (auth failed '', AnyPlus, Lit ''): user='', AnyPlus,
       Lit '', rip='', Group address_char, Lit '', lip'', AnyPlus],
      [Lit ''-login: Aborted login'', AnyPlus, Lit '' (tried to use disallowed '', AnyPlus,
       Lit ''): user='', AnyPlus, Lit '', rip='', Group address_char, Lit '', lip'', AnyPlus],
      [Lit ''SOGo'', AnyPlus, Lit ('' Login from '' @ [CHR 0x27]), Group address_char,
       Lit ([CHR 0x27] @ '' for user ''), AnyPlus, Lit '' might not have worked''],
      [Group address_char, Lit '' '', Lit [CHR 0x22], Lit ''GET /SOGo/'', AnyStar, Lit '' HTTP'', AnyPlus,
       Lit [CHR 0x22], Lit '' 403 '', AnyPlus]]"

fun handle_rules ::
  "('s, 'n) netfilter \<Rightarrow> int \<Rightarrow> string \<Rightarrow> rx list list \<Rightarrow> (('s, 'n) f2b, py_exn, unit) sem" where
  "handle_rules nf now message [] = ret ()"
| "handle_rules nf now message (rule_regex # rules) =
     (case search rule_regex message of
        None \<Rightarrow> handle_rules nf now message rules
      | Some addr \<Rightarrow>
          bindM (get_ip addr) (\<lambda>ip.
          if ip \<noteq> None then ban_address nf now addr else handle_rules nf now message rules))"

definition handle_message ::
  "('s, 'n) netfilter \<Rightarrow> int \<Rightarrow> string \<Rightarrow> (('s, 'n) f2b, py_exn, unit) sem" where
  "handle_message nf now message =
     (if message = [] then ret () else handle_rules nf now message f2bregex)"

section \<open>Tasks\<close>

datatype task = Watch | ChainOrder | Autopurge | Whitelist | Blacklist | Snat4 | Snat6

record ('s, 'n) service =
  sv_f2b :: "('s, 'n) f2b"
  sv_stop :: bool
  sv_exit_code :: int
  sv_clear_before_exit :: bool
  sv_ended :: "task list"

record ('s, 'n) service_config =
  sc_netfilter :: "('s, 'n) netfilter"
  sc_snat4 :: "(string \<times> string) option"
  sc_snat6 :: "(string \<times> string) option"

datatype event = Message string | Round task | Sigterm

text \<open>What a round does to the bans; the tasks of source NAT only exist when they are configured.\<close>

definition snat_round ::
  "('s, 'n) netfilter \<Rightarrow> nft_tables \<Rightarrow> (string \<times> string) option \<Rightarrow> (('s, 'n) f2b, py_exn, unit) sem" where
  "snat_round nf nt setting =
     (case setting of None \<Rightarrow> ret ()
      | Some (target, source) \<Rightarrow> on_kernel (snat (nf_api nf) nt target source))"

fun task_round ::
  "('s, 'n) service_config \<Rightarrow> int \<Rightarrow> task \<Rightarrow> (('s, 'n) f2b, py_exn, unit) sem" where
  "task_round cfg now Watch = ret ()"
| "task_round cfg now ChainOrder = chain_order (sc_netfilter cfg)"
| "task_round cfg now Autopurge = autopurge (sc_netfilter cfg) now"
| "task_round cfg now Whitelist = update_whitelist (sc_netfilter cfg)"
| "task_round cfg now Blacklist = update_blacklist (sc_netfilter cfg) now"
| "task_round cfg now Snat4 =
     snat_round (sc_netfilter cfg) (nf_ipv4_tables (sc_netfilter cfg)) (sc_snat4 cfg)"
| "task_round cfg now Snat6 =
     snat_round (sc_netfilter cfg) (nf_ipv6_tables (sc_netfilter cfg)) (sc_snat6 cfg)"

definition stop_service :: "('s, 'n) service \<Rightarrow> ('s, 'n) service" where
  "stop_service s = s\<lparr>sv_stop := True, sv_exit_code := 2\<rparr>"

fun task_failed :: "task \<Rightarrow> py_exn \<Rightarrow> ('s, 'n) service \<Rightarrow> ('s, 'n) service" where
  "task_failed Watch e s = stop_service s"
| "task_failed ChainOrder (NetfilterError m) s = stop_service s"
| "task_failed t e s = s\<lparr>sv_ended := t # sv_ended s\<rparr>"

definition run_task ::
  "task \<Rightarrow> (('s, 'n) f2b, py_exn, unit) sem \<Rightarrow> ('s, 'n) service \<Rightarrow> ('s, 'n) service" where
  "run_task t m s =
     (if sv_stop s \<or> t \<in> set (sv_ended s) then s
      else (case m (sv_f2b s) of
              (Inr _, f) \<Rightarrow> s\<lparr>sv_f2b := f\<rparr>
            | (Inl e, f) \<Rightarrow> task_failed t e (s\<lparr>sv_f2b := f\<rparr>)))"

definition handle_sigterm :: "('s, 'n) service \<Rightarrow> ('s, 'n) service" where
  "handle_sigterm s = s\<lparr>sv_clear_before_exit := True, sv_stop := True\<rparr>"

fun handle :: "('s, 'n) service_config \<Rightarrow> int \<Rightarrow> event \<Rightarrow> ('s, 'n) service \<Rightarrow> ('s, 'n) service" where
  "handle cfg now (Message m) s = run_task Watch (handle_message (sc_netfilter cfg) now m) s"
| "handle cfg now (Round t) s = run_task t (task_round cfg now t) s"
| "handle cfg now Sigterm s = handle_sigterm s"

section \<open>Start and end\<close>

text \<open>\<open>_main\<close> up to the creation of the tasks; an exception here ends the program.\<close>

definition start_netfilter :: "('s, 'n) netfilter \<Rightarrow> (('s, 'n) f2b, py_exn, unit) sem" where
  "start_netfilter nf =
     seqM (clear nf)
     (seqM (on_kernel (insert_mail_chains (nf_api nf) (nf_ipv4_tables nf)))
     (seqM (on_kernel (insert_mail_chains (nf_api nf) (nf_ipv6_tables nf)))
     (on_kernel (create_isolation_rule (nf_api nf) (nf_ipv4_tables nf) ''br-taramail'' [6379]))))"

definition netfilter_from_env ::
  "'s store_ops \<Rightarrow> 'n nft_api \<Rightarrow> dns_api \<Rightarrow> (string \<Rightarrow> string option) \<Rightarrow>
     ('n, py_exn, ('s, 'n) netfilter) sem" where
  "netfilter_from_env store api resolve env =
     (let name = (case env ''NETFILTER_CHAIN_NAME'' of None \<Rightarrow> ''MAIL'' | Some v \<Rightarrow> v);
          comment = (case env ''NETFILTER_CHAIN_COMMENT'' of None \<Rightarrow> ''mail'' | Some v \<Rightarrow> v);
          tables = (\<lambda>family. \<lparr>nt_name = name, nt_comment = comment, nt_family = family,
            nt_chains = default_chains\<rparr>) in
      bindM (init_chains api (tables ''ip'')) (\<lambda>ipv4_tables.
      bindM (init_chains api (tables ''ip6'')) (\<lambda>ipv6_tables.
      ret \<lparr>nf_store = store, nf_api = api, nf_ipv4_tables = ipv4_tables,
        nf_ipv6_tables = ipv6_tables, nf_resolve = resolve\<rparr>)))"

definition before_exit :: "('s, 'n) service_config \<Rightarrow> ('s, 'n) service \<Rightarrow>
    (py_exn + unit) \<times> ('s, 'n) f2b" where
  "before_exit cfg s =
     (if sv_clear_before_exit s then clear (sc_netfilter cfg) (sv_f2b s) else (Inr (), sv_f2b s))"

definition service_start :: "('s, 'n) f2b \<Rightarrow> ('s, 'n) service" where
  "service_start f =
     \<lparr>sv_f2b = f, sv_stop = False, sv_exit_code = 0, sv_clear_before_exit = False, sv_ended = []\<rparr>"

section \<open>Reachable states\<close>

inductive service_step ::
  "('s, 'n) service_config \<Rightarrow> ('s, 'n) service \<Rightarrow> ('s, 'n) service \<Rightarrow> bool"
  for cfg :: "('s, 'n) service_config" where
  event: "service_step cfg s (handle cfg now e s)"

inductive service_reachable ::
  "('s, 'n) service_config \<Rightarrow> ('s, 'n) service \<Rightarrow> ('s, 'n) service \<Rightarrow> bool"
  for cfg :: "('s, 'n) service_config" and s :: "('s, 'n) service" where
  start: "service_reachable cfg s s"
| step: "service_reachable cfg s t \<Longrightarrow> service_step cfg t u \<Longrightarrow> service_reachable cfg s u"

inductive_cases service_stepE: "service_step cfg s t"

definition exit_inv :: "('s, 'n) service \<Rightarrow> bool" where
  "exit_inv s \<longleftrightarrow> (sv_exit_code s = 0 \<or> sv_exit_code s = 2) \<and>
     (sv_exit_code s = 2 \<or> sv_clear_before_exit s \<longleftrightarrow> sv_stop s) \<and> Watch \<notin> set (sv_ended s)"

lemma task_failed_inv: "exit_inv s \<Longrightarrow> \<not> sv_stop s \<Longrightarrow> exit_inv (task_failed t e s)"
  by (induction t e s rule: task_failed.induct) (auto simp: exit_inv_def stop_service_def)

lemma exit_inv_f2b: "exit_inv (s\<lparr>sv_f2b := f\<rparr>) = exit_inv s"
  by (simp add: exit_inv_def)

lemma run_task_inv: "exit_inv s \<Longrightarrow> exit_inv (run_task t m s)"
  by (auto simp: run_task_def exit_inv_f2b task_failed_inv split: prod.splits sum.splits)

lemma service_step_inv: "service_step cfg s t \<Longrightarrow> exit_inv s \<Longrightarrow> exit_inv t"
proof (induction rule: service_step.induct)
  case (event s now e)
  then show ?case
    by (cases e) (auto simp: run_task_inv, auto simp: handle_sigterm_def exit_inv_def)
qed

text \<open>
  C34. In every state the service can reach, its exit code is 0 or 2, it stops exactly when a task that
  must not fail has failed (exit code 2) or it was asked to terminate, in which case it clears its rules
  before it exits, and the task that reads the messages never ends on its own.
\<close>
theorem service_exit_code:
  assumes "service_reachable cfg (service_start f) s"
  shows "(sv_exit_code s = 0 \<or> sv_exit_code s = 2) \<and>
    (sv_stop s \<longleftrightarrow> sv_exit_code s = 2 \<or> sv_clear_before_exit s) \<and> Watch \<notin> set (sv_ended s)"
proof -
  from assms have "exit_inv s"
  proof (induction rule: service_reachable.induct)
    case start
    show ?case by (simp add: service_start_def exit_inv_def)
  next
    case (step t u)
    then show ?case by (blast intro: service_step_inv)
  qed
  then show ?thesis by (auto simp: exit_inv_def)
qed

definition ban_config :: "(memory_store, ruleset) service_config" where
  "ban_config = \<lparr>sc_netfilter = ban_tables, sc_snat4 = None, sc_snat6 = None\<rparr>"

lemma service_exit_code_witness:
  "sv_stop (handle ban_config 5 Sigterm (service_start ban_start)) \<and>
   sv_exit_code (handle ban_config 5 Sigterm (service_start ban_start)) = 0"
proof -
  let ?s = "handle ban_config 5 Sigterm (service_start ban_start)"
  have "service_reachable ban_config (service_start ban_start) ?s"
    by (rule service_reachable.step [OF service_reachable.start service_step.event])
  from service_exit_code [OF this] show ?thesis
    by (simp add: handle_sigterm_def service_start_def)
qed

text \<open>
  C39. A message from which the first rule that matches takes a text that is no address stops the whole
  service with exit code 2.
\<close>
theorem message_without_address_stops:
  assumes "\<not> sv_stop s" and "Watch \<notin> set (sv_ended s)" and "message \<noteq> []"
    and "f2bregex = pre @ r # post" and "list_all (\<lambda>q. search q message = None) pre"
    and "search r message = Some addr" and "ip_address_of addr = None"
  shows "handle cfg now (Message message) s = s\<lparr>sv_stop := True, sv_exit_code := 2\<rparr>"
proof -
  have skip: "handle_rules nf now message (xs @ ys) = handle_rules nf now message ys"
    if "list_all (\<lambda>q. search q message = None) xs" for nf :: "('a, 'b) netfilter" and xs ys
    using that by (induction xs) auto
  have "handle_message (sc_netfilter cfg) now message (sv_f2b s) =
      (Inl (ValueError (addr @ '' does not appear to be an IPv4 or IPv6 address'')), sv_f2b s)"
    using assms(3,6,7) skip [OF assms(5)] by (simp add: handle_message_def assms(4) get_ip_def bindM_def)
  with assms(1,2) show ?thesis by (simp add: run_task_def stop_service_def)
qed

text \<open>What \<open>.+\<close> of the rule on SOGo takes is at least one character before the space.\<close>

lemma sogo_rule_matches:
  "search (f2bregex ! 8) (''SOGo[7]: Login from '' @ [CHR 0x27] @ ''8.8.4.4'' @ [CHR 0x27] @
     '' for user jo might not have worked'') = Some ''8.8.4.4'' \<and>
   search (f2bregex ! 8) (''SOGo Login from '' @ [CHR 0x27] @ ''8.8.4.4'' @ [CHR 0x27] @
     '' for user jo might not have worked'') = None"
  by code_simp

lemma message_without_address_stops_witness:
  "sv_stop (handle ban_config 5 (Message ''mail UI: Invalid password for jo by dead'') (service_start ban_start))"
proof -
  let ?m = "''mail UI: Invalid password for jo by dead''"
  have s: "search (hd f2bregex) ?m = Some ''dead''" by code_simp
  have a: "ip_address_of ''dead'' = None" by code_simp
  have f: "f2bregex = [] @ hd f2bregex # tl f2bregex" by (simp add: f2bregex_def)
  show ?thesis
    by (subst message_without_address_stops [OF _ _ _ f _ s a]) (simp_all add: service_start_def)
qed

end
