(* ===== verification/Api.thy ===== *)
theory Api
  imports ForwardingHost Transport Relayhost Alias Mailbox Auth RspamdSettings RspamdMaps NetfilterService
begin

text \<open>
  src/backend/taramail/api.py: every endpoint as a program over the state it works on, the managers it
  gets from the dependencies being its arguments, and the handlers that turn an exception into a reply.
  Parameters of a path and bodies are given after their validation by FastAPI, which answers 422 itself
  when it fails. The routes, the templates, the metrics and the static files are not modelled.
\<close>

section \<open>Replies\<close>

datatype 'a reply = Reply 'a | Failed int string string

text \<open>The status and the name of an exception, and its text.\<close>

fun error_handler :: "py_exn \<Rightarrow> (int \<times> string \<times> string) option" where
  "error_handler (AliasAlreadyExistsError m) = Some (409, ''AliasAlreadyExistsError'', m)"
| "error_handler (AliasNotFoundError m) = Some (404, ''AliasNotFoundError'', m)"
| "error_handler (AliasValidationError m) = Some (400, ''AliasValidationError'', m)"
| "error_handler (DKIMAlreadyExistsError m) = Some (409, ''DKIMAlreadyExistsError'', m)"
| "error_handler (DKIMNotFoundError m) = Some (404, ''DKIMNotFoundError'', m)"
| "error_handler (DomainAlreadyExistsError m) = Some (409, ''DomainAlreadyExistsError'', m)"
| "error_handler (DomainNotFoundError m) = Some (404, ''DomainNotFoundError'', m)"
| "error_handler (DomainValidationError m) = Some (400, ''DomainValidationError'', m)"
| "error_handler (ForwardingHostNotFoundError m) = Some (404, ''ForwardingHostNotFoundError'', m)"
| "error_handler (ForwardingHostValidationError m) = Some (400, ''ForwardingHostValidationError'', m)"
| "error_handler (MailboxAlreadyExistsError m) = Some (409, ''MailboxAlreadyExistsError'', m)"
| "error_handler (MailboxNotFoundError m) = Some (404, ''MailboxNotFoundError'', m)"
| "error_handler (MailboxValidationError m) = Some (400, ''MailboxValidationError'', m)"
| "error_handler (PasswordValidationError m) = Some (400, ''PasswordValidationError'', m)"
| "error_handler (RelayHostAlreadyExistsError m) = Some (409, ''RelayHostAlreadyExistsError'', m)"
| "error_handler (RelayHostNotFoundError m) = Some (404, ''RelayHostNotFoundError'', m)"
| "error_handler (RelayHostValidationError m) = Some (400, ''RelayHostValidationError'', m)"
| "error_handler (RspamdMapNotFoundError m) = Some (404, ''RspamdMapNotFoundError'', m)"
| "error_handler (RspamdMapValidationError m) = Some (400, ''RspamdMapValidationError'', m)"
| "error_handler (TransportAlreadyExistsError m) = Some (409, ''TransportAlreadyExistsError'', m)"
| "error_handler (TransportNotFoundError m) = Some (404, ''TransportNotFoundError'', m)"
| "error_handler (TransportValidationError m) = Some (400, ''TransportValidationError'', m)"
| "error_handler (HTTPException status m) = Some (status, [], m)"
| "error_handler _ = None"

definition respond :: "('w, py_exn, 'a) sem \<Rightarrow> 'w \<Rightarrow> 'a reply \<times> 'w" where
  "respond m w =
     (case m w of
        (Inr a, w') \<Rightarrow> (Reply a, w')
      | (Inl e, w') \<Rightarrow>
          (case error_handler e of
             Some (status, name, detail) \<Rightarrow> (Failed status name detail, w')
           | None \<Rightarrow> (Failed 500 ''Unhandled exception'' [], w')))"

section \<open>Domains\<close>

definition get_domains_endpoint :: "(('k, 'm) world, py_exn, string list) sem" where
  "get_domains_endpoint = bindM (on_db get_domains) (\<lambda>ds. ret (map do_domain ds))"

definition get_domain_endpoint :: "string \<Rightarrow> (('k, 'm) world, py_exn, domain_details) sem" where
  "get_domain_endpoint domain = on_db (get_domain_details domain)"

definition post_domain ::
  "'k domain_manager \<Rightarrow> domain_create \<Rightarrow> (('k, 'm) world, py_exn, domain_details) sem" where
  "post_domain dm create =
     bindM (transaction (create_domain dm create)) (\<lambda>domain.
     on_db (get_domain_details (do_domain domain)))"

definition put_domain ::
  "'k domain_manager \<Rightarrow> string \<Rightarrow> domain_update \<Rightarrow> (('k, 'm) world, py_exn, domain_details) sem" where
  "put_domain dm domain update =
     bindM (transaction (on_db (update_domain dm domain update))) (\<lambda>domain.
     on_db (get_domain_details (do_domain domain)))"

definition delete_domain_endpoint ::
  "'k domain_manager \<Rightarrow> string \<Rightarrow> (('k, 'm) world, py_exn, unit) sem" where
  "delete_domain_endpoint dm domain = transaction (delete_domain dm domain)"

section \<open>Mailboxes\<close>

definition get_mailboxes_endpoint :: "(('k, 'm) world, py_exn, string list) sem" where
  "get_mailboxes_endpoint = bindM (on_db get_mailboxes) (\<lambda>ms. ret (map mb_username ms))"

definition get_mailbox_endpoint :: "string \<Rightarrow> (('k, 'm) world, py_exn, mailbox_details) sem" where
  "get_mailbox_endpoint username = on_db (get_mailbox_details username)"

definition post_mailbox ::
  "('k, 'm) mailbox_manager \<Rightarrow> mailbox_create \<Rightarrow> (('k, 'm) world, py_exn, mailbox_details) sem" where
  "post_mailbox mm create =
     bindM (transaction (create_mailbox mm create)) (\<lambda>mailbox.
     on_db (get_mailbox_details (mb_username mailbox)))"

definition put_mailbox ::
  "('k, 'm) mailbox_manager \<Rightarrow> string \<Rightarrow> mailbox_update \<Rightarrow>
     (('k, 'm) world, py_exn, mailbox_details) sem" where
  "put_mailbox mm username update =
     bindM (transaction (update_mailbox mm username update)) (\<lambda>mailbox.
     case mailbox of
       None \<Rightarrow> throw (AttributeError ''username'')
     | Some m \<Rightarrow> on_db (get_mailbox_details (mb_username m)))"

definition delete_mailbox_endpoint ::
  "('k, 'm) mailbox_manager \<Rightarrow> string \<Rightarrow> (('k, 'm) world, py_exn, unit) sem" where
  "delete_mailbox_endpoint mm username = transaction (delete_mailbox mm username)"

section \<open>Aliases\<close>

definition get_aliases_endpoint :: "string \<Rightarrow> (('k, 'm) world, py_exn, string list) sem" where
  "get_aliases_endpoint domain = bindM (on_db (get_aliases domain)) (\<lambda>as. ret (map al_address as))"

definition get_alias_endpoint :: "string \<Rightarrow> (('k, 'm) world, py_exn, alias_details) sem" where
  "get_alias_endpoint address = on_db (get_alias_details address)"

definition post_alias :: "alias_create \<Rightarrow> (('k, 'm) world, py_exn, alias_details) sem" where
  "post_alias create =
     bindM (transaction (on_db (create_alias create))) (\<lambda>alias.
     on_db (get_alias_details (al_address alias)))"

definition put_alias :: "string \<Rightarrow> alias_update \<Rightarrow> (('k, 'm) world, py_exn, alias_details) sem" where
  "put_alias address update =
     bindM (transaction (on_db (update_alias address update))) (\<lambda>alias.
     on_db (get_alias_details (al_address alias)))"

definition delete_alias_endpoint :: "string \<Rightarrow> (('k, 'm) world, py_exn, unit) sem" where
  "delete_alias_endpoint address = transaction (on_db (delete_alias address))"

section \<open>Forwarding hosts\<close>

definition get_forwarding_hosts_endpoint ::
  "'k store_ops \<Rightarrow> (('k, 'm) world, py_exn, forwarding_host_details list) sem" where
  "get_forwarding_hosts_endpoint store = on_store (get_forwarding_hosts store)"

definition get_forwarding_host_endpoint ::
  "'k store_ops \<Rightarrow> string \<Rightarrow> (('k, 'm) world, py_exn, forwarding_host_details) sem" where
  "get_forwarding_host_endpoint store host = on_store (get_forwarding_host_details store host)"

definition post_forwarding_host ::
  "'k store_ops \<Rightarrow> spf_resolver \<Rightarrow> forwarding_host_create \<Rightarrow> (('k, 'm) world, py_exn, string list) sem" where
  "post_forwarding_host store spf create = on_store (add_forwarding_host store spf create)"

definition put_forwarding_host ::
  "'k store_ops \<Rightarrow> string \<Rightarrow> forwarding_host_update \<Rightarrow> (('k, 'm) world, py_exn, unit) sem" where
  "put_forwarding_host store host update = on_store (update_forwarding_host store host update)"

definition delete_forwarding_host_endpoint ::
  "'k store_ops \<Rightarrow> string \<Rightarrow> (('k, 'm) world, py_exn, unit) sem" where
  "delete_forwarding_host_endpoint store host = on_store (delete_forwarding_host store host)"

section \<open>Relay hosts and transports\<close>

definition get_relayhosts_endpoint :: "(('k, 'm) world, py_exn, int list) sem" where
  "get_relayhosts_endpoint = bindM (on_db get_relayhosts) (\<lambda>rs. ret (map rh_id rs))"

definition get_relayhost_endpoint :: "int \<Rightarrow> (('k, 'm) world, py_exn, relayhost_details) sem" where
  "get_relayhost_endpoint relayhost_id = on_db (get_relayhost_details relayhost_id)"

definition post_relayhost :: "relayhost_create \<Rightarrow> (('k, 'm) world, py_exn, relayhost_details) sem" where
  "post_relayhost create =
     bindM (transaction (on_db (create_relayhost create))) (\<lambda>relayhost.
     on_db (get_relayhost_details (rh_id relayhost)))"

definition put_relayhost ::
  "int \<Rightarrow> relayhost_update \<Rightarrow> (('k, 'm) world, py_exn, relayhost_details) sem" where
  "put_relayhost relayhost_id update =
     bindM (transaction (on_db (update_relayhost relayhost_id update))) (\<lambda>_.
     on_db (get_relayhost_details relayhost_id))"

definition delete_relayhost_endpoint :: "int \<Rightarrow> (('k, 'm) world, py_exn, unit) sem" where
  "delete_relayhost_endpoint relayhost_id = transaction (on_db (delete_relayhost relayhost_id))"

definition get_transports_endpoint :: "(('k, 'm) world, py_exn, int list) sem" where
  "get_transports_endpoint = bindM (on_db get_transports) (\<lambda>ts. ret (map tr_id ts))"

definition get_transport_endpoint :: "int \<Rightarrow> (('k, 'm) world, py_exn, transport_details) sem" where
  "get_transport_endpoint transport_id = on_db (get_transport_details transport_id)"

definition post_transport ::
  "text_api \<Rightarrow> transport_create \<Rightarrow> (('k, 'm) world, py_exn, transport_details) sem" where
  "post_transport api create =
     bindM (transaction (on_db (create_transport api create))) (\<lambda>transport.
     on_db (get_transport_details (tr_id transport)))"

definition put_transport ::
  "text_api \<Rightarrow> int \<Rightarrow> transport_update \<Rightarrow> (('k, 'm) world, py_exn, transport_details) sem" where
  "put_transport api transport_id update =
     bindM (transaction (on_db (update_transport api transport_id update))) (\<lambda>_.
     on_db (get_transport_details transport_id))"

definition delete_transport_endpoint :: "int \<Rightarrow> (('k, 'm) world, py_exn, unit) sem" where
  "delete_transport_endpoint transport_id = transaction (on_db (delete_transport transport_id))"

section \<open>Keys and the password policy\<close>

definition get_dkim_keys :: "'k store_ops \<Rightarrow> (('k, 'm) world, py_exn, (string, string) dict) sem" where
  "get_dkim_keys store = on_store (get_keys store)"

definition get_dkim_details ::
  "'k store_ops \<Rightarrow> rsa_api \<Rightarrow> string \<Rightarrow> (('k, 'm) world, py_exn, dkim_details) sem" where
  "get_dkim_details store rsa domain = on_store (get_details store rsa domain False)"

definition post_dkim ::
  "'k store_ops \<Rightarrow> rsa_api \<Rightarrow> dkim_create \<Rightarrow> (('k, 'm) world, py_exn, dkim_details) sem" where
  "post_dkim store rsa create =
     seqM (on_store (create_key store rsa create))
     (on_store (get_details store rsa (dc_domain create) False))"

definition post_dkim_duplicate ::
  "'k store_ops \<Rightarrow> rsa_api \<Rightarrow> dkim_duplicate \<Rightarrow> (('k, 'm) world, py_exn, dkim_details) sem" where
  "post_dkim_duplicate store rsa dup =
     seqM (on_store (duplicate_key store rsa dup))
     (on_store (get_details store rsa (dd_to_domain dup) False))"

definition delete_dkim :: "'k store_ops \<Rightarrow> string \<Rightarrow> (('k, 'm) world, py_exn, unit) sem" where
  "delete_dkim store domain = on_store (delete_key store domain)"

definition get_password_policy ::
  "'k store_ops \<Rightarrow> coercions \<Rightarrow> password_policy \<Rightarrow> (('k, 'm) world, py_exn, password_policy) sem" where
  "get_password_policy store co dflt = on_store (get_policy store co dflt)"

definition put_password_policy ::
  "'k store_ops \<Rightarrow> coercions \<Rightarrow> password_policy \<Rightarrow> policy_update \<Rightarrow>
     (('k, 'm) world, py_exn, password_policy) sem" where
  "put_password_policy store co dflt update = on_store (update_policy store co dflt update)"

definition delete_password_policy ::
  "'k store_ops \<Rightarrow> coercions \<Rightarrow> password_policy \<Rightarrow> (('k, 'm) world, py_exn, unit) sem" where
  "delete_password_policy store co dflt = bindM (on_store (reset_policy store co dflt)) (\<lambda>_. ret ())"

section \<open>Rspamd\<close>

definition get_rspamd_maps :: "(files, py_exn, string list) sem" where
  "get_rspamd_maps = ret get_maps"

definition get_rspamd_map :: "string \<Rightarrow> (files, py_exn, rspamd_map_details) sem" where
  "get_rspamd_map map_name = get_map_details ''/etc/rspamd/custom'' map_name"

definition put_rspamd_map :: "string \<Rightarrow> string \<Rightarrow> (files, py_exn, rspamd_map_details) sem" where
  "put_rspamd_map map_name content = update_map ''/etc/rspamd/custom'' map_name content"

text \<open>What the template of the settings is rendered with.\<close>

record 'f settings_context =
  sx_allowed_domains_regex :: string
  sx_internal_aliases :: "string list"
  sx_custom_scores :: "'f rspamd_score_block list"
  sx_sogo_wl :: "(string, string list) dict"
  sx_whitelist_blocks :: "rspamd_list_block list"
  sx_blacklist_blocks :: "rspamd_list_block list"

definition get_rspamd_settings ::
  "(string \<Rightarrow> bool) \<Rightarrow> (string \<Rightarrow> 'f option) \<Rightarrow> ('f \<Rightarrow> 'f) \<Rightarrow>
     (('k, 'm) world, py_exn, 'f settings_context) sem" where
  "get_rspamd_settings accepts_email float_of less_one =
     bindM (on_db (query (\<lambda>d. d))) (\<lambda>d.
     bindM (get_custom_scores accepts_email float_of less_one d) (\<lambda>custom_scores.
     bindM (get_blocks accepts_email d ''whitelist_from'' ''whitelist_from_mime'') (\<lambda>whitelist_blocks.
     bindM (get_blocks accepts_email d ''blacklist_from'' ''blacklist_from_mime'') (\<lambda>blacklist_blocks.
     ret \<lparr>sx_allowed_domains_regex = get_allowed_domains_regex d,
          sx_internal_aliases = get_internal_aliases d, sx_custom_scores = custom_scores,
          sx_sogo_wl = get_sogo_wl accepts_email d, sx_whitelist_blocks = whitelist_blocks,
          sx_blacklist_blocks = blacklist_blocks\<rparr>))))"

record request =
  rq_headers :: "string \<Rightarrow> string option"
  rq_client_host :: string

definition get_rspamd_aliasexp ::
  "(string \<Rightarrow> string option) \<Rightarrow> 'k store_ops \<Rightarrow> (string list \<Rightarrow> string list) \<Rightarrow> request \<Rightarrow>
     (('k, 'm) world, py_exn, string) sem" where
  "get_rspamd_aliasexp email_str store arrange request =
     bindM (on_db (query (\<lambda>d. d))) (\<lambda>d.
     on_store (expand_alias email_str store d arrange 20 (rq_headers request ''Rcpt'')))"

definition get_rspamd_bcc ::
  "(string \<Rightarrow> bool) \<Rightarrow> (string \<Rightarrow> string + string) \<Rightarrow> request \<Rightarrow> (('k, 'm) world, py_exn, string) sem" where
  "get_rspamd_bcc accepts_email idna request =
     bindM (on_db (query (\<lambda>d. d))) (\<lambda>d.
     get_bcc_dest accepts_email idna d (rq_headers request ''Rcpt'') (rq_headers request ''From''))"

text \<open>The state is the queue: the channels and messages published so far.\<close>

definition get_rspamd_error :: "request \<Rightarrow> ((string \<times> string) list, py_exn, unit) sem" where
  "get_rspamd_error request =
     seqM (modify (\<lambda>q. q @
       [(''F2B_CHANNEL'', ''Rspamd UI: Invalid password by '' @ rq_client_host request)]))
     (throw (HTTPException 401 ''Invalid password''))"

section \<open>Authentication for SOGo\<close>

text \<open>
  The two patterns of the service. The second, \<open>/^(/SOGo|)/Microsoft-Server-ActiveSync.*/\<close>, wants the
  start of the text after its first slash.
\<close>

definition matches_dav :: "string \<Rightarrow> bool" where
  "matches_dav uri \<longleftrightarrow> starts_with ''/SOGo/dav'' uri \<or> starts_with ''/dav'' uri"

definition matches_eas :: "string \<Rightarrow> bool" where
  "matches_eas uri \<longleftrightarrow>
     starts_with ''/'' uri \<and> length (take 1 uri) = 0 \<and>
     (starts_with ''/SOGo/Microsoft-Server-ActiveSync'' (drop 1 uri) \<or>
      starts_with ''/Microsoft-Server-ActiveSync'' (drop 1 uri))"

definition sogo_service :: "string \<Rightarrow> string" where
  "sogo_service uri = (if matches_dav uri then ''dav'' else if matches_eas uri then ''eas'' else ''api'')"

definition get_sogo_auth ::
  "auth_backend list \<Rightarrow> (string \<times> string) option \<Rightarrow> request \<Rightarrow>
     (session, py_exn, (string, string) dict) sem" where
  "get_sogo_auth backends credentials request =
     (case credentials of
        None \<Rightarrow> ret [(''X-User'', []), (''X-Auth'', []), (''X-Auth-Type'', [])]
      | Some (username, password) \<Rightarrow>
          (let header = (\<lambda>name dflt. case rq_headers request name of None \<Rightarrow> dflt | Some v \<Rightarrow> v);
               ip = header ''X-Real-IP'' (rq_client_host request);
               service = sogo_service (header ''X-Original-URI'' []) in
           bindM (authenticate backends username password \<lparr>ax_ip = ip, ax_service = service\<rparr>) (\<lambda>ok.
           seqM (raise_when (\<not> ok) (HTTPException 401 ''Invalid login''))
           (ret [(''X-User'', username),
                 (''X-Auth'', ''Basic '' @ b64encode (username @ '':'' @ password)),
                 (''X-Auth-Type'', ''Basic'')]))))"

section \<open>Properties\<close>

text \<open>No request is ever taken for one of ActiveSync.\<close>

lemma sogo_service_not_eas: "sogo_service uri \<noteq> ''eas''"
  by (auto simp: sogo_service_def matches_eas_def starts_with_def)

lemma mailbox_authenticate_raises:
  "mailbox_authenticate bcrypt username password context s = (Inl e, t) \<Longrightarrow> \<exists>m. e = ValueError m"
  by (auto simp: mailbox_authenticate_def verify_password_def split: list.splits if_splits option.splits)

text \<open>
  C15. What \<open>/sogo-auth\<close> lets through: without credentials it answers with empty headers; with
  credentials it only answers with a user name if that mailbox and its domain are active and bcrypt
  accepts the password, and then \<open>X-Auth\<close> is the Basic token that decodes to the same credentials; a
  refused login is a 401.
\<close>
theorem sogo_auth_passes_valid_logins:
  assumes "respond (get_sogo_auth [mailbox_authenticate bcrypt] credentials request) s = (r, t)"
  shows "case r of
      Reply headers \<Rightarrow>
        (case credentials of
           None \<Rightarrow> \<forall>name v. map_of headers name = Some v \<longrightarrow> v = []
         | Some (username, password) \<Rightarrow>
             map_of headers ''X-User'' = Some username \<and> may_log_in bcrypt (sql s) username password \<and>
             (\<exists>token. map_of headers ''X-Auth'' = Some (''Basic '' @ token) \<and>
                b64decode token = Some (username @ '':'' @ password)))
    | Failed status name detail \<Rightarrow>
        credentials \<noteq> None \<and> (status = 401 \<and> detail = ''Invalid login'' \<or> status = 500)"
proof (cases credentials)
  case None
  with assms show ?thesis by (auto simp: respond_def get_sogo_auth_def split: if_splits)
next
  case (Some c)
  obtain username password where c: "c = (username, password)" by fastforce
  obtain ctx where run: "respond (bindM (authenticate [mailbox_authenticate bcrypt] username password ctx)
      (\<lambda>ok. seqM (raise_when (\<not> ok) (HTTPException 401 ''Invalid login''))
        (ret [(''X-User'', username),
              (''X-Auth'', ''Basic '' @ b64encode (username @ '':'' @ password)),
              (''X-Auth-Type'', ''Basic'')]))) s = (r, t)"
    using assms unfolding Some c get_sogo_auth_def Let_def by auto
  obtain x u where x: "mailbox_authenticate bcrypt username password ctx s = (x, u)" by fastforce
  show ?thesis
  proof (cases x)
    case (Inl e)
    then obtain m where "e = ValueError m" using x mailbox_authenticate_raises by blast
    with run x Inl have "r = Failed 500 ''Unhandled exception'' []"
      by (simp add: respond_def bindM_def)
    with Some show ?thesis by simp
  next
    case (Inr ok)
    show ?thesis
    proof (cases ok)
      case True
      with x Inr have "mailbox_authenticate bcrypt username password ctx s = (Inr True, u)" by simp
      then have "may_log_in bcrypt (sql s) username password" by (rule mailbox_authenticate_returns)
      moreover from run x Inr True have "r = Reply [(''X-User'', username),
          (''X-Auth'', ''Basic '' @ b64encode (username @ '':'' @ password)), (''X-Auth-Type'', ''Basic'')]"
        by (simp add: respond_def bindM_def)
      ultimately show ?thesis using b64decode_b64encode [of "username @ '':'' @ password"]
        by (simp add: Some c)
    next
      case False
      with run x Inr have "r = Failed 401 [] ''Invalid login''"
        by (simp add: respond_def bindM_def seqM_def)
      with Some show ?thesis by simp
    qed
  qed
qed

lemma sogo_auth_passes_valid_logins_witness:
  "may_log_in toy_bcrypt (auth_db True) ''jo@a.org'' ''pw'' \<and>
   (\<exists>token. b64decode token = Some ''jo@a.org:pw'')"
proof -
  let ?run = "respond (get_sogo_auth [mailbox_authenticate toy_bcrypt] (Some (''jo@a.org'', ''pw''))
     \<lparr>rq_headers = Map.empty, rq_client_host = ''9.9.9.9''\<rparr>) (clean (auth_db True))"
  have "case fst ?run of Reply _ \<Rightarrow> True | Failed _ _ _ \<Rightarrow> False" by code_simp
  moreover obtain r t where rt: "?run = (r, t)" by fastforce
  ultimately obtain h where "r = Reply h" by (cases r) auto
  with sogo_auth_passes_valid_logins [OF rt] show ?thesis by auto
qed

section \<open>Failed logins at rspamd\<close>

lemma first_some_None: "first_some f xs = None \<longleftrightarrow> (\<forall>x \<in> set xs. f x = None)"
  by (induction xs) (auto split: option.splits)

lemma search_literal_absent: "(\<And>k. \<not> starts_with l (drop k s)) \<Longrightarrow> search (Lit l # rs) s = None"
  by (simp add: search_def first_some_None del: upt_Suc)

lemma search_at_start: "rmatch rs s [] = Some cap \<Longrightarrow> search rs s = Some cap"
  by (simp add: search_def upt_rec)

lemma single_start:
  assumes "CHR ''m'' \<notin> set a" and "CHR ''m'' \<notin> set b" and "\<not> starts_with l b"
  shows "\<not> starts_with (CHR ''m'' # l) (drop k (a @ CHR ''m'' # b))"
proof
  assume *: "starts_with (CHR ''m'' # l) (drop k (a @ CHR ''m'' # b))"
  show False
  proof (cases "k = length a")
    case True
    with * assms(3) show False by (auto simp: starts_with_iff)
  next
    case False
    from * obtain t where t: "drop k (a @ CHR ''m'' # b) = CHR ''m'' # t" by (auto simp: starts_with_iff)
    show False
    proof (cases "k < length a")
      case True
      then obtain c u where "drop k a = c # u" by (cases "drop k a") auto
      with t True have "drop k a = CHR ''m'' # u" by simp
      then have "CHR ''m'' \<in> set a" by (metis in_set_dropD list.set_intros(1))
      with assms(1) show False by simp
    next
      case False
      with \<open>k \<noteq> length a\<close> obtain n where "k - length a = Suc n" by (cases "k - length a") auto
      with t False have "drop n b = CHR ''m'' # t" by simp
      then have "CHR ''m'' \<in> set b" by (metis in_set_dropD list.set_intros(1))
      with assms(2) show False by simp
    qed
  qed
qed

lemma rspamd_message_search:
  assumes "list_all address_char host" and "host \<noteq> []"
  shows "search [Lit ''Rspamd UI: Invalid password by '', Group address_char]
      (''Rspamd UI: Invalid password by '' @ host) = Some host"
    and "search (hd f2bregex) (''Rspamd UI: Invalid password by '' @ host) = None"
proof -
  have all: "takeWhile address_char host = host" using assms(1) by (simp add: list_all_iff)
  obtain n where n: "length host = Suc n" using assms(2) by (cases host) auto
  have "down_to (length host) 1 = length host # down_to n 1"
    by (simp add: down_to_def n)
  then show "search [Lit ''Rspamd UI: Invalid password by '', Group address_char]
      (''Rspamd UI: Invalid password by '' @ host) = Some host"
    by (intro search_at_start) (simp add: starts_with_def span_def all)
  have m: "CHR ''m'' \<notin> set host"
    using assms(1) by (auto simp: list_all_iff address_char_def is_digit_def code_def)
  have "\<not> starts_with (CHR ''m'' # ''ail UI: Invalid password for '')
      (drop k (''Rspa'' @ CHR ''m'' # (''d UI: Invalid password by '' @ host)))" for k
    using m by (intro single_start) (simp_all add: starts_with_iff)
  then show "search (hd f2bregex) (''Rspamd UI: Invalid password by '' @ host) = None"
    unfolding f2bregex_def list.sel by (intro search_literal_absent) simp
qed

lemma handle_rspamd_message:
  fixes w :: "('s, 'n) f2b"
  assumes "list_all address_char host" and "host \<noteq> []"
    and "(get_ip host :: (('s, 'n) f2b, py_exn, ip_address option) sem) = ret (Some ip)"
  shows "handle_message nf now (''Rspamd UI: Invalid password by '' @ host) w = ban_address nf now host w"
proof -
  let ?m = "''Rspamd UI: Invalid password by '' @ host"
  obtain rs where rs: "f2bregex = hd f2bregex #
      [Lit ''Rspamd UI: Invalid password by '', Group address_char] # rs"
    by (simp add: f2bregex_def)
  have "handle_rules nf now ?m f2bregex w = ban_address nf now host w"
    by (subst rs, simp only: handle_rules.simps rspamd_message_search [OF assms(1,2)] option.case
        assms(3) bindM_ret) simp
  then show ?thesis by (simp add: handle_message_def)
qed

text \<open>
  C1. A wrong password at the user interface of rspamd counts against the client: the message that
  \<open>/rspamd/error\<close> publishes is one the ban service reads the address of the client from, so that the
  tenth such request of a public IPv4 address that is not whitelisted, each within the retry window of
  the one before, and every later one adds a rule that drops what comes from the address.
\<close>
theorem rspamd_errors_ban_the_client:
  assumes "ban_service api family rules kgood ops view sgood" and "serves api family ops nf"
    and "kgood (fb_kernel w)" and "sgood (fb_store w)"
    and "bannable (fb_whitelist w) (rq_client_host request) v"
    and "list_all address_char (rq_client_host request)"
    and "map_of (fb_bans w) (show_network (IPv4Network v 32)) = None"
    and "rules (fb_kernel w) ''filter'' (nt_name (nf_ipv4_tables nf)) = Some (h, rs)"
    and "close_times t ts"
  shows "\<exists>message w' qs.
    respond (get_rspamd_error request) q =
      (Failed 401 [] ''Invalid password'', q @ [(''F2B_CHANNEL'', message)]) \<and>
    forM (t # ts) (\<lambda>now. handle_message nf now message) w = (Inr (), w') \<and>
    length qs = length (t # ts) - 9 \<and>
    (\<forall>q \<in> set qs. drops (nf_ipv4_tables nf) (IPv4Network v 32) q) \<and>
    rules (fb_kernel w') = set_chain ''filter'' (nt_name (nf_ipv4_tables nf)) (Some (h, qs @ rs))
      (rules (fb_kernel w))"
proof -
  let ?m = "''Rspamd UI: Invalid password by '' @ rq_client_host request"
  have "ip_address_of [] = None" by code_simp
  then have "rq_client_host request \<noteq> []" using assms(5) by (auto simp: bannable_def)
  then have same: "handle_message nf now ?m = ban_address nf now (rq_client_host request)" for now
    using assms(6) get_ip_bannable [OF assms(5)] by (intro ext) (rule handle_rspamd_message)
  have "respond (get_rspamd_error request) q =
      (Failed 401 [] ''Invalid password'', q @ [(''F2B_CHANNEL'', ?m)])"
    by (simp add: respond_def get_rspamd_error_def)
  with attempts_from_none [OF assms(1), OF assms(2-5,7-9)] show ?thesis
    unfolding same [symmetric] by (elim exE conjE) (intro exI conjI; assumption)
qed

lemma show_ipv4_address_chars: "list_all address_char (show_ipv4 n)"
  using show_nat_digits by (auto simp: show_ipv4_def list_all_iff address_char_def)

definition attacker_request :: request where
  "attacker_request = \<lparr>rq_headers = Map.empty, rq_client_host = show_ipv4 attacker\<rparr>"

lemma rspamd_errors_ban_the_client_witness:
  "\<exists>message w q. respond (get_rspamd_error attacker_request) [] =
       (Failed 401 [] ''Invalid password'', [(''F2B_CHANNEL'', message)]) \<and>
     forM [1000, 1001, 1002, 1003, 1004, 1005, 1006, 1007, 1008, 1009]
       (\<lambda>now. handle_message ban_tables now message) ban_start = (Inr (), w) \<and>
     ruleset_rules ''ip'' (fb_kernel w) ''filter'' ''MAIL'' = Some (3, [q]) \<and>
     drops kernel_tables (IPv4Network attacker 32) q"
proof -
  let ?ts = "[1001, 1002, 1003, 1004, 1005, 1006, 1007, 1008, 1009]"
  have m: "map_of (fb_bans ban_start) (show_network (IPv4Network attacker 32)) = None"
    by (simp add: ban_start_def)
  have c: "close_times 1000 ?ts" by (simp add: f2b_options)
  have b: "bannable (fb_whitelist ban_start) (rq_client_host attacker_request) attacker"
    "list_all address_char (rq_client_host attacker_request)"
    using attacker_bannable show_ipv4_address_chars [of attacker]
    by (simp_all add: attacker_request_def del: list_all_iff)
  obtain message w qs where w: "respond (get_rspamd_error attacker_request) [] =
      (Failed 401 [] ''Invalid password'', [(''F2B_CHANNEL'', message)])"
    "forM (1000 # ?ts) (\<lambda>now. handle_message ban_tables now message) ban_start = (Inr (), w)"
    "length qs = 1" "\<forall>q \<in> set qs. drops (nf_ipv4_tables ban_tables) (IPv4Network attacker 32) q"
    "ruleset_rules ''ip'' (fb_kernel w) = set_chain ''filter'' (nt_name (nf_ipv4_tables ban_tables))
      (Some (3, qs @ [])) (ruleset_rules ''ip'' (fb_kernel ban_start))"
    using rspamd_errors_ban_the_client [OF memory_bans.ban_service_axioms, OF ban_tables_serves
        ban_start_good b m ban_start_chain c, of "[]"]
    by (auto simp del: set_chain_apply show_network.simps forM.simps)
  then obtain q where "qs = [q]" by (cases qs) auto
  with w show ?thesis
    by (intro exI [of _ message] exI [of _ w] exI [of _ q])
      (simp add: ban_tables_def kernel_tables_def del: show_network.simps forM.simps)
qed

end
