(* ===== verification/Json.thy ===== *)
theory Json
  imports Ipaddress
begin

text \<open>
  Python's \<open>json.loads\<close> and \<open>json.dumps\<close>, as src/backend/taramail/store.py uses them to keep a hash
  in one value of memcached. A string is a list of characters below 256, and an escape of another
  character is outside the model. A number is kept as its literal; what Python prints for it is the
  parameter \<open>renumber\<close>. \<open>loads\<close> returns \<open>None\<close> for a \<open>ValueError\<close>.
\<close>

datatype json =
    JNull
  | JBool bool
  | JNumber string
  | JString string
  | JArray "json list"
  | JObject "(string \<times> json) list"

section \<open>Printing\<close>

definition escape_char :: "char \<Rightarrow> string" where
  "escape_char c =
     (if c = CHR 0x22 \<or> c = CHR 0x5C then [CHR 0x5C, c]
      else if c = CHR 10 then [CHR 0x5C, CHR ''n'']
      else if c = CHR 13 then [CHR 0x5C, CHR ''r'']
      else if c = CHR 9 then [CHR 0x5C, CHR ''t'']
      else if c = CHR 12 then [CHR 0x5C, CHR ''f'']
      else if c = CHR 8 then [CHR 0x5C, CHR ''b'']
      else if 32 \<le> code c \<and> code c \<le> 126 then [c]
      else [CHR 0x5C, CHR ''u'', CHR ''0'', CHR ''0'', hex_digit (code c div 16), hex_digit (code c mod 16)])"

definition dump_string :: "string \<Rightarrow> string" where
  "dump_string s = [CHR 0x22] @ concat (map escape_char s) @ [CHR 0x22]"

fun dumps :: "(string \<Rightarrow> string) \<Rightarrow> json \<Rightarrow> string" where
  "dumps renumber JNull = ''null''"
| "dumps renumber (JBool b) = (if b then ''true'' else ''false'')"
| "dumps renumber (JNumber n) = renumber n"
| "dumps renumber (JString s) = dump_string s"
| "dumps renumber (JArray vs) = ''['' @ join '', '' (map (dumps renumber) vs) @ '']''"
| "dumps renumber (JObject d) =
     ''{'' @ join '', '' (map (\<lambda>(k, v). dump_string k @ '': '' @ dumps renumber v) d) @ ''}''"

section \<open>Reading\<close>

definition skip_ws :: "string \<Rightarrow> string" where
  "skip_ws s = dropWhile (\<lambda>c. code c \<in> {32, 9, 10, 13}) s"

definition simple_escape :: "char \<Rightarrow> char option" where
  "simple_escape c =
     map_of [(CHR 0x22, CHR 0x22), (CHR 0x5C, CHR 0x5C), (CHR ''/'', CHR ''/''), (CHR ''b'', CHR 8),
       (CHR ''f'', CHR 12), (CHR ''n'', CHR 10), (CHR ''r'', CHR 13), (CHR ''t'', CHR 9)] c"

text \<open>The character of four hexadecimal digits.\<close>

definition hex4 :: "char \<Rightarrow> char \<Rightarrow> char \<Rightarrow> char \<Rightarrow> char option" where
  "hex4 a b c d =
     (case (hex_val a, hex_val b, hex_val c, hex_val d) of
        (Some i, Some j, Some k, Some l) \<Rightarrow>
          if i = 0 \<and> j = 0 then Some (char_of (16 * k + l)) else None
      | _ \<Rightarrow> None)"

text \<open>The character of an escape, after the backslash.\<close>

definition parse_escape :: "string \<Rightarrow> (char \<times> string) option" where
  "parse_escape s =
     (case s of
        [] \<Rightarrow> None
      | e # t \<Rightarrow>
          if e = CHR ''u''
          then (case t of
                  h # i # j # k # r \<Rightarrow> (case hex4 h i j k of None \<Rightarrow> None | Some x \<Rightarrow> Some (x, r))
                | _ \<Rightarrow> None)
          else (case simple_escape e of None \<Rightarrow> None | Some x \<Rightarrow> Some (x, t)))"

lemma parse_escape_length: "parse_escape s = Some (x, r) \<Longrightarrow> length r < length s"
  by (auto simp: parse_escape_def split: list.splits option.splits if_splits)

text \<open>The rest of a string after its opening quote; \<open>acc\<close> is what was read, reversed.\<close>

function parse_string :: "string \<Rightarrow> string \<Rightarrow> (string \<times> string) option" where
  "parse_string acc [] = None"
| "parse_string acc (c # s) =
     (if c = CHR 0x22 then Some (rev acc, s)
      else if c = CHR 0x5C
      then (case parse_escape s of None \<Rightarrow> None | Some (x, r) \<Rightarrow> parse_string (x # acc) r)
      else if code c < 32 then None
      else parse_string (c # acc) s)"
  by pat_completeness auto
termination
  by (relation "measure (\<lambda>(_, s). length s)") (auto intro: less_SucI parse_escape_length)

text \<open>A number: \<open>-?(0|[1-9][0-9]*)(\.[0-9]+)?([eE][-+]?[0-9]+)?\<close>; \<open>int()\<close> takes 4300 digits.\<close>

definition scan_fraction :: "string \<Rightarrow> string \<times> string" where
  "scan_fraction s =
     (case s of
        c # d # u \<Rightarrow>
          if c = CHR ''.'' \<and> is_digit d then (c # takeWhile is_digit (d # u), dropWhile is_digit (d # u))
          else ([], s)
      | _ \<Rightarrow> ([], s))"

definition scan_exponent :: "string \<Rightarrow> string \<times> string" where
  "scan_exponent s =
     (case s of
        c # t \<Rightarrow>
          if c = CHR ''e'' \<or> c = CHR ''E''
          then (let (sign, u) =
                  (case t of d # u \<Rightarrow> if d = CHR ''+'' \<or> d = CHR ''-'' then ([d], u) else ([], t) | [] \<Rightarrow> ([], t))
                in case u of
                     d # _ \<Rightarrow>
                       if is_digit d then (c # sign @ takeWhile is_digit u, dropWhile is_digit u) else ([], s)
                   | [] \<Rightarrow> ([], s))
          else ([], s)
      | [] \<Rightarrow> ([], s))"

definition parse_number :: "string \<Rightarrow> (string \<times> string) option" where
  "parse_number s =
     (let (sign, t) = (case s of c # u \<Rightarrow> if c = CHR ''-'' then ([c], u) else ([], s) | [] \<Rightarrow> ([], s)) in
      case t of
        [] \<Rightarrow> None
      | c # u \<Rightarrow>
          if \<not> is_digit c then None
          else (let (whole, r) =
                  (if c = CHR ''0'' then ([c], u) else (takeWhile is_digit t, dropWhile is_digit t));
                    (fraction, r2) = scan_fraction r;
                    (exponent, r3) = scan_exponent r2
                in if fraction = [] \<and> exponent = [] \<and> 4300 < length whole then None
                   else Some (sign @ whole @ fraction @ exponent, r3)))"

definition parse_literal :: "string \<Rightarrow> (json \<times> string) option" where
  "parse_literal s =
     (if starts_with ''null'' s then Some (JNull, drop 4 s)
      else if starts_with ''true'' s then Some (JBool True, drop 4 s)
      else if starts_with ''false'' s then Some (JBool False, drop 5 s)
      else (case parse_number s of
              Some (n, r) \<Rightarrow> Some (JNumber n, r)
            | None \<Rightarrow>
                if starts_with ''NaN'' s then Some (JNumber ''NaN'', drop 3 s)
                else if starts_with ''Infinity'' s then Some (JNumber ''Infinity'', drop 8 s)
                else if starts_with ''-Infinity'' s then Some (JNumber ''-Infinity'', drop 9 s)
                else None))"

text \<open>
  Values, the members of an object from a key on, and the elements of an array from a value on. At
  most two calls are made for a character, so a bound on the nesting of calls of twice the length of
  the text is never met (\<open>parse_bound\<close> below).
\<close>

fun parse_value :: "nat \<Rightarrow> string \<Rightarrow> (json \<times> string) option"
  and parse_members :: "nat \<Rightarrow> (string, json) dict \<Rightarrow> string \<Rightarrow> (json \<times> string) option"
  and parse_elements :: "nat \<Rightarrow> json list \<Rightarrow> string \<Rightarrow> (json \<times> string) option" where
  "parse_value 0 s = None"
| "parse_value (Suc n) s =
     (case s of
        [] \<Rightarrow> None
      | c # t \<Rightarrow>
          if c = CHR 0x22
          then (case parse_string [] t of None \<Rightarrow> None | Some (x, r) \<Rightarrow> Some (JString x, r))
          else if c = CHR ''{''
          then (if starts_with ''}'' (skip_ws t) then Some (JObject [], drop 1 (skip_ws t))
                else parse_members n [] (skip_ws t))
          else if c = CHR ''[''
          then (if starts_with '']'' (skip_ws t) then Some (JArray [], drop 1 (skip_ws t))
                else parse_elements n [] (skip_ws t))
          else parse_literal s)"
| "parse_members 0 d s = None"
| "parse_members (Suc n) d s =
     (if \<not> starts_with [CHR 0x22] s then None
      else (case parse_string [] (drop 1 s) of
              None \<Rightarrow> None
            | Some (k, r) \<Rightarrow>
                if \<not> starts_with '':'' (skip_ws r) then None
                else (case parse_value n (skip_ws (drop 1 (skip_ws r))) of
                        None \<Rightarrow> None
                      | Some (v, r2) \<Rightarrow>
                          if starts_with ''}'' (skip_ws r2)
                          then Some (JObject (dict_set k v d), drop 1 (skip_ws r2))
                          else if starts_with '','' (skip_ws r2)
                          then parse_members n (dict_set k v d) (skip_ws (drop 1 (skip_ws r2)))
                          else None)))"
| "parse_elements 0 vs s = None"
| "parse_elements (Suc n) vs s =
     (case parse_value n s of
        None \<Rightarrow> None
      | Some (v, r) \<Rightarrow>
          if starts_with '']'' (skip_ws r) then Some (JArray (vs @ [v]), drop 1 (skip_ws r))
          else if starts_with '','' (skip_ws r)
          then parse_elements n (vs @ [v]) (skip_ws (drop 1 (skip_ws r)))
          else None)"

definition loads :: "string \<Rightarrow> json option" where
  "loads s =
     (case parse_value (Suc (2 * length s)) (skip_ws s) of
        None \<Rightarrow> None
      | Some (v, r) \<Rightarrow> if skip_ws r = [] then Some v else None)"

section \<open>The bound is never met\<close>

lemma skip_ws_length: "length (skip_ws s) \<le> length s"
  by (simp add: skip_ws_def length_dropWhile_le)

lemma parse_string_length: "parse_string acc s = Some (x, r) \<Longrightarrow> length r < length s"
proof (induction acc s rule: parse_string.induct)
  case (2 acc c s)
  show ?case
  proof (cases "parse_escape s")
    case None
    with 2 show ?thesis by (auto split: if_splits)
  next
    case (Some p)
    obtain y t where p: "p = (y, t)" by (cases p)
    have "length t < length s" using Some p by (auto intro: parse_escape_length)
    with 2 Some p show ?thesis by (fastforce split: if_splits)
  qed
qed simp

lemma scan_lengths:
  "scan_fraction s = (x, r) \<Longrightarrow> length r \<le> length s"
  "scan_exponent s = (x, r) \<Longrightarrow> length r \<le> length s"
  by (auto simp: scan_fraction_def scan_exponent_def Let_def split: list.splits if_splits prod.splits
      intro: le_trans [OF length_dropWhile_le])

lemma dropWhile_lengths:
  "length r \<le> length x2 \<Longrightarrow> length x2 \<le> length (dropWhile P x) \<Longrightarrow> length r \<le> Suc (length x)"
  "length r \<le> length x2 \<Longrightarrow> length x2 \<le> length (dropWhile P x) \<Longrightarrow> length r \<le> length x"
  using length_dropWhile_le [of P x] by linarith+

lemma parse_number_length: "parse_number s = Some (x, r) \<Longrightarrow> length r < length s"
  by (auto simp: parse_number_def Let_def less_Suc_eq_le split: list.splits if_splits prod.splits
      dest!: scan_lengths intro: dropWhile_lengths)

lemma parse_literal_length: "parse_literal s = Some (v, r) \<Longrightarrow> length r < length s"
  by (auto simp: parse_literal_def starts_with_iff dest: parse_number_length
      split: if_splits option.splits)

lemma drop_skip_ws: "length (skip_ws (drop 1 (skip_ws s))) \<le> length s" "length (drop 1 (skip_ws s)) \<le> length s"
  using skip_ws_length [of s] skip_ws_length [of "drop 1 (skip_ws s)"] by simp_all

lemma parse_members_length:
  "parse_members n d s = Some (v, r) \<Longrightarrow>
   \<forall>m < n'. \<forall>s v r. parse_value m s = Some (v, r) \<longrightarrow> length r < length s \<Longrightarrow> n \<le> n' \<Longrightarrow>
   length r < length s"
proof (induction n arbitrary: d s)
  case (Suc n)
  obtain k a w b where k: "parse_string [] (drop 1 s) = Some (k, a)"
    and w: "parse_value n (skip_ws (drop 1 (skip_ws a))) = Some (w, b)"
    and rest: "(if starts_with ''}'' (skip_ws b) then Some (JObject (dict_set k w d), drop 1 (skip_ws b))
      else if starts_with '','' (skip_ws b)
      then parse_members n (dict_set k w d) (skip_ws (drop 1 (skip_ws b))) else None) = Some (v, r)"
    using Suc.prems(1) by (auto split: if_splits option.splits)
  have ab: "length a < length (drop 1 s)" "length b < length (skip_ws (drop 1 (skip_ws a)))"
    using parse_string_length [OF k] Suc.prems(2,3) w Suc_le_lessD by blast+
  then have b: "length b < length s" using drop_skip_ws [of a] by simp
  show ?case
  proof (cases "starts_with ''}'' (skip_ws b)")
    case True
    with rest have "r = drop 1 (skip_ws b)" by simp
    with b drop_skip_ws(2) [of b] show ?thesis by simp
  next
    case False
    with rest have "parse_members n (dict_set k w d) (skip_ws (drop 1 (skip_ws b))) = Some (v, r)"
      by (simp split: if_splits)
    then have "length r < length (skip_ws (drop 1 (skip_ws b)))" using Suc.IH [OF _ Suc.prems(2)] Suc.prems(3) by simp
    with b drop_skip_ws(1) [of b] show ?thesis by simp
  qed
qed simp

lemma parse_elements_length:
  "parse_elements n vs s = Some (v, r) \<Longrightarrow>
   \<forall>m < n'. \<forall>s v r. parse_value m s = Some (v, r) \<longrightarrow> length r < length s \<Longrightarrow> n \<le> n' \<Longrightarrow>
   length r < length s"
proof (induction n arbitrary: vs s)
  case (Suc n)
  obtain w b where w: "parse_value n s = Some (w, b)"
    and rest: "(if starts_with '']'' (skip_ws b) then Some (JArray (vs @ [w]), drop 1 (skip_ws b))
      else if starts_with '','' (skip_ws b)
      then parse_elements n (vs @ [w]) (skip_ws (drop 1 (skip_ws b))) else None) = Some (v, r)"
    using Suc.prems(1) by (auto split: if_splits option.splits)
  have b: "length b < length s" using Suc.prems(2,3) w Suc_le_lessD by blast
  show ?case
  proof (cases "starts_with '']'' (skip_ws b)")
    case True
    with rest have "r = drop 1 (skip_ws b)" by simp
    with b drop_skip_ws(2) [of b] show ?thesis by simp
  next
    case False
    with rest have "parse_elements n (vs @ [w]) (skip_ws (drop 1 (skip_ws b))) = Some (v, r)"
      by (simp split: if_splits)
    then have "length r < length (skip_ws (drop 1 (skip_ws b)))" using Suc.IH [OF _ Suc.prems(2)] Suc.prems(3) by simp
    with b drop_skip_ws(1) [of b] show ?thesis by simp
  qed
qed simp

lemma parse_value_length: "parse_value n s = Some (v, r) \<Longrightarrow> length r < length s"
proof (induction n arbitrary: s v r rule: less_induct)
  case (less n)
  then obtain m where n: "n = Suc m" by (cases n) auto
  from less.prems n obtain c t where s: "s = c # t" by (cases s) auto
  have sub: "length (skip_ws t) \<le> length t" "length (drop 1 (skip_ws t)) \<le> length t"
    using skip_ws_length [of t] by simp_all
  have IH: "\<forall>k < m. \<forall>s v r. parse_value k s = Some (v, r) \<longrightarrow> length r < length s"
    using less.IH n less_SucI by blast
  have members: "length r < length (skip_ws t)" if "parse_members m [] (skip_ws t) = Some (v, r)"
    using parse_members_length [OF that IH order_refl] .
  have elements: "length r < length (skip_ws t)" if "parse_elements m [] (skip_ws t) = Some (v, r)"
    using parse_elements_length [OF that IH order_refl] .
  have string: "length r < length t" if "parse_string [] t = Some (k, r)" for k
    using parse_string_length [OF that] .
  have literal: "length r < length s" if "parse_literal s = Some (v, r)"
    using parse_literal_length [OF that] .
  show ?case
    using less.prems sub unfolding n s
    by (auto split: if_splits option.splits dest!: members elements string literal [unfolded s])
qed

lemma parse_bound:
  "2 * length s < n \<Longrightarrow> 2 * length s < m \<Longrightarrow> parse_value n s = parse_value m s"
  "2 * length s < n \<Longrightarrow> 2 * length s < m \<Longrightarrow> parse_members n d s = parse_members m d s"
  "Suc (2 * length s) < n \<Longrightarrow> Suc (2 * length s) < m \<Longrightarrow>
   parse_elements n vs s = parse_elements m vs s"
proof (induction n arbitrary: m s d vs)
  case (Suc n)
  {
    case 1
    obtain l where m: "m = Suc l" using 1 by (cases m) auto
    show ?case
    proof (cases s)
      case (Cons c t)
      have "2 * length (skip_ws t) < n" "2 * length (skip_ws t) < l"
        "Suc (2 * length (skip_ws t)) < n" "Suc (2 * length (skip_ws t)) < l"
        using 1 skip_ws_length [of t] unfolding m Cons by simp_all
      then have "parse_members n [] (skip_ws t) = parse_members l [] (skip_ws t)"
        "parse_elements n [] (skip_ws t) = parse_elements l [] (skip_ws t)"
        using Suc.IH by blast+
      then show ?thesis by (simp add: m Cons)
    qed (simp add: m)
  next
    case 2
    obtain l where m: "m = Suc l" using 2 by (cases m) auto
    show ?case
    proof (cases "parse_string [] (drop 1 s)")
      case (Some p)
      obtain k a where p: "p = (k, a)" by (cases p)
      let ?a = "skip_ws (drop 1 (skip_ws a))"
      have a: "length ?a < length s"
        using parse_string_length [of "[]" "drop 1 s" k a] drop_skip_ws [of a] Some p by simp
      then have step: "parse_value n ?a = parse_value l ?a"
        using Suc.IH(1) [of ?a l] 2 m by simp
      show ?thesis
      proof (cases "parse_value l ?a")
        case None
        with step Some p m show ?thesis by simp
      next
        case (Some q)
        obtain w b where q: "q = (w, b)" by (cases q)
        let ?b = "skip_ws (drop 1 (skip_ws b))"
        have "length ?b < length s"
          using parse_value_length [of l ?a w b] drop_skip_ws [of b] a Some q by simp
        then have "parse_members n (dict_set k w d) ?b = parse_members l (dict_set k w d) ?b"
          using Suc.IH(2) [of ?b l] 2 m by simp
        with step Some q \<open>parse_string [] (drop 1 s) = Some p\<close> p m show ?thesis by simp
      qed
    qed (simp add: m)
  next
    case 3
    obtain l where m: "m = Suc l" using 3 by (cases m) auto
    have step: "parse_value n s = parse_value l s"
      using Suc.IH(1) [of s l] 3 m by simp
    show ?case
    proof (cases "parse_value l s")
      case None
      with step m show ?thesis by simp
    next
      case (Some q)
      obtain w b where q: "q = (w, b)" by (cases q)
      let ?b = "skip_ws (drop 1 (skip_ws b))"
      have "length ?b < length s"
        using parse_value_length [of l s w b] drop_skip_ws [of b] Some q by simp
      then have "parse_elements n (vs @ [w]) ?b = parse_elements l (vs @ [w]) ?b"
        using Suc.IH(3) [of ?b l] 3 m by simp
      with step Some q m show ?thesis by simp
    qed
  }
qed simp_all

section \<open>What is printed is read back\<close>

text \<open>An integer as Python prints it.\<close>

definition int_literal :: "string \<Rightarrow> bool" where
  "int_literal n \<longleftrightarrow>
     n = ''0'' \<or>
     (let m = (if take 1 n = ''-'' then drop 1 n else n)
      in list_all is_digit m \<and> m \<noteq> [] \<and> hd m \<noteq> CHR ''0'' \<and> length m \<le> 4300)"

fun printable_json :: "json \<Rightarrow> bool" where
  "printable_json (JNumber n) = int_literal n"
| "printable_json (JArray vs) = list_all printable_json vs"
| "printable_json (JObject d) = (distinct (map fst d) \<and> list_all (\<lambda>(k, v). printable_json v) d)"
| "printable_json _ = True"

text \<open>What may follow a value.\<close>

definition delimited :: "string \<Rightarrow> bool" where
  "delimited s \<longleftrightarrow> (case s of [] \<Rightarrow> True | c # _ \<Rightarrow> c = CHR '','' \<or> c = CHR '']'' \<or> c = CHR ''}'')"

lemma hex_val_hex_digit: "d < 16 \<Longrightarrow> hex_val (hex_digit d) = Some d"
  by (auto simp: hex_val_def hex_digit_def digit_def is_digit_def code_def)

lemma hex_digit_not: "d < 16 \<Longrightarrow> code (hex_digit d) \<noteq> 34"
  by (auto simp: hex_digit_def digit_def code_def)

lemma parse_string_escape_char: "parse_string acc (escape_char c @ s) = parse_string (c # acc) s"
proof -
  have c: "code c < 256" by (simp add: code_def)
  then have "hex4 (CHR ''0'') (CHR ''0'') (hex_digit (code c div 16)) (hex_digit (code c mod 16)) = Some c"
    by (simp add: hex4_def hex_val_hex_digit [of "code c div 16"] hex_val_hex_digit [of "code c mod 16"])
      (simp add: code_def hex_val_def is_digit_def)
  moreover have "\<not> code c < 32" if "32 \<le> code c \<and> code c \<le> 126" using that by simp
  ultimately show ?thesis
    by (auto simp: escape_char_def parse_escape_def simple_escape_def)
qed

lemma parse_dumped_string:
  "parse_string acc (concat (map escape_char x) @ CHR 0x22 # rest) = Some (rev acc @ x, rest)"
  by (induction x arbitrary: acc) (simp_all add: parse_string_escape_char)

lemma delimited_facts:
  assumes "delimited s"
  shows "takeWhile is_digit s = []" "dropWhile is_digit s = s" "scan_fraction s = ([], s)"
    "scan_exponent s = ([], s)"
  using assms
  by (auto simp: delimited_def scan_fraction_def scan_exponent_def is_digit_def code_def Let_def
      split: list.splits)

lemma parse_int_literal:
  assumes "int_literal n" and "delimited s"
  shows "parse_number (n @ s) = Some (n, s)"
proof (cases "n = ''0''")
  case True
  with delimited_facts [OF assms(2)] show ?thesis
    by (simp add: parse_number_def is_digit_def code_def)
next
  case False
  obtain sign m where n: "n = sign @ m" "sign = [] \<or> sign = ''-''" and m: "list_all is_digit m"
    "m \<noteq> []" "hd m \<noteq> CHR ''0''" "length m \<le> 4300"
  proof (cases "take 1 n = ''-''")
    case True
    then show ?thesis
      using that [of "''-''" "drop 1 n"] assms(1) False append_take_drop_id [of 1 n]
      by (auto simp: int_literal_def Let_def)
  next
    case 2: False
    then show ?thesis using that [of "[]" n] assms(1) False by (auto simp: int_literal_def Let_def)
  qed
  obtain d e where de: "m = d # e" using m(2) by (cases m) auto
  have "d \<noteq> CHR ''-''" using m(1) by (auto simp: de is_digit_def code_def)
  moreover have "takeWhile is_digit (m @ s) = m" "dropWhile is_digit (m @ s) = s"
    using m(1) delimited_facts [OF assms(2)] by (simp_all add: takeWhile_append2 dropWhile_append2 list_all_iff)
  ultimately show ?thesis
    using n m delimited_facts [OF assms(2)] by (auto simp: parse_number_def de)
qed

lemma parse_int_value:
  assumes "int_literal n" and "delimited s"
  shows "parse_value (Suc k) (n @ s) = Some (JNumber n, s)"
proof -
  obtain c t where n: "n = c # t" using assms(1) by (cases n) (auto simp: int_literal_def)
  have "c = CHR ''-'' \<or> is_digit c"
    using assms(1) by (auto simp: n int_literal_def Let_def is_digit_def code_def split: if_splits)
  then have "c \<notin> {CHR 0x22, CHR ''{'', CHR ''['', CHR ''n'', CHR ''t'', CHR ''f''}"
    by (auto simp: is_digit_def code_def)
  with parse_int_literal [OF assms] show ?thesis
    by (simp add: n parse_literal_def starts_with_def)
qed

lemma dumps_head:
  assumes "printable_json v" and "\<forall>n. int_literal n \<longrightarrow> renumber n = n"
  shows "\<exists>c t. dumps renumber v = c # t \<and> code c \<notin> {32, 9, 10, 13} \<and> c \<noteq> CHR '']'' \<and> c \<noteq> CHR ''}''"
proof (cases v)
  case (JNumber n)
  have "\<exists>c t. n = c # t \<and> (c = CHR ''-'' \<or> is_digit c)"
    using assms(1) JNumber
    by (cases n) (auto simp: int_literal_def Let_def is_digit_def code_def split: if_splits)
  then obtain c t where n: "n = c # t" "c = CHR ''-'' \<or> is_digit c" by blast
  have "renumber n = n" using assms JNumber by simp
  then have "dumps renumber v = c # t" using JNumber n(1) by simp
  moreover have "code c \<notin> {32, 9, 10, 13} \<and> c \<noteq> CHR '']'' \<and> c \<noteq> CHR ''}''"
    using n(2) by (auto simp: is_digit_def code_def)
  ultimately show ?thesis by blast
qed (auto simp: dump_string_def code_def)

lemma skip_ws_dumps:
  assumes "printable_json v" and "\<forall>n. int_literal n \<longrightarrow> renumber n = n"
  shows "skip_ws (dumps renumber v @ s) = dumps renumber v @ s"
    "\<not> starts_with '']'' (dumps renumber v @ s)"
  using dumps_head [OF assms] by (auto simp: skip_ws_def starts_with_def)

lemma skip_ws_simps [simp]:
  "skip_ws (CHR 0x22 # s) = CHR 0x22 # s" "skip_ws (CHR '':'' # s) = CHR '':'' # s"
  "skip_ws (CHR '','' # s) = CHR '','' # s" "skip_ws (CHR '' '' # s) = skip_ws s"
  "skip_ws (CHR ''}'' # s) = CHR ''}'' # s" "skip_ws (CHR '']'' # s) = CHR '']'' # s"
  by (simp_all add: skip_ws_def code_def)

definition dump_member :: "(string \<Rightarrow> string) \<Rightarrow> string \<times> json \<Rightarrow> string" where
  "dump_member renumber e = dump_string (fst e) @ '': '' @ dumps renumber (snd e)"

lemma dumps_object: "dumps renumber (JObject d) = ''{'' @ join '', '' (map (dump_member renumber) d) @ ''}''"
  by (auto simp: dump_member_def case_prod_unfold intro!: arg_cong [where f = "join '', ''"])

lemma dict_set_new: "k \<notin> set (map fst d) \<Longrightarrow> dict_set k v d = d @ [(k, v)]"
  by (induction d) auto

lemma delimited_simps [simp]:
  "delimited (CHR '','' # s)" "delimited (CHR '']'' # s)" "delimited (CHR ''}'' # s)" "delimited []"
  by (simp_all add: delimited_def)

lemma parse_dump_string: "parse_string [] (drop 1 (dump_string k @ s)) = Some (k, s)"
  using parse_dumped_string [of "[]" k s] by (simp add: dump_string_def)

lemma starts_with_dump_string: "starts_with [CHR 0x22] (dump_string k @ s)"
  by (simp add: dump_string_def starts_with_def)

text \<open>One member of an object: its key, the separator and its value are read.\<close>

lemma parse_members_step:
  assumes "parse_value n (dumps renumber v @ s) = Some (v, s)" and "printable_json v"
    and "k \<notin> set (map fst d)" and "\<forall>n. int_literal n \<longrightarrow> renumber n = n"
  shows "parse_members (Suc n) d (dump_member renumber (k, v) @ s) =
    (if starts_with ''}'' (skip_ws s) then Some (JObject (d @ [(k, v)]), drop 1 (skip_ws s))
     else if starts_with '','' (skip_ws s)
     then parse_members n (d @ [(k, v)]) (skip_ws (drop 1 (skip_ws s))) else None)"
  using assms(1,3) parse_dump_string [of k "'': '' @ dumps renumber v @ s"]
    starts_with_dump_string [of k "'': '' @ dumps renumber v @ s"]
    skip_ws_dumps(1) [OF assms(2,4), of s]
  by (simp add: dump_member_def dict_set_new) (simp add: starts_with_def)

lemma members_head:
  "es \<noteq> [] \<Longrightarrow> \<exists>t. join '', '' (map (dump_member renumber) es) @ s = CHR 0x22 # t"
  by (cases es; cases "tl es") (simp_all add: dump_member_def dump_string_def)

lemma skip_ws_members:
  assumes "es \<noteq> []"
  shows "skip_ws (join '', '' (map (dump_member renumber) es) @ s) =
      join '', '' (map (dump_member renumber) es) @ s"
    "\<not> starts_with ''}'' (join '', '' (map (dump_member renumber) es) @ s)"
proof -
  obtain t where "join '', '' (map (dump_member renumber) es) @ s = CHR 0x22 # t"
    using members_head [OF assms] by blast
  then show "skip_ws (join '', '' (map (dump_member renumber) es) @ s) =
      join '', '' (map (dump_member renumber) es) @ s"
    "\<not> starts_with ''}'' (join '', '' (map (dump_member renumber) es) @ s)"
    by (simp_all only: skip_ws_simps) (simp add: starts_with_def)
qed

lemma skip_ws_elements:
  assumes "vs \<noteq> []" and "list_all printable_json vs" and "\<forall>n. int_literal n \<longrightarrow> renumber n = n"
  shows "skip_ws (join '', '' (map (dumps renumber) vs) @ s) = join '', '' (map (dumps renumber) vs) @ s"
    "\<not> starts_with '']'' (join '', '' (map (dumps renumber) vs) @ s)"
proof -
  obtain w ws where vs: "vs = w # ws" using assms(1) by (cases vs) auto
  obtain u where u: "join '', '' (map (dumps renumber) vs) @ s = dumps renumber w @ u"
    by (cases ws) (simp_all add: vs)
  have "printable_json w" using assms(2) by (simp add: vs)
  from skip_ws_dumps [OF this assms(3), of u] show
    "skip_ws (join '', '' (map (dumps renumber) vs) @ s) = join '', '' (map (dumps renumber) vs) @ s"
    "\<not> starts_with '']'' (join '', '' (map (dumps renumber) vs) @ s)"
    unfolding u by simp_all
qed

lemma parse_dumps_members:
  assumes renumber: "\<forall>n. int_literal n \<longrightarrow> renumber n = n"
    and reads: "\<And>k v s. k < n' \<Longrightarrow> 2 * length (dumps renumber v @ s) < k \<Longrightarrow> printable_json v \<Longrightarrow>
      delimited s \<Longrightarrow> parse_value k (dumps renumber v @ s) = Some (v, s)"
  shows "2 * length (join '', '' (map (dump_member renumber) es) @ CHR ''}'' # s) < n \<Longrightarrow> n \<le> n' \<Longrightarrow>
   es \<noteq> [] \<Longrightarrow> distinct (map fst (d @ es)) \<Longrightarrow> list_all (\<lambda>e. printable_json (snd e)) es \<Longrightarrow>
   parse_members n d (join '', '' (map (dump_member renumber) es) @ CHR ''}'' # s) =
     Some (JObject (d @ es), s)"
proof (induction es arbitrary: n d)
  case (Cons e es)
  obtain k v where e: "e = (k, v)" by (cases e)
  obtain m where n: "n = Suc m" using Cons.prems(1) by (cases n) auto
  have kv: "printable_json v" "k \<notin> set (map fst d)" using Cons.prems(4,5) by (auto simp: e)
  let ?tail = "(if es = [] then [] else '', '' @ join '', '' (map (dump_member renumber) es)) @ CHR ''}'' # s"
  have body: "join '', '' (map (dump_member renumber) (e # es)) @ CHR ''}'' # s =
      dump_member renumber (k, v) @ ?tail"
    by (simp add: e join_Cons)
  have len: "2 * length (dumps renumber v @ ?tail) < m"
    using Cons.prems(1) unfolding body n by (simp add: dump_member_def)
  have "m < n'" "delimited ?tail" using Cons.prems(2) n by simp_all
  note step = parse_members_step [OF reads [OF this(1) len kv(1) this(2)] kv renumber]
  show ?case
  proof (cases "es = []")
    case True
    then show ?thesis unfolding body n step by (simp add: e starts_with_def)
  next
    case False
    have "parse_members m (d @ [(k, v)])
        (join '', '' (map (dump_member renumber) es) @ CHR ''}'' # s) = Some (JObject (d @ e # es), s)"
      using Cons.IH [of m "d @ [(k, v)]"] len False Cons.prems n by (simp add: e)
    with skip_ws_members [OF False] show ?thesis
      unfolding body n step using False by (simp add: starts_with_def)
  qed
qed simp

lemma parse_dumps_elements:
  assumes renumber: "\<forall>n. int_literal n \<longrightarrow> renumber n = n"
    and reads: "\<And>k v s. k < n' \<Longrightarrow> 2 * length (dumps renumber v @ s) < k \<Longrightarrow> printable_json v \<Longrightarrow>
      delimited s \<Longrightarrow> parse_value k (dumps renumber v @ s) = Some (v, s)"
  shows "Suc (2 * length (join '', '' (map (dumps renumber) vs) @ CHR '']'' # s)) < n \<Longrightarrow> n \<le> n' \<Longrightarrow>
   vs \<noteq> [] \<Longrightarrow> list_all printable_json vs \<Longrightarrow>
   parse_elements n ws (join '', '' (map (dumps renumber) vs) @ CHR '']'' # s) =
     Some (JArray (ws @ vs), s)"
proof (induction vs arbitrary: n ws)
  case (Cons v vs)
  obtain m where n: "n = Suc m" using Cons.prems(1) by (cases n) auto
  have v: "printable_json v" using Cons.prems(4) by simp
  let ?tail = "(if vs = [] then [] else '', '' @ join '', '' (map (dumps renumber) vs)) @ CHR '']'' # s"
  have body: "join '', '' (map (dumps renumber) (v # vs)) @ CHR '']'' # s = dumps renumber v @ ?tail"
    by (simp add: join_Cons)
  have len: "2 * length (dumps renumber v @ ?tail) < m"
    using Cons.prems(1) unfolding body n by simp
  have "m < n'" "delimited ?tail" using Cons.prems(2) n by simp_all
  note step = reads [OF this(1) len v this(2)]
  show ?case
  proof (cases "vs = []")
    case True
    with step show ?thesis unfolding body n by (simp add: starts_with_def)
  next
    case False
    have "parse_elements m (ws @ [v]) (join '', '' (map (dumps renumber) vs) @ CHR '']'' # s) =
        Some (JArray (ws @ v # vs), s)"
      using Cons.IH [of m "ws @ [v]"] len False Cons.prems n by simp
    with skip_ws_elements(1) [OF False _ renumber] Cons.prems(4) show ?thesis
      unfolding body n using False step by (simp add: starts_with_def)
  qed
qed simp

lemma parse_dumps:
  assumes renumber: "\<forall>n. int_literal n \<longrightarrow> renumber n = n"
  shows "2 * length (dumps renumber v @ s) < n \<Longrightarrow> printable_json v \<Longrightarrow> delimited s \<Longrightarrow>
   parse_value n (dumps renumber v @ s) = Some (v, s)"
proof (induction n arbitrary: v s rule: less_induct)
  case (less n)
  obtain m where n: "n = Suc m" using less.prems(1) by (cases n) auto
  have reads: "k < m \<Longrightarrow> 2 * length (dumps renumber v @ s) < k \<Longrightarrow> printable_json v \<Longrightarrow>
      delimited s \<Longrightarrow> parse_value k (dumps renumber v @ s) = Some (v, s)" for k v s
    using less.IH [of k v s] n by simp
  show ?case
  proof (cases v)
    case (JNumber i)
    with less.prems renumber parse_int_value [of i s m] n show ?thesis by simp
  next
    case (JString x)
    with parse_dumped_string [of "[]" x s] n show ?thesis by (simp add: dump_string_def)
  next
    case (JArray vs)
    show ?thesis
    proof (cases "vs = []")
      case False
      have "parse_elements m [] (join '', '' (map (dumps renumber) vs) @ CHR '']'' # s) = Some (JArray vs, s)"
        using parse_dumps_elements [OF renumber reads, of m vs s m "[]"] less.prems(1,2) False n
        by (simp add: JArray)
      with skip_ws_elements [OF False _ renumber, of "CHR '']'' # s"] less.prems(2) show ?thesis
        by (simp add: JArray n)
    qed (simp add: JArray n starts_with_def)
  next
    case (JObject d)
    show ?thesis
    proof (cases "d = []")
      case False
      have "parse_members m [] (join '', '' (map (dump_member renumber) d) @ CHR ''}'' # s) = Some (JObject d, s)"
        using parse_dumps_members [OF renumber reads, of m d s m "[]"] less.prems(1,2) False n
        unfolding JObject dumps_object by (simp add: case_prod_unfold)
      with skip_ws_members [OF False, of renumber "CHR ''}'' # s"] show ?thesis
        unfolding JObject dumps_object by (simp add: n)
    qed (simp add: JObject n starts_with_def)
  qed (simp_all add: n parse_literal_def starts_with_def)
qed

lemma loads_dumps:
  assumes "\<forall>n. int_literal n \<longrightarrow> renumber n = n" and "printable_json v"
  shows "loads (dumps renumber v) = Some v"
proof -
  have "parse_value (Suc (2 * length (dumps renumber v))) (dumps renumber v) = Some (v, [])"
    using parse_dumps [OF assms(1), of v "[]" "Suc (2 * length (dumps renumber v))"] assms(2)
    by (simp del: parse_value.simps)
  moreover have "skip_ws (dumps renumber v) = dumps renumber v" "skip_ws [] = []"
    using skip_ws_dumps(1) [OF assms(2,1), of "[]"] by (simp_all add: skip_ws_def)
  ultimately show ?thesis by (simp add: loads_def del: parse_value.simps)
qed

end
