(* ===== verification/Memcached.thy ===== *)
theory Memcached
  imports Store Json
begin

text \<open>
  \<open>MemcachedStore\<close> of src/backend/taramail/store.py, which keeps a hash as a JSON object in one value
  of memcached. The client of pymemcache is a parameter: it returns the text of a value (it encodes
  values as ASCII and refuses others). \<open>renumber\<close> prints a number that was read, and \<open>why\<close> is the
  message of the \<open>ValueError\<close> for a text that is not JSON. What the store relies on is the locale
  \<open>memcached_server\<close>, kept by the model of a server at the end; its theorem on the hashes is the
  contract \<open>hash_store\<close> for keys that memcached takes.
\<close>

record 's memcached_client =
  mc_get :: "string \<Rightarrow> ('s, py_exn, string option) sem"
  mc_set :: "string \<Rightarrow> string \<Rightarrow> int \<Rightarrow> ('s, py_exn, bool) sem"
  mc_delete :: "string \<Rightarrow> ('s, py_exn, bool) sem"
  mc_flush_all :: "('s, py_exn, unit) sem"

section \<open>Values\<close>

fun json_type :: "json \<Rightarrow> string" where
  "json_type JNull = ''NoneType''"
| "json_type (JBool b) = ''bool''"
| "json_type (JNumber n) = (if list_ex (\<lambda>c. c \<in> set ''.eENI'') n then ''float'' else ''int'')"
| "json_type (JString s) = ''str''"
| "json_type (JArray vs) = ''list''"
| "json_type (JObject d) = ''dict''"

definition quoted_type :: "json \<Rightarrow> string" where
  "quoted_type v = [CHR 0x27] @ json_type v @ [CHR 0x27]"

text \<open>\<open>data.get(field)\<close> and \<open>data.keys()\<close>: only a dict has these attributes.\<close>

definition json_attribute :: "string \<Rightarrow> json \<Rightarrow> ('s, py_exn, (string, json) dict) sem" where
  "json_attribute name data =
     (case data of
        JObject d \<Rightarrow> ret d
      | _ \<Rightarrow> throw (AttributeError (quoted_type data @ '' object has no attribute '' @
               [CHR 0x27] @ name @ [CHR 0x27])))"

text \<open>\<open>field in data\<close> followed by \<open>data[field] = ...\<close> on what is not a dict.\<close>

definition json_assignable :: "json \<Rightarrow> ('s, py_exn, (string, json) dict) sem" where
  "json_assignable data =
     (case data of
        JObject d \<Rightarrow> ret d
      | JArray _ \<Rightarrow> throw (TypeError ''list indices must be integers or slices, not str'')
      | JString _ \<Rightarrow> throw (TypeError (quoted_type data @ '' object does not support item assignment''))
      | _ \<Rightarrow> throw (TypeError (''argument of type '' @ quoted_type data @ '' is not iterable'')))"

text \<open>\<open>del data[f]\<close> for each field; without fields nothing is tried.\<close>

definition json_del_fields ::
  "string list \<Rightarrow> json \<Rightarrow> ('s, py_exn, nat \<times> json) sem" where
  "json_del_fields flds data =
     (case data of
        JObject d \<Rightarrow> (case del_fields flds d of (count, e) \<Rightarrow> ret (count, JObject e))
      | JArray _ \<Rightarrow>
          if flds = [] then ret (0, data)
          else throw (TypeError ''list indices must be integers or slices, not str'')
      | _ \<Rightarrow>
          if flds = [] then ret (0, data)
          else throw (TypeError (quoted_type data @ [CHR '' ''] @ ''object doesn'' @ [CHR 0x27] @
                 ''t support item deletion'')))"

section \<open>Operations\<close>

text \<open>\<open>json.loads(payload)\<close> with \<open>"{}"\<close> for a missing key; \<open>msg\<close> is the error raised instead.\<close>

definition load_hash ::
  "'s memcached_client \<Rightarrow> (string \<Rightarrow> string) \<Rightarrow> string \<Rightarrow> ('s, py_exn, json) sem" where
  "load_hash client msg key =
     bindM (mc_get client key) (\<lambda>value.
       let payload = (case value of None \<Rightarrow> ''{}'' | Some p \<Rightarrow> p)
       in case loads payload of
            None \<Rightarrow> throw (TypeError (msg payload))
          | Some data \<Rightarrow> ret data)"

definition memcached_get ::
  "'s memcached_client \<Rightarrow> string \<Rightarrow> ('s, py_exn, string option) sem" where
  "memcached_get client key =
     bindM (mc_get client key) (\<lambda>value.
       case value of
         None \<Rightarrow> ret None
       | Some v \<Rightarrow>
           (case loads v of
              Some (JObject d) \<Rightarrow> throw (TypeError ''Wrong type'')
            | _ \<Rightarrow> ret (Some v)))"

definition memcached_set ::
  "'s memcached_client \<Rightarrow> string \<Rightarrow> pyval \<Rightarrow> int option \<Rightarrow> ('s, py_exn, bool) sem" where
  "memcached_set client key v ttl =
     (let expire = (case ttl of None \<Rightarrow> 0 | Some t \<Rightarrow> t)
      in seqM (bindM (mc_set client key (py_str v) expire) (\<lambda>_. ret ())) (ret True))"

definition memcached_delete ::
  "'s memcached_client \<Rightarrow> string list \<Rightarrow> ('s, py_exn, nat) sem" where
  "memcached_delete client keys =
     bindM (mapM (mc_delete client) keys) (\<lambda>found. ret (length (filter id found)))"

definition memcached_hget ::
  "'s memcached_client \<Rightarrow> (string \<Rightarrow> string) \<Rightarrow> string \<Rightarrow> string \<Rightarrow> ('s, py_exn, json option) sem" where
  "memcached_hget client why key fld =
     bindM (load_hash client why key) (\<lambda>data.
       bindM (json_attribute ''get'' data) (\<lambda>d. ret (map_of d fld)))"

definition memcached_hgetall ::
  "'s memcached_client \<Rightarrow> string \<Rightarrow> ('s, py_exn, json) sem" where
  "memcached_hgetall client key = load_hash client (\<lambda>_. ''Wrong type'') key"

definition memcached_hset ::
  "'s memcached_client \<Rightarrow> (string \<Rightarrow> string) \<Rightarrow> (string \<Rightarrow> string) \<Rightarrow> string \<Rightarrow> string \<Rightarrow> pyval \<Rightarrow>
     int option \<Rightarrow> ('s, py_exn, nat) sem" where
  "memcached_hset client why renumber key fld v ttl =
     bindM (load_hash client why key) (\<lambda>data.
       bindM (json_assignable data) (\<lambda>d.
         seqM (bindM (memcached_set client key
                  (PStr (dumps renumber (JObject (dict_set fld (JString (py_str v)) d)))) ttl)
                (\<lambda>_. ret ()))
              (ret (if map_of d fld = None then 1 else 0))))"

definition memcached_hdel ::
  "'s memcached_client \<Rightarrow> (string \<Rightarrow> string) \<Rightarrow> string \<Rightarrow> string list \<Rightarrow> ('s, py_exn, nat) sem" where
  "memcached_hdel client renumber key flds =
     bindM (memcached_hgetall client key) (\<lambda>data.
       bindM (json_del_fields flds data) (\<lambda>(count, data').
         seqM (whenM (count \<noteq> 0)
                (bindM (memcached_set client key (PStr (dumps renumber data')) None) (\<lambda>_. ret ())))
              (ret count)))"

definition memcached_hkeys ::
  "'s memcached_client \<Rightarrow> string \<Rightarrow> ('s, py_exn, string list) sem" where
  "memcached_hkeys client key =
     bindM (memcached_hgetall client key) (\<lambda>data.
       bindM (json_attribute ''keys'' data) (\<lambda>d. ret (dict_keys d)))"

definition memcached_flushall :: "'s memcached_client \<Rightarrow> ('s, py_exn, unit) sem" where
  "memcached_flushall client = mc_flush_all client"

section \<open>The contract of the server\<close>

text \<open>The fields of the hash that a value holds; a missing value is an empty hash.\<close>

definition hash_of :: "string option \<Rightarrow> (string, json) dict option" where
  "hash_of value =
     (case value of
        None \<Rightarrow> Some []
      | Some p \<Rightarrow> (case loads p of Some (JObject d) \<Rightarrow> Some d | _ \<Rightarrow> None))"

definition is_hash :: "string option \<Rightarrow> bool" where
  "is_hash value \<longleftrightarrow> (\<exists>d. hash_of value = Some d \<and> printable_json (JObject d))"

definition hash_field :: "string option \<Rightarrow> string \<Rightarrow> json option" where
  "hash_field value = (case hash_of value of None \<Rightarrow> Map.empty | Some d \<Rightarrow> map_of d)"

definition prints_ints :: "(string \<Rightarrow> string) \<Rightarrow> bool" where
  "prints_ints renumber \<longleftrightarrow> (\<forall>n. int_literal n \<longrightarrow> renumber n = n)"

lemma hash_of_dumps:
  assumes "prints_ints renumber" and "printable_json (JObject d)"
  shows "hash_of (Some (dumps renumber (JObject d))) = Some d"
  using loads_dumps [of renumber "JObject d"] assms by (simp add: hash_of_def prints_ints_def)

lemma printable_dict_set:
  assumes "printable_json (JObject d)"
  shows "printable_json (JObject (dict_set f (JString x) d))"
  using assms set_dict_set [of f "JString x" d] distinct_dict_set [of d f "JString x"]
  by (fastforce simp: list_all_iff dict_keys_def)

lemma printable_del_fields:
  assumes "printable_json (JObject d)"
  shows "printable_json (JObject (snd (del_fields fs d)))"
  using assms set_del_fields [of fs d] del_fields_run [of fs d]
  by (fastforce simp: list_all_iff dict_keys_def)

text \<open>What is printed is ASCII, as the client demands, when the numbers are.\<close>

lemma code_less_256: "code c < 256"
  by (simp add: code_def)

lemma dump_string_ascii: "list_all (\<lambda>c. code c < 128) (dump_string s)"
proof -
  have "list_all (\<lambda>c. code c < 128) (escape_char c)" for c
  proof -
    have hex: "code (hex_digit d) < 128" if "d < 16" for d
      using that by (auto simp: hex_digit_def digit_def code_def)
    have "code c div 16 < 16" using code_less_256 [of c] by simp
    from hex [OF this] hex [of "code c mod 16"] show ?thesis by (auto simp: escape_char_def code_def)
  qed
  then show ?thesis by (auto simp: dump_string_def list_all_iff code_def)
qed

lemma join_ascii:
  "list_all P sep \<Longrightarrow> list_all (list_all P) xs \<Longrightarrow> list_all P (join sep xs)"
  by (induction sep xs rule: join.induct) auto

lemma dumps_ascii:
  assumes "prints_ints renumber"
  shows "printable_json v \<Longrightarrow> list_all (\<lambda>c. code c < 128) (dumps renumber v)"
proof (induction v)
  case (JNumber n)
  have "c = CHR ''-'' \<or> is_digit c" if "c \<in> set n" for c
  proof (cases "n = ''0''")
    case False
    with JNumber have "list_all is_digit (if take 1 n = ''-'' then drop 1 n else n)"
      by (simp add: int_literal_def Let_def)
    with that show ?thesis
      by (cases n) (auto simp: list_all_iff split: if_splits)
  qed (use that in \<open>simp add: is_digit_def code_def\<close>)
  then have "\<forall>c \<in> set n. code c < 128" by (fastforce simp: is_digit_def code_def)
  then have "list_all (\<lambda>c. code c < 128) n" by (simp add: list_all_iff)
  moreover have "renumber n = n" using JNumber assms by (simp add: prints_ints_def)
  ultimately show ?case by simp
next
  case (JArray vs)
  then have "list_all (list_all (\<lambda>c. code c < 128)) (map (dumps renumber) vs)"
    by (simp add: list_all_iff)
  then show ?case by (simp add: join_ascii code_def)
next
  case (JObject d)
  have "list_all (\<lambda>c. code c < 128) (dumps renumber (snd e))" if "e \<in> set d" for e
    using JObject that by (cases e) (fastforce simp: list_all_iff)
  then have "list_all (list_all (\<lambda>c. code c < 128)) (map (dump_member renumber) d)"
    using dump_string_ascii by (auto simp: list_all_iff dump_member_def code_def)
  then show ?case
    unfolding dumps_object by (simp add: join_ascii code_def)
qed (simp_all add: dump_string_ascii [unfolded code_def] code_def)

locale memcached_server =
  fixes client :: "'s memcached_client"
    and holds :: "'s \<Rightarrow> string \<Rightarrow> string option"
    and legal :: "string \<Rightarrow> bool"
    and fits :: "string \<Rightarrow> bool"
  assumes server_get: "legal k \<Longrightarrow> \<exists>t. mc_get client k s = (Inr (holds s k), t) \<and> holds t = holds s"
    and server_set: "legal k \<Longrightarrow> fits v \<Longrightarrow>
      \<exists>b t. mc_set client k v 0 s = (Inr b, t) \<and> holds t = (holds s)(k \<mapsto> v)"
    and server_delete: "legal k \<Longrightarrow>
      \<exists>t. mc_delete client k s = (Inr (holds s k \<noteq> None), t) \<and> holds t = (holds s)(k := None)"
begin

lemma load_hash_run:
  assumes "legal k" and "hash_of (holds s k) = Some d"
  shows "\<exists>t. load_hash client msg k s = (Inr (JObject d), t) \<and> holds t = holds s"
proof -
  obtain t where t: "mc_get client k s = (Inr (holds s k), t)" "holds t = holds s"
    using server_get [OF assms(1)] by blast
  have "loads (case holds s k of None \<Rightarrow> ''{}'' | Some p \<Rightarrow> p) = Some (JObject d)"
  proof (cases "holds s k")
    case None
    have "loads ''{}'' = Some (JObject [])" by code_simp
    with None assms(2) show ?thesis by (simp add: hash_of_def)
  next
    case (Some p)
    with assms(2) show ?thesis by (auto simp: hash_of_def split: option.splits json.splits)
  qed
  with t show ?thesis by (simp add: load_hash_def bindM_def ret_def)
qed

lemma set_run:
  assumes "legal k" and "fits (py_str v)"
  shows "\<exists>t. memcached_set client k v None s = (Inr True, t) \<and> holds t = (holds s)(k \<mapsto> py_str v)"
  using server_set [OF assms, of s] by (auto simp: memcached_set_def seqM_def bindM_def ret_def)

lemma hget_run:
  assumes "legal k" and "is_hash (holds s k)"
  shows "\<exists>t. memcached_hget client why k f s = (Inr (hash_field (holds s k) f), t) \<and> holds t = holds s"
proof -
  obtain d where d: "hash_of (holds s k) = Some d" using assms(2) by (auto simp: is_hash_def)
  obtain t where "load_hash client why k s = (Inr (JObject d), t)" "holds t = holds s"
    using load_hash_run [OF assms(1) d] by blast
  then show ?thesis
    by (simp add: memcached_hget_def bindM_def json_attribute_def ret_def hash_field_def d)
qed

text \<open>
  A hash is written back: the field has its new value, the other fields and the other keys what they
  had, and the value is a hash again.
\<close>

lemma write_hash:
  assumes "legal k" and "prints_ints renumber" and "printable_json (JObject d)"
    and "fits (dumps renumber (JObject d))"
  shows "\<exists>t. memcached_set client k (PStr (dumps renumber (JObject d))) None s = (Inr True, t) \<and>
    is_hash (holds t k) \<and> hash_field (holds t k) = map_of d \<and> (\<forall>k'. k' \<noteq> k \<longrightarrow> holds t k' = holds s k')"
  using set_run [of k "PStr (dumps renumber (JObject d))" s] hash_of_dumps [OF assms(2,3)] assms
  by (auto simp: is_hash_def hash_field_def)

lemma hset_run:
  assumes "legal k" and "prints_ints renumber" and "is_hash (holds s k)"
    and fits: "\<And>d. printable_json (JObject d) \<Longrightarrow> hash_of (holds s k) = Some d \<Longrightarrow>
      fits (dumps renumber (JObject (dict_set f (JString (py_str v)) d)))"
  shows "\<exists>t. memcached_hset client why renumber k f v None s =
      (Inr (if hash_field (holds s k) f = None then 1 else 0), t) \<and> is_hash (holds t k) \<and>
    hash_field (holds t k) = (hash_field (holds s k))(f \<mapsto> JString (py_str v)) \<and>
    (\<forall>k'. k' \<noteq> k \<longrightarrow> holds t k' = holds s k')"
proof -
  obtain d where d: "hash_of (holds s k) = Some d" "printable_json (JObject d)"
    using assms(3) by (auto simp: is_hash_def)
  obtain u where u: "load_hash client why k s = (Inr (JObject d), u)" "holds u = holds s"
    using load_hash_run [OF assms(1) d(1)] by blast
  obtain t where "memcached_set client k
        (PStr (dumps renumber (JObject (dict_set f (JString (py_str v)) d)))) None u = (Inr True, t)"
      "is_hash (holds t k)" "hash_field (holds t k) = map_of (dict_set f (JString (py_str v)) d)"
      "\<forall>k'. k' \<noteq> k \<longrightarrow> holds t k' = holds u k'"
    using write_hash [OF assms(1,2) printable_dict_set [OF d(2)] fits [OF d(2,1)]] by blast
  with u show ?thesis
    by (simp add: memcached_hset_def bindM_def seqM_def ret_def json_assignable_def hash_field_def [of "holds s k"] d
        del: dumps.simps)
qed

lemma hdel_run:
  assumes "legal k" and "prints_ints renumber" and "is_hash (holds s k)"
    and fits: "\<And>d. printable_json (JObject d) \<Longrightarrow> hash_of (holds s k) = Some d \<Longrightarrow>
      fits (dumps renumber (JObject (snd (del_fields fs d))))"
  shows "\<exists>t. memcached_hdel client renumber k fs s =
      (Inr (card (set fs \<inter> dom (hash_field (holds s k)))), t) \<and> is_hash (holds t k) \<and>
    hash_field (holds t k) = hash_field (holds s k) |` (- set fs) \<and>
    (\<forall>k'. k' \<noteq> k \<longrightarrow> holds t k' = holds s k')"
proof -
  obtain d where d: "hash_of (holds s k) = Some d" "printable_json (JObject d)"
    using assms(3) by (auto simp: is_hash_def)
  obtain u where u: "load_hash client (\<lambda>_. ''Wrong type'') k s = (Inr (JObject d), u)" "holds u = holds s"
    using load_hash_run [OF assms(1) d(1)] by blast
  obtain n e where ne: "del_fields fs d = (n, e)" by (cases "del_fields fs d")
  have count: "n = card (set fs \<inter> dom (map_of d))" and e: "map_of e = map_of d |` (- set fs)"
    using del_fields_run [of fs d] by (simp_all add: ne)
  have field: "hash_field (holds s k) = map_of d" by (simp add: hash_field_def d)
  show ?thesis
  proof (cases "n = 0")
    case True
    then have "set fs \<inter> dom (map_of d) = {}" using count by simp
    then have "map_of d |` (- set fs) = map_of d"
      by (simp add: restrict_map_def fun_eq_iff) (metis Int_iff domIff empty_iff)
    with u True assms(3) show ?thesis
      by (simp add: memcached_hdel_def memcached_hgetall_def bindM_def seqM_def ret_def whenM_def
          json_del_fields_def ne field count [symmetric])
  next
    case False
    have "printable_json (JObject e)" "fits (dumps renumber (JObject e))"
      using printable_del_fields [OF d(2), of fs] fits [OF d(2,1)] by (simp_all add: ne)
    from write_hash [OF assms(1,2) this] obtain t where
      "memcached_set client k (PStr (dumps renumber (JObject e))) None u = (Inr True, t)"
      "is_hash (holds t k)" "hash_field (holds t k) = map_of e" "\<forall>k'. k' \<noteq> k \<longrightarrow> holds t k' = holds u k'"
      by blast
    with u False show ?thesis
      by (simp add: memcached_hdel_def memcached_hgetall_def bindM_def seqM_def ret_def whenM_def
          json_del_fields_def ne field count [symmetric] e del: dumps.simps)
  qed
qed

lemma delete_run:
  assumes "list_all legal ks"
  shows "\<exists>n t. memcached_delete client ks s = (Inr n, t) \<and>
    holds t = (\<lambda>k. if k \<in> set ks then None else holds s k)"
proof -
  have "\<exists>bs t. mapM (mc_delete client) ks s = (Inr bs, t) \<and>
    holds t = (\<lambda>k. if k \<in> set ks then None else holds s k)"
    using assms
  proof (induction ks arbitrary: s)
    case (Cons k ks)
    obtain t where t: "mc_delete client k s = (Inr (holds s k \<noteq> None), t)" "holds t = (holds s)(k := None)"
      using server_delete [of k s] Cons.prems by auto
    obtain bs u where "mapM (mc_delete client) ks t = (Inr bs, u)"
      "holds u = (\<lambda>k. if k \<in> set ks then None else holds t k)"
      using Cons.IH [of t] Cons.prems by auto
    with t show ?case by (auto simp: bindM_def ret_def fun_eq_iff)
  qed (simp add: ret_def)
  then show ?thesis by (auto simp: memcached_delete_def bindM_def ret_def)
qed

end

section \<open>A server\<close>

text \<open>
  The values of a server with the second each expires (\<open>None\<close> for never), the client's checks of a
  key and of a value, and the server's reading of the expiry: a number of seconds up to 30 days, a
  time of the clock above. A value of more than a megabyte is not kept and removes the one before it;
  the client does not read the reply.
\<close>

type_synonym memcached_state = "(string, string \<times> int option) dict"

definition legal_key :: "string \<Rightarrow> bool" where
  "legal_key k \<longleftrightarrow> k \<noteq> [] \<and> length k \<le> 250 \<and> list_all (\<lambda>c. 33 \<le> code c \<and> code c \<le> 126) k"

definition fitting_value :: "string \<Rightarrow> bool" where
  "fitting_value v \<longleftrightarrow> list_all (\<lambda>c. code c < 128) v \<and> length v \<le> 1000000"

definition server_lookup :: "int \<Rightarrow> memcached_state \<Rightarrow> string \<Rightarrow> string option" where
  "server_lookup now s k =
     (case map_of s k of
        None \<Rightarrow> None
      | Some (v, expires) \<Rightarrow>
          (case expires of None \<Rightarrow> Some v | Some e \<Rightarrow> if e \<le> now then None else Some v))"

definition memcached_client_ops :: "int \<Rightarrow> memcached_state memcached_client" where
  "memcached_client_ops now =
     \<lparr>mc_get = (\<lambda>k s. if \<not> legal_key k then throw (MemcacheError k) s else (Inr (server_lookup now s k), s)),
      mc_set = (\<lambda>k v expire s.
        if \<not> legal_key k then throw (MemcacheError k) s
        else if \<not> list_all (\<lambda>c. code c < 128) v then throw (MemcacheError v) s
        else if 1000000 < length v then (Inr True, dict_del k s)
        else (Inr True,
          dict_set k (v, if expire = 0 then None
            else if expire \<le> 2592000 then Some (now + expire) else Some expire) s)),
      mc_delete = (\<lambda>k s.
        if \<not> legal_key k then throw (MemcacheError k) s
        else (Inr (server_lookup now s k \<noteq> None), dict_del k s)),
      mc_flush_all = (\<lambda>s. (Inr (), []))\<rparr>"

interpretation memcached: memcached_server "memcached_client_ops now" "server_lookup now" legal_key fitting_value
  for now
proof
  fix k s
  assume "legal_key k"
  then show "\<exists>t. mc_get (memcached_client_ops now) k s = (Inr (server_lookup now s k), t) \<and>
      server_lookup now t = server_lookup now s"
    by (simp add: memcached_client_ops_def)
  show "\<exists>t. mc_delete (memcached_client_ops now) k s = (Inr (server_lookup now s k \<noteq> None), t) \<and>
      server_lookup now t = (server_lookup now s)(k := None)"
    using \<open>legal_key k\<close> by (auto simp: memcached_client_ops_def server_lookup_def fun_eq_iff)
next
  fix k v s
  assume "legal_key k" "fitting_value v"
  then show "\<exists>b t. mc_set (memcached_client_ops now) k v 0 s = (Inr b, t) \<and>
      server_lookup now t = (server_lookup now s)(k \<mapsto> v)"
    by (auto simp: memcached_client_ops_def server_lookup_def fitting_value_def fun_eq_iff)
qed

text \<open>
  C20. On any client and server of memcached that keep the contract: \<open>hset\<close> on a hash (or a missing key)
  returns 1 for a new field and 0 otherwise; afterwards the key holds a hash, \<open>hget\<close> reads the new value of
  the field, every other field has its old value, and no other key has changed. \<open>hdel\<close> returns how many of
  the fields the hash had; afterwards \<open>hget\<close> finds none of them and the other fields and keys as they were.
  Both provided that the JSON text of the new hash is one the server takes.
\<close>
theorem memcached_hset_hget:
  assumes "memcached_server client holds legal fits"
    and "legal k" and "prints_ints renumber" and "is_hash (holds s k)"
    and "\<forall>d. hash_of (holds s k) = Some d \<longrightarrow>
      fits (dumps renumber (JObject (dict_set f (JString (py_str v)) d))) \<and>
      fits (dumps renumber (JObject (snd (del_fields fs d))))"
  shows "(\<exists>t. memcached_hset client why renumber k f v None s =
      (Inr (if hash_field (holds s k) f = None then 1 else 0), t) \<and> is_hash (holds t k) \<and>
      (\<forall>g. fst (memcached_hget client why k g t) =
        Inr (if g = f then Some (JString (py_str v)) else hash_field (holds s k) g)) \<and>
      (\<forall>k'. k' \<noteq> k \<longrightarrow> holds t k' = holds s k')) \<and>
    (\<exists>u. memcached_hdel client renumber k fs s =
      (Inr (card (set fs \<inter> dom (hash_field (holds s k)))), u) \<and> is_hash (holds u k) \<and>
      (\<forall>g. fst (memcached_hget client why k g u) =
        Inr (if g \<in> set fs then None else hash_field (holds s k) g)) \<and>
      (\<forall>k'. k' \<noteq> k \<longrightarrow> holds u k' = holds s k'))"
proof -
  note server = assms(1) and fits = assms(5) [rule_format]
  have get: "fst (memcached_hget client why k g t) = Inr (hash_field (holds t k) g)"
    if "is_hash (holds t k)" for g t
    using memcached_server.hget_run [OF server, OF assms(2) that, of why g] by force
  obtain t where t: "memcached_hset client why renumber k f v None s =
      (Inr (if hash_field (holds s k) f = None then 1 else 0), t)" "is_hash (holds t k)"
    "hash_field (holds t k) = (hash_field (holds s k))(f \<mapsto> JString (py_str v))"
    "\<forall>k'. k' \<noteq> k \<longrightarrow> holds t k' = holds s k'"
    using memcached_server.hset_run [OF server, OF assms(2-4), of f v why] fits by blast
  obtain u where u: "memcached_hdel client renumber k fs s =
      (Inr (card (set fs \<inter> dom (hash_field (holds s k)))), u)" "is_hash (holds u k)"
    "hash_field (holds u k) = hash_field (holds s k) |` (- set fs)"
    "\<forall>k'. k' \<noteq> k \<longrightarrow> holds u k' = holds s k'"
    using memcached_server.hdel_run [OF server, OF assms(2-4), of fs] fits by blast
  from t u show ?thesis
    by (intro conjI exI [of _ t] exI [of _ u]) (auto simp: get restrict_map_def)
qed

definition sample_server :: memcached_state where
  "sample_server = [(''BANS'', (dumps id (JObject [(''a'', JString ''1'')]), None))]"

lemma memcached_hset_hget_witness:
  "(\<exists>t. memcached_hset (memcached_client_ops 0) id id ''BANS'' ''10.0.0.1'' (PInt 7) None sample_server =
       (Inr 1, t) \<and>
     fst (memcached_hget (memcached_client_ops 0) id ''BANS'' ''10.0.0.1'' t) = Inr (Some (JString ''7'')) \<and>
     fst (memcached_hget (memcached_client_ops 0) id ''BANS'' ''a'' t) = Inr (Some (JString ''1''))) \<and>
   (\<exists>u. memcached_hdel (memcached_client_ops 0) id ''BANS'' [''a''] sample_server = (Inr 1, u) \<and>
     fst (memcached_hget (memcached_client_ops 0) id ''BANS'' ''a'' u) = Inr None)"
proof -
  have hash: "hash_of (server_lookup 0 sample_server ''BANS'') = Some [(''a'', JString ''1'')]"
    by code_simp
  have ascii: "list_all (\<lambda>c. code c < 128) (dumps id (JObject (dict_set ''10.0.0.1'' (JString (py_str (PInt 7)))
      [(''a'', JString ''1'')])))" "list_all (\<lambda>c. code c < 128)
      (dumps id (JObject (snd (del_fields [''a''] [(''a'', JString ''1'')]))))"
    by code_simp+
  have "length (dumps id (JObject (dict_set ''10.0.0.1'' (JString (py_str (PInt 7)))
      [(''a'', JString ''1'')]))) \<le> 60"
    "length (dumps id (JObject (snd (del_fields [''a''] [(''a'', JString ''1'')])))) \<le> 60" by code_simp+
  then have "length (dumps id (JObject (dict_set ''10.0.0.1'' (JString (py_str (PInt 7)))
      [(''a'', JString ''1'')]))) \<le> 1000000"
    "length (dumps id (JObject (snd (del_fields [''a''] [(''a'', JString ''1'')])))) \<le> 1000000"
    by linarith+
  with ascii have fits: "\<forall>d. hash_of (server_lookup 0 sample_server ''BANS'') = Some d \<longrightarrow>
      fitting_value (dumps id (JObject (dict_set ''10.0.0.1'' (JString (py_str (PInt 7))) d))) \<and>
      fitting_value (dumps id (JObject (snd (del_fields [''a''] d))))"
    unfolding hash option.inject fitting_value_def by blast
  have legal: "legal_key ''BANS''" by code_simp
  have ints: "prints_ints id" by (simp add: prints_ints_def)
  have is_hash: "is_hash (server_lookup 0 sample_server ''BANS'')"
    using hash by (simp add: is_hash_def)
  have field: "hash_field (server_lookup 0 sample_server ''BANS'') = map_of [(''a'', JString ''1'')]"
    by (simp add: hash_field_def hash)
  have seven: "py_str (PInt 7) = ''7''" by code_simp
  show ?thesis
    using memcached_hset_hget [OF memcached.memcached_server_axioms, OF legal ints is_hash fits, of id]
    unfolding field seven by auto
qed

end
