(* ===== verification/Logger.thy ===== *)
theory Logger
  imports Exceptions Json
begin

text \<open>
  The logging of src/backend/taramail/logger.py: the formatters, the options of a command line for
  the level and the handler, the set-up of a logger, and the context that is added to messages.
  The context is one per thread (\<open>ContextVar\<close>); the factory of log records is wrapped once more by
  every call that needs the context, which \<open>lg_wraps\<close> counts. A value of the context is JSON.
\<close>

section \<open>Records and formatters\<close>

text \<open>
  A record has its format string, its text (the format string with the arguments of the call), the
  time as \<open>strftime\<close> prints it, the attribute \<open>ctx\<close> (\<open>None\<close> when it has none, \<open>Some None\<close> when the
  variable was not set) and the number of classes that wrap it.
\<close>

record log_record =
  lr_level :: string
  lr_name :: string
  lr_msg :: string
  lr_text :: string
  lr_time :: string
  lr_ctx :: "(string, json) dict option option"
  lr_wraps :: nat

definition ljust :: "nat \<Rightarrow> string \<Rightarrow> string" where
  "ljust n s = s @ replicate (n - length s) (CHR '' '')"

text \<open>\<open>LogRecordContext.getMessage\<close>, once for every class.\<close>

definition with_context :: "(string \<Rightarrow> string) \<Rightarrow> log_record \<Rightarrow> string \<Rightarrow> string" where
  "with_context renumber r msg =
     (case lr_ctx r of
        Some (Some ctx) \<Rightarrow>
          if ctx = [] then msg else ''['' @ dumps renumber (JObject ctx) @ ''] '' @ msg
      | _ \<Rightarrow> msg)"

definition get_message :: "(string \<Rightarrow> string) \<Rightarrow> log_record \<Rightarrow> string" where
  "get_message renumber r = (with_context renumber r ^^ lr_wraps r) (lr_text r)"

definition format_message :: "(string \<Rightarrow> string) \<Rightarrow> log_record \<Rightarrow> string" where
  "format_message renumber r =
     lr_time r @ '' '' @ ljust 7 (lr_level r) @ '' '' @ lr_name r @ '' '' @ get_message renumber r"

text \<open>\<open>JsonFormatter.formatMessage\<close>: \<open>**None\<close> raises \<open>TypeError\<close>.\<close>

definition json_message :: "(string \<Rightarrow> string) \<Rightarrow> log_record \<Rightarrow> ('s, py_exn, string) sem" where
  "json_message renumber r =
     (let data = [(''Level'', JString (lr_level r)), (''Message'', JString (lr_msg r)),
                  (''Name'', JString (lr_name r)), (''Timestamp'', JString (lr_time r))]
      in case lr_ctx r of
           None \<Rightarrow> ret (dumps renumber (JObject data))
         | Some None \<Rightarrow> throw (TypeError ([CHR 0x27] @ ''NoneType'' @ [CHR 0x27] @ '' object is not a mapping''))
         | Some (Some ctx) \<Rightarrow> ret (dumps renumber (JObject (dict_update data ctx))))"

section \<open>The context\<close>

record log_state =
  lg_context :: "(string, json) dict option"
  lg_wraps :: nat

definition ensure_log_uses_context :: "log_state \<Rightarrow> log_state" where
  "ensure_log_uses_context s =
     s\<lparr>lg_context := Some (case lg_context s of None \<Rightarrow> [] | Some c \<Rightarrow> c), lg_wraps := Suc (lg_wraps s)\<rparr>"

definition current_context :: "log_state \<Rightarrow> (string, json) dict" where
  "current_context s = (case lg_context s of None \<Rightarrow> [] | Some c \<Rightarrow> c)"

definition set_log_context :: "(string, json) dict \<Rightarrow> log_state \<Rightarrow> log_state" where
  "set_log_context ctx s =
     (let t = ensure_log_uses_context s in t\<lparr>lg_context := Some (dict_update (current_context t) ctx)\<rparr>)"

definition remove_log_context :: "string \<Rightarrow> log_state \<Rightarrow> log_state" where
  "remove_log_context key s =
     (let t = ensure_log_uses_context s in t\<lparr>lg_context := Some (dict_del key (current_context t))\<rparr>)"

text \<open>The block runs with a copy of the context; the variable is reset however it ends.\<close>

definition logger_context ::
  "(string, json) dict \<Rightarrow> (log_state, 'e, 'a) sem \<Rightarrow> (log_state, 'e, 'a) sem" where
  "logger_context ctx body s =
     (let t = ensure_log_uses_context s;
          (r, u) = body (t\<lparr>lg_context := Some (dict_update (current_context t) ctx)\<rparr>)
      in (r, u\<lparr>lg_context := lg_context t\<rparr>))"

text \<open>The record that a call of a logger makes.\<close>

definition make_record ::
  "log_state \<Rightarrow> string \<Rightarrow> string \<Rightarrow> string \<Rightarrow> string \<Rightarrow> string \<Rightarrow> log_record" where
  "make_record s level name msg body now =
     \<lparr>lr_level = level, lr_name = name, lr_msg = msg, lr_text = body, lr_time = now,
      lr_ctx = (if lg_wraps s = 0 then None else Some (lg_context s)), lr_wraps = lg_wraps s\<rparr>"

section \<open>Options and set-up\<close>

datatype log_stream = Stdout | Stderr | LogFile string

datatype log_formatter = TextFormatter | JsonFormatter

record log_handler =
  lh_stream :: log_stream
  lh_formatter :: "log_formatter option"

definition get_handler :: "string option \<Rightarrow> log_handler" where
  "get_handler name =
     \<lparr>lh_stream =
        (case name of
           None \<Rightarrow> Stderr
         | Some n \<Rightarrow> if n = ''-'' then Stdout else if n \<noteq> [] then LogFile n else Stderr),
      lh_formatter = Some TextFormatter\<rparr>"

definition level_choices :: "string list" where
  "level_choices = [''debug'', ''info'', ''warning'', ''error'', ''critical'']"

text \<open>The levels that the module \<open>logging\<close> names by the choices.\<close>

definition logging_level :: "string \<Rightarrow> nat option" where
  "logging_level name =
     map_of [(''DEBUG'', 10), (''INFO'', 20), (''WARNING'', 30), (''ERROR'', 40), (''CRITICAL'', 50)] name"

text \<open>
  \<open>LoggerLevelAction\<close> with its defaults: argparse lowers the argument and checks the choices, the
  action reads the attribute. \<open>Inl\<close> is an error of the parser.
\<close>

definition level_action :: "string \<Rightarrow> string + nat" where
  "level_action arg =
     (let v = lower arg in
      if v \<notin> set level_choices then Inl (''invalid choice: '' @ v)
      else (case logging_level (upper v) of
              None \<Rightarrow> Inl (''Unsupported log level: '' @ v)
            | Some n \<Rightarrow> Inr n))"

record logger =
  lo_handlers :: "log_handler list"
  lo_closed :: "log_handler list"
  lo_level :: nat

definition setup_logger ::
  "nat \<Rightarrow> log_handler option \<Rightarrow> log_formatter option \<Rightarrow> logger \<Rightarrow> logger" where
  "setup_logger level handler fmt l =
     (let f = (case fmt of None \<Rightarrow> TextFormatter | Some f \<Rightarrow> f);
          h = (case handler of None \<Rightarrow> \<lparr>lh_stream = Stderr, lh_formatter = None\<rparr> | Some h \<Rightarrow> h)
      in \<lparr>lo_handlers = [h\<lparr>lh_formatter := Some f\<rparr>], lo_closed = lo_closed l @ lo_handlers l,
          lo_level = level\<rparr>)"

section \<open>What the context does\<close>

lemma logger_context_result: "fst (logger_context ctx body s) =
    fst (body ((ensure_log_uses_context s)\<lparr>lg_context := Some (dict_update (current_context s) ctx)\<rparr>))"
  by (simp add: logger_context_def ensure_log_uses_context_def current_context_def split_beta Let_def
      split: option.splits)

text \<open>After the block the context is what it was, also when the block raised or set the context.\<close>

lemma logger_context_restores:
  "current_context (snd (logger_context ctx body s)) = current_context s"
  by (simp add: logger_context_def ensure_log_uses_context_def current_context_def split_beta Let_def
      split: option.splits)

lemma get_message_context:
  assumes "lr_ctx r = Some (Some ctx)" and "ctx \<noteq> []"
  shows "get_message renumber r =
    concat (replicate (lr_wraps r) (''['' @ dumps renumber (JObject ctx) @ ''] '')) @ lr_text r"
proof -
  have "(with_context renumber r ^^ n) x =
      concat (replicate n (''['' @ dumps renumber (JObject ctx) @ ''] '')) @ x" for n x
    by (induction n) (simp_all add: with_context_def assms)
  then show ?thesis by (simp add: get_message_def)
qed

lemma get_message_no_context:
  assumes "lr_ctx r = None \<or> lr_ctx r = Some None \<or> lr_ctx r = Some (Some [])"
  shows "get_message renumber r = lr_text r"
proof -
  have "(with_context renumber r ^^ n) x = x" for n x
    by (induction n) (use assms in \<open>auto simp: with_context_def\<close>)
  then show ?thesis by (simp add: get_message_def)
qed

text \<open>
  C25. A message logged in a \<open>logger_context\<close> starts with the context, the one around it included, and
  after the block, however it ended, the context is what it was. The code prints the context once for
  every call so far that needed a context, not once.
\<close>
theorem logger_context_scope:
  assumes "ctx \<noteq> []"
  shows "fst (logger_context ctx
      (\<lambda>u. (Inr (get_message renumber (make_record u level name msg body now)), u)) s) =
    Inr (concat (replicate (Suc (lg_wraps s))
      (''['' @ dumps renumber (JObject (dict_update (current_context s) ctx)) @ ''] '')) @ body) \<and>
    current_context (snd (logger_context ctx block s)) = current_context s"
proof -
  let ?u = "(ensure_log_uses_context s)\<lparr>lg_context := Some (dict_update (current_context s) ctx)\<rparr>"
  let ?r = "make_record ?u level name msg body now"
  have "lr_ctx ?r = Some (Some (dict_update (current_context s) ctx))" "lr_wraps ?r = Suc (lg_wraps s)"
    "lr_text ?r = body"
    by (simp_all add: make_record_def ensure_log_uses_context_def)
  with get_message_context [OF this(1) dict_update_not_Nil [OF assms], of renumber]
  have "fst (logger_context ctx
      (\<lambda>u. (Inr (get_message renumber (make_record u level name msg body now)), u)) s) =
    Inr (concat (replicate (Suc (lg_wraps s))
      (''['' @ dumps renumber (JObject (dict_update (current_context s) ctx)) @ ''] '')) @ body)"
    unfolding logger_context_result by simp
  with logger_context_restores show ?thesis by blast
qed

text \<open>The second of two nested contexts is printed twice.\<close>

lemma logger_context_scope_witness:
  "fst (logger_context [(''b'', JString ''2'')]
      (\<lambda>u. (Inr (get_message id (make_record u ''INFO'' ''root'' ''log'' ''log'' ''now'')), u))
      \<lparr>lg_context = Some [(''a'', JString ''1'')], lg_wraps = 1\<rparr>) =
    (Inr (concat (replicate 2 (''['' @ dumps id (JObject [(''a'', JString ''1''), (''b'', JString ''2'')]) @ ''] '')) @
      ''log'') :: unit + string)"
  using logger_context_scope [of "[(''b'', JString ''2'')]" id "''INFO''" "''root''" "''log''" "''log''"
      "''now''" "\<lparr>lg_context = Some [(''a'', JString ''1'')], lg_wraps = 1\<rparr>", THEN conjunct1]
  by (simp add: current_context_def dict_update_def numeral_2_eq_2)

section \<open>What the set-up does\<close>

text \<open>However often a logger is set up, it has one handler, and the ones before it are closed.\<close>

lemma setup_logger_one_handler:
  "\<exists>h. lo_handlers (setup_logger level handler fmt l) = [h] \<and> lh_formatter h \<noteq> None"
  by (simp add: setup_logger_def Let_def)

lemma setup_logger_closes:
  "lo_closed (setup_logger level handler fmt l) = lo_closed l @ lo_handlers l"
  by (simp add: setup_logger_def Let_def)

text \<open>An argument of the option is a choice in any case of its letters.\<close>

lemma level_action_choices:
  "level_action arg =
    (case map_of [(''debug'', 10), (''info'', 20), (''warning'', 30), (''error'', 40), (''critical'', 50)]
        (lower arg) of
       None \<Rightarrow> Inl (''invalid choice: '' @ lower arg)
     | Some n \<Rightarrow> Inr n)"
proof -
  have "upper ''debug'' = ''DEBUG''" "upper ''info'' = ''INFO''" "upper ''warning'' = ''WARNING''"
    "upper ''error'' = ''ERROR''" "upper ''critical'' = ''CRITICAL''"
    by code_simp+
  then show ?thesis by (auto simp: level_action_def level_choices_def logging_level_def Let_def)
qed

end
