(* ===== verification/Exporter.thy ===== *)
theory Exporter
  imports Exceptions Json
begin

text \<open>
  The exporter of checks for Prometheus, src/backend/taramail/exporter.py. The answers of Rspamd, of
  the socket and of the database are a record of parameters; a gauge holds a float, whose type and
  conversions are parameters too. The page that the client library prints is a parameter.
\<close>

record 'f floats =
  fl_of_json :: "json \<Rightarrow> py_exn + 'f"
  fl_int :: "'f \<Rightarrow> py_exn + int"
  fl_of_int :: "int \<Rightarrow> 'f"

record answers =
  an_scan :: "string \<Rightarrow> py_exn + string"
  an_connect :: "py_exn + int"
  an_select_one :: "py_exn + int option"
  an_count_tables :: "py_exn + int option"

record 'f gauges =
  rspamd_scoring_check :: 'f
  rspamd_scoring_value :: 'f
  rspamd_milter_check :: 'f
  mysql_connection_check :: 'f
  mysql_query_check :: 'f
  mysql_table_count :: 'f

definition lift_answer :: "py_exn + 'a \<Rightarrow> ('s, py_exn, 'a) sem" where
  "lift_answer r = (case r of Inl e \<Rightarrow> throw e | Inr a \<Rightarrow> ret a)"

definition update :: "('s \<Rightarrow> 's) \<Rightarrow> ('s, 'e, unit) sem" where
  "update f s = (Inr (), f s)"

section \<open>Checks\<close>

definition test_message :: string where
  "test_message = ''To: null@localhost'' @ [CHR 10] @ ''From: monit@localhost'' @ [CHR 10, CHR 10] @
     ''Empty'' @ [CHR 10]"

text \<open>\<open>v.get(key, default)\<close> on what \<open>json()\<close> returned.\<close>

definition json_get :: "string \<Rightarrow> json \<Rightarrow> json \<Rightarrow> ('s, py_exn, json) sem" where
  "json_get key default_value v =
     (case v of
        JObject d \<Rightarrow> ret (case map_of d key of None \<Rightarrow> default_value | Some x \<Rightarrow> x)
      | _ \<Rightarrow> throw (AttributeError ''get''))"

definition check_rspamd_scoring ::
  "'f floats \<Rightarrow> answers \<Rightarrow> ('f gauges, py_exn, unit) sem" where
  "check_rspamd_scoring fl an =
     catchM
       (bindM (lift_answer (an_scan an test_message)) (\<lambda>body.
          bindM (case loads body of None \<Rightarrow> throw (ValueError body) | Some r \<Rightarrow> ret r) (\<lambda>result.
            bindM (json_get ''default'' (JObject []) result) (\<lambda>d.
              bindM (json_get ''required_score'' (JNumber ''0'') d) (\<lambda>score.
                bindM (lift_answer (fl_of_json fl score)) (\<lambda>x.
                  bindM (lift_answer (fl_int fl x)) (\<lambda>i.
                    seqM (update (\<lambda>g. g\<lparr>rspamd_scoring_check := fl_of_int fl (if i = 9999 then 1 else 0)\<rparr>))
                         (update (\<lambda>g. g\<lparr>rspamd_scoring_value := x\<rparr>)))))))))
       (\<lambda>e. seqM (update (\<lambda>g. g\<lparr>rspamd_scoring_check := fl_of_int fl 0\<rparr>))
                 (update (\<lambda>g. g\<lparr>rspamd_scoring_value := fl_of_int fl 0\<rparr>)))"

definition check_rspamd_milter ::
  "'f floats \<Rightarrow> answers \<Rightarrow> ('f gauges, py_exn, unit) sem" where
  "check_rspamd_milter fl an =
     catchM
       (bindM (lift_answer (an_connect an)) (\<lambda>result.
          update (\<lambda>g. g\<lparr>rspamd_milter_check := fl_of_int fl (if result = 0 then 1 else 0)\<rparr>)))
       (\<lambda>e. update (\<lambda>g. g\<lparr>rspamd_milter_check := fl_of_int fl 0\<rparr>))"

definition check_mysql_query ::
  "'f floats \<Rightarrow> answers \<Rightarrow> ('f gauges, py_exn, unit) sem" where
  "check_mysql_query fl an =
     seqM
       (catchM
          (bindM (lift_answer (an_select_one an)) (\<lambda>result.
             update (\<lambda>g. g\<lparr>mysql_connection_check := fl_of_int fl (if result = Some 1 then 1 else 0)\<rparr>)))
          (\<lambda>e. update (\<lambda>g. g\<lparr>mysql_connection_check := fl_of_int fl 0\<rparr>)))
       (catchM
          (bindM (lift_answer (an_count_tables an)) (\<lambda>result.
             case result of
               Some n \<Rightarrow>
                 if 0 < n
                 then seqM (update (\<lambda>g. g\<lparr>mysql_query_check := fl_of_int fl 1\<rparr>))
                           (update (\<lambda>g. g\<lparr>mysql_table_count := fl_of_int fl n\<rparr>))
                 else seqM (update (\<lambda>g. g\<lparr>mysql_query_check := fl_of_int fl 0\<rparr>))
                           (update (\<lambda>g. g\<lparr>mysql_table_count := fl_of_int fl 0\<rparr>))
             | None \<Rightarrow> seqM (update (\<lambda>g. g\<lparr>mysql_query_check := fl_of_int fl 0\<rparr>))
                           (update (\<lambda>g. g\<lparr>mysql_table_count := fl_of_int fl 0\<rparr>))))
          (\<lambda>e. seqM (update (\<lambda>g. g\<lparr>mysql_query_check := fl_of_int fl 0\<rparr>))
                    (update (\<lambda>g. g\<lparr>mysql_table_count := fl_of_int fl 0\<rparr>))))"

definition exporter_check ::
  "('f gauges \<Rightarrow> string) \<Rightarrow> 'f floats \<Rightarrow> answers \<Rightarrow> ('f gauges, py_exn, string) sem" where
  "exporter_check generate_latest fl an =
     seqM (check_rspamd_scoring fl an)
       (seqM (check_rspamd_milter fl an)
         (seqM (check_mysql_query fl an) (gets generate_latest)))"

definition exporter_health :: "(string, string) dict" where
  "exporter_health = [(''status'', ''ok'')]"

section \<open>What a check shows\<close>

text \<open>The score that Rspamd answers with, when the check can read it.\<close>

definition scan_score :: "'f floats \<Rightarrow> answers \<Rightarrow> ('f \<times> int) option" where
  "scan_score fl an =
     (case an_scan an test_message of
        Inl e \<Rightarrow> None
      | Inr body \<Rightarrow>
          (case loads body of
             Some (JObject result) \<Rightarrow>
               (case (case map_of result ''default'' of None \<Rightarrow> JObject [] | Some d \<Rightarrow> d) of
                  JObject d \<Rightarrow>
                    (case fl_of_json fl (case map_of d ''required_score'' of None \<Rightarrow> JNumber ''0'' | Some x \<Rightarrow> x) of
                       Inl e \<Rightarrow> None
                     | Inr x \<Rightarrow> (case fl_int fl x of Inl e \<Rightarrow> None | Inr i \<Rightarrow> Some (x, i)))
                | _ \<Rightarrow> None)
           | _ \<Rightarrow> None))"

text \<open>The gauges as a function of the answers alone.\<close>

definition shown :: "'f floats \<Rightarrow> answers \<Rightarrow> 'f gauges" where
  "shown fl an =
     \<lparr>rspamd_scoring_check = fl_of_int fl (if \<exists>x. scan_score fl an = Some (x, 9999) then 1 else 0),
      rspamd_scoring_value = (case scan_score fl an of None \<Rightarrow> fl_of_int fl 0 | Some (x, i) \<Rightarrow> x),
      rspamd_milter_check = fl_of_int fl (if an_connect an = Inr 0 then 1 else 0),
      mysql_connection_check = fl_of_int fl (if an_select_one an = Inr (Some 1) then 1 else 0),
      mysql_query_check = fl_of_int fl (if \<exists>n > 0. an_count_tables an = Inr (Some n) then 1 else 0),
      mysql_table_count =
        (case an_count_tables an of Inr (Some n) \<Rightarrow> fl_of_int fl (max n 0) | _ \<Rightarrow> fl_of_int fl 0)\<rparr>"

lemmas exporter_sems = bindM_def seqM_def catchM_def ret_def throw_def update_def lift_answer_def

lemma check_rspamd_scoring_run:
  "check_rspamd_scoring fl an g =
    (Inr (), g\<lparr>rspamd_scoring_check := rspamd_scoring_check (shown fl an),
               rspamd_scoring_value := rspamd_scoring_value (shown fl an)\<rparr>)"
  unfolding check_rspamd_scoring_def exporter_sems json_get_def shown_def scan_score_def
  by (auto split: sum.splits option.splits json.splits)

lemma check_rspamd_milter_run:
  "check_rspamd_milter fl an g =
    (Inr (), g\<lparr>rspamd_milter_check := rspamd_milter_check (shown fl an)\<rparr>)"
  by (auto simp: check_rspamd_milter_def exporter_sems shown_def split: sum.splits)

lemma check_mysql_query_run:
  "check_mysql_query fl an g =
    (Inr (), g\<lparr>mysql_connection_check := mysql_connection_check (shown fl an),
               mysql_query_check := mysql_query_check (shown fl an),
               mysql_table_count := mysql_table_count (shown fl an)\<rparr>)"
  by (auto simp: check_mysql_query_def exporter_sems shown_def split: sum.splits option.splits)

text \<open>
  C23. The endpoint \<open>/check\<close> never fails, whatever Rspamd, the milter and the database answer, and what
  it shows depends on these answers alone, never on an earlier check: every check is 1 exactly when its
  answer is the expected one, and a value that could not be read is 0.
\<close>
theorem exporter_shows_answers:
  "exporter_check generate_latest fl an g = (Inr (generate_latest (shown fl an)), shown fl an)"
proof -
  let ?h = "g\<lparr>rspamd_scoring_check := rspamd_scoring_check (shown fl an),
      rspamd_scoring_value := rspamd_scoring_value (shown fl an),
      rspamd_milter_check := rspamd_milter_check (shown fl an),
      mysql_connection_check := mysql_connection_check (shown fl an),
      mysql_query_check := mysql_query_check (shown fl an),
      mysql_table_count := mysql_table_count (shown fl an)\<rparr>"
  have run: "exporter_check generate_latest fl an g = (Inr (generate_latest ?h), ?h)"
    by (simp add: exporter_check_def seqM_def bindM_def gets_def check_rspamd_scoring_run
        check_rspamd_milter_run check_mysql_query_run)
  have "?h = shown fl an" by (cases g) (simp add: shown_def)
  then show ?thesis by (simp only: run)
qed

end
