(* ===== verification/Dockerapi.thy ===== *)
theory Dockerapi
  imports Exceptions Json
begin

text \<open>
  The service in front of the Docker daemon, src/backend/taramail/dockerapi.py. The library aiodocker
  and the daemon are parameters: the list of containers with some labels, what \<open>show()\<close> answers for a
  container, and the attributes of a container. An attribute is a coroutine function, another function
  (which runs before \<open>await\<close> refuses its result), or a value that cannot be called.
\<close>

datatype 's attribute =
    Coroutine "('s, py_exn, unit) sem"
  | Plain "('s, py_exn, unit) sem"
  | Constant

record ('s, 'c) docker =
  dk_list :: "(string \<times> string) list \<Rightarrow> ('s, py_exn, 'c list) sem"
  dk_labels :: "'c \<Rightarrow> ('s, py_exn, (string, string) dict) sem"
  dk_attribute :: "'c \<Rightarrow> string \<Rightarrow> 's attribute option"
  dk_id :: "'c \<Rightarrow> string"

record 'c docker_service =
  ds_name :: string
  ds_containers :: "'c list"

section \<open>Services\<close>

definition project_label :: string where
  "project_label = ''com.docker.compose.project''"

definition service_label :: string where
  "service_label = ''com.docker.compose.service''"

text \<open>\<open>func()\<close> and \<open>await\<close> of what it returns.\<close>

definition call_attribute :: "'s attribute \<Rightarrow> ('s, py_exn, unit) sem" where
  "call_attribute a =
     (case a of
        Coroutine m \<Rightarrow> m
      | Plain m \<Rightarrow> seqM m (throw (TypeError ''object cannot be used in 'await' expression''))
      | Constant \<Rightarrow> throw (TypeError ''object is not callable''))"

definition service_call ::
  "('s, 'c) docker \<Rightarrow> string \<Rightarrow> 'c docker_service \<Rightarrow> ('s, py_exn, unit) sem" where
  "service_call dk action service =
     forM (ds_containers service) (\<lambda>container.
       case dk_attribute dk container action of
         None \<Rightarrow> throw (DockerapiNotFoundError (''Action not found: '' @ action))
       | Some a \<Rightarrow> call_attribute a)"

text \<open>\<open>services.setdefault(name, DockerapiService(name))\<close>, then the container is appended.\<close>

definition add_container :: "string \<Rightarrow> 'c \<Rightarrow> (string, 'c list) dict \<Rightarrow> (string, 'c list) dict" where
  "add_container name c services =
     dict_set name ((case map_of services name of None \<Rightarrow> [] | Some cs \<Rightarrow> cs) @ [c]) services"

fun collect_services ::
  "('s, 'c) docker \<Rightarrow> (string, 'c list) dict \<Rightarrow> 'c list \<Rightarrow> ('s, py_exn, (string, 'c list) dict) sem" where
  "collect_services dk services [] = ret services"
| "collect_services dk services (c # cs) =
     bindM (dk_labels dk c) (\<lambda>labels.
       case map_of labels service_label of
         None \<Rightarrow> throw (KeyError service_label)
       | Some name \<Rightarrow> collect_services dk (add_container name c services) cs)"

definition get_services ::
  "('s, 'c) docker \<Rightarrow> string \<Rightarrow> ('s, py_exn, 'c docker_service list) sem" where
  "get_services dk project =
     bindM (dk_list dk [(project_label, project)]) (\<lambda>cs.
       bindM (collect_services dk [] cs) (\<lambda>services.
         ret (map (\<lambda>(n, cs). \<lparr>ds_name = n, ds_containers = cs\<rparr>) services)))"

definition get_service ::
  "('s, 'c) docker \<Rightarrow> string \<Rightarrow> string \<Rightarrow> ('s, py_exn, 'c docker_service) sem" where
  "get_service dk project name =
     bindM (dk_list dk [(project_label, project), (service_label, name)]) (\<lambda>cs.
       seqM (raise_when (cs = []) (DockerapiNotFoundError (''Service not found: '' @ name)))
            (ret \<lparr>ds_name = name, ds_containers = cs\<rparr>))"

section \<open>Endpoints\<close>

definition show_service :: "('s, 'c) docker \<Rightarrow> 'c docker_service \<Rightarrow> json" where
  "show_service dk service =
     JObject [(''name'', JString (ds_name service)),
       (''containers'', JArray (map (\<lambda>c. JString (dk_id dk c)) (ds_containers service)))]"

text \<open>The handlers of exceptions: the status and the content of the response.\<close>

definition docker_error :: "py_exn \<Rightarrow> int \<times> json" where
  "docker_error e =
     (case e of
        DockerapiNotFoundError m \<Rightarrow>
          (404, JObject [(''message'', JString ''DockerapiNotFoundError''), (''detail'', JString m)])
      | _ \<Rightarrow> (500, JObject [(''message'', JString ''Unhandled exception'')]))"

definition docker_respond :: "('s, py_exn, json) sem \<Rightarrow> 's \<Rightarrow> (int \<times> json) \<times> 's" where
  "docker_respond m s = (case m s of (Inl e, t) \<Rightarrow> (docker_error e, t) | (Inr v, t) \<Rightarrow> ((200, v), t))"

definition endpoint_services :: "('s, 'c) docker \<Rightarrow> string \<Rightarrow> 's \<Rightarrow> (int \<times> json) \<times> 's" where
  "endpoint_services dk project =
     docker_respond (bindM (get_services dk project) (\<lambda>ss. ret (JArray (map (show_service dk) ss))))"

definition endpoint_service :: "('s, 'c) docker \<Rightarrow> string \<Rightarrow> string \<Rightarrow> 's \<Rightarrow> (int \<times> json) \<times> 's" where
  "endpoint_service dk project name =
     docker_respond (bindM (get_service dk project name) (\<lambda>s. ret (show_service dk s)))"

definition endpoint_service_action ::
  "('s, 'c) docker \<Rightarrow> string \<Rightarrow> string \<Rightarrow> string \<Rightarrow> 's \<Rightarrow> (int \<times> json) \<times> 's" where
  "endpoint_service_action dk project name action =
     docker_respond (bindM (get_service dk project name) (\<lambda>service.
       seqM (service_call dk action service)
            (ret (JObject [(''message'', JString ''action completed successfully'')]))))"

section \<open>Grouping by service\<close>

definition label_all :: "('c \<times> string) list \<Rightarrow> (string, 'c list) dict \<Rightarrow> (string, 'c list) dict" where
  "label_all xs services = foldl (\<lambda>d (c, n). add_container n c d) services xs"

lemma collect_services_run:
  assumes "\<forall>x \<in> set xs. \<forall>s. \<exists>labels. dk_labels dk (fst x) s = (Inr labels, s) \<and>
    map_of labels service_label = Some (snd x)"
  shows "collect_services dk services (map fst xs) s = (Inr (label_all xs services), s)"
  using assms
proof (induction xs arbitrary: services)
  case (Cons x xs)
  obtain labels where "dk_labels dk (fst x) s = (Inr labels, s)" "map_of labels service_label = Some (snd x)"
    using Cons.prems by (meson list.set_intros(1))
  with Cons show ?case by (simp add: bindM_def label_all_def split_beta)
qed (simp add: label_all_def ret_def)

lemma map_of_label_all:
  "map_of (label_all xs []) n =
    (if n \<in> snd ` set xs then Some (map fst (filter (\<lambda>x. snd x = n) xs)) else None)"
proof (induction xs rule: rev_induct)
  case (snoc x xs)
  obtain c m where x: "x = (c, m)" by (cases x)
  have none: "filter (\<lambda>x. snd x = m) xs = []" if "m \<notin> snd ` set xs"
    using that by (auto simp: filter_empty_conv)
  have "label_all (xs @ [x]) [] = add_container m c (label_all xs [])" by (simp add: label_all_def x)
  with snoc none show ?case by (cases "n = m") (auto simp: add_container_def x)
qed (simp add: label_all_def)

lemma distinct_label_all: "distinct (dict_keys (label_all xs []))"
proof (induction xs rule: rev_induct)
  case (snoc x xs)
  then show ?case by (cases x) (simp add: label_all_def add_container_def distinct_dict_set)
qed (simp add: label_all_def dict_keys_def)

text \<open>What the code relies on of the daemon when it reads the labels of the containers \<open>xs\<close>.\<close>

definition daemon_lists ::
  "('s, 'c) docker \<Rightarrow> string \<Rightarrow> ('c \<times> string) list \<Rightarrow> 's \<Rightarrow> bool" where
  "daemon_lists dk project xs s \<longleftrightarrow>
     dk_list dk [(project_label, project)] s = (Inr (map fst xs), s) \<and>
     (\<forall>x \<in> set xs. \<forall>t. \<exists>labels. dk_labels dk (fst x) t = (Inr labels, t) \<and>
       map_of labels service_label = Some (snd x))"

text \<open>
  \<open>get_services\<close> returns every service that has a container once, with all containers labelled with
  its name, in the order of the daemon, and nothing else.
\<close>
theorem get_services_groups:
  assumes "daemon_lists dk project xs s"
  shows "\<exists>ss. get_services dk project s = (Inr ss, s) \<and> distinct (map ds_name ss) \<and>
    set ss = {\<lparr>ds_name = n, ds_containers = map fst (filter (\<lambda>x. snd x = n) xs)\<rparr> | n. n \<in> snd ` set xs}"
proof -
  let ?d = "label_all xs []"
  let ?ss = "map (\<lambda>(n, cs). \<lparr>ds_name = n, ds_containers = cs\<rparr>) ?d"
  have run: "get_services dk project s = (Inr ?ss, s)"
    using assms collect_services_run [of xs dk "[]" s]
    by (simp add: daemon_lists_def get_services_def bindM_def ret_def)
  have keys: "map ds_name ?ss = dict_keys ?d" by (simp add: dict_keys_def comp_def split_beta)
  have member: "(n, cs) \<in> set ?d \<longleftrightarrow>
      n \<in> snd ` set xs \<and> cs = map fst (filter (\<lambda>x. snd x = n) xs)" for n cs
  proof -
    have "(n, cs) \<in> set ?d \<longleftrightarrow> map_of ?d n = Some cs"
      using distinct_label_all [of xs] by (simp add: dict_keys_def)
    then show ?thesis unfolding map_of_label_all by (simp add: eq_commute [of cs])
  qed
  have "set ?ss =
      {\<lparr>ds_name = n, ds_containers = map fst (filter (\<lambda>x. snd x = n) xs)\<rparr> | n. n \<in> snd ` set xs}"
  proof (intro set_eqI iffI)
    fix v assume "v \<in> set ?ss"
    then obtain n cs where v: "v = \<lparr>ds_name = n, ds_containers = cs\<rparr>" and nc: "(n, cs) \<in> set ?d" by auto
    from nc show "v \<in> {\<lparr>ds_name = n, ds_containers = map fst (filter (\<lambda>x. snd x = n) xs)\<rparr> | n. n \<in> snd ` set xs}"
      unfolding v member by blast
  next
    fix v assume "v \<in> {\<lparr>ds_name = n, ds_containers = map fst (filter (\<lambda>x. snd x = n) xs)\<rparr> | n. n \<in> snd ` set xs}"
    then obtain n where v: "v = \<lparr>ds_name = n, ds_containers = map fst (filter (\<lambda>x. snd x = n) xs)\<rparr>"
      and n: "n \<in> snd ` set xs" by blast
    have "(n, map fst (filter (\<lambda>x. snd x = n) xs)) \<in> set ?d" unfolding member using n by simp
    from imageI [OF this, of "\<lambda>(n, cs). \<lparr>ds_name = n, ds_containers = cs\<rparr>"] show "v \<in> set ?ss"
      unfolding v by simp
  qed
  with run keys distinct_label_all show ?thesis by metis
qed

definition sample_containers :: "(string \<times> string) list" where
  "sample_containers = [(''a1'', ''sogo''), (''b1'', ''nginx''), (''a2'', ''sogo'')]"

definition sample_docker :: "(string list, string \<times> string) docker" where
  "sample_docker =
     \<lparr>dk_list = (\<lambda>labels s. (Inr (filter (\<lambda>c. case map_of labels service_label of
         None \<Rightarrow> True | Some n \<Rightarrow> snd c = n) sample_containers), s)),
      dk_labels = (\<lambda>c s. (Inr [(service_label, snd c)], s)),
      dk_attribute = (\<lambda>c action.
        if action = ''restart'' then Some (Coroutine (\<lambda>s. (Inr (), s @ [fst c]))) else None),
      dk_id = fst\<rparr>"

lemma get_services_groups_witness:
  "\<exists>ss. get_services sample_docker ''taramail'' [] = (Inr ss, []) \<and> distinct (map ds_name ss) \<and>
    set ss = {\<lparr>ds_name = n, ds_containers = map fst (filter (\<lambda>x. snd x = n)
      (map (\<lambda>c. (c, snd c)) sample_containers))\<rparr> | n. n \<in> snd ` set (map (\<lambda>c. (c, snd c)) sample_containers)}"
proof (rule get_services_groups)
  have "project_label \<noteq> service_label" by code_simp
  then show "daemon_lists sample_docker ''taramail'' (map (\<lambda>c. (c, snd c)) sample_containers) []"
    by (simp add: daemon_lists_def sample_docker_def comp_def)
qed

section \<open>Actions\<close>

lemma service_call_all:
  assumes "\<forall>c \<in> set cs. dk_attribute dk c action = Some (Coroutine (\<lambda>s. (Inr (), effect c s)))"
  shows "service_call dk action \<lparr>ds_name = name, ds_containers = cs\<rparr> s = (Inr (), fold effect cs s)"
  using assms
  by (induction cs arbitrary: s)
    (simp_all add: service_call_def call_attribute_def seqM_def bindM_def ret_def)

text \<open>
  C21. An action on a service: with no container of the service, or when its first container has no such
  action, the answer is 404 and nothing was done; when every container has the action and it succeeds,
  it ran once on each, in order, and the answer is 200.
\<close>
theorem service_action_outcome:
  assumes "dk_list dk [(project_label, project), (service_label, name)] s = (Inr cs, s)"
  shows "(cs = [] \<longrightarrow> endpoint_service_action dk project name action s =
      (docker_error (DockerapiNotFoundError (''Service not found: '' @ name)), s)) \<and>
    (cs \<noteq> [] \<and> dk_attribute dk (hd cs) action = None \<longrightarrow>
      endpoint_service_action dk project name action s =
      (docker_error (DockerapiNotFoundError (''Action not found: '' @ action)), s)) \<and>
    (cs \<noteq> [] \<and> (\<forall>c \<in> set cs. dk_attribute dk c action = Some (Coroutine (\<lambda>s. (Inr (), effect c s)))) \<longrightarrow>
      endpoint_service_action dk project name action s =
      ((200, JObject [(''message'', JString ''action completed successfully'')]), fold effect cs s))"
proof (intro conjI impI)
  assume "cs = []"
  with assms show "endpoint_service_action dk project name action s =
      (docker_error (DockerapiNotFoundError (''Service not found: '' @ name)), s)"
    by (simp add: endpoint_service_action_def docker_respond_def get_service_def bindM_def seqM_def
        raise_when_def throw_def)
next
  assume "cs \<noteq> [] \<and> dk_attribute dk (hd cs) action = None"
  with assms show "endpoint_service_action dk project name action s =
      (docker_error (DockerapiNotFoundError (''Action not found: '' @ action)), s)"
    by (cases cs) (simp_all add: endpoint_service_action_def docker_respond_def get_service_def bindM_def seqM_def
        raise_when_def throw_def ret_def service_call_def)
next
  assume "cs \<noteq> [] \<and> (\<forall>c \<in> set cs. dk_attribute dk c action = Some (Coroutine (\<lambda>s. (Inr (), effect c s))))"
  with assms service_call_all [of cs dk action effect name s]
  show "endpoint_service_action dk project name action s =
      ((200, JObject [(''message'', JString ''action completed successfully'')]), fold effect cs s)"
    by (simp add: endpoint_service_action_def docker_respond_def get_service_def bindM_def seqM_def
        raise_when_def ret_def)
qed

lemma service_action_outcome_witness:
  "endpoint_service_action sample_docker ''taramail'' ''sogo'' ''restart'' [] =
     ((200, JObject [(''message'', JString ''action completed successfully'')]), [''a1'', ''a2''])"
proof -
  have "project_label \<noteq> service_label" by code_simp
  then have "dk_list sample_docker [(project_label, ''taramail''), (service_label, ''sogo'')] [] =
      (Inr [(''a1'', ''sogo''), (''a2'', ''sogo'')], [])"
    by (simp add: sample_docker_def sample_containers_def)
  from service_action_outcome [OF this, of "''restart''" "\<lambda>c s. s @ [fst c]"] show ?thesis
    by (simp add: sample_docker_def)
qed

end
