(* ===== verification/Cli.thy ===== *)
theory Cli
  imports Exceptions Json
begin

text \<open>
  The command-line client, src/backend/taramail/cli.py: the parser it builds from the OpenAPI document
  of the API, the request it makes of the parsed arguments, and its entry point. The parser of argparse
  is the list of the arguments that were added; the reading of a command line against it, the library
  lookuper, the HTTP session and what \<open>str\<close> prints of a value are parameters. A document is JSON whose
  names are strings.
\<close>

text \<open>\<open>RequestException\<close> has the text of a response, or none when there was no response.\<close>

datatype cli_exn = RequestException "string option" | ArgumentError string | PyError py_exn

section \<open>Documents\<close>

definition doc_item :: "string \<Rightarrow> json \<Rightarrow> ('s, cli_exn, json) sem" where
  "doc_item key v =
     (case v of
        JObject d \<Rightarrow> (case map_of d key of None \<Rightarrow> throw (PyError (KeyError key)) | Some x \<Rightarrow> ret x)
      | _ \<Rightarrow> throw (PyError (TypeError key)))"

definition doc_get :: "string \<Rightarrow> json \<Rightarrow> json \<Rightarrow> ('s, cli_exn, json) sem" where
  "doc_get key default_value v =
     (case v of
        JObject d \<Rightarrow> ret (case map_of d key of None \<Rightarrow> default_value | Some x \<Rightarrow> x)
      | _ \<Rightarrow> throw (PyError (AttributeError ''get'')))"

definition doc_items :: "json \<Rightarrow> ('s, cli_exn, (string, json) dict) sem" where
  "doc_items v = (case v of JObject d \<Rightarrow> ret d | _ \<Rightarrow> throw (PyError (AttributeError ''items'')))"

definition doc_elements :: "json \<Rightarrow> ('s, cli_exn, json list) sem" where
  "doc_elements v =
     (case v of
        JArray xs \<Rightarrow> ret xs
      | JObject d \<Rightarrow> ret (map (\<lambda>e. JString (fst e)) d)
      | JString s \<Rightarrow> ret (map (\<lambda>c. JString [c]) s)
      | _ \<Rightarrow> throw (PyError (TypeError ''not iterable'')))"

definition doc_string :: "json \<Rightarrow> ('s, cli_exn, string) sem" where
  "doc_string v = (case v of JString s \<Rightarrow> ret s | _ \<Rightarrow> throw (PyError (TypeError ''str'')))"

definition doc_contains :: "string \<Rightarrow> json \<Rightarrow> ('s, cli_exn, bool) sem" where
  "doc_contains x v =
     (case v of
        JArray xs \<Rightarrow> ret (JString x \<in> set xs)
      | JObject d \<Rightarrow> ret (x \<in> set (dict_keys d))
      | JString s \<Rightarrow> ret (list_ex (\<lambda>i. starts_with x (drop i s)) [0..<Suc (length s)])
      | _ \<Rightarrow> throw (PyError (TypeError ''not iterable'')))"

text \<open>The truth of a value; a number is false when its mantissa has no digit but 0.\<close>

fun json_truthy :: "json \<Rightarrow> bool" where
  "json_truthy JNull = False"
| "json_truthy (JBool b) = b"
| "json_truthy (JNumber n) =
     list_ex (\<lambda>c. c \<in> set ''123456789NI'') (takeWhile (\<lambda>c. c \<noteq> CHR ''e'' \<and> c \<noteq> CHR ''E'') n)"
| "json_truthy (JString s) = (s \<noteq> [])"
| "json_truthy (JArray xs) = (xs \<noteq> [])"
| "json_truthy (JObject d) = (d \<noteq> [])"

section \<open>Arguments\<close>

datatype arg_type = ABool | AInt | AFloat | AStr

text \<open>A list or a dict cannot be hashed.\<close>

definition get_arg_type :: "json \<Rightarrow> ('s, cli_exn, arg_type) sem" where
  "get_arg_type arg =
     (case arg of
        JString s \<Rightarrow>
          ret (case map_of [(''boolean'', ABool), (''integer'', AInt), (''number'', AFloat), (''string'', AStr)] s of
                 None \<Rightarrow> AStr | Some t \<Rightarrow> t)
      | JArray _ \<Rightarrow> throw (PyError (TypeError ''unhashable type''))
      | JObject _ \<Rightarrow> throw (PyError (TypeError ''unhashable type''))
      | _ \<Rightarrow> ret AStr)"

datatype arg_action = Store arg_type | StoreTrue | StoreFalse | StoreOutput

text \<open>An argument as \<open>add_argument\<close> was called: its flag or name, and \<open>dest\<close> when it was given.\<close>

record argument =
  ag_flag :: string
  ag_dest :: "string option"
  ag_action :: arg_action
  ag_default :: json
  ag_help :: json

definition is_option :: "argument \<Rightarrow> bool" where
  "is_option a \<longleftrightarrow> starts_with ''-'' (ag_flag a)"

text \<open>The attribute of the namespace that the argument sets.\<close>

definition dest_of :: "argument \<Rightarrow> string" where
  "dest_of a =
     (case ag_dest a of
        Some d \<Rightarrow> d
      | None \<Rightarrow>
          if is_option a then replace_char (CHR ''-'') ''_'' (dropWhile (\<lambda>c. c = CHR ''-'') (ag_flag a))
          else ag_flag a)"

text \<open>Every parser has the options \<open>-h\<close> and \<open>--help\<close>.\<close>

definition add_argument :: "argument \<Rightarrow> argument list \<Rightarrow> ('s, cli_exn, argument list) sem" where
  "add_argument a args =
     (if is_option a \<and> (ag_flag a \<in> {''-h'', ''--help''} \<or> ag_flag a \<in> ag_flag ` set args)
      then throw (ArgumentError (''conflicting option string: '' @ ag_flag a))
      else ret (args @ [a]))"

definition make_args_parser :: "argument list" where
  "make_args_parser =
     [\<lparr>ag_flag = ''--no-verify'', ag_dest = None, ag_action = StoreTrue, ag_default = JBool False,
       ag_help = JString ''Do not verify the SSL certificate.''\<rparr>,
      \<lparr>ag_flag = ''--output'', ag_dest = None, ag_action = StoreOutput, ag_default = JString ''<stdout>'',
       ag_help = JString ''output file (default: stdout)''\<rparr>]"

type_synonym keys = "(string, string) dict"

fun add_parameter_args ::
  "argument list \<Rightarrow> keys \<Rightarrow> json list \<Rightarrow> ('s, cli_exn, argument list \<times> keys) sem" where
  "add_parameter_args args keys [] = ret (args, keys)"
| "add_parameter_args args keys (param # params) =
     bindM (bindM (doc_item ''in'' param) doc_string) (\<lambda>place.
     bindM (bindM (doc_item ''name'' param) doc_string) (\<lambda>name.
     bindM (doc_get ''required'' (JBool False) param) (\<lambda>required.
     bindM (doc_item ''schema'' param) (\<lambda>schema.
     bindM (bindM (doc_get ''type'' JNull schema) get_arg_type) (\<lambda>t.
     bindM (doc_get ''title'' JNull schema) (\<lambda>title.
     bindM (add_argument
              \<lparr>ag_flag = (if json_truthy required then name else ''--'' @ name), ag_dest = None,
               ag_action = Store t, ag_default = JNull, ag_help = title\<rparr> args) (\<lambda>args.
       add_parameter_args args (dict_set name place keys) params)))))))"

text \<open>The argument of one property of the body, whose name is not made of dashes alone.\<close>

definition body_argument :: "string \<Rightarrow> bool \<Rightarrow> json \<Rightarrow> arg_type \<Rightarrow> json \<Rightarrow> argument" where
  "body_argument name required default_value t title =
     (let negated = t = ABool \<and> json_truthy default_value;
          flag = (if required then [] else ''--'') @ (if negated then ''no_'' else []) @ name
      in \<lparr>ag_flag = (if required then flag else replace_char (CHR ''_'') ''-'' flag),
          ag_dest = (if required then None else Some name),
          ag_action = (if t = ABool then if negated then StoreFalse else StoreTrue else Store t),
          ag_default = default_value, ag_help = title\<rparr>)"

fun add_properties ::
  "argument list \<Rightarrow> keys \<Rightarrow> json \<Rightarrow> (string, json) dict \<Rightarrow> ('s, cli_exn, argument list \<times> keys) sem" where
  "add_properties args keys required_fields [] = ret (args, keys)"
| "add_properties args keys required_fields ((name, details) # props) =
     bindM (doc_contains name required_fields) (\<lambda>required.
     bindM (doc_get ''default'' JNull details) (\<lambda>default_value.
     bindM (bindM (doc_get ''type'' JNull details) get_arg_type) (\<lambda>t.
     bindM (doc_get ''title'' JNull details) (\<lambda>title.
     bindM (add_argument (body_argument name required default_value t title) args) (\<lambda>args.
       add_properties args (dict_set name ''body'' keys) required_fields props)))))"

definition add_body_args ::
  "argument list \<Rightarrow> json \<Rightarrow> json \<Rightarrow> ('s, cli_exn, argument list \<times> keys) sem" where
  "add_body_args args content_schema required_fields =
     bindM (doc_get ''properties'' (JObject []) content_schema) (\<lambda>p.
       bindM (doc_items p) (\<lambda>props. add_properties args [] required_fields props))"

text \<open>\<open>only(xs)\<close>: the single value, \<open>None\<close> for none.\<close>

definition only :: "json list \<Rightarrow> ('s, cli_exn, json) sem" where
  "only xs =
     (case xs of
        [] \<Rightarrow> ret JNull
      | [x] \<Rightarrow> ret x
      | _ \<Rightarrow> throw (PyError (ValueError ''Expected exactly one item in iterable'')))"

definition resolve_schema_ref ::
  "(json \<Rightarrow> string list \<Rightarrow> json list) \<Rightarrow> json \<Rightarrow> json \<Rightarrow> ('s, cli_exn, json) sem" where
  "resolve_schema_ref lookup schema content_schema =
     bindM (doc_get ''$ref'' JNull content_schema) (\<lambda>r.
       if json_truthy r
       then bindM (doc_string r) (\<lambda>s. only (lookup schema (tl (split_on (CHR ''/'') s))))
       else ret content_schema)"

record command =
  cm_name :: string
  cm_help :: json
  cm_arguments :: "argument list"
  cm_method :: string
  cm_path :: string
  cm_keys :: keys

definition command_of ::
  "(json \<Rightarrow> string list \<Rightarrow> json list) \<Rightarrow> json \<Rightarrow> string list \<Rightarrow> string \<Rightarrow> string \<Rightarrow> json \<Rightarrow>
     ('s, cli_exn, command) sem" where
  "command_of lookup schema taken path method details =
     (let default_name = method @ ''_'' @
        replace_char (CHR ''/'') ''_''
          (rstrip_by (\<lambda>c. c = CHR ''/'') (lstrip_by (\<lambda>c. c = CHR ''/'') path)) in
      bindM (bindM (doc_get ''operationId'' (JString default_name) details) doc_string) (\<lambda>name.
      bindM (doc_get ''summary'' (JString ''No summary available'') details) (\<lambda>summary.
      seqM (raise_when (name \<in> set taken) (ArgumentError (''conflicting subparser: '' @ name)))
      (bindM (bindM (doc_get ''parameters'' (JArray []) details) doc_elements) (\<lambda>params.
       bindM (add_parameter_args [] [] params) (\<lambda>(args, keys).
       bindM (only (lookup details [''requestBody'', ''content'', ''application/json'', ''schema''])) (\<lambda>content.
       bindM
         (if \<not> json_truthy content then ret (args, keys)
          else bindM (resolve_schema_ref lookup schema content) (\<lambda>content_schema.
               bindM (doc_get ''required'' (JArray []) content_schema) (\<lambda>required_fields.
               bindM (add_body_args args content_schema required_fields) (\<lambda>(args, body_keys).
                 ret (args, dict_update keys body_keys)))))
         (\<lambda>(args, keys).
           ret \<lparr>cm_name = name, cm_help = summary, cm_arguments = args, cm_method = method,
                cm_path = path, cm_keys = keys\<rparr>))))))))"

fun add_methods ::
  "(json \<Rightarrow> string list \<Rightarrow> json list) \<Rightarrow> json \<Rightarrow> string \<Rightarrow> command list \<Rightarrow> (string, json) dict \<Rightarrow>
     ('s, cli_exn, command list) sem" where
  "add_methods lookup schema path cmds [] = ret cmds"
| "add_methods lookup schema path cmds ((method, details) # methods) =
     (if method = ''head'' then add_methods lookup schema path cmds methods
      else bindM (command_of lookup schema (map cm_name cmds) path method details) (\<lambda>c.
             add_methods lookup schema path (cmds @ [c]) methods))"

fun add_paths ::
  "(json \<Rightarrow> string list \<Rightarrow> json list) \<Rightarrow> json \<Rightarrow> command list \<Rightarrow> (string, json) dict \<Rightarrow>
     ('s, cli_exn, command list) sem" where
  "add_paths lookup schema cmds [] = ret cmds"
| "add_paths lookup schema cmds ((path, methods) # paths) =
     bindM (doc_items methods) (\<lambda>ms.
       bindM (add_methods lookup schema path cmds ms) (\<lambda>cmds. add_paths lookup schema cmds paths))"

definition add_command_args ::
  "(json \<Rightarrow> string list \<Rightarrow> json list) \<Rightarrow> json \<Rightarrow> ('s, cli_exn, command list) sem" where
  "add_command_args lookup schema =
     bindM (bindM (doc_get ''paths'' (JObject []) schema) doc_items) (add_paths lookup schema [])"

section \<open>Requests\<close>

record http_request =
  rq_method :: string
  rq_path :: string
  rq_params :: "(string, json) dict"
  rq_json :: "(string, json) dict"
  rq_headers :: "(string, string) dict"
  rq_verify :: bool

text \<open>\<open>path.format(...)\<close> for fields that are names; doubled braces stand for themselves.\<close>

function format_path :: "(json \<Rightarrow> string) \<Rightarrow> (string, json) dict \<Rightarrow> string \<Rightarrow> ('s, cli_exn, string) sem" where
  "format_path show values [] = ret []"
| "format_path show values (c # s) =
     (if c = CHR ''{''
      then (if starts_with ''{'' s
            then bindM (format_path show values (drop 1 s)) (\<lambda>t. ret (CHR ''{'' # t))
            else if CHR ''}'' \<notin> set s then throw (PyError (ValueError ''expected '}' before end of string''))
            else (case map_of values (before (CHR ''}'') s) of
                    None \<Rightarrow> throw (PyError (KeyError (before (CHR ''}'') s)))
                  | Some v \<Rightarrow> bindM (format_path show values (after (CHR ''}'') s)) (\<lambda>t. ret (show v @ t))))
      else if c = CHR ''}''
      then (if starts_with ''}'' s
            then bindM (format_path show values (drop 1 s)) (\<lambda>t. ret (CHR ''}'' # t))
            else throw (PyError (ValueError ''Single '}' encountered in format string'')))
      else bindM (format_path show values s) (\<lambda>t. ret (c # t)))"
  by pat_completeness auto
termination
  by (relation "measure (\<lambda>(_, _, s). length s)") (auto simp: less_Suc_eq_le length_after)

text \<open>The arguments whose key is \<open>place\<close>.\<close>

definition bucket_of :: "keys \<Rightarrow> string \<Rightarrow> (string, json) dict \<Rightarrow> (string, json) dict" where
  "bucket_of keys place args = filter (\<lambda>a. map_of keys (fst a) = Some place) args"

definition call_request ::
  "(json \<Rightarrow> string) \<Rightarrow> string \<Rightarrow> string \<Rightarrow> (string, json) dict \<Rightarrow> keys \<Rightarrow> ('s, cli_exn, http_request) sem" where
  "call_request show method path args keys =
     (let body = bucket_of keys ''body'' args in
      bindM (format_path show (bucket_of keys ''path'' args) path) (\<lambda>p.
        ret \<lparr>rq_method = upper method, rq_path = p, rq_params = bucket_of keys ''query'' args,
             rq_json = body,
             rq_headers = (if body \<noteq> [] then [(''Content-Type'', ''application/json'')] else []),
             rq_verify = \<not> json_truthy (case map_of args ''no_verify'' of None \<Rightarrow> JBool False | Some v \<Rightarrow> v)\<rparr>))"

text \<open>\<open>response.json()\<close> raises a \<open>RequestException\<close> without a response.\<close>

definition response_json :: "string \<Rightarrow> ('s, cli_exn, json) sem" where
  "response_json body =
     (case loads body of None \<Rightarrow> throw (RequestException None) | Some v \<Rightarrow> ret v)"

definition call_api ::
  "(http_request \<Rightarrow> ('s, cli_exn, string) sem) \<Rightarrow> (json \<Rightarrow> string) \<Rightarrow> string \<Rightarrow> string \<Rightarrow>
     (string, json) dict \<Rightarrow> keys \<Rightarrow> ('s, cli_exn, json) sem" where
  "call_api session show method path args keys =
     bindM (call_request show method path args keys) (\<lambda>r. bindM (session r) response_json)"

section \<open>The entry point\<close>

definition default_api_url :: string where
  "default_api_url = ''https://mail.taram.ca/''"

text \<open>
  The document is fetched with the certificate verified when the origin of the session equals the
  default URL; \<open>url_eq u s\<close> is \<open>URL(u) == s\<close>, of the library yarl. \<open>get path verify\<close> is the request.
\<close>

definition get_openapi_schema ::
  "(string \<Rightarrow> string \<Rightarrow> bool) \<Rightarrow> (string \<Rightarrow> bool \<Rightarrow> ('s, cli_exn, string) sem) \<Rightarrow> string \<Rightarrow>
     ('s, cli_exn, json) sem" where
  "get_openapi_schema url_eq get origin =
     (let verify = url_eq origin default_api_url
      in bindM (get ''/api/openapi.json'' verify) response_json)"

text \<open>How the program ends: with the data it writes, an exit status and a message, or a traceback.\<close>

datatype cli_outcome = Written json | Exits int json | Traceback cli_exn

definition error_text :: "json \<Rightarrow> ('s, cli_exn, json) sem" where
  "error_text message =
     bindM (doc_get ''detail'' JNull message) (\<lambda>d.
       if json_truthy d then ret d else doc_item ''error'' message)"

text \<open>The handlers around \<open>args.func(...)\<close>.\<close>

definition handle_error :: "cli_exn \<Rightarrow> ('s, cli_exn, cli_outcome) sem" where
  "handle_error e =
     (case e of
        PyError x \<Rightarrow>
          (case x of AttributeError m \<Rightarrow> ret (Exits 2 (JString ''usage'')) | _ \<Rightarrow> throw e)
      | RequestException response \<Rightarrow>
          (case response of
             None \<Rightarrow> throw (PyError (AttributeError ''json''))
           | Some body \<Rightarrow>
               bindM (response_json body) (\<lambda>message.
                 bindM (error_text message) (\<lambda>t. ret (Exits 2 t))))
      | ArgumentError m \<Rightarrow> throw e)"

definition run_command ::
  "(http_request \<Rightarrow> ('s, cli_exn, string) sem) \<Rightarrow> (json \<Rightarrow> string) \<Rightarrow> command list \<Rightarrow>
     (string, json) dict \<Rightarrow> string option \<Rightarrow> ('s, cli_exn, json) sem" where
  "run_command session show cmds args chosen =
     (case chosen of
        None \<Rightarrow> throw (PyError (AttributeError ''func''))
      | Some name \<Rightarrow>
          (case filter (\<lambda>c. cm_name c = name) cmds of
             [] \<Rightarrow> throw (PyError (AttributeError ''func''))
           | c # _ \<Rightarrow> call_api session show (cm_method c) (cm_path c) args (cm_keys c)))"

text \<open>
  \<open>parse cmds argv\<close> is \<open>parse_args\<close>: an exit status, or the namespace and the command chosen.
\<close>

definition cli_main ::
  "(string \<Rightarrow> string \<Rightarrow> bool) \<Rightarrow> (string \<Rightarrow> bool \<Rightarrow> ('s, cli_exn, string) sem) \<Rightarrow>
     (http_request \<Rightarrow> ('s, cli_exn, string) sem) \<Rightarrow> (json \<Rightarrow> string) \<Rightarrow> (json \<Rightarrow> string list \<Rightarrow> json list) \<Rightarrow>
     (command list \<Rightarrow> string list \<Rightarrow> int + (string, json) dict \<times> string option) \<Rightarrow>
     string option \<Rightarrow> string list \<Rightarrow> ('s, cli_exn, cli_outcome) sem" where
  "cli_main url_eq get session show lookup parse api_url argv =
     (let origin = (case api_url of None \<Rightarrow> default_api_url | Some u \<Rightarrow> u) in
      bindM (catchM (bindM (get_openapi_schema url_eq get origin) (\<lambda>v. ret (Inr v)))
               (\<lambda>e. case e of RequestException r \<Rightarrow> ret (Inl e) | _ \<Rightarrow> throw e)) (\<lambda>fetched.
        case fetched of
          Inl e \<Rightarrow> ret (Exits 2 JNull)
        | Inr schema \<Rightarrow>
            bindM (add_command_args lookup schema) (\<lambda>cmds.
              case parse cmds argv of
                Inl status \<Rightarrow> ret (Exits status JNull)
              | Inr (args, chosen) \<Rightarrow>
                  catchM (bindM (run_command session show cmds args chosen) (\<lambda>v. ret (Written v)))
                    handle_error)))"

definition cli_outcome_of :: "cli_exn + cli_outcome \<Rightarrow> cli_outcome" where
  "cli_outcome_of r = (case r of Inl e \<Rightarrow> Traceback e | Inr v \<Rightarrow> v)"

section \<open>What a command sends\<close>

fun value_has_type :: "arg_type \<Rightarrow> json \<Rightarrow> bool" where
  "value_has_type ABool v = (\<exists>b. v = JBool b)"
| "value_has_type AInt v = (\<exists>n. v = JNumber n \<and> int_literal n)"
| "value_has_type AFloat v = (\<exists>n. v = JNumber n)"
| "value_has_type AStr v = (\<exists>x. v = JString x)"

text \<open>
  The namespace that argparse returns: the attribute of every argument is its default, or what its
  action stores.
\<close>

definition stores :: "argument \<Rightarrow> json \<Rightarrow> bool" where
  "stores a v \<longleftrightarrow>
     v = ag_default a \<or>
     (case ag_action a of
        Store t \<Rightarrow> value_has_type t v
      | StoreTrue \<Rightarrow> v = JBool True
      | StoreFalse \<Rightarrow> v = JBool False
      | StoreOutput \<Rightarrow> True)"

definition namespace_of :: "argument list \<Rightarrow> (string, json) dict \<Rightarrow> bool" where
  "namespace_of args ns \<longleftrightarrow>
     distinct (dict_keys ns) \<and> (\<forall>a \<in> set args. \<exists>v. map_of ns (dest_of a) = Some v \<and> stores a v)"

text \<open>What a property of a schema declares.\<close>

definition declared :: "string \<Rightarrow> json \<Rightarrow> json" where
  "declared key details =
     (case details of
        JObject d \<Rightarrow> (case map_of d key of None \<Rightarrow> JNull | Some x \<Rightarrow> x)
      | _ \<Rightarrow> JNull)"

text \<open>
  The values a schema allows, as JSON Schema has it: those of its type, one of the schemas of \<open>anyOf\<close>, and
  any value when it has neither.
\<close>

definition value_of_type :: "string \<Rightarrow> json \<Rightarrow> bool" where
  "value_of_type t v =
     (case v of
        JNull \<Rightarrow> t = ''null''
      | JBool b \<Rightarrow> t = ''boolean''
      | JNumber n \<Rightarrow> t = ''number'' \<or> t = ''integer'' \<and> int_literal n
      | JString x \<Rightarrow> t = ''string''
      | JArray xs \<Rightarrow> t = ''array''
      | JObject d \<Rightarrow> t = ''object'')"

definition allows :: "json \<Rightarrow> json \<Rightarrow> bool" where
  "allows details v =
     (case declared ''type'' details of
        JString t \<Rightarrow> value_of_type t v
      | _ \<Rightarrow>
          (case declared ''anyOf'' details of
             JArray options \<Rightarrow> list_ex (\<lambda>option.
               case declared ''type'' option of JString t \<Rightarrow> value_of_type t v | _ \<Rightarrow> True) options
           | _ \<Rightarrow> True))"

text \<open>A property whose schema declares one scalar type.\<close>

definition scalar_property :: "json \<Rightarrow> bool" where
  "scalar_property details \<longleftrightarrow>
     declared ''type'' details \<in> JString ` set [''boolean'', ''integer'', ''number'', ''string'']"

text \<open>The type that the client reads a property with.\<close>

definition parser_type :: "json \<Rightarrow> arg_type" where
  "parser_type details =
     (case declared ''type'' details of
        JString t \<Rightarrow>
          if t = ''boolean'' then ABool else if t = ''integer'' then AInt
          else if t = ''number'' then AFloat else AStr
      | _ \<Rightarrow> AStr)"

lemma parser_type_scalar:
  "scalar_property details \<Longrightarrow> value_has_type (parser_type details) v \<Longrightarrow> allows details v"
  by (auto simp: scalar_property_def parser_type_def allows_def value_of_type_def)

lemma parser_type_other: "\<not> scalar_property details \<Longrightarrow> parser_type details = AStr"
  by (auto simp: scalar_property_def parser_type_def split: json.split)

lemma doc_get_returns: "doc_get key JNull details s = (Inr v, t) \<Longrightarrow> v = declared key details \<and> t = s"
  by (auto simp: doc_get_def declared_def split: json.splits)

lemma parser_type_returns:
  assumes "get_arg_type (declared ''type'' details) s = (Inr ty, t)"
  shows "ty = parser_type details \<and> t = s"
  using assms
  by (auto simp: get_arg_type_def parser_type_def split: json.splits option.splits if_splits)

lemma add_argument_returns: "add_argument a args s = (Inr args', t) \<Longrightarrow> args' = args @ [a] \<and> t = s"
  by (auto simp: add_argument_def split: if_splits)

lemma doc_contains_reads: "doc_contains x v s = (Inr b, t) \<Longrightarrow> t = s"
  by (auto simp: doc_contains_def split: json.splits)

text \<open>The argument that was added for a property, whether it is required or not.\<close>

definition argument_for :: "string \<Rightarrow> bool \<Rightarrow> json \<Rightarrow> argument" where
  "argument_for name required details =
     body_argument name required (declared ''default'' details) (parser_type details)
       (declared ''title'' details)"

lemma add_properties_step:
  assumes "add_properties args keys req ((name, details) # props) s = (Inr r, t)"
  shows "\<exists>required. doc_contains name req s = (Inr required, s) \<and>
    add_properties (args @ [argument_for name required details]) (dict_set name ''body'' keys) req props s =
      (Inr r, t)"
proof -
  from assms obtain required d ty0 ty title u0 u1 u2 u3 u4 u5 added where
    step: "doc_contains name req s = (Inr required, u0)" "doc_get ''default'' JNull details u0 = (Inr d, u1)"
      "doc_get ''type'' JNull details u1 = (Inr ty0, u2)" "get_arg_type ty0 u2 = (Inr ty, u3)"
      "doc_get ''title'' JNull details u3 = (Inr title, u4)"
      "add_argument (body_argument name required d ty title) args u4 = (Inr added, u5)"
    and rest: "add_properties added (dict_set name ''body'' keys) req props u5 = (Inr r, t)"
    by (auto simp: sem_returns)
  have "u0 = s" using doc_contains_reads [OF step(1)] .
  moreover have "d = declared ''default'' details \<and> u1 = u0" using doc_get_returns [OF step(2)] .
  moreover have ty0: "ty0 = declared ''type'' details \<and> u2 = u1" using doc_get_returns [OF step(3)] .
  moreover have "ty = parser_type details \<and> u3 = u2" using parser_type_returns [OF step(4) [unfolded conjunct1 [OF ty0]]] .
  moreover have "title = declared ''title'' details \<and> u4 = u3" using doc_get_returns [OF step(5)] .
  moreover have "added = args @ [body_argument name required d ty title] \<and> u5 = u4"
    using add_argument_returns [OF step(6)] .
  ultimately show ?thesis using step(1) rest by (auto simp: argument_for_def)
qed

lemma add_properties_returns:
  assumes "add_properties args keys req props s = (Inr (args', keys'), t)"
  shows "set args \<subseteq> set args' \<and>
    (distinct (dict_keys keys) \<longrightarrow> distinct (dict_keys keys')) \<and>
    map_of keys' = (\<lambda>n. if n \<in> fst ` set props then Some ''body'' else map_of keys n) \<and>
    (\<forall>(name, details) \<in> set props. \<exists>required.
       doc_contains name req s = (Inr required, s) \<and> argument_for name required details \<in> set args')"
  using assms
proof (induction props arbitrary: args keys)
  case (Cons p props)
  obtain name details where p: "p = (name, details)" by (cases p)
  obtain required where required: "doc_contains name req s = (Inr required, s)"
    and rest: "add_properties (args @ [argument_for name required details]) (dict_set name ''body'' keys)
      req props s = (Inr (args', keys'), t)"
    using add_properties_step [OF Cons.prems [unfolded p]] by blast
  from Cons.IH [OF rest] required show ?case
    unfolding p using distinct_dict_set [of keys name "''body''"] by (auto simp: fun_eq_iff)
qed simp

text \<open>A required property without a default is an argument of its own name.\<close>

lemma replace_char_id: "c \<notin> set s \<Longrightarrow> replace_char c t s = s"
  by (induction s) (auto simp: replace_char_def)

lemma dest_of_argument_for:
  assumes "required \<Longrightarrow> \<not> json_truthy (declared ''default'' details) \<and> \<not> starts_with ''-'' name"
  shows "dest_of (argument_for name required details) = name"
  using assms
  by (auto simp: argument_for_def body_argument_def dest_of_def is_option_def Let_def)

lemma stores_argument_for:
  assumes "stores (argument_for name required details) v"
  shows "v = declared ''default'' details \<or> value_has_type (parser_type details) v"
  using assms
  by (auto simp: stores_def argument_for_def body_argument_def Let_def split: if_splits)

lemma map_of_rev_dict: "distinct (map fst d) \<Longrightarrow> map_of (rev d) = map_of d"
  by (intro map_of_inject_set [THEN iffD2]) (simp_all add: rev_map [symmetric])

lemma map_of_filter_keys:
  "map_of (filter (\<lambda>a. P (fst a)) d) k = (if P k then map_of d k else None)"
  by (induction d) auto

lemma map_of_bucket_of:
  "map_of (bucket_of keys place ns) k = (if map_of keys k = Some place then map_of ns k else None)"
  unfolding bucket_of_def by (rule map_of_filter_keys)

lemma call_request_returns:
  assumes "call_request show method path ns keys s = (Inr r, t)"
  shows "rq_json r = bucket_of keys ''body'' ns" "rq_params r = bucket_of keys ''query'' ns"
  using assms by (auto simp: call_request_def Let_def sem_returns)

text \<open>
  C22. The body that a command sends has one value for every property of its schema and nothing else: the
  default of the property, null without one, or, for a property that declares the type boolean, integer,
  number or string, a value its schema allows. A property that declares none of them, as the optional ones
  that FastAPI writes with \<open>anyOf\<close>, is read as a text, which is sent also where the schema allows none. This
  holds for schemas as FastAPI writes them, where a required property has no default, and for the namespace
  argparse returns.
\<close>
theorem cli_body_conforms:
  assumes "add_body_args args content_schema req s = (Inr (args', keys), s')"
    and schema: "declared ''properties'' content_schema = JObject props"
    and "namespace_of args' ns" and "''body'' \<notin> snd ` set places"
    and "\<forall>(name, details) \<in> set props. doc_contains name req s = (Inr True, s) \<longrightarrow>
      \<not> json_truthy (declared ''default'' details) \<and> \<not> starts_with ''-'' name"
    and "call_request show method path ns (dict_update places keys) u = (Inr r, u')"
  shows "dom (map_of (rq_json r)) = fst ` set props \<and>
    (\<forall>(name, details) \<in> set props. \<exists>v. map_of (rq_json r) name = Some v \<and>
      (v = declared ''default'' details \<or>
       (if scalar_property details then allows details v else \<exists>x. v = JString x)))"
proof -
  have "add_properties args [] req props s = (Inr (args', keys), s')"
    using assms(1) schema
    by (auto simp: add_body_args_def sem_returns doc_get_def doc_items_def declared_def
        split: json.splits option.splits)
  note added = add_properties_returns [OF this]
  have keys: "map_of (rev keys) = (\<lambda>n. if n \<in> fst ` set props then Some ''body'' else None)"
    using added by (simp add: map_of_rev_dict dict_keys_def fun_eq_iff)
  have place: "map_of (dict_update places keys) n = Some ''body'' \<longleftrightarrow> n \<in> fst ` set props" for n
    using assms(4) by (auto simp: keys map_add_def split: option.splits dest!: map_of_SomeD)
      (metis image_eqI snd_conv)
  have sent: "map_of (rq_json r) n = (if n \<in> fst ` set props then map_of ns n else None)" for n
    unfolding call_request_returns(1) [OF assms(6)] map_of_bucket_of place ..
  let ?ok = "\<lambda>details v. v = declared ''default'' details \<or>
      (if scalar_property details then allows details v else \<exists>x. v = JString x)"
  have given: "\<exists>v. map_of ns name = Some v \<and> ?ok details v" if "(name, details) \<in> set props" for name details
  proof -
    obtain required where a: "doc_contains name req s = (Inr required, s)"
      "argument_for name required details \<in> set args'"
      using added \<open>(name, details) \<in> set props\<close> by blast
    have "dest_of (argument_for name required details) = name"
      using assms(5) that a(1) by (intro dest_of_argument_for) auto
    with assms(3) a(2) obtain v where v: "map_of ns name = Some v"
      "stores (argument_for name required details) v" unfolding namespace_of_def by metis
    from stores_argument_for [OF v(2)] have "?ok details v"
      using parser_type_scalar [of details v] parser_type_other [of details] by auto
    with v(1) show ?thesis by blast
  qed
  show ?thesis
    using given by (auto simp: sent dom_def) (metis (no_types, lifting) image_eqI fst_conv)+
qed

text \<open>\<open>int | None\<close>, as FastAPI writes it.\<close>

definition optional_integer :: json where
  "optional_integer = JObject [(''anyOf'', JArray [JObject [(''type'', JString ''integer'')],
     JObject [(''type'', JString ''null'')]])]"

definition sample_schema :: json where
  "sample_schema = JObject [(''properties'', JObject
     [(''domain'', JObject [(''type'', JString ''string'')]),
      (''active'', JObject [(''type'', JString ''boolean''), (''default'', JBool True)]),
      (''max_quota'', JObject [(''type'', JString ''integer''), (''default'', JNumber ''10'')]),
      (''aliases'', optional_integer)])]"

definition sample_namespace :: "(string, json) dict" where
  "sample_namespace =
     [(''domain'', JString ''example.com''), (''active'', JBool False), (''max_quota'', JNumber ''5''),
      (''aliases'', JString ''7''),
      (''command'', JString ''create_domain'')]"

lemma cli_body_conforms_witness:
  "dom (map_of (bucket_of (map (\<lambda>n. (n, ''body'')) [''domain'', ''active'', ''max_quota'', ''aliases''])
      ''body'' sample_namespace)) = {''domain'', ''active'', ''max_quota'', ''aliases''} \<and>
   \<not> allows optional_integer (JString ''7'')"
proof -
  let ?props = "[(''domain'', JObject [(''type'', JString ''string'')]),
      (''active'', JObject [(''type'', JString ''boolean''), (''default'', JBool True)]),
      (''max_quota'', JObject [(''type'', JString ''integer''), (''default'', JNumber ''10'')]),
      (''aliases'', optional_integer)]"
  let ?args = "[\<lparr>ag_flag = ''domain'', ag_dest = None, ag_action = Store AStr, ag_default = JNull, ag_help = JNull\<rparr>,
    \<lparr>ag_flag = ''--no-active'', ag_dest = Some ''active'', ag_action = StoreFalse, ag_default = JBool True,
      ag_help = JNull\<rparr>,
    \<lparr>ag_flag = ''--max-quota'', ag_dest = Some ''max_quota'', ag_action = Store AInt, ag_default = JNumber ''10'',
      ag_help = JNull\<rparr>,
    \<lparr>ag_flag = ''--aliases'', ag_dest = Some ''aliases'', ag_action = Store AStr, ag_default = JNull,
      ag_help = JNull\<rparr>]"
  let ?keys = "map (\<lambda>n. (n, ''body'')) [''domain'', ''active'', ''max_quota'', ''aliases'']"
  let ?r = "\<lparr>rq_method = ''POST'', rq_path = ''/api/domains'', rq_params = [],
    rq_json = bucket_of ?keys ''body'' sample_namespace,
    rq_headers = [(''Content-Type'', ''application/json'')], rq_verify = True\<rparr>"
  have 1: "add_body_args [] sample_schema (JArray [JString ''domain'']) () = (Inr (?args, ?keys), ())"
    by code_simp
  have 2: "declared ''properties'' sample_schema = JObject ?props"
    by (simp add: sample_schema_def declared_def)
  have "int_literal ''5''" by code_simp
  then have 3: "namespace_of ?args sample_namespace"
    by (simp add: namespace_of_def sample_namespace_def dest_of_def is_option_def starts_with_def
        stores_def dict_keys_def)
  have 4: "''body'' \<notin> snd ` set ([] :: keys)" by simp
  have 5: "\<forall>(name, details) \<in> set ?props.
      doc_contains name (JArray [JString ''domain'']) () = (Inr True, ()) \<longrightarrow>
      \<not> json_truthy (declared ''default'' details) \<and> \<not> starts_with ''-'' name"
    by (simp add: doc_contains_def declared_def starts_with_def optional_integer_def)
  have 6: "call_request (\<lambda>_. []) ''post'' ''/api/domains'' sample_namespace (dict_update [] ?keys) () = (Inr ?r, ())"
    by code_simp
  have 7: "\<not> allows optional_integer (JString ''7'')" by code_simp
  from cli_body_conforms [OF 1 2 3 4 5 6] 7 show ?thesis by simp
qed

section \<open>How the program ends\<close>

text \<open>
  The document is never fetched with the certificate verified, as a \<open>URL\<close> never equals a \<open>str\<close> in yarl.
\<close>

lemma schema_never_verified:
  assumes "\<forall>u x. \<not> url_eq u x"
  shows "get_openapi_schema url_eq get origin = bindM (get ''/api/openapi.json'' False) response_json"
  using assms by (simp add: get_openapi_schema_def)

text \<open>The detail of an error of the API is the message of the program, with status 2.\<close>

lemma api_error_is_shown:
  assumes "run_command session show cmds args chosen s = (Inl (RequestException (Some body)), t)"
    and "loads body = Some (JObject d)" and "map_of d ''detail'' = Some v" and "json_truthy v"
  shows "catchM (bindM (run_command session show cmds args chosen) (\<lambda>v. ret (Written v))) handle_error s =
    (Inr (Exits 2 v), t)"
  using assms
  by (simp add: catchM_def bindM_Inl handle_error_def response_json_def error_text_def doc_get_def)

text \<open>When the server cannot be reached the handler itself fails.\<close>

lemma no_response_is_a_traceback:
  assumes "run_command session show cmds args chosen s = (Inl (RequestException None), t)"
  shows "catchM (bindM (run_command session show cmds args chosen) (\<lambda>v. ret (Written v))) handle_error s =
    (Inl (PyError (AttributeError ''json'')), t)"
  using assms by (simp add: catchM_def bindM_Inl handle_error_def)

end
