(* ===== verification/QuotaNotify.thy ===== *)
theory QuotaNotify
  imports Exceptions Json
begin

text \<open>
  The script src/dovecot/quota_notify.py, which Dovecot calls when a mailbox is almost full. Redis, the
  rendering of the template, the delivery agent and the mail server are parameters: what Redis holds,
  what \<open>render\<close> and \<open>html2text\<close> return, and whether a delivery raises. The script's effects are the
  mails it hands over, in order.
\<close>

datatype transport = DovecotLda string | Smtp string

record mail =
  ml_from :: string
  ml_to :: string
  ml_subject :: string
  ml_text :: string
  ml_html :: string

record quota_env =
  qe_get :: "string \<Rightarrow> string option"
  qe_hget :: "string \<Rightarrow> string \<Rightarrow> string option"
  qe_default_template :: string
  qe_render :: "string \<Rightarrow> string \<Rightarrow> int \<Rightarrow> string"
  qe_html2text :: "string \<Rightarrow> string"
  qe_deliver :: "transport \<Rightarrow> mail \<Rightarrow> py_exn option"
  qe_is_one :: "string \<Rightarrow> bool"

type_synonym mails = "(transport \<times> mail) list"

definition deliver :: "quota_env \<Rightarrow> transport \<Rightarrow> mail \<Rightarrow> (mails, py_exn, unit) sem" where
  "deliver env to m s =
     (case qe_deliver env to m of None \<Rightarrow> (Inr (), s @ [(to, m)]) | Some e \<Rightarrow> (Inl e, s))"

text \<open>\<open>r.get(key) or default\<close>: an empty text is false.\<close>

definition get_or :: "quota_env \<Rightarrow> string \<Rightarrow> string \<Rightarrow> string" where
  "get_or env key default_value =
     (case qe_get env key of None \<Rightarrow> default_value | Some v \<Rightarrow> if v = [] then default_value else v)"

text \<open>The loop that waits for Redis: the answers of \<open>ping\<close> until the first good one, counted.\<close>

fun wait_for_redis :: "bool list \<Rightarrow> nat option" where
  "wait_for_redis [] = None"
| "wait_for_redis (ok # oks) = (if ok then Some 1 else map_option Suc (wait_for_redis oks))"

definition json_is_one :: "quota_env \<Rightarrow> json \<Rightarrow> bool" where
  "json_is_one env v = (case v of JBool b \<Rightarrow> b | JNumber n \<Rightarrow> qe_is_one env n | _ \<Rightarrow> False)"

definition json_key :: "string \<Rightarrow> json \<Rightarrow> ('s, py_exn, json) sem" where
  "json_key key v =
     (case v of
        JObject d \<Rightarrow> (case map_of d key of None \<Rightarrow> throw (KeyError key) | Some x \<Rightarrow> ret x)
      | _ \<Rightarrow> throw (TypeError key))"

text \<open>The recipients that are iterated over: a list, the keys of a dict, the characters of a text.\<close>

definition json_iter :: "json \<Rightarrow> ('s, py_exn, json list) sem" where
  "json_iter v =
     (case v of
        JArray xs \<Rightarrow> ret xs
      | JObject d \<Rightarrow> ret (map (\<lambda>e. JString (fst e)) d)
      | JString s \<Rightarrow> ret (map (\<lambda>c. JString [c]) s)
      | _ \<Rightarrow> throw (TypeError ''not iterable''))"

text \<open>\<open>str(rcpt)\<close> for a text; \<open>msg["To"]\<close> refuses other values.\<close>

definition json_rcpt :: "json \<Rightarrow> ('s, py_exn, string) sem" where
  "json_rcpt v = (case v of JString s \<Rightarrow> ret s | _ \<Rightarrow> throw (AttributeError ''encode''))"

definition notify_user ::
  "quota_env \<Rightarrow> string \<Rightarrow> string \<Rightarrow> string \<Rightarrow> (mails, py_exn, unit) sem" where
  "notify_user env username body html =
     deliver env (DovecotLda username)
       \<lparr>ml_from = get_or env ''QW_SENDER'' ''quota-warning@localhost'', ml_to = username,
        ml_subject = get_or env ''QW_SUBJ'' ''Quota warning'', ml_text = body, ml_html = html\<rparr>"

definition notify_bcc ::
  "quota_env \<Rightarrow> string \<Rightarrow> string \<Rightarrow> string \<Rightarrow> (mails, py_exn, unit) sem" where
  "notify_bcc env username body html =
     (let domain = last (split_on (CHR ''@'') username) in
      case (if domain = [] then None else qe_hget env ''QW_BCC'' domain) of
        None \<Rightarrow> ret ()
      | Some payload \<Rightarrow>
          if payload = [] then ret ()
          else (case loads payload of
                  None \<Rightarrow> throw (ValueError payload)
                | Some data \<Rightarrow>
                    bindM (json_key ''bcc_rcpts'' data) (\<lambda>rcpts.
                    bindM (json_key ''active'' data) (\<lambda>active.
                      whenM (json_is_one env active)
                        (bindM (json_iter rcpts) (\<lambda>rs.
                          forM rs (\<lambda>r. bindM (json_rcpt r) (\<lambda>rcpt.
                            deliver env (Smtp rcpt)
                              \<lparr>ml_from = username, ml_to = rcpt,
                               ml_subject = get_or env ''QW_SUBJ'' ''Quota warning'' @ '' ('' @ username @ '')'',
                               ml_text = body, ml_html = html\<rparr>))))))))"

text \<open>How the script ends: an exit status, or a traceback before the notification.\<close>

datatype script_end = ExitStatus int | ScriptTraceback py_exn | Waiting

definition quota_notify ::
  "quota_env \<Rightarrow> bool list \<Rightarrow> string list \<Rightarrow> mails \<Rightarrow> script_end \<times> mails" where
  "quota_notify env pings argv s =
     (case argv of
        prog # percent # username # _ \<Rightarrow>
          (case int_of percent of
             None \<Rightarrow> (ScriptTraceback (ValueError percent), s)
           | Some p \<Rightarrow>
               (case wait_for_redis pings of
                  None \<Rightarrow> (Waiting, s)
                | Some _ \<Rightarrow>
                    (let html = qe_render env (get_or env ''QW_HTML'' (qe_default_template env)) username p;
                         body = qe_html2text env html
                     in case seqM (notify_user env username body html)
                               (notify_bcc env username body html) s of
                          (Inl e, t) \<Rightarrow> (ExitStatus 1, t)
                        | (Inr _, t) \<Rightarrow> (ExitStatus 0, t))))
      | _ \<Rightarrow> (ExitStatus 1, s))"

section \<open>What is sent\<close>

lemma wait_for_redis_Some: "True \<in> set pings \<Longrightarrow> \<exists>n. wait_for_redis pings = Some n \<and> n \<le> length pings"
  by (induction pings) auto

lemma deliver_all:
  assumes "\<forall>to m. qe_deliver env to m = None"
  shows "forM xs (\<lambda>x. deliver env (f x) (g x)) s = (Inr (), s @ map (\<lambda>x. (f x, g x)) xs)"
  using assms by (induction xs arbitrary: s) (simp_all add: deliver_def seqM_def bindM_def)

text \<open>The user is always first, and a failed delivery to the user stops the copies.\<close>

lemma quota_notify_user_first:
  assumes "int_of percent = Some p" and "True \<in> set pings"
  shows "qe_deliver env (DovecotLda username) m = Some e \<Longrightarrow>
    m = \<lparr>ml_from = get_or env ''QW_SENDER'' ''quota-warning@localhost'', ml_to = username,
        ml_subject = get_or env ''QW_SUBJ'' ''Quota warning'',
        ml_text = qe_html2text env (qe_render env (get_or env ''QW_HTML'' (qe_default_template env)) username p),
        ml_html = qe_render env (get_or env ''QW_HTML'' (qe_default_template env)) username p\<rparr> \<Longrightarrow>
    quota_notify env pings [prog, percent, username] s = (ExitStatus 1, s)"
  using wait_for_redis_Some [OF assms(2)] assms(1)
  by (auto simp: quota_notify_def Let_def notify_user_def deliver_def seqM_def bindM_def)

text \<open>
  With a list of addresses configured as active for the domain, each gets a copy after the user, in the
  order of the list.
\<close>

lemma quota_notify_copies:
  assumes "int_of percent = Some p" and "True \<in> set pings" and "\<forall>to m. qe_deliver env to m = None"
    and "domain = last (split_on (CHR ''@'') username)" and "domain \<noteq> []"
    and "qe_hget env ''QW_BCC'' domain = Some payload" and "payload \<noteq> []"
    and "loads payload = Some (JObject d)" and "map_of d ''active'' = Some (JNumber ''1'')"
    and "map_of d ''bcc_rcpts'' = Some (JArray (map JString rcpts))" and "qe_is_one env ''1''"
  shows "\<exists>t. quota_notify env pings [prog, percent, username] s = (ExitStatus 0, t) \<and>
    map fst t = map fst s @ DovecotLda username # map Smtp rcpts"
proof -
  obtain n where n: "wait_for_redis pings = Some n" using wait_for_redis_Some [OF assms(2)] by blast
  let ?html = "qe_render env (get_or env ''QW_HTML'' (qe_default_template env)) username p"
  let ?body = "qe_html2text env ?html"
  obtain m where user: "notify_user env username ?body ?html s = (Inr (), s @ [(DovecotLda username, m)])"
    using assms(3) by (simp add: notify_user_def deliver_def)
  have loop: "forM (map JString rcpts) (\<lambda>r. bindM (json_rcpt r) (\<lambda>rcpt. deliver env (Smtp rcpt) (g rcpt))) u =
      (Inr (), u @ map (\<lambda>x. (Smtp x, g x)) rcpts)" for g u
    using assms(3)
    by (induction rcpts arbitrary: u) (simp_all add: json_rcpt_def deliver_def seqM_def bindM_def)
  let ?copy = "\<lambda>rcpt. \<lparr>ml_from = username, ml_to = rcpt,
    ml_subject = get_or env ''QW_SUBJ'' ''Quota warning'' @ '' ('' @ username @ '')'',
    ml_text = ?body, ml_html = ?html\<rparr>"
  have bcc: "notify_bcc env username ?body ?html u = (Inr (), u @ map (\<lambda>x. (Smtp x, ?copy x)) rcpts)" for u
    unfolding notify_bcc_def assms(4) [symmetric] Let_def json_key_def json_is_one_def json_iter_def
    using assms(5-11) loop [of ?copy u] by simp
  from user show ?thesis
    by (simp add: quota_notify_def assms(1) n bcc Let_def seqM_def bindM_def comp_def)
qed

end
