(* ===== verification/QuarantineNotify.thy ===== *)
theory QuarantineNotify
  imports QuotaNotify
begin

text \<open>
  The script src/dovecot/quarantine_notify.py, which is to tell users of the mails held in quarantine.
  The tables of the database are lists of rows, a score is an element of a linear order, and Redis, the
  templates, the clock and the mail server are parameters: \<open>smtp k\<close> is what the server does at the
  \<open>k\<close>th attempt. Redis answers and the database accepts connections; waiting for them is the loop
  \<open>wait_for_redis\<close> of QuotaNotify.
\<close>

record 'f quarantine_mail =
  qr_id :: nat
  qr_rcpt :: string
  qr_score :: 'f
  qr_action :: string
  qr_subject :: string
  qr_sender :: string
  qr_notified :: nat

datatype smtp_result = NoConnection | Refused | Accepted

record 'f quarantine_env =
  qn_get :: "string \<Rightarrow> string option"
  qn_float :: "string \<Rightarrow> py_exn + 'f"
  qn_default_template :: string
  qn_render :: "string \<Rightarrow> 'f quarantine_mail list \<Rightarrow> string \<Rightarrow> nat \<Rightarrow> string \<Rightarrow> string"
  qn_html2text :: "string \<Rightarrow> string"
  qn_as_string :: "mail \<Rightarrow> string"
  qn_smtp :: "nat \<Rightarrow> smtp_result"
  qn_now :: int
  qn_usernames :: "string list"
  qn_acl :: "string \<Rightarrow> string"
  qn_notification :: "string \<Rightarrow> string list"

record 'f quarantine_state =
  qs_rows :: "'f quarantine_mail list"
  qs_last_notified :: "(string, string) dict"
  qs_sent :: "(string list \<times> mail) list"
  qs_pidfile :: bool

definition qn_get_or :: "'f quarantine_env \<Rightarrow> string \<Rightarrow> string \<Rightarrow> string" where
  "qn_get_or env key default_value =
     (case qn_get env key of None \<Rightarrow> default_value | Some v \<Rightarrow> if v = [] then default_value else v)"

section \<open>Sending\<close>

text \<open>Bcc and redirection decide who receives the mail.\<close>

definition envelope :: "string \<Rightarrow> string \<Rightarrow> string \<Rightarrow> string list" where
  "envelope rcpt bcc redirect =
     (if bcc = [] then if redirect = [] then [rcpt] else [redirect]
      else if redirect = [] then [rcpt, bcc] else [redirect, bcc])"

definition ascii_only :: "string \<Rightarrow> string" where
  "ascii_only s = filter (\<lambda>c. code c < 128) s"

definition mark_notified :: "nat list \<Rightarrow> 'f quarantine_mail list \<Rightarrow> 'f quarantine_mail list" where
  "mark_notified ids rows = map (\<lambda>r. if qr_id r \<in> set ids then r\<lparr>qr_notified := 1\<rparr> else r) rows"

text \<open>
  At most 15 attempts. Without a connection the handler calls \<open>quit\<close> on a variable that was never
  assigned, or on a server that has quit; both raise out of the loop. The text of an attempt is the whole
  mail of the one before it, as the code assigns \<open>text = msg.as_string()\<close>.
\<close>

fun send_attempts ::
  "'f quarantine_env \<Rightarrow> string \<Rightarrow> string \<Rightarrow> nat list \<Rightarrow> nat \<Rightarrow> nat \<Rightarrow> string \<Rightarrow>
     ('f quarantine_state, py_exn, unit) sem" where
  "send_attempts env rcpt html ids 0 k body s = (Inr (), s)"
| "send_attempts env rcpt html ids (Suc left) k body s =
     (let m = \<lparr>ml_from = ascii_only (qn_get_or env ''Q_SENDER'' ''quarantine@localhost''), ml_to = rcpt,
               ml_subject = qn_get_or env ''Q_SUBJ'' ''Spam Quarantine Notification'',
               ml_text = body, ml_html = html\<rparr>;
          to = envelope rcpt (qn_get_or env ''Q_BCC'' []) (qn_get_or env ''Q_REDIRECT'' [])
      in case qn_smtp env k of
           NoConnection \<Rightarrow> (Inl (AttributeError ''server''), s)
         | Refused \<Rightarrow> send_attempts env rcpt html ids left (Suc k) (qn_as_string env m) s
         | Accepted \<Rightarrow>
             (Inr (), s\<lparr>qs_sent := qs_sent s @ [(to, m)], qs_rows := mark_notified ids (qs_rows s),
                       qs_last_notified := dict_set rcpt (show_int (qn_now env)) (qs_last_notified s)\<rparr>))"

definition qualifies :: "('f :: linorder) \<Rightarrow> string \<Rightarrow> string \<Rightarrow> 'f quarantine_mail \<Rightarrow> bool" where
  "qualifies max_score rcpt category r \<longleftrightarrow>
     qr_notified r = 0 \<and> qr_rcpt r = rcpt \<and> qr_score r < max_score \<and>
     (qr_action r = category \<or> category = ''all'')"

definition notify_rcpt ::
  "('f :: linorder) quarantine_env \<Rightarrow> 'f \<Rightarrow> string \<Rightarrow> string \<Rightarrow> string \<Rightarrow>
     ('f quarantine_state, py_exn, unit) sem" where
  "notify_rcpt env max_score rcpt acl category s =
     (let category = (if category = ''add_header'' then ''add header'' else category);
          meta = filter (qualifies max_score rcpt category) (qs_rows s);
          html = qn_render env (qn_get_or env ''Q_HTML'' (qn_default_template env)) meta rcpt (length meta) acl
      in if meta = [] then (Inr (), s)
         else send_attempts env rcpt html (map qr_id meta) 15 0 (qn_html2text env html) s)"

section \<open>The script\<close>

text \<open>The recipients with unnotified mails below the score, each once with its number of mails.\<close>

definition quarantine_records :: "('f :: linorder) quarantine_env \<Rightarrow> 'f \<Rightarrow> 'f quarantine_mail list \<Rightarrow>
    (string \<times> nat) list" where
  "quarantine_records env max_score rows =
     (let counted = filter (\<lambda>r. qr_notified r = 0 \<and> qr_score r < max_score \<and>
                                 qr_rcpt r \<in> set (qn_usernames env)) rows
      in map (\<lambda>n. (n, length (filter (\<lambda>r. qr_rcpt r = n) counted))) (dedup (map qr_rcpt counted)))"

definition last_notification :: "'f quarantine_env \<Rightarrow> string \<Rightarrow> 'f quarantine_state \<Rightarrow> int" where
  "last_notification env rcpt s =
     (case map_of (qs_last_notified s) rcpt of
        None \<Rightarrow> 0
      | Some v \<Rightarrow> (case int_of v of None \<Rightarrow> 0 | Some t \<Rightarrow> if qn_now env < t then 0 else t))"

text \<open>
  A row of a query is a dict of its columns; the names of the periods are texts. \<open>attrs\<close> is the empty
  text, and a text has no item under a name.
\<close>

datatype cell = Text string | Row "(string, string) dict"

fun item_of :: "cell \<Rightarrow> string \<Rightarrow> py_exn + string" where
  "item_of (Text x) key = Inl (TypeError ''string indices must be integers'')"
| "item_of (Row d) key = (case map_of d key of None \<Rightarrow> Inl (KeyError key) | Some v \<Rightarrow> Inr v)"

definition time_trans :: "(cell \<times> int) list" where
  "time_trans = [(Text ''hourly'', 3600), (Text ''daily'', 86400), (Text ''weekly'', 604800)]"

definition notify_record ::
  "('f :: linorder) quarantine_env \<Rightarrow> 'f \<Rightarrow> string \<times> nat \<Rightarrow> ('f quarantine_state, py_exn, unit) sem" where
  "notify_record env max_score record s =
     (let rcpt = fst record; attrs = Text [];
          last_time = last_notification env rcpt s;
          rows = map (\<lambda>v. Row [(''quarantine_notification'', v)]) (qn_notification env rcpt)
      in case rows of
           [] \<Rightarrow> (Inl (IndexError ''list index out of range''), s)
         | choice # _ \<Rightarrow>
             (case map_of time_trans choice of
                None \<Rightarrow> (Inr (), s)
              | Some seconds \<Rightarrow>
                  if last_time = 0 \<or> last_time + seconds \<le> qn_now env
                  then (case item_of attrs ''quarantine_category'' of
                          Inl e \<Rightarrow> (Inl e, s)
                        | Inr category \<Rightarrow> notify_rcpt env max_score rcpt (qn_acl env rcpt) category s)
                  else (Inr (), s)))"

definition quarantine_body :: "('f :: linorder) quarantine_env \<Rightarrow> ('f quarantine_state, py_exn, unit) sem" where
  "quarantine_body env s =
     (case qn_float env (qn_get_or env ''Q_MAX_SCORE'' ''9999.0'') of
        Inl e \<Rightarrow> (Inl e, s)
      | Inr max_score \<Rightarrow>
          forM (quarantine_records env max_score (qs_rows s)) (notify_record env max_score) s)"

text \<open>The lock file: the script exits when it exists, and removes it at the end.\<close>

definition quarantine_notify :: "('f :: linorder) quarantine_env \<Rightarrow> ('f quarantine_state, py_exn, unit) sem" where
  "quarantine_notify env s =
     (if qs_pidfile s then (Inr (), s)
      else (case quarantine_body env (s\<lparr>qs_pidfile := True\<rparr>) of (r, t) \<Rightarrow> (r, t\<lparr>qs_pidfile := False\<rparr>)))"

section \<open>What a notification would do\<close>

lemma send_attempts_accepted:
  assumes "\<forall>j < k. qn_smtp env (i + j) = Refused" and "qn_smtp env (i + k) = Accepted" and "k < left"
  shows "\<exists>m. send_attempts env rcpt html ids left i body s = (Inr (),
    s\<lparr>qs_sent := qs_sent s @ [(envelope rcpt (qn_get_or env ''Q_BCC'' []) (qn_get_or env ''Q_REDIRECT'' []), m)],
      qs_rows := mark_notified ids (qs_rows s),
      qs_last_notified := dict_set rcpt (show_int (qn_now env)) (qs_last_notified s)\<rparr>) \<and> ml_html m = html"
  using assms
proof (induction k arbitrary: i left body)
  case 0
  then show ?case by (cases left) (auto simp: Let_def intro!: exI)
next
  case (Suc k)
  obtain l where left: "left = Suc l" using Suc.prems(3) by (cases left) auto
  have "qn_smtp env i = Refused" using Suc.prems(1) by (metis add_0_right zero_less_Suc)
  moreover have "\<forall>j < k. qn_smtp env (Suc i + j) = Refused" "qn_smtp env (Suc i + k) = Accepted" "k < l"
    using Suc.prems left by (metis add_Suc_right add_Suc Suc_less_eq, simp, simp)
  note this(1) and next_attempts = Suc.IH [OF this]
  ultimately show ?case using next_attempts unfolding left by (simp add: Let_def)
qed

lemma mark_notified_qualifies:
  "filter (qualifies max_score rcpt category) (mark_notified (map qr_id (filter (qualifies max_score rcpt category) rows)) rows) = []"
  by (auto simp: filter_empty_conv mark_notified_def qualifies_def)

section \<open>What the script does\<close>

text \<open>A dict is none of the periods, so that a user with a row of attributes is skipped.\<close>

lemma notify_record_skips:
  "notify_record env max_score record s =
     (if qn_notification env (fst record) = [] then Inl (IndexError ''list index out of range'') else Inr (), s)"
  by (cases "qn_notification env (fst record)") (simp_all add: notify_record_def time_trans_def Let_def)

lemma notify_records_skip:
  "forM records (notify_record env max_score) s =
     (if list_ex (\<lambda>r. qn_notification env (fst r) = []) records
      then Inl (IndexError ''list index out of range'') else Inr (), s)"
  by (induction records) (simp_all add: seqM_def bindM_def notify_record_skips)

text \<open>
  C24. Whatever is in quarantine and whichever period the users chose, the script notifies nobody: every user
  with a row of attributes is skipped, without an error, as the code compares that row, a dict, with the
  names of the periods, which are texts. So no mail is sent, no row is marked and no time of a notification is
  stored, and the script ends normally unless the score is no number or a user has no row of attributes.
\<close>
theorem quarantine_never_notifies:
  "quarantine_notify env s =
     (if qs_pidfile s then Inr ()
      else case qn_float env (qn_get_or env ''Q_MAX_SCORE'' ''9999.0'') of
        Inl e \<Rightarrow> Inl e
      | Inr max_score \<Rightarrow>
          if list_ex (\<lambda>r. qn_notification env (fst r) = []) (quarantine_records env max_score (qs_rows s))
          then Inl (IndexError ''list index out of range'') else Inr (), s)"
  by (cases "qs_pidfile s"; cases "qn_float env (qn_get_or env ''Q_MAX_SCORE'' ''9999.0'')")
    (simp_all add: quarantine_notify_def quarantine_body_def notify_records_skip)

end
