(* ===== verification/NginxBootstrap.thy ===== *)
theory NginxBootstrap
  imports Exceptions
begin

text \<open>
  The script src/nginx/bootstrap.py, which renders the configuration of nginx from the environment and
  from the directories of certificates. The template engine is a parameter: what a template of some name
  renders to, or \<open>None\<close> when there is none. The state is the files that were written.
\<close>

text \<open>An entry of the directory of certificates: the files of a directory, or \<open>None\<close> for a file.\<close>

record cert_files =
  cf_cert :: bool
  cf_key :: bool
  cf_domains :: "string option"

record cert_dir =
  cd_path :: string
  cd_domains :: string

record template_vars =
  tv_ipv4_network :: string
  tv_trusted_network :: "string option"
  tv_server_hostname :: string
  tv_additional_server_names :: "string list"
  tv_valid_cert_dirs :: "cert_dir list"

definition environ_get :: "(string, string) dict \<Rightarrow> string \<Rightarrow> string \<Rightarrow> string" where
  "environ_get environ key default_value =
     (case map_of environ key of None \<Rightarrow> default_value | Some v \<Rightarrow> v)"

definition ssl_dir :: string where
  "ssl_dir = ''/etc/letsencrypt/live/''"

text \<open>One round of the loop over the directory of certificates.\<close>

definition valid_cert_dir :: "string \<Rightarrow> string \<times> cert_files option \<Rightarrow> cert_dir list" where
  "valid_cert_dir hostname entry =
     (case snd entry of
        None \<Rightarrow> []
      | Some d \<Rightarrow>
          (case cf_domains d of
             None \<Rightarrow> []
           | Some body \<Rightarrow>
               if cf_cert d \<and> cf_key d
               then (let domains = strip body; domains_list = words domains
                     in if domains_list \<noteq> [] \<and> hostname \<notin> set domains_list
                        then [\<lparr>cd_path = ssl_dir @ fst entry @ ''/'', cd_domains = domains\<rparr>] else [])
               else []))"

definition prepare_template_vars ::
  "(string, string) dict \<Rightarrow> (string \<times> cert_files option) list option \<Rightarrow> template_vars" where
  "prepare_template_vars environ ssl =
     (let hostname = environ_get environ ''SERVER_HOSTNAME'' [] in
      \<lparr>tv_ipv4_network = environ_get environ ''IPV4_NETWORK'' ''172.22.1'',
       tv_trusted_network = map_of environ ''TRUSTED_NETWORK'',
       tv_server_hostname = hostname,
       tv_additional_server_names =
         map strip (filter (\<lambda>x. strip x \<noteq> [])
           (split_on (CHR '','') (environ_get environ ''ADDITIONAL_SERVER_NAMES'' []))),
       tv_valid_cert_dirs =
         (case ssl of None \<Rightarrow> [] | Some entries \<Rightarrow> concat (map (valid_cert_dir hostname) entries))\<rparr>)"

type_synonym written = "(string, string) dict"

definition write_text :: "string \<Rightarrow> string \<Rightarrow> (written, py_exn, unit) sem" where
  "write_text path body s = (Inr (), dict_set path body s)"

definition render_to ::
  "(string \<Rightarrow> template_vars \<Rightarrow> string option) \<Rightarrow> string \<Rightarrow> string \<Rightarrow> template_vars \<Rightarrow>
     (written, py_exn, unit) sem" where
  "render_to render dir name tv =
     (case render (name @ ''.j2'') tv of
        None \<Rightarrow> throw (OSError (name @ ''.j2''))
      | Some config \<Rightarrow> write_text (dir @ name) config)"

definition sites_default_conf ::
  "(string \<Rightarrow> template_vars \<Rightarrow> string option) \<Rightarrow> template_vars \<Rightarrow> (written, py_exn, unit) sem" where
  "sites_default_conf render = render_to render ''/etc/nginx/includes/'' ''sites-default.conf''"

definition nginx_conf ::
  "(string \<Rightarrow> template_vars \<Rightarrow> string option) \<Rightarrow> template_vars \<Rightarrow> (written, py_exn, unit) sem" where
  "nginx_conf render = render_to render ''/etc/nginx/'' ''nginx.conf''"

definition includes_conf :: "template_vars \<Rightarrow> (written, py_exn, unit) sem" where
  "includes_conf tv =
     write_text ''/etc/nginx/conf.d/server_name.active''
       ([CHR 10] @ ''server_name '' @ tv_server_hostname tv @ '' autodiscover.* autoconfig.* '' @
        join '' '' (tv_additional_server_names tv) @ '';'' @ [CHR 10])"

definition bootstrap_main ::
  "(string \<Rightarrow> template_vars \<Rightarrow> string option) \<Rightarrow> (string, string) dict \<Rightarrow>
     (string \<times> cert_files option) list option \<Rightarrow> (written, py_exn, unit) sem" where
  "bootstrap_main render environ ssl =
     (let tv = prepare_template_vars environ ssl in
      seqM (sites_default_conf render tv) (seqM (nginx_conf render tv) (includes_conf tv)))"

section \<open>What nginx is given\<close>

text \<open>The certificate of the server itself is never among the additional ones.\<close>

lemma valid_cert_dirs_spare_server:
  assumes "d \<in> set (tv_valid_cert_dirs (prepare_template_vars environ ssl))"
  shows "words (cd_domains d) \<noteq> [] \<and>
    tv_server_hostname (prepare_template_vars environ ssl) \<notin> set (words (cd_domains d))"
  using assms
  by (auto simp: prepare_template_vars_def valid_cert_dir_def Let_def split: option.splits if_splits)

text \<open>The additional names are stripped and none is empty.\<close>

lemma additional_names_not_empty:
  "[] \<notin> set (tv_additional_server_names (prepare_template_vars environ ssl))"
  by (auto simp: prepare_template_vars_def Let_def)

text \<open>When both templates exist, the three files are written.\<close>

lemma bootstrap_writes:
  assumes "\<forall>name tv. render name tv \<noteq> None"
  shows "\<exists>t. bootstrap_main render environ ssl s = (Inr (), t) \<and>
    {''/etc/nginx/includes/sites-default.conf'', ''/etc/nginx/nginx.conf'',
     ''/etc/nginx/conf.d/server_name.active''} \<subseteq> set (dict_keys t)"
proof -
  let ?tv = "prepare_template_vars environ ssl"
  obtain a b where "render (''sites-default.conf'' @ ''.j2'') ?tv = Some a"
    "render (''nginx.conf'' @ ''.j2'') ?tv = Some b"
    using assms by blast
  then show ?thesis
    by (auto simp: bootstrap_main_def sites_default_conf_def nginx_conf_def includes_conf_def render_to_def
        write_text_def seqM_def bindM_def Let_def)
qed

end
