(* ===== verification/Schema.thy ===== *)
theory Schema
  imports Exceptions
begin

text \<open>
  The statements that change the schema of the database, as the migrations of src/backend/alembic issue
  them through \<open>op\<close>, and their effect on a schema. A server refuses to create what exists, to change or
  drop what does not, and to drop a table that a foreign key of another table refers to. A view is dropped before it is
  created, and dropping one that does not exist does nothing (\<open>SQLViewMixin\<close> of views.py). MySQL and MariaDB
  (\<open>mysql\<close>) also refuse to drop the last index that begins with the columns of a foreign key. Whether an
  integer key is filled automatically is not part of the schema here.
\<close>

section \<open>Schemas\<close>

datatype sql_type =
    SInteger
  | SBigInteger
  | SBoolean
  | SFloat
  | SString int
  | SText
  | SLongText
  | SJson
  | SDateTime
  | STimestamp
  | SEnum "string list"

text \<open>A server default is a literal, which is quoted, or the text of an expression.\<close>

datatype sql_default = Literal string | Sql string

record column =
  co_type :: sql_type
  co_nullable :: bool
  co_default :: "sql_default option"

record foreign_key =
  fk_columns :: "string list"
  fk_table :: string
  fk_referred :: "string list"
  fk_ondelete :: "string option"

record index =
  ix_columns :: "string list"
  ix_unique :: bool

record table =
  tb_columns :: "(string, column) dict"
  tb_primary :: "string list"
  tb_foreign :: "foreign_key list"
  tb_indexes :: "(string, index) dict"

record schema =
  sc_tables :: "(string, table) dict"
  sc_views :: "string list"

definition empty_schema :: schema where
  "empty_schema = \<lparr>sc_tables = [], sc_views = []\<rparr>"

text \<open>\<open>sa.Column(name, type, nullable=...)\<close> without and with a default.\<close>

definition col :: "string \<Rightarrow> sql_type \<Rightarrow> bool \<Rightarrow> string \<times> column" where
  "col name t nullable = (name, \<lparr>co_type = t, co_nullable = nullable, co_default = None\<rparr>)"

definition dcol :: "string \<Rightarrow> sql_type \<Rightarrow> bool \<Rightarrow> sql_default \<Rightarrow> string \<times> column" where
  "dcol name t nullable d = (name, \<lparr>co_type = t, co_nullable = nullable, co_default = Some d\<rparr>)"

definition fkey :: "string \<Rightarrow> string \<Rightarrow> string \<Rightarrow> string option \<Rightarrow> foreign_key" where
  "fkey c t r ondelete = \<lparr>fk_columns = [c], fk_table = t, fk_referred = [r], fk_ondelete = ondelete\<rparr>"

section \<open>Statements\<close>

datatype ddl =
    CreateTable string "(string, column) dict" "string list" "foreign_key list"
  | DropTable string
  | CreateIndex string string "string list" bool
  | DropIndex string string
  | AddColumn string "string \<times> column"
  | DropColumn string string
  | AlterColumn string string "sql_type option" "bool option" "sql_default option option"
  | DropForeignKeyTo string string "string list"
  | CreateForeignKey string foreign_key
  | CreateView string
  | DropView string
  | Execute string

datatype schema_error =
    AlreadyExists string
  | Missing string
  | Referenced string
  | IndexNeeded string

definition prefix_of :: "string list \<Rightarrow> string list \<Rightarrow> bool" where
  "prefix_of xs ys \<longleftrightarrow> take (length xs) ys = xs"

text \<open>An index is needed when a foreign key begins it and nothing else of the table.\<close>

definition index_needed :: "string \<Rightarrow> index \<Rightarrow> table \<Rightarrow> bool" where
  "index_needed name ix t \<longleftrightarrow>
     list_ex (\<lambda>f. prefix_of (fk_columns f) (ix_columns ix) \<and>
       \<not> prefix_of (fk_columns f) (tb_primary t) \<and>
       \<not> list_ex (\<lambda>(n, i). n \<noteq> name \<and> prefix_of (fk_columns f) (ix_columns i)) (tb_indexes t))
     (tb_foreign t)"

definition with_table ::
  "string \<Rightarrow> schema \<Rightarrow> (table \<Rightarrow> schema_error + table) \<Rightarrow> schema_error + schema" where
  "with_table name s f =
     (case map_of (sc_tables s) name of
        None \<Rightarrow> Inl (Missing name)
      | Some t \<Rightarrow>
          (case f t of
             Inl e \<Rightarrow> Inl e
           | Inr t' \<Rightarrow> Inr (s\<lparr>sc_tables := dict_set name t' (sc_tables s)\<rparr>)))"

text \<open>The loop over the foreign keys stops at the first that is dropped.\<close>

fun drop_first :: "('a \<Rightarrow> bool) \<Rightarrow> 'a list \<Rightarrow> 'a list" where
  "drop_first p [] = []"
| "drop_first p (x # xs) = (if p x then xs else x # drop_first p xs)"

definition create_index :: "string \<Rightarrow> string list \<Rightarrow> bool \<Rightarrow> table \<Rightarrow> schema_error + table" where
  "create_index name cols uniq t =
     (if map_of (tb_indexes t) name \<noteq> None then Inl (AlreadyExists name)
      else if \<not> list_all (\<lambda>c. map_of (tb_columns t) c \<noteq> None) cols then Inl (Missing name)
      else Inr (t\<lparr>tb_indexes := tb_indexes t @ [(name, \<lparr>ix_columns = cols, ix_unique = uniq\<rparr>)]\<rparr>))"

definition drop_index :: "bool \<Rightarrow> string \<Rightarrow> table \<Rightarrow> schema_error + table" where
  "drop_index mysql name t =
     (case map_of (tb_indexes t) name of
        None \<Rightarrow> Inl (Missing name)
      | Some ix \<Rightarrow>
          if mysql \<and> index_needed name ix t then Inl (IndexNeeded name)
          else Inr (t\<lparr>tb_indexes := dict_del name (tb_indexes t)\<rparr>))"

definition add_column :: "string \<times> column \<Rightarrow> table \<Rightarrow> schema_error + table" where
  "add_column c t =
     (if map_of (tb_columns t) (fst c) \<noteq> None then Inl (AlreadyExists (fst c))
      else Inr (t\<lparr>tb_columns := tb_columns t @ [c]\<rparr>))"

definition drop_column :: "string \<Rightarrow> table \<Rightarrow> schema_error + table" where
  "drop_column name t =
     (if map_of (tb_columns t) name = None then Inl (Missing name)
      else Inr (t\<lparr>tb_columns := dict_del name (tb_columns t)\<rparr>))"

definition alter_column ::
  "string \<Rightarrow> sql_type option \<Rightarrow> bool option \<Rightarrow> sql_default option option \<Rightarrow> table \<Rightarrow> schema_error + table" where
  "alter_column name ty nullable d t =
     (case map_of (tb_columns t) name of
        None \<Rightarrow> Inl (Missing name)
      | Some c \<Rightarrow>
          Inr (t\<lparr>tb_columns := dict_set name
            \<lparr>co_type = (case ty of None \<Rightarrow> co_type c | Some x \<Rightarrow> x),
             co_nullable = (case nullable of None \<Rightarrow> co_nullable c | Some x \<Rightarrow> x),
             co_default = (case d of None \<Rightarrow> co_default c | Some x \<Rightarrow> x)\<rparr> (tb_columns t)\<rparr>))"

definition drop_foreign_key_to :: "string \<Rightarrow> string list \<Rightarrow> table \<Rightarrow> schema_error + table" where
  "drop_foreign_key_to referred cols t =
     Inr (t\<lparr>tb_foreign := drop_first (\<lambda>f. fk_table f = referred \<and> fk_columns f = cols) (tb_foreign t)\<rparr>)"

text \<open>The effect of a statement on the one table that it changes, when it is of this kind.\<close>

fun table_step :: "bool \<Rightarrow> ddl \<Rightarrow> (string \<times> (table \<Rightarrow> schema_error + table)) option" where
  "table_step mysql (CreateIndex name table cols uniq) = Some (table, create_index name cols uniq)"
| "table_step mysql (DropIndex name table) = Some (table, drop_index mysql name)"
| "table_step mysql (AddColumn table c) = Some (table, add_column c)"
| "table_step mysql (DropColumn table name) = Some (table, drop_column name)"
| "table_step mysql (AlterColumn table name ty nullable d) = Some (table, alter_column name ty nullable d)"
| "table_step mysql (DropForeignKeyTo table referred cols) = Some (table, drop_foreign_key_to referred cols)"
| "table_step mysql _ = None"

definition has_table :: "schema \<Rightarrow> string \<Rightarrow> bool" where
  "has_table s name \<longleftrightarrow> map_of (sc_tables s) name \<noteq> None"

text \<open>Another table has a foreign key to this one.\<close>

definition is_referenced :: "string \<Rightarrow> schema \<Rightarrow> bool" where
  "is_referenced name s \<longleftrightarrow>
     list_ex (\<lambda>(n, t). n \<noteq> name \<and> list_ex (\<lambda>f. fk_table f = name) (tb_foreign t)) (sc_tables s)"

fun ddl_step :: "bool \<Rightarrow> ddl \<Rightarrow> schema \<Rightarrow> schema_error + schema" where
  "ddl_step mysql (CreateTable name cols pk fks) s =
     (if has_table s name then Inl (AlreadyExists name)
      else if \<not> list_all (\<lambda>f. has_table s (fk_table f)) fks then Inl (Missing name)
      else Inr (s\<lparr>sc_tables := sc_tables s @
        [(name, \<lparr>tb_columns = cols, tb_primary = pk, tb_foreign = fks, tb_indexes = []\<rparr>)]\<rparr>))"
| "ddl_step mysql (DropTable name) s =
     (if \<not> has_table s name then Inl (Missing name)
      else if is_referenced name s then Inl (Referenced name)
      else Inr (s\<lparr>sc_tables := dict_del name (sc_tables s)\<rparr>))"
| "ddl_step mysql (CreateForeignKey table fk) s =
     (if \<not> has_table s (fk_table fk) then Inl (Missing (fk_table fk))
      else with_table table s (\<lambda>t. Inr (t\<lparr>tb_foreign := tb_foreign t @ [fk]\<rparr>)))"
| "ddl_step mysql (CreateView v) s =
     Inr (s\<lparr>sc_views := filter (\<lambda>x. x \<noteq> v) (sc_views s) @ [v]\<rparr>)"
| "ddl_step mysql (DropView v) s = Inr (s\<lparr>sc_views := filter (\<lambda>x. x \<noteq> v) (sc_views s)\<rparr>)"
| "ddl_step mysql (Execute sql) s = Inr s"
| "ddl_step mysql op s =
     (case table_step mysql op of None \<Rightarrow> Inr s | Some (name, f) \<Rightarrow> with_table name s f)"

fun ddl_run :: "bool \<Rightarrow> ddl list \<Rightarrow> schema \<Rightarrow> schema_error + schema" where
  "ddl_run mysql [] s = Inr s"
| "ddl_run mysql (op # ops) s =
     (case ddl_step mysql op s of Inl e \<Rightarrow> Inl e | Inr t \<Rightarrow> ddl_run mysql ops t)"

section \<open>The same schema\<close>

text \<open>
  A default is the same however it is spelt: a literal, or an expression that is a number or a quoted
  literal. MariaDB has no type JSON of its own but stores it as a LONGTEXT.
\<close>

definition plain_default :: "sql_default \<Rightarrow> string" where
  "plain_default d =
     (case d of
        Literal s \<Rightarrow> s
      | Sql s \<Rightarrow> if take 1 s = [CHR 0x27] \<and> 1 < length s then butlast (tl s) else s)"

definition plain_type :: "sql_type \<Rightarrow> sql_type" where
  "plain_type t = (case t of SJson \<Rightarrow> SLongText | _ \<Rightarrow> t)"

definition same_column :: "column \<Rightarrow> column \<Rightarrow> bool" where
  "same_column c d \<longleftrightarrow>
     plain_type (co_type c) = plain_type (co_type d) \<and> co_nullable c = co_nullable d \<and>
     map_option plain_default (co_default c) = map_option plain_default (co_default d)"

text \<open>Dictionaries with the same keys and related values, in any order.\<close>

definition same_dict :: "('v \<Rightarrow> 'v \<Rightarrow> bool) \<Rightarrow> ('k, 'v) dict \<Rightarrow> ('k, 'v) dict \<Rightarrow> bool" where
  "same_dict r d e \<longleftrightarrow>
     length d = length e \<and> distinct (map fst d) \<and>
     list_all (\<lambda>(k, v). case map_of e k of None \<Rightarrow> False | Some w \<Rightarrow> r v w) d"

definition same_table :: "table \<Rightarrow> table \<Rightarrow> bool" where
  "same_table t u \<longleftrightarrow>
     same_dict same_column (tb_columns t) (tb_columns u) \<and> tb_primary t = tb_primary u \<and>
     tb_foreign t = tb_foreign u \<and> same_dict (=) (tb_indexes t) (tb_indexes u)"

definition same_schema :: "schema \<Rightarrow> schema \<Rightarrow> bool" where
  "same_schema s t \<longleftrightarrow>
     same_dict same_table (sc_tables s) (sc_tables t) \<and> sc_views s = sc_views t"

lemma same_dict_map_of:
  assumes "same_dict r d e" and "distinct (map fst e)"
  shows "dom (map_of d) = dom (map_of e) \<and> (\<forall>k v w. map_of d k = Some v \<longrightarrow> map_of e k = Some w \<longrightarrow> r v w)"
proof -
  have sub: "fst ` set d \<subseteq> fst ` set e"
    using assms(1) by (force simp: same_dict_def list_all_iff split: option.splits dest: map_of_SomeD)
  have "card (fst ` set d) = length d" "card (fst ` set e) = length e"
    using assms distinct_card [of "map fst d"] distinct_card [of "map fst e"] by (simp_all add: same_dict_def)
  then have "fst ` set d = fst ` set e"
    using sub assms(1) by (intro card_subset_eq) (simp_all add: same_dict_def)
  moreover have "r v w" if "map_of d k = Some v" "map_of e k = Some w" for k v w
    using assms(1) map_of_SomeD [OF that(1)] that(2) by (auto simp: same_dict_def list_all_iff)
  ultimately show ?thesis by (simp add: dom_map_of_conv_image_fst)
qed

lemma ddl_run_append:
  "ddl_run mysql (xs @ ys) s = (case ddl_run mysql xs s of Inl e \<Rightarrow> Inl e | Inr t \<Rightarrow> ddl_run mysql ys t)"
  by (induction xs arbitrary: s) (simp_all split: sum.splits)

section \<open>Tables with their indexes\<close>

text \<open>A group of statements that create one table and its indexes, and the table they create.\<close>

definition indexes_of :: "ddl list \<Rightarrow> (string, index) dict" where
  "indexes_of ops = concat (map (\<lambda>op. case op of
     CreateIndex i t cs u \<Rightarrow> [(i, \<lparr>ix_columns = cs, ix_unique = u\<rparr>)] | _ \<Rightarrow> []) ops)"

fun created :: "ddl list \<Rightarrow> table" where
  "created (CreateTable name cols pk fks # ops) =
     \<lparr>tb_columns = cols, tb_primary = pk, tb_foreign = fks,
      tb_indexes = indexes_of ops\<rparr>"
| "created _ = \<lparr>tb_columns = [], tb_primary = [], tb_foreign = [], tb_indexes = []\<rparr>"

fun index_statement :: "string \<Rightarrow> ddl \<Rightarrow> (string \<times> string list \<times> bool) option" where
  "index_statement table (CreateIndex i t cs u) = (if t = table then Some (i, cs, u) else None)"
| "index_statement table _ = None"

definition valid_indexes :: "string \<Rightarrow> string list \<Rightarrow> ddl list \<Rightarrow> bool" where
  "valid_indexes table names ops \<longleftrightarrow>
     list_all (\<lambda>op. case index_statement table op of
       None \<Rightarrow> False | Some (i, cs, u) \<Rightarrow> set cs \<subseteq> set names) ops"

fun creates :: "ddl list \<Rightarrow> string \<Rightarrow> bool" where
  "creates (CreateTable name cols pk fks # ops) table \<longleftrightarrow>
     name = table \<and> valid_indexes table (map fst cols) ops \<and>
     distinct (map (\<lambda>op. map_option fst (index_statement table op)) ops)"
| "creates _ table \<longleftrightarrow> False"

lemma with_table_last:
  assumes "\<not> has_table s n"
  shows "with_table n (s\<lparr>sc_tables := sc_tables s @ [(n, t)]\<rparr>) f =
    (case f t of Inl e \<Rightarrow> Inl e | Inr t' \<Rightarrow> Inr (s\<lparr>sc_tables := sc_tables s @ [(n, t')]\<rparr>))"
proof -
  have none: "map_of (sc_tables s) n = None" using assms by (simp add: has_table_def)
  have "dict_set n t' (xs @ [(n, t)]) = xs @ [(n, t')]" if "map_of xs n = None" for t' xs
    using that by (induction xs) (auto split: if_splits)
  with none show ?thesis by (simp add: with_table_def map_add_def split: sum.splits)
qed

lemma index_statement_Some: "index_statement table op = Some (i, cs, u) \<longleftrightarrow> op = CreateIndex i table cs u"
  by (cases op) auto

lemma run_indexes:
  assumes "\<not> has_table s n"
    and "valid_indexes n (map fst (tb_columns t)) ops"
    and "distinct (map fst (tb_indexes t) @ map fst (indexes_of ops))"
  shows "ddl_run mysql ops (s\<lparr>sc_tables := sc_tables s @ [(n, t)]\<rparr>) =
    Inr (s\<lparr>sc_tables := sc_tables s @ [(n, t\<lparr>tb_indexes := tb_indexes t @ indexes_of ops\<rparr>)]\<rparr>)"
  using assms(2,3)
proof (induction ops arbitrary: t)
  case (Cons op ops)
  obtain i cs u where op: "op = CreateIndex i n cs u" and cols: "set cs \<subseteq> set (map fst (tb_columns t))"
    using Cons.prems(1) by (auto simp: valid_indexes_def index_statement_Some split: option.splits)
  let ?t = "t\<lparr>tb_indexes := tb_indexes t @ [(i, \<lparr>ix_columns = cs, ix_unique = u\<rparr>)]\<rparr>"
  have "map_of (tb_indexes t) i = None"
    using Cons.prems(2) by (auto simp: op indexes_of_def map_of_eq_None_iff)
  moreover have "list_all (\<lambda>c. map_of (tb_columns t) c \<noteq> None) cs"
    using cols by (fastforce simp: list_all_iff map_of_eq_None_iff)
  ultimately have "ddl_step mysql op (s\<lparr>sc_tables := sc_tables s @ [(n, t)]\<rparr>) =
      Inr (s\<lparr>sc_tables := sc_tables s @ [(n, ?t)]\<rparr>)"
    by (simp add: op with_table_last [OF assms(1)] create_index_def)
  moreover have "ddl_run mysql ops (s\<lparr>sc_tables := sc_tables s @ [(n, ?t)]\<rparr>) =
      Inr (s\<lparr>sc_tables := sc_tables s @ [(n, ?t\<lparr>tb_indexes := tb_indexes ?t @ indexes_of ops\<rparr>)]\<rparr>)"
    using Cons.prems by (intro Cons.IH) (auto simp: op indexes_of_def valid_indexes_def)
  ultimately show ?case by (simp add: op indexes_of_def)
qed (simp add: indexes_of_def)

lemma indexes_of_names:
  assumes "list_all (\<lambda>op. index_statement n op \<noteq> None) ops"
  shows "map Some (map fst (indexes_of ops)) = map (\<lambda>op. map_option fst (index_statement n op)) ops"
  using assms
proof (induction ops)
  case (Cons op ops)
  then show ?case by (cases op) (auto simp: indexes_of_def split: if_splits)
qed (simp add: indexes_of_def)

text \<open>Such a group adds its table, when the name is free and the tables it refers to are there.\<close>

lemma run_created:
  assumes "creates g n" and "\<not> has_table s n"
    and "list_all (\<lambda>f. has_table s (fk_table f)) (tb_foreign (created g))"
  shows "ddl_run mysql g s = Inr (s\<lparr>sc_tables := sc_tables s @ [(n, created g)]\<rparr>)"
proof -
  obtain cols pk fks ops where g: "g = CreateTable n cols pk fks # ops"
    and ops: "valid_indexes n (map fst cols) ops"
    and names: "distinct (map (\<lambda>op. map_option fst (index_statement n op)) ops)"
    using assms(1) by (cases "(g, n)" rule: creates.cases) auto
  have "list_all (\<lambda>op. index_statement n op \<noteq> None) ops"
    using ops by (auto simp: valid_indexes_def list_all_iff split: option.splits)
  from indexes_of_names [OF this] names have dist: "distinct (map fst (indexes_of ops))"
    by (metis distinct_map)
  let ?t = "\<lparr>tb_columns = cols, tb_primary = pk, tb_foreign = fks, tb_indexes = []\<rparr>"
  have "ddl_run mysql ops (s\<lparr>sc_tables := sc_tables s @ [(n, ?t)]\<rparr>) =
      Inr (s\<lparr>sc_tables := sc_tables s @ [(n, ?t\<lparr>tb_indexes := tb_indexes ?t @ indexes_of ops\<rparr>)]\<rparr>)"
    by (rule run_indexes [OF assms(2)]) (use ops dist in simp_all)
  with assms(2,3) show ?thesis by (simp add: g)
qed

section \<open>Dropping tables\<close>

definition dropped :: "string \<Rightarrow> string list \<Rightarrow> ddl list" where
  "dropped table names = map (\<lambda>i. DropIndex i table) names @ [DropTable table]"

lemma dict_del_set: "dict_del n (dict_set n v d) = dict_del n d"
  by (induction d) (auto simp: dict_del_def)

lemma is_referenced_set:
  "is_referenced n (s\<lparr>sc_tables := dict_set n t (sc_tables s)\<rparr>) = is_referenced n s"
proof -
  have "list_ex (\<lambda>(m, t). m \<noteq> n \<and> p t) (dict_set n v d) = list_ex (\<lambda>(m, t). m \<noteq> n \<and> p t) d" for p v d
    by (induction d) (auto split: if_splits)
  then show ?thesis by (simp add: is_referenced_def)
qed

text \<open>
  Dropping some indexes of a table and then the table leaves the others, when no foreign key refers to it
  and, on MySQL, it has no foreign key of its own.
\<close>

lemma run_dropped:
  assumes "map_of (sc_tables s) n = Some t" and "\<not> is_referenced n s"
    and "distinct names" and "set names \<subseteq> set (map fst (tb_indexes t))"
    and "mysql \<longrightarrow> tb_foreign t = []"
  shows "ddl_run mysql (dropped n names) s = Inr (s\<lparr>sc_tables := dict_del n (sc_tables s)\<rparr>)"
  using assms
proof (induction names arbitrary: s t)
  case Nil
  then show ?case by (simp add: dropped_def has_table_def)
next
  case (Cons i names)
  let ?t = "t\<lparr>tb_indexes := dict_del i (tb_indexes t)\<rparr>"
  let ?s = "s\<lparr>sc_tables := dict_set n ?t (sc_tables s)\<rparr>"
  obtain ix where ix: "map_of (tb_indexes t) i = Some ix"
    using Cons.prems(4) by (metis list.set_intros(1) map_of_eq_None_iff not_None_eq set_map subset_iff)
  have "\<not> (mysql \<and> index_needed i ix t)" using Cons.prems(5) by (auto simp: index_needed_def)
  with ix Cons.prems(1) have step: "ddl_step mysql (DropIndex i n) s = Inr ?s"
    by (simp add: with_table_def drop_index_def)
  have "ddl_run mysql (dropped n names) ?s = Inr (?s\<lparr>sc_tables := dict_del n (sc_tables ?s)\<rparr>)"
  proof (rule Cons.IH [of ?s ?t])
    show "set names \<subseteq> set (map fst (tb_indexes ?t))"
      using Cons.prems(3,4) by (force simp: dict_del_def)
  qed (use Cons.prems is_referenced_set in simp_all)
  with step show ?case by (simp add: dropped_def dict_del_set)
qed

section \<open>Changing one table\<close>

definition changed :: "schema_error + table \<Rightarrow> table" where
  "changed r = (case r of Inr t \<Rightarrow> t | Inl _ \<Rightarrow> created [])"

definition succeeds :: "schema_error + table \<Rightarrow> bool" where
  "succeeds r = (case r of Inr _ \<Rightarrow> True | Inl _ \<Rightarrow> False)"

lemma changed: "succeeds r \<Longrightarrow> r = Inr (changed r)"
  by (simp add: succeeds_def changed_def split: sum.splits)

lemma changed_Inr [simp]: "succeeds (Inr t)" "changed (Inr t) = t"
  by (simp_all add: succeeds_def changed_def)

lemma with_table_changed:
  assumes "map_of (sc_tables s) n = Some t" and "succeeds (f t)"
  shows "with_table n s f = Inr (s\<lparr>sc_tables := dict_set n (changed (f t)) (sc_tables s)\<rparr>)"
  using assms changed [of "f t"] by (cases "f t") (simp_all add: with_table_def succeeds_def)

lemma with_table_refused:
  assumes "map_of (sc_tables s) n = Some t" and "f t = Inl e"
  shows "with_table n s f = Inl e"
  using assms by (simp add: with_table_def)

lemma same_dict_refl: "distinct (map fst d) \<Longrightarrow> (\<And>v. v \<in> snd ` set d \<Longrightarrow> r v v) \<Longrightarrow> same_dict r d d"
  by (force simp: same_dict_def list_all_iff)

definition distinct_table :: "table \<Rightarrow> bool" where
  "distinct_table t \<longleftrightarrow> distinct (map fst (tb_columns t)) \<and> distinct (map fst (tb_indexes t))"

lemma same_table_refl: "distinct_table t \<Longrightarrow> same_table t t"
  by (simp add: same_table_def distinct_table_def same_dict_refl same_column_def)

lemma same_dict_set:
  fixes d :: "('k, 'v) dict"
  assumes "same_dict r d d" and "map_of d k = Some v" and "r w v"
  shows "same_dict r (dict_set k w d) d"
proof -
  have keys: "map fst (dict_set k w d) = map fst d" if "map_of d k = Some v" for d :: "('k, 'v) dict"
    using that by (induction d) (auto split: if_splits)
  have elems: "x \<in> set d \<or> x = (k, w)" if "x \<in> set (dict_set k w d)" for x and d :: "('k, 'v) dict"
    using that by (induction d) (auto split: if_splits)
  have "length (dict_set k w d) = length d" using keys [OF assms(2)] by (metis length_map)
  with assms keys [OF assms(2)] show ?thesis
    by (auto simp: same_dict_def list_all_iff simp del: map_of_eq_Some_iff dest!: elems split: option.splits)
qed

lemma same_schema_refl:
  assumes "list_all (\<lambda>(n, t). distinct_table t) (sc_tables s)" and "distinct (map fst (sc_tables s))"
  shows "same_schema s s"
  using assms by (auto simp: same_schema_def list_all_iff intro!: same_dict_refl same_table_refl)

lemma same_schema_set:
  assumes "same_schema s s" and "map_of (sc_tables s) n = Some t" and "same_table u t"
  shows "same_schema (s\<lparr>sc_tables := dict_set n u (sc_tables s)\<rparr>) s"
  using assms same_dict_set by (fastforce simp: same_schema_def)

end
