(* ===== verification/Migrations.thy ===== *)
theory Migrations
  imports Schema
begin

text \<open>
  The migrations of src/backend/alembic/versions, in the order of their \<open>down_revision\<close>: one definition
  for every table that is created, with its indexes, and for every \<open>upgrade\<close> and \<open>downgrade\<close>. The views
  are named by their classes in views.py.
\<close>

record revision =
  rv_id :: string
  rv_down :: "string option"
  rv_upgrade :: "ddl list"
  rv_downgrade :: "ddl list"

section \<open>Revision a465e415e03d\<close>

definition ddl_alias :: "ddl list" where
  "ddl_alias =
  [CreateTable ''alias''
    [col ''id'' SInteger False, col ''address'' (SString 255) False, col ''goto'' SText False,
     col ''domain'' (SString 255) False,
     dcol ''created'' SDateTime False (Sql ''CURRENT_TIMESTAMP''),
     dcol ''modified'' SDateTime False (Sql ''CURRENT_TIMESTAMP ON UPDATE CURRENT_TIMESTAMP''),
     col ''private_comment'' SText True, col ''public_comment'' SText True,
     dcol ''sogo_visible'' SBoolean False (Literal ''1''),
     dcol ''active'' SBoolean False (Literal ''0'')]
    [''id''] [],
   CreateIndex ''alias_address_key'' ''alias'' [''address''] True,
   CreateIndex ''alias_domain_key'' ''alias'' [''domain''] False]"

definition ddl_alias_domain :: "ddl list" where
  "ddl_alias_domain =
  [CreateTable ''alias_domain''
    [col ''alias_domain'' (SString 255) False, col ''target_domain'' (SString 255) False,
     dcol ''created'' SDateTime False (Sql ''CURRENT_TIMESTAMP''),
     dcol ''modified'' SDateTime False (Sql ''CURRENT_TIMESTAMP ON UPDATE CURRENT_TIMESTAMP''),
     dcol ''active'' SBoolean False (Literal ''1'')]
    [''alias_domain''] [],
   CreateIndex ''alias_domain_active_key'' ''alias_domain'' [''active''] False,
   CreateIndex ''alias_domain_target_domain_key'' ''alias_domain'' [''target_domain''] False]"

definition ddl_bcc_maps :: "ddl list" where
  "ddl_bcc_maps =
  [CreateTable ''bcc_maps''
    [col ''id'' SInteger False, col ''local_dest'' (SString 255) False,
     col ''bcc_dest'' (SString 255) False, col ''domain'' (SString 255) False,
     col ''type'' (SEnum [''sender'', ''rcpt'']) True,
     dcol ''created'' SDateTime False (Sql ''CURRENT_TIMESTAMP''),
     dcol ''modified'' SDateTime False (Sql ''CURRENT_TIMESTAMP ON UPDATE CURRENT_TIMESTAMP''),
     dcol ''active'' SBoolean False (Literal ''1'')]
    [''id''] [],
   CreateIndex ''bcc_maps_local_dest_key'' ''bcc_maps'' [''local_dest''] False]"

definition ddl_domain :: "ddl list" where
  "ddl_domain =
  [CreateTable ''domain''
    [col ''domain'' (SString 255) False, col ''description'' (SString 255) True,
     dcol ''aliases'' SInteger False (Literal ''0''),
     dcol ''mailboxes'' SInteger False (Literal ''0''),
     dcol ''defquota'' SBigInteger False (Literal ''3072''),
     dcol ''maxquota'' SBigInteger False (Literal ''102400''),
     dcol ''quota'' SBigInteger False (Literal ''102400''),
     dcol ''relayhost'' SInteger False (Literal ''0''),
     dcol ''backupmx'' SBoolean False (Literal ''0''), dcol ''gal'' SBoolean False (Literal ''1''),
     dcol ''relay_all_recipients'' SBoolean False (Literal ''0''),
     dcol ''relay_unknown_only'' SBoolean False (Literal ''0''),
     dcol ''created'' SDateTime False (Sql ''CURRENT_TIMESTAMP''),
     dcol ''modified'' SDateTime False (Sql ''CURRENT_TIMESTAMP ON UPDATE CURRENT_TIMESTAMP''),
     dcol ''active'' SBoolean False (Literal ''1'')]
    [''domain''] []]"

definition ddl_mailbox :: "ddl list" where
  "ddl_mailbox =
  [CreateTable ''mailbox''
    [col ''username'' (SString 255) False, col ''password'' (SString 255) False,
     col ''name'' (SString 255) True, col ''description'' (SString 255) True,
     dcol ''mailbox_path_prefix'' (SString 150) True (Literal ''/var/vmail/''),
     dcol ''quota'' SBigInteger False (Literal ''102400''), col ''local_part'' (SString 255) False,
     col ''domain'' (SString 255) False, col ''attributes'' SJson True,
     dcol ''custom_attributes'' SJson False (Literal ''{}''),
     dcol ''kind'' (SString 100) False (Literal []),
     dcol ''multiple_bookings'' SInteger False (Literal ''-1''),
     dcol ''created'' SDateTime False (Sql ''CURRENT_TIMESTAMP''),
     dcol ''modified'' SDateTime False (Sql ''CURRENT_TIMESTAMP ON UPDATE CURRENT_TIMESTAMP''),
     dcol ''active'' SBoolean False (Literal ''1'')]
    [''username''] [],
   CreateIndex ''mailbox_domain_key'' ''mailbox'' [''domain''] False,
   CreateIndex ''mailbox_domain_local_part_key'' ''mailbox'' [''domain'', ''local_part''] True,
   CreateIndex ''mailbox_kind_key'' ''mailbox'' [''kind''] False]"

definition ddl_quota2 :: "ddl list" where
  "ddl_quota2 =
  [CreateTable ''quota2''
    [col ''username'' (SString 255) False, dcol ''bytes'' SBigInteger False (Literal ''0''),
     dcol ''messages'' SBigInteger False (Literal ''0'')]
    [''username''] []]"

definition ddl_quota2replica :: "ddl list" where
  "ddl_quota2replica =
  [CreateTable ''quota2replica''
    [col ''username'' (SString 255) False, dcol ''bytes'' SBigInteger False (Literal ''0''),
     dcol ''messages'' SBigInteger False (Literal ''0'')]
    [''username''] []]"

definition ddl_recipient_maps :: "ddl list" where
  "ddl_recipient_maps =
  [CreateTable ''recipient_maps''
    [col ''id'' SInteger False, col ''old_dest'' (SString 255) False,
     col ''new_dest'' (SString 255) False,
     dcol ''created'' SDateTime False (Sql ''CURRENT_TIMESTAMP''),
     dcol ''modified'' SDateTime False (Sql ''CURRENT_TIMESTAMP ON UPDATE CURRENT_TIMESTAMP''),
     dcol ''active'' SBoolean False (Literal ''0'')]
    [''id''] [],
   CreateIndex ''recipient_maps_old_dest_key'' ''recipient_maps'' [''old_dest''] False]"

definition ddl_relayhosts :: "ddl list" where
  "ddl_relayhosts =
  [CreateTable ''relayhosts''
    [col ''id'' SInteger False, col ''hostname'' (SString 255) False,
     col ''username'' (SString 255) False, col ''password'' (SString 255) False,
     dcol ''active'' SBoolean False (Literal ''1'')]
    [''id''] [],
   CreateIndex ''relayhosts_hostname_key'' ''relayhosts'' [''hostname''] False]"

definition ddl_sender_acl :: "ddl list" where
  "ddl_sender_acl =
  [CreateTable ''sender_acl''
    [col ''id'' SInteger False, col ''logged_in_as'' (SString 255) False,
     col ''send_as'' (SString 255) False, dcol ''external'' SBoolean False (Literal ''0'')]
    [''id''] []]"

definition ddl_spamalias :: "ddl list" where
  "ddl_spamalias =
  [CreateTable ''spamalias''
    [col ''address'' (SString 255) False, col ''goto'' SText False,
     dcol ''created'' SDateTime False (Sql ''CURRENT_TIMESTAMP''),
     dcol ''modified'' SDateTime False (Sql ''CURRENT_TIMESTAMP ON UPDATE CURRENT_TIMESTAMP''),
     col ''validity'' SInteger False]
    [''address''] []]"

definition ddl_tls_policy_override :: "ddl list" where
  "ddl_tls_policy_override =
  [CreateTable ''tls_policy_override''
    [col ''id'' SInteger False, col ''dest'' (SString 255) False,
     col ''policy'' (SEnum [''none'', ''may'', ''encrypt'', ''dane'', ''dane-only'', ''fingerprint'', ''verify'', ''secure'']) False,
     dcol ''parameters'' (SString 255) True (Literal []),
     dcol ''created'' SDateTime False (Sql ''CURRENT_TIMESTAMP''),
     dcol ''modified'' SDateTime False (Sql ''CURRENT_TIMESTAMP ON UPDATE CURRENT_TIMESTAMP''),
     dcol ''active'' SBoolean False (Literal ''1'')]
    [''id''] [],
   CreateIndex ''tls_policy_override_dest_key'' ''tls_policy_override'' [''dest''] False]"

definition ddl_transports :: "ddl list" where
  "ddl_transports =
  [CreateTable ''transports''
    [col ''id'' SInteger False, col ''destination'' (SString 255) False,
     col ''nexthop'' (SString 255) False, dcol ''username'' (SString 255) False (Literal []),
     dcol ''password'' (SString 255) False (Literal []),
     dcol ''is_mx_based'' SBoolean False (Literal ''0''),
     dcol ''active'' SBoolean False (Literal ''1'')]
    [''id''] [],
   CreateIndex ''transports_destination_key'' ''transports'' [''destination''] False,
   CreateIndex ''transports_nexthop_key'' ''transports'' [''nexthop''] False]"

definition upgrade_a465e415e03d :: "ddl list" where
  "upgrade_a465e415e03d =
   ddl_alias @ ddl_alias_domain @ ddl_bcc_maps @ ddl_domain @ ddl_mailbox @ ddl_quota2 @
   ddl_quota2replica @ ddl_recipient_maps @ ddl_relayhosts @ ddl_sender_acl @ ddl_spamalias @
   ddl_tls_policy_override @ ddl_transports"

definition downgrade_a465e415e03d :: "ddl list" where
  "downgrade_a465e415e03d =
   [DropIndex ''transports_nexthop_key'' ''transports'',
    DropIndex ''transports_destination_key'' ''transports'', DropTable ''transports'',
    DropIndex ''tls_policy_override_dest_key'' ''tls_policy_override'',
    DropTable ''tls_policy_override'', DropTable ''spamalias'', DropTable ''sender_acl'',
    DropIndex ''relayhosts_hostname_key'' ''relayhosts'', DropTable ''relayhosts'',
    DropIndex ''recipient_maps_old_dest_key'' ''recipient_maps'', DropTable ''recipient_maps'',
    DropTable ''quota2replica'', DropTable ''quota2'', DropIndex ''mailbox_kind_key'' ''mailbox'',
    DropIndex ''mailbox_domain_local_part_key'' ''mailbox'',
    DropIndex ''mailbox_domain_key'' ''mailbox'', DropTable ''mailbox'', DropTable ''domain'',
    DropIndex ''bcc_maps_local_dest_key'' ''bcc_maps'', DropTable ''bcc_maps'',
    DropIndex ''alias_domain_target_domain_key'' ''alias_domain'',
    DropIndex ''alias_domain_active_key'' ''alias_domain'', DropTable ''alias_domain'',
    DropIndex ''alias_domain_key'' ''alias'', DropIndex ''alias_address_key'' ''alias'',
    DropTable ''alias'']"

definition revision_a465e415e03d :: revision where
  "revision_a465e415e03d =
     \<lparr>rv_id = ''a465e415e03d'', rv_down = None,
      rv_upgrade = upgrade_a465e415e03d, rv_downgrade = downgrade_a465e415e03d\<rparr>"

section \<open>Revision 8d3df567c75c\<close>

definition upgrade_8d3df567c75c :: "ddl list" where
  "upgrade_8d3df567c75c =
   [CreateView ''GroupedDomainAliasAddressView'',
    CreateView ''GroupedMailAliasesView'',
    CreateView ''GroupedSenderAclExternalView'',
    CreateView ''GroupedSenderAclView'']"

definition downgrade_8d3df567c75c :: "ddl list" where
  "downgrade_8d3df567c75c =
   [DropView ''GroupedDomainAliasAddressView'', DropView ''GroupedMailAliasesView'',
    DropView ''GroupedSenderAclExternalView'', DropView ''GroupedSenderAclView'']"

definition revision_8d3df567c75c :: revision where
  "revision_8d3df567c75c =
     \<lparr>rv_id = ''8d3df567c75c'', rv_down = Some ''a465e415e03d'',
      rv_upgrade = upgrade_8d3df567c75c, rv_downgrade = downgrade_8d3df567c75c\<rparr>"

section \<open>Revision 9fbec9137efe\<close>

definition ddl_sogo_static_view :: "ddl list" where
  "ddl_sogo_static_view =
  [CreateTable ''_sogo_static_view''
    [col ''c_uid'' (SString 255) False, col ''domain'' (SString 255) False,
     col ''c_name'' (SString 255) False, dcol ''c_password'' (SString 255) False (Literal []),
     col ''c_cn'' (SString 255) True, col ''c_l'' (SString 255) True,
     col ''c_o'' (SString 255) True, col ''c_ou'' (SString 255) True,
     col ''c_telephonenumber'' (SString 255) True, col ''mail'' (SString 255) False,
     col ''aliases'' SText False, dcol ''ad_aliases'' (SString 6144) False (Literal []),
     dcol ''ext_acl'' (SString 6144) False (Literal []),
     dcol ''kind'' (SString 100) False (Literal []),
     dcol ''multiple_bookings'' SInteger False (Literal ''1'')]
    [''c_uid''] [],
   CreateIndex ''_sogo_static_view_domain_key'' ''_sogo_static_view'' [''domain''] False]"

definition upgrade_9fbec9137efe :: "ddl list" where
  "upgrade_9fbec9137efe =
   ddl_sogo_static_view"

definition downgrade_9fbec9137efe :: "ddl list" where
  "downgrade_9fbec9137efe =
   [DropIndex ''_sogo_static_view_domain_key'' ''_sogo_static_view'',
    DropTable ''_sogo_static_view'']"

definition revision_9fbec9137efe :: revision where
  "revision_9fbec9137efe =
     \<lparr>rv_id = ''9fbec9137efe'', rv_down = Some ''8d3df567c75c'',
      rv_upgrade = upgrade_9fbec9137efe, rv_downgrade = downgrade_9fbec9137efe\<rparr>"

section \<open>Revision 359478dc9830\<close>

definition ddl_app_passwd :: "ddl list" where
  "ddl_app_passwd =
  [CreateTable ''app_passwd''
    [col ''id'' SInteger False, col ''name'' (SString 255) False,
     col ''mailbox'' (SString 255) False, col ''domain'' (SString 255) False,
     col ''password'' (SString 255) False, dcol ''imap_access'' SBoolean False (Literal ''1''),
     dcol ''smtp_access'' SBoolean False (Literal ''1''),
     dcol ''dav_access'' SBoolean False (Literal ''1''),
     dcol ''eas_access'' SBoolean False (Literal ''1''),
     dcol ''pop3_access'' SBoolean False (Literal ''1''),
     dcol ''sieve_access'' SBoolean False (Literal ''1''),
     dcol ''active'' SBoolean False (Literal ''1''),
     dcol ''created'' SDateTime False (Sql ''CURRENT_TIMESTAMP''),
     dcol ''modified'' SDateTime False (Sql ''CURRENT_TIMESTAMP ON UPDATE CURRENT_TIMESTAMP'')]
    [''id''] [fkey ''mailbox'' ''mailbox'' ''username'' (Some ''CASCADE'')],
   CreateIndex ''app_passwd_domain'' ''app_passwd'' [''domain''] False,
   CreateIndex ''app_passwd_mailbox'' ''app_passwd'' [''mailbox''] False,
   CreateIndex ''app_passwd_password'' ''app_passwd'' [''password''] False]"

definition ddl_user_acl :: "ddl list" where
  "ddl_user_acl =
  [CreateTable ''user_acl''
    [col ''username'' (SString 255) False, dcol ''spam_alias'' SBoolean False (Literal ''1''),
     dcol ''tls_policy'' SBoolean False (Literal ''1''),
     dcol ''spam_score'' SBoolean False (Literal ''1''),
     dcol ''spam_policy'' SBoolean False (Literal ''1''),
     dcol ''delimiter_action'' SBoolean False (Literal ''1''),
     dcol ''syncjobs'' SBoolean False (Literal ''0''),
     dcol ''eas_reset'' SBoolean False (Literal ''1''),
     dcol ''sogo_profile_reset'' SBoolean False (Literal ''0''),
     dcol ''pushover'' SBoolean False (Literal ''1''),
     dcol ''quarantine'' SBoolean False (Literal ''1''),
     dcol ''quarantine_attachments'' SBoolean False (Literal ''1''),
     dcol ''quarantine_notification'' SBoolean False (Literal ''1''),
     dcol ''quarantine_category'' SBoolean False (Literal ''1''),
     dcol ''app_passwds'' SBoolean False (Literal ''1''),
     dcol ''pw_reset'' SBoolean False (Literal ''1'')]
    [''username''] [fkey ''username'' ''mailbox'' ''username'' None]]"

definition ddl_user_attributes :: "ddl list" where
  "ddl_user_attributes =
  [CreateTable ''user_attributes''
    [col ''username'' (SString 255) False, dcol ''force_pw_update'' SBoolean False (Literal ''0''),
     dcol ''tls_enforce_in'' SBoolean False (Literal ''0''),
     dcol ''tls_enforce_out'' SBoolean False (Literal ''0''),
     dcol ''relayhost'' SInteger False (Literal ''0''),
     dcol ''sogo_access'' SBoolean False (Literal ''1''),
     dcol ''imap_access'' SBoolean False (Literal ''1''),
     dcol ''pop3_access'' SBoolean False (Literal ''1''),
     dcol ''smtp_access'' SBoolean False (Literal ''1''),
     dcol ''sieve_access'' SBoolean False (Literal ''1''),
     dcol ''quarantine_notification'' (SEnum [''never'', ''hourly'', ''daily'', ''weekly'']) False (Literal ''hourly''),
     dcol ''quarantine_category'' (SEnum [''add_header'', ''reject'', ''all'']) False (Literal ''reject'')]
    [''username''] [fkey ''username'' ''mailbox'' ''username'' None]]"

definition upgrade_359478dc9830 :: "ddl list" where
  "upgrade_359478dc9830 =
   ddl_app_passwd @ ddl_user_acl @ ddl_user_attributes @
   [DropColumn ''mailbox'' ''attributes'',
    DropColumn ''mailbox'' ''custom_attributes'']"

definition downgrade_359478dc9830 :: "ddl list" where
  "downgrade_359478dc9830 =
   [AddColumn ''mailbox'' (dcol ''custom_attributes'' SLongText False (Sql [CHR 0x27, CHR 0x7B, CHR 0x7D, CHR 0x27])),
    AddColumn ''mailbox'' (col ''attributes'' SLongText True), DropTable ''user_attributes'',
    DropTable ''user_acl'', DropIndex ''app_passwd_password'' ''app_passwd'',
    DropIndex ''app_passwd_mailbox'' ''app_passwd'',
    DropIndex ''app_passwd_domain'' ''app_passwd'', DropTable ''app_passwd'']"

definition revision_359478dc9830 :: revision where
  "revision_359478dc9830 =
     \<lparr>rv_id = ''359478dc9830'', rv_down = Some ''9fbec9137efe'',
      rv_upgrade = upgrade_359478dc9830, rv_downgrade = downgrade_359478dc9830\<rparr>"

section \<open>Revision cf1ffc14619b\<close>

definition ddl_sasl_log :: "ddl list" where
  "ddl_sasl_log =
  [CreateTable ''sasl_log''
    [col ''app_password'' SInteger False, col ''service'' (SString 32) False,
     col ''username'' (SString 255) False, col ''real_ip'' (SString 64) False,
     dcol ''datetime'' SDateTime False (Sql ''CURRENT_TIMESTAMP'')]
    [''service'', ''real_ip'', ''username''] [],
   CreateIndex ''sasl_log_datetime_key'' ''sasl_log'' [''datetime''] False,
   CreateIndex ''sasl_log_real_ip_key'' ''sasl_log'' [''real_ip''] False,
   CreateIndex ''sasl_log_service_key'' ''sasl_log'' [''service''] False,
   CreateIndex ''sasl_log_username_key'' ''sasl_log'' [''username''] False]"

definition upgrade_cf1ffc14619b :: "ddl list" where
  "upgrade_cf1ffc14619b =
   ddl_sasl_log"

definition downgrade_cf1ffc14619b :: "ddl list" where
  "downgrade_cf1ffc14619b =
   [DropIndex ''sasl_log_username_key'' ''sasl_log'',
    DropIndex ''sasl_log_service_key'' ''sasl_log'',
    DropIndex ''sasl_log_real_ip_key'' ''sasl_log'',
    DropIndex ''sasl_log_datetime_key'' ''sasl_log'', DropTable ''sasl_log'']"

definition revision_cf1ffc14619b :: revision where
  "revision_cf1ffc14619b =
     \<lparr>rv_id = ''cf1ffc14619b'', rv_down = Some ''359478dc9830'',
      rv_upgrade = upgrade_cf1ffc14619b, rv_downgrade = downgrade_cf1ffc14619b\<rparr>"

section \<open>Revision 1270737d431e\<close>

definition ddl_sogo_acl :: "ddl list" where
  "ddl_sogo_acl =
  [CreateTable ''sogo_acl''
    [col ''id'' SInteger False, col ''c_folder_id'' SInteger False,
     col ''c_object'' (SString 255) False, col ''c_uid'' (SString 255) False,
     col ''c_role'' (SString 80) False]
    [''id''] [],
   CreateIndex ''sogo_acl_c_folder_id_key'' ''sogo_acl'' [''c_folder_id''] False,
   CreateIndex ''sogo_acl_c_uid_key'' ''sogo_acl'' [''c_uid''] False]"

definition ddl_sogo_admin :: "ddl list" where
  "ddl_sogo_admin =
  [CreateTable ''sogo_admin''
    [dcol ''c_key'' (SString 255) False (Literal []), col ''c_content'' SText False]
    [''c_key''] []]"

definition ddl_sogo_alarms_folder :: "ddl list" where
  "ddl_sogo_alarms_folder =
  [CreateTable ''sogo_alarms_folder''
    [col ''id'' SInteger False, col ''c_path'' (SString 255) False,
     col ''c_name'' (SString 255) False, col ''c_uid'' (SString 255) False,
     col ''c_recurrence_id'' SInteger True, col ''c_alarm_number'' SInteger False,
     col ''c_alarm_date'' SInteger False]
    [''id''] []]"

definition ddl_sogo_cache_folder :: "ddl list" where
  "ddl_sogo_cache_folder =
  [CreateTable ''sogo_cache_folder''
    [col ''c_uid'' (SString 255) False, col ''c_path'' (SString 255) False,
     col ''c_parent_path'' (SString 255) True, col ''c_type'' SInteger False,
     col ''c_creationdate'' SInteger False, col ''c_lastmodified'' SInteger False,
     dcol ''c_version'' SInteger False (Literal ''0''),
     dcol ''c_deleted'' SBoolean False (Literal ''0''), col ''c_content'' SText False]
    [''c_uid'', ''c_path''] []]"

definition ddl_sogo_folder_info :: "ddl list" where
  "ddl_sogo_folder_info =
  [CreateTable ''sogo_folder_info''
    [col ''c_folder_id'' SBigInteger False, col ''c_path'' (SString 255) False,
     col ''c_path1'' (SString 255) False, col ''c_path2'' (SString 255) True,
     col ''c_path3'' (SString 255) True, col ''c_path4'' (SString 255) True,
     col ''c_foldername'' (SString 255) False, col ''c_location'' (SString 2048) True,
     col ''c_quick_location'' (SString 2048) True, col ''c_acl_location'' (SString 2048) True,
     col ''c_folder_type'' (SString 255) False]
    [''c_folder_id''] [],
   CreateIndex ''sogo_folder_info_c_path_key'' ''sogo_folder_info'' [''c_path''] True]"

definition ddl_sogo_quick_appointment :: "ddl list" where
  "ddl_sogo_quick_appointment =
  [CreateTable ''sogo_quick_appointment''
    [col ''c_folder_id'' SInteger False, col ''c_name'' (SString 255) False,
     col ''c_uid'' (SString 255) False, col ''c_startdate'' SInteger True,
     col ''c_enddate'' SInteger True, col ''c_cycleenddate'' SInteger True,
     col ''c_title'' (SString 1000) False, col ''c_participants'' SText True,
     col ''c_isallday'' SBoolean True, col ''c_iscycle'' SBoolean True,
     col ''c_cycleinfo'' SText True, col ''c_classification'' SInteger False,
     col ''c_isopaque'' SBoolean False, col ''c_status'' SInteger False,
     col ''c_priority'' SInteger True, col ''c_location'' (SString 255) True,
     col ''c_orgmail'' (SString 255) True, col ''c_partmails'' SText True,
     col ''c_partstates'' SText True, col ''c_category'' (SString 255) True,
     col ''c_sequence'' SInteger True, col ''c_component'' (SString 10) False,
     col ''c_nextalarm'' SInteger True, col ''c_description'' SText True]
    [''c_folder_id'', ''c_name''] []]"

definition ddl_sogo_quick_contact :: "ddl list" where
  "ddl_sogo_quick_contact =
  [CreateTable ''sogo_quick_contact''
    [col ''c_folder_id'' SInteger False, col ''c_name'' (SString 255) False,
     col ''c_givenname'' (SString 255) True, col ''c_cn'' (SString 255) True,
     col ''c_sn'' (SString 255) True, col ''c_screenname'' (SString 255) True,
     col ''c_l'' (SString 255) True, col ''c_mail'' SText True, col ''c_o'' (SString 255) True,
     col ''c_ou'' (SString 255) True, col ''c_telephonenumber'' (SString 255) True,
     col ''c_categories'' (SString 255) True, col ''c_component'' (SString 10) False,
     dcol ''c_hascertificate'' SBoolean False (Literal ''0'')]
    [''c_folder_id'', ''c_name''] []]"

definition ddl_sogo_sessions_folder :: "ddl list" where
  "ddl_sogo_sessions_folder =
  [CreateTable ''sogo_sessions_folder''
    [col ''c_id'' (SString 255) False, col ''c_value'' (SString 4096) False,
     col ''c_creationdate'' SInteger False, col ''c_lastseen'' SInteger False]
    [''c_id''] []]"

definition ddl_sogo_store :: "ddl list" where
  "ddl_sogo_store =
  [CreateTable ''sogo_store''
    [col ''c_folder_id'' SInteger False, dcol ''c_name'' (SString 255) False (Literal []),
     col ''c_content'' SText False, col ''c_creationdate'' SInteger False,
     col ''c_lastmodified'' SInteger False, col ''c_version'' SInteger False,
     col ''c_deleted'' SInteger True]
    [''c_folder_id'', ''c_name''] []]"

definition ddl_sogo_user_profile :: "ddl list" where
  "ddl_sogo_user_profile =
  [CreateTable ''sogo_user_profile''
    [col ''c_uid'' (SString 255) False, col ''c_defaults'' SText True, col ''c_settings'' SText True]
    [''c_uid''] []]"

definition upgrade_1270737d431e :: "ddl list" where
  "upgrade_1270737d431e =
   ddl_sogo_acl @ ddl_sogo_admin @ ddl_sogo_alarms_folder @ ddl_sogo_cache_folder @
   ddl_sogo_folder_info @ ddl_sogo_quick_appointment @ ddl_sogo_quick_contact @
   ddl_sogo_sessions_folder @ ddl_sogo_store @ ddl_sogo_user_profile"

definition downgrade_1270737d431e :: "ddl list" where
  "downgrade_1270737d431e =
   [DropTable ''sogo_user_profile'', DropTable ''sogo_store'', DropTable ''sogo_sessions_folder'',
    DropTable ''sogo_quick_contact'', DropTable ''sogo_quick_appointment'',
    DropIndex ''sogo_folder_info_c_path_key'' ''sogo_folder_info'', DropTable ''sogo_folder_info'',
    DropTable ''sogo_cache_folder'', DropTable ''sogo_alarms_folder'', DropTable ''sogo_admin'',
    DropIndex ''sogo_acl_c_uid_key'' ''sogo_acl'',
    DropIndex ''sogo_acl_c_folder_id_key'' ''sogo_acl'', DropTable ''sogo_acl'']"

definition revision_1270737d431e :: revision where
  "revision_1270737d431e =
     \<lparr>rv_id = ''1270737d431e'', rv_down = Some ''cf1ffc14619b'',
      rv_upgrade = upgrade_1270737d431e, rv_downgrade = downgrade_1270737d431e\<rparr>"

section \<open>Revision 4ad58e01b14b\<close>

definition ddl_filterconf :: "ddl list" where
  "ddl_filterconf =
  [CreateTable ''filterconf''
    [col ''prefix'' SInteger False, dcol ''object'' (SString 255) False (Literal []),
     dcol ''option'' (SString 50) False (Literal []),
     dcol ''value'' (SString 100) False (Literal []),
     dcol ''created'' SDateTime False (Sql ''CURRENT_TIMESTAMP''),
     dcol ''modified'' SDateTime False (Sql ''CURRENT_TIMESTAMP ON UPDATE CURRENT_TIMESTAMP'')]
    [''prefix''] [],
   CreateIndex ''filterconf_object_key'' ''filterconf'' [''object''] False]"

definition ddl_imapsync :: "ddl list" where
  "ddl_imapsync =
  [CreateTable ''imapsync''
    [col ''id'' SInteger False, col ''user2'' (SString 255) False,
     col ''host1'' (SString 255) False,
     dcol ''authmech1'' (SEnum [''PLAIN'', ''LOGIN'', ''CRAM-MD5'']) False (Literal ''PLAIN''),
     dcol ''regextrans2'' (SString 255) False (Literal []),
     dcol ''authmd51'' SBoolean False (Literal ''0''),
     dcol ''domain2'' (SString 255) False (Literal []),
     dcol ''subfolder2'' (SString 255) False (Literal []), col ''user1'' (SString 255) False,
     col ''password1'' (SString 255) False, dcol ''exclude'' (SString 500) False (Literal []),
     dcol ''maxage'' SInteger False (Literal ''0''),
     dcol ''mins_interval'' SInteger False (Literal ''0''),
     dcol ''maxbytespersecond'' (SString 5) False (Literal ''0''), col ''port1'' SInteger False,
     dcol ''enc1'' (SEnum [''TLS'', ''SSL'', ''PLAIN'']) False (Literal ''TLS''),
     dcol ''delete2duplicates'' SBoolean False (Literal ''1''),
     dcol ''delete1'' SBoolean False (Literal ''0''),
     dcol ''delete2'' SBoolean False (Literal ''0''),
     dcol ''automap'' SBoolean False (Literal ''0''),
     dcol ''skipcrossduplicates'' SBoolean False (Literal ''0''),
     dcol ''custom_params'' (SString 512) False (Literal []),
     dcol ''timeout1'' SInteger False (Literal ''600''),
     dcol ''timeout2'' SInteger False (Literal ''600''),
     dcol ''subscribeall'' SBoolean False (Literal ''1''),
     dcol ''dry'' SBoolean False (Literal ''0''),
     dcol ''is_running'' SBoolean False (Literal ''0''), col ''returned_text'' SText True,
     col ''last_run'' STimestamp True, col ''success'' SBoolean True,
     col ''exit_status'' (SString 50) True, dcol ''active'' SBoolean False (Literal ''0''),
     dcol ''created'' SDateTime False (Sql ''CURRENT_TIMESTAMP''),
     dcol ''modified'' SDateTime False (Sql ''CURRENT_TIMESTAMP ON UPDATE CURRENT_TIMESTAMP'')]
    [''id''] []]"

definition ddl_quarantine :: "ddl list" where
  "ddl_quarantine =
  [CreateTable ''quarantine''
    [col ''id'' SInteger False, col ''qid'' (SString 30) False, col ''subject'' (SString 500) True,
     col ''score'' SFloat True, col ''ip'' (SString 50) True,
     dcol ''action'' (SString 20) False (Literal ''unknown''), col ''symbols'' SJson False,
     col ''fuzzy_hashes'' SJson False, dcol ''sender'' (SString 255) False (Literal ''unknown''),
     col ''rcpt'' (SString 255) True, col ''msg'' SText True, col ''domain'' (SString 255) True,
     dcol ''notified'' SBoolean False (Literal ''0''),
     dcol ''created'' SDateTime False (Sql ''CURRENT_TIMESTAMP''),
     dcol ''user'' (SString 255) False (Literal ''unknown'')]
    [''id''] []]"

definition ddl_settingsmap :: "ddl list" where
  "ddl_settingsmap =
  [CreateTable ''settingsmap''
    [col ''id'' SInteger False, col ''desc'' (SString 255) False, col ''content'' SText False,
     dcol ''active'' SBoolean False (Literal ''0''),
     dcol ''created'' SDateTime False (Sql ''CURRENT_TIMESTAMP''),
     dcol ''modified'' SDateTime False (Sql ''CURRENT_TIMESTAMP ON UPDATE CURRENT_TIMESTAMP'')]
    [''id''] []]"

definition upgrade_4ad58e01b14b :: "ddl list" where
  "upgrade_4ad58e01b14b =
   ddl_filterconf @ ddl_imapsync @ ddl_quarantine @ ddl_settingsmap"

definition downgrade_4ad58e01b14b :: "ddl list" where
  "downgrade_4ad58e01b14b =
   [DropTable ''settingsmap'', DropTable ''quarantine'', DropTable ''imapsync'',
    DropIndex ''filterconf_object_key'' ''filterconf'', DropTable ''filterconf'']"

definition revision_4ad58e01b14b :: revision where
  "revision_4ad58e01b14b =
     \<lparr>rv_id = ''4ad58e01b14b'', rv_down = Some ''1270737d431e'',
      rv_upgrade = upgrade_4ad58e01b14b, rv_downgrade = downgrade_4ad58e01b14b\<rparr>"

section \<open>Revision f3adbeb27923\<close>

definition ddl_sieve_filters :: "ddl list" where
  "ddl_sieve_filters =
  [CreateTable ''sieve_filters''
    [col ''id'' SInteger False, col ''username'' (SString 255) False,
     col ''script_desc'' (SString 255) False,
     col ''script_name'' (SEnum [''active'', ''inactive'']) False, col ''script_data'' SText False,
     col ''filter_type'' (SEnum [''postfilter'', ''prefilter'']) False,
     dcol ''created'' SDateTime False (Sql ''CURRENT_TIMESTAMP''),
     dcol ''modified'' SDateTime False (Sql ''CURRENT_TIMESTAMP ON UPDATE CURRENT_TIMESTAMP'')]
    [''id''] [fkey ''username'' ''mailbox'' ''username'' (Some ''CASCADE'')],
   CreateIndex ''sieve_filters_script_desc_key'' ''sieve_filters'' [''script_desc''] False,
   CreateIndex ''sieve_filters_username_key'' ''sieve_filters'' [''username''] False]"

definition upgrade_f3adbeb27923 :: "ddl list" where
  "upgrade_f3adbeb27923 =
   ddl_sieve_filters @
   [DropForeignKeyTo ''user_acl'' ''mailbox'' [''username''],
    CreateForeignKey ''user_acl'' (fkey ''username'' ''mailbox'' ''username'' (Some ''CASCADE'')),
    DropForeignKeyTo ''user_attributes'' ''mailbox'' [''username''],
    CreateForeignKey ''user_attributes'' (fkey ''username'' ''mailbox'' ''username'' (Some ''CASCADE'')),
    CreateView ''SieveBeforeView'',
    CreateView ''SieveAfterView'']"

definition downgrade_f3adbeb27923 :: "ddl list" where
  "downgrade_f3adbeb27923 =
   [DropForeignKeyTo ''user_attributes'' ''mailbox'' [''username''],
    CreateForeignKey ''user_attributes'' (fkey ''username'' ''mailbox'' ''username'' None),
    DropForeignKeyTo ''user_acl'' ''mailbox'' [''username''],
    CreateForeignKey ''user_acl'' (fkey ''username'' ''mailbox'' ''username'' None),
    DropIndex ''sieve_filters_username_key'' ''sieve_filters'',
    DropIndex ''sieve_filters_script_desc_key'' ''sieve_filters'', DropTable ''sieve_filters'',
    DropView ''SieveAfterView'', DropView ''SieveBeforeView'']"

definition revision_f3adbeb27923 :: revision where
  "revision_f3adbeb27923 =
     \<lparr>rv_id = ''f3adbeb27923'', rv_down = Some ''4ad58e01b14b'',
      rv_upgrade = upgrade_f3adbeb27923, rv_downgrade = downgrade_f3adbeb27923\<rparr>"

section \<open>Revision ca00bb9d1645\<close>

definition upgrade_ca00bb9d1645 :: "ddl list" where
  "upgrade_ca00bb9d1645 =
   [AlterColumn ''domain'' ''defquota'' None None (Some (Some (Sql ''3221225472''))),
    AlterColumn ''domain'' ''maxquota'' None None (Some (Some (Sql ''107374182400''))),
    AlterColumn ''domain'' ''quota'' None None (Some (Some (Sql ''107374182400''))),
    AlterColumn ''mailbox'' ''quota'' None None (Some None)]"

definition downgrade_ca00bb9d1645 :: "ddl list" where
  "downgrade_ca00bb9d1645 =
   [AlterColumn ''mailbox'' ''quota'' None None (Some (Some (Sql ''3072''))),
    AlterColumn ''domain'' ''quota'' None None (Some (Some (Sql ''102400''))),
    AlterColumn ''domain'' ''maxquota'' None None (Some (Some (Sql ''102400''))),
    AlterColumn ''domain'' ''defquota'' None None (Some (Some (Sql ''3072'')))]"

definition revision_ca00bb9d1645 :: revision where
  "revision_ca00bb9d1645 =
     \<lparr>rv_id = ''ca00bb9d1645'', rv_down = Some ''f3adbeb27923'',
      rv_upgrade = upgrade_ca00bb9d1645, rv_downgrade = downgrade_ca00bb9d1645\<rparr>"

section \<open>Revision 79d64ba432c7\<close>

definition upgrade_79d64ba432c7 :: "ddl list" where
  "upgrade_79d64ba432c7 =
   [AlterColumn ''alias'' ''active'' None None (Some (Some (Sql ''1''))),
    AddColumn ''alias'' (dcol ''internal'' SBoolean False (Literal ''0''))]"

definition downgrade_79d64ba432c7 :: "ddl list" where
  "downgrade_79d64ba432c7 =
   [DropColumn ''alias'' ''internal'',
    AlterColumn ''alias'' ''active'' None None (Some (Some (Sql ''0'')))]"

definition revision_79d64ba432c7 :: revision where
  "revision_79d64ba432c7 =
     \<lparr>rv_id = ''79d64ba432c7'', rv_down = Some ''ca00bb9d1645'',
      rv_upgrade = upgrade_79d64ba432c7, rv_downgrade = downgrade_79d64ba432c7\<rparr>"

section \<open>Revision 688be1178ef6\<close>

definition upgrade_688be1178ef6 :: "ddl list" where
  "upgrade_688be1178ef6 =
   [Execute (''UPDATE alias SET private_comment = '' @ [CHR 0x27] @ [CHR 0x27] @ '' WHERE private_comment IS NULL''),
    Execute (''UPDATE alias SET public_comment = '' @ [CHR 0x27] @ [CHR 0x27] @ '' WHERE public_comment IS NULL''),
    AlterColumn ''alias'' ''private_comment'' (Some (SString 160)) (Some False) (Some (Some (Literal []))),
    AlterColumn ''alias'' ''public_comment'' (Some (SString 160)) (Some False) (Some (Some (Literal [])))]"

definition downgrade_688be1178ef6 :: "ddl list" where
  "downgrade_688be1178ef6 =
   [AlterColumn ''alias'' ''public_comment'' (Some SText) (Some True) (Some None),
    AlterColumn ''alias'' ''private_comment'' (Some SText) (Some True) (Some None),
    Execute (''UPDATE alias SET public_comment = NULL WHERE public_comment = '' @ [CHR 0x27] @ [CHR 0x27]),
    Execute (''UPDATE alias SET private_comment = NULL WHERE private_comment = '' @ [CHR 0x27] @ [CHR 0x27])]"

definition revision_688be1178ef6 :: revision where
  "revision_688be1178ef6 =
     \<lparr>rv_id = ''688be1178ef6'', rv_down = Some ''79d64ba432c7'',
      rv_upgrade = upgrade_688be1178ef6, rv_downgrade = downgrade_688be1178ef6\<rparr>"

section \<open>Revision 2a8c4f6e9b01\<close>

definition ddl_dmarc_report :: "ddl list" where
  "ddl_dmarc_report =
  [CreateTable ''dmarc_report''
    [col ''id'' SInteger False, col ''report_id'' (SString 255) False,
     col ''org_name'' (SString 255) False, dcol ''org_email'' (SString 255) False (Literal []),
     col ''domain'' (SString 255) False, col ''policy'' (SString 20) False,
     col ''begin_date'' SDateTime False, col ''end_date'' SDateTime False,
     dcol ''created'' SDateTime False (Sql ''CURRENT_TIMESTAMP'')]
    [''id''] [],
   CreateIndex ''dmarc_report_report_id_key'' ''dmarc_report'' [''report_id''] True,
   CreateIndex ''dmarc_report_domain_key'' ''dmarc_report'' [''domain''] False,
   CreateIndex ''dmarc_report_begin_date_key'' ''dmarc_report'' [''begin_date''] False]"

definition ddl_dmarc_record :: "ddl list" where
  "ddl_dmarc_record =
  [CreateTable ''dmarc_record''
    [col ''id'' SInteger False, col ''report_id'' SInteger False,
     col ''source_ip'' (SString 64) False, col ''count'' SInteger False,
     col ''disposition'' (SString 20) False, col ''dkim_result'' (SString 20) False,
     col ''spf_result'' (SString 20) False, col ''dmarc_result'' (SString 20) False,
     col ''header_from'' (SString 255) False,
     dcol ''envelope_from'' (SString 255) False (Literal [])]
    [''id''] [fkey ''report_id'' ''dmarc_report'' ''id'' (Some ''CASCADE'')],
   CreateIndex ''dmarc_record_report_id_key'' ''dmarc_record'' [''report_id''] False,
   CreateIndex ''dmarc_record_source_ip_key'' ''dmarc_record'' [''source_ip''] False,
   CreateIndex ''dmarc_record_header_from_key'' ''dmarc_record'' [''header_from''] False]"

definition upgrade_2a8c4f6e9b01 :: "ddl list" where
  "upgrade_2a8c4f6e9b01 =
   ddl_dmarc_report @ ddl_dmarc_record"

definition downgrade_2a8c4f6e9b01 :: "ddl list" where
  "downgrade_2a8c4f6e9b01 =
   [DropIndex ''dmarc_record_header_from_key'' ''dmarc_record'',
    DropIndex ''dmarc_record_source_ip_key'' ''dmarc_record'',
    DropIndex ''dmarc_record_report_id_key'' ''dmarc_record'', DropTable ''dmarc_record'',
    DropIndex ''dmarc_report_begin_date_key'' ''dmarc_report'',
    DropIndex ''dmarc_report_domain_key'' ''dmarc_report'',
    DropIndex ''dmarc_report_report_id_key'' ''dmarc_report'', DropTable ''dmarc_report'']"

definition revision_2a8c4f6e9b01 :: revision where
  "revision_2a8c4f6e9b01 =
     \<lparr>rv_id = ''2a8c4f6e9b01'', rv_down = Some ''688be1178ef6'',
      rv_upgrade = upgrade_2a8c4f6e9b01, rv_downgrade = downgrade_2a8c4f6e9b01\<rparr>"

text \<open>All revisions, in order.\<close>

definition revisions :: "revision list" where
  "revisions =
     [revision_a465e415e03d, revision_8d3df567c75c, revision_9fbec9137efe, revision_359478dc9830,
      revision_cf1ffc14619b, revision_1270737d431e, revision_4ad58e01b14b, revision_f3adbeb27923,
      revision_ca00bb9d1645, revision_79d64ba432c7, revision_688be1178ef6, revision_2a8c4f6e9b01]"

end
