(* ===== verification/ModelTables.thy ===== *)
theory ModelTables
  imports Schema
begin

text \<open>
  The tables that the models of src/backend/taramail/models.py declare, one definition for every class. A
  column without a type has that of the annotation, or that of the column a foreign key refers to; it is
  nullable when the annotation allows \<open>None\<close>. The columns of \<open>TimestampMixin\<close> come last.
\<close>

definition timestamp_columns :: "(string, column) dict" where
  "timestamp_columns =
    [dcol ''created'' SDateTime False (Sql ''CURRENT_TIMESTAMP''),
     dcol ''modified'' SDateTime False (Sql ''CURRENT_TIMESTAMP ON UPDATE CURRENT_TIMESTAMP'')]"

definition model_alias :: table where
  "model_alias =
     \<lparr>tb_columns =
       [col ''id'' SInteger False, col ''address'' (SString 255) False, col ''goto'' SText False,
        col ''domain'' (SString 255) False,
        dcol ''private_comment'' (SString 160) False (Literal []),
        dcol ''public_comment'' (SString 160) False (Literal []),
        dcol ''sogo_visible'' SBoolean False (Literal ''1''),
        dcol ''internal'' SBoolean False (Literal ''0''),
        dcol ''active'' SBoolean False (Literal ''1'')] @ timestamp_columns,
      tb_primary = [''id''],
      tb_foreign = [],
      tb_indexes = [(''alias_address_key'', \<lparr>ix_columns = [''address''], ix_unique = True\<rparr>),
        (''alias_domain_key'', \<lparr>ix_columns = [''domain''], ix_unique = False\<rparr>)]\<rparr>"

definition model_alias_domain :: table where
  "model_alias_domain =
     \<lparr>tb_columns =
       [col ''alias_domain'' (SString 255) False, col ''target_domain'' (SString 255) False,
        dcol ''active'' SBoolean False (Literal ''1'')] @ timestamp_columns,
      tb_primary = [''alias_domain''],
      tb_foreign = [],
      tb_indexes = [(''alias_domain_active_key'', \<lparr>ix_columns = [''active''], ix_unique = False\<rparr>),
        (''alias_domain_target_domain_key'', \<lparr>ix_columns = [''target_domain''], ix_unique = False\<rparr>)]\<rparr>"

definition model_app_passwd :: table where
  "model_app_passwd =
     \<lparr>tb_columns =
       [col ''id'' SInteger False, col ''name'' (SString 255) False,
        col ''mailbox'' (SString 255) False, col ''domain'' (SString 255) False,
        col ''password'' (SString 255) False, dcol ''imap_access'' SBoolean False (Literal ''1''),
        dcol ''smtp_access'' SBoolean False (Literal ''1''),
        dcol ''dav_access'' SBoolean False (Literal ''1''),
        dcol ''eas_access'' SBoolean False (Literal ''1''),
        dcol ''pop3_access'' SBoolean False (Literal ''1''),
        dcol ''sieve_access'' SBoolean False (Literal ''1''),
        dcol ''active'' SBoolean False (Literal ''1'')] @ timestamp_columns,
      tb_primary = [''id''],
      tb_foreign = [fkey ''mailbox'' ''mailbox'' ''username'' (Some ''CASCADE'')],
      tb_indexes = [(''app_passwd_mailbox'', \<lparr>ix_columns = [''mailbox''], ix_unique = False\<rparr>),
        (''app_passwd_password'', \<lparr>ix_columns = [''password''], ix_unique = False\<rparr>),
        (''app_passwd_domain'', \<lparr>ix_columns = [''domain''], ix_unique = False\<rparr>)]\<rparr>"

definition model_bcc_maps :: table where
  "model_bcc_maps =
     \<lparr>tb_columns =
       [col ''id'' SInteger False, col ''local_dest'' (SString 255) False,
        col ''bcc_dest'' (SString 255) False, col ''domain'' (SString 255) False,
        col ''type'' (SEnum [''sender'', ''rcpt'']) True,
        dcol ''active'' SBoolean False (Literal ''1'')] @ timestamp_columns,
      tb_primary = [''id''],
      tb_foreign = [],
      tb_indexes = [(''bcc_maps_local_dest_key'', \<lparr>ix_columns = [''local_dest''], ix_unique = False\<rparr>)]\<rparr>"

definition model_domain :: table where
  "model_domain =
     \<lparr>tb_columns =
       [col ''domain'' (SString 255) False, col ''description'' (SString 255) True,
        dcol ''aliases'' SInteger False (Literal ''0''),
        dcol ''mailboxes'' SInteger False (Literal ''0''),
        dcol ''defquota'' SBigInteger False (Literal ''3221225472''),
        dcol ''maxquota'' SBigInteger False (Literal ''107374182400''),
        dcol ''quota'' SBigInteger False (Literal ''107374182400''),
        dcol ''relayhost'' SInteger False (Literal ''0''),
        dcol ''backupmx'' SBoolean False (Literal ''0''),
        dcol ''gal'' SBoolean False (Literal ''1''),
        dcol ''relay_all_recipients'' SBoolean False (Literal ''0''),
        dcol ''relay_unknown_only'' SBoolean False (Literal ''0''),
        dcol ''active'' SBoolean False (Literal ''1'')] @ timestamp_columns,
      tb_primary = [''domain''],
      tb_foreign = [],
      tb_indexes = []\<rparr>"

definition model_filterconf :: table where
  "model_filterconf =
     \<lparr>tb_columns =
       [col ''prefix'' SInteger False, dcol ''object'' (SString 255) False (Literal []),
        dcol ''option'' (SString 50) False (Literal []),
        dcol ''value'' (SString 100) False (Literal [])] @ timestamp_columns,
      tb_primary = [''prefix''],
      tb_foreign = [],
      tb_indexes = [(''filterconf_object_key'', \<lparr>ix_columns = [''object''], ix_unique = False\<rparr>)]\<rparr>"

definition model_imapsync :: table where
  "model_imapsync =
     \<lparr>tb_columns =
       [col ''id'' SInteger False, col ''user2'' (SString 255) False,
        col ''host1'' (SString 255) False,
        dcol ''authmech1'' (SEnum [''PLAIN'', ''LOGIN'', ''CRAM-MD5'']) False (Literal ''PLAIN''),
        dcol ''regextrans2'' (SString 255) False (Literal []),
        dcol ''authmd51'' SBoolean False (Literal ''0''),
        dcol ''domain2'' (SString 255) False (Literal []),
        dcol ''subfolder2'' (SString 255) False (Literal []), col ''user1'' (SString 255) False,
        col ''password1'' (SString 255) False, dcol ''exclude'' (SString 500) False (Literal []),
        dcol ''maxage'' SInteger False (Literal ''0''),
        dcol ''mins_interval'' SInteger False (Literal ''0''),
        dcol ''maxbytespersecond'' (SString 5) False (Literal ''0''), col ''port1'' SInteger False,
        dcol ''enc1'' (SEnum [''TLS'', ''SSL'', ''PLAIN'']) False (Literal ''TLS''),
        dcol ''delete2duplicates'' SBoolean False (Literal ''1''),
        dcol ''delete1'' SBoolean False (Literal ''0''),
        dcol ''delete2'' SBoolean False (Literal ''0''),
        dcol ''automap'' SBoolean False (Literal ''0''),
        dcol ''skipcrossduplicates'' SBoolean False (Literal ''0''),
        dcol ''custom_params'' (SString 512) False (Literal []),
        dcol ''timeout1'' SInteger False (Literal ''600''),
        dcol ''timeout2'' SInteger False (Literal ''600''),
        dcol ''subscribeall'' SBoolean False (Literal ''1''),
        dcol ''dry'' SBoolean False (Literal ''0''),
        dcol ''is_running'' SBoolean False (Literal ''0''), col ''returned_text'' SText True,
        col ''last_run'' STimestamp True, col ''success'' SBoolean True,
        col ''exit_status'' (SString 50) True, dcol ''active'' SBoolean False (Literal ''0'')] @ timestamp_columns,
      tb_primary = [''id''],
      tb_foreign = [],
      tb_indexes = []\<rparr>"

definition model_mailbox :: table where
  "model_mailbox =
     \<lparr>tb_columns =
       [col ''username'' (SString 255) False, col ''password'' (SString 255) False,
        col ''name'' (SString 255) True, col ''description'' (SString 255) True,
        dcol ''mailbox_path_prefix'' (SString 150) True (Literal ''/var/vmail/''),
        col ''quota'' SBigInteger False, col ''local_part'' (SString 255) False,
        col ''domain'' (SString 255) False, dcol ''kind'' (SString 100) False (Literal []),
        dcol ''multiple_bookings'' SInteger False (Literal ''-1''),
        dcol ''active'' SBoolean False (Literal ''1'')] @ timestamp_columns,
      tb_primary = [''username''],
      tb_foreign = [],
      tb_indexes = [(''mailbox_domain_key'', \<lparr>ix_columns = [''domain''], ix_unique = False\<rparr>),
        (''mailbox_domain_local_part_key'', \<lparr>ix_columns = [''domain'', ''local_part''], ix_unique = True\<rparr>),
        (''mailbox_kind_key'', \<lparr>ix_columns = [''kind''], ix_unique = False\<rparr>)]\<rparr>"

definition model_quarantine :: table where
  "model_quarantine =
     \<lparr>tb_columns =
       [col ''id'' SInteger False, col ''qid'' (SString 30) False,
        col ''subject'' (SString 500) True, col ''score'' SFloat True,
        col ''ip'' (SString 50) True, dcol ''action'' (SString 20) False (Literal ''unknown''),
        col ''symbols'' SJson False, col ''fuzzy_hashes'' SJson False,
        dcol ''sender'' (SString 255) False (Literal ''unknown''), col ''rcpt'' (SString 255) True,
        col ''msg'' SText True, col ''domain'' (SString 255) True,
        dcol ''notified'' SBoolean False (Literal ''0''),
        dcol ''created'' SDateTime False (Sql ''CURRENT_TIMESTAMP''),
        dcol ''user'' (SString 255) False (Literal ''unknown'')],
      tb_primary = [''id''],
      tb_foreign = [],
      tb_indexes = []\<rparr>"

definition model_quota2 :: table where
  "model_quota2 =
     \<lparr>tb_columns =
       [col ''username'' (SString 255) False, dcol ''bytes'' SBigInteger False (Literal ''0''),
        dcol ''messages'' SBigInteger False (Literal ''0'')],
      tb_primary = [''username''],
      tb_foreign = [],
      tb_indexes = []\<rparr>"

definition model_quota2replica :: table where
  "model_quota2replica =
     \<lparr>tb_columns =
       [col ''username'' (SString 255) False, dcol ''bytes'' SBigInteger False (Literal ''0''),
        dcol ''messages'' SBigInteger False (Literal ''0'')],
      tb_primary = [''username''],
      tb_foreign = [],
      tb_indexes = []\<rparr>"

definition model_recipient_maps :: table where
  "model_recipient_maps =
     \<lparr>tb_columns =
       [col ''id'' SInteger False, col ''old_dest'' (SString 255) False,
        col ''new_dest'' (SString 255) False, dcol ''active'' SBoolean False (Literal ''0'')] @ timestamp_columns,
      tb_primary = [''id''],
      tb_foreign = [],
      tb_indexes = [(''recipient_maps_old_dest_key'', \<lparr>ix_columns = [''old_dest''], ix_unique = False\<rparr>)]\<rparr>"

definition model_relayhosts :: table where
  "model_relayhosts =
     \<lparr>tb_columns =
       [col ''id'' SInteger False, col ''hostname'' (SString 255) False,
        col ''username'' (SString 255) False, col ''password'' (SString 255) False,
        dcol ''active'' SBoolean False (Literal ''1'')],
      tb_primary = [''id''],
      tb_foreign = [],
      tb_indexes = [(''relayhosts_hostname_key'', \<lparr>ix_columns = [''hostname''], ix_unique = False\<rparr>)]\<rparr>"

definition model_sasl_log :: table where
  "model_sasl_log =
     \<lparr>tb_columns =
       [col ''app_password'' SInteger False, col ''service'' (SString 32) False,
        col ''username'' (SString 255) False, col ''real_ip'' (SString 64) False,
        dcol ''datetime'' SDateTime False (Sql ''CURRENT_TIMESTAMP'')],
      tb_primary = [''service'', ''real_ip'', ''username''],
      tb_foreign = [],
      tb_indexes = [(''sasl_log_username_key'', \<lparr>ix_columns = [''username''], ix_unique = False\<rparr>),
        (''sasl_log_service_key'', \<lparr>ix_columns = [''service''], ix_unique = False\<rparr>),
        (''sasl_log_datetime_key'', \<lparr>ix_columns = [''datetime''], ix_unique = False\<rparr>),
        (''sasl_log_real_ip_key'', \<lparr>ix_columns = [''real_ip''], ix_unique = False\<rparr>)]\<rparr>"

definition model_sender_acl :: table where
  "model_sender_acl =
     \<lparr>tb_columns =
       [col ''id'' SInteger False, col ''logged_in_as'' (SString 255) False,
        col ''send_as'' (SString 255) False, dcol ''external'' SBoolean False (Literal ''0'')],
      tb_primary = [''id''],
      tb_foreign = [],
      tb_indexes = []\<rparr>"

definition model_settingsmap :: table where
  "model_settingsmap =
     \<lparr>tb_columns =
       [col ''id'' SInteger False, col ''desc'' (SString 255) False, col ''content'' SText False,
        dcol ''active'' SBoolean False (Literal ''0'')] @ timestamp_columns,
      tb_primary = [''id''],
      tb_foreign = [],
      tb_indexes = []\<rparr>"

definition model_sieve_filters :: table where
  "model_sieve_filters =
     \<lparr>tb_columns =
       [col ''id'' SInteger False, col ''username'' (SString 255) False,
        col ''script_desc'' (SString 255) False,
        col ''script_name'' (SEnum [''active'', ''inactive'']) False,
        col ''script_data'' SText False,
        col ''filter_type'' (SEnum [''postfilter'', ''prefilter'']) False] @ timestamp_columns,
      tb_primary = [''id''],
      tb_foreign = [fkey ''username'' ''mailbox'' ''username'' (Some ''CASCADE'')],
      tb_indexes = [(''sieve_filters_username_key'', \<lparr>ix_columns = [''username''], ix_unique = False\<rparr>),
        (''sieve_filters_script_desc_key'', \<lparr>ix_columns = [''script_desc''], ix_unique = False\<rparr>)]\<rparr>"

definition model_sogo_static_view :: table where
  "model_sogo_static_view =
     \<lparr>tb_columns =
       [col ''c_uid'' (SString 255) False, col ''domain'' (SString 255) False,
        col ''c_name'' (SString 255) False, dcol ''c_password'' (SString 255) False (Literal []),
        col ''c_cn'' (SString 255) True, col ''c_l'' (SString 255) True,
        col ''c_o'' (SString 255) True, col ''c_ou'' (SString 255) True,
        col ''c_telephonenumber'' (SString 255) True, col ''mail'' (SString 255) False,
        col ''aliases'' SText False, dcol ''ad_aliases'' (SString 6144) False (Literal []),
        dcol ''ext_acl'' (SString 6144) False (Literal []),
        dcol ''kind'' (SString 100) False (Literal []),
        dcol ''multiple_bookings'' SInteger False (Literal ''1'')],
      tb_primary = [''c_uid''],
      tb_foreign = [],
      tb_indexes = [(''_sogo_static_view_domain_key'', \<lparr>ix_columns = [''domain''], ix_unique = False\<rparr>)]\<rparr>"

definition model_sogo_acl :: table where
  "model_sogo_acl =
     \<lparr>tb_columns =
       [col ''id'' SInteger False, col ''c_folder_id'' SInteger False,
        col ''c_object'' (SString 255) False, col ''c_uid'' (SString 255) False,
        col ''c_role'' (SString 80) False],
      tb_primary = [''id''],
      tb_foreign = [],
      tb_indexes = [(''sogo_acl_c_folder_id_key'', \<lparr>ix_columns = [''c_folder_id''], ix_unique = False\<rparr>),
        (''sogo_acl_c_uid_key'', \<lparr>ix_columns = [''c_uid''], ix_unique = False\<rparr>)]\<rparr>"

definition model_sogo_alarms_folder :: table where
  "model_sogo_alarms_folder =
     \<lparr>tb_columns =
       [col ''id'' SInteger False, col ''c_path'' (SString 255) False,
        col ''c_name'' (SString 255) False, col ''c_uid'' (SString 255) False,
        col ''c_recurrence_id'' SInteger True, col ''c_alarm_number'' SInteger False,
        col ''c_alarm_date'' SInteger False],
      tb_primary = [''id''],
      tb_foreign = [],
      tb_indexes = []\<rparr>"

definition model_sogo_cache_folder :: table where
  "model_sogo_cache_folder =
     \<lparr>tb_columns =
       [col ''c_uid'' (SString 255) False, col ''c_path'' (SString 255) False,
        col ''c_parent_path'' (SString 255) True, col ''c_type'' SInteger False,
        col ''c_creationdate'' SInteger False, col ''c_lastmodified'' SInteger False,
        dcol ''c_version'' SInteger False (Literal ''0''),
        dcol ''c_deleted'' SBoolean False (Literal ''0''), col ''c_content'' SText False],
      tb_primary = [''c_uid'', ''c_path''],
      tb_foreign = [],
      tb_indexes = []\<rparr>"

definition model_sogo_folder_info :: table where
  "model_sogo_folder_info =
     \<lparr>tb_columns =
       [col ''c_folder_id'' SBigInteger False, col ''c_path'' (SString 255) False,
        col ''c_path1'' (SString 255) False, col ''c_path2'' (SString 255) True,
        col ''c_path3'' (SString 255) True, col ''c_path4'' (SString 255) True,
        col ''c_foldername'' (SString 255) False, col ''c_location'' (SString 2048) True,
        col ''c_quick_location'' (SString 2048) True, col ''c_acl_location'' (SString 2048) True,
        col ''c_folder_type'' (SString 255) False],
      tb_primary = [''c_folder_id''],
      tb_foreign = [],
      tb_indexes = [(''sogo_folder_info_c_path_key'', \<lparr>ix_columns = [''c_path''], ix_unique = True\<rparr>)]\<rparr>"

definition model_sogo_quick_appointment :: table where
  "model_sogo_quick_appointment =
     \<lparr>tb_columns =
       [col ''c_folder_id'' SInteger False, col ''c_name'' (SString 255) False,
        col ''c_uid'' (SString 255) False, col ''c_startdate'' SInteger True,
        col ''c_enddate'' SInteger True, col ''c_cycleenddate'' SInteger True,
        col ''c_title'' (SString 1000) False, col ''c_participants'' SText True,
        col ''c_isallday'' SBoolean True, col ''c_iscycle'' SBoolean True,
        col ''c_cycleinfo'' SText True, col ''c_classification'' SInteger False,
        col ''c_isopaque'' SBoolean False, col ''c_status'' SInteger False,
        col ''c_priority'' SInteger True, col ''c_location'' (SString 255) True,
        col ''c_orgmail'' (SString 255) True, col ''c_partmails'' SText True,
        col ''c_partstates'' SText True, col ''c_category'' (SString 255) True,
        col ''c_sequence'' SInteger True, col ''c_component'' (SString 10) False,
        col ''c_nextalarm'' SInteger True, col ''c_description'' SText True],
      tb_primary = [''c_folder_id'', ''c_name''],
      tb_foreign = [],
      tb_indexes = []\<rparr>"

definition model_sogo_quick_contact :: table where
  "model_sogo_quick_contact =
     \<lparr>tb_columns =
       [col ''c_folder_id'' SInteger False, col ''c_name'' (SString 255) False,
        col ''c_givenname'' (SString 255) True, col ''c_cn'' (SString 255) True,
        col ''c_sn'' (SString 255) True, col ''c_screenname'' (SString 255) True,
        col ''c_l'' (SString 255) True, col ''c_mail'' SText True, col ''c_o'' (SString 255) True,
        col ''c_ou'' (SString 255) True, col ''c_telephonenumber'' (SString 255) True,
        col ''c_categories'' (SString 255) True, col ''c_component'' (SString 10) False,
        dcol ''c_hascertificate'' SBoolean False (Literal ''0'')],
      tb_primary = [''c_folder_id'', ''c_name''],
      tb_foreign = [],
      tb_indexes = []\<rparr>"

definition model_sogo_sessions_folder :: table where
  "model_sogo_sessions_folder =
     \<lparr>tb_columns =
       [col ''c_id'' (SString 255) False, col ''c_value'' (SString 4096) False,
        col ''c_creationdate'' SInteger False, col ''c_lastseen'' SInteger False],
      tb_primary = [''c_id''],
      tb_foreign = [],
      tb_indexes = []\<rparr>"

definition model_sogo_store :: table where
  "model_sogo_store =
     \<lparr>tb_columns =
       [col ''c_folder_id'' SInteger False, dcol ''c_name'' (SString 255) False (Literal []),
        col ''c_content'' SText False, col ''c_creationdate'' SInteger False,
        col ''c_lastmodified'' SInteger False, col ''c_version'' SInteger False,
        col ''c_deleted'' SInteger True],
      tb_primary = [''c_folder_id'', ''c_name''],
      tb_foreign = [],
      tb_indexes = []\<rparr>"

definition model_sogo_admin :: table where
  "model_sogo_admin =
     \<lparr>tb_columns =
       [dcol ''c_key'' (SString 255) False (Literal []), col ''c_content'' SText False],
      tb_primary = [''c_key''],
      tb_foreign = [],
      tb_indexes = []\<rparr>"

definition model_sogo_user_profile :: table where
  "model_sogo_user_profile =
     \<lparr>tb_columns =
       [col ''c_uid'' (SString 255) False, col ''c_defaults'' SText True,
        col ''c_settings'' SText True],
      tb_primary = [''c_uid''],
      tb_foreign = [],
      tb_indexes = []\<rparr>"

definition model_spamalias :: table where
  "model_spamalias =
     \<lparr>tb_columns =
       [col ''address'' (SString 255) False, col ''goto'' SText False,
        col ''validity'' SInteger False] @ timestamp_columns,
      tb_primary = [''address''],
      tb_foreign = [],
      tb_indexes = []\<rparr>"

definition model_tls_policy_override :: table where
  "model_tls_policy_override =
     \<lparr>tb_columns =
       [col ''id'' SInteger False, col ''dest'' (SString 255) False,
        col ''policy'' (SEnum [''none'', ''may'', ''encrypt'', ''dane'', ''dane-only'', ''fingerprint'', ''verify'', ''secure'']) False,
        dcol ''parameters'' (SString 255) True (Literal []),
        dcol ''active'' SBoolean False (Literal ''1'')] @ timestamp_columns,
      tb_primary = [''id''],
      tb_foreign = [],
      tb_indexes = [(''tls_policy_override_dest_key'', \<lparr>ix_columns = [''dest''], ix_unique = False\<rparr>)]\<rparr>"

definition model_transports :: table where
  "model_transports =
     \<lparr>tb_columns =
       [col ''id'' SInteger False, col ''destination'' (SString 255) False,
        col ''nexthop'' (SString 255) False, dcol ''username'' (SString 255) False (Literal []),
        dcol ''password'' (SString 255) False (Literal []),
        dcol ''is_mx_based'' SBoolean False (Literal ''0''),
        dcol ''active'' SBoolean False (Literal ''1'')],
      tb_primary = [''id''],
      tb_foreign = [],
      tb_indexes = [(''transports_destination_key'', \<lparr>ix_columns = [''destination''], ix_unique = False\<rparr>),
        (''transports_nexthop_key'', \<lparr>ix_columns = [''nexthop''], ix_unique = False\<rparr>)]\<rparr>"

definition model_user_acl :: table where
  "model_user_acl =
     \<lparr>tb_columns =
       [col ''username'' (SString 255) False, dcol ''spam_alias'' SBoolean False (Literal ''1''),
        dcol ''tls_policy'' SBoolean False (Literal ''1''),
        dcol ''spam_score'' SBoolean False (Literal ''1''),
        dcol ''spam_policy'' SBoolean False (Literal ''1''),
        dcol ''delimiter_action'' SBoolean False (Literal ''1''),
        dcol ''syncjobs'' SBoolean False (Literal ''0''),
        dcol ''eas_reset'' SBoolean False (Literal ''1''),
        dcol ''sogo_profile_reset'' SBoolean False (Literal ''0''),
        dcol ''pushover'' SBoolean False (Literal ''1''),
        dcol ''quarantine'' SBoolean False (Literal ''1''),
        dcol ''quarantine_attachments'' SBoolean False (Literal ''1''),
        dcol ''quarantine_notification'' SBoolean False (Literal ''1''),
        dcol ''quarantine_category'' SBoolean False (Literal ''1''),
        dcol ''app_passwds'' SBoolean False (Literal ''1''),
        dcol ''pw_reset'' SBoolean False (Literal ''1'')],
      tb_primary = [''username''],
      tb_foreign = [fkey ''username'' ''mailbox'' ''username'' (Some ''CASCADE'')],
      tb_indexes = []\<rparr>"

definition model_dmarc_report :: table where
  "model_dmarc_report =
     \<lparr>tb_columns =
       [col ''id'' SInteger False, col ''report_id'' (SString 255) False,
        col ''org_name'' (SString 255) False, dcol ''org_email'' (SString 255) False (Literal []),
        col ''domain'' (SString 255) False, col ''policy'' (SString 20) False,
        col ''begin_date'' SDateTime False, col ''end_date'' SDateTime False,
        dcol ''created'' SDateTime False (Sql ''CURRENT_TIMESTAMP'')],
      tb_primary = [''id''],
      tb_foreign = [],
      tb_indexes = [(''dmarc_report_report_id_key'', \<lparr>ix_columns = [''report_id''], ix_unique = True\<rparr>),
        (''dmarc_report_domain_key'', \<lparr>ix_columns = [''domain''], ix_unique = False\<rparr>),
        (''dmarc_report_begin_date_key'', \<lparr>ix_columns = [''begin_date''], ix_unique = False\<rparr>)]\<rparr>"

definition model_dmarc_record :: table where
  "model_dmarc_record =
     \<lparr>tb_columns =
       [col ''id'' SInteger False, col ''report_id'' SInteger False,
        col ''source_ip'' (SString 64) False, col ''count'' SInteger False,
        col ''disposition'' (SString 20) False, col ''dkim_result'' (SString 20) False,
        col ''spf_result'' (SString 20) False, col ''dmarc_result'' (SString 20) False,
        col ''header_from'' (SString 255) False,
        dcol ''envelope_from'' (SString 255) False (Literal [])],
      tb_primary = [''id''],
      tb_foreign = [fkey ''report_id'' ''dmarc_report'' ''id'' (Some ''CASCADE'')],
      tb_indexes = [(''dmarc_record_report_id_key'', \<lparr>ix_columns = [''report_id''], ix_unique = False\<rparr>),
        (''dmarc_record_source_ip_key'', \<lparr>ix_columns = [''source_ip''], ix_unique = False\<rparr>),
        (''dmarc_record_header_from_key'', \<lparr>ix_columns = [''header_from''], ix_unique = False\<rparr>)]\<rparr>"

definition model_user_attributes :: table where
  "model_user_attributes =
     \<lparr>tb_columns =
       [col ''username'' (SString 255) False,
        dcol ''force_pw_update'' SBoolean False (Literal ''0''),
        dcol ''tls_enforce_in'' SBoolean False (Literal ''0''),
        dcol ''tls_enforce_out'' SBoolean False (Literal ''0''),
        dcol ''relayhost'' SInteger False (Literal ''0''),
        dcol ''sogo_access'' SBoolean False (Literal ''1''),
        dcol ''imap_access'' SBoolean False (Literal ''1''),
        dcol ''pop3_access'' SBoolean False (Literal ''1''),
        dcol ''smtp_access'' SBoolean False (Literal ''1''),
        dcol ''sieve_access'' SBoolean False (Literal ''1''),
        dcol ''quarantine_notification'' (SEnum [''never'', ''hourly'', ''daily'', ''weekly'']) False (Literal ''hourly''),
        dcol ''quarantine_category'' (SEnum [''add_header'', ''reject'', ''all'']) False (Literal ''reject'')],
      tb_primary = [''username''],
      tb_foreign = [fkey ''username'' ''mailbox'' ''username'' (Some ''CASCADE'')],
      tb_indexes = []\<rparr>"

text \<open>The metadata: every table by its name.\<close>

definition model_tables :: "(string, table) dict" where
  "model_tables =
    [(''alias'', model_alias), (''alias_domain'', model_alias_domain),
     (''app_passwd'', model_app_passwd), (''bcc_maps'', model_bcc_maps),
     (''domain'', model_domain), (''filterconf'', model_filterconf),
     (''imapsync'', model_imapsync), (''mailbox'', model_mailbox),
     (''quarantine'', model_quarantine), (''quota2'', model_quota2),
     (''quota2replica'', model_quota2replica), (''recipient_maps'', model_recipient_maps),
     (''relayhosts'', model_relayhosts), (''sasl_log'', model_sasl_log),
     (''sender_acl'', model_sender_acl), (''settingsmap'', model_settingsmap),
     (''sieve_filters'', model_sieve_filters), (''_sogo_static_view'', model_sogo_static_view),
     (''sogo_acl'', model_sogo_acl), (''sogo_alarms_folder'', model_sogo_alarms_folder),
     (''sogo_cache_folder'', model_sogo_cache_folder),
     (''sogo_folder_info'', model_sogo_folder_info),
     (''sogo_quick_appointment'', model_sogo_quick_appointment),
     (''sogo_quick_contact'', model_sogo_quick_contact),
     (''sogo_sessions_folder'', model_sogo_sessions_folder), (''sogo_store'', model_sogo_store),
     (''sogo_admin'', model_sogo_admin), (''sogo_user_profile'', model_sogo_user_profile),
     (''spamalias'', model_spamalias), (''tls_policy_override'', model_tls_policy_override),
     (''transports'', model_transports), (''user_acl'', model_user_acl),
     (''dmarc_report'', model_dmarc_report), (''dmarc_record'', model_dmarc_record),
     (''user_attributes'', model_user_attributes)]"

end
