(* ===== verification/Migrate.thy ===== *)
theory Migrate
  imports Migrations ModelTables
begin

text \<open>
  Running the migrations: the schema after each \<open>upgrade\<close>, the comparison of the last one with the models,
  and each \<open>downgrade\<close> on the schema after its own upgrade.
\<close>

fun upgrade_all :: "bool \<Rightarrow> revision list \<Rightarrow> schema \<Rightarrow> schema_error + schema" where
  "upgrade_all mysql [] s = Inr s"
| "upgrade_all mysql (r # rs) s =
     (case ddl_run mysql (rv_upgrade r) s of Inl e \<Rightarrow> Inl e | Inr t \<Rightarrow> upgrade_all mysql rs t)"

section \<open>The tables as they are created\<close>

lemma creates_tables:
  "creates ddl_alias ''alias''"
  "creates ddl_alias_domain ''alias_domain''"
  "creates ddl_bcc_maps ''bcc_maps''"
  "creates ddl_domain ''domain''"
  "creates ddl_mailbox ''mailbox''"
  "creates ddl_quota2 ''quota2''"
  "creates ddl_quota2replica ''quota2replica''"
  "creates ddl_recipient_maps ''recipient_maps''"
  "creates ddl_relayhosts ''relayhosts''"
  "creates ddl_sender_acl ''sender_acl''"
  "creates ddl_spamalias ''spamalias''"
  "creates ddl_tls_policy_override ''tls_policy_override''"
  "creates ddl_transports ''transports''"
  "creates ddl_sogo_static_view ''_sogo_static_view''"
  "creates ddl_app_passwd ''app_passwd''"
  "creates ddl_user_acl ''user_acl''"
  "creates ddl_user_attributes ''user_attributes''"
  "creates ddl_sasl_log ''sasl_log''"
  "creates ddl_sogo_acl ''sogo_acl''"
  "creates ddl_sogo_admin ''sogo_admin''"
  "creates ddl_sogo_alarms_folder ''sogo_alarms_folder''"
  "creates ddl_sogo_cache_folder ''sogo_cache_folder''"
  "creates ddl_sogo_folder_info ''sogo_folder_info''"
  "creates ddl_sogo_quick_appointment ''sogo_quick_appointment''"
  "creates ddl_sogo_quick_contact ''sogo_quick_contact''"
  "creates ddl_sogo_sessions_folder ''sogo_sessions_folder''"
  "creates ddl_sogo_store ''sogo_store''"
  "creates ddl_sogo_user_profile ''sogo_user_profile''"
  "creates ddl_filterconf ''filterconf''"
  "creates ddl_imapsync ''imapsync''"
  "creates ddl_quarantine ''quarantine''"
  "creates ddl_settingsmap ''settingsmap''"
  "creates ddl_sieve_filters ''sieve_filters''"
  "creates ddl_dmarc_report ''dmarc_report''"
  "creates ddl_dmarc_record ''dmarc_record''"
  by code_simp+

lemma created_foreign:
  "tb_foreign (created ddl_alias) = []"
  "tb_foreign (created ddl_alias_domain) = []"
  "tb_foreign (created ddl_bcc_maps) = []"
  "tb_foreign (created ddl_domain) = []"
  "tb_foreign (created ddl_mailbox) = []"
  "tb_foreign (created ddl_quota2) = []"
  "tb_foreign (created ddl_quota2replica) = []"
  "tb_foreign (created ddl_recipient_maps) = []"
  "tb_foreign (created ddl_relayhosts) = []"
  "tb_foreign (created ddl_sender_acl) = []"
  "tb_foreign (created ddl_spamalias) = []"
  "tb_foreign (created ddl_tls_policy_override) = []"
  "tb_foreign (created ddl_transports) = []"
  "tb_foreign (created ddl_sogo_static_view) = []"
  "tb_foreign (created ddl_app_passwd) = [fkey ''mailbox'' ''mailbox'' ''username'' (Some ''CASCADE'')]"
  "tb_foreign (created ddl_user_acl) = [fkey ''username'' ''mailbox'' ''username'' None]"
  "tb_foreign (created ddl_user_attributes) = [fkey ''username'' ''mailbox'' ''username'' None]"
  "tb_foreign (created ddl_sasl_log) = []"
  "tb_foreign (created ddl_sogo_acl) = []"
  "tb_foreign (created ddl_sogo_admin) = []"
  "tb_foreign (created ddl_sogo_alarms_folder) = []"
  "tb_foreign (created ddl_sogo_cache_folder) = []"
  "tb_foreign (created ddl_sogo_folder_info) = []"
  "tb_foreign (created ddl_sogo_quick_appointment) = []"
  "tb_foreign (created ddl_sogo_quick_contact) = []"
  "tb_foreign (created ddl_sogo_sessions_folder) = []"
  "tb_foreign (created ddl_sogo_store) = []"
  "tb_foreign (created ddl_sogo_user_profile) = []"
  "tb_foreign (created ddl_filterconf) = []"
  "tb_foreign (created ddl_imapsync) = []"
  "tb_foreign (created ddl_quarantine) = []"
  "tb_foreign (created ddl_settingsmap) = []"
  "tb_foreign (created ddl_sieve_filters) = [fkey ''username'' ''mailbox'' ''username'' (Some ''CASCADE'')]"
  "tb_foreign (created ddl_dmarc_report) = []"
  "tb_foreign (created ddl_dmarc_record) = [fkey ''report_id'' ''dmarc_report'' ''id'' (Some ''CASCADE'')]"
  by (simp_all add: ddl_alias_def ddl_alias_domain_def ddl_bcc_maps_def ddl_domain_def ddl_mailbox_def ddl_quota2_def ddl_quota2replica_def ddl_recipient_maps_def ddl_relayhosts_def ddl_sender_acl_def ddl_spamalias_def ddl_tls_policy_override_def ddl_transports_def ddl_sogo_static_view_def ddl_app_passwd_def ddl_user_acl_def ddl_user_attributes_def ddl_sasl_log_def ddl_sogo_acl_def ddl_sogo_admin_def ddl_sogo_alarms_folder_def ddl_sogo_cache_folder_def ddl_sogo_folder_info_def ddl_sogo_quick_appointment_def ddl_sogo_quick_contact_def ddl_sogo_sessions_folder_def ddl_sogo_store_def ddl_sogo_user_profile_def ddl_filterconf_def ddl_imapsync_def ddl_quarantine_def ddl_settingsmap_def ddl_sieve_filters_def ddl_dmarc_report_def ddl_dmarc_record_def)

lemma created_indexes:
  "fst ` set (tb_indexes (created ddl_alias)) = set [''alias_address_key'', ''alias_domain_key'']"
  "fst ` set (tb_indexes (created ddl_alias_domain)) = set [''alias_domain_active_key'', ''alias_domain_target_domain_key'']"
  "fst ` set (tb_indexes (created ddl_bcc_maps)) = set [''bcc_maps_local_dest_key'']"
  "fst ` set (tb_indexes (created ddl_domain)) = set []"
  "fst ` set (tb_indexes (created ddl_mailbox)) = set [''mailbox_domain_key'', ''mailbox_domain_local_part_key'', ''mailbox_kind_key'']"
  "fst ` set (tb_indexes (created ddl_quota2)) = set []"
  "fst ` set (tb_indexes (created ddl_quota2replica)) = set []"
  "fst ` set (tb_indexes (created ddl_recipient_maps)) = set [''recipient_maps_old_dest_key'']"
  "fst ` set (tb_indexes (created ddl_relayhosts)) = set [''relayhosts_hostname_key'']"
  "fst ` set (tb_indexes (created ddl_sender_acl)) = set []"
  "fst ` set (tb_indexes (created ddl_spamalias)) = set []"
  "fst ` set (tb_indexes (created ddl_tls_policy_override)) = set [''tls_policy_override_dest_key'']"
  "fst ` set (tb_indexes (created ddl_transports)) = set [''transports_destination_key'', ''transports_nexthop_key'']"
  "fst ` set (tb_indexes (created ddl_sogo_static_view)) = set [''_sogo_static_view_domain_key'']"
  "fst ` set (tb_indexes (created ddl_app_passwd)) = set [''app_passwd_domain'', ''app_passwd_mailbox'', ''app_passwd_password'']"
  "fst ` set (tb_indexes (created ddl_user_acl)) = set []"
  "fst ` set (tb_indexes (created ddl_user_attributes)) = set []"
  "fst ` set (tb_indexes (created ddl_sasl_log)) = set [''sasl_log_datetime_key'', ''sasl_log_real_ip_key'', ''sasl_log_service_key'', ''sasl_log_username_key'']"
  "fst ` set (tb_indexes (created ddl_sogo_acl)) = set [''sogo_acl_c_folder_id_key'', ''sogo_acl_c_uid_key'']"
  "fst ` set (tb_indexes (created ddl_sogo_admin)) = set []"
  "fst ` set (tb_indexes (created ddl_sogo_alarms_folder)) = set []"
  "fst ` set (tb_indexes (created ddl_sogo_cache_folder)) = set []"
  "fst ` set (tb_indexes (created ddl_sogo_folder_info)) = set [''sogo_folder_info_c_path_key'']"
  "fst ` set (tb_indexes (created ddl_sogo_quick_appointment)) = set []"
  "fst ` set (tb_indexes (created ddl_sogo_quick_contact)) = set []"
  "fst ` set (tb_indexes (created ddl_sogo_sessions_folder)) = set []"
  "fst ` set (tb_indexes (created ddl_sogo_store)) = set []"
  "fst ` set (tb_indexes (created ddl_sogo_user_profile)) = set []"
  "fst ` set (tb_indexes (created ddl_filterconf)) = set [''filterconf_object_key'']"
  "fst ` set (tb_indexes (created ddl_imapsync)) = set []"
  "fst ` set (tb_indexes (created ddl_quarantine)) = set []"
  "fst ` set (tb_indexes (created ddl_settingsmap)) = set []"
  "fst ` set (tb_indexes (created ddl_sieve_filters)) = set [''sieve_filters_script_desc_key'', ''sieve_filters_username_key'']"
  "fst ` set (tb_indexes (created ddl_dmarc_report)) = set [''dmarc_report_report_id_key'', ''dmarc_report_domain_key'', ''dmarc_report_begin_date_key'']"
  "fst ` set (tb_indexes (created ddl_dmarc_record)) = set [''dmarc_record_report_id_key'', ''dmarc_record_source_ip_key'', ''dmarc_record_header_from_key'']"
  by (simp_all add: indexes_of_def ddl_alias_def ddl_alias_domain_def ddl_bcc_maps_def ddl_domain_def ddl_mailbox_def ddl_quota2_def ddl_quota2replica_def ddl_recipient_maps_def ddl_relayhosts_def ddl_sender_acl_def ddl_spamalias_def ddl_tls_policy_override_def ddl_transports_def ddl_sogo_static_view_def ddl_app_passwd_def ddl_user_acl_def ddl_user_attributes_def ddl_sasl_log_def ddl_sogo_acl_def ddl_sogo_admin_def ddl_sogo_alarms_folder_def ddl_sogo_cache_folder_def ddl_sogo_folder_info_def ddl_sogo_quick_appointment_def ddl_sogo_quick_contact_def ddl_sogo_sessions_folder_def ddl_sogo_store_def ddl_sogo_user_profile_def ddl_filterconf_def ddl_imapsync_def ddl_quarantine_def ddl_settingsmap_def ddl_sieve_filters_def ddl_dmarc_report_def ddl_dmarc_record_def)

definition mailbox_359478dc9830 :: table where
  "mailbox_359478dc9830 = changed (drop_column ''custom_attributes'' (changed (drop_column ''attributes'' (created ddl_mailbox))))"

definition user_acl_f3adbeb27923 :: table where
  "user_acl_f3adbeb27923 = (changed (drop_foreign_key_to ''mailbox'' [''username''] (created ddl_user_acl)))\<lparr>tb_foreign := tb_foreign (changed (drop_foreign_key_to ''mailbox'' [''username''] (created ddl_user_acl))) @ [fkey ''username'' ''mailbox'' ''username'' (Some ''CASCADE'')]\<rparr>"

definition user_attributes_f3adbeb27923 :: table where
  "user_attributes_f3adbeb27923 = (changed (drop_foreign_key_to ''mailbox'' [''username''] (created ddl_user_attributes)))\<lparr>tb_foreign := tb_foreign (changed (drop_foreign_key_to ''mailbox'' [''username''] (created ddl_user_attributes))) @ [fkey ''username'' ''mailbox'' ''username'' (Some ''CASCADE'')]\<rparr>"

definition domain_ca00bb9d1645 :: table where
  "domain_ca00bb9d1645 = changed (alter_column ''quota'' None None (Some (Some (Sql ''107374182400''))) (changed (alter_column ''maxquota'' None None (Some (Some (Sql ''107374182400''))) (changed (alter_column ''defquota'' None None (Some (Some (Sql ''3221225472''))) (created ddl_domain))))))"

definition mailbox_ca00bb9d1645 :: table where
  "mailbox_ca00bb9d1645 = changed (alter_column ''quota'' None None (Some None) mailbox_359478dc9830)"

definition alias_79d64ba432c7 :: table where
  "alias_79d64ba432c7 = changed (add_column (dcol ''internal'' SBoolean False (Literal ''0'')) (changed (alter_column ''active'' None None (Some (Some (Sql ''1''))) (created ddl_alias))))"

definition alias_688be1178ef6 :: table where
  "alias_688be1178ef6 = changed (alter_column ''public_comment'' (Some (SString 160)) (Some False) (Some (Some (Literal []))) (changed (alter_column ''private_comment'' (Some (SString 160)) (Some False) (Some (Some (Literal []))) alias_79d64ba432c7)))"

lemma changes_succeed:
  "succeeds (drop_column ''attributes'' (created ddl_mailbox))"
  "succeeds (drop_column ''custom_attributes'' (changed (drop_column ''attributes'' (created ddl_mailbox))))"
  "succeeds (drop_foreign_key_to ''mailbox'' [''username''] (created ddl_user_acl))"
  "succeeds (drop_foreign_key_to ''mailbox'' [''username''] (created ddl_user_attributes))"
  "succeeds (alter_column ''defquota'' None None (Some (Some (Sql ''3221225472''))) (created ddl_domain))"
  "succeeds (alter_column ''maxquota'' None None (Some (Some (Sql ''107374182400''))) (changed (alter_column ''defquota'' None None (Some (Some (Sql ''3221225472''))) (created ddl_domain))))"
  "succeeds (alter_column ''quota'' None None (Some (Some (Sql ''107374182400''))) (changed (alter_column ''maxquota'' None None (Some (Some (Sql ''107374182400''))) (changed (alter_column ''defquota'' None None (Some (Some (Sql ''3221225472''))) (created ddl_domain))))))"
  "succeeds (alter_column ''quota'' None None (Some None) mailbox_359478dc9830)"
  "succeeds (alter_column ''active'' None None (Some (Some (Sql ''1''))) (created ddl_alias))"
  "succeeds (add_column (dcol ''internal'' SBoolean False (Literal ''0'')) (changed (alter_column ''active'' None None (Some (Some (Sql ''1''))) (created ddl_alias))))"
  "succeeds (alter_column ''private_comment'' (Some (SString 160)) (Some False) (Some (Some (Literal []))) alias_79d64ba432c7)"
  "succeeds (alter_column ''public_comment'' (Some (SString 160)) (Some False) (Some (Some (Literal []))) (changed (alter_column ''private_comment'' (Some (SString 160)) (Some False) (Some (Some (Literal []))) alias_79d64ba432c7)))"
  by code_simp+

section \<open>The schema after each revision\<close>

definition schema_0 :: schema where
  "schema_0 =
     \<lparr>sc_tables =
      [],
      sc_views = []\<rparr>"

definition schema_1 :: schema where
  "schema_1 =
     \<lparr>sc_tables =
      [(''alias'', created ddl_alias), (''alias_domain'', created ddl_alias_domain),
       (''bcc_maps'', created ddl_bcc_maps), (''domain'', created ddl_domain),
       (''mailbox'', created ddl_mailbox), (''quota2'', created ddl_quota2),
       (''quota2replica'', created ddl_quota2replica),
       (''recipient_maps'', created ddl_recipient_maps), (''relayhosts'', created ddl_relayhosts),
       (''sender_acl'', created ddl_sender_acl), (''spamalias'', created ddl_spamalias),
       (''tls_policy_override'', created ddl_tls_policy_override),
       (''transports'', created ddl_transports)],
      sc_views = []\<rparr>"

definition schema_2 :: schema where
  "schema_2 =
     \<lparr>sc_tables =
      [(''alias'', created ddl_alias), (''alias_domain'', created ddl_alias_domain),
       (''bcc_maps'', created ddl_bcc_maps), (''domain'', created ddl_domain),
       (''mailbox'', created ddl_mailbox), (''quota2'', created ddl_quota2),
       (''quota2replica'', created ddl_quota2replica),
       (''recipient_maps'', created ddl_recipient_maps), (''relayhosts'', created ddl_relayhosts),
       (''sender_acl'', created ddl_sender_acl), (''spamalias'', created ddl_spamalias),
       (''tls_policy_override'', created ddl_tls_policy_override),
       (''transports'', created ddl_transports)],
      sc_views = [''GroupedDomainAliasAddressView'', ''GroupedMailAliasesView'', ''GroupedSenderAclExternalView'', ''GroupedSenderAclView'']\<rparr>"

definition schema_3 :: schema where
  "schema_3 =
     \<lparr>sc_tables =
      [(''alias'', created ddl_alias), (''alias_domain'', created ddl_alias_domain),
       (''bcc_maps'', created ddl_bcc_maps), (''domain'', created ddl_domain),
       (''mailbox'', created ddl_mailbox), (''quota2'', created ddl_quota2),
       (''quota2replica'', created ddl_quota2replica),
       (''recipient_maps'', created ddl_recipient_maps), (''relayhosts'', created ddl_relayhosts),
       (''sender_acl'', created ddl_sender_acl), (''spamalias'', created ddl_spamalias),
       (''tls_policy_override'', created ddl_tls_policy_override),
       (''transports'', created ddl_transports),
       (''_sogo_static_view'', created ddl_sogo_static_view)],
      sc_views = [''GroupedDomainAliasAddressView'', ''GroupedMailAliasesView'', ''GroupedSenderAclExternalView'', ''GroupedSenderAclView'']\<rparr>"

definition schema_4 :: schema where
  "schema_4 =
     \<lparr>sc_tables =
      [(''alias'', created ddl_alias), (''alias_domain'', created ddl_alias_domain),
       (''bcc_maps'', created ddl_bcc_maps), (''domain'', created ddl_domain),
       (''mailbox'', mailbox_359478dc9830), (''quota2'', created ddl_quota2),
       (''quota2replica'', created ddl_quota2replica),
       (''recipient_maps'', created ddl_recipient_maps), (''relayhosts'', created ddl_relayhosts),
       (''sender_acl'', created ddl_sender_acl), (''spamalias'', created ddl_spamalias),
       (''tls_policy_override'', created ddl_tls_policy_override),
       (''transports'', created ddl_transports),
       (''_sogo_static_view'', created ddl_sogo_static_view),
       (''app_passwd'', created ddl_app_passwd), (''user_acl'', created ddl_user_acl),
       (''user_attributes'', created ddl_user_attributes)],
      sc_views = [''GroupedDomainAliasAddressView'', ''GroupedMailAliasesView'', ''GroupedSenderAclExternalView'', ''GroupedSenderAclView'']\<rparr>"

definition schema_5 :: schema where
  "schema_5 =
     \<lparr>sc_tables =
      [(''alias'', created ddl_alias), (''alias_domain'', created ddl_alias_domain),
       (''bcc_maps'', created ddl_bcc_maps), (''domain'', created ddl_domain),
       (''mailbox'', mailbox_359478dc9830), (''quota2'', created ddl_quota2),
       (''quota2replica'', created ddl_quota2replica),
       (''recipient_maps'', created ddl_recipient_maps), (''relayhosts'', created ddl_relayhosts),
       (''sender_acl'', created ddl_sender_acl), (''spamalias'', created ddl_spamalias),
       (''tls_policy_override'', created ddl_tls_policy_override),
       (''transports'', created ddl_transports),
       (''_sogo_static_view'', created ddl_sogo_static_view),
       (''app_passwd'', created ddl_app_passwd), (''user_acl'', created ddl_user_acl),
       (''user_attributes'', created ddl_user_attributes), (''sasl_log'', created ddl_sasl_log)],
      sc_views = [''GroupedDomainAliasAddressView'', ''GroupedMailAliasesView'', ''GroupedSenderAclExternalView'', ''GroupedSenderAclView'']\<rparr>"

definition schema_6 :: schema where
  "schema_6 =
     \<lparr>sc_tables =
      [(''alias'', created ddl_alias), (''alias_domain'', created ddl_alias_domain),
       (''bcc_maps'', created ddl_bcc_maps), (''domain'', created ddl_domain),
       (''mailbox'', mailbox_359478dc9830), (''quota2'', created ddl_quota2),
       (''quota2replica'', created ddl_quota2replica),
       (''recipient_maps'', created ddl_recipient_maps), (''relayhosts'', created ddl_relayhosts),
       (''sender_acl'', created ddl_sender_acl), (''spamalias'', created ddl_spamalias),
       (''tls_policy_override'', created ddl_tls_policy_override),
       (''transports'', created ddl_transports),
       (''_sogo_static_view'', created ddl_sogo_static_view),
       (''app_passwd'', created ddl_app_passwd), (''user_acl'', created ddl_user_acl),
       (''user_attributes'', created ddl_user_attributes), (''sasl_log'', created ddl_sasl_log),
       (''sogo_acl'', created ddl_sogo_acl), (''sogo_admin'', created ddl_sogo_admin),
       (''sogo_alarms_folder'', created ddl_sogo_alarms_folder),
       (''sogo_cache_folder'', created ddl_sogo_cache_folder),
       (''sogo_folder_info'', created ddl_sogo_folder_info),
       (''sogo_quick_appointment'', created ddl_sogo_quick_appointment),
       (''sogo_quick_contact'', created ddl_sogo_quick_contact),
       (''sogo_sessions_folder'', created ddl_sogo_sessions_folder),
       (''sogo_store'', created ddl_sogo_store),
       (''sogo_user_profile'', created ddl_sogo_user_profile)],
      sc_views = [''GroupedDomainAliasAddressView'', ''GroupedMailAliasesView'', ''GroupedSenderAclExternalView'', ''GroupedSenderAclView'']\<rparr>"

definition schema_7 :: schema where
  "schema_7 =
     \<lparr>sc_tables =
      [(''alias'', created ddl_alias), (''alias_domain'', created ddl_alias_domain),
       (''bcc_maps'', created ddl_bcc_maps), (''domain'', created ddl_domain),
       (''mailbox'', mailbox_359478dc9830), (''quota2'', created ddl_quota2),
       (''quota2replica'', created ddl_quota2replica),
       (''recipient_maps'', created ddl_recipient_maps), (''relayhosts'', created ddl_relayhosts),
       (''sender_acl'', created ddl_sender_acl), (''spamalias'', created ddl_spamalias),
       (''tls_policy_override'', created ddl_tls_policy_override),
       (''transports'', created ddl_transports),
       (''_sogo_static_view'', created ddl_sogo_static_view),
       (''app_passwd'', created ddl_app_passwd), (''user_acl'', created ddl_user_acl),
       (''user_attributes'', created ddl_user_attributes), (''sasl_log'', created ddl_sasl_log),
       (''sogo_acl'', created ddl_sogo_acl), (''sogo_admin'', created ddl_sogo_admin),
       (''sogo_alarms_folder'', created ddl_sogo_alarms_folder),
       (''sogo_cache_folder'', created ddl_sogo_cache_folder),
       (''sogo_folder_info'', created ddl_sogo_folder_info),
       (''sogo_quick_appointment'', created ddl_sogo_quick_appointment),
       (''sogo_quick_contact'', created ddl_sogo_quick_contact),
       (''sogo_sessions_folder'', created ddl_sogo_sessions_folder),
       (''sogo_store'', created ddl_sogo_store),
       (''sogo_user_profile'', created ddl_sogo_user_profile),
       (''filterconf'', created ddl_filterconf), (''imapsync'', created ddl_imapsync),
       (''quarantine'', created ddl_quarantine), (''settingsmap'', created ddl_settingsmap)],
      sc_views = [''GroupedDomainAliasAddressView'', ''GroupedMailAliasesView'', ''GroupedSenderAclExternalView'', ''GroupedSenderAclView'']\<rparr>"

definition schema_8 :: schema where
  "schema_8 =
     \<lparr>sc_tables =
      [(''alias'', created ddl_alias), (''alias_domain'', created ddl_alias_domain),
       (''bcc_maps'', created ddl_bcc_maps), (''domain'', created ddl_domain),
       (''mailbox'', mailbox_359478dc9830), (''quota2'', created ddl_quota2),
       (''quota2replica'', created ddl_quota2replica),
       (''recipient_maps'', created ddl_recipient_maps), (''relayhosts'', created ddl_relayhosts),
       (''sender_acl'', created ddl_sender_acl), (''spamalias'', created ddl_spamalias),
       (''tls_policy_override'', created ddl_tls_policy_override),
       (''transports'', created ddl_transports),
       (''_sogo_static_view'', created ddl_sogo_static_view),
       (''app_passwd'', created ddl_app_passwd), (''user_acl'', user_acl_f3adbeb27923),
       (''user_attributes'', user_attributes_f3adbeb27923), (''sasl_log'', created ddl_sasl_log),
       (''sogo_acl'', created ddl_sogo_acl), (''sogo_admin'', created ddl_sogo_admin),
       (''sogo_alarms_folder'', created ddl_sogo_alarms_folder),
       (''sogo_cache_folder'', created ddl_sogo_cache_folder),
       (''sogo_folder_info'', created ddl_sogo_folder_info),
       (''sogo_quick_appointment'', created ddl_sogo_quick_appointment),
       (''sogo_quick_contact'', created ddl_sogo_quick_contact),
       (''sogo_sessions_folder'', created ddl_sogo_sessions_folder),
       (''sogo_store'', created ddl_sogo_store),
       (''sogo_user_profile'', created ddl_sogo_user_profile),
       (''filterconf'', created ddl_filterconf), (''imapsync'', created ddl_imapsync),
       (''quarantine'', created ddl_quarantine), (''settingsmap'', created ddl_settingsmap),
       (''sieve_filters'', created ddl_sieve_filters)],
      sc_views = [''GroupedDomainAliasAddressView'', ''GroupedMailAliasesView'', ''GroupedSenderAclExternalView'', ''GroupedSenderAclView'', ''SieveBeforeView'', ''SieveAfterView'']\<rparr>"

definition schema_9 :: schema where
  "schema_9 =
     \<lparr>sc_tables =
      [(''alias'', created ddl_alias), (''alias_domain'', created ddl_alias_domain),
       (''bcc_maps'', created ddl_bcc_maps), (''domain'', domain_ca00bb9d1645),
       (''mailbox'', mailbox_ca00bb9d1645), (''quota2'', created ddl_quota2),
       (''quota2replica'', created ddl_quota2replica),
       (''recipient_maps'', created ddl_recipient_maps), (''relayhosts'', created ddl_relayhosts),
       (''sender_acl'', created ddl_sender_acl), (''spamalias'', created ddl_spamalias),
       (''tls_policy_override'', created ddl_tls_policy_override),
       (''transports'', created ddl_transports),
       (''_sogo_static_view'', created ddl_sogo_static_view),
       (''app_passwd'', created ddl_app_passwd), (''user_acl'', user_acl_f3adbeb27923),
       (''user_attributes'', user_attributes_f3adbeb27923), (''sasl_log'', created ddl_sasl_log),
       (''sogo_acl'', created ddl_sogo_acl), (''sogo_admin'', created ddl_sogo_admin),
       (''sogo_alarms_folder'', created ddl_sogo_alarms_folder),
       (''sogo_cache_folder'', created ddl_sogo_cache_folder),
       (''sogo_folder_info'', created ddl_sogo_folder_info),
       (''sogo_quick_appointment'', created ddl_sogo_quick_appointment),
       (''sogo_quick_contact'', created ddl_sogo_quick_contact),
       (''sogo_sessions_folder'', created ddl_sogo_sessions_folder),
       (''sogo_store'', created ddl_sogo_store),
       (''sogo_user_profile'', created ddl_sogo_user_profile),
       (''filterconf'', created ddl_filterconf), (''imapsync'', created ddl_imapsync),
       (''quarantine'', created ddl_quarantine), (''settingsmap'', created ddl_settingsmap),
       (''sieve_filters'', created ddl_sieve_filters)],
      sc_views = [''GroupedDomainAliasAddressView'', ''GroupedMailAliasesView'', ''GroupedSenderAclExternalView'', ''GroupedSenderAclView'', ''SieveBeforeView'', ''SieveAfterView'']\<rparr>"

definition schema_10 :: schema where
  "schema_10 =
     \<lparr>sc_tables =
      [(''alias'', alias_79d64ba432c7), (''alias_domain'', created ddl_alias_domain),
       (''bcc_maps'', created ddl_bcc_maps), (''domain'', domain_ca00bb9d1645),
       (''mailbox'', mailbox_ca00bb9d1645), (''quota2'', created ddl_quota2),
       (''quota2replica'', created ddl_quota2replica),
       (''recipient_maps'', created ddl_recipient_maps), (''relayhosts'', created ddl_relayhosts),
       (''sender_acl'', created ddl_sender_acl), (''spamalias'', created ddl_spamalias),
       (''tls_policy_override'', created ddl_tls_policy_override),
       (''transports'', created ddl_transports),
       (''_sogo_static_view'', created ddl_sogo_static_view),
       (''app_passwd'', created ddl_app_passwd), (''user_acl'', user_acl_f3adbeb27923),
       (''user_attributes'', user_attributes_f3adbeb27923), (''sasl_log'', created ddl_sasl_log),
       (''sogo_acl'', created ddl_sogo_acl), (''sogo_admin'', created ddl_sogo_admin),
       (''sogo_alarms_folder'', created ddl_sogo_alarms_folder),
       (''sogo_cache_folder'', created ddl_sogo_cache_folder),
       (''sogo_folder_info'', created ddl_sogo_folder_info),
       (''sogo_quick_appointment'', created ddl_sogo_quick_appointment),
       (''sogo_quick_contact'', created ddl_sogo_quick_contact),
       (''sogo_sessions_folder'', created ddl_sogo_sessions_folder),
       (''sogo_store'', created ddl_sogo_store),
       (''sogo_user_profile'', created ddl_sogo_user_profile),
       (''filterconf'', created ddl_filterconf), (''imapsync'', created ddl_imapsync),
       (''quarantine'', created ddl_quarantine), (''settingsmap'', created ddl_settingsmap),
       (''sieve_filters'', created ddl_sieve_filters)],
      sc_views = [''GroupedDomainAliasAddressView'', ''GroupedMailAliasesView'', ''GroupedSenderAclExternalView'', ''GroupedSenderAclView'', ''SieveBeforeView'', ''SieveAfterView'']\<rparr>"

definition schema_11 :: schema where
  "schema_11 =
     \<lparr>sc_tables =
      [(''alias'', alias_688be1178ef6), (''alias_domain'', created ddl_alias_domain),
       (''bcc_maps'', created ddl_bcc_maps), (''domain'', domain_ca00bb9d1645),
       (''mailbox'', mailbox_ca00bb9d1645), (''quota2'', created ddl_quota2),
       (''quota2replica'', created ddl_quota2replica),
       (''recipient_maps'', created ddl_recipient_maps), (''relayhosts'', created ddl_relayhosts),
       (''sender_acl'', created ddl_sender_acl), (''spamalias'', created ddl_spamalias),
       (''tls_policy_override'', created ddl_tls_policy_override),
       (''transports'', created ddl_transports),
       (''_sogo_static_view'', created ddl_sogo_static_view),
       (''app_passwd'', created ddl_app_passwd), (''user_acl'', user_acl_f3adbeb27923),
       (''user_attributes'', user_attributes_f3adbeb27923), (''sasl_log'', created ddl_sasl_log),
       (''sogo_acl'', created ddl_sogo_acl), (''sogo_admin'', created ddl_sogo_admin),
       (''sogo_alarms_folder'', created ddl_sogo_alarms_folder),
       (''sogo_cache_folder'', created ddl_sogo_cache_folder),
       (''sogo_folder_info'', created ddl_sogo_folder_info),
       (''sogo_quick_appointment'', created ddl_sogo_quick_appointment),
       (''sogo_quick_contact'', created ddl_sogo_quick_contact),
       (''sogo_sessions_folder'', created ddl_sogo_sessions_folder),
       (''sogo_store'', created ddl_sogo_store),
       (''sogo_user_profile'', created ddl_sogo_user_profile),
       (''filterconf'', created ddl_filterconf), (''imapsync'', created ddl_imapsync),
       (''quarantine'', created ddl_quarantine), (''settingsmap'', created ddl_settingsmap),
       (''sieve_filters'', created ddl_sieve_filters)],
      sc_views = [''GroupedDomainAliasAddressView'', ''GroupedMailAliasesView'', ''GroupedSenderAclExternalView'', ''GroupedSenderAclView'', ''SieveBeforeView'', ''SieveAfterView'']\<rparr>"

definition schema_12 :: schema where
  "schema_12 =
     \<lparr>sc_tables =
      [(''alias'', alias_688be1178ef6), (''alias_domain'', created ddl_alias_domain),
       (''bcc_maps'', created ddl_bcc_maps), (''domain'', domain_ca00bb9d1645),
       (''mailbox'', mailbox_ca00bb9d1645), (''quota2'', created ddl_quota2),
       (''quota2replica'', created ddl_quota2replica),
       (''recipient_maps'', created ddl_recipient_maps), (''relayhosts'', created ddl_relayhosts),
       (''sender_acl'', created ddl_sender_acl), (''spamalias'', created ddl_spamalias),
       (''tls_policy_override'', created ddl_tls_policy_override),
       (''transports'', created ddl_transports),
       (''_sogo_static_view'', created ddl_sogo_static_view),
       (''app_passwd'', created ddl_app_passwd), (''user_acl'', user_acl_f3adbeb27923),
       (''user_attributes'', user_attributes_f3adbeb27923), (''sasl_log'', created ddl_sasl_log),
       (''sogo_acl'', created ddl_sogo_acl), (''sogo_admin'', created ddl_sogo_admin),
       (''sogo_alarms_folder'', created ddl_sogo_alarms_folder),
       (''sogo_cache_folder'', created ddl_sogo_cache_folder),
       (''sogo_folder_info'', created ddl_sogo_folder_info),
       (''sogo_quick_appointment'', created ddl_sogo_quick_appointment),
       (''sogo_quick_contact'', created ddl_sogo_quick_contact),
       (''sogo_sessions_folder'', created ddl_sogo_sessions_folder),
       (''sogo_store'', created ddl_sogo_store),
       (''sogo_user_profile'', created ddl_sogo_user_profile),
       (''filterconf'', created ddl_filterconf), (''imapsync'', created ddl_imapsync),
       (''quarantine'', created ddl_quarantine), (''settingsmap'', created ddl_settingsmap),
       (''sieve_filters'', created ddl_sieve_filters),
       (''dmarc_report'', created ddl_dmarc_report), (''dmarc_record'', created ddl_dmarc_record)],
      sc_views = [''GroupedDomainAliasAddressView'', ''GroupedMailAliasesView'', ''GroupedSenderAclExternalView'', ''GroupedSenderAclView'', ''SieveBeforeView'', ''SieveAfterView'']\<rparr>"

lemmas run_tables = creates_tables [THEN run_created]

lemma upgrade_step_0: "ddl_run mysql (rv_upgrade revision_a465e415e03d) schema_0 = Inr schema_1"
  by (simp add: revision_a465e415e03d_def upgrade_a465e415e03d_def schema_0_def schema_1_def ddl_run_append run_tables
      created_foreign fkey_def has_table_def with_table_changed changes_succeed)

lemma upgrade_step_1: "ddl_run mysql (rv_upgrade revision_8d3df567c75c) schema_1 = Inr schema_2"
  by (simp add: revision_8d3df567c75c_def upgrade_8d3df567c75c_def schema_1_def schema_2_def ddl_run_append run_tables
      created_foreign fkey_def has_table_def with_table_changed changes_succeed)

lemma upgrade_step_2: "ddl_run mysql (rv_upgrade revision_9fbec9137efe) schema_2 = Inr schema_3"
  by (simp add: revision_9fbec9137efe_def upgrade_9fbec9137efe_def schema_2_def schema_3_def ddl_run_append run_tables
      created_foreign fkey_def has_table_def with_table_changed changes_succeed)

lemma upgrade_step_3: "ddl_run mysql (rv_upgrade revision_359478dc9830) schema_3 = Inr schema_4"
  by (simp add: revision_359478dc9830_def upgrade_359478dc9830_def schema_3_def schema_4_def ddl_run_append run_tables
      created_foreign fkey_def has_table_def with_table_changed changes_succeed mailbox_359478dc9830_def)

lemma upgrade_step_4: "ddl_run mysql (rv_upgrade revision_cf1ffc14619b) schema_4 = Inr schema_5"
  by (simp add: revision_cf1ffc14619b_def upgrade_cf1ffc14619b_def schema_4_def schema_5_def ddl_run_append run_tables
      created_foreign fkey_def has_table_def with_table_changed changes_succeed)

lemma upgrade_step_5: "ddl_run mysql (rv_upgrade revision_1270737d431e) schema_5 = Inr schema_6"
  by (simp add: revision_1270737d431e_def upgrade_1270737d431e_def schema_5_def schema_6_def ddl_run_append run_tables
      created_foreign fkey_def has_table_def with_table_changed changes_succeed)

lemma upgrade_step_6: "ddl_run mysql (rv_upgrade revision_4ad58e01b14b) schema_6 = Inr schema_7"
  by (simp add: revision_4ad58e01b14b_def upgrade_4ad58e01b14b_def schema_6_def schema_7_def ddl_run_append run_tables
      created_foreign fkey_def has_table_def with_table_changed changes_succeed)

lemma upgrade_step_7: "ddl_run mysql (rv_upgrade revision_f3adbeb27923) schema_7 = Inr schema_8"
  by (simp add: revision_f3adbeb27923_def upgrade_f3adbeb27923_def schema_7_def schema_8_def ddl_run_append run_tables
      created_foreign fkey_def has_table_def with_table_changed changes_succeed user_acl_f3adbeb27923_def user_attributes_f3adbeb27923_def)

lemma upgrade_step_8: "ddl_run mysql (rv_upgrade revision_ca00bb9d1645) schema_8 = Inr schema_9"
  by (simp add: revision_ca00bb9d1645_def upgrade_ca00bb9d1645_def schema_8_def schema_9_def ddl_run_append run_tables
      created_foreign fkey_def has_table_def with_table_changed changes_succeed domain_ca00bb9d1645_def mailbox_ca00bb9d1645_def)

lemma upgrade_step_9: "ddl_run mysql (rv_upgrade revision_79d64ba432c7) schema_9 = Inr schema_10"
  by (simp add: revision_79d64ba432c7_def upgrade_79d64ba432c7_def schema_9_def schema_10_def ddl_run_append run_tables
      created_foreign fkey_def has_table_def with_table_changed changes_succeed alias_79d64ba432c7_def)

lemma upgrade_step_10: "ddl_run mysql (rv_upgrade revision_688be1178ef6) schema_10 = Inr schema_11"
  by (simp add: revision_688be1178ef6_def upgrade_688be1178ef6_def schema_10_def schema_11_def ddl_run_append run_tables
      created_foreign fkey_def has_table_def with_table_changed changes_succeed alias_688be1178ef6_def)

lemma upgrade_step_11: "ddl_run mysql (rv_upgrade revision_2a8c4f6e9b01) schema_11 = Inr schema_12"
  by (simp add: revision_2a8c4f6e9b01_def upgrade_2a8c4f6e9b01_def schema_11_def schema_12_def ddl_run_append run_tables
      created_foreign fkey_def has_table_def with_table_changed changes_succeed)

lemmas upgrade_steps = upgrade_step_0 upgrade_step_1 upgrade_step_2 upgrade_step_3 upgrade_step_4 upgrade_step_5 upgrade_step_6 upgrade_step_7 upgrade_step_8 upgrade_step_9 upgrade_step_10 upgrade_step_11

lemma tables_match_0:
  "same_table alias_688be1178ef6 model_alias"
  "same_table (created ddl_alias_domain) model_alias_domain"
  "same_table (created ddl_app_passwd) model_app_passwd"
  "same_table (created ddl_bcc_maps) model_bcc_maps"
  "same_table domain_ca00bb9d1645 model_domain"
  "same_table (created ddl_filterconf) model_filterconf"
  "same_table (created ddl_imapsync) model_imapsync"
  by code_simp+

lemma tables_match_1:
  "same_table mailbox_ca00bb9d1645 model_mailbox"
  "same_table (created ddl_quarantine) model_quarantine"
  "same_table (created ddl_quota2) model_quota2"
  "same_table (created ddl_quota2replica) model_quota2replica"
  "same_table (created ddl_recipient_maps) model_recipient_maps"
  "same_table (created ddl_relayhosts) model_relayhosts"
  "same_table (created ddl_sasl_log) model_sasl_log"
  by code_simp+

lemma tables_match_2:
  "same_table (created ddl_sender_acl) model_sender_acl"
  "same_table (created ddl_settingsmap) model_settingsmap"
  "same_table (created ddl_sieve_filters) model_sieve_filters"
  "same_table (created ddl_sogo_static_view) model_sogo_static_view"
  "same_table (created ddl_sogo_acl) model_sogo_acl"
  "same_table (created ddl_sogo_alarms_folder) model_sogo_alarms_folder"
  "same_table (created ddl_sogo_cache_folder) model_sogo_cache_folder"
  by code_simp+

lemma tables_match_3:
  "same_table (created ddl_sogo_folder_info) model_sogo_folder_info"
  "same_table (created ddl_sogo_quick_appointment) model_sogo_quick_appointment"
  "same_table (created ddl_sogo_quick_contact) model_sogo_quick_contact"
  "same_table (created ddl_sogo_sessions_folder) model_sogo_sessions_folder"
  "same_table (created ddl_sogo_store) model_sogo_store"
  "same_table (created ddl_sogo_admin) model_sogo_admin"
  "same_table (created ddl_sogo_user_profile) model_sogo_user_profile"
  by code_simp+

lemma tables_match_4:
  "same_table (created ddl_spamalias) model_spamalias"
  "same_table (created ddl_tls_policy_override) model_tls_policy_override"
  "same_table (created ddl_transports) model_transports"
  "same_table user_acl_f3adbeb27923 model_user_acl"
  "same_table (created ddl_dmarc_report) model_dmarc_report"
  "same_table (created ddl_dmarc_record) model_dmarc_record"
  "same_table user_attributes_f3adbeb27923 model_user_attributes"
  by code_simp+

lemmas tables_match_models = tables_match_0 tables_match_1 tables_match_2 tables_match_3 tables_match_4

text \<open>
  C19. The revisions form one chain, and running every upgrade from an empty database succeeds and leaves
  exactly the tables of the models, each with its columns, their types, nullability and defaults, its
  primary key, foreign keys and indexes, and the views.
\<close>
theorem upgrade_reaches_models:
  "map rv_down revisions = None # map (\<lambda>r. Some (rv_id r)) (butlast revisions) \<and>
   (\<exists>s. upgrade_all mysql revisions empty_schema = Inr s \<and>
     same_dict same_table (sc_tables s) model_tables \<and>
     sc_views s = [''GroupedDomainAliasAddressView'', ''GroupedMailAliasesView'', ''GroupedSenderAclExternalView'', ''GroupedSenderAclView'', ''SieveBeforeView'', ''SieveAfterView''])"
proof -
  have "empty_schema = schema_0" by (simp add: empty_schema_def schema_0_def)
  then have "upgrade_all mysql revisions empty_schema = Inr schema_12"
    by (simp add: revisions_def upgrade_steps)
  moreover have "same_dict same_table (sc_tables schema_12) model_tables"
    by (simp add: same_dict_def schema_12_def model_tables_def tables_match_models)
  moreover have "map rv_down revisions = None # map (\<lambda>r. Some (rv_id r)) (butlast revisions)"
    by (simp add: revisions_def revision_a465e415e03d_def revision_8d3df567c75c_def revision_9fbec9137efe_def
        revision_359478dc9830_def revision_cf1ffc14619b_def revision_1270737d431e_def
        revision_4ad58e01b14b_def revision_f3adbeb27923_def revision_ca00bb9d1645_def
        revision_79d64ba432c7_def revision_688be1178ef6_def revision_2a8c4f6e9b01_def)
  ultimately show ?thesis by (simp add: schema_12_def)
qed

section \<open>Downgrades\<close>

text \<open>The statements of a downgrade, by the table they drop.\<close>

lemma downgrade_groups:
  "downgrade_a465e415e03d =
   dropped ''transports'' [''transports_nexthop_key'', ''transports_destination_key''] @
   dropped ''tls_policy_override'' [''tls_policy_override_dest_key''] @
   dropped ''spamalias'' [] @ dropped ''sender_acl'' [] @
   dropped ''relayhosts'' [''relayhosts_hostname_key''] @
   dropped ''recipient_maps'' [''recipient_maps_old_dest_key''] @ dropped ''quota2replica'' [] @
   dropped ''quota2'' [] @
   dropped ''mailbox'' [''mailbox_kind_key'', ''mailbox_domain_local_part_key'', ''mailbox_domain_key''] @
   dropped ''domain'' [] @ dropped ''bcc_maps'' [''bcc_maps_local_dest_key''] @
   dropped ''alias_domain'' [''alias_domain_target_domain_key'', ''alias_domain_active_key''] @
   dropped ''alias'' [''alias_domain_key'', ''alias_address_key'']"
  "downgrade_9fbec9137efe =
   dropped ''_sogo_static_view'' [''_sogo_static_view_domain_key'']"
  "downgrade_359478dc9830 =
   [AddColumn ''mailbox'' (dcol ''custom_attributes'' SLongText False (Sql [CHR 0x27, CHR 0x7B, CHR 0x7D, CHR 0x27])), AddColumn ''mailbox'' (col ''attributes'' SLongText True)] @
   dropped ''user_attributes'' [] @ dropped ''user_acl'' [] @
   dropped ''app_passwd'' [''app_passwd_password'', ''app_passwd_mailbox'', ''app_passwd_domain'']"
  "downgrade_cf1ffc14619b =
   dropped ''sasl_log'' [''sasl_log_username_key'', ''sasl_log_service_key'', ''sasl_log_real_ip_key'', ''sasl_log_datetime_key'']"
  "downgrade_1270737d431e =
   dropped ''sogo_user_profile'' [] @ dropped ''sogo_store'' [] @
   dropped ''sogo_sessions_folder'' [] @ dropped ''sogo_quick_contact'' [] @
   dropped ''sogo_quick_appointment'' [] @
   dropped ''sogo_folder_info'' [''sogo_folder_info_c_path_key''] @
   dropped ''sogo_cache_folder'' [] @ dropped ''sogo_alarms_folder'' [] @
   dropped ''sogo_admin'' [] @
   dropped ''sogo_acl'' [''sogo_acl_c_uid_key'', ''sogo_acl_c_folder_id_key'']"
  "downgrade_4ad58e01b14b =
   dropped ''settingsmap'' [] @ dropped ''quarantine'' [] @ dropped ''imapsync'' [] @
   dropped ''filterconf'' [''filterconf_object_key'']"
  "downgrade_f3adbeb27923 =
   [DropForeignKeyTo ''user_attributes'' ''mailbox'' [''username''], CreateForeignKey ''user_attributes'' (fkey ''username'' ''mailbox'' ''username'' None), DropForeignKeyTo ''user_acl'' ''mailbox'' [''username''], CreateForeignKey ''user_acl'' (fkey ''username'' ''mailbox'' ''username'' None)] @
   dropped ''sieve_filters'' [''sieve_filters_username_key'', ''sieve_filters_script_desc_key''] @
   [DropView ''SieveAfterView'', DropView ''SieveBeforeView'']"
  "downgrade_2a8c4f6e9b01 =
   dropped ''dmarc_record'' [''dmarc_record_header_from_key'', ''dmarc_record_source_ip_key'', ''dmarc_record_report_id_key''] @
   dropped ''dmarc_report'' [''dmarc_report_begin_date_key'', ''dmarc_report_domain_key'', ''dmarc_report_report_id_key'']"
  by (simp_all add: dropped_def downgrade_a465e415e03d_def downgrade_9fbec9137efe_def downgrade_359478dc9830_def downgrade_cf1ffc14619b_def downgrade_1270737d431e_def downgrade_4ad58e01b14b_def downgrade_f3adbeb27923_def downgrade_2a8c4f6e9b01_def)

lemma downgrade_changes:
  "succeeds (add_column (dcol ''custom_attributes'' SLongText False (Sql [CHR 0x27, CHR 0x7B, CHR 0x7D, CHR 0x27])) mailbox_359478dc9830)"
  "succeeds (add_column (col ''attributes'' SLongText True) (changed (add_column (dcol ''custom_attributes'' SLongText False (Sql [CHR 0x27, CHR 0x7B, CHR 0x7D, CHR 0x27])) mailbox_359478dc9830)))"
  "succeeds (drop_foreign_key_to ''mailbox'' [''username''] user_attributes_f3adbeb27923)"
  "succeeds (drop_foreign_key_to ''mailbox'' [''username''] user_acl_f3adbeb27923)"
  "succeeds (alter_column ''quota'' None None (Some (Some (Sql ''3072''))) mailbox_ca00bb9d1645)"
  "succeeds (alter_column ''quota'' None None (Some (Some (Sql ''102400''))) domain_ca00bb9d1645)"
  "succeeds (alter_column ''maxquota'' None None (Some (Some (Sql ''102400''))) (changed (alter_column ''quota'' None None (Some (Some (Sql ''102400''))) domain_ca00bb9d1645)))"
  "succeeds (alter_column ''defquota'' None None (Some (Some (Sql ''3072''))) (changed (alter_column ''maxquota'' None None (Some (Some (Sql ''102400''))) (changed (alter_column ''quota'' None None (Some (Some (Sql ''102400''))) domain_ca00bb9d1645)))))"
  "succeeds (drop_column ''internal'' alias_79d64ba432c7)"
  "succeeds (alter_column ''active'' None None (Some (Some (Sql ''0''))) (changed (drop_column ''internal'' alias_79d64ba432c7)))"
  "succeeds (alter_column ''public_comment'' (Some SText) (Some True) (Some None) alias_688be1178ef6)"
  "succeeds (alter_column ''private_comment'' (Some SText) (Some True) (Some None) (changed (alter_column ''public_comment'' (Some SText) (Some True) (Some None) alias_688be1178ef6)))"
  by code_simp+

lemma downgrade_restores_table:
  "(changed (drop_foreign_key_to ''mailbox'' [''username''] user_acl_f3adbeb27923))\<lparr>tb_foreign := tb_foreign (changed (drop_foreign_key_to ''mailbox'' [''username''] user_acl_f3adbeb27923)) @ [fkey ''username'' ''mailbox'' ''username'' None]\<rparr> = created ddl_user_acl"
  "(changed (drop_foreign_key_to ''mailbox'' [''username''] user_attributes_f3adbeb27923))\<lparr>tb_foreign := tb_foreign (changed (drop_foreign_key_to ''mailbox'' [''username''] user_attributes_f3adbeb27923)) @ [fkey ''username'' ''mailbox'' ''username'' None]\<rparr> = created ddl_user_attributes"
  "changed (alter_column ''private_comment'' (Some SText) (Some True) (Some None) (changed (alter_column ''public_comment'' (Some SText) (Some True) (Some None) alias_688be1178ef6))) = alias_79d64ba432c7"
  by code_simp+

lemma downgrade_restores_same:
  "same_table (changed (add_column (col ''attributes'' SLongText True) (changed (add_column (dcol ''custom_attributes'' SLongText False (Sql [CHR 0x27, CHR 0x7B, CHR 0x7D, CHR 0x27])) mailbox_359478dc9830)))) (created ddl_mailbox)"
  "same_table (changed (alter_column ''active'' None None (Some (Some (Sql ''0''))) (changed (drop_column ''internal'' alias_79d64ba432c7)))) (created ddl_alias)"
  by code_simp+

lemma restored_mailbox_foreign: "tb_foreign (changed (add_column (col ''attributes'' SLongText True) (changed (add_column (dcol ''custom_attributes'' SLongText False (Sql [CHR 0x27, CHR 0x7B, CHR 0x7D, CHR 0x27])) mailbox_359478dc9830)))) = []"
  by code_simp

lemma changed_foreign:
  "tb_foreign mailbox_359478dc9830 = []"
  "tb_foreign user_acl_f3adbeb27923 = [fkey ''username'' ''mailbox'' ''username'' (Some ''CASCADE'')]"
  "tb_foreign user_attributes_f3adbeb27923 = [fkey ''username'' ''mailbox'' ''username'' (Some ''CASCADE'')]"
  "tb_foreign domain_ca00bb9d1645 = []"
  "tb_foreign mailbox_ca00bb9d1645 = []"
  "tb_foreign alias_79d64ba432c7 = []"
  "tb_foreign alias_688be1178ef6 = []"
  by code_simp+

lemma distinct_0:
  "distinct_table (created ddl_alias)"
  "distinct_table (created ddl_alias_domain)"
  "distinct_table (created ddl_bcc_maps)"
  "distinct_table (created ddl_domain)"
  "distinct_table (created ddl_mailbox)"
  "distinct_table (created ddl_quota2)"
  "distinct_table (created ddl_quota2replica)"
  "distinct_table (created ddl_recipient_maps)"
  "distinct_table (created ddl_relayhosts)"
  "distinct_table (created ddl_sender_acl)"
  "distinct_table (created ddl_spamalias)"
  "distinct_table (created ddl_tls_policy_override)"
  "distinct_table (created ddl_transports)"
  "distinct_table (created ddl_sogo_static_view)"
  by code_simp+

lemma distinct_1:
  "distinct_table mailbox_359478dc9830"
  "distinct_table (created ddl_app_passwd)"
  "distinct_table (created ddl_user_acl)"
  "distinct_table (created ddl_user_attributes)"
  "distinct_table (created ddl_sasl_log)"
  "distinct_table (created ddl_sogo_acl)"
  "distinct_table (created ddl_sogo_admin)"
  "distinct_table (created ddl_sogo_alarms_folder)"
  "distinct_table (created ddl_sogo_cache_folder)"
  "distinct_table (created ddl_sogo_folder_info)"
  "distinct_table (created ddl_sogo_quick_appointment)"
  "distinct_table (created ddl_sogo_quick_contact)"
  "distinct_table (created ddl_sogo_sessions_folder)"
  "distinct_table (created ddl_sogo_store)"
  by code_simp+

lemma distinct_2:
  "distinct_table (created ddl_sogo_user_profile)"
  "distinct_table (created ddl_filterconf)"
  "distinct_table (created ddl_imapsync)"
  "distinct_table (created ddl_quarantine)"
  "distinct_table (created ddl_settingsmap)"
  "distinct_table user_acl_f3adbeb27923"
  "distinct_table user_attributes_f3adbeb27923"
  "distinct_table (created ddl_sieve_filters)"
  "distinct_table domain_ca00bb9d1645"
  "distinct_table mailbox_ca00bb9d1645"
  "distinct_table alias_79d64ba432c7"
  "distinct_table alias_688be1178ef6"
  "distinct_table (created ddl_dmarc_report)"
  "distinct_table (created ddl_dmarc_record)"
  by code_simp+

lemmas distinct_tables = distinct_0 distinct_1 distinct_2

lemma same_0: "same_schema schema_0 schema_0"
  by (rule same_schema_refl) (simp_all add: schema_0_def distinct_tables)

lemma same_1: "same_schema schema_1 schema_1"
  by (rule same_schema_refl) (simp_all add: schema_1_def distinct_tables)

lemma same_2: "same_schema schema_2 schema_2"
  by (rule same_schema_refl) (simp_all add: schema_2_def distinct_tables)

lemma same_3: "same_schema schema_3 schema_3"
  by (rule same_schema_refl) (simp_all add: schema_3_def distinct_tables)

lemma same_4: "same_schema schema_4 schema_4"
  by (rule same_schema_refl) (simp_all add: schema_4_def distinct_tables)

lemma same_5: "same_schema schema_5 schema_5"
  by (rule same_schema_refl) (simp_all add: schema_5_def distinct_tables)

lemma same_6: "same_schema schema_6 schema_6"
  by (rule same_schema_refl) (simp_all add: schema_6_def distinct_tables)

lemma same_7: "same_schema schema_7 schema_7"
  by (rule same_schema_refl) (simp_all add: schema_7_def distinct_tables)

lemma same_9: "same_schema schema_9 schema_9"
  by (rule same_schema_refl) (simp_all add: schema_9_def distinct_tables)

lemma same_10: "same_schema schema_10 schema_10"
  by (rule same_schema_refl) (simp_all add: schema_10_def distinct_tables)

lemma same_11: "same_schema schema_11 schema_11"
  by (rule same_schema_refl) (simp_all add: schema_11_def distinct_tables)

lemma downgrade_step_0: "ddl_run mysql (rv_downgrade revision_a465e415e03d) schema_1 = Inr schema_0"
  by (simp add: revision_a465e415e03d_def downgrade_groups ddl_run_append run_dropped created_foreign changed_foreign created_indexes
      fkey_def is_referenced_def has_table_def dict_del_def with_table_changed downgrade_changes schema_0_def schema_1_def
      downgrade_restores_table)

lemma downgrade_step_1: "ddl_run mysql (rv_downgrade revision_8d3df567c75c) schema_2 = Inr schema_1"
  by (simp add: revision_8d3df567c75c_def downgrade_groups downgrade_8d3df567c75c_def ddl_run_append run_dropped created_foreign changed_foreign created_indexes
      fkey_def is_referenced_def has_table_def dict_del_def with_table_changed downgrade_changes schema_1_def schema_2_def
      downgrade_restores_table)

lemma downgrade_step_2: "ddl_run mysql (rv_downgrade revision_9fbec9137efe) schema_3 = Inr schema_2"
  by (simp add: revision_9fbec9137efe_def downgrade_groups ddl_run_append run_dropped created_foreign changed_foreign created_indexes
      fkey_def is_referenced_def has_table_def dict_del_def with_table_changed downgrade_changes schema_2_def schema_3_def
      downgrade_restores_table)

lemma downgrade_step_3:
  "ddl_run False (rv_downgrade revision_359478dc9830) schema_4 =
    Inr (schema_3\<lparr>sc_tables := dict_set ''mailbox''
      (changed (add_column (col ''attributes'' SLongText True) (changed (add_column (dcol ''custom_attributes'' SLongText False (Sql [CHR 0x27, CHR 0x7B, CHR 0x7D, CHR 0x27])) mailbox_359478dc9830)))) (sc_tables schema_3)\<rparr>)"
  by (simp add: revision_359478dc9830_def downgrade_groups ddl_run_append run_dropped created_foreign changed_foreign created_indexes
      fkey_def is_referenced_def has_table_def dict_del_def with_table_changed downgrade_changes schema_3_def schema_4_def restored_mailbox_foreign)

lemma downgrade_step_4: "ddl_run mysql (rv_downgrade revision_cf1ffc14619b) schema_5 = Inr schema_4"
  by (simp add: revision_cf1ffc14619b_def downgrade_groups ddl_run_append run_dropped created_foreign changed_foreign created_indexes
      fkey_def is_referenced_def has_table_def dict_del_def with_table_changed downgrade_changes schema_4_def schema_5_def
      downgrade_restores_table)

lemma downgrade_step_5: "ddl_run mysql (rv_downgrade revision_1270737d431e) schema_6 = Inr schema_5"
  by (simp add: revision_1270737d431e_def downgrade_groups ddl_run_append run_dropped created_foreign changed_foreign created_indexes
      fkey_def is_referenced_def has_table_def dict_del_def with_table_changed downgrade_changes schema_5_def schema_6_def
      downgrade_restores_table)

lemma downgrade_step_6: "ddl_run mysql (rv_downgrade revision_4ad58e01b14b) schema_7 = Inr schema_6"
  by (simp add: revision_4ad58e01b14b_def downgrade_groups ddl_run_append run_dropped created_foreign changed_foreign created_indexes
      fkey_def is_referenced_def has_table_def dict_del_def with_table_changed downgrade_changes schema_6_def schema_7_def
      downgrade_restores_table)

lemma downgrade_step_7: "ddl_run False (rv_downgrade revision_f3adbeb27923) schema_8 = Inr schema_7"
  by (simp add: revision_f3adbeb27923_def downgrade_groups ddl_run_append run_dropped created_foreign changed_foreign created_indexes
      fkey_def is_referenced_def has_table_def dict_del_def with_table_changed downgrade_changes schema_7_def schema_8_def
      downgrade_restores_table [unfolded fkey_def])

lemma downgrade_step_9:
  "ddl_run mysql (rv_downgrade revision_79d64ba432c7) schema_10 =
    Inr (schema_9\<lparr>sc_tables := dict_set ''alias''
      (changed (alter_column ''active'' None None (Some (Some (Sql ''0''))) (changed (drop_column ''internal'' alias_79d64ba432c7)))) (sc_tables schema_9)\<rparr>)"
  by (simp add: revision_79d64ba432c7_def downgrade_groups downgrade_79d64ba432c7_def ddl_run_append run_dropped created_foreign changed_foreign created_indexes
      fkey_def is_referenced_def has_table_def dict_del_def with_table_changed downgrade_changes schema_9_def schema_10_def)

lemma downgrade_step_10: "ddl_run mysql (rv_downgrade revision_688be1178ef6) schema_11 = Inr schema_10"
  by (simp add: revision_688be1178ef6_def downgrade_groups downgrade_688be1178ef6_def ddl_run_append run_dropped created_foreign changed_foreign created_indexes
      fkey_def is_referenced_def has_table_def dict_del_def with_table_changed downgrade_changes schema_10_def schema_11_def
      downgrade_restores_table)

lemma downgrade_step_11: "ddl_run False (rv_downgrade revision_2a8c4f6e9b01) schema_12 = Inr schema_11"
  by (simp add: revision_2a8c4f6e9b01_def downgrade_groups ddl_run_append run_dropped created_foreign changed_foreign created_indexes
      fkey_def is_referenced_def has_table_def dict_del_def with_table_changed downgrade_changes schema_11_def schema_12_def
      downgrade_restores_table)

lemma downgrade_same_3: "same_schema (schema_3\<lparr>sc_tables := dict_set ''mailbox''
    (changed (add_column (col ''attributes'' SLongText True) (changed (add_column (dcol ''custom_attributes'' SLongText False (Sql [CHR 0x27, CHR 0x7B, CHR 0x7D, CHR 0x27])) mailbox_359478dc9830)))) (sc_tables schema_3)\<rparr>) schema_3"
  by (rule same_schema_set [OF same_3, where t = "created ddl_mailbox"]) (simp_all add: schema_3_def downgrade_restores_same)

lemma downgrade_same_9: "same_schema (schema_9\<lparr>sc_tables := dict_set ''alias''
    (changed (alter_column ''active'' None None (Some (Some (Sql ''0''))) (changed (drop_column ''internal'' alias_79d64ba432c7)))) (sc_tables schema_9)\<rparr>) schema_9"
  by (rule same_schema_set [OF same_9, where t = "created ddl_alias"]) (simp_all add: schema_9_def downgrade_restores_same)

lemma mysql_changes:
  "succeeds (drop_index True ''app_passwd_password'' (created ddl_app_passwd))"
  "succeeds (drop_index True ''dmarc_record_header_from_key'' (created ddl_dmarc_record))"
  "succeeds (drop_index True ''dmarc_record_source_ip_key'' (changed (drop_index True ''dmarc_record_header_from_key'' (created ddl_dmarc_record))))"
  "drop_index True ''app_passwd_mailbox'' (changed (drop_index True ''app_passwd_password'' (created ddl_app_passwd))) = Inl (IndexNeeded ''app_passwd_mailbox'')"
  "drop_index True ''sieve_filters_username_key'' (created ddl_sieve_filters) = Inl (IndexNeeded ''sieve_filters_username_key'')"
  "drop_index True ''dmarc_record_report_id_key'' (changed (drop_index True ''dmarc_record_source_ip_key'' (changed (drop_index True ''dmarc_record_header_from_key'' (created ddl_dmarc_record))))) = Inl (IndexNeeded ''dmarc_record_report_id_key'')"
  by code_simp+

lemma downgrade_refused_3: "ddl_run True (rv_downgrade revision_359478dc9830) schema_4 = Inl (IndexNeeded ''app_passwd_mailbox'')"
  by (simp add: revision_359478dc9830_def downgrade_359478dc9830_def created_foreign changed_foreign fkey_def is_referenced_def has_table_def
      dict_del_def with_table_changed with_table_refused [where e = "IndexNeeded ''app_passwd_mailbox''"]
      downgrade_changes mysql_changes restored_mailbox_foreign schema_4_def)

lemma downgrade_refused_7: "ddl_run True (rv_downgrade revision_f3adbeb27923) schema_8 = Inl (IndexNeeded ''sieve_filters_username_key'')"
  by (simp add: revision_f3adbeb27923_def downgrade_f3adbeb27923_def created_foreign changed_foreign fkey_def is_referenced_def has_table_def
      dict_del_def with_table_changed with_table_refused [where e = "IndexNeeded ''sieve_filters_username_key''"]
      downgrade_changes mysql_changes restored_mailbox_foreign schema_8_def)

lemma downgrade_refused_11: "ddl_run True (rv_downgrade revision_2a8c4f6e9b01) schema_12 = Inl (IndexNeeded ''dmarc_record_report_id_key'')"
  by (simp add: revision_2a8c4f6e9b01_def downgrade_2a8c4f6e9b01_def created_foreign changed_foreign fkey_def is_referenced_def has_table_def
      dict_del_def with_table_changed with_table_refused [where e = "IndexNeeded ''dmarc_record_report_id_key''"]
      downgrade_changes mysql_changes restored_mailbox_foreign schema_12_def)

lemmas downgrade_steps = downgrade_step_0 downgrade_step_1 downgrade_step_2 downgrade_step_3 downgrade_step_4 downgrade_step_5
      downgrade_step_6 downgrade_step_7 downgrade_step_9 downgrade_step_10 downgrade_step_11
lemmas downgrade_refused = downgrade_refused_3 downgrade_refused_7 downgrade_refused_11
lemmas downgrade_same = same_0 same_1 same_2 same_4 same_5 same_6 same_7 same_10 same_11
  downgrade_same_3 downgrade_same_9

lemma upgrade_all_append:
  "upgrade_all mysql (rs @ rs') s =
     (case upgrade_all mysql rs s of Inl e \<Rightarrow> Inl e | Inr t \<Rightarrow> upgrade_all mysql rs' t)"
  by (induction rs arbitrary: s) (simp_all split: sum.splits)

text \<open>Each revision with the schema that it is run on.\<close>

fun upgrade_trace :: "bool \<Rightarrow> revision list \<Rightarrow> schema \<Rightarrow> (revision \<times> schema) list" where
  "upgrade_trace mysql [] s = []"
| "upgrade_trace mysql (r # rs) s =
     (r, s) # (case ddl_run mysql (rv_upgrade r) s of Inl e \<Rightarrow> [] | Inr t \<Rightarrow> upgrade_trace mysql rs t)"

lemma upgrade_trace_prefix:
  "upgrade_all mysql rs s = Inr t \<Longrightarrow> (r, t) \<in> set (upgrade_trace mysql (rs @ r # rest) s)"
  by (induction rs arbitrary: s) (auto split: sum.splits)

lemma upgrade_prefix:
  assumes "revisions = rs @ r # rest" and "upgrade_all mysql rs empty_schema = Inr s"
  shows "r = revision_a465e415e03d \<and> s = schema_0 \<or>
    r = revision_8d3df567c75c \<and> s = schema_1 \<or>
    r = revision_9fbec9137efe \<and> s = schema_2 \<or>
    r = revision_359478dc9830 \<and> s = schema_3 \<or>
    r = revision_cf1ffc14619b \<and> s = schema_4 \<or>
    r = revision_1270737d431e \<and> s = schema_5 \<or>
    r = revision_4ad58e01b14b \<and> s = schema_6 \<or>
    r = revision_f3adbeb27923 \<and> s = schema_7 \<or>
    r = revision_ca00bb9d1645 \<and> s = schema_8 \<or>
    r = revision_79d64ba432c7 \<and> s = schema_9 \<or>
    r = revision_688be1178ef6 \<and> s = schema_10 \<or>
    r = revision_2a8c4f6e9b01 \<and> s = schema_11"
proof -
  have "empty_schema = schema_0" by (simp add: empty_schema_def schema_0_def)
  then have "upgrade_trace mysql revisions empty_schema =
     [(revision_a465e415e03d, schema_0), (revision_8d3df567c75c, schema_1),
     (revision_9fbec9137efe, schema_2), (revision_359478dc9830, schema_3),
     (revision_cf1ffc14619b, schema_4), (revision_1270737d431e, schema_5),
     (revision_4ad58e01b14b, schema_6), (revision_f3adbeb27923, schema_7),
     (revision_ca00bb9d1645, schema_8), (revision_79d64ba432c7, schema_9),
     (revision_688be1178ef6, schema_10), (revision_2a8c4f6e9b01, schema_11)]"
    by (simp add: revisions_def upgrade_steps)
  with upgrade_trace_prefix [OF assms(2), of r rest] assms(1) show ?thesis by simp
qed

text \<open>The identifiers of the revisions, and those whose downgrade MySQL refuses, with the index it needs.\<close>

lemma revision_ids:
  "rv_id revision_a465e415e03d = ''a465e415e03d''"
  "rv_id revision_8d3df567c75c = ''8d3df567c75c''"
  "rv_id revision_9fbec9137efe = ''9fbec9137efe''"
  "rv_id revision_359478dc9830 = ''359478dc9830''"
  "rv_id revision_cf1ffc14619b = ''cf1ffc14619b''"
  "rv_id revision_1270737d431e = ''1270737d431e''"
  "rv_id revision_4ad58e01b14b = ''4ad58e01b14b''"
  "rv_id revision_f3adbeb27923 = ''f3adbeb27923''"
  "rv_id revision_ca00bb9d1645 = ''ca00bb9d1645''"
  "rv_id revision_79d64ba432c7 = ''79d64ba432c7''"
  "rv_id revision_688be1178ef6 = ''688be1178ef6''"
  "rv_id revision_2a8c4f6e9b01 = ''2a8c4f6e9b01''"
  by (simp_all add: revision_a465e415e03d_def revision_8d3df567c75c_def revision_9fbec9137efe_def
      revision_359478dc9830_def revision_cf1ffc14619b_def revision_1270737d431e_def
      revision_4ad58e01b14b_def revision_f3adbeb27923_def revision_ca00bb9d1645_def
      revision_79d64ba432c7_def revision_688be1178ef6_def revision_2a8c4f6e9b01_def)

definition refused_downgrades :: "(string \<times> string) list" where
  "refused_downgrades =
     [(''359478dc9830'', ''app_passwd_mailbox''),
      (''f3adbeb27923'', ''sieve_filters_username_key''),
      (''2a8c4f6e9b01'', ''dmarc_record_report_id_key'')]"

text \<open>
  C27. Downgrading after an upgrade gives back the schema before it (the columns possibly in another
  order), for every revision but ca00bb9d1645, whose downgrade sets another default, and, on MySQL, the
  three whose downgrade is refused.
\<close>
theorem downgrade_undoes_upgrade:
  assumes "revisions = rs @ r # rest" and "upgrade_all mysql rs empty_schema = Inr s"
    and "rv_id r \<noteq> ''ca00bb9d1645''" and "mysql \<Longrightarrow> map_of refused_downgrades (rv_id r) = None"
  shows "\<exists>t u. ddl_run mysql (rv_upgrade r) s = Inr t \<and> ddl_run mysql (rv_downgrade r) t = Inr u \<and> same_schema u s"
proof (cases mysql)
  case True
  with assms(4) have "map_of refused_downgrades (rv_id r) = None" by simp
  with assms(3) upgrade_prefix [OF assms(1,2)] show ?thesis
    by (elim disjE) (simp_all add: upgrade_steps downgrade_steps downgrade_same refused_downgrades_def revision_ids)
next
  case False
  with assms(3) upgrade_prefix [OF assms(1,2)] show ?thesis
    by (elim disjE) (simp_all add: upgrade_steps downgrade_steps downgrade_same revision_ids)
qed

theorem downgrade_undoes_upgrade_witness:
  "\<exists>t u. ddl_run True (rv_upgrade revision_a465e415e03d) empty_schema = Inr t \<and>
     ddl_run True (rv_downgrade revision_a465e415e03d) t = Inr u \<and> same_schema u empty_schema"
  by (rule downgrade_undoes_upgrade [where rs = "[]" and rest = "tl revisions"])
    (simp_all add: revisions_def revision_ids refused_downgrades_def)

text \<open>
  C26. On MySQL the downgrades of 359478dc9830, f3adbeb27923 and 2a8c4f6e9b01 are refused: they drop the only
  index that begins with the column of a foreign key while the key is still there.
\<close>
theorem mysql_refuses_downgrades:
  assumes "revisions = rs @ r # rest" and "upgrade_all True (rs @ [r]) empty_schema = Inr s"
    and "map_of refused_downgrades (rv_id r) = Some i"
  shows "ddl_run True (rv_downgrade r) s = Inl (IndexNeeded i)"
proof -
  obtain t where t: "upgrade_all True rs empty_schema = Inr t" "ddl_run True (rv_upgrade r) t = Inr s"
    using assms(2) by (auto simp: upgrade_all_append split: sum.splits)
  from upgrade_prefix [OF assms(1) t(1)] t(2) assms(3) show ?thesis
    by (elim disjE) (simp_all add: upgrade_steps downgrade_refused refused_downgrades_def revision_ids)
qed

theorem mysql_refuses_downgrades_witness:
  "ddl_run True (rv_downgrade revision_2a8c4f6e9b01) schema_12 = Inl (IndexNeeded ''dmarc_record_report_id_key'')"
proof -
  have e: "empty_schema = schema_0" by (simp add: empty_schema_def schema_0_def)
  have 1: "revisions = butlast revisions @ revision_2a8c4f6e9b01 # []" by (simp add: revisions_def)
  have 2: "upgrade_all True (butlast revisions @ [revision_2a8c4f6e9b01]) empty_schema = Inr schema_12"
    by (simp add: revisions_def upgrade_steps e)
  have 3: "map_of refused_downgrades (rv_id revision_2a8c4f6e9b01) = Some ''dmarc_record_report_id_key''"
    by (simp add: refused_downgrades_def revision_ids)
  from mysql_refuses_downgrades [OF 1 2 3] show ?thesis .
qed

text \<open>
  The downgrade of ca00bb9d1645 leaves 3072 as the default of the quota of a mailbox, which was 102400
  before its upgrade.
\<close>

lemma downgrade_quota_default:
  "map_option co_default (map_of (tb_columns (changed (alter_column ''quota'' None None (Some (Some (Sql ''3072'')))
     mailbox_ca00bb9d1645))) ''quota'') = Some (Some (Sql ''3072''))"
  "map_option co_default (map_of (tb_columns mailbox_359478dc9830) ''quota'') = Some (Some (Literal ''102400''))"
  by code_simp+

end
