(* ===== verification/Restart.thy ===== *)
theory Restart
  imports Domain Dockerapi
begin

text \<open>
  How the managers and the service in front of Docker work together: a request of \<open>HTTPSession\<close>
  (src/backend/taramail/http.py) answered by an endpoint of src/backend/taramail/dockerapi.py. The service
  runs in a process of its own, whose containers are a state beside that of the managers.
\<close>

text \<open>The route \<open>POST /services/{name}/{action}\<close>; other paths have none.\<close>

definition docker_route ::
  "('s, 'c) docker \<Rightarrow> string \<Rightarrow> string \<Rightarrow> 's \<Rightarrow> (int \<times> json) \<times> 's" where
  "docker_route dk project path s =
     (case split_on (CHR ''/'') path of
        [root, services, name, action] \<Rightarrow>
          if root = [] \<and> services = ''services'' \<and> name \<noteq> [] \<and> action \<noteq> []
          then endpoint_service_action dk project name action s
          else ((404, JObject [(''detail'', JString ''Not Found'')]), s)
      | _ \<Rightarrow> ((404, JObject [(''detail'', JString ''Not Found'')]), s))"

text \<open>\<open>raise_for_status\<close>: a status from 400 on raises.\<close>

definition docker_answer ::
  "('s, 'c) docker \<Rightarrow> string \<Rightarrow> 's \<Rightarrow> string \<Rightarrow> py_exn option" where
  "docker_answer dk project s path =
     (let status = fst (fst (docker_route dk project path s))
      in if status < 400 then None else Some (HTTPError (show_int status)))"

text \<open>The containers after some requests, one after the other.\<close>

definition docker_serves :: "('s, 'c) docker \<Rightarrow> string \<Rightarrow> string list \<Rightarrow> 's \<Rightarrow> 's" where
  "docker_serves dk project paths s = fold (\<lambda>path s. snd (docker_route dk project path s)) paths s"

lemma restart_route:
  "docker_route dk project ''/services/sogo/restart'' s = endpoint_service_action dk project ''sogo'' ''restart'' s"
proof -
  have "split_on (CHR ''/'') ''/services/sogo/restart'' = [[], ''services'', ''sogo'', ''restart'']"
    by code_simp
  then show ?thesis by (simp add: docker_route_def)
qed

lemma restart_run:
  assumes "dk_list dk [(project_label, project), (service_label, ''sogo'')] s = (Inr cs, s)"
    and "\<forall>c \<in> set cs. dk_attribute dk c ''restart'' = Some (Coroutine (\<lambda>s. (Inr (), effect c s)))"
  shows "docker_answer dk project s ''/services/sogo/restart'' =
      (if cs = [] then Some (HTTPError (show_int 404)) else None)"
    and "snd (docker_route dk project ''/services/sogo/restart'' s) = fold effect cs s"
  using service_call_all [OF assms(2), of "''sogo''" s] assms(1)
  by (auto simp: docker_answer_def restart_route endpoint_service_action_def docker_respond_def get_service_def
      docker_error_def bindM_def seqM_def raise_when_def ret_def throw_def)

text \<open>
  C14. \<open>create_domain\<close>, asked to restart SOGo, sends the Docker service one request, and when that is served
  each container of SOGo of the project is restarted once, in order. With such containers the domain is
  committed; when there is none, the answer 404 raises and the database is as it was, but the store, any
  that behaves as hashes, has the mark of the domain.
\<close>
theorem create_domain_restarts_sogo:
  fixes w :: "('k, 'm) world"
  assumes "hash_store ops view good" and "w_db w = clean d" and "good (w_store w)" and "dm_store dm = ops"
    and "dn_dkim_selector c \<noteq> []" and "list_all selector_char (dn_dkim_selector c)"
    and "generate_keypair (dm_rsa dm) (dn_key_size c) = Inr (privkey, pubkey)"
    and "dn_restart_sogo c" and "insert_domain c (clean d) = (Inr m, s)"
    and "dm_docker dm = docker_answer dk project containers"
    and "dk_list dk [(project_label, project), (service_label, ''sogo'')] containers = (Inr cs, containers)"
    and "\<forall>c \<in> set cs. dk_attribute dk c ''restart'' = Some (Coroutine (\<lambda>s. (Inr (), effect c s)))"
  shows "\<exists>w' sent. w_requests w' = w_requests w @ sent \<and> length sent = 1 \<and>
    docker_serves dk project sent containers = fold effect cs containers \<and>
    view (w_store w') ''DOMAIN_MAP'' (dn_domain c) = Some ''1'' \<and>
    (if cs = [] then transaction (create_domain dm c) w = (Inl (HTTPError ''404''), w') \<and> w_db w' = clean d
     else transaction (create_domain dm c) w = (Inr m, w') \<and> t_domain (sql (w_db w')) = t_domain d @ [m])"
proof -
  have 404: "show_int 404 = ''404''" by code_simp
  have answer: "dm_docker dm ''/services/sogo/restart'' = (if cs = [] then Some (HTTPError ''404'') else None)"
    unfolding assms(10) restart_run(1) [OF assms(11,12)] 404 by simp
  obtain w' where w': "view (w_store w') ''DOMAIN_MAP'' (dn_domain c) = Some ''1''"
    "w_requests w' = w_requests w @ [''/services/sogo/restart'']"
    "if cs = [] then transaction (create_domain dm c) w = (Inl (HTTPError ''404''), w') \<and> w_db w' = clean d
     else transaction (create_domain dm c) w = (Inr m, w') \<and> t_domain (sql (w_db w')) = t_domain d @ [m]"
    using create_domain_marks_store [OF assms(1-9)] unfolding answer by (auto split: if_splits)
  have "docker_serves dk project [''/services/sogo/restart''] containers = fold effect cs containers"
    by (simp add: docker_serves_def restart_run(2) [OF assms(11,12)])
  with w' show ?thesis
    by (intro exI [of _ w'] exI [of _ "[''/services/sogo/restart'']"] conjI) simp_all
qed

lemma create_domain_restarts_sogo_witness:
  "\<exists>w' m. transaction (create_domain
        (toy_manager\<lparr>dm_docker := docker_answer sample_docker ''taramail'' []\<rparr>) toy_domain_create)
        (toy_world domain_db) = (Inr m, w') \<and>
      t_domain (sql (w_db w')) = t_domain domain_db @ [m] \<and>
      docker_serves sample_docker ''taramail'' (w_requests w') [] = [''a1'', ''a2'']"
proof -
  let ?m = "(new_domain toy_domain_create)\<lparr>do_backupmx := True, do_relay_all_recipients := True\<rparr>"
  let ?cs = "[(''a1'', ''sogo''), (''a2'', ''sogo'')]"
  have "fst (insert_domain toy_domain_create (clean domain_db)) = Inr ?m" by code_simp
  then have 8: "insert_domain toy_domain_create (clean domain_db) =
      (Inr ?m, snd (insert_domain toy_domain_create (clean domain_db)))"
    by (simp add: prod_eq_iff)
  have 5: "list_all selector_char (dn_dkim_selector toy_domain_create)" by code_simp
  have "project_label \<noteq> service_label" by code_simp
  then have 10: "dk_list sample_docker [(project_label, ''taramail''), (service_label, ''sogo'')] [] = (Inr ?cs, [])"
    by (simp add: sample_docker_def sample_containers_def)
  have 11: "\<forall>c \<in> set ?cs. dk_attribute sample_docker c ''restart'' = Some (Coroutine (\<lambda>s. (Inr (), s @ [fst c])))"
    by (simp add: sample_docker_def)
  show ?thesis
    using create_domain_restarts_sogo [OF memory.hash_store_axioms, of "toy_world domain_db" domain_db 0
        "toy_manager\<lparr>dm_docker := docker_answer sample_docker ''taramail'' []\<rparr>" toy_domain_create,
        OF _ _ _ _ 5 _ _ 8 _ 10 11]
    by (auto simp: toy_world_def toy_manager_def toy_rsa_def memory_good_def toy_domain_create_def)
qed

end
