(* ===== verification/Redis.thy ===== *)
theory Redis
  imports Mailbox ForwardingHost Rspamd
begin

text \<open>
  \<open>RedisStore\<close> of src/backend/taramail/store.py, which adds to the client of Redis the translation of
  an error for the wrong type and an expiry of one field. The client is a parameter: what the store relies
  on is the locale \<open>redis_server\<close>, which gives the contract \<open>hash_store\<close> of the managers, and which the
  model of a client and a server at the end keeps.
\<close>

section \<open>The store\<close>

record 's redis_client =
  rc_get :: "string \<Rightarrow> ('s, py_exn, string option) sem"
  rc_set :: "string \<Rightarrow> pyval \<Rightarrow> int option \<Rightarrow> ('s, py_exn, bool) sem"
  rc_delete :: "string list \<Rightarrow> ('s, py_exn, nat) sem"
  rc_hget :: "string \<Rightarrow> string \<Rightarrow> ('s, py_exn, string option) sem"
  rc_hgetall :: "string \<Rightarrow> ('s, py_exn, (string, string) dict) sem"
  rc_hset :: "string \<Rightarrow> string \<Rightarrow> pyval \<Rightarrow> ('s, py_exn, nat) sem"
  rc_hexpire :: "string \<Rightarrow> int \<Rightarrow> string \<Rightarrow> ('s, py_exn, unit) sem"
  rc_hdel :: "string \<Rightarrow> string list \<Rightarrow> ('s, py_exn, nat) sem"
  rc_hkeys :: "string \<Rightarrow> ('s, py_exn, string list) sem"
  rc_flushall :: "('s, py_exn, unit) sem"

definition contains :: "string \<Rightarrow> string \<Rightarrow> bool" where
  "contains p s \<longleftrightarrow> list_ex (\<lambda>i. starts_with p (drop i s)) [0..<Suc (length s)]"

definition wrap_response_error :: "('s, py_exn, 'a) sem \<Rightarrow> ('s, py_exn, 'a) sem" where
  "wrap_response_error func =
     catchM func (\<lambda>e.
       case e of
         ResponseError m \<Rightarrow> if contains ''WRONGTYPE'' m then throw (TypeError m) else throw e
       | _ \<Rightarrow> throw e)"

definition redis_hset ::
  "'s redis_client \<Rightarrow> string \<Rightarrow> string \<Rightarrow> pyval \<Rightarrow> int option \<Rightarrow> ('s, py_exn, nat) sem" where
  "redis_hset client key fld v ttl =
     bindM (wrap_response_error (rc_hset client key fld v)) (\<lambda>n.
       seqM (case ttl of None \<Rightarrow> ret () | Some t \<Rightarrow> wrap_response_error (rc_hexpire client key t fld))
            (ret n))"

text \<open>The other operations are the client's own; \<open>set\<close>, \<open>delete\<close>, \<open>hdel\<close> and \<open>flushall\<close> are not wrapped.\<close>

definition redis_store :: "'s redis_client \<Rightarrow> 's store_ops" where
  "redis_store client =
     \<lparr>s_get = (\<lambda>k. wrap_response_error (rc_get client k)), s_set = rc_set client,
      s_delete = rc_delete client, s_hget = (\<lambda>k f. wrap_response_error (rc_hget client k f)),
      s_hgetall = (\<lambda>k. wrap_response_error (rc_hgetall client k)), s_hset = redis_hset client,
      s_hdel = rc_hdel client, s_hkeys = (\<lambda>k. wrap_response_error (rc_hkeys client k)),
      s_flushall = rc_flushall client\<rparr>"

text \<open>The host, port and password of \<open>from_env\<close>; \<open>None\<close> for a port that is no number.\<close>

definition redis_from_env :: "(string \<Rightarrow> string option) \<Rightarrow> (string \<times> int \<times> string option) option" where
  "redis_from_env env =
     (let network = (case env ''IPV4_NETWORK'' of None \<Rightarrow> ''172.22.1'' | Some n \<Rightarrow> n);
          host = (case env ''REDIS_SLAVEOF_IP'' of
                    None \<Rightarrow> network @ ''.249'' | Some h \<Rightarrow> if h = [] then network @ ''.249'' else h);
          port = (case env ''REDIS_SLAVEOF_PORT'' of None \<Rightarrow> ''6379'' | Some p \<Rightarrow> if p = [] then ''6379'' else p)
      in map_option (\<lambda>n. (host, n, env ''REDIS_PASSWORD'')) (int_of port))"

section \<open>The contract\<close>

text \<open>
  What the client does on hashes: \<open>view\<close> is what the server holds, \<open>good\<close> that no key holds a plain text.
  A value that is a Boolean is refused before anything is sent.
\<close>

locale redis_server =
  fixes client :: "'s redis_client"
    and view :: "'s \<Rightarrow> string \<Rightarrow> string \<Rightarrow> string option"
    and good :: "'s \<Rightarrow> bool"
  assumes server_hget: "good s \<Longrightarrow>
      \<exists>t. rc_hget client k f s = (Inr (view s k f), t) \<and> good t \<and> view t = view s"
    and server_hgetall: "good s \<Longrightarrow>
      \<exists>d t. rc_hgetall client k s = (Inr d, t) \<and> map_of d = view s k \<and> distinct (dict_keys d) \<and>
        good t \<and> view t = view s"
    and server_hset: "good s \<Longrightarrow> storable v \<Longrightarrow>
      \<exists>t. rc_hset client k f v s = (Inr (if view s k f = None then 1 else 0), t) \<and> good t \<and>
        view t = hput (view s) k f (py_str v)"
    and server_hset_bool: "\<exists>m. rc_hset client k f (PBool b) s = (Inl (DataError m), s)"
    and server_hdel: "good s \<Longrightarrow> fs \<noteq> [] \<Longrightarrow>
      \<exists>t. rc_hdel client k fs s = (Inr (card (set fs \<inter> dom (view s k))), t) \<and> good t \<and>
        view t = hrem (view s) k fs"
    and server_delete: "good s \<Longrightarrow> ks \<noteq> [] \<Longrightarrow>
      \<exists>n t. rc_delete client ks s = (Inr n, t) \<and> good t \<and>
        view t = (\<lambda>k. if k \<in> set ks then Map.empty else view s k)"

lemma wrap_returns: "m s = (Inr a, t) \<Longrightarrow> wrap_response_error m s = (Inr a, t)"
  by (simp add: wrap_response_error_def catchM_def)

lemma wrap_other: "m s = (Inl (DataError e), t) \<Longrightarrow> wrap_response_error m s = (Inl (DataError e), t)"
  by (simp add: wrap_response_error_def catchM_def throw_def)

lemma wrap_wrong_type:
  "m s = (Inl (ResponseError e), t) \<Longrightarrow> contains ''WRONGTYPE'' e \<Longrightarrow>
     wrap_response_error m s = (Inl (TypeError e), t)"
  by (simp add: wrap_response_error_def catchM_def throw_def)

sublocale redis_server \<subseteq> store: hash_store "redis_store client" view good
proof (unfold_locales, goal_cases)
  case (1 s k f)
  then show ?case using server_hget [of s k f] by (auto simp: redis_store_def dest: wrap_returns)
next
  case (2 s k f)
  then show ?case using server_hget [of s k f] by (auto simp: redis_store_def dest: wrap_returns)
next
  case (3 s k f)
  then show ?case using server_hget [of s k f] by (auto simp: redis_store_def dest: wrap_returns)
next
  case (4 s k)
  then show ?case using server_hgetall [of s k] by (fastforce simp: redis_store_def dest: wrap_returns)
next
  case (5 s k)
  then show ?case using server_hgetall [of s k] by (auto simp: redis_store_def dest: wrap_returns)
next
  case (6 s k)
  then show ?case using server_hgetall [of s k] by (auto simp: redis_store_def dest: wrap_returns)
next
  case (7 s v k f)
  then show ?case using server_hset [of s v k f]
    by (auto simp: redis_store_def redis_hset_def bindM_def seqM_def ret_def dest: wrap_returns)
next
  case (8 s v k f)
  then show ?case using server_hset [of s v k f]
    by (auto simp: redis_store_def redis_hset_def bindM_def seqM_def ret_def hput_def dest: wrap_returns)
next
  case (9 s v k f)
  then show ?case using server_hset [of s v k f]
    by (auto simp: redis_store_def redis_hset_def bindM_def seqM_def ret_def dest: wrap_returns)
next
  case (10 s fs k)
  then show ?case using server_hdel [of s fs k] by (auto simp: redis_store_def)
next
  case (11 s fs k)
  then show ?case using server_hdel [of s fs k] by (auto simp: redis_store_def hrem_def)
next
  case (12 s fs k)
  then show ?case using server_hdel [of s fs k] by (auto simp: redis_store_def)
qed (use server_delete in \<open>fastforce simp: redis_store_def\<close>)+

text \<open>
  An update of the password policy with one of the Boolean settings raises, after the length was stored:
  the fields are written one by one.
\<close>

context redis_server
begin

lemma set_policy_bool_refused:
  "\<exists>m. set_policy_field (redis_store client) (f, Some (PBool b)) s = (Inl (DataError m), s)"
proof -
  obtain m where "rc_hset client ''PASSWORD_POLICY'' f (PBool b) s = (Inl (DataError m), s)"
    using server_hset_bool by blast
  from wrap_other [of "rc_hset client ''PASSWORD_POLICY'' f (PBool b)", OF this] show ?thesis
    by (simp add: set_policy_field_def redis_store_def redis_hset_def bindM_def)
qed

lemma set_policy_bools_refused:
  assumes "\<exists>b. Some (PBool b) \<in> snd ` set fvs" and "list_all (\<lambda>(f, v). v = None \<or> (\<exists>b. v = Some (PBool b))) fvs"
  shows "\<exists>m. forM fvs (set_policy_field (redis_store client)) s = (Inl (DataError m), s)"
  using assms
proof (induction fvs)
  case (Cons fv fvs)
  obtain f v where fv: "fv = (f, v)" by (cases fv)
  show ?case
  proof (cases v)
    case None
    with Cons fv show ?thesis by (auto simp: set_policy_field_def seqM_def bindM_def ret_def)
  next
    case (Some x)
    with Cons.prems(2) fv obtain b where "x = PBool b" by auto
    with set_policy_bool_refused [of f b s] show ?thesis
      by (auto simp: fv Some seqM_def bindM_def)
  qed
qed simp

lemma update_policy_bool_refused:
  assumes "good s"
    and "Some b \<in> set [pu_chars u, pu_special_chars u, pu_numbers u, pu_lowerupper u]"
  shows "\<exists>m t. update_policy (redis_store client) co dflt u s = (Inl (DataError m), t) \<and> good t \<and>
    view t = (case pu_length u of None \<Rightarrow> view s
              | Some n \<Rightarrow> hput (view s) ''PASSWORD_POLICY'' ''length'' (show_int n))"
proof -
  let ?rest = "tl (update_fields u)"
  have fields: "update_fields u = (''length'', map_option PInt (pu_length u)) # ?rest"
    by (simp add: update_fields_def)
  from assms(2) have "pu_chars u = Some b \<or> pu_special_chars u = Some b \<or> pu_numbers u = Some b \<or>
      pu_lowerupper u = Some b" by auto
  then have "\<exists>b. Some (PBool b) \<in> snd ` set ?rest" by (auto simp: update_fields_def)
  moreover have "list_all (\<lambda>(f, v). v = None \<or> (\<exists>b. v = Some (PBool b))) ?rest"
    by (cases "pu_chars u"; cases "pu_special_chars u"; cases "pu_numbers u"; cases "pu_lowerupper u")
      (simp_all add: update_fields_def)
  ultimately have refused: "\<exists>m. forM ?rest (set_policy_field (redis_store client)) t = (Inl (DataError m), t)" for t
    by (rule set_policy_bools_refused)
  have run: "update_policy (redis_store client) co dflt u s =
      seqM (seqM (set_policy_field (redis_store client) (''length'', map_option PInt (pu_length u)))
        (forM ?rest (set_policy_field (redis_store client)))) (get_policy (redis_store client) co dflt) s"
    by (subst update_policy_def, subst fields) simp
  show ?thesis
  proof (cases "pu_length u")
    case None
    with refused [of s] assms(1) show ?thesis
      unfolding run by (auto simp: set_policy_field_def seqM_def bindM_def ret_def)
  next
    case (Some n)
    obtain k t where t: "s_hset (redis_store client) ''PASSWORD_POLICY'' ''length'' (PInt n) None s = (Inr k, t)"
      "good t" "view t = hput (view s) ''PASSWORD_POLICY'' ''length'' (show_int n)"
      using store.hset_int_run [OF assms(1)] by blast
    with refused [of t] Some show ?thesis
      unfolding run by (auto simp: set_policy_field_def seqM_def bindM_def ret_def)
  qed
qed

end

section \<open>A client and its server\<close>

text \<open>
  A key holds a text or a hash; a text and a field of a hash may expire. A hash without live fields is gone.
\<close>

datatype redis_value = RString string "int option" | RHash "(string, string \<times> int option) dict"

type_synonym redis_state = "(string, redis_value) dict"

definition alive :: "int \<Rightarrow> int option \<Rightarrow> bool" where
  "alive now expires = (case expires of None \<Rightarrow> True | Some t \<Rightarrow> now < t)"

definition live_value :: "int \<Rightarrow> redis_value \<Rightarrow> redis_value option" where
  "live_value now v =
     (case v of
        RString x e \<Rightarrow> if alive now e then Some (RString x e) else None
      | RHash d \<Rightarrow> (let l = filter (\<lambda>(f, x, e). alive now e) d in if l = [] then None else Some (RHash l)))"

definition redis_lookup :: "int \<Rightarrow> redis_state \<Rightarrow> string \<Rightarrow> redis_value option" where
  "redis_lookup now s k = (case map_of s k of None \<Rightarrow> None | Some v \<Rightarrow> live_value now v)"

definition wrong_type :: string where
  "wrong_type = ''WRONGTYPE Operation against a key holding the wrong kind of value''"

definition redis_fields ::
  "int \<Rightarrow> string \<Rightarrow> (redis_state, py_exn, (string, string \<times> int option) dict) sem" where
  "redis_fields now k s =
     (case redis_lookup now s k of
        None \<Rightarrow> (Inr [], s)
      | Some v \<Rightarrow>
          (case v of RHash d \<Rightarrow> (Inr d, s) | RString _ _ \<Rightarrow> (Inl (ResponseError wrong_type), s)))"

fun redis_encode :: "pyval \<Rightarrow> string option" where
  "redis_encode (PBool b) = None"
| "redis_encode v = Some (py_str v)"

definition redis_client_ops :: "int \<Rightarrow> redis_state redis_client" where
  "redis_client_ops now =
     \<lparr>rc_get = (\<lambda>k s.
        case redis_lookup now s k of
          None \<Rightarrow> (Inr None, s)
        | Some v \<Rightarrow> (case v of RString x _ \<Rightarrow> (Inr (Some x), s) | RHash _ \<Rightarrow> (Inl (ResponseError wrong_type), s))),
      rc_set = (\<lambda>k v ex s.
        case redis_encode v of
          None \<Rightarrow> (Inl (DataError ''Invalid input of type: bool''), s)
        | Some x \<Rightarrow>
            (case ex of
               None \<Rightarrow> (Inr True, dict_set k (RString x None) s)
             | Some t \<Rightarrow>
                 if t \<le> 0 then (Inl (ResponseError ''invalid expire time''), s)
                 else (Inr True, dict_set k (RString x (Some (now + t))) s))),
      rc_delete = (\<lambda>ks s.
        if ks = [] then (Inl (ResponseError ''wrong number of arguments''), s)
        else (Inr (length (filter (\<lambda>k. redis_lookup now s k \<noteq> None) (dedup ks))), fold dict_del ks s)),
      rc_hget = (\<lambda>k f. bindM (redis_fields now k) (\<lambda>d. ret (map_option fst (map_of d f)))),
      rc_hgetall = (\<lambda>k. bindM (redis_fields now k) (\<lambda>d. ret (map (\<lambda>(f, x, e). (f, x)) d))),
      rc_hset = (\<lambda>k f v.
        case redis_encode v of
          None \<Rightarrow> throw (DataError ''Invalid input of type: bool'')
        | Some x \<Rightarrow>
            bindM (redis_fields now k) (\<lambda>d s.
              (Inr (if map_of d f = None then 1 else 0), dict_set k (RHash (dict_set f (x, None) d)) s))),
      rc_hexpire = (\<lambda>k t f.
        if t < 0 then throw (ResponseError ''invalid expire time'')
        else bindM (redis_fields now k) (\<lambda>d s.
          case map_of d f of
            None \<Rightarrow> (Inr (), s)
          | Some (x, _) \<Rightarrow> (Inr (), dict_set k (RHash (dict_set f (x, Some (now + t)) d)) s))),
      rc_hdel = (\<lambda>k fs.
        if fs = [] then throw (ResponseError ''wrong number of arguments'')
        else bindM (redis_fields now k) (\<lambda>d s.
          case del_fields fs d of (n, e) \<Rightarrow> (Inr n, if n = 0 then s else dict_set k (RHash e) s))),
      rc_hkeys = (\<lambda>k. bindM (redis_fields now k) (\<lambda>d. ret (dict_keys d))),
      rc_flushall = (\<lambda>s. (Inr (), []))\<rparr>"

text \<open>The live fields of a key, and that every key holds a hash.\<close>

definition redis_view :: "int \<Rightarrow> redis_state \<Rightarrow> string \<Rightarrow> string \<Rightarrow> string option" where
  "redis_view now s k f =
     (case redis_lookup now s k of
        Some (RHash d) \<Rightarrow> map_option fst (map_of d f) | _ \<Rightarrow> None)"

definition redis_good :: "int \<Rightarrow> redis_state \<Rightarrow> bool" where
  "redis_good now s \<longleftrightarrow>
     list_all (\<lambda>(k, v). case v of RString _ e \<Rightarrow> \<not> alive now e | RHash d \<Rightarrow> distinct (dict_keys d)) s"

section \<open>The model keeps the contract\<close>

definition all_live :: "int \<Rightarrow> (string, string \<times> int option) dict \<Rightarrow> bool" where
  "all_live now d \<longleftrightarrow> list_all (\<lambda>(f, x, e). alive now e) d"

lemma live_hash: "all_live now d \<Longrightarrow> live_value now (RHash d) = (if d = [] then None else Some (RHash d))"
  by (simp add: live_value_def all_live_def list_all_iff filter_id_conv split_beta Let_def)

lemma redis_lookup_set [simp]:
  "redis_lookup now (dict_set k v s) k' = (if k' = k then live_value now v else redis_lookup now s k')"
  by (simp add: redis_lookup_def)

lemma redis_view_set:
  assumes "all_live now d"
  shows "redis_view now (dict_set k (RHash d) s) = (redis_view now s)(k := \<lambda>f. map_option fst (map_of d f))"
  using live_hash [OF assms] by (auto simp: redis_view_def fun_eq_iff)

lemma redis_good_set:
  assumes "redis_good now s" and "distinct (dict_keys d)"
  shows "redis_good now (dict_set k (RHash d) s)"
  using assms set_dict_set [of k "RHash d" s] by (fastforce simp: redis_good_def list_all_iff)

text \<open>In a good state every key has fields, live ones and each once.\<close>

lemma redis_fields_run:
  assumes "redis_good now s"
  shows "\<exists>d. redis_fields now k s = (Inr d, s) \<and> distinct (dict_keys d) \<and> all_live now d \<and>
    redis_view now s k = (\<lambda>f. map_option fst (map_of d f))"
proof (cases "redis_lookup now s k")
  case None
  then show ?thesis
    by (intro exI [of _ "[]"]) (simp add: redis_fields_def all_live_def redis_view_def dict_keys_def fun_eq_iff)
next
  case (Some v)
  then obtain w where w: "map_of s k = Some w" "live_value now w = Some v"
    by (auto simp: redis_lookup_def split: option.splits)
  from map_of_SomeD [OF w(1)] assms
  have good: "case w of RString _ e \<Rightarrow> \<not> alive now e | RHash d \<Rightarrow> distinct (dict_keys d)"
    by (auto simp: redis_good_def list_all_iff)
  with w(2) obtain d where d: "w = RHash d" "distinct (dict_keys d)"
    by (cases w) (auto simp: live_value_def split: if_splits)
  let ?l = "filter (\<lambda>(f, x, e). alive now e) d"
  have v: "v = RHash ?l" using w(2) d(1) by (simp add: live_value_def Let_def split: if_splits)
  have "distinct (dict_keys ?l)" using d(2) by (simp add: dict_keys_def distinct_map_filter)
  moreover have "all_live now ?l" by (auto simp: all_live_def list_all_iff)
  ultimately show ?thesis
    using Some by (intro exI [of _ ?l]) (simp add: redis_fields_def redis_view_def v fun_eq_iff)
qed

lemma redis_hset_server:
  assumes "redis_good now s" and "storable v"
  shows "\<exists>t. rc_hset (redis_client_ops now) k f v s = (Inr (if redis_view now s k f = None then 1 else 0), t) \<and>
    redis_good now t \<and> redis_view now t = hput (redis_view now s) k f (py_str v)"
proof -
  obtain d where d: "redis_fields now k s = (Inr d, s)" "distinct (dict_keys d)" "all_live now d"
    "redis_view now s k = (\<lambda>f. map_option fst (map_of d f))"
    using redis_fields_run [OF assms(1)] by blast
  let ?d = "dict_set f (py_str v, None) d"
  have "all_live now ?d"
    using d(3) set_dict_set [of f "(py_str v, None)" d] by (fastforce simp: all_live_def list_all_iff alive_def)
  moreover have "redis_encode v = Some (py_str v)" using assms(2) by (cases v) simp_all
  ultimately show ?thesis
    using d(2) by (auto simp: redis_client_ops_def bindM_def d(1,4) redis_view_set redis_good_set [OF assms(1)]
        distinct_dict_set hput_def fun_eq_iff)
qed

lemma redis_hdel_server:
  assumes "redis_good now s" and "fs \<noteq> []"
  shows "\<exists>t. rc_hdel (redis_client_ops now) k fs s = (Inr (card (set fs \<inter> dom (redis_view now s k))), t) \<and>
    redis_good now t \<and> redis_view now t = hrem (redis_view now s) k fs"
proof -
  obtain d where d: "redis_fields now k s = (Inr d, s)" "distinct (dict_keys d)" "all_live now d"
    "redis_view now s k = (\<lambda>f. map_option fst (map_of d f))"
    using redis_fields_run [OF assms(1)] by blast
  let ?n = "fst (del_fields fs d)" and ?e = "snd (del_fields fs d)"
  have n: "?n = card (set fs \<inter> dom (map_of d))" and e: "map_of ?e = map_of d |` (- set fs)"
    "distinct (dict_keys ?e)"
    using del_fields_run [of fs d] d(2) by auto
  have live: "all_live now ?e"
    using d(3) set_del_fields [of fs d] by (fastforce simp: all_live_def list_all_iff)
  have dom: "dom (redis_view now s k) = dom (map_of d)" by (auto simp: d(4))
  have run: "rc_hdel (redis_client_ops now) k fs s =
      (Inr ?n, if ?n = 0 then s else dict_set k (RHash ?e) s)"
    using assms(2) by (simp add: redis_client_ops_def bindM_def d(1) split_beta)
  have none: "redis_view now s = hrem (redis_view now s) k fs" if "?n = 0"
    using that n dom by (fastforce simp: fun_eq_iff domIff)
  have some: "redis_view now (dict_set k (RHash ?e) s) = hrem (redis_view now s) k fs"
    by (auto simp: redis_view_set [OF live] e(1) d(4) fun_eq_iff restrict_map_def)
  show ?thesis
    using run n dom none some assms(1) redis_good_set [OF assms(1) e(2)] by simp
qed

lemma fold_dict_del: "map_of (fold dict_del ks s) = map_of s |` (- set ks)" "set (fold dict_del ks s) \<subseteq> set s"
proof -
  show "map_of (fold dict_del ks s) = map_of s |` (- set ks)"
    by (induction ks arbitrary: s) (auto simp: fun_eq_iff restrict_map_def)
  have "set (dict_del k d) \<subseteq> set d" for k and d :: "('a, 'b) dict" by (auto simp: dict_del_def)
  then show "set (fold dict_del ks s) \<subseteq> set s"
    by (induction ks arbitrary: s) (simp, fastforce)
qed

lemma redis_delete_server:
  assumes "redis_good now s" and "ks \<noteq> []"
  shows "\<exists>n t. rc_delete (redis_client_ops now) ks s = (Inr n, t) \<and> redis_good now t \<and>
    redis_view now t = (\<lambda>k. if k \<in> set ks then Map.empty else redis_view now s k)"
  using assms fold_dict_del [of ks s]
  by (auto simp: redis_client_ops_def redis_view_def redis_lookup_def fun_eq_iff redis_good_def list_all_iff)

interpretation redis: redis_server "redis_client_ops now" "redis_view now" "redis_good now" for now
proof
  fix s k f
  assume good: "redis_good now s"
  obtain d where d: "redis_fields now k s = (Inr d, s)" "distinct (dict_keys d)" "all_live now d"
    "redis_view now s k = (\<lambda>f. map_option fst (map_of d f))"
    using redis_fields_run [OF good] by blast
  then show "\<exists>t. rc_hget (redis_client_ops now) k f s = (Inr (redis_view now s k f), t) \<and> redis_good now t \<and>
      redis_view now t = redis_view now s"
    using good by (simp add: redis_client_ops_def bindM_def ret_def)
  have "map_of (map (\<lambda>(f, x, e). (f, x)) d) = redis_view now s k"
    unfolding d(4) by (induction d) auto
  moreover have "dict_keys (map (\<lambda>(f, x, e). (f, x)) d) = dict_keys d"
    by (auto simp: dict_keys_def)
  ultimately show "\<exists>d t. rc_hgetall (redis_client_ops now) k s = (Inr d, t) \<and> map_of d = redis_view now s k \<and>
      distinct (dict_keys d) \<and> redis_good now t \<and> redis_view now t = redis_view now s"
    using good d(1,2) by (simp add: redis_client_ops_def bindM_def ret_def)
next
  show "\<exists>m. rc_hset (redis_client_ops now) k f (PBool b) s = (Inl (DataError m), s)" for k f b s
    by (simp add: redis_client_ops_def throw_def)
qed (use redis_hset_server redis_hdel_server redis_delete_server in blast)+

section \<open>What the store does\<close>

text \<open>The store keeps the contract under which every manager is proved.\<close>

lemma redis_store_contract:
  "hash_store (redis_store (redis_client_ops now)) (redis_view now) (redis_good now)"
  by (rule redis.store.hash_store_axioms)

text \<open>
  On a key that holds a text every operation on hashes raises, but \<open>hdel\<close> with the error of the
  client, while \<open>MemoryStore\<close> raises \<open>TypeError\<close>.
\<close>

lemma redis_wrong_type:
  assumes "redis_lookup now s k = Some (RString x e)"
  shows "s_hget (redis_store (redis_client_ops now)) k f s = (Inl (TypeError wrong_type), s)"
    and "s_hgetall (redis_store (redis_client_ops now)) k s = (Inl (TypeError wrong_type), s)"
    and "s_hset (redis_store (redis_client_ops now)) k f (PStr v) ttl s = (Inl (TypeError wrong_type), s)"
    and "s_hdel (redis_store (redis_client_ops now)) k [f] s = (Inl (ResponseError wrong_type), s)"
proof -
  have "contains ''WRONGTYPE'' wrong_type" by code_simp
  with assms show "s_hget (redis_store (redis_client_ops now)) k f s = (Inl (TypeError wrong_type), s)"
    "s_hgetall (redis_store (redis_client_ops now)) k s = (Inl (TypeError wrong_type), s)"
    "s_hset (redis_store (redis_client_ops now)) k f (PStr v) ttl s = (Inl (TypeError wrong_type), s)"
    "s_hdel (redis_store (redis_client_ops now)) k [f] s = (Inl (ResponseError wrong_type), s)"
    by (simp_all add: redis_store_def redis_client_ops_def redis_hset_def redis_fields_def wrap_response_error_def
        catchM_def bindM_def throw_def)
qed

text \<open>
  With Redis as the store, which the service uses, an update of the password policy that sets one of the
  Boolean fields always raises: the client refuses the Boolean that \<open>update_policy\<close> passes on. A
  length given with it has been stored by then, and nothing else.
\<close>
theorem redis_refuses_policy_flags:
  assumes "redis_good now s"
    and "Some b \<in> set [pu_chars u, pu_special_chars u, pu_numbers u, pu_lowerupper u]"
  shows "\<exists>m t. update_policy (redis_store (redis_client_ops now)) co dflt u s = (Inl (DataError m), t) \<and>
    redis_view now t = (case pu_length u of None \<Rightarrow> redis_view now s
      | Some n \<Rightarrow> hput (redis_view now s) ''PASSWORD_POLICY'' ''length'' (show_int n))"
  using redis.update_policy_bool_refused [OF assms, of co dflt] by blast

lemma redis_refuses_policy_flags_witness:
  "\<exists>m t. update_policy (redis_store (redis_client_ops 0)) python_coercions default_policy
      \<lparr>pu_length = Some 12, pu_chars = None, pu_special_chars = Some False, pu_numbers = None,
       pu_lowerupper = None\<rparr> [] = (Inl (DataError m), t) \<and>
    redis_view 0 t ''PASSWORD_POLICY'' ''length'' = Some (show_int 12)"
proof -
  have "redis_good 0 []" by (simp add: redis_good_def)
  from redis_refuses_policy_flags [OF this, of False "\<lparr>pu_length = Some 12, pu_chars = None,
      pu_special_chars = Some False, pu_numbers = None, pu_lowerupper = None\<rparr>" python_coercions default_policy]
  show ?thesis by auto
qed

end
