(* ===== verification/Production.thy ===== *)
theory Production
  imports Api Redis Memcached
begin

text \<open>
  The managers as the service makes them: src/backend/taramail/deps.py takes \<open>RedisStore\<close> as the store,
  and the constructors of src/backend/taramail/api.py pass it on with the defaults of the managers. What is
  not in the repository is the record \<open>externals\<close>.
\<close>

record externals =
  ex_rsa :: rsa_api
  ex_docker :: "string \<Rightarrow> py_exn option"
  ex_bare_column :: "int list \<Rightarrow> int"
  ex_coercions :: coercions
  ex_bcrypt :: bcrypt_api
  ex_salt :: string
  ex_dialect :: string

definition get_store :: "'k redis_client \<Rightarrow> 'k store_ops" where
  "get_store client = redis_store client"

text \<open>What the service uses of \<open>MemcachedStore\<close> is \<open>flushall\<close>; the other operations are of no consequence.\<close>

definition get_memcached :: "'m memcached_client \<Rightarrow> 'm store_ops \<Rightarrow> 'm store_ops" where
  "get_memcached client others = others\<lparr>s_flushall := memcached_flushall client\<rparr>"

definition get_domain_manager :: "externals \<Rightarrow> 'k store_ops \<Rightarrow> 'k domain_manager" where
  "get_domain_manager ex store =
     \<lparr>dm_store = store, dm_rsa = ex_rsa ex, dm_docker = ex_docker ex, dm_bare_column = ex_bare_column ex\<rparr>"

definition get_sogo :: "externals \<Rightarrow> 'm store_ops \<Rightarrow> 'm sogo" where
  "get_sogo ex memcached =
     \<lparr>so_dialect = ex_dialect ex,
      so_default_password = ''{SSHA256}A123A123A321A321A321B321B321B123B123B321B432F123E321123123321321'',
      so_memcached = memcached\<rparr>"

definition get_mailbox_manager ::
  "externals \<Rightarrow> 'k store_ops \<Rightarrow> 'm sogo \<Rightarrow> ('k, 'm) mailbox_manager" where
  "get_mailbox_manager ex store sogo =
     \<lparr>mm_store = store, mm_coercions = ex_coercions ex, mm_default_policy = default_policy,
      mm_bcrypt = ex_bcrypt ex, mm_salt = ex_salt ex, mm_sogo = sogo\<rparr>"

definition get_auth_manager :: "externals \<Rightarrow> auth_backend list" where
  "get_auth_manager ex = [mailbox_authenticate (ex_bcrypt ex)]"

text \<open>The endpoint of the password policy, as it is served.\<close>

definition serve_put_password_policy ::
  "externals \<Rightarrow> 'k redis_client \<Rightarrow> policy_update \<Rightarrow> ('k, 'm) world \<Rightarrow>
     password_policy reply \<times> ('k, 'm) world" where
  "serve_put_password_policy ex client update =
     respond (put_password_policy (get_store client) (ex_coercions ex) default_policy update)"

section \<open>What is served\<close>

text \<open>
  C17. With any client and server of Redis that keep the contract, a request that sets a flag of the
  password policy is answered with 500: \<open>update_policy\<close> passes the Boolean on to Redis, whose client
  refuses it. The database is as it was, a length in the same request has been stored, and nothing else.
\<close>
theorem policy_flags_not_served:
  fixes w :: "('k, 'm) world"
  assumes "redis_server client view good" and "good (w_store w)"
    and "Some b \<in> set [pu_chars u, pu_special_chars u, pu_numbers u, pu_lowerupper u]"
  shows "\<exists>w'. serve_put_password_policy ex client u w =
      (Failed 500 ''Unhandled exception'' [], w') \<and> w_db w' = w_db w \<and>
    view (w_store w') = (case pu_length u of None \<Rightarrow> view (w_store w)
      | Some n \<Rightarrow> hput (view (w_store w)) ''PASSWORD_POLICY'' ''length'' (show_int n))"
proof -
  obtain m t where t: "update_policy (redis_store client) (ex_coercions ex) default_policy u
      (w_store w) = (Inl (DataError m), t)"
    "view t = (case pu_length u of None \<Rightarrow> view (w_store w)
      | Some n \<Rightarrow> hput (view (w_store w)) ''PASSWORD_POLICY'' ''length'' (show_int n))"
    using redis_server.update_policy_bool_refused [OF assms(1), OF assms(2,3), of "ex_coercions ex"
        default_policy] by blast
  then show ?thesis
    by (simp add: serve_put_password_policy_def respond_def put_password_policy_def get_store_def on_store_run)
qed

definition sample_externals :: externals where
  "sample_externals =
     \<lparr>ex_rsa = dm_rsa toy_manager, ex_docker = (\<lambda>_. None), ex_bare_column = hd,
      ex_coercions = python_coercions, ex_bcrypt = toy_bcrypt, ex_salt = [], ex_dialect = ''mysql''\<rparr>"

lemma policy_flags_not_served_witness:
  "\<exists>w'. serve_put_password_policy sample_externals (redis_client_ops 0)
      \<lparr>pu_length = Some 12, pu_chars = None, pu_special_chars = Some False, pu_numbers = None,
       pu_lowerupper = None\<rparr> \<lparr>w_db = clean empty_db, w_store = [], w_memcached = (), w_requests = []\<rparr> =
      (Failed 500 ''Unhandled exception'' [], w') \<and>
    redis_view 0 (w_store w') ''PASSWORD_POLICY'' ''length'' = Some (show_int 12)"
proof -
  have "redis_good 0 (w_store \<lparr>w_db = clean empty_db, w_store = [], w_memcached = (), w_requests = []\<rparr>)"
    by (simp add: redis_good_def)
  from policy_flags_not_served [OF redis.redis_server_axioms, OF this, of False "\<lparr>pu_length = Some 12, pu_chars = None,
      pu_special_chars = Some False, pu_numbers = None, pu_lowerupper = None\<rparr>" sample_externals]
  show ?thesis by auto
qed

text \<open>
  The contract of the store holds in production, so what is proved of a manager against it does: a
  key of a domain that was created is read back by the endpoint of its details.
\<close>

lemma dkim_key_served:
  assumes "redis_good now (w_store w)"
    and "generate_keypair (ex_rsa ex) (dc_key_size create) = Inr (private, public)"
    and "\<not> truthy (redis_view now (w_store w) ''DKIM_PUB_KEYS'' (dc_domain create))"
  shows "\<exists>w'. post_dkim (get_store (redis_client_ops now)) (ex_rsa ex) create w =
      (details_of (ex_rsa ex) (put_key (redis_view now (w_store w)) (dc_domain create)
         (concat (butlast (tl (splitlines public)))) (dc_selector create) private) (dc_domain create) False, w') \<and>
    w_db w' = w_db w"
proof -
  obtain t where t: "create_key (redis_store (redis_client_ops now)) (ex_rsa ex) create (w_store w) =
      (Inr (concat (butlast (tl (splitlines public)))), t)" "redis_good now t"
    "redis_view now t = put_key (redis_view now (w_store w)) (dc_domain create)
       (concat (butlast (tl (splitlines public)))) (dc_selector create) private"
    using redis.store.create_key_run [OF assms] by blast
  from redis.store.get_key_details_run [OF t(2), of "ex_rsa ex" "dc_domain create" False] t
  show ?thesis
    by (auto simp: post_dkim_def get_store_def seqM_def bindM_def on_store_run)
qed

end
