(* ===== verification/Db.thy ===== *)
theory Db
  imports Exceptions
begin

text \<open>
  src/backend/taramail/db.py apart from the sessions, which are in Models: the URL of the database from the
  environment and \<open>REPLACE INTO\<close> as a deletion and an insertion; and, of models.py, the default of a time
  that SQLite is given. A row is a dict from columns to values.
\<close>

section \<open>The URL\<close>

record db_url =
  ur_drivername :: string
  ur_username :: "string option"
  ur_password :: "string option"
  ur_host :: "string option"
  ur_port :: "string option"
  ur_database :: "string option"

definition get_db_url :: "(string \<Rightarrow> string option) \<Rightarrow> db_url" where
  "get_db_url env =
     \<lparr>ur_drivername = (case env ''DBDRIVER'' of None \<Rightarrow> ''sqlite'' | Some d \<Rightarrow> d),
      ur_username = env ''DBUSER'', ur_password = env ''DBPASS'', ur_host = env ''DBHOST'',
      ur_port = env ''DBPORT'', ur_database = env ''DBNAME''\<rparr>"

section \<open>Replacing a row\<close>

text \<open>
  \<open>pk\<close> are the columns of the primary key; \<open>put\<close> stands for the statement on the rows that are left, which
  may raise.
\<close>

type_synonym 'v row = "(string, 'v) dict"

definition row_matches :: "(string \<times> 'v) list \<Rightarrow> 'v row \<Rightarrow> bool" where
  "row_matches pk_values r \<longleftrightarrow> list_all (\<lambda>(c, v). map_of r c = Some v) pk_values"

definition db_replace_into ::
  "('v row \<Rightarrow> ('v row list, py_exn, unit) sem) \<Rightarrow> string list \<Rightarrow> 'v row \<Rightarrow> ('v row list, py_exn, unit) sem" where
  "db_replace_into put pk values =
     bindM (mapM (\<lambda>c. case map_of values c of None \<Rightarrow> throw (KeyError c) | Some v \<Rightarrow> ret (c, v)) pk)
       (\<lambda>pk_values.
     seqM (modify (filter (\<lambda>r. \<not> row_matches pk_values r))) (put values))"

lemma pk_values_run:
  "set pk \<subseteq> fst ` set values \<Longrightarrow>
   mapM (\<lambda>c. case map_of values c of None \<Rightarrow> throw (KeyError c) | Some v \<Rightarrow> ret (c, v)) pk s =
     (Inr (map (\<lambda>c. (c, the (map_of values c))) pk), s)"
proof (induction pk)
  case (Cons c pk)
  then obtain v where "map_of values c = Some v" by (metis insert_subset list.simps(15) map_of_eq_None_iff not_None_eq)
  with Cons show ?case by (simp add: bindM_def ret_def)
qed (simp add: ret_def)

text \<open>
  Afterwards the row is the only one with its key and the rows with other keys are the same, however
  often it is replaced.
\<close>

lemma db_replace_into_run:
  assumes "set pk \<subseteq> fst ` set values" and "\<And>rows. put values rows = (Inr (), rows @ [values])"
  shows "\<exists>rows'. db_replace_into put pk values rows = (Inr (), rows') \<and>
    filter (\<lambda>r. \<forall>c \<in> set pk. map_of r c = map_of values c) rows' = [values] \<and>
    filter (\<lambda>r. \<not> (\<forall>c \<in> set pk. map_of r c = map_of values c)) rows' =
      filter (\<lambda>r. \<not> (\<forall>c \<in> set pk. map_of r c = map_of values c)) rows"
proof -
  let ?pk = "map (\<lambda>c. (c, the (map_of values c))) pk"
  have some: "map_of values c \<noteq> None" if "c \<in> set pk" for c
    using assms(1) that by (auto simp: map_of_eq_None_iff)
  then have matches: "row_matches ?pk r \<longleftrightarrow> (\<forall>c \<in> set pk. map_of r c = map_of values c)" for r
    by (fastforce simp: row_matches_def list_all_iff)
  show ?thesis
    by (auto simp: db_replace_into_def bindM_def seqM_def modify_def pk_values_run [OF assms(1)] matches assms(2)
        filter_empty_conv)
qed

text \<open>A column of the key without a value raises before anything is deleted.\<close>

lemma db_replace_into_missing:
  assumes "c \<in> set pk" and "map_of values c = None"
  shows "\<exists>k. db_replace_into put pk values rows = (Inl (KeyError k), rows)"
proof -
  have "\<exists>k. mapM (\<lambda>c. case map_of values c of None \<Rightarrow> throw (KeyError c) | Some v \<Rightarrow> ret (c, v)) pk rows =
      (Inl (KeyError k), rows)"
    using assms(1)
  proof (induction pk)
    case (Cons d pk)
    show ?case
    proof (cases "map_of values d")
      case (Some v)
      with Cons assms(2) have "c \<in> set pk" by auto
      with Cons.IH Some show ?thesis by (auto simp: bindM_def ret_def)
    qed (simp add: bindM_def throw_def)
  qed simp
  then show ?thesis by (auto simp: db_replace_into_def bindM_def)
qed

section \<open>Times in SQLite\<close>

text \<open>\<open>re.sub(" ON UPDATE .*", "", text)\<close> on a text of one line.\<close>

fun sqlite_datetime :: "string \<Rightarrow> string" where
  "sqlite_datetime [] = []"
| "sqlite_datetime (c # s) =
     (if starts_with '' ON UPDATE '' (c # s) then [] else c # sqlite_datetime s)"

lemma sqlite_datetime_default:
  "sqlite_datetime ''CURRENT_TIMESTAMP ON UPDATE CURRENT_TIMESTAMP'' = ''CURRENT_TIMESTAMP''"
  by code_simp

end
