(* ===== verification/NetfilterMain.thy ===== *)
theory NetfilterMain
  imports NetfilterService
begin

text \<open>
  The program of src/backend/taramail/netfilter.py from \<open>_main\<close> to its exit code: the settings of the
  environment, the start, the rounds of the tasks until the stop event is set, and the end. The locale
  \<open>nft_frame\<close> says what every command of the packet filter leaves alone, whether it succeeds or not; over it
  the program is confined to the chains it may change.
\<close>

section \<open>The program\<close>

type_synonym environ = "string \<Rightarrow> string option"

definition getenv :: "environ \<Rightarrow> string \<Rightarrow> string \<Rightarrow> string" where
  "getenv env key fallback = (case env key of None \<Rightarrow> fallback | Some v \<Rightarrow> v)"

text \<open>
  The address of a source NAT: none without the variable, or when its address is of the other version;
  a value that is no address raises.
\<close>

definition snat_target :: "environ \<Rightarrow> string \<Rightarrow> (ip_address \<Rightarrow> bool) \<Rightarrow> py_exn + string option" where
  "snat_target env key version =
     (let snat_ip = getenv env key [] in
      if snat_ip = [] then Inr None
      else case ip_address_of snat_ip of
          None \<Rightarrow> Inl (ValueError (snat_ip @ '' does not appear to be an IPv4 or IPv6 address''))
        | Some snat_ipo \<Rightarrow> Inr (if version snat_ipo then Some snat_ip else None))"

fun is_ipv4 :: "ip_address \<Rightarrow> bool" where
  "is_ipv4 (IPv4Address _) = True"
| "is_ipv4 (IPv6Address _ _) = False"

definition service_config_from_env ::
  "environ \<Rightarrow> ('s, 'n) netfilter \<Rightarrow> py_exn + ('s, 'n) service_config" where
  "service_config_from_env env nf =
     (case snat_target env ''SNAT_TO_SOURCE'' is_ipv4 of
        Inl e \<Rightarrow> Inl e
      | Inr snat4_ip \<Rightarrow>
          (case snat_target env ''SNAT6_TO_SOURCE'' (\<lambda>a. \<not> is_ipv4 a) of
             Inl e \<Rightarrow> Inl e
           | Inr snat6_ip \<Rightarrow> Inr
               \<lparr>sc_netfilter = nf,
                sc_snat4 = map_option (\<lambda>t. (t, getenv env ''IPV4_NETWORK'' ''172.22.1'' @ ''.0/24'')) snat4_ip,
                sc_snat6 = map_option (\<lambda>t. (t, getenv env ''IPV6_NETWORK'' ''fd4d:6169:6c63:6f77::/64''))
                  snat6_ip\<rparr>))"

text \<open>The events until the stop event is set, each with its time; the later ones find no task.\<close>

fun run_events ::
  "('s, 'n) service_config \<Rightarrow> (int \<times> event) list \<Rightarrow> ('s, 'n) service \<Rightarrow> ('s, 'n) service" where
  "run_events cfg [] s = s"
| "run_events cfg ((now, e) # es) s = (if sv_stop s then s else run_events cfg es (handle cfg now e s))"

text \<open>The exit code, or \<open>None\<close> while the program still waits for the stop event.\<close>

definition serve_until_stop ::
  "('s, 'n) service_config \<Rightarrow> (int \<times> event) list \<Rightarrow> (('s, 'n) f2b, py_exn, int option) sem" where
  "serve_until_stop cfg events f =
     (let s = run_events cfg events (service_start f) in
      if sv_stop s
      then (case before_exit cfg s of
              (Inl e, f') \<Rightarrow> (Inl e, f')
            | (Inr _, f') \<Rightarrow> (Inr (Some (sv_exit_code s)), f'))
      else (Inr None, sv_f2b s))"

definition netfilter_main ::
  "'s store_ops \<Rightarrow> 'n nft_api \<Rightarrow> dns_api \<Rightarrow> environ \<Rightarrow> (int \<times> event) list \<Rightarrow>
     (('s, 'n) f2b, py_exn, int option) sem" where
  "netfilter_main store api resolve env events =
     bindM (on_kernel (netfilter_from_env store api resolve env)) (\<lambda>nf.
     seqM (start_netfilter nf)
     (case service_config_from_env env nf of
        Inl e \<Rightarrow> throw e
      | Inr cfg \<Rightarrow> serve_until_stop cfg events))"

definition f2b_init :: "'s \<Rightarrow> 'n \<Rightarrow> ('s, 'n) f2b" where
  "f2b_init s n = \<lparr>fb_store = s, fb_kernel = n, fb_bans = [], fb_blacklist = [], fb_whitelist = []\<rparr>"

lemma run_events_stopped: "sv_stop s \<Longrightarrow> run_events cfg es s = s"
  by (cases es) auto

lemma run_events_reachable: "service_reachable cfg s (run_events cfg es s)"
proof -
  have "service_reachable cfg s t \<Longrightarrow> service_reachable cfg s (run_events cfg es t)" for t
  proof (induction es arbitrary: t)
    case (Cons e es)
    then show ?case
      by (cases e) (auto intro: service_reachable.step service_step.event)
  qed simp
  then show ?thesis by (blast intro: service_reachable.start)
qed

lemma run_task_keeps:
  assumes "preserves I m" and "I (sv_f2b s)"
  shows "I (sv_f2b (run_task t m s))"
proof -
  have same: "sv_f2b (task_failed t e s) = sv_f2b s" for e and s :: "('a, 'b) service"
    by (induction t e s rule: task_failed.induct) (simp_all add: stop_service_def)
  show ?thesis
    using preserves_run [OF assms] assms(2) by (auto simp: run_task_def same split: prod.split sum.split)
qed

section \<open>Programs confined to some chains\<close>

type_synonym chain_key = "string \<times> string \<times> string"

named_theorems confined_intros \<open>programs that leave the chains outside a set alone\<close>

definition confined ::
  "('w \<Rightarrow> chain_key \<Rightarrow> 'c) \<Rightarrow> chain_key set \<Rightarrow> ('w, 'e, 'a) sem \<Rightarrow> bool" where
  "confined chain keys m \<longleftrightarrow> (\<forall>key x. key \<notin> keys \<longrightarrow> preserves (\<lambda>w. chain w key = x) m)"

lemma confined_iff:
  "confined chain keys m \<longleftrightarrow> (\<forall>w key. key \<notin> keys \<longrightarrow> chain (snd (m w)) key = chain w key)"
  unfolding confined_def preserves_def by blast

lemma confined_run: "confined chain keys m \<Longrightarrow> key \<notin> keys \<Longrightarrow> chain (snd (m w)) key = chain w key"
  unfolding confined_iff by blast

lemma confinedD: "confined chain keys m \<Longrightarrow> m w = (r, w') \<Longrightarrow> key \<notin> keys \<Longrightarrow> chain w' key = chain w key"
  using confined_run [of chain keys m key w] by simp

lemma confined_simple [confined_intros]:
  "confined chain keys (ret a)" "confined chain keys (throw e)" "confined chain keys (gets f)"
  "confined chain keys (raise_when c e)" "confined chain keys (Pair (Inr a))" "confined chain keys (Pair (Inl e))"
  by (simp_all add: confined_def preserves_basic)

lemma confined_modify: "(\<And>w key. chain (f w) key = chain w key) \<Longrightarrow> confined chain keys (modify f)"
  by (simp add: confined_def preserves_modify)

lemma confined_composed [confined_intros]:
  "confined chain keys m \<Longrightarrow> (\<And>a. confined chain keys (f a)) \<Longrightarrow> confined chain keys (bindM m f)"
  "confined chain keys m \<Longrightarrow> confined chain keys n \<Longrightarrow> confined chain keys (seqM m n)"
  "confined chain keys m'' \<Longrightarrow> (\<And>e. confined chain keys (h e)) \<Longrightarrow> confined chain keys (catchM m'' h)"
  "(c \<Longrightarrow> confined chain keys m') \<Longrightarrow> confined chain keys (whenM c m')"
  "(c \<Longrightarrow> confined chain keys p) \<Longrightarrow> (\<not> c \<Longrightarrow> confined chain keys q) \<Longrightarrow> confined chain keys (if c then p else q)"
  by (auto simp: confined_def intro!: preserves_intros)

lemma confined_loops [confined_intros]:
  "(\<And>x. confined chain keys (f x)) \<Longrightarrow> confined chain keys (forM xs f)"
  "(\<And>x. confined chain keys (g x)) \<Longrightarrow> confined chain keys (mapM g xs)"
  by (auto simp: confined_def intro!: preserves_intros)

lemma confined_run_unit [confined_intros]: "confined chain keys m \<Longrightarrow> confined chain keys (run_unit m)"
  by (auto simp: run_unit_def intro!: confined_intros)

lemma confined_network [confined_intros]: "confined chain keys (network s strict)"
  by (auto simp: network_def intro!: confined_intros split: option.split)

lemma confined_objects [confined_intros]: "confined chain keys (objects output)"
  by (auto simp: objects_def intro!: confined_intros split: option.split)

lemma confined_parts [confined_intros]:
  "confined chain keys (expr_at r i)" "confined chain keys (match_right x)"
  "confined chain keys (prefix_text right)" "confined chain keys (snat_addr x)"
  "confined chain keys (right_text right)"
  by (auto simp: expr_at_def match_right_def prefix_text_def snat_addr_def right_text_def
      intro!: confined_intros split: nft_expr.split nft_right.split)

lemma confined_bans_network [confined_intros]: "confined chain keys (bans_network nt ipaddr r)"
  unfolding bans_network_def
  by (auto intro!: confined_intros split: nft_expr.split nft_left.split)

lemma confined_snat_rule_nets [confined_intros]: "confined chain keys (snat_rule_nets r)"
  unfolding snat_rule_nets_def by (intro confined_intros)

text \<open>A program of the packet filter inside the service, and one of the store.\<close>

definition through :: "('n \<Rightarrow> chain_key \<Rightarrow> 'c) \<Rightarrow> ('s, 'n) f2b \<Rightarrow> chain_key \<Rightarrow> 'c" where
  "through chain w = chain (fb_kernel w)"

lemma confined_on_kernel [confined_intros]:
  "confined chain keys m \<Longrightarrow> confined (through chain) keys (on_kernel m)"
  by (auto simp: confined_iff through_def on_kernel_run)

lemma confined_on_hashes [confined_intros]: "confined (through chain) keys (on_hashes m)"
  by (auto simp: confined_iff through_def on_hashes_run)

lemma confined_set_ban [confined_intros]: "confined (through chain) keys (set_ban net b)"
  by (simp add: confined_iff through_def)

lemma confined_get_ip [confined_intros]: "confined chain keys (get_ip s)"
  by (auto simp: get_ip_def intro!: confined_intros split: option.split)

lemma confined_whitelisted [confined_intros]: "confined chain keys (whitelisted wl net)"
  by (induction wl) (auto intro!: confined_intros)

section \<open>The chains of the service\<close>

fun cmd_target :: "nft_cmd \<Rightarrow> chain_key option" where
  "cmd_target (AddChain f t c) = Some (f, t, c)"
| "cmd_target (FlushChain f t c) = Some (f, t, c)"
| "cmd_target (InsertRule f t c _ _) = Some (f, t, c)"
| "cmd_target (DeleteChain f t c _) = Some (f, t, c)"
| "cmd_target (DeleteRule f t c _) = Some (f, t, c)"
| "cmd_target _ = None"

definition own_chain :: "nft_tables \<Rightarrow> chain_key" where
  "own_chain nt = (nt_family nt, ''filter'', nt_name nt)"

definition nat_chain :: "nft_tables \<Rightarrow> chain_key" where
  "nat_chain nt = (nt_family nt, ''nat'', base_chain nt ''nat'' ''postrouting'')"

definition hook_chains :: "nft_tables \<Rightarrow> chain_key set" where
  "hook_chains nt = (\<lambda>h. (nt_family nt, ''filter'', base_chain nt ''filter'' h)) ` {''input'', ''forward''}"

text \<open>What the rounds may change, and what the start and the end may change besides.\<close>

definition rounds_chains :: "('s, 'n) service_config \<Rightarrow> chain_key set" where
  "rounds_chains cfg =
     {own_chain (nf_ipv4_tables (sc_netfilter cfg)), own_chain (nf_ipv6_tables (sc_netfilter cfg))} \<union>
     (if sc_snat4 cfg = None then {} else {nat_chain (nf_ipv4_tables (sc_netfilter cfg))}) \<union>
     (if sc_snat6 cfg = None then {} else {nat_chain (nf_ipv6_tables (sc_netfilter cfg))})"

definition setup_chains :: "('s, 'n) netfilter \<Rightarrow> chain_key set" where
  "setup_chains nf =
     {own_chain (nf_ipv4_tables nf), own_chain (nf_ipv6_tables nf)} \<union>
     hook_chains (nf_ipv4_tables nf) \<union> hook_chains (nf_ipv6_tables nf)"

text \<open>The program uses this packet filter, and may change the chains of the service.\<close>

definition covers :: "'n nft_api \<Rightarrow> chain_key set \<Rightarrow> ('s, 'n) netfilter \<Rightarrow> bool" where
  "covers api keys nf \<longleftrightarrow> nf_api nf = api \<and>
     own_chain (nf_ipv4_tables nf) \<in> keys \<and> own_chain (nf_ipv6_tables nf) \<in> keys"

lemma covers_api: "covers api keys nf \<Longrightarrow> nf_api nf = api"
  by (simp add: covers_def)

lemma covers_tables_of: "covers api keys nf \<Longrightarrow> own_chain (tables_of nf net) \<in> keys"
  by (cases net) (auto simp: covers_def)

locale nft_frame =
  fixes api :: "'n nft_api"
    and chain :: "'n \<Rightarrow> chain_key \<Rightarrow> 'c"
  assumes frame: "cmd_target cmd \<noteq> Some key \<Longrightarrow> chain (snd (api cmd n)) key = chain n key"
begin

lemma run_cmd_confined:
  assumes "\<And>key. cmd_target cmd = Some key \<Longrightarrow> key \<in> keys"
  shows "confined chain keys (run_cmd api cmd)"
  unfolding confined_iff
proof (intro allI impI)
  fix n key
  assume "key \<notin> keys"
  with assms have "cmd_target cmd \<noteq> Some key" by blast
  from frame [OF this, of n] show "chain (snd (run_cmd api cmd n)) key = chain n key"
    by (cases "api cmd n") (auto simp: run_cmd_def)
qed

lemma lists_confined [confined_intros]:
  "confined chain keys (list_chain api nt t c)" "confined chain keys (list_chains api nt)"
  "confined chain keys (list_table api nt t)"
  by (auto simp: list_chain_def list_chains_def list_table_def intro!: confined_intros run_cmd_confined)

lemma changes_confined [confined_intros]:
  assumes "(nt_family nt, t, c) \<in> keys"
  shows "confined chain keys (add_chain api nt t c)" "confined chain keys (flush_chain api nt t c)"
    "confined chain keys (insert_rule api nt t c expr comment)" "confined chain keys (delete_chain api nt t c h)"
    "confined chain keys (delete_rule api nt t c h)"
  using assms
  by (auto simp: add_chain_def flush_chain_def insert_rule_def delete_chain_def delete_rule_def
      intro!: run_cmd_confined)

lemma handles_confined [confined_intros]:
  "confined chain keys (get_chain_handle api nt t c)" "confined chain keys (get_rule_handles api nt t c comment)"
  by (auto simp: get_chain_handle_def get_rule_handles_def intro!: confined_intros)

lemma ban_rules_confined [confined_intros]:
  assumes "own_chain nt \<in> keys"
  shows "confined chain keys (ban_rule api nt ipaddr)" "confined chain keys (unban_rule api nt ipaddr)"
proof -
  show "confined chain keys (ban_rule api nt ipaddr)"
    using assms by (auto simp: ban_rule_def own_chain_def intro!: confined_intros)
  have "confined chain keys (unban_first api nt ipaddr rs)" for rs
    using assms by (induction rs) (auto simp: own_chain_def intro!: confined_intros)
  then show "confined chain keys (unban_rule api nt ipaddr)"
    by (auto simp: unban_rule_def intro!: confined_intros)
qed

lemma check_chain_order_confined [confined_intros]: "confined chain keys (check_chain_order api nt)"
  by (auto simp: check_chain_order_def check_def Let_def intro!: confined_intros)

lemma snat_confined [confined_intros]:
  assumes "nat_chain nt \<in> keys"
  shows "confined chain keys (snat api nt target source)"
  using assms unfolding snat_def nat_chain_def Let_def
  by (auto intro!: confined_intros split: option.split prod.split)

lemma delete_rules_confined [confined_intros]:
  "(nt_family nt, t, c) \<in> keys \<Longrightarrow> confined chain keys (delete_rules api nt t c hs)"
  by (auto simp: delete_rules_def intro!: confined_intros)

lemma clear_tables_confined [confined_intros]:
  assumes "own_chain nt \<in> keys" and "hook_chains nt \<subseteq> keys"
  shows "confined chain keys (clear_tables api nt)"
proof -
  have "confined chain keys (clear_base api nt (base_chain nt ''filter'' ''input''))"
    "confined chain keys (clear_base api nt (base_chain nt ''filter'' ''forward''))"
    using assms(2) by (auto simp: clear_base_def hook_chains_def intro!: confined_intros)
  then show ?thesis
    using assms(1) by (auto simp: clear_tables_def Let_def own_chain_def intro!: confined_intros)
qed

lemma insert_mail_chains_confined [confined_intros]:
  assumes "own_chain nt \<in> keys" and "hook_chains nt \<subseteq> keys"
  shows "confined chain keys (insert_mail_chains api nt)"
  using assms
  by (auto simp: insert_mail_chains_def insert_mail_rule_def Let_def own_chain_def hook_chains_def
      intro!: confined_intros)

lemma create_isolation_rule_confined [confined_intros]:
  "own_chain nt \<in> keys \<Longrightarrow> confined chain keys (create_isolation_rule api nt interface dports)"
  by (auto simp: create_isolation_rule_def own_chain_def intro!: confined_intros)

text \<open>The operations of \<open>Netfilter\<close>.\<close>

lemma ban_network_confined [confined_intros]:
  assumes "covers api keys nf"
  shows "confined (through chain) keys (ban_network nf now net)"
  unfolding ban_network_def Let_def covers_api [OF assms]
  using covers_tables_of [OF assms] by (auto intro!: confined_intros)

lemma ban_address_confined [confined_intros]:
  assumes "covers api keys nf"
  shows "confined (through chain) keys (ban_address nf now addr)"
  using assms unfolding ban_address_def
  by (auto intro!: confined_intros split: option.split)

lemma unban_confined [confined_intros]:
  assumes "covers api keys nf"
  shows "confined (through chain) keys (unban nf net)"
  unfolding unban_def covers_api [OF assms]
  using covers_tables_of [OF assms] by (auto intro!: confined_intros split: option.split)

lemma perm_ban_confined [confined_intros]:
  assumes "covers api keys nf"
  shows "confined (through chain) keys (perm_ban nf now net unbanning)"
  unfolding perm_ban_def covers_api [OF assms]
  using covers_tables_of [OF assms] by (auto intro!: confined_intros split: prod.split)

lemma rounds_confined [confined_intros]:
  assumes "covers api keys nf"
  shows "confined (through chain) keys (chain_order nf)" "confined (through chain) keys (autopurge nf now)"
    "confined (through chain) keys (update_blacklist nf now)" "confined (through chain) keys (update_whitelist nf)"
proof -
  note api = covers_api [OF assms]
  show "confined (through chain) keys (chain_order nf)"
    by (auto simp: chain_order_def api intro!: confined_intros)
  have "confined (through chain) keys (purge_ban nf now net)" for net
    using assms by (auto simp: purge_ban_def intro!: confined_intros split: option.split)
  then show "confined (through chain) keys (autopurge nf now)"
    using assms by (auto simp: autopurge_def intro!: confined_intros)
  show "confined (through chain) keys (update_blacklist nf now)"
    using assms unfolding update_blacklist_def Let_def
    by (auto simp: through_def intro!: confined_intros confined_modify)
  show "confined (through chain) keys (update_whitelist nf)"
    unfolding update_whitelist_def Let_def
    by (auto simp: through_def intro!: confined_intros confined_modify)
qed

lemma handle_message_confined [confined_intros]:
  assumes "covers api keys nf"
  shows "confined (through chain) keys (handle_message nf now message)"
proof -
  have "confined (through chain) keys (handle_rules nf now message rules)" for rules
    using assms by (induction rules) (auto intro!: confined_intros split: option.split)
  then show ?thesis by (auto simp: handle_message_def intro!: confined_intros)
qed

lemma task_round_confined:
  assumes "nf_api (sc_netfilter cfg) = api" and "rounds_chains cfg \<subseteq> keys"
  shows "confined (through chain) keys (task_round cfg now t)"
proof -
  have c: "covers api keys (sc_netfilter cfg)" using assms by (auto simp: covers_def rounds_chains_def)
  have "confined (through chain) keys
      (snat_round (sc_netfilter cfg) (nf_ipv4_tables (sc_netfilter cfg)) (sc_snat4 cfg))"
    "confined (through chain) keys
      (snat_round (sc_netfilter cfg) (nf_ipv6_tables (sc_netfilter cfg)) (sc_snat6 cfg))"
    unfolding snat_round_def assms(1)
    using assms(2) by (auto simp: rounds_chains_def intro!: confined_intros split: option.split)
  with c show ?thesis by (cases t) (auto intro!: confined_intros)
qed

lemma run_task_confined:
  assumes "confined (through chain) keys m" and "key \<notin> keys"
  shows "through chain (sv_f2b (run_task t m s)) key = through chain (sv_f2b s) key"
  using assms run_task_keeps [where I = "\<lambda>w. through chain w key = through chain (sv_f2b s) key"]
  unfolding confined_def by blast

lemma handle_confined:
  assumes "nf_api (sc_netfilter cfg) = api" and "rounds_chains cfg \<subseteq> keys" and "key \<notin> keys"
  shows "through chain (sv_f2b (handle cfg now e s)) key = through chain (sv_f2b s) key"
proof -
  have "covers api keys (sc_netfilter cfg)" using assms(1,2) by (auto simp: covers_def rounds_chains_def)
  then show ?thesis
    using assms(3) task_round_confined [OF assms(1,2)]
    by (cases e) (auto intro!: run_task_confined confined_intros simp: handle_sigterm_def)
qed

lemma run_events_confined:
  assumes "nf_api (sc_netfilter cfg) = api" and "rounds_chains cfg \<subseteq> keys" and "key \<notin> keys"
  shows "through chain (sv_f2b (run_events cfg es s)) key = through chain (sv_f2b s) key"
  using handle_confined [OF assms]
  by (induction cfg es s rule: run_events.induct) (auto simp: assms)

lemma clear_confined [confined_intros]:
  assumes "covers api keys nf" and "setup_chains nf \<subseteq> keys"
  shows "confined (through chain) keys (clear nf)"
proof -
  note api = covers_api [OF assms(1)]
  show ?thesis
    using assms unfolding clear_def api setup_chains_def by (auto intro!: confined_intros)
qed

lemma start_netfilter_confined:
  assumes "covers api keys nf" and "setup_chains nf \<subseteq> keys"
  shows "confined (through chain) keys (start_netfilter nf)"
proof -
  note api = covers_api [OF assms(1)]
  show ?thesis
    using assms(2) unfolding start_netfilter_def api setup_chains_def
    by (intro confined_composed(2) clear_confined [OF assms]) (auto intro!: confined_intros)
qed

end

text \<open>
  C7. Between its start and its exit, whatever messages, rounds and signals the service gets, in any order,
  and whether its commands succeed or not, it changes no chain of the packet filter but its own two and,
  where a source NAT is configured, the chain of that NAT.
\<close>
theorem service_changes_own_chains:
  assumes "nft_frame (nf_api (sc_netfilter cfg)) chain" and "service_reachable cfg s t"
    and "key \<notin> rounds_chains cfg"
  shows "chain (fb_kernel (sv_f2b t)) key = chain (fb_kernel (sv_f2b s)) key"
  using assms(2)
proof (induction rule: service_reachable.induct)
  case start
  then show ?case by simp
next
  case (step t u)
  from nft_frame.handle_confined [OF assms(1) refl subset_refl assms(3)]
  have "through chain (sv_f2b u) key = through chain (sv_f2b t) key"
    using step.hyps(2) by (elim service_stepE) simp
  then show ?case by (simp add: through_def step.IH)
qed

section \<open>Both families\<close>

text \<open>
  The rules of the service in its own chain: they jump nowhere, and drop what comes from a network or look at
  an interface first.
\<close>

definition own_rule :: "nft_tables \<Rightarrow> nft_rule \<Rightarrow> bool" where
  "own_rule nt r \<longleftrightarrow> (\<forall>c. \<not> jumps_to c (ru_expr r)) \<and>
     ((\<exists>net. drops nt net r) \<or> (\<exists>op key right rest. ru_expr r = Match op (Meta key) right # rest))"

context nft_kernel
begin

lemma create_isolation_rule_run:
  assumes "good n" and "nt_family nt = family" and "rules n ''filter'' (nt_name nt) = Some (h, [])"
  shows "\<exists>n' r. create_isolation_rule api nt interface dports n = (Inr (), n') \<and> good n' \<and>
    rules n' = set_chain ''filter'' (nt_name nt) (Some (h, [r])) (rules n) \<and> own_rule nt r"
proof -
  let ?expr = "[Match ''!='' (Meta ''iifname'') (Plain interface),
        Match ''=='' (Meta ''oifname'') (Plain interface),
        Match ''=='' (Payload ''tcp'' ''dport'') (PortSet dports), Counter 0 0, DropPacket]"
  have j: "\<not> jumps_to c ?expr" for c by (simp add: jumps_to_def)
  have "list_all (\<lambda>x. \<not> terminal x) (butlast ?expr)" by simp
  with j insert_rule_run [OF assms, of ?expr "Some ''mail isolation''"] obtain n' r where
    n': "insert_rule api nt ''filter'' (nt_name nt) ?expr (Some ''mail isolation'') n = (Inr None, n')" "good n'"
    "rules n' = set_chain ''filter'' (nt_name nt) (Some (h, [r])) (rules n)"
    "list_all2 listed_as ?expr (ru_expr r)"
    by blast
  have "\<forall>c. \<not> jumps_to c (ru_expr r)" using j jumps_to_listed [OF n'(4)] by simp
  moreover have "\<exists>op key right rest. ru_expr r = Match op (Meta key) right # rest"
  proof -
    obtain x rest where "ru_expr r = x # rest" "listed_as (Match ''!='' (Meta ''iifname'') (Plain interface)) x"
      using n'(4) unfolding list_all2_Cons1 by blast
    then show ?thesis by (cases x) auto
  qed
  ultimately have "own_rule nt r" by (simp add: own_rule_def)
  moreover have "create_isolation_rule api nt interface dports n = (Inr (), n')"
    using get_rule_handles_run [OF assms] n'(1)
    by (simp add: create_isolation_rule_def delete_rules_def run_unit_def bindM_def)
  ultimately show ?thesis using n'(2,3) by blast
qed

end

text \<open>What a start and an end of the service make of the rules: its chain and its marked rules are gone.\<close>

definition cleaned :: "nft_tables \<Rightarrow> rules_view \<Rightarrow> rules_view" where
  "cleaned nt v = (\<lambda>t c.
     if t = ''filter'' \<and> c = nt_name nt then None
     else if t = ''filter'' \<and> c \<in> {base_chain nt ''filter'' ''input'', base_chain nt ''filter'' ''forward''}
     then map_option (map_prod id (unmarked nt)) (v t c)
     else v t c)"

text \<open>What is there while it runs: its chain, and its rule first in both base chains.\<close>

definition installed :: "nft_tables \<Rightarrow> rules_view \<Rightarrow> rules_view \<Rightarrow> bool" where
  "installed nt v v' \<longleftrightarrow> cleaned nt v' = cleaned nt v \<and> mail_layout nt v' \<and>
     v' ''filter'' (nt_name nt) \<noteq> None \<and>
     (\<forall>c \<in> {base_chain nt ''filter'' ''input'', base_chain nt ''filter'' ''forward''}.
        \<exists>h r rs. v' ''filter'' c = Some (h, r # rs) \<and> mail_rule nt r)"

definition guarded :: "nft_tables \<Rightarrow> rules_view \<Rightarrow> rules_view \<Rightarrow> bool" where
  "guarded nt v v' \<longleftrightarrow> installed nt v v' \<and>
     (\<exists>h rs. v' ''filter'' (nt_name nt) = Some (h, rs) \<and> list_all (own_rule nt) rs)"

lemma unmarked_unmarked [simp]: "unmarked nt (unmarked nt rs) = unmarked nt rs"
  by (simp add: unmarked_def)

lemma unmarked_mail_rule [simp]: "mail_rule nt r \<Longrightarrow> unmarked nt (r # rs) = unmarked nt rs"
  by (simp add: unmarked_def mail_rule_def)

lemma cleaned_sets:
  assumes "mail_layout nt v"
    and "v ''filter'' (base_chain nt ''filter'' ''input'') = Some (hi, ri)"
    and "v ''filter'' (base_chain nt ''filter'' ''forward'') = Some (hf, rf)"
  shows "set_chain ''filter'' (nt_name nt) None
      (set_chain ''filter'' (base_chain nt ''filter'' ''forward'') (Some (hf, unmarked nt rf))
      (set_chain ''filter'' (base_chain nt ''filter'' ''input'') (Some (hi, unmarked nt ri)) v)) = cleaned nt v"
  using assms(2,3) mail_layout_distinct [OF assms(1)] by (auto simp: cleaned_def fun_eq_iff)

lemma mail_layout_clean: "mail_layout nt v \<Longrightarrow> mail_layout nt (cleaned nt v)"
  using mail_layout_present [of nt v] mail_layout_cleared [of nt v] cleaned_sets [of nt v] by metis

lemma cleaned_idem [simp]: "cleaned nt (cleaned nt v) = cleaned nt v"
  by (auto simp: cleaned_def fun_eq_iff map_option_case split: option.splits)

lemma cleaned_set_own [simp]: "cleaned nt (set_chain ''filter'' (nt_name nt) x v) = cleaned nt v"
  by (simp add: cleaned_def fun_eq_iff)

lemma cleaned_set_base:
  assumes "v ''filter'' c = Some (h, rs)" and "mail_rule nt r"
    and "c = base_chain nt ''filter'' ''input'' \<or> c = base_chain nt ''filter'' ''forward''"
  shows "cleaned nt (set_chain ''filter'' c (Some (h, r # rs)) v) = cleaned nt v"
  using assms by (auto simp: cleaned_def fun_eq_iff)

text \<open>Rules with the comment in the base chains, and rules that jump nowhere, keep the layout.\<close>

lemma mail_layout_set_base:
  assumes "mail_layout nt v" and "v ''filter'' c = Some (h, rs)" and "mail_rule nt r"
    and "c = base_chain nt ''filter'' ''input'' \<or> c = base_chain nt ''filter'' ''forward''"
  shows "mail_layout nt (set_chain ''filter'' c (Some (h, r # rs)) v)"
  using assms unfolding mail_layout_def mail_rule_def Let_def by (auto split: if_splits)

lemma mail_layout_set_own:
  assumes "mail_layout nt v" and "list_all (\<lambda>r. \<forall>c. \<not> jumps_to c (ru_expr r)) rs"
  shows "mail_layout nt (set_chain ''filter'' (nt_name nt) (Some (h, rs)) v)"
  using assms unfolding mail_layout_def Let_def list_all_iff by (auto split: if_splits)

lemma guarded_set_own:
  assumes "installed nt v v'" and "list_all (own_rule nt) rs"
  shows "guarded nt v (set_chain ''filter'' (nt_name nt) (Some (h, rs)) v')"
proof -
  have l: "mail_layout nt v'" using assms(1) by (simp add: installed_def)
  have "list_all (\<lambda>r. \<forall>c. \<not> jumps_to c (ru_expr r)) rs"
    using assms(2) by (auto simp: own_rule_def list_all_iff)
  with assms l mail_layout_set_own [OF l, of rs h] mail_layout_distinct [OF l] show ?thesis
    by (auto simp: guarded_def installed_def)
qed

context nft_kernel
begin

lemma clear_tables_cleans:
  assumes "good n" and "nt_family nt = family" and "mail_layout nt (rules n)"
  shows "\<exists>n'. clear_tables api nt n = (Inr (), n') \<and> good n' \<and> rules n' = cleaned nt (rules n)"
proof -
  obtain hi ri where i: "rules n ''filter'' (base_chain nt ''filter'' ''input'') = Some (hi, ri)"
    using mail_layout_present(1) [OF assms(3)] by (elim exE)
  obtain hf rf where f: "rules n ''filter'' (base_chain nt ''filter'' ''forward'') = Some (hf, rf)"
    using mail_layout_present(2) [OF assms(3)] by (elim exE)
  from clear_run [OF assms i f] show ?thesis unfolding cleaned_sets [OF assms(3) i f] .
qed

lemma insert_mail_chains_installs:
  assumes "good n" and "nt_family nt = family" and "mail_layout nt (rules n)"
    and "cleaned nt (rules n) = rules n"
  shows "\<exists>n' h. insert_mail_chains api nt n = (Inr (), n') \<and> good n' \<and>
    installed nt (rules n) (rules n') \<and> rules n' ''filter'' (nt_name nt) = Some (h, [])"
proof -
  let ?i = "base_chain nt ''filter'' ''input''" and ?f = "base_chain nt ''filter'' ''forward''"
  note ne = mail_layout_distinct [OF assms(3)]
  obtain hi ri where i: "rules n ''filter'' ?i = Some (hi, ri)"
    using mail_layout_present(1) [OF assms(3)] by (elim exE)
  obtain hf rf where f: "rules n ''filter'' ?f = Some (hf, rf)"
    using mail_layout_present(2) [OF assms(3)] by (elim exE)
  have u: "unmarked nt ri = ri" "unmarked nt rf = rf" "rules n ''filter'' (nt_name nt) = None"
    using fun_cong [OF fun_cong [OF assms(4)], of "''filter''" ?i]
      fun_cong [OF fun_cong [OF assms(4)], of "''filter''" ?f]
      fun_cong [OF fun_cong [OF assms(4)], of "''filter''" "nt_name nt"] i f ne
    by (auto simp: cleaned_def)
  obtain n' h q r where n': "insert_mail_chains api nt n = (Inr (), n')" "good n'" "mail_rule nt q" "mail_rule nt r"
    and rn: "rules n' = set_chain ''filter'' ?f (Some (hf, r # rf))
      (set_chain ''filter'' ?i (Some (hi, q # ri))
        (set_chain ''filter'' (nt_name nt) (Some (h, [])) (rules n)))"
    using insert_mail_chains_run [OF assms(1-3) i f u] by blast
  let ?v1 = "set_chain ''filter'' (nt_name nt) (Some (h, [])) (rules n)"
  let ?v2 = "set_chain ''filter'' ?i (Some (hi, q # ri)) ?v1"
  have v: "?v1 ''filter'' ?i = Some (hi, ri)" "?v2 ''filter'' ?f = Some (hf, rf)" using i f ne by simp_all
  have l1: "mail_layout nt ?v1" using mail_layout_set_own [OF assms(3), of "[]"] by simp
  have l2: "mail_layout nt ?v2" by (rule mail_layout_set_base [OF l1 v(1) n'(3) disjI1 [OF refl]])
  have "mail_layout nt (rules n')" unfolding rn by (rule mail_layout_set_base [OF l2 v(2) n'(4) disjI2 [OF refl]])
  moreover have "cleaned nt (rules n') = cleaned nt (rules n)"
  proof -
    have "cleaned nt (rules n') = cleaned nt ?v2"
      unfolding rn by (rule cleaned_set_base, rule v(2), rule n'(4), blast)
    also have "\<dots> = cleaned nt ?v1" by (rule cleaned_set_base, rule v(1), rule n'(3), blast)
    finally show ?thesis by simp
  qed
  moreover have "rules n' ''filter'' ?i = Some (hi, q # ri)" "rules n' ''filter'' ?f = Some (hf, r # rf)"
    "rules n' ''filter'' (nt_name nt) = Some (h, [])" using ne by (simp_all add: rn)
  ultimately show ?thesis using n'(1-4) unfolding installed_def by blast
qed

lemma isolation_guarded:
  assumes "good n" and "nt_family nt = family" and "installed nt v (rules n)"
    and "rules n ''filter'' (nt_name nt) = Some (h, [])"
  shows "\<exists>n'. create_isolation_rule api nt interface dports n = (Inr (), n') \<and> good n' \<and> guarded nt v (rules n')"
proof -
  obtain n' r where n': "create_isolation_rule api nt interface dports n = (Inr (), n')" "good n'"
    "rules n' = set_chain ''filter'' (nt_name nt) (Some (h, [r])) (rules n)" "own_rule nt r"
    using create_isolation_rule_run [OF assms(1,2,4)] by blast
  have "guarded nt v (rules n')" unfolding n'(3)
    by (rule guarded_set_own [OF assms(3)]) (simp add: n'(4))
  with n'(1,2) show ?thesis by blast
qed

lemma installed_order:
  assumes "good n" and "nt_family nt = family" and "installed nt v (rules n)"
  shows "check_chain_order api nt n = (Inr (), n)"
proof -
  from assms(3) obtain hi q ri hf r rf where
    "rules n ''filter'' (base_chain nt ''filter'' ''input'') = Some (hi, q # ri)"
    "rules n ''filter'' (base_chain nt ''filter'' ''forward'') = Some (hf, r # rf)"
    "mail_rule nt q" "mail_rule nt r"
    unfolding installed_def by blast
  then show ?thesis by (rule check_chain_order_run [OF assms(1,2)])
qed

end

lemma installed_cleaned [simp]: "installed nt (cleaned nt v) v' = installed nt v v'"
  by (simp add: installed_def)

lemma guarded_cleaned [simp]: "guarded nt (cleaned nt v) v' = guarded nt v v'"
  by (simp add: guarded_def)

text \<open>One ruleset with the chains of both families, and a program that uses it for both.\<close>

definition all_rules :: "(string \<Rightarrow> 'n \<Rightarrow> rules_view) \<Rightarrow> 'n \<Rightarrow> chain_key \<Rightarrow> (nat \<times> nft_rule list) option" where
  "all_rules rules n = (\<lambda>(f, t, c). rules f n t c)"

definition uses_both :: "'n nft_api \<Rightarrow> ('s, 'n) netfilter \<Rightarrow> bool" where
  "uses_both api nf \<longleftrightarrow> nf_api nf = api \<and> nt_family (nf_ipv4_tables nf) = ''ip'' \<and>
     nt_family (nf_ipv6_tables nf) = ''ip6''"

lemma from_env_uses_both:
  "netfilter_from_env store api resolve env n = (Inr nf, m) \<Longrightarrow>
    uses_both api nf \<and> nf_store nf = store"
  by (auto simp: netfilter_from_env_def Let_def init_chains_def sem_returns uses_both_def)

lemma store_errors_caught: "\<exists>s. catchM
    (seqM (run_unit (on_hashes m)) (run_unit (on_hashes m'))) (\<lambda>_. ret ()) w = (Inr (), w\<lparr>fb_store := s\<rparr>)"
proof -
  obtain r s where "m (fb_store w) = (r, s)" by fastforce
  moreover obtain r' s' where "m' s = (r', s')" by fastforce
  ultimately show ?thesis
    by (cases r; cases r') (auto simp: catchM_def seqM_def bindM_def run_unit_def on_hashes_run)
qed

locale two_families =
  ip: nft_kernel api "''ip''" "rules ''ip''" good + ip6: nft_kernel api "''ip6''" "rules ''ip6''" good +
  nft_frame api "all_rules rules"
  for api :: "'n nft_api" and rules :: "string \<Rightarrow> 'n \<Rightarrow> rules_view" and good :: "'n \<Rightarrow> bool"
begin

lemma other_family:
  assumes "confined (all_rules rules) keys m" and "m n = (r, n')" and "\<And>t c. (f, t, c) \<notin> keys"
  shows "rules f n' = rules f n"
proof (intro ext)
  fix t c
  from confinedD [OF assms(1,2)] assms(3) have "all_rules rules n' (f, t, c) = all_rules rules n (f, t, c)"
    by blast
  then show "rules f n' t c = rules f n t c" by (simp add: all_rules_def)
qed

text \<open>The operations on the tables of one family leave the other alone.\<close>

lemma tables_other_family:
  assumes "nt_family nt = g" and "f \<noteq> g"
  shows "clear_tables api nt n = (r, n') \<Longrightarrow> rules f n' = rules f n"
    and "insert_mail_chains api nt n = (r, n') \<Longrightarrow> rules f n' = rules f n"
    and "create_isolation_rule api nt interface dports n = (r, n') \<Longrightarrow> rules f n' = rules f n"
proof -
  let ?keys = "insert (own_chain nt) (hook_chains nt)"
  have k: "(f, t, c) \<notin> ?keys" for t c using assms by (auto simp: own_chain_def hook_chains_def)
  have c: "own_chain nt \<in> ?keys" "hook_chains nt \<subseteq> ?keys" by blast+
  show "clear_tables api nt n = (r, n') \<Longrightarrow> rules f n' = rules f n"
    by (rule other_family [OF clear_tables_confined [OF c] _ k])
  show "insert_mail_chains api nt n = (r, n') \<Longrightarrow> rules f n' = rules f n"
    by (rule other_family [OF insert_mail_chains_confined [OF c] _ k])
  show "create_isolation_rule api nt interface dports n = (r, n') \<Longrightarrow> rules f n' = rules f n"
    by (rule other_family [OF create_isolation_rule_confined [OF c(1)] _ k])
qed

lemma clear_both:
  assumes "uses_both api nf" and "forM (dict_keys (fb_bans w0)) (unban nf) w0 = (Inr (), w)" and "good (fb_kernel w)"
    and "mail_layout (nf_ipv4_tables nf) (rules ''ip'' (fb_kernel w))"
    and "mail_layout (nf_ipv6_tables nf) (rules ''ip6'' (fb_kernel w))"
  shows "\<exists>w'. clear nf w0 = (Inr (), w') \<and> fb_bans w' = fb_bans w \<and> good (fb_kernel w') \<and>
    rules ''ip'' (fb_kernel w') = cleaned (nf_ipv4_tables nf) (rules ''ip'' (fb_kernel w)) \<and>
    rules ''ip6'' (fb_kernel w') = cleaned (nf_ipv6_tables nf) (rules ''ip6'' (fb_kernel w))"
proof -
  have f: "nf_api nf = api" "nt_family (nf_ipv4_tables nf) = ''ip''" "nt_family (nf_ipv6_tables nf) = ''ip6''"
    using assms(1) by (simp_all add: uses_both_def)
  obtain k where k: "clear_tables api (nf_ipv4_tables nf) (fb_kernel w) = (Inr (), k)" "good k"
    "rules ''ip'' k = cleaned (nf_ipv4_tables nf) (rules ''ip'' (fb_kernel w))"
    using ip.clear_tables_cleans [OF assms(3) f(2) assms(4)] by blast
  have k6: "rules ''ip6'' k = rules ''ip6'' (fb_kernel w)"
    by (rule tables_other_family(1) [OF f(2) _ k(1)]) simp
  obtain l where l: "clear_tables api (nf_ipv6_tables nf) k = (Inr (), l)" "good l"
    "rules ''ip6'' l = cleaned (nf_ipv6_tables nf) (rules ''ip6'' k)"
    using ip6.clear_tables_cleans [OF k(2) f(3)] assms(5) k6 by auto
  have l4: "rules ''ip'' l = rules ''ip'' k" by (rule tables_other_family(1) [OF f(3) _ l(1)]) simp
  obtain s where "catchM (seqM (run_unit (on_hashes (s_delete (nf_store nf) [''F2B_ACTIVE_BANS''])))
      (run_unit (on_hashes (s_delete (nf_store nf) [''F2B_PERM_BANS''])))) (\<lambda>_. ret ()) (w\<lparr>fb_kernel := l\<rparr>) =
      (Inr (), w\<lparr>fb_kernel := l, fb_store := s\<rparr>)"
    using store_errors_caught [of "s_delete (nf_store nf) [''F2B_ACTIVE_BANS'']"
        "s_delete (nf_store nf) [''F2B_PERM_BANS'']" "w\<lparr>fb_kernel := l\<rparr>"] by (elim exE)
  then have "clear nf w0 = (Inr (), w\<lparr>fb_kernel := l, fb_store := s\<rparr>)"
    using k(1) l(1) by (simp add: clear_def assms(2) f(1) seqM_def bindM_def on_kernel_run)
  then show ?thesis using k(3) k6 l(2,3) l4 by simp
qed

lemma start_netfilter_run:
  assumes "uses_both api nf" and "fb_bans w = []" and "good (fb_kernel w)"
    and "mail_layout (nf_ipv4_tables nf) (rules ''ip'' (fb_kernel w))"
    and "mail_layout (nf_ipv6_tables nf) (rules ''ip6'' (fb_kernel w))"
  shows "\<exists>w'. start_netfilter nf w = (Inr (), w') \<and> fb_bans w' = [] \<and> good (fb_kernel w') \<and>
    guarded (nf_ipv4_tables nf) (rules ''ip'' (fb_kernel w)) (rules ''ip'' (fb_kernel w')) \<and>
    guarded (nf_ipv6_tables nf) (rules ''ip6'' (fb_kernel w)) (rules ''ip6'' (fb_kernel w'))"
proof -
  have f: "nf_api nf = api" "nt_family (nf_ipv4_tables nf) = ''ip''" "nt_family (nf_ipv6_tables nf) = ''ip6''"
    using assms(1) by (simp_all add: uses_both_def)
  obtain u where u: "clear nf w = (Inr (), u)" "fb_bans u = []" "good (fb_kernel u)"
    "rules ''ip'' (fb_kernel u) = cleaned (nf_ipv4_tables nf) (rules ''ip'' (fb_kernel w))"
    "rules ''ip6'' (fb_kernel u) = cleaned (nf_ipv6_tables nf) (rules ''ip6'' (fb_kernel w))"
    using clear_both [OF assms(1) _ assms(3-5), of w] assms(2) by (auto simp: dict_keys_def)
  have m4: "mail_layout (nf_ipv4_tables nf) (rules ''ip'' (fb_kernel u))"
    "cleaned (nf_ipv4_tables nf) (rules ''ip'' (fb_kernel u)) = rules ''ip'' (fb_kernel u)"
    by (simp_all add: u(4) mail_layout_clean [OF assms(4)])
  have m6: "mail_layout (nf_ipv6_tables nf) (rules ''ip6'' (fb_kernel u))"
    "cleaned (nf_ipv6_tables nf) (rules ''ip6'' (fb_kernel u)) = rules ''ip6'' (fb_kernel u)"
    by (simp_all add: u(5) mail_layout_clean [OF assms(5)])
  obtain k h where k: "insert_mail_chains api (nf_ipv4_tables nf) (fb_kernel u) = (Inr (), k)" "good k"
    "installed (nf_ipv4_tables nf) (rules ''ip'' (fb_kernel u)) (rules ''ip'' k)"
    "rules ''ip'' k ''filter'' (nt_name (nf_ipv4_tables nf)) = Some (h, [])"
    using ip.insert_mail_chains_installs [OF u(3) f(2) m4] by blast
  have k6: "rules ''ip6'' k = rules ''ip6'' (fb_kernel u)"
    by (rule tables_other_family(2) [OF f(2) _ k(1)]) simp
  obtain l h6 where l: "insert_mail_chains api (nf_ipv6_tables nf) k = (Inr (), l)" "good l"
    "installed (nf_ipv6_tables nf) (rules ''ip6'' k) (rules ''ip6'' l)"
    "rules ''ip6'' l ''filter'' (nt_name (nf_ipv6_tables nf)) = Some (h6, [])"
    using ip6.insert_mail_chains_installs [OF k(2) f(3)] m6 k6 by auto
  then have g6: "guarded (nf_ipv6_tables nf) (rules ''ip6'' k) (rules ''ip6'' l)" by (simp add: guarded_def)
  have l4: "rules ''ip'' l = rules ''ip'' k" by (rule tables_other_family(2) [OF f(3) _ l(1)]) simp
  have i4: "installed (nf_ipv4_tables nf) (rules ''ip'' (fb_kernel u)) (rules ''ip'' l)"
    "rules ''ip'' l ''filter'' (nt_name (nf_ipv4_tables nf)) = Some (h, [])"
    using k(3,4) by (simp_all add: l4)
  obtain n where n: "create_isolation_rule api (nf_ipv4_tables nf) ''br-taramail'' [6379] l = (Inr (), n)" "good n"
    "guarded (nf_ipv4_tables nf) (rules ''ip'' (fb_kernel u)) (rules ''ip'' n)"
    using ip.isolation_guarded [OF l(2) f(2) i4] by blast
  have n6: "rules ''ip6'' n = rules ''ip6'' l" by (rule tables_other_family(3) [OF f(2) _ n(1)]) simp
  have "start_netfilter nf w = (Inr (), u\<lparr>fb_kernel := n\<rparr>)"
    using u(1) k(1) l(1) n(1) by (simp add: start_netfilter_def f(1) seqM_def bindM_def on_kernel_run)
  then show ?thesis using u(2,4,5) n(2,3) g6 k6 n6 by simp
qed

lemma chain_order_run:
  assumes "uses_both api nf" and "good (fb_kernel w)"
    and "installed (nf_ipv4_tables nf) v (rules ''ip'' (fb_kernel w))"
    and "installed (nf_ipv6_tables nf) v6 (rules ''ip6'' (fb_kernel w))"
  shows "chain_order nf w = (Inr (), w)"
  using ip.installed_order [OF assms(2) _ assms(3)] ip6.installed_order [OF assms(2) _ assms(4)] assms(1)
  by (simp add: chain_order_def uses_both_def seqM_def bindM_def on_kernel_run)

end

interpretation ruleset_families: two_families ruleset_cmd ruleset_rules ruleset_good
proof unfold_locales
  fix cmd key n
  assume "cmd_target cmd \<noteq> Some key"
  then show "all_rules ruleset_rules (snd (ruleset_cmd cmd n)) key = all_rules ruleset_rules n key"
    by (cases cmd; cases key)
      (auto simp: all_rules_def ruleset_rules_def no_such_def done_with_def put_chain_def split: option.splits)
qed

section \<open>Example\<close>

lemma service_changes_own_chains_witness:
  "ruleset_rules ''ip'' (fb_kernel (sv_f2b (run_events ban_config
      (replicate 10 (5, Message ''mail UI: Invalid password for jo by 8.8.4.4'')) (service_start ban_start))))
      ''filter'' ''INPUT'' = ruleset_rules ''ip'' kernel_ruleset ''filter'' ''INPUT''"
proof -
  have "nft_frame (nf_api (sc_netfilter ban_config)) (all_rules ruleset_rules)"
    using ruleset_families.nft_frame_axioms by (simp add: ban_config_def ban_tables_def)
  moreover have "(''ip'', ''filter'', ''INPUT'') \<notin> rounds_chains ban_config"
    by (simp add: rounds_chains_def own_chain_def ban_config_def ban_tables_def kernel_tables_def)
  ultimately show ?thesis
    using service_changes_own_chains [OF _ run_events_reachable]
    by (fastforce simp: all_rules_def service_start_def ban_start_def)
qed

end
