(* ===== verification/NetfilterRun.thy ===== *)
theory NetfilterRun
  imports NetfilterMain
begin

text \<open>
  A whole run of the program of src/backend/taramail/netfilter.py, from the start to the exit code: what holds
  of the packet filter, the store and the recorded bans between any two events, and the end after a SIGTERM.
\<close>

section \<open>Rules that can be read back\<close>

lemma bans_network_own:
  assumes "own_rule nt r" and "ip_network_of ipaddr False = Some net"
  shows "\<exists>b. bans_network nt ipaddr r n = (Inr b, n)"
proof -
  consider (drops) banned where "drops nt banned r" | (meta) op key right rest where "ru_expr r = Match op (Meta key) right # rest"
    using assms(1) unfolding own_rule_def by blast
  then show ?thesis
  proof cases
    case drops
    then obtain right rest where r: "ru_expr r = Match ''=='' (Payload (nt_family nt) ''saddr'') right # rest"
      "right_net right = Some banned"
      by (auto simp: drops_def split: list.splits nft_expr.splits)
    then show ?thesis
      by (simp add: bans_network_def expr_at_def network_of_right [OF r(2)] network_ret [OF assms(2)])
  next
    case meta
    then have "bans_network nt ipaddr r n = (Inr False, n)" by (simp add: bans_network_def expr_at_def)
    then show ?thesis ..
  qed
qed

lemma guarded_own_chain:
  assumes "guarded nt v v'"
  obtains h rs where "v' ''filter'' (nt_name nt) = Some (h, rs)" and "list_all (own_rule nt) rs"
    and "installed nt v v'"
  using assms unfolding guarded_def by blast

context nft_kernel
begin

lemma ban_rule_guarded:
  assumes "good n" and "nt_family nt = family" and "guarded nt v (rules n)"
    and "ip_network_of ipaddr False = Some net"
  shows "\<exists>n'. ban_rule api nt ipaddr n = (Inr None, n') \<and> good n' \<and> guarded nt v (rules n')"
proof -
  obtain h rs where c: "rules n ''filter'' (nt_name nt) = Some (h, rs)" "list_all (own_rule nt) rs"
    and i: "installed nt v (rules n)"
    using guarded_own_chain [OF assms(3)] by blast
  have e: "list_all (\<lambda>x. \<not> terminal x) (butlast (ban_expr nt net))" by (simp add: ban_expr_def)
  have j: "\<not> jumps_to target (ban_expr nt net)" for target by (simp add: ban_expr_def jumps_to_def)
  obtain n' r where n': "insert_rule api nt ''filter'' (nt_name nt) (ban_expr nt net) None n = (Inr None, n')"
    "good n'" "rules n' = set_chain ''filter'' (nt_name nt) (Some (h, r # rs)) (rules n)"
    "list_all2 listed_as (ban_expr nt net) (ru_expr r)"
    using insert_rule_run [OF assms(1,2) c(1) e, of None] j by blast
  have "own_rule nt r"
    using drops_banned [OF n'(4) ip_network_prints_back [OF assms(4)]] jumps_to_listed [OF n'(4)] j
    by (auto simp: own_rule_def)
  with c(2) have "guarded nt v (rules n')" unfolding n'(3) by (intro guarded_set_own [OF i]) simp
  moreover have "ban_rule api nt ipaddr n = (Inr None, n')"
    using n'(1) assms(4) by (simp add: ban_rule_def network_def)
  ultimately show ?thesis using n'(2) by blast
qed

lemma unban_first_guarded:
  assumes "good n" and "nt_family nt = family" and "guarded nt v (rules n)"
    and "ip_network_of ipaddr False = Some net"
    and "rules n ''filter'' (nt_name nt) = Some (h, rs)" and "list_all (own_rule nt) rs" and "set qs \<subseteq> set rs"
  shows "\<exists>n'. unban_first api nt ipaddr qs n = (Inr (), n') \<and> good n' \<and> guarded nt v (rules n')"
  using assms(7)
proof (induction qs)
  case Nil
  with assms(1,3) show ?case by simp
next
  case (Cons q qs)
  then have q: "q \<in> set rs" by simp
  have own: "own_rule nt q" using assms(6) q by (simp add: list_all_iff)
  obtain b where b: "bans_network nt ipaddr q n = (Inr b, n)" using bans_network_own [OF own assms(4), of n] by (elim exE)
  show ?case
  proof (cases b)
    case False
    with Cons b show ?thesis by (simp add: bindM_def)
  next
    case True
    obtain n' where n': "delete_rule api nt ''filter'' (nt_name nt) (ru_handle q) n = (Inr None, n')" "good n'"
      "rules n' = set_chain ''filter'' (nt_name nt)
         (Some (h, filter (\<lambda>x. ru_handle x \<noteq> ru_handle q) rs)) (rules n)"
      using delete_rule_run [OF assms(1,2,5) q] by blast
    have i: "installed nt v (rules n)" using assms(3) by (simp add: guarded_def)
    have "guarded nt v (rules n')" unfolding n'(3)
      by (rule guarded_set_own [OF i]) (use assms(6) in \<open>auto simp: list_all_iff\<close>)
    with True b n'(1,2) show ?thesis by (simp add: bindM_def run_unit_def)
  qed
qed

lemma unban_rule_guarded:
  assumes "good n" and "nt_family nt = family" and "guarded nt v (rules n)"
    and "ip_network_of ipaddr False = Some net"
  shows "\<exists>n'. unban_rule api nt ipaddr n = (Inr (), n') \<and> good n' \<and> guarded nt v (rules n')"
proof -
  obtain h rs where c: "rules n ''filter'' (nt_name nt) = Some (h, rs)" "list_all (own_rule nt) rs"
    using guarded_own_chain [OF assms(3)] by blast
  obtain objs where "list_chain api nt ''filter'' (nt_name nt) n = (Inr objs, n)" "rule_objs objs = rs"
    using list_chain_run [OF assms(1,2) c(1)] by blast
  with unban_first_guarded [OF assms c subset_refl] show ?thesis by (simp add: unban_rule_def bindM_def)
qed

end

section \<open>Between two events\<close>

text \<open>
  The rules of both families are guarded, the store keeps its contract, and every recorded ban is the text
  of a network.
\<close>

definition running ::
  "(string \<Rightarrow> 'n \<Rightarrow> rules_view) \<Rightarrow> ('n \<Rightarrow> bool) \<Rightarrow> ('s \<Rightarrow> bool) \<Rightarrow> ('s, 'n) netfilter \<Rightarrow>
     rules_view \<Rightarrow> rules_view \<Rightarrow> ('s, 'n) f2b \<Rightarrow> bool" where
  "running rules good sgood nf v4 v6 w \<longleftrightarrow> good (fb_kernel w) \<and> sgood (fb_store w) \<and>
     guarded (nf_ipv4_tables nf) v4 (rules ''ip'' (fb_kernel w)) \<and>
     guarded (nf_ipv6_tables nf) v6 (rules ''ip6'' (fb_kernel w)) \<and>
     (\<forall>net \<in> dom (map_of (fb_bans w)). \<exists>ip. ip_network_of net True = Some ip \<and> ip_network_of net False = Some ip)"

lemma running_lists [simp]:
  "running rules good sgood nf v4 v6 (w\<lparr>fb_blacklist := b\<rparr>) = running rules good sgood nf v4 v6 w"
  "running rules good sgood nf v4 v6 (w\<lparr>fb_whitelist := b\<rparr>) = running rules good sgood nf v4 v6 w"
  by (simp_all add: running_def)

lemma preserves_network_bind:
  "(\<And>net. ip_network_of s strict = Some net \<Longrightarrow> preserves I (f net)) \<Longrightarrow> preserves I (bindM (network s strict) f)"
  by (cases "ip_network_of s strict") (auto simp: network_def preserves_def)

lemma preserves_parsers [preserves_intros]:
  "preserves I (get_ip s)" "preserves I (whitelisted wl net)"
proof -
  show "preserves I (get_ip s)" by (auto simp: get_ip_def intro!: preserves_intros split: option.split)
  show "preserves I (whitelisted wl net)"
    by (induction wl) (auto intro!: preserves_intros preserves_network_bind)
qed

lemma run_task_clear: "sv_clear_before_exit (run_task t m s) = sv_clear_before_exit s"
proof -
  have "sv_clear_before_exit (task_failed t e s) = sv_clear_before_exit s" for e and s :: "('a, 'b) service"
    by (induction t e s rule: task_failed.induct) (simp_all add: stop_service_def)
  then show ?thesis by (simp add: run_task_def split: prod.split sum.split)
qed

locale netfilter_program =
  two_families api rules good + store: hash_store ops view sgood
  for api :: "'n nft_api" and rules :: "string \<Rightarrow> 'n \<Rightarrow> rules_view" and good :: "'n \<Rightarrow> bool"
    and ops :: "'s store_ops" and view :: "'s \<Rightarrow> string \<Rightarrow> string \<Rightarrow> string option" and sgood :: "'s \<Rightarrow> bool"
begin

lemma ban_other_family:
  assumes "nt_family nt = g" and "f \<noteq> g"
  shows "ban_rule api nt ipaddr n = (r, n') \<Longrightarrow> rules f n' = rules f n"
    and "unban_rule api nt ipaddr n = (r', n') \<Longrightarrow> rules f n' = rules f n"
proof -
  have k: "(f, t, c) \<notin> {own_chain nt}" for t c using assms by (simp add: own_chain_def)
  have c: "own_chain nt \<in> {own_chain nt}" by simp
  show "ban_rule api nt ipaddr n = (r, n') \<Longrightarrow> rules f n' = rules f n"
    by (rule other_family [OF ban_rules_confined(1) [OF c] _ k])
  show "unban_rule api nt ipaddr n = (r', n') \<Longrightarrow> rules f n' = rules f n"
    by (rule other_family [OF ban_rules_confined(2) [OF c] _ k])
qed

lemma ban_both:
  assumes "uses_both api nf" and "good n" and "guarded (nf_ipv4_tables nf) v4 (rules ''ip'' n)"
    and "guarded (nf_ipv6_tables nf) v6 (rules ''ip6'' n)" and "ip_network_of ipaddr False = Some net"
  shows "\<exists>n'. ban_rule api (tables_of nf ip_net) ipaddr n = (Inr None, n') \<and> good n' \<and>
      guarded (nf_ipv4_tables nf) v4 (rules ''ip'' n') \<and> guarded (nf_ipv6_tables nf) v6 (rules ''ip6'' n')"
    and "\<exists>n'. unban_rule api (tables_of nf ip_net) ipaddr n = (Inr (), n') \<and> good n' \<and>
      guarded (nf_ipv4_tables nf) v4 (rules ''ip'' n') \<and> guarded (nf_ipv6_tables nf) v6 (rules ''ip6'' n')"
proof -
  have f: "nt_family (nf_ipv4_tables nf) = ''ip''" "nt_family (nf_ipv6_tables nf) = ''ip6''"
    using assms(1) by (simp_all add: uses_both_def)
  show "\<exists>n'. ban_rule api (tables_of nf ip_net) ipaddr n = (Inr None, n') \<and> good n' \<and>
      guarded (nf_ipv4_tables nf) v4 (rules ''ip'' n') \<and> guarded (nf_ipv6_tables nf) v6 (rules ''ip6'' n')"
    using ip.ban_rule_guarded [OF assms(2) f(1) assms(3,5)] ip6.ban_rule_guarded [OF assms(2) f(2) assms(4,5)]
      ban_other_family(1) [OF f(1), of "''ip6''"] ban_other_family(1) [OF f(2), of "''ip''"] assms(3,4)
    by (cases ip_net) fastforce+
  show "\<exists>n'. unban_rule api (tables_of nf ip_net) ipaddr n = (Inr (), n') \<and> good n' \<and>
      guarded (nf_ipv4_tables nf) v4 (rules ''ip'' n') \<and> guarded (nf_ipv6_tables nf) v6 (rules ''ip6'' n')"
    using ip.unban_rule_guarded [OF assms(2) f(1) assms(3,5)] ip6.unban_rule_guarded [OF assms(2) f(2) assms(4,5)]
      ban_other_family(2) [OF f(1), of "''ip6''"] ban_other_family(2) [OF f(2), of "''ip''"] assms(3,4)
    by (cases ip_net) fastforce+
qed

text \<open>What keeps the state between two events.\<close>

lemma store_step:
  "(\<And>s. sgood s \<Longrightarrow> sgood (snd (m s))) \<Longrightarrow> preserves (running rules good sgood nf v4 v6) (on_hashes m)"
  by (auto simp: preserves_def running_def on_hashes_run)

lemma kernel_step:
  assumes "uses_both api nf" and "ip_network_of ipaddr False = Some net"
  shows "preserves (running rules good sgood nf v4 v6) (on_kernel (ban_rule api (tables_of nf ip_net) ipaddr))"
    and "preserves (running rules good sgood nf v4 v6) (on_kernel (unban_rule api (tables_of nf ip_net) ipaddr))"
  using ban_both [OF assms(1) _ _ _ assms(2), of _ v4 v6 ip_net]
  by (fastforce simp: preserves_def running_def on_kernel_run)+

lemma set_ban_step:
  assumes "ip_network_of net True = Some ip" and "ip_network_of net False = Some ip"
  shows "preserves (running rules good sgood nf v4 v6) (set_ban net b)"
  using assms by (auto simp: preserves_def running_def)

lemma ban_network_step:
  assumes "uses_both api nf" and "nf_store nf = ops" and "ip_network_of s strict = Some net"
  shows "preserves (running rules good sgood nf v4 v6) (ban_network nf now net)"
proof -
  note prints = ip_network_prints_back [OF assms(3)]
  have api: "nf_api nf = api" using assms(1) by (simp add: uses_both_def)
  have "preserves (running rules good sgood nf v4 v6) (on_hashes (s_hset ops ''F2B_ACTIVE_BANS'' x (PInt y) None))"
    for x y by (rule store_step) (simp add: store.hset_good)
  then show ?thesis
    unfolding ban_network_def Let_def api assms(2) run_unit_def
    by (auto intro!: preserves_intros set_ban_step [OF prints prints] kernel_step [OF assms(1) prints])
qed

lemma ban_address_step:
  assumes "uses_both api nf" and "nf_store nf = ops"
  shows "preserves (running rules good sgood nf v4 v6) (ban_address nf now addr)"
  unfolding ban_address_def
  by (auto intro!: preserves_intros preserves_network_bind ban_network_step [OF assms] split: option.split)

lemma unban_returns:
  assumes "uses_both api nf" and "nf_store nf = ops" and "running rules good sgood nf v4 v6 w"
  shows "\<exists>w'. unban nf net w = (Inr (), w') \<and> running rules good sgood nf v4 v6 w'"
proof (cases "map_of (fb_bans w) net")
  case None
  have "sgood (fb_store w)" using assms(3) by (simp add: running_def)
  then obtain i t where "s_hdel ops ''F2B_QUEUE_UNBAN'' [net] (fb_store w) = (Inr i, t)" "sgood t"
    using store.hdel_run by blast
  with None assms(2,3) show ?thesis
    by (simp add: unban_def run_unit_def bindM_def on_hashes_run running_def)
next
  case (Some b)
  have api: "nf_api nf = api" using assms(1) by (simp add: uses_both_def)
  note r = assms(3) [unfolded running_def]
  obtain ip where ip: "ip_network_of net True = Some ip" "ip_network_of net False = Some ip"
    using r Some by blast
  obtain k where k: "unban_rule api (tables_of nf ip) net (fb_kernel w) = (Inr (), k)" "good k"
    "guarded (nf_ipv4_tables nf) v4 (rules ''ip'' k)" "guarded (nf_ipv6_tables nf) v6 (rules ''ip6'' k)"
    using ban_both(2) [OF assms(1) _ _ _ ip(2)] r by blast
  obtain i s1 where s1: "s_hdel ops ''F2B_ACTIVE_BANS'' [net] (fb_store w) = (Inr i, s1)" "sgood s1"
    using store.hdel_run r by blast
  obtain j s2 where s2: "s_hdel ops ''F2B_QUEUE_UNBAN'' [net] s1 = (Inr j, s2)" "sgood s2"
    using store.hdel_run [OF s1(2)] by blast
  let ?w = "w\<lparr>fb_kernel := k, fb_store := s2, fb_bans := dict_set net
      (b\<lparr>attempts := 0, ban_counter := ban_counter b + 1\<rparr>) (fb_bans w)\<rparr>"
  have "unban nf net w = (Inr (), ?w)"
    using k(1) s1(1) s2(1)
    by (simp add: unban_def Some network_ret [OF ip(1)] seqM_def bindM_def run_unit_def on_kernel_run
        on_hashes_run api assms(2))
  moreover have "running rules good sgood nf v4 v6 ?w" using r k(2-4) s2(2) ip by (simp add: running_def)
  ultimately show ?thesis by blast
qed

lemma unban_step:
  assumes "uses_both api nf" and "nf_store nf = ops"
  shows "preserves (running rules good sgood nf v4 v6) (unban nf net)"
  using unban_returns [OF assms] unfolding preserves_def by (metis snd_conv)

lemma perm_ban_step:
  assumes "uses_both api nf" and "nf_store nf = ops"
  shows "preserves (running rules good sgood nf v4 v6) (perm_ban nf now net unbanning)"
proof -
  have api: "nf_api nf = api" using assms(1) by (simp add: uses_both_def)
  have "preserves (running rules good sgood nf v4 v6) (on_hashes (s_hset ops k x (PInt y) None))"
    "preserves (running rules good sgood nf v4 v6) (on_hashes (s_hdel ops k [x]))" for k x y
    by (rule store_step, simp add: store.hset_good store.hdel_good)+
  then show ?thesis
    unfolding perm_ban_def api assms(2) run_unit_def
    by (auto intro!: preserves_intros preserves_network_bind kernel_step [OF assms(1)] split: prod.split)
qed

lemma hgetall_step: "preserves (running rules good sgood nf v4 v6) (on_hashes (s_hgetall ops k))"
  by (rule store_step) (simp add: store.hgetall_good)

lemma task_step:
  assumes "uses_both api (sc_netfilter cfg)" and "nf_store (sc_netfilter cfg) = ops"
    and "sc_snat4 cfg = None" and "sc_snat6 cfg = None"
  shows "preserves (running rules good sgood (sc_netfilter cfg) v4 v6) (task_round cfg now t)"
proof -
  let ?nf = "sc_netfilter cfg" and ?R = "running rules good sgood (sc_netfilter cfg) v4 v6"
  have order: "preserves ?R (chain_order ?nf)"
    using chain_order_run [OF assms(1)] by (auto simp: preserves_def running_def guarded_def)
  have purge: "preserves ?R (purge_ban ?nf now net)" for net
    by (auto simp: purge_ban_def intro!: preserves_intros unban_step [OF assms(1,2)] split: option.split)
  have autopurge: "preserves ?R (autopurge ?nf now)"
    unfolding autopurge_def assms(2) by (intro preserves_intros purge unban_step [OF assms(1,2)] hgetall_step)
  have white: "preserves ?R (update_whitelist ?nf)"
    unfolding update_whitelist_def assms(2) Let_def
    by (intro preserves_intros hgetall_step preserves_modify) simp
  have black: "preserves ?R (update_blacklist ?nf now)"
    unfolding update_blacklist_def assms(2) Let_def
    by (intro preserves_intros hgetall_step preserves_modify perm_ban_step [OF assms(1,2)]) simp
  have "preserves ?R (snat_round ?nf nt None)" for nt
    by (auto simp: snat_round_def intro: preserves_intros)
  with order autopurge white black show ?thesis using assms(3,4) by (cases t) (auto intro: preserves_intros)
qed

lemma handle_message_step:
  assumes "uses_both api nf" and "nf_store nf = ops"
  shows "preserves (running rules good sgood nf v4 v6) (handle_message nf now message)"
proof -
  have "preserves (running rules good sgood nf v4 v6) (handle_rules nf now message rs)" for rs
    by (induction rs) (auto intro!: preserves_intros ban_address_step [OF assms] split: option.split)
  then show ?thesis by (auto simp: handle_message_def intro: preserves_intros)
qed

lemma handle_step:
  assumes "uses_both api (sc_netfilter cfg)" and "nf_store (sc_netfilter cfg) = ops"
    and "sc_snat4 cfg = None" and "sc_snat6 cfg = None"
    and "running rules good sgood (sc_netfilter cfg) v4 v6 (sv_f2b s)"
  shows "running rules good sgood (sc_netfilter cfg) v4 v6 (sv_f2b (handle cfg now e s))"
  using assms(5) run_task_keeps [OF handle_message_step [OF assms(1,2)]] run_task_keeps [OF task_step [OF assms(1-4)]]
  by (cases e) (auto simp: handle_sigterm_def)

text \<open>A round never stops the service: only the check of the order could, and it succeeds.\<close>

lemma round_goes_on:
  assumes "uses_both api (sc_netfilter cfg)" and "running rules good sgood (sc_netfilter cfg) v4 v6 (sv_f2b s)"
    and "\<not> sv_stop s"
  shows "\<not> sv_stop (handle cfg now (Round t) s)"
proof -
  have "chain_order (sc_netfilter cfg) (sv_f2b s) = (Inr (), sv_f2b s)"
    using chain_order_run [OF assms(1)] assms(2) by (auto simp: running_def guarded_def)
  then show ?thesis
    using assms(3) by (cases t) (auto simp: run_task_def split: prod.split sum.split)
qed

lemma run_events_steps:
  assumes "uses_both api (sc_netfilter cfg)" and "nf_store (sc_netfilter cfg) = ops"
    and "sc_snat4 cfg = None" and "sc_snat6 cfg = None"
    and "list_all (\<lambda>(t, e). e \<noteq> Sigterm) es" and "running rules good sgood (sc_netfilter cfg) v4 v6 (sv_f2b s)"
    and "exit_inv s" and "\<not> sv_clear_before_exit s" and "\<not> sv_stop s"
  shows "running rules good sgood (sc_netfilter cfg) v4 v6 (sv_f2b (run_events cfg es s)) \<and>
    exit_inv (run_events cfg es s) \<and> \<not> sv_clear_before_exit (run_events cfg es s) \<and>
    (sv_stop (run_events cfg es s) \<longrightarrow> (\<exists>t m. (t, Message m) \<in> set es))"
  using assms(5-9)
proof (induction es arbitrary: s)
  case (Cons x es)
  obtain now e where x: "x = (now, e)" by fastforce
  let ?s = "handle cfg now e s"
  have r: "running rules good sgood (sc_netfilter cfg) v4 v6 (sv_f2b ?s)"
    by (rule handle_step [OF assms(1-4) Cons.prems(2)])
  have i: "exit_inv ?s" by (rule service_step_inv [OF service_step.event Cons.prems(3)])
  have c: "\<not> sv_clear_before_exit ?s" using Cons.prems(1,4) by (cases e) (simp_all add: x run_task_clear)
  show ?case
  proof (cases "sv_stop ?s")
    case True
    then have "\<exists>m. e = Message m"
      using round_goes_on [OF assms(1) Cons.prems(2,5)] Cons.prems(1) by (cases e) (auto simp: x)
    with True r i c Cons.prems(5) show ?thesis by (auto simp: x run_events_stopped)
  next
    case False
    from Cons.IH [OF _ r i c False] Cons.prems(1,5) show ?thesis by (auto simp: x)
  qed
qed simp

lemma clear_returns:
  assumes "uses_both api nf" and "nf_store nf = ops" and "running rules good sgood nf v4 v6 w"
  shows "\<exists>w'. clear nf w = (Inr (), w') \<and>
    rules ''ip'' (fb_kernel w') = cleaned (nf_ipv4_tables nf) v4 \<and>
    rules ''ip6'' (fb_kernel w') = cleaned (nf_ipv6_tables nf) v6"
proof -
  obtain u where u: "forM (dict_keys (fb_bans w)) (unban nf) w = (Inr (), u)" "running rules good sgood nf v4 v6 u"
    using forM_returns [where I = "running rules good sgood nf v4 v6" and f = "unban nf", OF assms(3)]
      unban_returns [OF assms(1,2)] by blast
  then have "installed (nf_ipv4_tables nf) v4 (rules ''ip'' (fb_kernel u))"
    "installed (nf_ipv6_tables nf) v6 (rules ''ip6'' (fb_kernel u))" "good (fb_kernel u)"
    by (simp_all add: running_def guarded_def)
  with clear_both [OF assms(1) u(1)] show ?thesis by (auto simp: installed_def)
qed

lemma start_running:
  assumes "uses_both api nf" and "nf_store nf = ops" and "good n" and "sgood s"
    and "mail_layout (nf_ipv4_tables nf) (rules ''ip'' n)" and "mail_layout (nf_ipv6_tables nf) (rules ''ip6'' n)"
  shows "\<exists>w. start_netfilter nf (f2b_init s n) = (Inr (), w) \<and>
    running rules good sgood nf (rules ''ip'' n) (rules ''ip6'' n) w"
proof -
  let ?w = "f2b_init s n" and ?I = "\<lambda>w. sgood (fb_store w)"
  have f: "fb_bans ?w = []" "fb_kernel ?w = n" "fb_store ?w = s" by (simp_all add: f2b_init_def)
  obtain w where w: "start_netfilter nf ?w = (Inr (), w)" "fb_bans w = []" "good (fb_kernel w)"
    "guarded (nf_ipv4_tables nf) (rules ''ip'' n) (rules ''ip'' (fb_kernel w))"
    "guarded (nf_ipv6_tables nf) (rules ''ip6'' n) (rules ''ip6'' (fb_kernel w))"
    using start_netfilter_run [OF assms(1) f(1)] assms(3,5,6) unfolding f(2) by blast
  have k: "preserves ?I (on_kernel m)" for m :: "('n, py_exn, 'a) sem"
    by (simp add: preserves_def on_kernel_run)
  have d: "preserves ?I (on_hashes (s_delete ops [x]))" "preserves ?I (on_hashes (s_hdel ops y [x]))" for x y
    by (simp_all add: preserves_def on_hashes_run store.delete_good store.hdel_good)
  have b: "preserves ?I (set_ban net b)" for net b by (simp add: preserves_def)
  have u: "preserves ?I (unban nf net)" for net
    unfolding unban_def assms(2) run_unit_def
    by (auto intro!: preserves_intros preserves_network_bind k d b split: option.split)
  have "preserves ?I (start_netfilter nf)"
    unfolding start_netfilter_def clear_def assms(2) run_unit_def by (intro preserves_intros k d u)
  from preservesD [OF this w(1)] have "sgood (fb_store w)" using assms(4) f(3) by simp
  with w show ?thesis by (auto simp: running_def)
qed

end

interpretation ruleset_program:
  netfilter_program ruleset_cmd ruleset_rules ruleset_good "memory_ops now" memory_view "memory_good now" for now
  by (intro netfilter_program.intro ruleset_families.two_families_axioms memory.hash_store_axioms)

section \<open>From the start to the end\<close>

lemma config_without_snat:
  "env ''SNAT_TO_SOURCE'' = None \<Longrightarrow> env ''SNAT6_TO_SOURCE'' = None \<Longrightarrow>
   service_config_from_env env nf = Inr \<lparr>sc_netfilter = nf, sc_snat4 = None, sc_snat6 = None\<rparr>"
  by (simp add: service_config_from_env_def snat_target_def getenv_def)

lemma run_events_append: "run_events cfg (es @ es') s = run_events cfg es' (run_events cfg es s)"
  by (induction cfg es s rule: run_events.induct) (auto simp: run_events_stopped)

text \<open>
  C6. Without a source NAT, on any ruleset in which only its own rules jump to its chains, whatever messages
  and rounds come between its start and a SIGTERM, the program ends. With exit code 0 its chains and rules,
  bans included, are gone from both families and every other rule is where it was; with exit code 2, when a
  message stopped the service before the SIGTERM, its rules are still there and first.
\<close>
theorem netfilter_main_ends:
  assumes "netfilter_program api rules good ops view sgood" and "good n" and "sgood s"
    and "netfilter_from_env ops api resolve env n = (Inr nf, n)"
    and "mail_layout (nf_ipv4_tables nf) (rules ''ip'' n)" and "mail_layout (nf_ipv6_tables nf) (rules ''ip6'' n)"
    and "env ''SNAT_TO_SOURCE'' = None" and "env ''SNAT6_TO_SOURCE'' = None"
    and "list_all (\<lambda>(t, e). e \<noteq> Sigterm) es"
  shows "\<exists>w. netfilter_main ops api resolve env (es @ (now, Sigterm) # later) (f2b_init s n) = (Inr (Some 0), w) \<and>
      rules ''ip'' (fb_kernel w) = cleaned (nf_ipv4_tables nf) (rules ''ip'' n) \<and>
      rules ''ip6'' (fb_kernel w) = cleaned (nf_ipv6_tables nf) (rules ''ip6'' n) \<or>
    netfilter_main ops api resolve env (es @ (now, Sigterm) # later) (f2b_init s n) = (Inr (Some 2), w) \<and>
      (\<exists>t m. (t, Message m) \<in> set es) \<and>
      installed (nf_ipv4_tables nf) (rules ''ip'' n) (rules ''ip'' (fb_kernel w)) \<and>
      installed (nf_ipv6_tables nf) (rules ''ip6'' n) (rules ''ip6'' (fb_kernel w))"
proof -
  note prog = assms(1)
  let ?R = "running rules good sgood nf (rules ''ip'' n) (rules ''ip6'' n)"
  let ?cfg = "\<lparr>sc_netfilter = nf, sc_snat4 = None, sc_snat6 = None\<rparr>" and ?es = "es @ (now, Sigterm) # later"
  have b: "uses_both api nf" "nf_store nf = ops" using from_env_uses_both [OF assms(4)] by simp_all
  obtain w where w: "start_netfilter nf (f2b_init s n) = (Inr (), w)" "?R w"
    using netfilter_program.start_running [OF prog b assms(2,3,5,6)] by blast
  have main: "netfilter_main ops api resolve env ?es (f2b_init s n) = serve_until_stop ?cfg ?es w"
    using w(1) assms(4) config_without_snat [OF assms(7,8), of nf]
    by (simp add: netfilter_main_def bindM_def seqM_def on_kernel_run f2b_init_def)
  let ?s = "run_events ?cfg es (service_start w)"
  have start: "exit_inv (service_start w)" "\<not> sv_clear_before_exit (service_start w)" "\<not> sv_stop (service_start w)"
    "?R (sv_f2b (service_start w))"
    using w(2) by (simp_all add: service_start_def exit_inv_def)
  have t: "?R (sv_f2b ?s)" "exit_inv ?s" "\<not> sv_clear_before_exit ?s"
    "sv_stop ?s \<Longrightarrow> \<exists>t m. (t, Message m) \<in> set es"
    using netfilter_program.run_events_steps [OF prog, of ?cfg es "rules ''ip'' n" "rules ''ip6'' n" "service_start w",
        OF _ _ _ _ assms(9) _ start(1-3)] b start(4)
    by simp_all
  show ?thesis
  proof (cases "sv_stop ?s")
    case True
    then have "serve_until_stop ?cfg ?es w = (Inr (Some 2), sv_f2b ?s)"
      using t(2,3) by (simp add: serve_until_stop_def run_events_append run_events_stopped before_exit_def exit_inv_def)
    with True t(1,4) show ?thesis unfolding main by (auto simp: running_def guarded_def)
  next
    case False
    then have e: "run_events ?cfg ?es (service_start w) = handle_sigterm ?s" and x: "sv_exit_code ?s = 0"
      using t(2) by (auto simp: run_events_append run_events_stopped handle_sigterm_def exit_inv_def)
    obtain v where v: "clear nf (sv_f2b ?s) = (Inr (), v)"
      "rules ''ip'' (fb_kernel v) = cleaned (nf_ipv4_tables nf) (rules ''ip'' n)"
      "rules ''ip6'' (fb_kernel v) = cleaned (nf_ipv6_tables nf) (rules ''ip6'' n)"
      using netfilter_program.clear_returns [OF prog b t(1)] by blast
    have "serve_until_stop ?cfg ?es w = (Inr (Some 0), v)"
      unfolding serve_until_stop_def e using v(1) x by (simp add: before_exit_def handle_sigterm_def)
    with v(2,3) show ?thesis unfolding main by blast
  qed
qed

text \<open>
  An address of the source NAT that is none ends the program outside the part that clears: the exception is
  raised with the chains installed, and they stay.
\<close>
lemma bad_snat_address_leaves_chains:
  assumes "two_families api rules good" and "good n"
    and "netfilter_from_env store api resolve env n = (Inr nf, n)"
    and "mail_layout (nf_ipv4_tables nf) (rules ''ip'' n)"
    and "mail_layout (nf_ipv6_tables nf) (rules ''ip6'' n)"
    and "env ''SNAT_TO_SOURCE'' = Some addr" and "addr \<noteq> []" and "ip_address_of addr = None"
  shows "\<exists>m w. netfilter_main store api resolve env es (f2b_init s n) = (Inl (ValueError m), w) \<and>
    installed (nf_ipv4_tables nf) (rules ''ip'' n) (rules ''ip'' (fb_kernel w)) \<and>
    installed (nf_ipv6_tables nf) (rules ''ip6'' n) (rules ''ip6'' (fb_kernel w))"
proof -
  have f: "fb_bans (f2b_init s n) = []" "fb_kernel (f2b_init s n) = n" by (simp_all add: f2b_init_def)
  obtain w where "start_netfilter nf (f2b_init s n) = (Inr (), w)"
    "installed (nf_ipv4_tables nf) (rules ''ip'' n) (rules ''ip'' (fb_kernel w))"
    "installed (nf_ipv6_tables nf) (rules ''ip6'' n) (rules ''ip6'' (fb_kernel w))"
    using two_families.start_netfilter_run [OF assms(1) conjunct1 [OF from_env_uses_both [OF assms(3)]] f(1)] assms(2,4,5)
    unfolding f(2) guarded_def by blast
  moreover from assms(6-8) have "\<exists>m. service_config_from_env env nf = Inl (ValueError m)"
    by (simp add: service_config_from_env_def snat_target_def getenv_def)
  ultimately show ?thesis
    using f(2) assms(3)
    by (auto simp: netfilter_main_def bindM_def seqM_def on_kernel_run f2b_init_def)
qed

section \<open>Examples\<close>

definition dual_ruleset :: ruleset where
  "dual_ruleset =
     \<lparr>rl_next = 12, rl_chains = rl_chains kernel_ruleset @
       [((''ip6'', ''filter'', ''INPUT''), \<lparr>kc_handle = 8, kc_hook = Some ''input'', kc_prio = Some 0,
          kc_rules = []\<rparr>),
        ((''ip6'', ''filter'', ''FORWARD''), \<lparr>kc_handle = 9, kc_hook = Some ''forward'', kc_prio = Some 0,
          kc_rules = []\<rparr>)]\<rparr>"

lemma dual_ruleset_good: "ruleset_good dual_ruleset"
  by (rule ruleset_goodI)
    (simp_all add: dual_ruleset_def kernel_ruleset_def dict_keys_def chain_ok_def other_rule_def)

definition dual_chains :: "string \<Rightarrow> string \<Rightarrow> string option" where
  "dual_chains = default_chains(''filter'' := (default_chains ''filter'')(''input'' \<mapsto> ''INPUT'', ''forward'' \<mapsto> ''FORWARD''))"

lemma dual_from_env:
  "netfilter_from_env (memory_ops 0) ruleset_cmd resolve Map.empty dual_ruleset = (Inr
     \<lparr>nf_store = memory_ops 0, nf_api = ruleset_cmd,
      nf_ipv4_tables = \<lparr>nt_name = ''MAIL'', nt_comment = ''mail'', nt_family = ''ip'', nt_chains = dual_chains\<rparr>,
      nf_ipv6_tables = \<lparr>nt_name = ''MAIL'', nt_comment = ''mail'', nt_family = ''ip6'', nt_chains = dual_chains\<rparr>,
      nf_resolve = resolve\<rparr>, dual_ruleset)"
  by (simp add: netfilter_from_env_def Let_def init_chains_def list_chains_def run_cmd_def objects_def bindM_def
      dual_ruleset_def kernel_ruleset_def dual_chains_def default_chains_def fun_upd_def cong: if_cong)

lemma dual_layout:
  assumes "nt = \<lparr>nt_name = ''MAIL'', nt_comment = ''mail'', nt_family = f, nt_chains = dual_chains\<rparr>"
    and "f = ''ip'' \<or> f = ''ip6''"
  shows "mail_layout nt (ruleset_rules f dual_ruleset)"
  using assms(2) unfolding mail_layout_def Let_def assms(1)
  by (auto simp: base_chain_def dual_chains_def default_chains_def ruleset_rules_def dual_ruleset_def
      kernel_ruleset_def other_rule_def jumps_to_def split: if_splits)

lemma netfilter_main_ends_witness:
  "\<exists>w. netfilter_main (memory_ops 0) ruleset_cmd (\<lambda>h t. None) Map.empty
      [(10, Round ChainOrder), (20, Round Blacklist), (25, Round Autopurge), (30, Sigterm)]
      (f2b_init [] dual_ruleset) = (Inr (Some 0), w) \<and>
    ruleset_rules ''ip'' (fb_kernel w) ''filter'' ''INPUT'' = Some (1, [other_rule ''INPUT'' 4]) \<and>
    ruleset_rules ''ip'' (fb_kernel w) ''filter'' ''MAIL'' = None"
proof -
  let ?nt = "\<lparr>nt_name = ''MAIL'', nt_comment = ''mail'', nt_family = ''ip'', nt_chains = dual_chains\<rparr>"
  let ?es = "[(10, Round ChainOrder), (20, Round Blacklist), (25, Round Autopurge)]"
  have b: "base_chain ?nt ''filter'' ''input'' = ''INPUT''" "base_chain ?nt ''filter'' ''forward'' = ''FORWARD''"
    by (simp_all add: base_chain_def dual_chains_def)
  have c: "cleaned ?nt (ruleset_rules ''ip'' dual_ruleset) ''filter'' ''INPUT'' = Some (1, [other_rule ''INPUT'' 4])"
    "cleaned ?nt (ruleset_rules ''ip'' dual_ruleset) ''filter'' ''MAIL'' = None"
    by (simp_all add: cleaned_def b ruleset_rules_def dual_ruleset_def kernel_ruleset_def unmarked_def other_rule_def)
  from netfilter_main_ends [OF ruleset_program.netfilter_program_axioms dual_ruleset_good _ dual_from_env,
      of "[]" "\<lambda>h t. None" ?es 30 "[]"]
  obtain w where "netfilter_main (memory_ops 0) ruleset_cmd (\<lambda>h t. None) Map.empty (?es @ [(30, Sigterm)])
      (f2b_init [] dual_ruleset) = (Inr (Some 0), w)"
    "ruleset_rules ''ip'' (fb_kernel w) = cleaned ?nt (ruleset_rules ''ip'' dual_ruleset)"
    by (auto simp: dual_layout memory_good_def)
  with c show ?thesis by (intro exI [of _ w]) simp
qed

end
