(* ===== verification/StoreUrl.thy ===== *)
theory StoreUrl
  imports Registry Password Memcached Redis
begin

text \<open>
  Which store a URL names (src/backend/taramail/store.py): \<open>Store.from_url\<close> looks the scheme up in the
  registry, and the class found takes the host and the port. A store is given here by the arguments of the
  client it makes; the URL is parsed by yarl, and a part that is not there is \<open>None\<close>.
\<close>

record url =
  url_scheme :: string
  url_host :: "string option"
  url_port :: "int option"
  url_password :: "string option"

datatype store_client =
    HashClient "(string \<times> int) list"
  | MemoryRecords
  | RedisClient "string option" "int option" int "string option"

text \<open>\<open>s.rsplit(c, 1)\<close>: the text before and after the last occurrence, if there is one.\<close>

definition rsplit_one :: "char \<Rightarrow> string \<Rightarrow> (string \<times> string) option" where
  "rsplit_one c s = (if c \<in> set s then Some (before_last c s, after_last c s) else None)"

definition parse_server :: "string \<Rightarrow> ('w, py_exn, string \<times> int) sem" where
  "parse_server server =
     (case rsplit_one (CHR '':'') server of
        None \<Rightarrow> throw (ValueError ''not enough values to unpack (expected 2, got 1)'')
      | Some (host, port) \<Rightarrow>
          (case int_of port of
             None \<Rightarrow> throw (ValueError ''invalid literal for int() with base 10'')
           | Some n \<Rightarrow> ret (host, n)))"

definition memcached_from_servers :: "string list \<Rightarrow> ('w, py_exn, store_client) sem" where
  "memcached_from_servers servers = bindM (mapM parse_server servers) (\<lambda>parsed. ret (HashClient parsed))"

text \<open>The text of a value in an f-string; what is not there is printed as \<open>None\<close>.\<close>

definition f_text :: "('a \<Rightarrow> string) \<Rightarrow> 'a option \<Rightarrow> string" where
  "f_text f x = (case x of None \<Rightarrow> ''None'' | Some v \<Rightarrow> f v)"

definition memcached_from_host :: "string option \<Rightarrow> int option \<Rightarrow> ('w, py_exn, store_client) sem" where
  "memcached_from_host host port = memcached_from_servers [f_text id host @ '':'' @ f_text show_int port]"

definition memcached_from_url :: "url \<Rightarrow> ('w, py_exn, store_client) sem" where
  "memcached_from_url u = memcached_from_host (url_host u) (url_port u)"

definition memory_from_url :: "url \<Rightarrow> ('w, py_exn, store_client) sem" where
  "memory_from_url u = ret MemoryRecords"

definition redis_from_host :: "string option \<Rightarrow> int option \<Rightarrow> string option \<Rightarrow> store_client" where
  "redis_from_host host port password = RedisClient host port 0 password"

definition redis_from_url :: "url \<Rightarrow> ('w, py_exn, store_client) sem" where
  "redis_from_url u = ret (redis_from_host (url_host u) (url_port u) (url_password u))"

definition store_from_url ::
  "(string \<Rightarrow> (string \<times> (url \<Rightarrow> ('w, py_exn, store_client) sem)) list) \<Rightarrow>
     (url \<Rightarrow> ('w, py_exn, store_client) sem) registry option \<Rightarrow> url \<Rightarrow> ('w, py_exn, store_client) sem" where
  "store_from_url eps registry u =
     (let r = (case registry of None \<Rightarrow> registry_load eps ''taramail_store'' None | Some r \<Rightarrow> r) in
      case map_of r ''taramail_store'' of
        None \<Rightarrow> throw (KeyError ''taramail_store'')
      | Some g \<Rightarrow>
          (case map_of g (url_scheme u) of
             None \<Rightarrow> throw (KeyError (url_scheme u))
           | Some storage_cls \<Rightarrow> storage_cls u))"

text \<open>The entry points the package installs (src/backend/pyproject.toml).\<close>

definition package_stores :: "string \<Rightarrow> (string \<times> (url \<Rightarrow> ('w, py_exn, store_client) sem)) list" where
  "package_stores grp =
     (if grp = ''taramail_store''
      then [(''memcached'', memcached_from_url), (''memory'', memory_from_url), (''redis'', redis_from_url)]
      else [])"

section \<open>What a URL gives\<close>

lemma rsplit_one_last: "c \<notin> set t \<Longrightarrow> rsplit_one c (s @ c # t) = Some (s, t)"
  by (simp add: rsplit_one_def before_last_def after_last_def)

lemma show_int_no_colon: "CHR '':'' \<notin> set (show_int i)"
  using show_nat_digits [of "nat (- i)"] show_nat_digits [of "nat i"]
  by (auto simp: show_int_def dest: is_digit_facts(5))

text \<open>The last colon separates the port, so a host may have colons of its own, as an IPv6 address has.\<close>

lemma memcached_from_host_run:
  "memcached_from_host (Some host) (Some port) w = (Inr (HashClient [(host, port)]), w)"
  using rsplit_one_last [OF show_int_no_colon, of host port]
  by (simp add: memcached_from_host_def memcached_from_servers_def parse_server_def f_text_def int_of_show_int
      bindM_def)

text \<open>Without a port in the URL the default of \<open>from_host\<close> is not used: \<open>None\<close> is no number.\<close>

lemma memcached_from_url_needs_port:
  assumes "url_port u = None"
  shows "memcached_from_url u w = (Inl (ValueError ''invalid literal for int() with base 10''), w)"
proof -
  have "CHR '':'' \<notin> set ''None''" by simp
  from rsplit_one_last [OF this, of "f_text id (url_host u)"]
  have "rsplit_one (CHR '':'') (f_text id (url_host u) @ '':None'') = Some (f_text id (url_host u), ''None'')"
    by simp
  moreover have "int_of ''None'' = None"
  proof -
    have "strip ''None'' = ''None''" and "\<not> is_digit CHR ''N''" by code_simp+
    then show ?thesis by (simp add: int_of_def Let_def)
  qed
  ultimately show ?thesis
    by (simp add: memcached_from_url_def memcached_from_host_def memcached_from_servers_def parse_server_def
        f_text_def [of show_int] assms bindM_def)
qed

text \<open>With the entry points of the package a URL gives the store of its scheme, and no other scheme is known.\<close>

lemma store_from_url_schemes:
  "store_from_url package_stores None u w =
     (if url_scheme u = ''memory'' then (Inr MemoryRecords, w)
      else if url_scheme u = ''redis'' then (Inr (RedisClient (url_host u) (url_port u) 0 (url_password u)), w)
      else if url_scheme u = ''memcached'' then memcached_from_url u w
      else (Inl (KeyError (url_scheme u)), w))"
proof -
  have r: "registry_load package_stores ''taramail_store'' None = [(''taramail_store'',
      [(''memcached'', memcached_from_url), (''memory'', memory_from_url), (''redis'', redis_from_url)])]"
    by (simp add: registry_load_def package_stores_def registry_add_def)
  show ?thesis
    unfolding store_from_url_def option.case r Let_def
    by (simp add: memory_from_url_def redis_from_url_def redis_from_host_def)
qed

end
