(* ===== verification/Spec2Isabelle.thy ===== *)
theory Spec2Isabelle
  imports Registry Socketmap Dmarc Api Memcached Logger Exporter Dockerapi Cli QuarantineNotify
    NginxBootstrap Migrate Restart Production Db NetfilterRun StoreUrl
begin

text \<open>
  TaraMail is the backend of a mail server: managers that keep the domains, mailboxes, aliases,
  transports and keys of the server in a SQL database and a key-value store, an HTTP API over them, and
  services that run beside Postfix, Dovecot, Rspamd and SOGo. This development models its Python code,
  under src/backend/taramail/ where no other path is given, one theory per part:

  \<^item> Prelude, PyStr, Bytes, Exceptions: programs with a state and exceptions (\<open>sem\<close>), dictionaries in
    insertion order, tables as lists of rows, the operations of Python on text and bytes, the exceptions.
  \<^item> Store (store.py): the interface of the key-value store as the locale \<open>hash_store\<close>, and
    \<open>MemoryStore\<close>, which keeps it. Every manager that uses a store is proved against the locale.
    Json (the printer and parser of the module json, with the round trip), Memcached and Redis (store.py):
    \<open>MemcachedStore\<close> and \<open>RedisStore\<close> over the contracts of their servers, the locales
    \<open>memcached_server\<close> and \<open>redis_server\<close>; the second gives \<open>hash_store\<close> (a sublocale), so that what is
    proved of a manager holds in production. StoreUrl (store.py): the store that a URL names.
  \<^item> Models, World (models.py, db.py, http.py): the rows, sessions without autoflush (what a
    statement reads and what a flush will write), transactions, which roll back the database but not
    the store, and requests to the docker API.
  \<^item> Registry (registry.py), Email (email.py, schemas.py), Base64, Dkim (dkim.py), Password
    (password.py), Auth (auth.py), Relayhost (relayhost.py), Transport (transport.py), Domain
    (domain.py), Sogo (views.py, sogo.py), Alias (alias.py), Mailbox (mailbox.py): the managers, each
    operation with its checks in the order of the code and an exception for each error.
  \<^item> Api (api.py): the endpoints as programs over the managers, and the replies for exceptions.
    Cli (cli.py): the client, whose parser is built from the document of the API.
  \<^item> Rspamd, RspamdMaps, RspamdSettings (rspamd.py): the expansion of aliases, blind copies, the maps on
    disk and the settings that Rspamd reads.
  \<^item> Socketmap (socketmap.py): the server that Postfix asks for relay domains, on the bytes of a
    connection. DmarcXml, Dmarc (dmarc.py): reading, storing and counting reports.
  \<^item> Ipaddress, Ipaddress6, Spf (spf.py), ForwardingHost (forwarding_host.py): addresses as Python's
    ipaddress reads and prints them, with the round trip of both versions, the resolution of SPF records,
    and the hosts found.
  \<^item> Nft, NftKernel, NftTables, Regex, Netfilter, Bans, NetfilterService, NetfilterMain, NetfilterRun
    (netfilter.py): the rules of the server in the packet filter, whose contract is the locale
    \<open>nft_kernel\<close>; the counting of attempts, bans and unbans over a packet filter and a store
    (\<open>ban_service\<close>); the tasks of the service as a step relation; and the program from its settings
    to its exit code, over a packet filter that keeps the chains of other programs apart
    (\<open>nft_frame\<close>, \<open>two_families\<close>, \<open>netfilter_program\<close>), with an invariant of all rounds.
  \<^item> Dockerapi (dockerapi.py), Exporter (exporter.py), Logger (logger.py): the service in front of the
    Docker daemon, the checks for Prometheus, the formatters and the context of log messages.
  \<^item> Restart (http.py, dockerapi.py), Production (deps.py, api.py): parts together, the managers with the
    Docker service and the managers over Redis as the service makes them. Db (db.py): the URL of the database
    and replacing a row.
  \<^item> QuotaNotify, QuarantineNotify (src/dovecot/), NginxBootstrap (src/nginx/): the scripts that send
    notifications and the one that writes the configuration of nginx.
  \<^item> Schema, Migrations, ModelTables, Migrate (src/backend/alembic/versions/, models.py): what a server
    does with the statements that change a schema, the upgrade and downgrade of every revision as lists
    of statements, the tables of the models, and the schemas that the migrations pass through
    (\<open>schema_0\<close> to \<open>schema_12\<close>, one after each revision).

  What the properties show: each operation of a manager does what its documentation says on every
  branch (functional properties), the operations keep the limits of a domain, the keys of the tables
  and the agreement of credentials (invariants, bounds), deleting a mailbox, a domain or a key leaves
  nothing of it in any table or hash (safety), what is written can be read back (round trips), the
  resolution of SPF ends exactly when no chain of references is endless, bans start, spare and end as
  configured, the expansion of aliases finds the mailbox that a search finds, the counters of reports
  follow the database, up to the first negative count of a report, the answers of the socket server
  follow its protocol, the ban service leaves the chains of other programs alone and takes its own with
  it when it ends, the migrations end in the tables of the models and can be undone. Some compose parts:
  a message that the API publishes is read by the ban service, the API lets a login through exactly when
  the managers accept it, and a new domain restarts the containers of SOGo once. Where the code does
  something else than it means to, the property states what it does.

  Parameters stand for code that is not in the repository: DNS, bcrypt, RSA, the idna package,
  pydantic's address check and coercions, nftables, Docker, the servers of mail, MySQL, the
  clients of Redis and memcached, the parsers of mail and XML, templates, argparse, floats and the clock. The bound on nested
  calls in Spf stands for Python's recursion limit; the theorem on termination shows that, for the records
  with a result, every bound from some number on gives it. The expansion of aliases has the bound of the code.
  The loops that wait for a server run over the list of its answers; without a good answer they do not end.

  Not modelled: the engine of the database and the opening of sessions; routing, validation and the injection
  of dependencies, which belong to FastAPI; log messages; argument parsing of the entry points and the loop
  of the socket server, whose connections are modelled one by one; the templates; the set-up of Alembic
  (env.py); whether an integer key is filled automatically; the tests and their helpers. Concurrent
  transactions are out of scope: an operation runs alone.
\<close>

end
